(* ===== verification/Prelude.thy ===== *)
theory Prelude
  imports Main
begin

text \<open>
  What every component of the development shares: the names of the Rust machine integers
  and their saturating and casting operations, \<open>Result\<close> values, hash maps with an
  iteration order, ASCII text functions of \<open>str\<close>, and the collections of facts the
  component theories put their lemmas in.

  Machine integers are kept as \<open>int\<close> (signed) and \<open>nat\<close> (unsigned); wherever the
  source saturates, casts or could overflow, the operation below writes the width out.
\<close>

section \<open>Collections of facts\<close>

named_theorems step_simps \<open>defining equations of operations that are unfolded together\<close>
named_theorems inv_intros \<open>preservation lemmas of the components' invariants\<close>
named_theorems frame_simps \<open>what an operation leaves unchanged\<close>

section \<open>Machine integers\<close>

type_synonym i64 = int
type_synonym i32 = int
type_synonym u64 = nat
type_synonym u32 = nat

definition i64_max :: i64 where "i64_max = 9223372036854775807"
definition i64_min :: i64 where "i64_min = -9223372036854775808"
definition u64_max :: u64 where "u64_max = 18446744073709551615"

text \<open>\<open>i64::saturating_sub\<close>, \<open>saturating_mul\<close>: the exact result clamped to the width.\<close>

definition sat_i64 :: "int \<Rightarrow> i64" where
  "sat_i64 x = max i64_min (min i64_max x)"

definition sat_sub :: "i64 \<Rightarrow> i64 \<Rightarrow> i64" where
  "sat_sub a b = sat_i64 (a - b)"

definition sat_mul :: "i64 \<Rightarrow> i64 \<Rightarrow> i64" where
  "sat_mul a b = sat_i64 (a * b)"

definition sat_mul_i32 :: "i32 \<Rightarrow> i32 \<Rightarrow> i32" where
  "sat_mul_i32 a b = max (-2147483648) (min 2147483647 (a * b))"

text \<open>\<open>u64::saturating_add(1)\<close> and \<open>u64::saturating_sub\<close>.\<close>

definition sat_inc :: "u64 \<Rightarrow> u64" where
  "sat_inc n = (if n < u64_max then Suc n else n)"

definition sat_subu :: "u64 \<Rightarrow> u64 \<Rightarrow> u64" where
  "sat_subu a b = a - b"

text \<open>\<open>x as u64\<close> of an \<open>i64\<close> and \<open>x as i64\<close> of a \<open>u64\<close>: two's complement
  reinterpretation; wrapping \<open>i64\<close> addition (a release build does not trap).\<close>

definition as_u64 :: "i64 \<Rightarrow> u64" where
  "as_u64 x = nat (x mod 18446744073709551616)"

definition as_i64 :: "int \<Rightarrow> i64" where
  "as_i64 x = (x + 9223372036854775808) mod 18446744073709551616 - 9223372036854775808"

text \<open>\<open>i64::try_from(u64).unwrap_or(i64::MAX)\<close>.\<close>

definition i64_of_u64_sat :: "u64 \<Rightarrow> i64" where
  "i64_of_u64_sat n = (if int n \<le> i64_max then int n else i64_max)"

text \<open>Rust's \<open>/\<close> and \<open>%\<close> on signed integers truncate towards zero.\<close>

definition trunc_div :: "int \<Rightarrow> int \<Rightarrow> int" where
  "trunc_div a b = sgn a * sgn b * (\<bar>a\<bar> div \<bar>b\<bar>)"

definition trunc_rem :: "int \<Rightarrow> int \<Rightarrow> int" where
  "trunc_rem a b = a - b * trunc_div a b"

lemma sat_i64_id [simp]: "i64_min \<le> x \<Longrightarrow> x \<le> i64_max \<Longrightarrow> sat_i64 x = x"
  by (simp add: sat_i64_def)

lemma sat_i64_bounds: "i64_min \<le> sat_i64 x" "sat_i64 x \<le> i64_max"
  by (simp_all add: sat_i64_def i64_min_def i64_max_def)

lemma sat_i64_mono: "x \<le> y \<Longrightarrow> sat_i64 x \<le> sat_i64 y"
  by (auto simp: sat_i64_def)

lemma as_u64_nonneg: "0 \<le> x \<Longrightarrow> x \<le> i64_max \<Longrightarrow> as_u64 x = nat x"
  by (simp add: as_u64_def i64_max_def)

lemma as_u64_neg: "i64_min \<le> x \<Longrightarrow> x < 0 \<Longrightarrow> as_u64 x = nat (x + 18446744073709551616)"
proof -
  assume a: "i64_min \<le> x" "x < 0"
  have "x mod 18446744073709551616 = (x + 18446744073709551616) mod 18446744073709551616"
    by simp
  also have "\<dots> = x + 18446744073709551616"
    using a by (intro mod_pos_pos_trivial) (auto simp: i64_min_def)
  finally show ?thesis by (simp add: as_u64_def)
qed

lemma as_i64_id: "i64_min \<le> x \<Longrightarrow> x \<le> i64_max \<Longrightarrow> as_i64 x = x"
  by (simp add: as_i64_def i64_min_def i64_max_def)

lemma trunc_rem_pos: "0 \<le> a \<Longrightarrow> 0 < b \<Longrightarrow> trunc_rem a b = a mod b"
  by (cases "a = 0") (auto simp: trunc_rem_def trunc_div_def minus_mult_div_eq_mod)

lemma trunc_rem_zero_iff: "0 < b \<Longrightarrow> trunc_rem a b = 0 \<longleftrightarrow> b dvd a"
proof -
  assume b: "0 < b"
  have eq: "trunc_rem a b = sgn a * (\<bar>a\<bar> mod b)"
    using b by (simp add: trunc_rem_def trunc_div_def minus_mult_div_eq_mod [symmetric] sgn_if
        algebra_simps split: if_splits)
  show ?thesis
    unfolding eq by (auto simp: sgn_if dvd_eq_mod_eq_0 [symmetric])
qed

section \<open>Results\<close>

text \<open>\<open>Result<T, E>\<close> is \<open>'e + 'a\<close>: \<open>Inr\<close> is \<open>Ok\<close>, \<open>Inl\<close> is \<open>Err\<close>; \<open>?\<close> is
  \<open>res_bind\<close>.\<close>

abbreviation Ok :: "'a \<Rightarrow> 'e + 'a" where "Ok \<equiv> Inr"
abbreviation Err :: "'e \<Rightarrow> 'e + 'a" where "Err \<equiv> Inl"

definition res_bind :: "'e + 'a \<Rightarrow> ('a \<Rightarrow> 'e + 'b) \<Rightarrow> 'e + 'b" where
  "res_bind r f = (case r of Inl e \<Rightarrow> Inl e | Inr x \<Rightarrow> f x)"

lemma res_bind_simps [simp]:
  "res_bind (Ok x) f = f x"
  "res_bind (Err e) f = Err e"
  by (simp_all add: res_bind_def)

lemma res_bind_Ok_iff: "res_bind r f = Ok y \<longleftrightarrow> (\<exists>x. r = Ok x \<and> f x = Ok y)"
  by (cases r) simp_all

lemma res_bind_OkE:
  assumes "res_bind r f = Ok y"
  obtains x where "r = Ok x" and "f x = Ok y"
  using assms by (auto simp: res_bind_Ok_iff)

section \<open>Hash maps with an iteration order\<close>

text \<open>
  Where the source iterates a \<open>HashMap\<close>, it is an association list with distinct keys
  whose order stands for the unspecified iteration order; \<open>entry(k).or_insert(0) += 1\<close>
  is \<open>count_up\<close>.
\<close>

fun count_up :: "'k \<Rightarrow> ('k \<times> nat) list \<Rightarrow> ('k \<times> nat) list" where
  "count_up k [] = [(k, 1)]"
| "count_up k ((k', n) # m) = (if k = k' then (k', Suc n) # m else (k', n) # count_up k m)"

definition count_of :: "('k \<times> nat) list \<Rightarrow> 'k \<Rightarrow> nat" where
  "count_of m k = (case map_of m k of None \<Rightarrow> 0 | Some n \<Rightarrow> n)"

lemma keys_count_up: "fst ` set (count_up k m) = insert k (fst ` set m)"
  by (induction k m rule: count_up.induct) auto

lemma distinct_count_up [simp]:
  "distinct (map fst m) \<Longrightarrow> distinct (map fst (count_up k m))"
proof (induction k m rule: count_up.induct)
  case (2 k k' n m)
  then show ?case using keys_count_up [of k m] by auto
qed simp

lemma count_of_Nil [simp]: "count_of [] k = 0"
  by (simp add: count_of_def)

lemma count_of_Cons: "count_of ((k', n) # m) k = (if k = k' then n else count_of m k)"
  by (simp add: count_of_def)

lemma count_of_count_up [simp]:
  "count_of (count_up k m) k' = (if k' = k then Suc (count_of m k) else count_of m k')"
  by (induction k m rule: count_up.induct) (auto simp: count_of_Cons)

text \<open>The sum of the counters whose key satisfies a predicate, as the reports compute it.\<close>

definition sum_where :: "('k \<Rightarrow> bool) \<Rightarrow> ('k \<times> nat) list \<Rightarrow> nat" where
  "sum_where p m = sum_list (map snd (filter (p \<circ> fst) m))"

lemma sum_where_Nil [simp]: "sum_where p [] = 0"
  by (simp add: sum_where_def)

lemma sum_where_count_up [simp]:
  "sum_where p (count_up k m) = (if p k then Suc (sum_where p m) else sum_where p m)"
  by (induction k m rule: count_up.induct) (auto simp: sum_where_def)

section \<open>Lists\<close>

lemma set_map_filter_iff: "y \<in> set (List.map_filter f xs) \<longleftrightarrow> (\<exists>x\<in>set xs. f x = Some y)"
  by (induction xs) (auto simp: map_filter_simps split: option.splits)

section \<open>Text\<close>

text \<open>
  \<open>String\<close> and \<open>&str\<close> are \<open>string\<close>; a \<open>char\<close> is a byte, and the functions below
  are the ASCII ones the source calls.
\<close>

definition is_ascii_alphanumeric :: "char \<Rightarrow> bool" where
  "is_ascii_alphanumeric c =
     (let n = of_char c :: nat in
      (48 \<le> n \<and> n \<le> 57) \<or> (65 \<le> n \<and> n \<le> 90) \<or> (97 \<le> n \<and> n \<le> 122))"

definition ascii_lower :: "char \<Rightarrow> char" where
  "ascii_lower c =
     (let n = of_char c :: nat in if 65 \<le> n \<and> n \<le> 90 then char_of (n + 32) else c)"

definition to_ascii_lowercase :: "string \<Rightarrow> string" where
  "to_ascii_lowercase = map ascii_lower"

definition is_whitespace :: "char \<Rightarrow> bool" where
  "is_whitespace c = (let n = of_char c :: nat in n = 32 \<or> (9 \<le> n \<and> n \<le> 13))"

definition trim :: "string \<Rightarrow> string" where
  "trim s = rev (dropWhile is_whitespace (rev (dropWhile is_whitespace s)))"

lemma ascii_lower_idem [simp]: "ascii_lower (ascii_lower c) = ascii_lower c"
proof -
  have "(of_char (char_of (n + 32)) :: nat) = n + 32" if "n \<le> 90" for n :: nat
    using that by (simp add: of_char_of)
  then show ?thesis by (auto simp: ascii_lower_def Let_def)
qed

lemma to_ascii_lowercase_idem [simp]:
  "to_ascii_lowercase (to_ascii_lowercase s) = to_ascii_lowercase s"
  by (simp add: to_ascii_lowercase_def comp_def)

lemma filter_dropWhile_irrelevant:
  assumes "\<And>c. p c \<Longrightarrow> \<not> q c"
  shows "filter q (dropWhile p xs) = filter q xs"
  using assms by (induction xs) auto

lemma not_whitespace_alnum: "is_whitespace c \<Longrightarrow> \<not> is_ascii_alphanumeric c"
  by (auto simp: is_whitespace_def is_ascii_alphanumeric_def Let_def)

lemma filter_alnum_trim:
  "filter is_ascii_alphanumeric (trim s) = filter is_ascii_alphanumeric s"
  by (simp add: trim_def filter_dropWhile_irrelevant not_whitespace_alnum rev_filter [symmetric])

text \<open>\<open>to_string\<close> of an integer: its decimal digits.\<close>

fun show_nat :: "nat \<Rightarrow> string" where
  "show_nat n = (if n < 10 then [char_of (48 + n)]
                 else show_nat (n div 10) @ [char_of (48 + n mod 10)])"

declare show_nat.simps [simp del]

definition show_int :: "int \<Rightarrow> string" where
  "show_int k = (if k < 0 then CHR ''-'' # show_nat (nat (- k)) else show_nat (nat k))"

text \<open>Reading the digits back.\<close>

definition digits_value :: "string \<Rightarrow> nat" where
  "digits_value s = foldl (\<lambda>acc c. 10 * acc + (of_char c - 48)) 0 s"

lemma digits_value_append_one:
  "digits_value (s @ [c]) = 10 * digits_value s + (of_char c - 48)"
  by (simp add: digits_value_def)

lemma digit_char: "(k::nat) < 10 \<Longrightarrow> (of_char (char_of (48 + k)) :: nat) = 48 + k"
  by (simp add: of_char_of)

lemma digits_value_show_nat: "digits_value (show_nat n) = n"
proof (induction n rule: show_nat.induct)
  case (1 n)
  show ?case
  proof (cases "n < 10")
    case True
    then have "show_nat n = [] @ [char_of (48 + n)]" by (simp add: show_nat.simps [of n])
    then show ?thesis using True digit_char [of n]
      by (simp only: digits_value_append_one) (simp add: digits_value_def)
  next
    case False
    then have "show_nat n = show_nat (n div 10) @ [char_of (48 + n mod 10)]"
      by (simp add: show_nat.simps [of n])
    then show ?thesis using False 1 digit_char [of "n mod 10"]
      by (simp only: digits_value_append_one) simp
  qed
qed

lemma show_nat_inj: "show_nat a = show_nat b \<Longrightarrow> a = b"
  by (metis digits_value_show_nat)

section \<open>Ordered lists\<close>

abbreviation ascending :: "'a::linorder list \<Rightarrow> bool" where
  "ascending \<equiv> sorted_wrt (<)"

lemma ascending_append_one:
  "ascending xs \<Longrightarrow> (\<forall>x\<in>set xs. x < y) \<Longrightarrow> ascending (xs @ [y])"
  by (simp add: sorted_wrt_append)

text \<open>\<open>Option<i64>\<close> high-water marks: the guard \<open>is_some_and(|last| ts <= last)\<close>.\<close>

definition at_or_before :: "'a::linorder \<Rightarrow> 'a option \<Rightarrow> bool" where
  "at_or_before ts lst = (case lst of None \<Rightarrow> False | Some l \<Rightarrow> ts \<le> l)"

lemma at_or_before_simps [simp]:
  "at_or_before ts None = False"
  "at_or_before ts (Some l) = (ts \<le> l)"
  by (simp_all add: at_or_before_def)

end
