(* ===== verification/F64.thy ===== *)
theory F64
  imports Complex_Main Prelude
begin

text \<open>
  The \<open>f64\<close> of the source: IEEE 754 binary64 with rounding to nearest, ties to even.
  A finite value is the rational it denotes; every arithmetic operation is the exact
  operation followed by \<open>rnd\<close>, which rounds to 53 significant bits, down to the
  subnormals, and overflows to an infinity. The two zeros are one value: the modelled code
  divides only by values it has checked to be nonzero and never reads a zero's sign.
  NaN payloads are not distinguished. The comparisons are the IEEE ones (false on NaN).
\<close>

section \<open>Rounding\<close>

definition pow2 :: "int \<Rightarrow> rat" where
  "pow2 e = 2 powi e"

fun ilog2 :: "nat \<Rightarrow> nat" where
  "ilog2 n = (if n < 2 then 0 else Suc (ilog2 (n div 2)))"

declare ilog2.simps [simp del]

text \<open>The \<open>k\<close> with \<open>pow2 k \<le> q < pow2 (k + 1)\<close>, for positive \<open>q\<close>.\<close>

definition rat_log2 :: "rat \<Rightarrow> int" where
  "rat_log2 q =
     (let (n, d) = quotient_of q;
          k = int (ilog2 (nat n)) - int (ilog2 (nat d))
      in if pow2 k \<le> q then k else k - 1)"

definition round_half_even :: "rat \<Rightarrow> int" where
  "round_half_even x =
     (let f = \<lfloor>x\<rfloor>; d = x - of_int f
      in if d < 1 / 2 then f else if d > 1 / 2 then f + 1 else if even f then f else f + 1)"

text \<open>The exponent of the last bit kept: 53 bits, and not below that of the subnormals.\<close>

definition ulp_exp :: "rat \<Rightarrow> int" where
  "ulp_exp q = max (- 1074) (rat_log2 \<bar>q\<bar> - 52)"

definition rnd_rat :: "rat \<Rightarrow> rat" where
  "rnd_rat q =
     (if q = 0 then 0
      else of_int (round_half_even (q / pow2 (ulp_exp q))) * pow2 (ulp_exp q))"

datatype f64 = NaN | PInf | NInf | Fin rat

definition rnd :: "rat \<Rightarrow> f64" where
  "rnd q =
     (let v = rnd_rat q
      in if 2 ^ 1024 \<le> v then PInf else if v \<le> - (2 ^ 1024) then NInf else Fin v)"

section \<open>Powers of two and logarithms\<close>

lemma pow2_pos [simp]: "0 < pow2 e"
  by (simp add: pow2_def)

lemma pow2_nonneg [simp]: "0 \<le> pow2 e"
  by (simp add: less_imp_le)

lemma pow2_neq_0 [simp]: "pow2 e \<noteq> 0"
  using pow2_pos [of e] by linarith

lemma pow2_0 [simp]: "pow2 0 = 1"
  by (simp add: pow2_def)

lemma pow2_add: "pow2 (a + b) = pow2 a * pow2 b"
  by (simp add: pow2_def power_int_add)

lemma pow2_of_nat: "pow2 (int n) = 2 ^ n"
  by (simp add: pow2_def)

lemma pow2_diff_nat: "pow2 (int a - int b) = 2 ^ a / 2 ^ b"
  by (simp add: pow2_def power_int_diff)

lemma pow2_Suc: "pow2 (e + 1) = 2 * pow2 e"
  by (simp add: pow2_def power_int_add)

lemma pow2_mono: "a \<le> b \<Longrightarrow> pow2 a \<le> pow2 b"
  by (simp add: pow2_def power_int_increasing)

lemma pow2_strict_mono: "a < b \<Longrightarrow> pow2 a < pow2 b"
  by (simp add: pow2_def power_int_strict_increasing)

lemma pow2_less_iff: "pow2 a < pow2 b \<longleftrightarrow> a < b"
  by (meson linorder_not_le pow2_mono pow2_strict_mono)

lemma ilog2_bounds: "0 < n \<Longrightarrow> 2 ^ ilog2 n \<le> n \<and> n < 2 ^ Suc (ilog2 n)"
proof (induction n rule: ilog2.induct)
  case (1 n)
  show ?case
  proof (cases "n < 2")
    case True
    with "1.prems" have "n = 1" by simp
    then show ?thesis using ilog2.simps [of 1] by simp
  next
    case False
    with 1 have "2 ^ ilog2 (n div 2) \<le> n div 2 \<and> n div 2 < 2 ^ Suc (ilog2 (n div 2))" by simp
    with False show ?thesis by (simp add: ilog2.simps [of n]) linarith
  qed
qed

lemma ilog2_bounds_int:
  assumes "0 < n"
  shows "(2::rat) ^ ilog2 (nat n) \<le> of_int n" "of_int n < (2::rat) ^ Suc (ilog2 (nat n))"
proof -
  define k where "k = ilog2 (nat n)"
  have "2 ^ k \<le> nat n" "nat n < 2 ^ Suc k"
    using ilog2_bounds [of "nat n"] assms by (auto simp: k_def)
  then have "(2::int) ^ k \<le> n" "n < 2 ^ Suc k"
    using assms by (simp_all add: le_nat_iff nat_less_iff)
  then show "(2::rat) ^ ilog2 (nat n) \<le> of_int n" "of_int n < (2::rat) ^ Suc (ilog2 (nat n))"
    unfolding k_def by (metis of_int_le_iff of_int_less_iff of_int_numeral of_int_power)+
qed

lemma rat_log2_bounds:
  assumes "0 < q"
  shows "pow2 (rat_log2 q) \<le> q" "q < pow2 (rat_log2 q + 1)"
proof -
  obtain n d where nd: "quotient_of q = (n, d)" by fastforce
  have d: "0 < d" using nd quotient_of_denom_pos by blast
  have q: "q = of_int n / of_int d" using nd quotient_of_div by blast
  with assms d have n: "0 < n" by (simp add: zero_less_divide_iff)
  define a b where "a = ilog2 (nat n)" and "b = ilog2 (nat d)"
  note bnds = ilog2_bounds_int [OF n, folded a_def] ilog2_bounds_int [OF d, folded b_def]
  have d': "(0::rat) < of_int d" using d by simp
  define k where "k = int a - int b"
  have pk: "pow2 k = 2 ^ a / 2 ^ b"
    by (simp add: k_def pow2_diff_nat)
  have up: "q < pow2 (k + 1)"
  proof -
    have "of_int n * 2 ^ b < (2::rat) ^ Suc a * of_int d"
      using bnds d' n by (intro mult_less_le_imp_less) auto
    then show ?thesis unfolding pow2_Suc pk q using d' by (simp add: field_simps)
  qed
  have pk1: "pow2 (k - 1) = 2 ^ a / 2 ^ Suc b"
    using pow2_Suc [of "k - 1"] pk by simp
  have lo: "pow2 (k - 1) \<le> q"
  proof -
    have "2 ^ a * of_int d \<le> of_int n * (2::rat) ^ Suc b"
      using bnds d' n by (intro mult_mono) (auto simp: of_int_nonneg less_imp_le)
    then show ?thesis
      unfolding q pk1 using d' by (simp add: field_simps)
  qed
  have r: "rat_log2 q = (if pow2 k \<le> q then k else k - 1)"
    by (simp add: rat_log2_def nd k_def a_def b_def Let_def)
  show "pow2 (rat_log2 q) \<le> q" "q < pow2 (rat_log2 q + 1)"
    using up lo by (auto simp: r)
qed

lemma rat_log2_unique:
  assumes "pow2 k \<le> q" "q < pow2 (k + 1)"
  shows "rat_log2 q = k"
proof -
  have "0 < q" using assms(1) pow2_pos [of k] by linarith
  then have "pow2 (rat_log2 q) < pow2 (k + 1)" "pow2 k < pow2 (rat_log2 q + 1)"
    using rat_log2_bounds [of q] assms by linarith+
  then show ?thesis by (simp add: pow2_less_iff)
qed

lemma rat_log2_mono: "0 < p \<Longrightarrow> p \<le> q \<Longrightarrow> rat_log2 p \<le> rat_log2 q"
proof -
  assume "0 < p" "p \<le> q"
  then have "pow2 (rat_log2 p) < pow2 (rat_log2 q + 1)"
    using rat_log2_bounds [of p] rat_log2_bounds [of q] by linarith
  then show ?thesis by (simp add: pow2_less_iff)
qed

section \<open>The rounding function\<close>

lemma round_half_even_of_int [simp]: "round_half_even (of_int k) = k"
  by (simp add: round_half_even_def)

lemma round_half_even_near: "\<bar>of_int (round_half_even x) - x\<bar> \<le> 1 / 2"
proof -
  have "of_int \<lfloor>x\<rfloor> \<le> x" "x < of_int \<lfloor>x\<rfloor> + 1" by linarith+
  then show ?thesis unfolding round_half_even_def Let_def by (auto simp: abs_le_iff)
qed

lemma round_half_even_unique: "\<bar>of_int k - x\<bar> < 1 / 2 \<Longrightarrow> round_half_even x = k"
proof -
  assume "\<bar>of_int k - x\<bar> < 1 / 2"
  with round_half_even_near [of x] have "\<bar>of_int (round_half_even x) - of_int k :: rat\<bar> < 1"
    by linarith
  then have "\<bar>round_half_even x - k\<bar> < 1"
    by (metis of_int_1 of_int_abs of_int_diff of_int_less_iff)
  then show ?thesis by linarith
qed

lemma round_half_even_mono: "x \<le> y \<Longrightarrow> round_half_even x \<le> round_half_even y"
proof -
  assume xy: "x \<le> y"
  show ?thesis
  proof (cases "\<lfloor>x\<rfloor> = \<lfloor>y\<rfloor>")
    case True
    then show ?thesis using xy unfolding round_half_even_def Let_def by auto
  next
    case False
    with xy have "\<lfloor>x\<rfloor> + 1 \<le> \<lfloor>y\<rfloor>" using floor_mono [OF xy] by linarith
    moreover have "round_half_even x \<le> \<lfloor>x\<rfloor> + 1" "\<lfloor>y\<rfloor> \<le> round_half_even y"
      unfolding round_half_even_def Let_def by auto
    ultimately show ?thesis by linarith
  qed
qed

lemma round_half_even_minus: "round_half_even (- x) = - round_half_even x"
proof (cases "x \<in> \<int>")
  case True
  then obtain k where "x = of_int k" by (auto elim: Ints_cases)
  then show ?thesis using round_half_even_of_int [of "- k"] by simp
next
  case False
  then have "x \<noteq> of_int \<lfloor>x\<rfloor>" by (metis Ints_of_int)
  then have f: "\<lfloor>- x\<rfloor> = - \<lfloor>x\<rfloor> - 1"
    using ceiling_altdef [of x] by (simp add: ceiling_def split: if_splits)
  show ?thesis unfolding round_half_even_def Let_def f by (auto simp: field_simps)
qed

lemma rnd_rat_0 [simp]: "rnd_rat 0 = 0"
  by (simp add: rnd_rat_def)

lemma rnd_rat_minus: "rnd_rat (- q) = - rnd_rat q"
  by (simp add: rnd_rat_def ulp_exp_def round_half_even_minus)

lemma ulp_exp_mono: "0 < p \<Longrightarrow> p \<le> q \<Longrightarrow> ulp_exp p \<le> ulp_exp q"
  using rat_log2_mono [of p q] by (simp add: ulp_exp_def)

text \<open>Every multiple of the last kept bit is a fixed point of the rounding.\<close>

lemma rnd_rat_multiple: "rnd_rat q = q" if "q = of_int m * pow2 (ulp_exp q)"
proof -
  have "q / pow2 (ulp_exp q) = of_int m" using that by (metis nonzero_mult_div_cancel_right pow2_neq_0)
  then show ?thesis using that by (simp add: rnd_rat_def)
qed

lemma rnd_rat_nonneg: "0 \<le> q \<Longrightarrow> 0 \<le> rnd_rat q"
proof -
  assume "0 \<le> q"
  then have "round_half_even (of_int 0) \<le> round_half_even (q / pow2 (ulp_exp q))"
    by (intro round_half_even_mono) simp
  then have "0 \<le> round_half_even (q / pow2 (ulp_exp q))"
    using round_half_even_of_int [of 0] by simp
  then show ?thesis by (simp add: rnd_rat_def)
qed

lemma rnd_rat_near: "\<bar>rnd_rat q - q\<bar> \<le> pow2 (ulp_exp q) / 2"
proof (cases "q = 0")
  case False
  define u where "u = pow2 (ulp_exp q)"
  have u: "0 < u" by (simp add: u_def)
  have "\<bar>of_int (round_half_even (q / u)) - q / u\<bar> * u \<le> 1 / 2 * u"
    using round_half_even_near [of "q / u"] u by (intro mult_right_mono) auto
  also have "\<bar>of_int (round_half_even (q / u)) - q / u\<bar> * u =
      \<bar>(of_int (round_half_even (q / u)) - q / u) * u\<bar>"
    using u by (simp add: abs_mult)
  also have "(of_int (round_half_even (q / u)) - q / u) * u = rnd_rat q - q"
    using u False by (simp add: rnd_rat_def u_def [symmetric] algebra_simps)
  finally show ?thesis by (simp add: u_def)
qed simp

lemma rnd_rat_le_multiple:
  assumes "0 < q" "q \<le> of_int m * pow2 (ulp_exp q)"
  shows "rnd_rat q \<le> of_int m * pow2 (ulp_exp q)"
proof -
  have "q / pow2 (ulp_exp q) \<le> of_int m" using assms by (simp add: divide_le_eq)
  then have "round_half_even (q / pow2 (ulp_exp q)) \<le> m"
    using round_half_even_mono round_half_even_of_int by metis
  then show ?thesis using assms by (simp add: rnd_rat_def)
qed

lemma rnd_rat_ge_multiple:
  assumes "0 < q" "of_int m * pow2 (ulp_exp q) \<le> q"
  shows "of_int m * pow2 (ulp_exp q) \<le> rnd_rat q"
proof -
  have "of_int m \<le> q / pow2 (ulp_exp q)" using assms by (simp add: le_divide_eq)
  then have "m \<le> round_half_even (q / pow2 (ulp_exp q))"
    using round_half_even_mono round_half_even_of_int by metis
  then show ?thesis using assms by (simp add: rnd_rat_def)
qed

lemma pow2_as_multiple: "e \<le> k \<Longrightarrow> pow2 k = of_int (2 ^ nat (k - e)) * pow2 e"
  using pow2_add [of "k - e" e] pow2_of_nat [of "nat (k - e)"] by simp

lemma rnd_rat_mono_pos:
  assumes p: "0 < p" and pq: "p \<le> q"
  shows "rnd_rat p \<le> rnd_rat q"
proof -
  have q: "0 < q" using assms by linarith
  show ?thesis
  proof (cases "ulp_exp p = ulp_exp q")
    case True
    have "round_half_even (p / pow2 (ulp_exp q)) \<le> round_half_even (q / pow2 (ulp_exp q))"
      using pq by (intro round_half_even_mono divide_right_mono) auto
    then show ?thesis using p q True by (simp add: rnd_rat_def)
  next
    case False
    define L where "L = rat_log2 q"
    have lt: "ulp_exp p < ulp_exp q" using False ulp_exp_mono [OF p pq] by linarith
    then have L: "ulp_exp q = L - 52" using p q by (auto simp: ulp_exp_def L_def)
    have "rat_log2 p + 1 \<le> L"
      using lt L p by (simp add: ulp_exp_def max_def split: if_splits)
    then have pL: "p \<le> pow2 L"
      using rat_log2_bounds(2) [OF p] pow2_mono by (meson less_imp_le order_trans)
    have "rnd_rat p \<le> pow2 L"
      using rnd_rat_le_multiple [OF p, of "2 ^ nat (L - ulp_exp p)"] pL lt L
        pow2_as_multiple [of "ulp_exp p" L] by simp
    also have "pow2 L \<le> rnd_rat q"
      using rnd_rat_ge_multiple [OF q, of "2 ^ nat (L - ulp_exp q)"] rat_log2_bounds(1) [OF q] L
        pow2_as_multiple [of "ulp_exp q" L] by (simp add: L_def)
    finally show ?thesis .
  qed
qed

lemma rnd_rat_mono: "p \<le> q \<Longrightarrow> rnd_rat p \<le> rnd_rat q"
proof -
  assume pq: "p \<le> q"
  consider "0 < p" | "p \<le> 0" "0 \<le> q" | "q < 0" by linarith
  then show ?thesis
  proof cases
    case 1 then show ?thesis using pq by (rule rnd_rat_mono_pos)
  next
    case 2
    then have "rnd_rat p \<le> 0" using rnd_rat_nonneg [of "- p"] by (simp add: rnd_rat_minus)
    also have "0 \<le> rnd_rat q" using 2 by (simp add: rnd_rat_nonneg)
    finally show ?thesis .
  next
    case 3
    then have "rnd_rat (- q) \<le> rnd_rat (- p)" using pq by (intro rnd_rat_mono_pos) auto
    then show ?thesis by (simp add: rnd_rat_minus)
  qed
qed

lemma rnd_rat_exact:
  assumes m: "\<bar>m\<bar> \<le> 2 ^ 53" and e: "- 1074 \<le> e" and q: "q = of_int m * pow2 e"
  shows "rnd_rat q = q"
proof (cases "m = 0")
  case True then show ?thesis by (simp add: q)
next
  case False
  have aq: "\<bar>q\<bar> = of_int \<bar>m\<bar> * pow2 e" by (simp add: q abs_mult)
  then have pos: "0 < \<bar>q\<bar>" using False by simp
  have big: "pow2 (e + 53) = 2 ^ 53 * pow2 e"
    using pow2_add [of e 53] by (simp add: pow2_def)
  show ?thesis
  proof (cases "\<bar>m\<bar> = 2 ^ 53")
    case True
    have "\<bar>q\<bar> = pow2 (e + 53)" using True aq big by simp
    then have "rat_log2 \<bar>q\<bar> = e + 53"
      using pow2_strict_mono [of "e + 53" "e + 53 + 1"] by (intro rat_log2_unique) simp_all
    then have u: "ulp_exp q = e + 1" using e by (simp add: ulp_exp_def)
    have "q = of_int (sgn m * 2 ^ 52) * pow2 (e + 1)"
      using True by (cases "0 < m") (auto simp: q pow2_Suc abs_if split: if_splits)
    then show ?thesis using u by (metis rnd_rat_multiple)
  next
    case False
    with m have "\<bar>m\<bar> < 2 ^ 53" by simp
    then have "of_int \<bar>m\<bar> < (2::rat) ^ 53"
      by (metis of_int_less_iff of_int_numeral of_int_power)
    then have "\<bar>q\<bar> < pow2 (e + 53)" unfolding aq big by (intro mult_strict_right_mono) auto
    then have "pow2 (rat_log2 \<bar>q\<bar>) < pow2 (e + 53)"
      using rat_log2_bounds(1) [OF pos] by linarith
    then have "ulp_exp q \<le> e" using e by (simp add: ulp_exp_def pow2_less_iff)
    then have "q = of_int (m * 2 ^ nat (e - ulp_exp q)) * pow2 (ulp_exp q)"
      using pow2_as_multiple [of "ulp_exp q" e] by (simp add: q)
    then show ?thesis by (rule rnd_rat_multiple)
  qed
qed

lemma rnd_rat_idem: "rnd_rat (rnd_rat q) = rnd_rat q"
proof (cases "q = 0")
  case False
  define u k where "u = ulp_exp q" and "k = round_half_even (q / pow2 u)"
  have r: "rnd_rat q = of_int k * pow2 u" using False by (simp add: rnd_rat_def u_def k_def)
  have "\<bar>q\<bar> < pow2 (rat_log2 \<bar>q\<bar> + 1)" using False by (intro rat_log2_bounds) simp
  also have "\<dots> \<le> pow2 (u + 53)" by (rule pow2_mono) (simp add: u_def ulp_exp_def)
  also have "pow2 (u + 53) = of_int (2 ^ 53) * pow2 u"
    using pow2_add [of u 53] by (simp add: pow2_def)
  finally have "\<bar>q\<bar> / pow2 u \<le> of_int (2 ^ 53)" by (simp add: divide_le_eq)
  then have "q / pow2 u \<le> of_int (2 ^ 53)" "of_int (- (2 ^ 53)) \<le> q / pow2 u"
    by (simp_all add: abs_le_iff divide_le_eq le_divide_eq)
  then have "\<bar>k\<bar> \<le> 2 ^ 53"
    unfolding k_def by (metis abs_le_iff minus_le_iff round_half_even_mono round_half_even_of_int)
  moreover have "- 1074 \<le> u" by (simp add: u_def ulp_exp_def)
  ultimately show ?thesis using r by (intro rnd_rat_exact [of k u]) auto
qed simp

section \<open>Values that are not rounded\<close>

lemma rnd_rat_abs_bound:
  assumes "\<bar>q\<bar> < 2 ^ 1023"
  shows "\<bar>rnd_rat q\<bar> < 2 ^ 1024"
proof -
  have big: "rnd_rat (2 ^ 1023) = 2 ^ 1023"
    using rnd_rat_exact [of 1 1023] pow2_of_nat [of 1023] by simp
  have "rnd_rat q \<le> 2 ^ 1023" "rnd_rat (- q) \<le> 2 ^ 1023"
    using assms rnd_rat_mono [of q "2 ^ 1023"] rnd_rat_mono [of "- q" "2 ^ 1023"]
    unfolding big by (auto simp: abs_less_iff)
  then have "\<bar>rnd_rat q\<bar> \<le> 2 ^ 1023" by (simp add: rnd_rat_minus abs_le_iff)
  also have "(2::rat) ^ 1023 < 2 ^ 1024" by (rule power_strict_increasing) simp_all
  finally show ?thesis .
qed

lemma rnd_Fin: "\<bar>q\<bar> < 2 ^ 1023 \<Longrightarrow> rnd q = Fin (rnd_rat q)"
  using rnd_rat_abs_bound [of q] by (auto simp: rnd_def Let_def abs_less_iff)

lemma rnd_0 [simp]: "rnd 0 = Fin 0"
  by (simp add: rnd_Fin)

lemma rnd_exact:
  assumes m: "\<bar>m\<bar> \<le> 2 ^ 53" and e: "- 1074 \<le> e" "e \<le> 960" and q: "q = of_int m * pow2 e"
  shows "rnd q = Fin q"
proof -
  have "of_int \<bar>m\<bar> \<le> (2::rat) ^ 53"
    using m by (metis of_int_le_iff of_int_numeral of_int_power)
  then have "\<bar>q\<bar> \<le> 2 ^ 53 * pow2 960"
    unfolding q abs_mult using e pow2_mono [of e 960] by (intro mult_mono) auto
  also have "\<dots> = 2 ^ 1013" using pow2_of_nat [of 960] by (simp add: power_add [symmetric])
  also have "(2::rat) ^ 1013 < 2 ^ 1023" by (rule power_strict_increasing) simp_all
  finally show ?thesis using rnd_rat_exact [OF m e(1) q] by (simp add: rnd_Fin)
qed

lemma rnd_of_int: "\<bar>k\<bar> \<le> 2 ^ 53 \<Longrightarrow> rnd (of_int k) = Fin (of_int k)"
  by (rule rnd_exact [of k 0]) auto

text \<open>How closed terms evaluate: integers and dyadic fractions are their own rounding.\<close>

primrec num_pow2 :: "num \<Rightarrow> bool" where
  "num_pow2 num.One = True"
| "num_pow2 (num.Bit0 n) = num_pow2 n"
| "num_pow2 (num.Bit1 n) = False"

lemma num_pow2_ex: "num_pow2 d \<Longrightarrow> \<exists>j. (numeral d :: nat) = 2 ^ j"
proof (induction d)
  case One
  show ?case by (rule exI [of _ 0]) simp
next
  case (Bit0 d)
  then obtain j where "(numeral d :: nat) = 2 ^ j" by auto
  then have "(numeral (num.Bit0 d) :: nat) = 2 ^ Suc j" by (simp add: numeral_Bit0)
  then show ?case by blast
qed simp

lemma rnd_dyadic:
  assumes "\<bar>m\<bar> \<le> 2 ^ 53" "num_pow2 d" "(numeral d :: nat) \<le> 2 ^ 53"
  shows "rnd (of_int m / numeral d) = Fin (of_int m / numeral d)"
proof -
  obtain j where j: "(numeral d :: nat) = 2 ^ j" using assms num_pow2_ex by blast
  then have "(2::nat) ^ j \<le> 2 ^ 53" using assms by simp
  then have "j \<le> 53" by (rule power_le_imp_le_exp [rotated]) simp
  moreover have nd: "(numeral d :: rat) = 2 ^ j" by (metis j of_nat_numeral of_nat_power)
  have "pow2 (- int j) = 1 / 2 ^ j" using pow2_diff_nat [of 0 j] by simp
  then have "of_int m / numeral d = of_int m * pow2 (- int j)" unfolding nd by simp
  ultimately show ?thesis using assms(1) by (intro rnd_exact [of m "- int j"]) auto
qed

lemma rnd_numeral [simp]:
  assumes "(numeral n :: int) \<le> 2 ^ 53"
  shows "rnd (numeral n) = Fin (numeral n)" "rnd (- numeral n) = Fin (- numeral n)"
  using rnd_of_int [of "numeral n"] rnd_of_int [of "- numeral n"] assms
  by (simp_all only: of_int_numeral of_int_neg_numeral abs_numeral abs_neg_numeral)

lemma rnd_one [simp]: "rnd 1 = Fin 1" "rnd (- 1) = Fin (- 1)"
proof -
  have "\<bar>1\<bar> \<le> (2::int) ^ 53" "\<bar>- 1\<bar> \<le> (2::int) ^ 53" by simp_all
  note this [THEN rnd_of_int]
  then show "rnd 1 = Fin 1" "rnd (- 1) = Fin (- 1)" by (simp_all only: of_int_1 of_int_minus)
qed

lemma rnd_fraction [simp]:
  assumes "(numeral n :: int) \<le> 2 ^ 53" "num_pow2 d" "(numeral d :: nat) \<le> 2 ^ 53"
  shows "rnd (numeral n / numeral d) = Fin (numeral n / numeral d)"
    and "rnd (- (numeral n / numeral d)) = Fin (- (numeral n / numeral d))"
proof -
  have num: "\<bar>numeral n\<bar> \<le> (2::int) ^ 53" "\<bar>- numeral n\<bar> \<le> (2::int) ^ 53"
    using assms(1) by (simp_all only: abs_numeral abs_neg_numeral)
  note f = rnd_dyadic [OF _ assms(2,3)]
  show "rnd (numeral n / numeral d) = Fin (numeral n / numeral d)"
    using f [OF num(1)] by (simp only: of_int_numeral)
  show "rnd (- (numeral n / numeral d)) = Fin (- (numeral n / numeral d))"
    using f [OF num(2)] by (simp only: of_int_neg_numeral minus_divide_left)
qed

lemma rnd_unit_fraction [simp]:
  assumes "num_pow2 d" "(numeral d :: nat) \<le> 2 ^ 53"
  shows "rnd (1 / numeral d) = Fin (1 / numeral d)"
    and "rnd (- (1 / numeral d)) = Fin (- (1 / numeral d))"
proof -
  have one: "\<bar>1\<bar> \<le> (2::int) ^ 53" "\<bar>- 1\<bar> \<le> (2::int) ^ 53" by simp_all
  note f = rnd_dyadic [OF _ assms]
  show "rnd (1 / numeral d) = Fin (1 / numeral d)"
    using f [OF one(1)] by (simp only: of_int_1)
  show "rnd (- (1 / numeral d)) = Fin (- (1 / numeral d))"
    using f [OF one(2)] by (simp only: of_int_1 of_int_minus minus_divide_left)
qed

text \<open>Any other closed value is pinned down by its binade and its nearest significand.\<close>

lemma rnd_eqI:
  assumes "pow2 (e + 52) \<le> \<bar>q\<bar>" "\<bar>q\<bar> < pow2 (e + 53)" "- 1074 \<le> e" "e \<le> 960"
    and near: "\<bar>of_int m - q / pow2 e\<bar> < 1 / 2"
  shows "rnd q = Fin (of_int m * pow2 e)"
proof -
  have q0: "q \<noteq> 0" using assms(1) pow2_pos [of "e + 52"] by (metis abs_zero not_le)
  have "rat_log2 \<bar>q\<bar> = e + 52"
    using assms(1,2) by (intro rat_log2_unique) (simp_all add: add.assoc)
  then have "ulp_exp q = e" using assms(3) by (simp add: ulp_exp_def)
  then have r: "rnd_rat q = of_int m * pow2 e"
    using round_half_even_unique [OF near] q0 by (simp add: rnd_rat_def)
  have "\<bar>q\<bar> < pow2 (int 1023)"
    using assms(2,4) pow2_mono [of "e + 53" "int 1023"] by linarith
  then show ?thesis using r by (simp only: rnd_Fin pow2_of_nat)
qed

section \<open>Arithmetic and comparisons\<close>

instantiation f64 :: "{zero, one, plus, minus, uminus, times, inverse, ord, abs}"
begin

definition zero_f64 :: f64 where "0 = Fin 0"
definition one_f64 :: f64 where "1 = Fin 1"

fun uminus_f64 :: "f64 \<Rightarrow> f64" where
  "- NaN = NaN"
| "- PInf = NInf"
| "- NInf = PInf"
| "- Fin a = Fin (- a)"

fun abs_f64 :: "f64 \<Rightarrow> f64" where
  "\<bar>NaN\<bar> = NaN"
| "\<bar>PInf\<bar> = PInf"
| "\<bar>NInf\<bar> = PInf"
| "\<bar>Fin a\<bar> = Fin \<bar>a\<bar>"

fun plus_f64 :: "f64 \<Rightarrow> f64 \<Rightarrow> f64" where
  "Fin a + Fin b = rnd (a + b)"
| "NaN + y = NaN"
| "x + NaN = NaN"
| "PInf + NInf = NaN"
| "NInf + PInf = NaN"
| "PInf + y = PInf"
| "x + PInf = PInf"
| "NInf + y = NInf"
| "x + NInf = NInf"

definition minus_f64 :: "f64 \<Rightarrow> f64 \<Rightarrow> f64" where
  "x - y = x + (- y :: f64)"

fun sgn_inf :: "rat \<Rightarrow> f64" where
  "sgn_inf a = (if 0 < a then PInf else if a < 0 then NInf else NaN)"

fun times_f64 :: "f64 \<Rightarrow> f64 \<Rightarrow> f64" where
  "Fin a * Fin b = rnd (a * b)"
| "NaN * y = NaN"
| "x * NaN = NaN"
| "PInf * Fin b = sgn_inf b"
| "Fin a * PInf = sgn_inf a"
| "NInf * Fin b = sgn_inf (- b)"
| "Fin a * NInf = sgn_inf (- a)"
| "PInf * PInf = PInf"
| "NInf * NInf = PInf"
| "PInf * NInf = NInf"
| "NInf * PInf = NInf"

fun divide_f64 :: "f64 \<Rightarrow> f64 \<Rightarrow> f64" where
  "Fin a div Fin b = (if b = 0 then sgn_inf a else rnd (a / b))"
| "NaN div y = NaN"
| "x div NaN = NaN"
| "Fin a div y = Fin 0"
| "PInf div Fin b = (if b < 0 then NInf else PInf)"
| "NInf div Fin b = (if b < 0 then PInf else NInf)"
| "x div y = NaN"

definition inverse_f64 :: "f64 \<Rightarrow> f64" where
  "inverse_f64 x = Fin 1 div x"

fun less_eq_f64 :: "f64 \<Rightarrow> f64 \<Rightarrow> bool" where
  "Fin a \<le> Fin b \<longleftrightarrow> a \<le> b"
| "NaN \<le> y \<longleftrightarrow> False"
| "x \<le> NaN \<longleftrightarrow> False"
| "NInf \<le> y \<longleftrightarrow> True"
| "x \<le> PInf \<longleftrightarrow> True"
| "PInf \<le> y \<longleftrightarrow> False"
| "x \<le> NInf \<longleftrightarrow> False"

definition less_f64 :: "f64 \<Rightarrow> f64 \<Rightarrow> bool" where
  "x < y \<longleftrightarrow> x \<le> (y::f64) \<and> \<not> y \<le> x"

instance ..

end

text \<open>IEEE equality, the float methods of the standard library, and conversions.\<close>

definition f_eq :: "f64 \<Rightarrow> f64 \<Rightarrow> bool" where
  "f_eq x y \<longleftrightarrow> x \<le> y \<and> y \<le> x"

definition is_nan :: "f64 \<Rightarrow> bool" where
  "is_nan x \<longleftrightarrow> x = NaN"

fun is_finite :: "f64 \<Rightarrow> bool" where
  "is_finite (Fin a) = True"
| "is_finite x = False"

definition f_max :: "f64 \<Rightarrow> f64 \<Rightarrow> f64" where
  "f_max x y = (if is_nan x then y else if is_nan y then x else if x \<le> y then y else x)"

definition f_min :: "f64 \<Rightarrow> f64 \<Rightarrow> f64" where
  "f_min x y = (if is_nan x then y else if is_nan y then x else if x \<le> y then x else y)"

fun on_Fin :: "(rat \<Rightarrow> rat) \<Rightarrow> f64 \<Rightarrow> f64" where
  "on_Fin f (Fin a) = Fin (f a)"
| "on_Fin f x = x"

text \<open>\<open>floor\<close>, \<open>ceil\<close> and \<open>round\<close> (half away from zero) are exact on binary64.\<close>

definition f_floor :: "f64 \<Rightarrow> f64" where
  "f_floor = on_Fin (\<lambda>a. of_int \<lfloor>a\<rfloor>)"

definition f_ceil :: "f64 \<Rightarrow> f64" where
  "f_ceil = on_Fin (\<lambda>a. of_int \<lceil>a\<rceil>)"

definition f_round :: "f64 \<Rightarrow> f64" where
  "f_round = on_Fin (\<lambda>a. sgn a * of_int \<lfloor>\<bar>a\<bar> + 1 / 2\<rfloor>)"

fun f_signum :: "f64 \<Rightarrow> f64" where
  "f_signum NaN = NaN"
| "f_signum PInf = Fin 1"
| "f_signum NInf = Fin (- 1)"
| "f_signum (Fin a) = (if a < 0 then Fin (- 1) else Fin 1)"

definition f64_of_int :: "int \<Rightarrow> f64" where
  "f64_of_int k = rnd (of_int k)"

definition f64_epsilon :: f64 where
  "f64_epsilon = Fin (1 / 4503599627370496)"

definition f_sum :: "f64 list \<Rightarrow> f64" where
  "f_sum xs = foldl (+) (Fin 0) xs"

section \<open>Laws\<close>

lemma Fin_less_iff [simp]: "Fin a < Fin b \<longleftrightarrow> a < b"
  by (auto simp: less_f64_def)

lemma Fin_minus_Fin [simp]: "Fin a - Fin b = rnd (a - b)"
  by (simp add: minus_f64_def)

lemma NaN_less [simp]: "\<not> NaN < y" "\<not> x < NaN"
  by (cases x; cases y; simp add: less_f64_def)+

lemma NaN_le [simp]: "\<not> NaN \<le> y" "\<not> x \<le> NaN"
  by (cases x; cases y; simp)+

lemma NaN_plus [simp]: "NaN + y = NaN" "x + NaN = NaN"
  by (cases x; cases y; simp)+

lemma NaN_times [simp]: "NaN * y = NaN" "x * NaN = NaN"
  by (cases x; cases y; simp)+

lemma NaN_div [simp]: "NaN div y = NaN" "x div NaN = NaN"
  by (cases x; cases y; simp)+

lemma NaN_minus [simp]: "NaN - y = NaN" "x - NaN = NaN"
  by (simp_all add: minus_f64_def)

lemma f_le_trans: "x \<le> y \<Longrightarrow> y \<le> z \<Longrightarrow> x \<le> (z::f64)"
  by (cases x; cases y; cases z) auto

lemma f_less_imp_le: "x < y \<Longrightarrow> x \<le> (y::f64)"
  by (simp add: less_f64_def)

lemma f_le_less_trans: "x \<le> y \<Longrightarrow> y < z \<Longrightarrow> x < (z::f64)"
  by (auto simp: less_f64_def dest: f_le_trans)

lemma f_less_le_trans: "x < y \<Longrightarrow> y \<le> z \<Longrightarrow> x < (z::f64)"
  by (auto simp: less_f64_def dest: f_le_trans)

lemma f_less_trans: "x < y \<Longrightarrow> y < z \<Longrightarrow> x < (z::f64)"
  by (meson f_less_imp_le f_le_less_trans)

lemma f_less_irrefl [simp]: "\<not> x < (x::f64)"
  by (simp add: less_f64_def)

lemma f_less_not_sym: "x < y \<Longrightarrow> \<not> y < (x::f64)"
  by (auto simp: less_f64_def)

lemma f_not_le: "x \<noteq> NaN \<Longrightarrow> y \<noteq> NaN \<Longrightarrow> \<not> x \<le> y \<longleftrightarrow> y < (x::f64)"
  by (cases x; cases y) (auto simp: less_f64_def)

lemma f_not_less: "x \<noteq> NaN \<Longrightarrow> y \<noteq> NaN \<Longrightarrow> \<not> x < y \<longleftrightarrow> y \<le> (x::f64)"
  by (cases x; cases y) (auto simp: less_f64_def)

lemma f_le_NaN_D: "x \<le> y \<Longrightarrow> x \<noteq> NaN \<and> y \<noteq> NaN"
  by (cases x; cases y) auto

lemma f_less_NaN_D: "x < y \<Longrightarrow> x \<noteq> NaN \<and> y \<noteq> NaN"
  by (auto simp: less_f64_def dest: f_le_NaN_D)

lemma f_eq_Fin [simp]: "f_eq (Fin a) (Fin b) \<longleftrightarrow> a = b"
  by (auto simp: f_eq_def)

lemma rnd_mono: "p \<le> q \<Longrightarrow> rnd p \<le> rnd q"
  using rnd_rat_mono [of p q] by (auto simp: rnd_def Let_def)

lemma rnd_not_NaN [simp]: "rnd q \<noteq> NaN"
  by (simp add: rnd_def Let_def)

lemma Fin_plus_mono: "a \<le> b \<Longrightarrow> Fin a + Fin c \<le> Fin b + Fin c"
  by (simp add: rnd_mono)

lemma Fin_minus_mono: "a \<le> b \<Longrightarrow> Fin c - Fin b \<le> Fin c - Fin a"
  by (simp add: rnd_mono)

lemma f_max_ge: "x \<noteq> NaN \<Longrightarrow> x \<le> f_max x y" "y \<noteq> NaN \<Longrightarrow> y \<le> f_max x y"
  by (cases x; cases y; simp add: f_max_def is_nan_def)+

lemma f_min_le: "x \<noteq> NaN \<Longrightarrow> f_min x y \<le> x" "y \<noteq> NaN \<Longrightarrow> f_min x y \<le> y"
  by (cases x; cases y; simp add: f_min_def is_nan_def)+

lemma f_max_Fin [simp]: "f_max (Fin a) (Fin b) = Fin (max a b)"
  by (simp add: f_max_def is_nan_def max_def)

lemma f_min_Fin [simp]: "f_min (Fin a) (Fin b) = Fin (min a b)"
  by (simp add: f_min_def is_nan_def min_def)

lemma is_finite_iff: "is_finite x \<longleftrightarrow> (\<exists>a. x = Fin a)"
  by (cases x) auto

lemma f64_of_int_exact: "\<bar>k\<bar> \<le> 2 ^ 53 \<Longrightarrow> f64_of_int k = Fin (of_int k)"
  by (simp add: f64_of_int_def rnd_of_int)

text \<open>Sums and differences of whole numbers of lots are exact.\<close>

lemma int_sum_exact:
  "\<bar>a + b\<bar> \<le> 2 ^ 53 \<Longrightarrow> Fin (of_int a) + Fin (of_int b) = Fin (of_int (a + b))"
  using rnd_of_int [of "a + b"] by simp

lemma int_diff_exact:
  "\<bar>a - b\<bar> \<le> 2 ^ 53 \<Longrightarrow> Fin (of_int a) - Fin (of_int b) = Fin (of_int (a - b))"
  using rnd_of_int [of "a - b"] by simp

text \<open>The test \<open>(a - b).abs() > f64::EPSILON\<close> on whole numbers of lots is inequality.\<close>

lemma int_apart_iff:
  assumes "\<bar>a - b\<bar> \<le> 2 ^ 53"
  shows "f64_epsilon < \<bar>Fin (of_int a) - Fin (of_int b)\<bar> \<longleftrightarrow> a \<noteq> b"
proof -
  have "Fin (of_int a) - Fin (of_int b) = Fin (of_int (a - b))"
    using assms by (rule int_diff_exact)
  moreover have "1 / 4503599627370496 < \<bar>of_int (a - b) :: rat\<bar> \<longleftrightarrow> a \<noteq> b"
  proof
    assume "a \<noteq> b"
    then have "1 \<le> \<bar>a - b\<bar>" by simp
    then have "(1::rat) \<le> of_int \<bar>a - b\<bar>" by (metis of_int_1_le_iff)
    then show "1 / 4503599627370496 < \<bar>of_int (a - b) :: rat\<bar>" by simp
  qed auto
  ultimately show ?thesis by (simp only: f64_epsilon_def abs_f64.simps Fin_less_iff)
qed

lemma int_close_iff:
  assumes "\<bar>a - b\<bar> \<le> 2 ^ 53"
  shows "\<bar>Fin (of_int a) - Fin (of_int b)\<bar> \<le> f64_epsilon \<longleftrightarrow> a = b"
  using int_apart_iff [OF assms] int_diff_exact [OF assms]
  by (auto simp: f64_epsilon_def not_less)

end
