(* ===== verification/Protocol.thy ===== *)
theory Protocol
  imports F64
begin

text \<open>
  The messages of \<open>alor-protocol/src/lib.rs\<close>: the commands a strategy sends to the
  gateway, the acknowledgements the gateway sends back, the intent class a command is given
  when it carries none, and the text forms of a stop-limit condition. A \<open>Uuid\<close> is its
  text; the clock and the random \<open>Uuid::new_v4\<close> are arguments of the constructors that
  read them.
\<close>

type_synonym uuid = string

section \<open>Data\<close>

datatype message_type =
  MtBar | MtOrder | MtStopOrder | MtTrade | MtPosition | MtHealth | MtCommand | MtCommandAck
| MtSnapshotOrders | MtSnapshotStopOrders | MtSnapshotPositions

record 'p envelope =
  env_schema_version :: nat
  env_ts_utc :: i64
  env_source :: string
  env_msg_type :: message_type
  env_payload :: 'p

definition schema_version :: nat where "schema_version = 1"

definition envelope_new :: "i64 \<Rightarrow> string \<Rightarrow> message_type \<Rightarrow> 'p \<Rightarrow> 'p envelope" where
  "envelope_new ts source msg_type payload =
     \<lparr>env_schema_version = schema_version, env_ts_utc = ts, env_source = source,
      env_msg_type = msg_type, env_payload = payload\<rparr>"

datatype side = Buy | Sell

datatype stop_limit_condition = More | Less | MoreOrEqual | LessOrEqual

record place_order =
  po_price :: f64
  po_qty :: f64
  po_side :: side
  po_comment :: "string option"

record market_order =
  mo_qty :: f64
  mo_side :: side
  mo_comment :: "string option"

record cancel_order =
  co_order_id :: i64

record replace_order =
  ro_order_id :: i64
  ro_new_price :: f64
  ro_new_qty :: f64

record create_stop_limit_order =
  sl_side :: side
  sl_qty :: f64
  sl_trigger_price :: f64
  sl_price :: f64
  sl_condition :: stop_limit_condition
  sl_stop_end_unix_time :: i64
  sl_comment :: "string option"
  sl_instrument_group :: "string option"
  sl_check_duplicates :: "bool option"

record delete_stop_limit_order =
  dl_order_id :: string
  dl_side :: "side option"
  dl_check_duplicates :: "bool option"

datatype command_action =
  Place place_order
| Market market_order
| Cancel cancel_order
| Replace replace_order
| CreateStopLimit create_stop_limit_order
| DeleteStopLimit delete_stop_limit_order

datatype intent_class = Entry | Exit | CancelCleanup | ProtectiveRepair

record order_command =
  oc_request_id :: uuid
  oc_created_ts_utc :: i64
  oc_strategy_id :: string
  oc_portfolio :: string
  oc_exchange :: string
  oc_symbol :: string
  oc_action :: command_action
  oc_intent_class :: "intent_class option"
  oc_ttl_ms :: "u64 option"

datatype ack_status = Accepted | Confirmed | Rejected | Duplicate | Expired | Error

record command_ack =
  ack_request_id :: uuid
  ack_status :: ack_status
  ack_broker_order_id :: "i64 option"
  ack_broker_order_id_str :: "string option"
  ack_error_code :: "string option"
  ack_error_msg :: "string option"
  ack_cws_http_code :: "i64 option"
  ack_cws_message :: "string option"
  ack_cws_request_guid :: "string option"
  ack_processed_ts_utc :: i64

section \<open>Commands\<close>

definition order_command_new ::
  "uuid \<Rightarrow> i64 \<Rightarrow> string \<Rightarrow> string \<Rightarrow> string \<Rightarrow> string \<Rightarrow> command_action \<Rightarrow> order_command"
where
  "order_command_new fresh now strategy portfolio exchange symbol action =
     \<lparr>oc_request_id = fresh, oc_created_ts_utc = now, oc_strategy_id = strategy,
      oc_portfolio = portfolio, oc_exchange = exchange, oc_symbol = symbol,
      oc_action = action, oc_intent_class = None, oc_ttl_ms = None\<rparr>"

definition with_ttl_ms :: "order_command \<Rightarrow> u64 \<Rightarrow> order_command" where
  "with_ttl_ms cmd ttl = cmd\<lparr>oc_ttl_ms := Some ttl\<rparr>"

definition infer_intent_class :: "intent_class option \<Rightarrow> command_action \<Rightarrow> intent_class" where
  "infer_intent_class explicit action =
     (case explicit of
        Some c \<Rightarrow> c
      | None \<Rightarrow>
          (case action of
             Cancel _ \<Rightarrow> CancelCleanup
           | DeleteStopLimit _ \<Rightarrow> CancelCleanup
           | Market _ \<Rightarrow> Entry
           | Place _ \<Rightarrow> Entry
           | Replace _ \<Rightarrow> ProtectiveRepair
           | CreateStopLimit _ \<Rightarrow> ProtectiveRepair))"

definition effective_intent_class :: "order_command \<Rightarrow> intent_class" where
  "effective_intent_class cmd = infer_intent_class (oc_intent_class cmd) (oc_action cmd)"

section \<open>Acknowledgements\<close>

definition ack_confirmed :: "i64 \<Rightarrow> uuid \<Rightarrow> i64 option \<Rightarrow> command_ack" where
  "ack_confirmed now rid broker_id =
     \<lparr>ack_request_id = rid, ack_status = Confirmed, ack_broker_order_id = broker_id,
      ack_broker_order_id_str = map_option show_int broker_id,
      ack_error_code = None, ack_error_msg = None, ack_cws_http_code = None,
      ack_cws_message = None, ack_cws_request_guid = None, ack_processed_ts_utc = now\<rparr>"

definition ack_bare :: "i64 \<Rightarrow> uuid \<Rightarrow> ack_status \<Rightarrow> command_ack" where
  "ack_bare now rid st =
     \<lparr>ack_request_id = rid, ack_status = st, ack_broker_order_id = None,
      ack_broker_order_id_str = None, ack_error_code = None, ack_error_msg = None,
      ack_cws_http_code = None, ack_cws_message = None, ack_cws_request_guid = None,
      ack_processed_ts_utc = now\<rparr>"

definition ack_duplicate :: "i64 \<Rightarrow> uuid \<Rightarrow> command_ack" where
  "ack_duplicate now rid = ack_bare now rid Duplicate"

definition ack_accepted :: "i64 \<Rightarrow> uuid \<Rightarrow> command_ack" where
  "ack_accepted now rid = ack_bare now rid Accepted"

definition ack_rejected :: "i64 \<Rightarrow> uuid \<Rightarrow> string \<Rightarrow> string \<Rightarrow> command_ack" where
  "ack_rejected now rid code msg =
     (ack_bare now rid Rejected)\<lparr>ack_error_code := Some code, ack_error_msg := Some msg\<rparr>"

definition ack_expired :: "i64 \<Rightarrow> uuid \<Rightarrow> string \<Rightarrow> command_ack" where
  "ack_expired now rid msg =
     (ack_bare now rid Expired)\<lparr>ack_error_code := Some ''expired'', ack_error_msg := Some msg\<rparr>"

definition ack_error :: "i64 \<Rightarrow> uuid \<Rightarrow> string \<Rightarrow> string \<Rightarrow> command_ack" where
  "ack_error now rid code msg =
     (ack_bare now rid Error)\<lparr>ack_error_code := Some code, ack_error_msg := Some msg\<rparr>"

lemmas ack_defs = ack_confirmed_def ack_bare_def ack_duplicate_def ack_accepted_def
  ack_rejected_def ack_expired_def ack_error_def

section \<open>Stop-limit conditions as text\<close>

fun as_canonical_str :: "stop_limit_condition \<Rightarrow> string" where
  "as_canonical_str More = ''more''"
| "as_canonical_str Less = ''less''"
| "as_canonical_str MoreOrEqual = ''moreorequal''"
| "as_canonical_str LessOrEqual = ''lessorequal''"

definition parse_tolerant :: "string \<Rightarrow> stop_limit_condition option" where
  "parse_tolerant input =
     (let normalized = to_ascii_lowercase (filter is_ascii_alphanumeric (trim input)) in
      if normalized = ''more'' then Some More
      else if normalized = ''less'' then Some Less
      else if normalized = ''moreorequal'' \<or> normalized = ''moreequal'' then Some MoreOrEqual
      else if normalized = ''lessorequal'' \<or> normalized = ''lessequal'' then Some LessOrEqual
      else None)"

text \<open>The two halves of the \<open>serde\<close> implementation, on the text of the JSON string.\<close>

definition serialize_condition :: "stop_limit_condition \<Rightarrow> string" where
  "serialize_condition c = as_canonical_str c"

definition deserialize_condition :: "string \<Rightarrow> string + stop_limit_condition" where
  "deserialize_condition raw =
     (case parse_tolerant raw of
        Some c \<Rightarrow> Ok c
      | None \<Rightarrow> Err (''invalid stop limit condition: '' @ raw))"

lemma alnum_ascii_lower [simp]: "is_ascii_alphanumeric (ascii_lower c) = is_ascii_alphanumeric c"
proof -
  have "(of_char (char_of (n + 32)) :: nat) = n + 32" if "n \<le> 90" for n :: nat
    using that by (simp add: of_char_of)
  then show ?thesis by (auto simp: is_ascii_alphanumeric_def ascii_lower_def Let_def)
qed

lemma alnum_lower_commute:
  "filter is_ascii_alphanumeric (to_ascii_lowercase s) =
     to_ascii_lowercase (filter is_ascii_alphanumeric s)"
  by (induction s) (simp_all add: to_ascii_lowercase_def)

text \<open>The parser depends only on the lower-cased letters and digits of its input.\<close>

lemma parse_tolerant_normal:
  "to_ascii_lowercase (filter is_ascii_alphanumeric s) =
     to_ascii_lowercase (filter is_ascii_alphanumeric t) \<Longrightarrow> parse_tolerant s = parse_tolerant t"
  by (simp add: parse_tolerant_def filter_alnum_trim)

lemma lowercase_canonical [simp]: "to_ascii_lowercase (as_canonical_str c) = as_canonical_str c"
  by (cases c) (simp_all add: to_ascii_lowercase_def ascii_lower_def Let_def)

lemma alnum_canonical [simp]:
  "filter is_ascii_alphanumeric (as_canonical_str c) = as_canonical_str c"
  by (cases c) (simp_all add: is_ascii_alphanumeric_def Let_def)

lemma as_canonical_str_inj: "as_canonical_str a = as_canonical_str b \<Longrightarrow> a = b"
  by (cases a; cases b) simp_all

lemma parse_tolerant_canonical [simp]: "parse_tolerant (as_canonical_str c) = Some c"
  unfolding parse_tolerant_def filter_alnum_trim alnum_canonical lowercase_canonical Let_def
  by (cases c) simp_all

section \<open>Properties\<close>

text \<open>A stop-limit condition is read back from its canonical text, and from every text
  that differs from it only in letter case and in characters other than letters and
  digits.\<close>

theorem condition_read_back:
  assumes "to_ascii_lowercase (filter is_ascii_alphanumeric text) = serialize_condition c"
  shows "deserialize_condition text = Ok c"
proof -
  have "parse_tolerant text = parse_tolerant (as_canonical_str c)"
    using assms by (intro parse_tolerant_normal) (simp add: serialize_condition_def)
  then show ?thesis by (simp add: deserialize_condition_def)
qed

lemma condition_read_back_witness:
  "deserialize_condition '' More_Or-Equal '' = Ok MoreOrEqual"
  by (rule condition_read_back) code_simp

end
