(* ===== verification/Gateway_Models.thy ===== *)
theory Gateway_Models
  imports Protocol
begin

text \<open>
  The events the gateway passes between its tasks (\<open>alor-gateway/src/models.rs\<close> and the
  position snapshot of \<open>alor-types/src/strategy.rs\<close>), and the raw JSON messages they are
  read from. A JSON value has the public cases of \<open>serde_json::Value\<close>; what the crate
  answers for a number, and what \<open>chrono\<close> answers for a date text, are fields of a
  \<open>wire_lib\<close> every parser takes.
\<close>

section \<open>Events\<close>

datatype data_origin = History | HistoryGap | Live

record bar_event =
  bar_symbol :: string
  bar_close_time :: i64
  bar_o :: f64
  bar_h :: f64
  bar_l :: f64
  bar_c :: f64
  bar_v :: f64
  bar_origin :: data_origin

record position_event =
  pos_symbol :: string
  pos_qty :: f64
  pos_avg_price :: f64
  pos_ts :: i64

record trade_event =
  tr_trade_id :: string
  tr_order_id :: i64
  tr_symbol :: string
  tr_side :: string
  tr_qty :: f64
  tr_price :: f64
  tr_commission :: f64
  tr_existing :: bool
  tr_ts :: i64

record order_event =
  ord_order_id :: i64
  ord_request_id :: "uuid option"
  ord_symbol :: string
  ord_status :: string
  ord_side :: string
  ord_type :: string
  ord_qty :: f64
  ord_filled :: f64
  ord_price :: f64
  ord_existing :: bool
  ord_comment :: "string option"
  ord_ts :: i64

record stop_order_event =
  sto_id :: string
  sto_exchange_order_id :: "i64 option"
  sto_symbol :: string
  sto_status :: string
  sto_side :: string
  sto_qty :: f64
  sto_filled :: f64
  sto_stop_price :: f64
  sto_price :: f64
  sto_existing :: bool
  sto_comment :: "string option"
  sto_end_time :: "i64 option"
  sto_ts :: i64

section \<open>JSON values\<close>

datatype 'n json =
  JNull
| JBool bool
| JNum 'n
| JStr string
| JArr "'n json list"
| JObj "(string \<times> 'n json) list"

text \<open>
  The answers of third-party code: \<open>Number::as_i64\<close>, \<open>as_u64\<close>, \<open>as_f64\<close> and
  \<open>to_string\<close>, and the Unix seconds of \<open>DateTime::parse_from_rfc3339\<close> and of
  \<open>NaiveDateTime::parse_from_str\<close> with the format \<open>%Y-%m-%dT%H:%M:%S\<close>.
\<close>

record 'n wire_lib =
  num_i64 :: "'n \<Rightarrow> i64 option"
  num_u64 :: "'n \<Rightarrow> u64 option"
  num_f64 :: "'n \<Rightarrow> f64 option"
  num_text :: "'n \<Rightarrow> string"
  rfc3339_secs :: "string \<Rightarrow> i64 option"
  naive_secs :: "string \<Rightarrow> i64 option"

text \<open>\<open>Value::get\<close> with a string, \<open>as_str\<close>, \<open>as_bool\<close>, \<open>as_array\<close>.\<close>

fun jget :: "'n json \<Rightarrow> string \<Rightarrow> 'n json option" where
  "jget (JObj m) k = map_of m k"
| "jget _ k = None"

fun jstr :: "'n json \<Rightarrow> string option" where
  "jstr (JStr s) = Some s"
| "jstr _ = None"

fun jbool :: "'n json \<Rightarrow> bool option" where
  "jbool (JBool b) = Some b"
| "jbool _ = None"

fun jarr :: "'n json \<Rightarrow> 'n json list option" where
  "jarr (JArr xs) = Some xs"
| "jarr _ = None"

fun jnum :: "'n json \<Rightarrow> 'n option" where
  "jnum (JNum n) = Some n"
| "jnum _ = None"

definition j_i64 :: "'n wire_lib \<Rightarrow> 'n json \<Rightarrow> i64 option" where
  "j_i64 lib v = Option.bind (jnum v) (num_i64 lib)"

definition j_u64 :: "'n wire_lib \<Rightarrow> 'n json \<Rightarrow> u64 option" where
  "j_u64 lib v = Option.bind (jnum v) (num_u64 lib)"

definition j_f64 :: "'n wire_lib \<Rightarrow> 'n json \<Rightarrow> f64 option" where
  "j_f64 lib v = Option.bind (jnum v) (num_f64 lib)"

text \<open>\<open>data.get(k1).or_else(|| data.get(k2))...\<close>: the first key that is present.\<close>

fun first_of :: "'n json \<Rightarrow> string list \<Rightarrow> 'n json option" where
  "first_of v [] = None"
| "first_of v (k # ks) = (case jget v k of Some x \<Rightarrow> Some x | None \<Rightarrow> first_of v ks)"

definition has_key :: "'n json \<Rightarrow> string \<Rightarrow> bool" where
  "has_key v k \<longleftrightarrow> jget v k \<noteq> None"

lemma first_of_None_iff: "first_of v ks = None \<longleftrightarrow> (\<forall>k\<in>set ks. \<not> has_key v k)"
  by (induction ks) (auto simp: has_key_def split: option.splits)

text \<open>\<open>str::parse::<i64>\<close>: an optional sign, at least one digit, in range.\<close>

definition is_digit :: "char \<Rightarrow> bool" where
  "is_digit c = (let n = of_char c :: nat in 48 \<le> n \<and> n \<le> 57)"

definition parse_i64 :: "string \<Rightarrow> i64 option" where
  "parse_i64 s =
     (let (neg, ds) =
        (case s of
           [] \<Rightarrow> (False, [])
         | c # cs \<Rightarrow> if c = CHR ''-'' then (True, cs) else if c = CHR ''+'' then (False, cs)
                    else (False, s));
        v = (if neg then - int (digits_value ds) else int (digits_value ds))
      in if ds \<noteq> [] \<and> (\<forall>c\<in>set ds. is_digit c) \<and> i64_min \<le> v \<and> v \<le> i64_max then Some v
         else None)"

lemma is_digit_char: "k < 10 \<Longrightarrow> is_digit (char_of (48 + k :: nat))"
  by (simp add: is_digit_def digit_char)

lemma show_nat_digits: "\<forall>c\<in>set (show_nat n). is_digit c"
proof (induction n rule: show_nat.induct)
  case (1 n)
  then show ?case
    by (cases "n < 10") (auto simp: show_nat.simps [of n] is_digit_char)
qed

lemma show_nat_ne [simp]: "show_nat n \<noteq> []"
  by (subst show_nat.simps) simp

lemma sign_not_digit: "\<not> is_digit CHR ''-''" "\<not> is_digit CHR ''+''"
  by (simp_all add: is_digit_def)

lemma show_nat_no_sign: "show_nat n = c # cs \<Longrightarrow> c \<noteq> CHR ''-'' \<and> c \<noteq> CHR ''+''"
  using show_nat_digits [of n] sign_not_digit by auto

text \<open>Printing an \<open>i64\<close> and parsing it gives it back.\<close>

lemma parse_show_int:
  assumes "i64_min \<le> k" "k \<le> i64_max"
  shows "parse_i64 (show_int k) = Some k"
proof (cases "k < 0")
  case True
  then show ?thesis using assms show_nat_digits [of "nat (- k)"]
    by (simp add: show_int_def parse_i64_def digits_value_show_nat)
next
  case False
  obtain c cs where cc: "show_nat (nat k) = c # cs" by (cases "show_nat (nat k)") auto
  have "digits_value (c # cs) = nat k" using digits_value_show_nat [of "nat k"] cc by simp
  moreover have "\<forall>d\<in>set (c # cs). is_digit d" using show_nat_digits [of "nat k"] cc by simp
  ultimately show ?thesis using False assms show_nat_no_sign [OF cc] cc
    by (simp add: show_int_def parse_i64_def)
qed

end
