(* ===== verification/Data_Quality.thy ===== *)
theory Data_Quality
  imports Gateway_Models "HOL-Library.Multiset"
begin

text \<open>
  Bar data quality, \<open>alor-gateway/src/data_quality.rs\<close>: the validator every bar passes
  before it is emitted, the per-symbol counters, and the report with its imbalances.
  Counters are unbounded naturals: a \<open>u64\<close> that is incremented once per message does not
  reach its width.
\<close>

section \<open>The validator\<close>

datatype reject_reason =
  DuplicateOrOld | BadTimestamp | BadOhlc | NonFinite | NegativeVolume | FourPriceDoji
| NotClosedYet | EmitFailed

datatype ignored_reason = OldGeneration | InactiveGuid | UnknownGuid | JsonParseError

record bar_validation_config =
  tf_sec :: i64
  allow_four_price_doji :: bool
  close_grace_sec :: i64

definition bar_validation_config_new :: "i64 \<Rightarrow> bar_validation_config" where
  "bar_validation_config_new tf =
     \<lparr>tf_sec = tf, allow_four_price_doji = True, close_grace_sec = 2\<rparr>"

definition validate ::
  "bar_validation_config \<Rightarrow> i64 \<Rightarrow> bar_event \<Rightarrow> i64 option \<Rightarrow> reject_reason + unit" where
  "validate cfg now bar last_emitted =
     (if at_or_before (bar_close_time bar) last_emitted then Err DuplicateOrOld
      else if tf_sec cfg > 0 \<and> trunc_rem (bar_close_time bar) (tf_sec cfg) \<noteq> 0
        then Err BadTimestamp
      else if bar_close_time bar > now + close_grace_sec cfg then Err NotClosedYet
      else if \<not> is_finite (bar_o bar) \<or> \<not> is_finite (bar_h bar) \<or> \<not> is_finite (bar_l bar)
              \<or> \<not> is_finite (bar_c bar) then Err NonFinite
      else let max_oc = f_max (bar_o bar) (bar_c bar); min_oc = f_min (bar_o bar) (bar_c bar) in
        if bar_h bar < max_oc \<or> min_oc < bar_l bar \<or> bar_h bar < bar_l bar then Err BadOhlc
        else if bar_v bar < 0 then Err NegativeVolume
        else if \<not> allow_four_price_doji cfg \<and> f_eq (bar_h bar) (bar_l bar)
          then Err FourPriceDoji
        else Ok ())"

text \<open>What a bar that passes is: prices are rationals with the low below and the high
  above both ends, on the time grid, closed, and newer than the last one emitted.\<close>

definition well_formed_bar ::
  "bar_validation_config \<Rightarrow> i64 \<Rightarrow> bar_event \<Rightarrow> i64 option \<Rightarrow> bool" where
  "well_formed_bar cfg now bar last_emitted \<longleftrightarrow>
     (case last_emitted of None \<Rightarrow> True | Some l \<Rightarrow> l < bar_close_time bar)
     \<and> (0 < tf_sec cfg \<longrightarrow> tf_sec cfg dvd bar_close_time bar)
     \<and> bar_close_time bar \<le> now + close_grace_sec cfg
     \<and> (case (bar_o bar, bar_h bar, bar_l bar, bar_c bar) of
          (Fin op, Fin hi, Fin lo, Fin cl) \<Rightarrow>
            lo \<le> op \<and> lo \<le> cl \<and> op \<le> hi \<and> cl \<le> hi
            \<and> (allow_four_price_doji cfg \<or> lo < hi)
        | _ \<Rightarrow> False)
     \<and> (case bar_v bar of Fin v \<Rightarrow> 0 \<le> v | NInf \<Rightarrow> False | _ \<Rightarrow> True)"

lemma f_not_less_zero_iff:
  "\<not> v < (0::f64) \<longleftrightarrow> (case v of Fin x \<Rightarrow> 0 \<le> x | NInf \<Rightarrow> False | _ \<Rightarrow> True)"
  by (cases v) (auto simp: zero_f64_def less_f64_def)

lemma validate_Ok_prices:
  "is_finite op \<and> is_finite hi \<and> is_finite lo \<and> is_finite cl
   \<and> \<not> (hi < f_max op cl \<or> f_min op cl < lo \<or> hi < lo) \<and> (doji \<or> \<not> f_eq hi lo) \<longleftrightarrow>
   (case (op, hi, lo, cl) of
      (Fin a, Fin b, Fin c, Fin d) \<Rightarrow>
        c \<le> a \<and> c \<le> d \<and> a \<le> b \<and> d \<le> b \<and> (doji \<or> c < b)
    | _ \<Rightarrow> False)"
  by (auto simp: is_finite_iff split: f64.splits)

lemma validate_Ok_iff:
  "validate cfg now bar last_emitted = Ok () \<longleftrightarrow> well_formed_bar cfg now bar last_emitted"
proof -
  have "validate cfg now bar last_emitted = Ok () \<longleftrightarrow>
     \<not> at_or_before (bar_close_time bar) last_emitted
     \<and> (0 < tf_sec cfg \<longrightarrow> trunc_rem (bar_close_time bar) (tf_sec cfg) = 0)
     \<and> bar_close_time bar \<le> now + close_grace_sec cfg
     \<and> (is_finite (bar_o bar) \<and> is_finite (bar_h bar) \<and> is_finite (bar_l bar)
        \<and> is_finite (bar_c bar)
        \<and> \<not> (bar_h bar < f_max (bar_o bar) (bar_c bar)
             \<or> f_min (bar_o bar) (bar_c bar) < bar_l bar \<or> bar_h bar < bar_l bar)
        \<and> (allow_four_price_doji cfg \<or> \<not> f_eq (bar_h bar) (bar_l bar)))
     \<and> \<not> bar_v bar < 0"
    unfolding validate_def Let_def by (auto simp: not_less)
  then show ?thesis
    unfolding validate_Ok_prices f_not_less_zero_iff well_formed_bar_def
    by (auto simp: trunc_rem_zero_iff split: option.splits)
qed

section \<open>Counters\<close>

record bar_quality_stats =
  st_received :: "(string \<times> u64) list"
  st_emitted :: "(string \<times> u64) list"
  st_dropped :: "((string \<times> reject_reason) \<times> u64) list"
  st_ignored :: "((string \<times> ignored_reason) \<times> u64) list"
  st_last_close :: "string \<Rightarrow> i64 option"

definition stats_empty :: bar_quality_stats where
  "stats_empty = \<lparr>st_received = [], st_emitted = [], st_dropped = [], st_ignored = [],
     st_last_close = (\<lambda>_. None)\<rparr>"

definition record_received :: "string \<Rightarrow> bar_quality_stats \<Rightarrow> bar_quality_stats" where
  "record_received symbol st = st\<lparr>st_received := count_up symbol (st_received st)\<rparr>"

definition record_emitted :: "string \<Rightarrow> i64 \<Rightarrow> bar_quality_stats \<Rightarrow> bar_quality_stats" where
  "record_emitted symbol close st =
     st\<lparr>st_emitted := count_up symbol (st_emitted st),
        st_last_close := (st_last_close st)(symbol := Some close)\<rparr>"

definition record_dropped :: "string \<Rightarrow> reject_reason \<Rightarrow> bar_quality_stats \<Rightarrow> bar_quality_stats"
where
  "record_dropped symbol reason st = st\<lparr>st_dropped := count_up (symbol, reason) (st_dropped st)\<rparr>"

definition record_ignored :: "string \<Rightarrow> ignored_reason \<Rightarrow> bar_quality_stats \<Rightarrow> bar_quality_stats"
where
  "record_ignored symbol reason st = st\<lparr>st_ignored := count_up (symbol, reason) (st_ignored st)\<rparr>"

lemmas record_defs = record_received_def record_emitted_def record_dropped_def record_ignored_def

section \<open>The report\<close>

record drop_reason_count =
  drc_symbol :: string
  drc_reason :: reject_reason
  drc_count :: u64

record ignored_reason_count =
  irc_symbol :: string
  irc_reason :: ignored_reason
  irc_count :: u64

record pending_acks =
  pa_bars :: u64
  pa_positions :: u64
  pa_orders :: u64
  pa_authorize :: u64

record pending_report =
  buffered_bars :: "string \<Rightarrow> u64 option"
  pr_pending_acks :: pending_acks

record data_quality_report =
  rep_received :: "(string \<times> u64) list"
  rep_emitted :: "(string \<times> u64) list"
  rep_dropped :: "drop_reason_count list"
  rep_ignored :: "ignored_reason_count list"
  rep_pending :: pending_report
  rep_last_close :: "string \<Rightarrow> i64 option"

record report_imbalance =
  imb_symbol :: string
  imb_received :: u64
  imb_emitted :: u64
  imb_dropped :: u64
  imb_ignored :: u64
  imb_pending :: u64
  imb_delta :: i64

text \<open>\<open>sort_by_key(Reverse(count))\<close> is a stable sort by decreasing count.\<close>

definition to_report :: "bar_quality_stats \<Rightarrow> pending_report \<Rightarrow> data_quality_report" where
  "to_report st pending =
     \<lparr>rep_received = st_received st,
      rep_emitted = st_emitted st,
      rep_dropped = sort_key (\<lambda>e. - int (drc_count e))
        (map (\<lambda>((s, r), n). \<lparr>drc_symbol = s, drc_reason = r, drc_count = n\<rparr>) (st_dropped st)),
      rep_ignored = sort_key (\<lambda>e. - int (irc_count e))
        (map (\<lambda>((s, r), n). \<lparr>irc_symbol = s, irc_reason = r, irc_count = n\<rparr>) (st_ignored st)),
      rep_pending = pending,
      rep_last_close = st_last_close st\<rparr>"

definition imbalance_of :: "data_quality_report \<Rightarrow> string \<times> u64 \<Rightarrow> report_imbalance option" where
  "imbalance_of rep = (\<lambda>(symbol, received).
     let emitted = (case map_of (rep_emitted rep) symbol of None \<Rightarrow> 0 | Some n \<Rightarrow> n);
         dropped = sum_list (map drc_count (filter (\<lambda>e. drc_symbol e = symbol) (rep_dropped rep)));
         ignored = sum_list (map irc_count (filter (\<lambda>e. irc_symbol e = symbol) (rep_ignored rep)));
         pending = (case buffered_bars (rep_pending rep) symbol of None \<Rightarrow> 0 | Some n \<Rightarrow> n);
         rhs = emitted + dropped + ignored + pending
     in if received \<noteq> rhs then
          Some \<lparr>imb_symbol = symbol, imb_received = received, imb_emitted = emitted,
                imb_dropped = dropped, imb_ignored = ignored, imb_pending = pending,
                imb_delta = as_i64 (int received) - as_i64 (int rhs)\<rparr>
        else None)"

definition build_data_report ::
  "bar_quality_stats \<Rightarrow> pending_report \<Rightarrow> data_quality_report \<times> report_imbalance list" where
  "build_data_report st pending =
     (let rep = to_report st pending in (rep, List.map_filter (imbalance_of rep) (rep_received rep)))"

text \<open>The totals of one symbol, read from the counters.\<close>

definition n_received :: "bar_quality_stats \<Rightarrow> string \<Rightarrow> nat" where
  "n_received st s = count_of (st_received st) s"

definition n_emitted :: "bar_quality_stats \<Rightarrow> string \<Rightarrow> nat" where
  "n_emitted st s = count_of (st_emitted st) s"

definition n_dropped :: "bar_quality_stats \<Rightarrow> string \<Rightarrow> nat" where
  "n_dropped st s = sum_where (\<lambda>k. fst k = s) (st_dropped st)"

definition n_ignored :: "bar_quality_stats \<Rightarrow> string \<Rightarrow> nat" where
  "n_ignored st s = sum_where (\<lambda>k. fst k = s) (st_ignored st)"

definition n_pending :: "pending_report \<Rightarrow> string \<Rightarrow> nat" where
  "n_pending p s = (case buffered_bars p s of None \<Rightarrow> 0 | Some n \<Rightarrow> n)"

lemmas n_defs = n_received_def n_emitted_def n_dropped_def n_ignored_def

lemma n_empty [simp]:
  "n_received stats_empty s = 0" "n_emitted stats_empty s = 0"
  "n_dropped stats_empty s = 0" "n_ignored stats_empty s = 0"
  by (simp_all add: n_defs stats_empty_def)

lemma n_record_received [simp]:
  "n_received (record_received s st) s' = n_received st s' + (if s' = s then 1 else 0)"
  "n_emitted (record_received s st) s' = n_emitted st s'"
  "n_dropped (record_received s st) s' = n_dropped st s'"
  "n_ignored (record_received s st) s' = n_ignored st s'"
  by (simp_all add: n_defs record_defs)

lemma n_record_emitted [simp]:
  "n_received (record_emitted s t st) s' = n_received st s'"
  "n_emitted (record_emitted s t st) s' = n_emitted st s' + (if s' = s then 1 else 0)"
  "n_dropped (record_emitted s t st) s' = n_dropped st s'"
  "n_ignored (record_emitted s t st) s' = n_ignored st s'"
  by (simp_all add: n_defs record_defs)

lemma n_record_dropped [simp]:
  "n_received (record_dropped s r st) s' = n_received st s'"
  "n_emitted (record_dropped s r st) s' = n_emitted st s'"
  "n_dropped (record_dropped s r st) s' = n_dropped st s' + (if s' = s then 1 else 0)"
  "n_ignored (record_dropped s r st) s' = n_ignored st s'"
  by (auto simp: n_defs record_defs)

lemma n_record_ignored [simp]:
  "n_received (record_ignored s ir st) s' = n_received st s'"
  "n_emitted (record_ignored s ir st) s' = n_emitted st s'"
  "n_dropped (record_ignored s ir st) s' = n_dropped st s'"
  "n_ignored (record_ignored s ir st) s' = n_ignored st s' + (if s' = s then 1 else 0)"
  by (auto simp: n_defs record_defs)

text \<open>Sorting the reasons does not change a symbol's total.\<close>

lemma sum_filter_sort_key:
  fixes f :: "'a \<Rightarrow> nat" and k :: "'a \<Rightarrow> 'k::linorder"
  shows "sum_list (map f (filter p (sort_key k xs))) = sum_list (map f (filter p xs))"
  by (metis mset_filter mset_map mset_sort sum_mset_sum_list)

lemma sum_dropped_report:
  "sum_list (map drc_count (filter (\<lambda>e. drc_symbol e = s) (rep_dropped (to_report st p))))
   = n_dropped st s"
  unfolding to_report_def data_quality_report.simps sum_filter_sort_key n_dropped_def sum_where_def
  by (induction "st_dropped st" arbitrary: st rule: list.induct)
     (auto simp: filter_map comp_def case_prod_beta)

lemma sum_ignored_report:
  "sum_list (map irc_count (filter (\<lambda>e. irc_symbol e = s) (rep_ignored (to_report st p))))
   = n_ignored st s"
  unfolding to_report_def data_quality_report.simps sum_filter_sort_key n_ignored_def sum_where_def
  by (auto simp: filter_map comp_def case_prod_beta)

lemma imbalance_of_report:
  "imbalance_of (to_report st p) (s, n) =
     (let rhs = n_emitted st s + n_dropped st s + n_ignored st s + n_pending p s in
      if n = rhs then None
      else Some \<lparr>imb_symbol = s, imb_received = n, imb_emitted = n_emitted st s,
                 imb_dropped = n_dropped st s, imb_ignored = n_ignored st s,
                 imb_pending = n_pending p s,
                 imb_delta = as_i64 (int n) - as_i64 (int rhs)\<rparr>)"
  unfolding imbalance_of_def case_prod_conv sum_dropped_report sum_ignored_report
  by (simp add: to_report_def n_pending_def n_emitted_def count_of_def Let_def)

lemma imbalance_of_report_Some_iff:
  "(\<exists>i. imbalance_of (to_report st p) (s, n) = Some i) \<longleftrightarrow>
     n \<noteq> n_emitted st s + n_dropped st s + n_ignored st s + n_pending p s"
  by (simp add: imbalance_of_report Let_def)

lemma imbalance_of_symbol: "imbalance_of rep (s, n) = Some i \<Longrightarrow> imb_symbol i = s"
  by (auto simp: imbalance_of_def Let_def split: if_splits)

definition stats_wf :: "bar_quality_stats \<Rightarrow> bool" where
  "stats_wf st \<longleftrightarrow> distinct (map fst (st_received st))"

lemma stats_wf_ops [inv_intros]:
  "stats_wf stats_empty"
  "stats_wf st \<Longrightarrow> stats_wf (record_received s st)"
  "stats_wf st \<Longrightarrow> stats_wf (record_emitted s t st)"
  "stats_wf st \<Longrightarrow> stats_wf (record_dropped s r st)"
  "stats_wf st \<Longrightarrow> stats_wf (record_ignored s ir st)"
  by (simp_all add: stats_wf_def record_defs stats_empty_def)

lemma imbalance_symbols:
  assumes "stats_wf st"
  shows "imb_symbol ` set (snd (build_data_report st p)) =
    {s. s \<in> fst ` set (st_received st) \<and>
        n_received st s \<noteq> n_emitted st s + n_dropped st s + n_ignored st s + n_pending p s}"
proof -
  have lookup: "n_received st s = n" if "(s, n) \<in> set (st_received st)" for s n
    using assms that by (simp add: stats_wf_def n_received_def count_of_def)
  have r: "rep_received (to_report st p) = st_received st"
    by (simp add: to_report_def)
  have eq: "s \<in> imb_symbol ` set (snd (build_data_report st p)) \<longleftrightarrow>
      (\<exists>n. (s, n) \<in> set (st_received st)
           \<and> (\<exists>i. imbalance_of (to_report st p) (s, n) = Some i))" (is "?L \<longleftrightarrow> ?R") for s
  proof
    assume ?L
    then obtain i t n where "(t, n) \<in> set (st_received st)" "imb_symbol i = s"
        and i: "imbalance_of (to_report st p) (t, n) = Some i"
      unfolding build_data_report_def Let_def snd_conv image_iff Bex_def set_map_filter_iff r
        split_paired_Ex by blast
    then show ?R using imbalance_of_symbol [OF i] i by blast
  next
    assume ?R
    then obtain n i where i: "(s, n) \<in> set (st_received st)"
        "imbalance_of (to_report st p) (s, n) = Some i" by blast
    then have "imb_symbol i = s" "i \<in> set (snd (build_data_report st p))"
      unfolding build_data_report_def Let_def snd_conv set_map_filter_iff r Bex_def
      by (blast dest: imbalance_of_symbol)+
    then show ?L by blast
  qed
  have "(\<exists>n. (s, n) \<in> set (st_received st) \<and> n \<noteq> m) \<longleftrightarrow>
      s \<in> fst ` set (st_received st) \<and> n_received st s \<noteq> m" for s m
    using lookup [of s] by (metis (no_types, lifting) fst_conv image_iff prod.collapse)
  then show ?thesis
    by (intro set_eqI) (simp only: eq imbalance_of_report_Some_iff mem_Collect_eq)
qed

section \<open>Properties\<close>

text \<open>The validator accepts exactly the well-formed bars: newer than the last emitted
  one, on the time grid, closed up to the grace period, with finite prices whose low is
  below and whose high is above both open and close, no negative volume, and not flat when
  flat bars are refused. The order of its checks never lets another bar through.\<close>

theorem validate_accepts_well_formed:
  "validate cfg now bar last_emitted = Ok () \<longleftrightarrow> well_formed_bar cfg now bar last_emitted"
  by (rule validate_Ok_iff)

end
