(* ===== verification/State_Managers.thy ===== *)
theory State_Managers
  imports Gateway_Models "HOL-Library.AList"
begin

text \<open>
  The gateway's views of orders, positions and stop orders
  (\<open>alor-gateway/src/state/orders_manager.rs\<close>, \<open>positions_manager.rs\<close>,
  \<open>stop_orders_manager.rs\<close>). Each task owns a keyed store, a \<open>synced\<close> flag and the
  timestamp of the last event; it applies one event at a time. The store is an association
  list whose order stands for the iteration order of the \<open>HashMap\<close>. What the tasks only
  write to the log is left out.
\<close>

section \<open>State and operations\<close>

record ('k, 'e) manager =
  mg_store :: "('k \<times> 'e) list"
  mg_synced :: bool
  mg_last_ts :: i64

definition manager_init :: "('k, 'e) manager" where
  "manager_init = \<lparr>mg_store = [], mg_synced = False, mg_last_ts = 0\<rparr>"

definition mark_synced :: "i64 \<Rightarrow> ('k, 'e) manager \<Rightarrow> ('k, 'e) manager" where
  "mark_synced now m = m\<lparr>mg_synced := True, mg_last_ts := now\<rparr>"

definition apply_order :: "order_event \<Rightarrow> (i64, order_event) manager \<Rightarrow> (i64, order_event) manager"
where
  "apply_order e m =
     m\<lparr>mg_store := AList.update (ord_order_id e) e (mg_store m),
       mg_synced := True, mg_last_ts := ord_ts e\<rparr>"

definition is_terminal :: "string \<Rightarrow> bool" where
  "is_terminal status =
     (let s = to_ascii_lowercase status in
      s = ''filled'' \<or> s = ''cancelled'' \<or> s = ''canceled'' \<or> s = ''rejected'')"

definition active_orders_for :: "(i64, order_event) manager \<Rightarrow> string \<Rightarrow> i64 list" where
  "active_orders_for m symbol =
     List.map_filter (\<lambda>(oid, r).
       if ord_symbol r = symbol \<and> \<not> is_terminal (ord_status r) then Some oid else None) (mg_store m)"

definition apply_position ::
  "position_event \<Rightarrow> (string, position_event) manager \<Rightarrow> (string, position_event) manager" where
  "apply_position e m =
     m\<lparr>mg_store := AList.update (pos_symbol e) e (mg_store m),
       mg_synced := True, mg_last_ts := pos_ts e\<rparr>"

text \<open>\<open>StopOrdersManager::apply_event\<close>, and the task's step that also sets \<open>synced\<close>.\<close>

definition should_replace :: "stop_order_event option \<Rightarrow> i64 \<Rightarrow> bool" where
  "should_replace cur incoming_ts =
     (case cur of
        None \<Rightarrow> True
      | Some ex \<Rightarrow> sto_ts ex \<le> 0 \<or> (incoming_ts > 0 \<and> incoming_ts \<ge> sto_ts ex))"

definition apply_stop_event ::
  "stop_order_event \<Rightarrow> (string, stop_order_event) manager \<Rightarrow> (string, stop_order_event) manager"
where
  "apply_stop_event e m =
     (let m1 = (if should_replace (map_of (mg_store m) (sto_id e)) (sto_ts e)
                then m\<lparr>mg_store := AList.update (sto_id e) e (mg_store m)\<rparr> else m)
      in if sto_ts e > 0 \<and> sto_ts e > mg_last_ts m then m1\<lparr>mg_last_ts := sto_ts e\<rparr> else m1)"

definition apply_stop_order ::
  "stop_order_event \<Rightarrow> (string, stop_order_event) manager \<Rightarrow> (string, stop_order_event) manager"
where
  "apply_stop_order e m = (apply_stop_event e m)\<lparr>mg_synced := True\<rparr>"

section \<open>The interface the gateway reads\<close>

text \<open>A store of events by key: an event may change the entry of its own key only, after
  it that key is present, and the store counts as synced.\<close>

locale event_store =
  fixes app :: "'e \<Rightarrow> 's \<Rightarrow> 's"
    and look :: "'s \<Rightarrow> 'k \<Rightarrow> 'e option"
    and key :: "'e \<Rightarrow> 'k"
    and ready :: "'s \<Rightarrow> bool"
  assumes frame: "key e \<noteq> k \<Longrightarrow> look (app e s) k = look s k"
    and own: "look (app e s) (key e) = Some e \<or>
              look (app e s) (key e) = look s (key e) \<and> look s (key e) \<noteq> None"
    and ready_app: "ready (app e s)"
begin

definition keyed :: "'s \<Rightarrow> bool" where
  "keyed s \<longleftrightarrow> (\<forall>k e. look s k = Some e \<longrightarrow> key e = k)"

lemma keyed_app: "keyed s \<Longrightarrow> keyed (app e s)"
  unfolding keyed_def by (metis frame option.inject own)

lemma keyed_fold: "keyed s \<Longrightarrow> keyed (fold app es s)"
  by (induction es arbitrary: s) (simp_all add: keyed_app)

lemma look_app_mono: "look s k \<noteq> None \<Longrightarrow> look (app e s) k \<noteq> None"
  by (metis frame option.distinct(1) own)

lemma look_fold_mono: "look s k \<noteq> None \<Longrightarrow> look (fold app es s) k \<noteq> None"
proof (induction es arbitrary: s)
  case (Cons e es)
  show ?case using Cons.IH [OF look_app_mono [OF Cons.prems]] by simp
qed simp

lemma known_fold: "e \<in> set es \<Longrightarrow> look (fold app es s) (key e) \<noteq> None"
proof (induction es arbitrary: s)
  case (Cons x es)
  have "look (app x s) (key x) \<noteq> None" using own [of x s] by auto
  then show ?case using Cons.IH Cons.prems look_fold_mono [of "app x s" "key x" es]
    by auto
qed simp

lemma fold_from_events: "look (fold app es s) k = Some e \<Longrightarrow> e \<in> set es \<or> look s k = Some e"
proof (induction es arbitrary: s)
  case (Cons x es)
  then have "e \<in> set es \<or> look (app x s) k = Some e" by simp
  then show ?case using own [of x s] frame [of x k s] by (cases "key x = k") (auto simp del: fold.simps)
qed simp

lemma ready_fold: "es \<noteq> [] \<Longrightarrow> ready (fold app es s)"
  by (induction es arbitrary: s rule: rev_induct) (simp_all add: ready_app)

end

text \<open>A store in which the last event of a key wins.\<close>

locale last_writer_store = event_store +
  assumes overwrites: "look (app e s) (key e) = Some e"
begin

lemma look_fold:
  "look (fold app es s) k =
     (case filter (\<lambda>e. key e = k) es of [] \<Rightarrow> look s k | ms \<Rightarrow> Some (last ms))"
proof (induction es rule: rev_induct)
  case (snoc e es)
  then show ?case using frame [of e k "fold app es s"] overwrites [of e "fold app es s"]
    by (auto split: list.splits)
qed simp

end

text \<open>A store in which the version of a key, once known, never goes back.\<close>

locale ordered_store = event_store app look key ready
  for app :: "'e \<Rightarrow> 's \<Rightarrow> 's" and look :: "'s \<Rightarrow> 'k \<Rightarrow> 'e option"
    and key :: "'e \<Rightarrow> 'k" and ready :: "'s \<Rightarrow> bool" +
  fixes stamp :: "'e \<Rightarrow> int"
  assumes no_rollback:
    "look s k = Some old \<Longrightarrow> 0 < stamp old \<Longrightarrow> look (app e s) k = Some new \<Longrightarrow>
       stamp old \<le> stamp new"
begin

lemma no_rollback_fold:
  "look s k = Some old \<Longrightarrow> 0 < stamp old \<Longrightarrow> look (fold app es s) k = Some new \<Longrightarrow>
     stamp old \<le> stamp new"
proof (induction es arbitrary: s old)
  case (Cons e es)
  obtain mid where mid: "look (app e s) k = Some mid"
    using Cons.prems(1) look_app_mono [of s k e] by auto
  have "stamp old \<le> stamp mid" using Cons.prems mid by (blast intro: no_rollback)
  moreover from this have "stamp mid \<le> stamp new"
    using Cons.IH [OF mid] Cons.prems(2,3) by simp
  ultimately show ?case by simp
qed simp

end

section \<open>The managers provide it\<close>

definition mg_look :: "('k, 'e) manager \<Rightarrow> 'k \<Rightarrow> 'e option" where
  "mg_look m = map_of (mg_store m)"

lemma mg_look_update:
  "mg_look (m\<lparr>mg_store := AList.update k e (mg_store m)\<rparr>) = (mg_look m)(k \<mapsto> e)"
  by (simp add: mg_look_def update_conv')

lemma mg_look_init [simp]: "mg_look manager_init k = None"
  by (simp add: mg_look_def manager_init_def)

lemma mg_look_apply_order: "mg_look (apply_order e m) = (mg_look m)(ord_order_id e \<mapsto> e)"
  by (simp add: apply_order_def mg_look_def update_conv')

lemma mg_look_apply_position: "mg_look (apply_position e m) = (mg_look m)(pos_symbol e \<mapsto> e)"
  by (simp add: apply_position_def mg_look_def update_conv')

lemma mg_look_apply_stop_order:
  "mg_look (apply_stop_order e m) =
     (if should_replace (mg_look m (sto_id e)) (sto_ts e) then (mg_look m)(sto_id e \<mapsto> e)
      else mg_look m)"
  by (simp add: apply_stop_order_def apply_stop_event_def mg_look_def update_conv' Let_def)

lemma synced_apply [simp]:
  "mg_synced (apply_order r mo)" "mg_synced (apply_position p mp)"
  "mg_synced (apply_stop_order so ms)"
  by (simp_all add: apply_order_def apply_position_def apply_stop_order_def)

interpretation orders: last_writer_store apply_order mg_look ord_order_id mg_synced
  by unfold_locales (auto simp: mg_look_apply_order)

interpretation positions: last_writer_store apply_position mg_look pos_symbol mg_synced
  by unfold_locales (auto simp: mg_look_apply_position)

interpretation stops: ordered_store apply_stop_order mg_look sto_id mg_synced sto_ts
  by unfold_locales
     (auto simp: mg_look_apply_stop_order should_replace_def
       split: if_splits option.splits)

section \<open>Further facts\<close>

definition mg_wf :: "('k, 'e) manager \<Rightarrow> bool" where
  "mg_wf m \<longleftrightarrow> distinct (map fst (mg_store m))"

lemma mg_wf_ops [inv_intros]:
  "mg_wf manager_init"
  "mg_wf mo \<Longrightarrow> mg_wf (apply_order r mo)"
  "mg_wf mp \<Longrightarrow> mg_wf (apply_position p mp)"
  "mg_wf ms \<Longrightarrow> mg_wf (apply_stop_order so ms)"
  "mg_wf m \<Longrightarrow> mg_wf (mark_synced now m)"
  by (simp_all add: mg_wf_def manager_init_def apply_order_def apply_position_def
      apply_stop_order_def apply_stop_event_def mark_synced_def Let_def distinct_update)

lemma mg_wf_fold [inv_intros]:
  "mg_wf mo \<Longrightarrow> mg_wf (fold apply_order rs mo)"
  by (induction rs arbitrary: mo) (simp_all add: mg_wf_ops)

lemma active_orders_iff:
  assumes "mg_wf m"
  shows "oid \<in> set (active_orders_for m s) \<longleftrightarrow>
    (\<exists>r. mg_look m oid = Some r \<and> ord_symbol r = s \<and> \<not> is_terminal (ord_status r))"
proof -
  have "mg_look m oid = Some r \<longleftrightarrow> (oid, r) \<in> set (mg_store m)" for r
    using assms by (simp add: mg_look_def mg_wf_def)
  then show ?thesis by (force simp: active_orders_for_def set_map_filter_iff split: if_splits)
qed

lemma last_ts_monotone:
  "mg_last_ts m \<le> mg_last_ts (apply_stop_order e m)"
  by (simp add: apply_stop_order_def apply_stop_event_def Let_def)

lemma last_ts_covers: "0 < sto_ts e \<Longrightarrow> sto_ts e \<le> mg_last_ts (apply_stop_order e m)"
  by (auto simp: apply_stop_order_def apply_stop_event_def Let_def)

section \<open>Properties\<close>

text \<open>C23. However stop-order events are delayed or reordered, the version the gateway holds
  for a stop order never goes back in time: after any further events the entry is still
  there and is at least as new as a dated entry held before.\<close>

theorem stop_order_never_rolls_back:
  assumes "mg_look m sid = Some old" "0 < sto_ts old"
  shows "\<exists>new. mg_look (fold apply_stop_order events m) sid = Some new \<and> sto_ts old \<le> sto_ts new"
proof -
  have "mg_look (fold apply_stop_order events m) sid \<noteq> None"
    using assms(1) by (intro stops.look_fold_mono) simp
  then show ?thesis using stops.no_rollback_fold assms by blast
qed

definition sample_stop :: "string \<Rightarrow> i64 \<Rightarrow> stop_order_event" where
  "sample_stop status ts =
     \<lparr>sto_id = ''s1'', sto_exchange_order_id = None, sto_symbol = ''IMOEXF'', sto_status = status,
      sto_side = ''buy'', sto_qty = Fin 1, sto_filled = Fin 0, sto_stop_price = Fin 100,
      sto_price = Fin 100, sto_existing = False, sto_comment = None, sto_end_time = None,
      sto_ts = ts\<rparr>"

lemma stop_order_never_rolls_back_witness:
  "\<exists>new. mg_look (fold apply_stop_order [sample_stop ''canceled'' 900]
       (apply_stop_order (sample_stop ''working'' 1000) manager_init)) ''s1'' = Some new
     \<and> sto_ts (sample_stop ''working'' 1000) \<le> sto_ts new"
  by (rule stop_order_never_rolls_back)
     (simp_all add: mg_look_apply_stop_order should_replace_def sample_stop_def)

text \<open>After any sequence of order events the orders listed as active for a symbol are
  exactly those whose last event has that symbol and a status other than filled, cancelled
  or rejected, in any letter case.\<close>

theorem active_orders_last_event:
  "set (active_orders_for (fold apply_order events manager_init) s) =
     {oid. \<exists>r. filter (\<lambda>e. ord_order_id e = oid) events \<noteq> []
            \<and> r = last (filter (\<lambda>e. ord_order_id e = oid) events)
            \<and> ord_symbol r = s \<and> \<not> is_terminal (ord_status r)}"
proof -
  have wf: "mg_wf (fold apply_order events manager_init)"
    by (intro mg_wf_fold mg_wf_ops)
  have look: "mg_look (fold apply_order events manager_init) oid =
      (case filter (\<lambda>e. ord_order_id e = oid) events of [] \<Rightarrow> None | ms \<Rightarrow> Some (last ms))" for oid
    by (simp add: orders.look_fold split: list.split)
  show ?thesis
    by (auto simp: active_orders_iff [OF wf] look split: list.split_asm list.split)
qed

end
