(* ===== verification/Chrono.thy ===== *)
theory Chrono
  imports Prelude
begin

text \<open>
  The calendar values the source takes from the \<open>chrono\<close> crate, as the numbers they
  denote: a \<open>NaiveDate\<close> is the day number with 1970-01-01 as day 0, a \<open>NaiveTime\<close> the
  nanoseconds since midnight, a \<open>NaiveDateTime\<close> the nanoseconds since 1970-01-01T00:00:00.
  Comparison and subtraction are those of the numbers. Which offsets and instants the crate
  accepts is not fixed here: the definitions that depend on it take a \<open>chrono_lib\<close>.
\<close>

type_synonym naive_date = int
type_synonym naive_time = int
type_synonym naive_datetime = int

abbreviation ns_per_sec :: int where "ns_per_sec \<equiv> 1000000000"
abbreviation ns_per_day :: int where "ns_per_day \<equiv> 86400000000000"

datatype weekday = Mon | Tue | Wed | Thu | Fri | Sat | Sun

text \<open>1970-01-01 was a Thursday.\<close>

definition weekday_of :: "naive_date \<Rightarrow> weekday" where
  "weekday_of d =
     (let k = (d + 3) mod 7 in
      if k = 0 then Mon else if k = 1 then Tue else if k = 2 then Wed else if k = 3 then Thu
      else if k = 4 then Fri else if k = 5 then Sat else Sun)"

definition is_weekend_day :: "weekday \<Rightarrow> bool" where
  "is_weekend_day d \<longleftrightarrow> d = Sat \<or> d = Sun"

definition dt_date :: "naive_datetime \<Rightarrow> naive_date" where
  "dt_date dt = dt div ns_per_day"

definition dt_time :: "naive_datetime \<Rightarrow> naive_time" where
  "dt_time dt = dt mod ns_per_day"

definition dt_hour :: "naive_datetime \<Rightarrow> int" where
  "dt_hour dt = dt_time dt div 3600000000000"

definition dt_minute :: "naive_datetime \<Rightarrow> int" where
  "dt_minute dt = dt_time dt div 60000000000 mod 60"

definition time_hour :: "naive_time \<Rightarrow> int" where
  "time_hour t = t div 3600000000000"

definition time_minute :: "naive_time \<Rightarrow> int" where
  "time_minute t = t div 60000000000 mod 60"

text \<open>\<open>date.and_time(time)\<close>, and \<open>h:m:s\<close> as a time of day.\<close>

definition and_time :: "naive_date \<Rightarrow> naive_time \<Rightarrow> naive_datetime" where
  "and_time d t = d * ns_per_day + t"

definition hms :: "int \<Rightarrow> int \<Rightarrow> int \<Rightarrow> naive_time" where
  "hms h m s = (h * 3600 + m * 60 + s) * ns_per_sec"

definition of_timestamp :: "i64 \<Rightarrow> naive_datetime" where
  "of_timestamp ts = ts * ns_per_sec"

text \<open>\<open>signed_duration_since(..).num_seconds()\<close> truncates towards zero.\<close>

definition dur_seconds :: "int \<Rightarrow> int" where
  "dur_seconds ns = trunc_div ns ns_per_sec"

text \<open>
  What the crate decides: the offsets \<open>FixedOffset::east_opt\<close> accepts and the Unix
  seconds \<open>Utc.timestamp_opt\<close> accepts.
\<close>

record chrono_lib =
  east_ok :: "i32 \<Rightarrow> bool"
  utc_ok :: "i64 \<Rightarrow> bool"

text \<open>The documented contract of \<open>east_opt\<close>: offsets strictly within a day.\<close>

definition chrono_offsets_documented :: "chrono_lib \<Rightarrow> bool" where
  "chrono_offsets_documented ch \<longleftrightarrow> (\<forall>s. east_ok ch s \<longleftrightarrow> - 86400 < s \<and> s < 86400)"

definition chrono_example :: chrono_lib where
  "chrono_example = \<lparr>east_ok = (\<lambda>s. - 86400 < s \<and> s < 86400),
     utc_ok = (\<lambda>t. - 8334601228800 \<le> t \<and> t \<le> 8210266876799)\<rparr>"

lemma chrono_example_documented [simp]: "chrono_offsets_documented chrono_example"
  by (simp add: chrono_offsets_documented_def chrono_example_def)

lemma dt_date_time: "dt = and_time (dt_date dt) (dt_time dt)"
  by (simp add: and_time_def dt_date_def dt_time_def)

lemma dt_time_range: "0 \<le> dt_time dt" "dt_time dt < ns_per_day"
  by (simp_all add: dt_time_def)

lemma dt_of_and_time:
  assumes "0 \<le> t" "t < ns_per_day"
  shows "dt_date (and_time d t) = d" "dt_time (and_time d t) = t"
  using assms by (simp_all add: and_time_def dt_date_def dt_time_def)

lemma weekday_of_week [simp]: "weekday_of (d + 7) = weekday_of d"
proof -
  have "(d + 7 + 3) mod 7 = (d + 3) mod 7" by presburger
  then show ?thesis by (simp add: weekday_of_def)
qed

lemma dt_date_mono: "a \<le> b \<Longrightarrow> dt_date a \<le> dt_date b"
  by (simp add: dt_date_def zdiv_mono1)

lemma dt_date_add_days: "dt_date (dt + k * ns_per_day) = dt_date dt + k"
  by (simp add: dt_date_def)

lemma dt_time_add_days: "dt_time (dt + k * ns_per_day) = dt_time dt"
  by (simp add: dt_time_def)

lemma dur_seconds_nonneg: "0 \<le> x \<Longrightarrow> dur_seconds x = x div ns_per_sec"
  by (cases "x = 0") (auto simp: dur_seconds_def trunc_div_def)

lemma dur_seconds_mono: "x \<le> y \<Longrightarrow> dur_seconds x \<le> dur_seconds y"
proof -
  assume xy: "x \<le> y"
  consider "0 \<le> x" | "x < 0" "0 \<le> y" | "y < 0" by linarith
  then show ?thesis
  proof cases
    case 1 then show ?thesis using xy by (simp add: dur_seconds_nonneg zdiv_mono1)
  next
    case 2
    then have "dur_seconds x \<le> 0" "0 \<le> dur_seconds y"
      by (auto simp: dur_seconds_nonneg dur_seconds_def trunc_div_def sgn_if pos_imp_zdiv_nonneg_iff)
    then show ?thesis by linarith
  next
    case 3
    then have "(- y) div ns_per_sec \<le> (- x) div ns_per_sec" using xy by (intro zdiv_mono1) auto
    then show ?thesis using 3 xy by (simp add: dur_seconds_def trunc_div_def sgn_if)
  qed
qed

end
