(* ===== verification/Scheduler.thy ===== *)
theory Scheduler
  imports Chrono
begin

text \<open>
  The trading calendar of \<open>alor-types/src/scheduler.rs\<close>: trading periods, the state of
  the market at a local time, its evaluation at a Unix timestamp through the configured
  offset, and the bar silence check the gateway and the runtime share.
\<close>

section \<open>Data\<close>

datatype market_state = Open | Weekend | OutsideSession | Break1 | Break2

record trading_periods =
  session_start :: naive_time
  session_end :: naive_time
  break_start_1 :: naive_time
  break_end_1 :: naive_time
  break_start_2 :: naive_time
  break_end_2 :: naive_time
  weekends_off :: bool
  timezone_offset_hours :: i32

record scheduler =
  sched_config :: trading_periods
  sched_tz :: i32

section \<open>Operations\<close>

definition scheduler_new :: "trading_periods \<Rightarrow> scheduler" where
  "scheduler_new config = \<lparr>sched_config = config, sched_tz = timezone_offset_hours config\<rparr>"

definition new_with_fallback_offset_hours :: "trading_periods \<Rightarrow> i32 \<Rightarrow> scheduler" where
  "new_with_fallback_offset_hours config fallback =
     \<lparr>sched_config = config,
      sched_tz = (if timezone_offset_hours config = 0 then fallback
                  else timezone_offset_hours config)\<rparr>"

text \<open>The wall-clock instant in the configured zone, as nanoseconds.\<close>

definition local_datetime_utc :: "chrono_lib \<Rightarrow> scheduler \<Rightarrow> i64 \<Rightarrow> naive_datetime option" where
  "local_datetime_utc ch s ts =
     (let off = sat_mul_i32 (sched_tz s) 3600 in
      if \<not> east_ok ch off then None
      else if \<not> utc_ok ch ts then None
      else Some (of_timestamp (ts + off)))"

definition in_window :: "naive_time \<Rightarrow> naive_time \<Rightarrow> naive_time \<Rightarrow> bool" where
  "in_window now start end_t =
     (if start \<le> end_t then start \<le> now \<and> now < end_t else start \<le> now \<or> now < end_t)"

definition market_state_at :: "scheduler \<Rightarrow> naive_time \<Rightarrow> weekday \<Rightarrow> market_state" where
  "market_state_at s t d =
     (let c = sched_config s in
      if weekends_off c \<and> is_weekend_day d then Weekend
      else if \<not> in_window t (session_start c) (session_end c) then OutsideSession
      else if in_window t (break_start_1 c) (break_end_1 c) then Break1
      else if in_window t (break_start_2 c) (break_end_2 c) then Break2
      else Open)"

definition is_market_open :: "scheduler \<Rightarrow> naive_time \<Rightarrow> weekday \<Rightarrow> bool" where
  "is_market_open s t d \<longleftrightarrow> market_state_at s t d = Open"

definition market_state_utc :: "chrono_lib \<Rightarrow> scheduler \<Rightarrow> i64 \<Rightarrow> market_state" where
  "market_state_utc ch s ts =
     (case local_datetime_utc ch s ts of
        None \<Rightarrow> OutsideSession
      | Some loc \<Rightarrow> market_state_at s (dt_time loc) (weekday_of (dt_date loc)))"

definition is_market_open_utc :: "chrono_lib \<Rightarrow> scheduler \<Rightarrow> i64 \<Rightarrow> bool" where
  "is_market_open_utc ch s ts \<longleftrightarrow> market_state_utc ch s ts = Open"

text \<open>\<open>now.and_utc().timestamp()\<close> is the floor of the nanoseconds to seconds.\<close>

definition check_silence_period_at ::
  "chrono_lib \<Rightarrow> scheduler \<Rightarrow> naive_datetime \<Rightarrow> naive_datetime \<Rightarrow> i64 \<Rightarrow> bool" where
  "check_silence_period_at ch s now last_bar max_silence =
     (if market_state_utc ch s (now div ns_per_sec) \<noteq> Open then True
      else dur_seconds (now - last_bar) \<le> max_silence)"

section \<open>Lemmas\<close>

text \<open>Two windows that share their ends in opposite order split the day between them.\<close>

lemma in_window_complement:
  "start \<noteq> end_t \<Longrightarrow> in_window t start end_t \<longleftrightarrow> \<not> in_window t end_t start"
  by (auto simp: in_window_def)

lemma in_window_empty [simp]: "\<not> in_window t start start"
  by (simp add: in_window_def)

lemma market_state_at_Open_iff:
  "market_state_at s t d = Open \<longleftrightarrow>
     \<not> (weekends_off (sched_config s) \<and> is_weekend_day d)
     \<and> in_window t (session_start (sched_config s)) (session_end (sched_config s))
     \<and> \<not> in_window t (break_start_1 (sched_config s)) (break_end_1 (sched_config s))
     \<and> \<not> in_window t (break_start_2 (sched_config s)) (break_end_2 (sched_config s))"
  by (simp add: market_state_at_def Let_def)

lemma local_shift_week:
  "of_timestamp (ts + 604800 + off) = of_timestamp (ts + off) + 7 * ns_per_day"
  by (simp add: of_timestamp_def algebra_simps)

lemma market_state_local_week:
  "market_state_at s (dt_time (loc + 7 * ns_per_day)) (weekday_of (dt_date (loc + 7 * ns_per_day)))
   = market_state_at s (dt_time loc) (weekday_of (dt_date loc))"
  using dt_date_add_days [of loc 7] dt_time_add_days [of loc 7] by simp

text \<open>The silence alarm fires only in an open market.\<close>

lemma silence_alarm_iff:
  "\<not> check_silence_period_at ch s now last_bar m \<longleftrightarrow>
     is_market_open_utc ch s (now div ns_per_sec) \<and> m < dur_seconds (now - last_bar)"
  by (auto simp: check_silence_period_at_def is_market_open_utc_def)

section \<open>Properties\<close>

text \<open>The calendar is weekly: two timestamps a whole week apart that the library can
  represent find the market in the same state.\<close>

theorem market_state_weekly:
  assumes "utc_ok ch ts" "utc_ok ch (ts + 604800)"
  shows "market_state_utc ch s (ts + 604800) = market_state_utc ch s ts"
proof (cases "east_ok ch (sat_mul_i32 (sched_tz s) 3600)")
  case True
  then show ?thesis
    using assms market_state_local_week
    by (simp add: market_state_utc_def local_datetime_utc_def Let_def local_shift_week)
qed (simp add: market_state_utc_def local_datetime_utc_def)

definition sample_periods :: trading_periods where
  "sample_periods = \<lparr>session_start = hms 9 0 0, session_end = hms 23 50 0,
     break_start_1 = hms 14 0 0, break_end_1 = hms 14 5 0, break_start_2 = hms 18 45 0,
     break_end_2 = hms 19 5 0, weekends_off = True, timezone_offset_hours = 3\<rparr>"

lemma market_state_weekly_witness:
  "market_state_utc chrono_example (scheduler_new sample_periods) (1700000000 + 604800)
     = market_state_utc chrono_example (scheduler_new sample_periods) 1700000000"
  by (rule market_state_weekly) (simp_all add: chrono_example_def)

end
