(* ===== verification/Bar_Pipeline.thy ===== *)
theory Bar_Pipeline
  imports Data_Quality State_Managers Scheduler "HOL-Library.List_Lexorder" "HOL-Library.Char_ord"
begin

text \<open>
  The bar task of \<open>alor-gateway/src/supervisor.rs\<close>: every bar the router sends is counted,
  held back while a gap is being filled, or validated and emitted; when every stream is ready
  the held bars are flushed and the gateway turns live. The tasks of the supervisor share one
  state, the record \<open>gateway\<close>; one iteration of a task is one step.

  Whether a send on the bar channel finds its receiver is the environment's: \<open>ok n\<close> is the
  outcome of the n-th send. The bars sent and the bars published are kept as lists, so that
  the order in which they leave can be stated.
\<close>

section \<open>Shared state\<close>

datatype gateway_phase = SyncingHistory | Reconnecting | SyncingGap | LiveReady

datatype resync_mode = Cold | Warm

text \<open>The fields of \<open>HealthState\<close> (\<open>health.rs\<close>) the supervisor's tasks read or write.\<close>

record health_state =
  h_ws_connected :: bool
  h_cws_authorized :: bool
  h_last_bar_ts :: i64
  h_last_bar_age_sec :: u64
  h_last_positions_ts :: i64
  h_last_orders_ts :: i64
  h_gateway_phase :: gateway_phase
  h_readiness :: bool
  h_backpressure_lagged :: bool
  h_ws_last_rx_ts :: i64
  h_ws_last_rx_age_sec :: u64
  h_ws_reconnects_total :: u64
  h_last_resync_mode :: resync_mode
  h_last_gap_backfill_sec :: u64
  h_last_gap_backfill_bars :: u64
  h_active_subscriptions :: u32
  h_desired_subscriptions :: u32
  h_orders_ws_events_total :: u64
  h_scheduler_state :: "market_state option"
  h_orders_ws_status_total :: "(string \<times> u64) list"

record backfill_plan =
  bp_mode :: resync_mode
  bp_from_ts :: "i64 option"
  bp_gap_sec :: u64

definition backfill_plan_cold :: backfill_plan where
  "backfill_plan_cold = \<lparr>bp_mode = Cold, bp_from_ts = None, bp_gap_sec = 0\<rparr>"

record gateway =
  gw_generation :: u64
  gw_phase :: gateway_phase
  gw_last_bar_instant :: int
  gw_last_bar_ts :: "string \<Rightarrow> i64 option"
  gw_last_emitted :: "string \<Rightarrow> i64 option"
  gw_live_symbols :: "string list"
  gw_resync :: bool
  gw_stats :: bar_quality_stats
  gw_buffered :: "string \<Rightarrow> u64 option"
  gw_pending_acks :: pending_acks
  gw_pending_live :: "(string \<times> bar_event list) list"
  gw_history_min :: "i64 option"
  gw_history_max :: "i64 option"
  gw_history_count :: u64
  gw_logged_live :: bool
  gw_health :: health_state
  gw_plan :: backfill_plan
  gw_orders :: "(i64, order_event) manager"
  gw_positions :: "(string, position_event) manager"
  gw_stops :: "(string, stop_order_event) manager"
  gw_request_map :: "i64 \<Rightarrow> uuid option"
  gw_sends :: nat
  gw_sent :: "bar_event list"
  gw_published :: "bar_event list"
  gw_ws_dead :: bool
  gw_main_dead :: bool

text \<open>What the tasks read from the configuration.\<close>

record gateway_config =
  gc_symbols :: "string list"
  gc_tf_sec :: i64
  gc_warm_max_gap_sec :: u64
  gc_padding_bars :: nat
  gc_max_silence_bars_sec :: u64
  gc_bar_silence_resync_min_sec :: u64
  gc_ws_idle_timeout_sec :: u64

section \<open>Operations\<close>

text \<open>\<open>transition_phase\<close> sends the phase unless it is the current one.\<close>

definition transition_phase :: "gateway_phase \<Rightarrow> gateway \<Rightarrow> gateway" where
  "transition_phase next_phase gw =
     (if gw_phase gw = next_phase then gw else gw\<lparr>gw_phase := next_phase\<rparr>)"

datatype emit_result = Emitted | EmDuplicateOrOld | SendFailed

definition emit_bar :: "(nat \<Rightarrow> bool) \<Rightarrow> bar_event \<Rightarrow> gateway \<Rightarrow> emit_result \<times> gateway" where
  "emit_bar ok bar gw =
     (if at_or_before (bar_close_time bar) (gw_last_emitted gw (bar_symbol bar))
        then (EmDuplicateOrOld, gw)
      else let gw1 = gw\<lparr>gw_sends := Suc (gw_sends gw)\<rparr> in
        if ok (gw_sends gw) then
          (Emitted, gw1\<lparr>gw_sent := gw_sent gw @ [bar],
             gw_last_emitted := (gw_last_emitted gw)(bar_symbol bar := Some (bar_close_time bar))\<rparr>)
        else (SendFailed, gw1))"

definition stats_update :: "(bar_quality_stats \<Rightarrow> bar_quality_stats) \<Rightarrow> gateway \<Rightarrow> gateway" where
  "stats_update f gw = gw\<lparr>gw_stats := f (gw_stats gw)\<rparr>"

definition publish_emitted :: "bar_event \<Rightarrow> gateway \<Rightarrow> gateway" where
  "publish_emitted bar gw =
     (stats_update (record_emitted (bar_symbol bar) (bar_close_time bar)) gw)
       \<lparr>gw_published := gw_published gw @ [bar]\<rparr>"

text \<open>The match on the result of \<open>emit_bar\<close>, the same in the task and in the flush; the
  flag says whether the bar went out.\<close>

definition emit_or_drop :: "(nat \<Rightarrow> bool) \<Rightarrow> bar_event \<Rightarrow> gateway \<Rightarrow> bool \<times> gateway" where
  "emit_or_drop ok bar gw =
     (case emit_bar ok bar gw of
        (Emitted, gw1) \<Rightarrow> (True, publish_emitted bar gw1)
      | (EmDuplicateOrOld, gw1) \<Rightarrow>
          (False, stats_update (record_dropped (bar_symbol bar) DuplicateOrOld) gw1)
      | (SendFailed, gw1) \<Rightarrow>
          (False, stats_update (record_dropped (bar_symbol bar) EmitFailed) gw1))"

definition flush_one :: "(nat \<Rightarrow> bool) \<Rightarrow> bar_event \<Rightarrow> gateway \<Rightarrow> gateway" where
  "flush_one ok bar gw =
     (case emit_or_drop ok bar gw of
        (True, gw1) \<Rightarrow> gw1\<lparr>gw_logged_live := True\<rparr>
      | (False, gw1) \<Rightarrow> gw1)"

definition flush_symbol :: "(nat \<Rightarrow> bool) \<Rightarrow> string \<Rightarrow> gateway \<Rightarrow> gateway" where
  "flush_symbol ok symbol gw =
     (case map_of (gw_pending_live gw) symbol of
        None \<Rightarrow> gw
      | Some bars \<Rightarrow>
          fold (flush_one ok) bars
            (gw\<lparr>gw_pending_live := AList.delete symbol (gw_pending_live gw),
                gw_buffered := (case gw_buffered gw symbol of
                    None \<Rightarrow> gw_buffered gw
                  | Some n \<Rightarrow> (gw_buffered gw)(symbol := Some (sat_subu n (length bars))))\<rparr>))"

definition flush_pending_live :: "(nat \<Rightarrow> bool) \<Rightarrow> gateway \<Rightarrow> gateway" where
  "flush_pending_live ok gw =
     (let pending = map (\<lambda>(s, bars). (s, sort_key bar_close_time bars)) (gw_pending_live gw)
      in fold (flush_symbol ok) (sort (map fst pending)) (gw\<lparr>gw_pending_live := pending\<rparr>))"

definition bar_arrive :: "int \<Rightarrow> bar_event \<Rightarrow> gateway \<Rightarrow> gateway" where
  "bar_arrive inst bar gw =
     gw\<lparr>gw_stats := record_received (bar_symbol bar) (gw_stats gw),
        gw_health := (gw_health gw)\<lparr>h_last_bar_ts := bar_close_time bar\<rparr>,
        gw_last_bar_instant := inst,
        gw_last_bar_ts := (gw_last_bar_ts gw)(bar_symbol bar := Some (bar_close_time bar)),
        gw_live_symbols := (if bar_origin bar = Live
                            then List.insert (bar_symbol bar) (gw_live_symbols gw)
                            else gw_live_symbols gw)\<rparr>"

definition buffer_live :: "bar_event \<Rightarrow> gateway \<Rightarrow> gateway" where
  "buffer_live bar gw =
     gw\<lparr>gw_pending_live :=
          AList.map_default (bar_symbol bar) [bar] (\<lambda>bs. bs @ [bar]) (gw_pending_live gw),
        gw_buffered := (gw_buffered gw)(bar_symbol bar :=
          Some (Suc (case gw_buffered gw (bar_symbol bar) of None \<Rightarrow> 0 | Some n \<Rightarrow> n)))\<rparr>"

definition live_ready :: "gateway_config \<Rightarrow> gateway \<Rightarrow> bool" where
  "live_ready cfg gw \<longleftrightarrow>
     length (gw_live_symbols gw) \<ge> length (gc_symbols cfg)
     \<and> mg_synced (gw_positions gw) \<and> mg_synced (gw_orders gw) \<and> mg_synced (gw_stops gw)
     \<and> h_active_subscriptions (gw_health gw) \<ge> h_desired_subscriptions (gw_health gw)
     \<and> h_cws_authorized (gw_health gw)"

definition after_emit :: "bar_event \<Rightarrow> gateway \<Rightarrow> gateway" where
  "after_emit bar gw =
     (case bar_origin bar of
        Live \<Rightarrow> gw\<lparr>gw_logged_live := True\<rparr>
      | og \<Rightarrow>
         let gw1 = gw\<lparr>gw_history_count := Suc (gw_history_count gw),
               gw_history_min := Some (case gw_history_min gw of
                   None \<Rightarrow> bar_close_time bar | Some m \<Rightarrow> min m (bar_close_time bar)),
               gw_history_max := Some (case gw_history_max gw of
                   None \<Rightarrow> bar_close_time bar | Some m \<Rightarrow> max m (bar_close_time bar))\<rparr>
         in if og = HistoryGap then
              gw1\<lparr>gw_health := (gw_health gw1)\<lparr>h_last_gap_backfill_bars :=
                    sat_inc (h_last_gap_backfill_bars (gw_health gw1))\<rparr>\<rparr>
            else gw1)"

definition turn_live :: "(nat \<Rightarrow> bool) \<Rightarrow> gateway \<Rightarrow> gateway" where
  "turn_live ok gw =
     (if gw_phase gw = SyncingGap then
        (transition_phase LiveReady (flush_pending_live ok gw))\<lparr>gw_resync := False\<rparr>
      else if gw_phase gw \<noteq> LiveReady then
        (transition_phase LiveReady gw)\<lparr>gw_resync := False\<rparr>
      else gw)"

definition bar_step ::
  "(nat \<Rightarrow> bool) \<Rightarrow> gateway_config \<Rightarrow> i64 \<Rightarrow> int \<Rightarrow> bar_event \<Rightarrow> gateway \<Rightarrow> gateway" where
  "bar_step ok cfg now inst bar gw =
     (let gw1 = bar_arrive inst bar gw;
          buffered = (gw_phase gw1 = SyncingGap \<and> bar_origin bar = Live);
          gw2 = (if buffered then buffer_live bar gw1 else gw1);
          ready = live_ready cfg gw2
      in if buffered then (if ready then turn_live ok gw2 else gw2)
         else (case validate (bar_validation_config_new (gc_tf_sec cfg)) now bar
                      (gw_last_emitted gw2 (bar_symbol bar)) of
                 Inl reason \<Rightarrow> stats_update (record_dropped (bar_symbol bar) reason) gw2
               | Inr _ \<Rightarrow>
                  (case emit_or_drop ok bar gw2 of
                     (False, gw3) \<Rightarrow> gw3
                   | (True, gw3) \<Rightarrow>
                       let gw4 = after_emit bar gw3 in if ready then turn_live ok gw4 else gw4)))"

section \<open>Emitted bars leave in order\<close>

text \<open>The close times of a symbol among the bars of a list, in order.\<close>

definition closes :: "string \<Rightarrow> bar_event list \<Rightarrow> i64 list" where
  "closes s bars = map bar_close_time (filter (\<lambda>b. bar_symbol b = s) bars)"

lemma closes_append_one [simp]:
  "closes s (bs @ [b]) = (if bar_symbol b = s then closes s bs @ [bar_close_time b] else closes s bs)"
  by (simp add: closes_def)

lemma closes_Nil [simp]: "closes s [] = []"
  by (simp add: closes_def)

text \<open>The high-water mark of a symbol is the close time of the last bar sent for it.\<close>

definition marked :: "i64 list \<Rightarrow> i64 option \<Rightarrow> bool" where
  "marked ts mark \<longleftrightarrow> ascending ts \<and>
     (case mark of None \<Rightarrow> ts = [] | Some t \<Rightarrow> t \<in> set ts \<and> (\<forall>u\<in>set ts. u \<le> t))"

definition in_order :: "gateway \<Rightarrow> bool" where
  "in_order gw \<longleftrightarrow> gw_published gw = gw_sent gw \<and>
     (\<forall>s. marked (closes s (gw_sent gw)) (gw_last_emitted gw s))"

lemma marked_send:
  "marked ts mark \<Longrightarrow> \<not> at_or_before t mark \<Longrightarrow> marked (ts @ [t]) (Some t)"
  by (cases mark) (auto simp: marked_def sorted_wrt_append)

lemma in_order_cong:
  "gw_published g' = gw_published g \<Longrightarrow> gw_sent g' = gw_sent g
   \<Longrightarrow> gw_last_emitted g' = gw_last_emitted g \<Longrightarrow> in_order g' = in_order g"
  by (simp add: in_order_def)

lemma in_order_emit_or_drop [inv_intros]:
  assumes "in_order gw"
  shows "in_order (snd (emit_or_drop ok bar gw))"
proof (cases "at_or_before (bar_close_time bar) (gw_last_emitted gw (bar_symbol bar))
    \<or> \<not> ok (gw_sends gw)")
  case True
  then show ?thesis using assms
    by (auto simp: emit_or_drop_def emit_bar_def stats_update_def Let_def in_order_def)
next
  case False
  then show ?thesis using assms marked_send
    by (auto simp: emit_or_drop_def emit_bar_def publish_emitted_def stats_update_def Let_def
        in_order_def)
qed

lemma flush_one_alt:
  "flush_one ok bar gw =
     (let r = emit_or_drop ok bar gw in if fst r then (snd r)\<lparr>gw_logged_live := True\<rparr> else snd r)"
  by (simp add: flush_one_def case_prod_beta Let_def split: bool.splits)

lemma in_order_flush_one [inv_intros]: "in_order gw \<Longrightarrow> in_order (flush_one ok bar gw)"
  using in_order_emit_or_drop [of gw ok bar] by (simp add: flush_one_alt Let_def in_order_def)

lemma fold_invariant: "(\<And>x s. P s \<Longrightarrow> P (f x s)) \<Longrightarrow> P s \<Longrightarrow> P (fold f xs s)"
  by (induction xs arbitrary: s) simp_all

lemma in_order_flush_symbol [inv_intros]: "in_order gw \<Longrightarrow> in_order (flush_symbol ok s gw)"
  unfolding flush_symbol_def
  by (auto split: option.split intro!: fold_invariant [where P = in_order] in_order_flush_one)
     (simp_all add: in_order_def)

lemma in_order_flush [inv_intros]: "in_order gw \<Longrightarrow> in_order (flush_pending_live ok gw)"
  unfolding flush_pending_live_def Let_def
  by (intro fold_invariant [where P = in_order] in_order_flush_symbol) (simp_all add: in_order_def)

lemma in_order_turn_live [inv_intros]: "in_order gw \<Longrightarrow> in_order (turn_live ok gw)"
  using in_order_flush [of gw ok] by (auto simp: turn_live_def transition_phase_def in_order_def)

lemma in_order_after_emit [simp]: "in_order (after_emit bar gw) = in_order gw"
  by (auto simp: after_emit_def in_order_def Let_def split: data_origin.splits)

lemma in_order_pre [simp]:
  "in_order (bar_arrive inst bar gw) = in_order gw"
  "in_order (buffer_live bar gw) = in_order gw"
  "in_order (stats_update f gw) = in_order gw"
  by (simp_all add: bar_arrive_def buffer_live_def stats_update_def in_order_def)

text \<open>The three outcomes of one iteration of the bar task.\<close>

lemma bar_step_cases:
  obtains
    (buffered) g where
      "g = buffer_live bar (bar_arrive inst bar gw)" "gw_phase gw = SyncingGap"
      "bar_origin bar = Live"
      "bar_step ok cfg now inst bar gw = (if live_ready cfg g then turn_live ok g else g)"
  | (rejected) reason where
      "bar_step ok cfg now inst bar gw =
         stats_update (record_dropped (bar_symbol bar) reason) (bar_arrive inst bar gw)"
  | (dropped)
      "\<not> fst (emit_or_drop ok bar (bar_arrive inst bar gw))"
      "bar_step ok cfg now inst bar gw = snd (emit_or_drop ok bar (bar_arrive inst bar gw))"
  | (sent) g where
      "validate (bar_validation_config_new (gc_tf_sec cfg)) now bar
         (gw_last_emitted gw (bar_symbol bar)) = Ok ()"
      "fst (emit_or_drop ok bar (bar_arrive inst bar gw))"
      "g = after_emit bar (snd (emit_or_drop ok bar (bar_arrive inst bar gw)))"
      "bar_step ok cfg now inst bar gw =
         (if live_ready cfg (bar_arrive inst bar gw) then turn_live ok g else g)"
proof -
  have ph: "gw_phase (bar_arrive inst bar gw) = gw_phase gw"
      "gw_last_emitted (bar_arrive inst bar gw) = gw_last_emitted gw"
    by (simp_all add: bar_arrive_def)
  show ?thesis
  proof (cases "gw_phase gw = SyncingGap \<and> bar_origin bar = Live")
    case True
    show ?thesis
      by (rule buffered [OF refl]) (use True in \<open>auto simp: bar_step_def Let_def ph\<close>)
  next
    case False
    show ?thesis
    proof (cases "validate (bar_validation_config_new (gc_tf_sec cfg)) now bar
         (gw_last_emitted gw (bar_symbol bar))")
      case (Inl reason)
      then show ?thesis using False by (intro rejected [of reason]) (auto simp: bar_step_def Let_def ph)
    next
      case (Inr u)
      then show ?thesis
      proof (cases "fst (emit_or_drop ok bar (bar_arrive inst bar gw))")
        case True
        then show ?thesis using False Inr
          by (intro sent) (auto simp: bar_step_def Let_def ph case_prod_beta)
      next
        case unsent: False
        then show ?thesis using False Inr
          by (intro dropped) (auto simp: bar_step_def Let_def ph case_prod_beta)
      qed
    qed
  qed
qed

lemma in_order_bar_step [inv_intros]:
  assumes "in_order gw"
  shows "in_order (bar_step ok cfg now inst bar gw)"
  by (rule bar_step_cases [of bar inst gw ok cfg now])
     (use assms in \<open>simp_all add: in_order_turn_live in_order_emit_or_drop\<close>)

section \<open>Every bar is accounted for\<close>

definition pend :: "gateway \<Rightarrow> string \<Rightarrow> nat" where
  "pend gw s = (case map_of (gw_pending_live gw) s of None \<Rightarrow> 0 | Some bs \<Rightarrow> length bs)"

definition settled :: "gateway \<Rightarrow> string \<Rightarrow> nat" where
  "settled gw s = n_emitted (gw_stats gw) s + n_dropped (gw_stats gw) s"

text \<open>Held bars sit under their own symbol, once per symbol, and are counted.\<close>

definition pending_wf :: "gateway \<Rightarrow> bool" where
  "pending_wf gw \<longleftrightarrow> distinct (map fst (gw_pending_live gw))
     \<and> (\<forall>(s, bars)\<in>set (gw_pending_live gw). \<forall>b\<in>set bars. bar_symbol b = s)
     \<and> (\<forall>s. pend gw s = (case gw_buffered gw s of None \<Rightarrow> 0 | Some n \<Rightarrow> n))"

definition accounted :: "gateway \<Rightarrow> bool" where
  "accounted gw \<longleftrightarrow> pending_wf gw \<and> stats_wf (gw_stats gw)
     \<and> (\<forall>s. n_received (gw_stats gw) s = settled gw s + pend gw s)
     \<and> (\<forall>s. n_emitted (gw_stats gw) s = length (closes s (gw_sent gw)))"

lemma emit_or_drop_counts:
  "settled (snd (emit_or_drop ok bar gw)) s = settled gw s + (if s = bar_symbol bar then 1 else 0)"
  "n_received (gw_stats (snd (emit_or_drop ok bar gw))) s = n_received (gw_stats gw) s"
  "n_emitted (gw_stats gw) s = length (closes s (gw_sent gw)) \<Longrightarrow>
         n_emitted (gw_stats (snd (emit_or_drop ok bar gw))) s = length (closes s (gw_sent (snd (emit_or_drop ok bar gw))))"
  "stats_wf (gw_stats gw) \<Longrightarrow> stats_wf (gw_stats (snd (emit_or_drop ok bar gw)))"
  "gw_pending_live (snd (emit_or_drop ok bar gw)) = gw_pending_live gw"
  "gw_buffered (snd (emit_or_drop ok bar gw)) = gw_buffered gw"
  "gw_phase (snd (emit_or_drop ok bar gw)) = gw_phase gw"
  "n_ignored (gw_stats (snd (emit_or_drop ok bar gw))) s = n_ignored (gw_stats gw) s"
  by (auto simp: emit_or_drop_def emit_bar_def publish_emitted_def stats_update_def settled_def
      Let_def stats_wf_ops)

lemma flush_one_counts:
  "settled (flush_one ok bar gw) s = settled gw s + (if s = bar_symbol bar then 1 else 0)"
  "n_received (gw_stats (flush_one ok bar gw)) s = n_received (gw_stats gw) s"
  "n_emitted (gw_stats gw) s = length (closes s (gw_sent gw)) \<Longrightarrow>
     n_emitted (gw_stats (flush_one ok bar gw)) s = length (closes s (gw_sent (flush_one ok bar gw)))"
  "stats_wf (gw_stats gw) \<Longrightarrow> stats_wf (gw_stats (flush_one ok bar gw))"
  "gw_pending_live (flush_one ok bar gw) = gw_pending_live gw"
  "gw_buffered (flush_one ok bar gw) = gw_buffered gw"
  "gw_phase (flush_one ok bar gw) = gw_phase gw"
  "n_ignored (gw_stats (flush_one ok bar gw)) s = n_ignored (gw_stats gw) s"
  using emit_or_drop_counts [where ok = ok and bar = bar and gw = gw]
  by (simp_all add: flush_one_alt Let_def settled_def)

lemma flush_bars_counts:
  "settled (fold (flush_one ok) bars gw) s = settled gw s + length (closes s bars)"
  "n_received (gw_stats (fold (flush_one ok) bars gw)) s = n_received (gw_stats gw) s"
  "n_emitted (gw_stats gw) s = length (closes s (gw_sent gw)) \<Longrightarrow>
     n_emitted (gw_stats (fold (flush_one ok) bars gw)) s
       = length (closes s (gw_sent (fold (flush_one ok) bars gw)))"
  "stats_wf (gw_stats gw) \<Longrightarrow> stats_wf (gw_stats (fold (flush_one ok) bars gw))"
  "gw_pending_live (fold (flush_one ok) bars gw) = gw_pending_live gw"
  "gw_buffered (fold (flush_one ok) bars gw) = gw_buffered gw"
  "gw_phase (fold (flush_one ok) bars gw) = gw_phase gw"
  "n_ignored (gw_stats (fold (flush_one ok) bars gw)) s = n_ignored (gw_stats gw) s"
  by (induction bars arbitrary: gw) (simp_all add: flush_one_counts closes_def)

lemma closes_own: "(\<forall>b\<in>set bars. bar_symbol b = s) \<Longrightarrow>
    length (closes s' bars) = (if s' = s then length bars else 0)"
  by (induction bars) (auto simp: closes_def)

lemma pend_delete:
  "map_of (AList.delete symbol m) s = (if s = symbol then None else map_of m s)"
  by (simp add: delete_conv')

lemma accounted_flush_symbol [inv_intros]:
  assumes acc: "accounted gw"
  shows "accounted (flush_symbol ok symbol gw)"
proof (cases "map_of (gw_pending_live gw) symbol")
  case None
  then show ?thesis using acc by (simp add: flush_symbol_def)
next
  case (Some bars)
  define g where "g = gw\<lparr>gw_pending_live := AList.delete symbol (gw_pending_live gw),
      gw_buffered := (case gw_buffered gw symbol of None \<Rightarrow> gw_buffered gw
        | Some n \<Rightarrow> (gw_buffered gw)(symbol := Some (sat_subu n (length bars))))\<rparr>"
  have fs: "flush_symbol ok symbol gw = fold (flush_one ok) bars g"
    using Some by (simp add: flush_symbol_def g_def)
  have wf: "pending_wf gw" using acc by (simp add: accounted_def)
  have own: "\<forall>b\<in>set bars. bar_symbol b = symbol"
    using wf map_of_SomeD [OF Some] by (auto simp: pending_wf_def)
  have pb: "pend gw symbol = length bars" using Some by (simp add: pend_def)
  have pg: "pend g s = (if s = symbol then 0 else pend gw s)" for s
    by (simp add: pend_def g_def pend_delete)
  have buf: "(case gw_buffered g s of None \<Rightarrow> 0 | Some n \<Rightarrow> n) =
      (if s = symbol then 0 else case gw_buffered gw s of None \<Rightarrow> 0 | Some n \<Rightarrow> n)" for s
    using wf pb unfolding pending_wf_def g_def
    by (auto simp: sat_subu_def split: option.splits dest: spec [of _ symbol])
  have wfg: "pending_wf g"
    using wf unfolding pending_wf_def pg buf
    by (auto simp: g_def AList.delete_eq distinct_map_filter)
  have total: "settled g s + length (closes s bars) + pend g s = settled gw s + pend gw s" for s
    using pg pb closes_own [OF own, of s] by (simp add: settled_def g_def)
  have st: "gw_stats g = gw_stats gw" "gw_sent g = gw_sent gw" by (simp_all add: g_def)
  let ?h = "fold (flush_one ok) bars g"
  have "pend ?h s = pend g s" for s by (simp add: pend_def flush_bars_counts)
  moreover have "pending_wf ?h"
    using wfg by (simp add: pending_wf_def pend_def flush_bars_counts)
  ultimately show ?thesis
    using acc total unfolding fs accounted_def by (auto simp: flush_bars_counts st)
qed

text \<open>Sorting the held bars changes neither their number nor their symbols.\<close>

lemma accounted_sorted:
  assumes "accounted gw"
  shows "accounted (gw\<lparr>gw_pending_live :=
    map (\<lambda>(s, bars). (s, sort_key bar_close_time bars)) (gw_pending_live gw)\<rparr>)" (is "accounted ?g")
proof -
  have m: "map_of (map (\<lambda>(s, bars). (s, sort_key bar_close_time bars)) m) s
      = map_option (sort_key bar_close_time) (map_of m s)" for m :: "(string \<times> bar_event list) list" and s
    by (induction m) auto
  have p: "pend ?g s = pend gw s" for s by (auto simp: pend_def m split: option.splits)
  have k: "map fst (map (\<lambda>(s, bars). (s, sort_key bar_close_time bars)) m) = map fst m"
      for m :: "(string \<times> bar_event list) list"
    by (induction m) auto
  have d: "distinct (map fst (map (\<lambda>(s, bars). (s, sort_key bar_close_time bars)) (gw_pending_live gw)))"
    unfolding k using assms by (simp add: accounted_def pending_wf_def)
  have "\<forall>(s, bars)\<in>set (gw_pending_live ?g). \<forall>b\<in>set bars. bar_symbol b = s"
    using assms by (auto simp: accounted_def pending_wf_def)
  with d have "pending_wf ?g"
    using assms p by (simp add: accounted_def pending_wf_def)
  then show ?thesis using assms p by (simp add: accounted_def settled_def)
qed

lemma accounted_flush [inv_intros]: "accounted gw \<Longrightarrow> accounted (flush_pending_live ok gw)"
  unfolding flush_pending_live_def Let_def
  by (intro fold_invariant [where P = accounted] accounted_flush_symbol accounted_sorted)

lemma accounted_transition [simp]:
  "accounted (transition_phase ph gw) = accounted gw"
  by (auto simp: transition_phase_def accounted_def settled_def pending_wf_def pend_def)

lemma accounted_turn_live [inv_intros]: "accounted gw \<Longrightarrow> accounted (turn_live ok gw)"
proof -
  have resync: "accounted (g\<lparr>gw_resync := b\<rparr>) = accounted g" for g b
    by (simp add: accounted_def settled_def pending_wf_def pend_def)
  assume "accounted gw"
  then show ?thesis by (simp add: turn_live_def resync accounted_flush)
qed

text \<open>An arrived bar is owed until it is held, dropped or sent.\<close>

definition owes :: "string \<Rightarrow> gateway \<Rightarrow> bool" where
  "owes symbol gw \<longleftrightarrow> pending_wf gw \<and> stats_wf (gw_stats gw)
     \<and> (\<forall>s. n_received (gw_stats gw) s
              = settled gw s + pend gw s + (if s = symbol then 1 else 0))
     \<and> (\<forall>s. n_emitted (gw_stats gw) s = length (closes s (gw_sent gw)))"

lemma owes_arrive: "accounted gw \<Longrightarrow> owes (bar_symbol bar) (bar_arrive inst bar gw)"
  by (auto simp: accounted_def owes_def bar_arrive_def settled_def pending_wf_def pend_def
      stats_wf_ops)

lemma accounted_emit_or_drop:
  "owes (bar_symbol bar) gw \<Longrightarrow> accounted (snd (emit_or_drop ok bar gw))"
  using emit_or_drop_counts [where ok = ok and bar = bar and gw = gw]
  by (auto simp: owes_def accounted_def pending_wf_def pend_def)

lemma accounted_rejected:
  "owes (bar_symbol bar) gw \<Longrightarrow> accounted (stats_update (record_dropped (bar_symbol bar) r) gw)"
  by (auto simp: owes_def accounted_def pending_wf_def pend_def settled_def stats_update_def
      stats_wf_ops)

lemma accounted_buffer:
  assumes "owes (bar_symbol bar) gw"
  shows "accounted (buffer_live bar gw)"
proof -
  let ?g = "buffer_live bar gw"
  have p: "pend ?g s = pend gw s + (if s = bar_symbol bar then 1 else 0)" for s
    by (auto simp: buffer_live_def pend_def map_of_map_default split: option.splits)
  have wf: "pending_wf gw" using assms by (simp add: owes_def)
  have "distinct (map fst (gw_pending_live ?g))"
    using wf by (simp add: pending_wf_def buffer_live_def distinct_map_default)
  moreover have "\<forall>(s, bars)\<in>set (gw_pending_live ?g). \<forall>b\<in>set bars. bar_symbol b = s"
  proof -
    have "(s, bars) \<in> set (AList.map_default k [b] (\<lambda>bs. bs @ [b]) m) \<Longrightarrow>
        (s, bars) \<in> set m \<or> s = k \<and> (\<exists>bs. bars = bs @ [b] \<and> (bs = [] \<or> (k, bs) \<in> set m))"
      for s bars k b and m :: "(string \<times> bar_event list) list"
      by (induction m) (auto split: if_splits)
    then show ?thesis using wf
      by (fastforce simp: pending_wf_def buffer_live_def)
  qed
  moreover have "pend ?g s = (case gw_buffered ?g s of None \<Rightarrow> 0 | Some n \<Rightarrow> n)" for s
    using wf unfolding p by (simp add: pending_wf_def buffer_live_def)
  ultimately have "pending_wf ?g" by (simp add: pending_wf_def)
  moreover have "settled ?g s = settled gw s" "gw_stats ?g = gw_stats gw" "gw_sent ?g = gw_sent gw"
    for s by (simp_all add: buffer_live_def settled_def)
  ultimately show ?thesis using assms unfolding accounted_def owes_def by (simp add: p)
qed

lemma accounted_after_emit [simp]: "accounted (after_emit bar gw) = accounted gw"
  by (auto simp: after_emit_def accounted_def settled_def pending_wf_def pend_def Let_def
      split: data_origin.splits)

lemma accounted_bar_step [inv_intros]:
  assumes "accounted gw"
  shows "accounted (bar_step ok cfg now inst bar gw)"
proof -
  note owed = owes_arrive [OF assms, of bar inst]
  show ?thesis
    by (rule bar_step_cases [of bar inst gw ok cfg now])
       (use owed in \<open>simp_all add: accounted_turn_live accounted_buffer accounted_rejected
          accounted_emit_or_drop\<close>)
qed

section \<open>Nothing is held once the gateway is live\<close>

lemma pending_flush_symbol [simp]:
  "gw_pending_live (flush_symbol ok s gw) = AList.delete s (gw_pending_live gw)"
proof (cases "map_of (gw_pending_live gw) s")
  case None
  then have "s \<notin> fst ` set (gw_pending_live gw)" by (simp add: map_of_eq_None_iff)
  then show ?thesis using None by (simp add: flush_symbol_def AList.delete_id)
qed (simp add: flush_symbol_def flush_bars_counts)

lemma pending_flush_symbols:
  "fst ` set (gw_pending_live (fold (flush_symbol ok) ss gw))
     = fst ` set (gw_pending_live gw) - set ss"
proof (induction ss arbitrary: gw)
  case (Cons s ss)
  show ?case by (simp add: Cons.IH) (auto simp: AList.delete_eq image_iff)
qed simp

lemma flush_leaves_nothing: "gw_pending_live (flush_pending_live ok gw) = []"
proof -
  let ?p = "map (\<lambda>(s, bars). (s, sort_key bar_close_time bars)) (gw_pending_live gw)"
  have "fst ` set (gw_pending_live (flush_pending_live ok gw)) = fst ` set ?p - set (map fst ?p)"
    unfolding flush_pending_live_def Let_def pending_flush_symbols by simp
  then have "fst ` set (gw_pending_live (flush_pending_live ok gw)) = {}"
    by (simp only: set_map Diff_cancel)
  then show ?thesis by simp
qed

lemma phase_flush_symbol [simp]: "gw_phase (flush_symbol ok s gw) = gw_phase gw"
  by (simp add: flush_symbol_def flush_bars_counts split: option.split)

lemma phase_flush [simp]: "gw_phase (flush_pending_live ok gw) = gw_phase gw"
proof -
  have "gw_phase (fold (flush_symbol ok) ss g) = gw_phase g" for ss g
    by (induction ss arbitrary: g) simp_all
  then show ?thesis by (simp add: flush_pending_live_def Let_def)
qed

lemma phase_turn_live: "gw_phase (turn_live ok gw) = LiveReady"
  by (simp add: turn_live_def transition_phase_def)

lemma phase_after_emit [simp]: "gw_phase (after_emit bar gw) = gw_phase gw"
  by (auto simp: after_emit_def Let_def split: data_origin.splits)

lemma phase_pre [simp]:
  "gw_phase (bar_arrive inst bar gw) = gw_phase gw"
  "gw_phase (buffer_live bar gw) = gw_phase gw"
  "gw_phase (stats_update f gw) = gw_phase gw"
  "gw_phase (snd (emit_or_drop ok bar gw)) = gw_phase gw"
  by (simp_all add: bar_arrive_def buffer_live_def stats_update_def emit_or_drop_counts)

lemma live_ready_buffer [simp]: "live_ready cfg (buffer_live bar gw) = live_ready cfg gw"
  by (simp add: live_ready_def buffer_live_def)

text \<open>A bar turns the gateway live only when every stream is ready, and then either the
  bars held during the gap have all been flushed or the gateway was not filling one.\<close>

lemma bar_step_to_live:
  assumes "gw_phase gw \<noteq> LiveReady" "gw_phase (bar_step ok cfg now inst bar gw) = LiveReady"
  shows "live_ready cfg (bar_arrive inst bar gw)
    \<and> \<not> gw_resync (bar_step ok cfg now inst bar gw)
    \<and> (gw_phase gw = SyncingGap \<longrightarrow> gw_pending_live (bar_step ok cfg now inst bar gw) = [])"
proof -
  have t: "gw_phase g \<noteq> LiveReady \<Longrightarrow> \<not> gw_resync (turn_live ok g)
      \<and> (gw_phase g = SyncingGap \<longrightarrow> gw_pending_live (turn_live ok g) = [])" for g
    by (auto simp: turn_live_def transition_phase_def flush_leaves_nothing)
  show ?thesis
    by (rule bar_step_cases [of bar inst gw ok cfg now])
       (use assms in \<open>auto simp: t split: if_splits\<close>)
qed

end
