(* ===== verification/Supervisor.thy ===== *)
theory Supervisor
  imports Bar_Pipeline
begin

text \<open>
  The other tasks of \<open>alor-gateway/src/supervisor.rs\<close>: the handler of WebSocket events,
  the forwarders of orders, stop orders, positions and trades, the ticker that computes
  readiness and resubscribes when bars stay away, and the backfill plan both use. Together
  with the bar task they are the step relation \<open>gw_step\<close>; the invariants of the bar task
  are shown for every state the tasks can reach in any interleaving of their iterations.
\<close>

section \<open>The backfill plan\<close>

text \<open>The loop over the symbols; \<open>None\<close> is its early return with the cold plan.\<close>

fun backfill_from ::
  "i64 \<Rightarrow> nat \<Rightarrow> (string \<Rightarrow> i64 option) \<Rightarrow> string list \<Rightarrow> i64 option \<Rightarrow> i64 option option" where
  "backfill_from tf padding last_emitted [] min_from = Some min_from"
| "backfill_from tf padding last_emitted (s # ss) min_from =
     (case last_emitted s of
        None \<Rightarrow> None
      | Some l \<Rightarrow>
          let from = max (l - int padding * tf) 0
          in backfill_from tf padding last_emitted ss
               (Some (case min_from of None \<Rightarrow> from | Some m \<Rightarrow> min m from)))"

text \<open>\<open>None\<close> is the division by zero of \<open>now / tf_sec\<close>, which panics.\<close>

definition compute_backfill_plan ::
  "gateway_config \<Rightarrow> i64 \<Rightarrow> (string \<Rightarrow> i64 option) \<Rightarrow> (backfill_plan \<times> resync_mode) option" where
  "compute_backfill_plan cfg now last_emitted =
     (if gc_tf_sec cfg = 0 then None
      else Some
        (let now_aligned = trunc_div now (gc_tf_sec cfg) * gc_tf_sec cfg in
         case backfill_from (gc_tf_sec cfg) (gc_padding_bars cfg) last_emitted
                (gc_symbols cfg) None of
           None \<Rightarrow> (backfill_plan_cold, Cold)
         | Some None \<Rightarrow> (backfill_plan_cold, Cold)
         | Some (Some from) \<Rightarrow>
             let gap = as_u64 (sat_sub now_aligned from) in
             if gap > gc_warm_max_gap_sec cfg then (backfill_plan_cold, Cold)
             else (\<lparr>bp_mode = Warm, bp_from_ts = Some from, bp_gap_sec = gap\<rparr>, Warm)))"

definition set_plan :: "backfill_plan \<Rightarrow> resync_mode \<Rightarrow> gateway \<Rightarrow> gateway" where
  "set_plan plan mode gw =
     gw\<lparr>gw_plan := plan,
        gw_health := (gw_health gw)\<lparr>h_last_resync_mode := mode,
          h_last_gap_backfill_sec := bp_gap_sec plan, h_last_gap_backfill_bars := 0\<rparr>\<rparr>"

section \<open>WebSocket events\<close>

datatype conn_event = Connected | Disconnected | ConnReconnecting

datatype 'n ws_event =
  WsRaw "'n json" u64
| WsConn conn_event u64
| Subscribed i64 data_origin u64
| SubscriptionAck string u64
| SubscriptionStats u32 u32 pending_acks u64
| WsRx i64 u64
| WsIgnored "string option" ignored_reason u64

datatype 'n to_router = Forward "'n json" | SetWallclock i64 data_origin

definition extract_symbol :: "'n json \<Rightarrow> string option" where
  "extract_symbol v =
     Option.bind (jget v ''data'') (\<lambda>data. Option.bind (first_of data [''symbol'', ''code'']) jstr)"

definition on_reconnecting :: "gateway_config \<Rightarrow> i64 \<Rightarrow> gateway \<Rightarrow> gateway" where
  "on_reconnecting cfg now gw =
     (let gw1 = gw\<lparr>gw_health := (gw_health gw)\<lparr>h_ws_connected := False,
                    h_ws_reconnects_total := Suc (h_ws_reconnects_total (gw_health gw))\<rparr>\<rparr>;
          gw2 = (if gw_phase gw1 \<noteq> SyncingHistory then transition_phase Reconnecting gw1 else gw1)
      in case compute_backfill_plan cfg now (gw_last_emitted gw2) of
           None \<Rightarrow> gw2\<lparr>gw_ws_dead := True\<rparr>
         | Some (plan, mode) \<Rightarrow> set_plan plan mode gw2)"

fun ws_live_event ::
  "gateway_config \<Rightarrow> i64 \<Rightarrow> bool \<Rightarrow> 'n ws_event \<Rightarrow> gateway \<Rightarrow> gateway \<times> 'n to_router list" where
  "ws_live_event cfg now room (WsRaw v g) gw =
     (if room then
        (gw\<lparr>gw_health := (gw_health gw)\<lparr>h_backpressure_lagged := False\<rparr>\<rparr>, [Forward v])
      else (gw\<lparr>gw_health := (gw_health gw)\<lparr>h_backpressure_lagged := True, h_readiness := False\<rparr>\<rparr>,
            []))"
| "ws_live_event cfg now room (WsConn Connected g) gw =
     (gw\<lparr>gw_health := (gw_health gw)\<lparr>h_ws_connected := True\<rparr>\<rparr>, [])"
| "ws_live_event cfg now room (WsConn Disconnected g) gw =
     (gw\<lparr>gw_health := (gw_health gw)\<lparr>h_ws_connected := False\<rparr>\<rparr>, [])"
| "ws_live_event cfg now room (WsConn ConnReconnecting g) gw = (on_reconnecting cfg now gw, [])"
| "ws_live_event cfg now room (Subscribed wallclock origin g) gw =
     ((case origin of
         HistoryGap \<Rightarrow> transition_phase SyncingGap gw
       | History \<Rightarrow> transition_phase SyncingHistory gw
       | Live \<Rightarrow> gw), [SetWallclock wallclock origin])"
| "ws_live_event cfg now room (SubscriptionAck ty g) gw =
     ((if ty = ''positions'' then gw\<lparr>gw_positions := mark_synced now (gw_positions gw)\<rparr>
       else if ty = ''orders'' then gw\<lparr>gw_orders := mark_synced now (gw_orders gw)\<rparr>
       else if ty = ''stop_orders'' then gw\<lparr>gw_stops := mark_synced now (gw_stops gw)\<rparr>
       else gw), [])"
| "ws_live_event cfg now room (SubscriptionStats desired active acks g) gw =
     (gw\<lparr>gw_health := (gw_health gw)\<lparr>h_desired_subscriptions := desired,
           h_active_subscriptions := active\<rparr>, gw_pending_acks := acks\<rparr>, [])"
| "ws_live_event cfg now room (WsRx ts g) gw =
     (gw\<lparr>gw_health := (gw_health gw)\<lparr>h_ws_last_rx_ts := ts\<rparr>\<rparr>, [])"
| "ws_live_event cfg now room (WsIgnored sy reason g) gw =
     (stats_update (record_ignored (case sy of None \<Rightarrow> ''<unknown>'' | Some s \<Rightarrow> s) reason) gw, [])"

fun ws_generation :: "'n ws_event \<Rightarrow> u64" where
  "ws_generation (WsRaw v g) = g"
| "ws_generation (WsConn e g) = g"
| "ws_generation (Subscribed w d g) = g"
| "ws_generation (SubscriptionAck t g) = g"
| "ws_generation (SubscriptionStats d a p g) = g"
| "ws_generation (WsRx t g) = g"
| "ws_generation (WsIgnored s r g) = g"

text \<open>One iteration: a reconnect adopts its generation, an event of another generation is
  skipped (a raw message is counted as ignored), anything else is handled.\<close>

definition ws_event_step ::
  "gateway_config \<Rightarrow> i64 \<Rightarrow> bool \<Rightarrow> 'n ws_event \<Rightarrow> gateway \<Rightarrow> gateway \<times> 'n to_router list" where
  "ws_event_step cfg now room e gw =
     (if gw_ws_dead gw then (gw, [])
      else case e of
        WsConn ConnReconnecting g \<Rightarrow> ws_live_event cfg now room e (gw\<lparr>gw_generation := g\<rparr>)
      | WsRaw v g \<Rightarrow>
          if g \<noteq> gw_generation gw then
            ((case extract_symbol v of None \<Rightarrow> gw
              | Some s \<Rightarrow> stats_update (record_ignored s OldGeneration) gw), [])
          else ws_live_event cfg now room e gw
      | _ \<Rightarrow> if ws_generation e \<noteq> gw_generation gw then (gw, [])
             else ws_live_event cfg now room e gw)"

section \<open>Forwarders\<close>

definition forward_position :: "position_event \<Rightarrow> gateway \<Rightarrow> gateway" where
  "forward_position p gw =
     gw\<lparr>gw_health := (gw_health gw)\<lparr>h_last_positions_ts := pos_ts p\<rparr>,
        gw_positions := apply_position p (gw_positions gw)\<rparr>"

text \<open>An order event takes its request id from the map the command consumer fills.\<close>

definition resolve_request_id :: "(i64 \<Rightarrow> uuid option) \<Rightarrow> order_event \<Rightarrow> order_event" where
  "resolve_request_id rmap r =
     (case rmap (ord_order_id r) of
        Some rid \<Rightarrow> if ord_request_id r \<noteq> Some rid then r\<lparr>ord_request_id := Some rid\<rparr> else r
      | None \<Rightarrow> r)"

definition forward_order :: "order_event \<Rightarrow> gateway \<Rightarrow> gateway" where
  "forward_order r0 gw =
     (let r = resolve_request_id (gw_request_map gw) r0; h = gw_health gw in
      gw\<lparr>gw_health := h\<lparr>h_last_orders_ts := ord_ts r,
            h_orders_ws_events_total := sat_inc (h_orders_ws_events_total h),
            h_orders_ws_status_total := count_up (ord_status r) (h_orders_ws_status_total h)\<rparr>,
         gw_orders := apply_order r (gw_orders gw)\<rparr>)"

definition forward_stop_order :: "stop_order_event \<Rightarrow> gateway \<Rightarrow> gateway" where
  "forward_stop_order so gw =
     gw\<lparr>gw_health := (gw_health gw)\<lparr>h_last_orders_ts :=
           max (h_last_orders_ts (gw_health gw)) (sto_ts so)\<rparr>,
        gw_stops := apply_stop_order so (gw_stops gw)\<rparr>"

definition forward_trade :: "trade_event \<Rightarrow> gateway \<Rightarrow> gateway" where
  "forward_trade t gw =
     gw\<lparr>gw_health := (gw_health gw)\<lparr>h_last_orders_ts :=
           max (h_last_orders_ts (gw_health gw)) (tr_ts t)\<rparr>\<rparr>"

section \<open>The ticker\<close>

record ticker =
  tk_last_resync :: int
  tk_last_ignored_log :: int

datatype hub_command = Resubscribe "i64 option"

definition market_state_for_silence_gate ::
  "chrono_lib \<Rightarrow> trading_periods option \<Rightarrow> i64 \<Rightarrow> market_state option" where
  "market_state_for_silence_gate ch periods now =
     map_option (\<lambda>p. market_state_utc ch (new_with_fallback_offset_hours p 3) now) periods"

definition refresh_health ::
  "chrono_lib \<Rightarrow> trading_periods option \<Rightarrow> gateway_config \<Rightarrow> i64 \<Rightarrow> int \<Rightarrow> gateway \<Rightarrow> gateway" where
  "refresh_health ch periods cfg now inst gw =
     (let h = gw_health gw;
          age = (if h_ws_last_rx_ts h > 0 then as_u64 (sat_sub now (h_ws_last_rx_ts h)) else 0)
      in gw\<lparr>gw_health := h\<lparr>
           h_last_bar_age_sec := nat ((inst - gw_last_bar_instant gw) div ns_per_sec),
           h_gateway_phase := gw_phase gw,
           h_ws_last_rx_age_sec := age,
           h_readiness := (gw_phase gw = LiveReady \<and> h_ws_connected h
             \<and> \<not> h_backpressure_lagged h \<and> age \<le> gc_ws_idle_timeout_sec cfg
             \<and> h_active_subscriptions h \<ge> h_desired_subscriptions h \<and> h_cws_authorized h),
           h_scheduler_state := market_state_for_silence_gate ch periods now\<rparr>\<rparr>)"

text \<open>Whether the silence is to be ignored: only when trading periods are configured and
  the scheduler accepts the time since the last bar; \<open>now_utc\<close> is the second reading of the
  clock.\<close>

definition silence_ok ::
  "chrono_lib \<Rightarrow> trading_periods \<Rightarrow> gateway_config \<Rightarrow> i64 \<Rightarrow> gateway \<Rightarrow> bool" where
  "silence_ok ch p cfg now_utc gw =
     (let s = new_with_fallback_offset_hours p 3; lst = h_last_bar_ts (gw_health gw) in
      if utc_ok ch now_utc \<and> utc_ok ch lst then
        check_silence_period_at ch s (of_timestamp now_utc) (of_timestamp lst)
          (i64_of_u64_sat (gc_max_silence_bars_sec cfg))
      else True)"

definition resync_on_silence ::
  "gateway_config \<Rightarrow> i64 \<Rightarrow> int \<Rightarrow> ticker \<times> gateway \<Rightarrow> (ticker \<times> gateway) \<times> hub_command list" where
  "resync_on_silence cfg now inst = (\<lambda>(tk, gw).
     if inst - tk_last_resync tk < int (gc_bar_silence_resync_min_sec cfg) * ns_per_sec
       then ((tk, gw), [])
     else if \<not> h_ws_connected (gw_health gw) \<or> gw_resync gw then ((tk, gw), [])
     else (case compute_backfill_plan cfg now (gw_last_emitted gw) of
         None \<Rightarrow> ((tk, gw\<lparr>gw_main_dead := True\<rparr>), [])
       | Some (plan, mode) \<Rightarrow>
           ((tk\<lparr>tk_last_resync := inst\<rparr>,
             (transition_phase (case mode of Warm \<Rightarrow> SyncingGap | Cold \<Rightarrow> SyncingHistory)
                (set_plan plan mode gw))\<lparr>gw_resync := True, gw_last_bar_instant := inst\<rparr>),
            [Resubscribe (bp_from_ts plan)])))"

definition tick_step ::
  "chrono_lib \<Rightarrow> trading_periods option \<Rightarrow> gateway_config \<Rightarrow> i64 \<Rightarrow> i64 \<Rightarrow> int
   \<Rightarrow> ticker \<times> gateway \<Rightarrow> (ticker \<times> gateway) \<times> hub_command list" where
  "tick_step ch periods cfg now now_utc inst = (\<lambda>(tk, gw0).
     if gw_main_dead gw0 then ((tk, gw0), [])
     else let gw = refresh_health ch periods cfg now inst gw0 in
       if gc_max_silence_bars_sec cfg > 0 \<and> gw_phase gw = LiveReady
          \<and> inst - gw_last_bar_instant gw > int (gc_max_silence_bars_sec cfg) * ns_per_sec
       then (case periods of
           Some p \<Rightarrow>
             if silence_ok ch p cfg now_utc gw then
               ((if market_state_utc ch (new_with_fallback_offset_hours p 3) now_utc \<noteq> Open
                    \<and> inst - tk_last_ignored_log tk
                        \<ge> int (gc_bar_silence_resync_min_sec cfg) * ns_per_sec
                 then tk\<lparr>tk_last_ignored_log := inst\<rparr> else tk, gw), [])
             else resync_on_silence cfg now_utc inst (tk, gw)
         | None \<Rightarrow> resync_on_silence cfg now_utc inst (tk, gw))
       else ((tk, gw), []))"

section \<open>All tasks together\<close>

definition health_init :: health_state where
  "health_init = \<lparr>h_ws_connected = False, h_cws_authorized = False, h_last_bar_ts = 0,
     h_last_bar_age_sec = 0, h_last_positions_ts = 0, h_last_orders_ts = 0,
     h_gateway_phase = SyncingHistory, h_readiness = False, h_backpressure_lagged = False,
     h_ws_last_rx_ts = 0, h_ws_last_rx_age_sec = 0, h_ws_reconnects_total = 0,
     h_last_resync_mode = Cold, h_last_gap_backfill_sec = 0, h_last_gap_backfill_bars = 0,
     h_active_subscriptions = 0, h_desired_subscriptions = 0, h_orders_ws_events_total = 0,
     h_scheduler_state = None, h_orders_ws_status_total = []\<rparr>"

definition gateway_init :: "bool \<Rightarrow> int \<Rightarrow> gateway" where
  "gateway_init skip_history inst =
     \<lparr>gw_generation = 0, gw_phase = (if skip_history then Reconnecting else SyncingHistory),
      gw_last_bar_instant = inst, gw_last_bar_ts = (\<lambda>_. None), gw_last_emitted = (\<lambda>_. None),
      gw_live_symbols = [], gw_resync = False, gw_stats = stats_empty,
      gw_buffered = (\<lambda>_. None),
      gw_pending_acks = \<lparr>pa_bars = 0, pa_positions = 0, pa_orders = 0, pa_authorize = 0\<rparr>,
      gw_pending_live = [], gw_history_min = None, gw_history_max = None,
      gw_history_count = 0, gw_logged_live = False, gw_health = health_init,
      gw_plan = backfill_plan_cold, gw_orders = manager_init, gw_positions = manager_init,
      gw_stops = manager_init, gw_request_map = (\<lambda>_. None), gw_sends = 0, gw_sent = [],
      gw_published = [], gw_ws_dead = False, gw_main_dead = False\<rparr>"

datatype 'n gw_input =
  GwWs i64 bool "'n ws_event"
| GwBar i64 int bar_event
| GwPosition position_event
| GwOrder order_event
| GwStopOrder stop_order_event
| GwTrade trade_event
| GwTick i64 i64 int
| GwRequestMap i64 uuid
| GwCwsAuthorized bool

text \<open>\<open>GwRequestMap\<close> and \<open>GwCwsAuthorized\<close> are the writes of the command consumer and of
  the CWS client to the shared state.\<close>

fun gw_step ::
  "chrono_lib \<Rightarrow> trading_periods option \<Rightarrow> gateway_config \<Rightarrow> (nat \<Rightarrow> bool) \<Rightarrow> 'n gw_input
   \<Rightarrow> ticker \<times> gateway \<Rightarrow> ticker \<times> gateway" where
  "gw_step ch periods cfg ok (GwWs now room e) (tk, gw) = (tk, fst (ws_event_step cfg now room e gw))"
| "gw_step ch periods cfg ok (GwBar now inst bar) (tk, gw) = (tk, bar_step ok cfg now inst bar gw)"
| "gw_step ch periods cfg ok (GwPosition p) (tk, gw) = (tk, forward_position p gw)"
| "gw_step ch periods cfg ok (GwOrder r) (tk, gw) = (tk, forward_order r gw)"
| "gw_step ch periods cfg ok (GwStopOrder so) (tk, gw) = (tk, forward_stop_order so gw)"
| "gw_step ch periods cfg ok (GwTrade t) (tk, gw) = (tk, forward_trade t gw)"
| "gw_step ch periods cfg ok (GwTick now now_utc inst) (tk, gw) =
     fst (tick_step ch periods cfg now now_utc inst (tk, gw))"
| "gw_step ch periods cfg ok (GwRequestMap oid rid) (tk, gw) =
     (tk, gw\<lparr>gw_request_map := (gw_request_map gw)(oid := Some rid)\<rparr>)"
| "gw_step ch periods cfg ok (GwCwsAuthorized b) (tk, gw) =
     (tk, gw\<lparr>gw_health := (gw_health gw)\<lparr>h_cws_authorized := b\<rparr>\<rparr>)"

inductive gw_reach ::
  "chrono_lib \<Rightarrow> trading_periods option \<Rightarrow> gateway_config \<Rightarrow> (nat \<Rightarrow> bool) \<Rightarrow> ticker \<times> gateway \<Rightarrow> bool"
  for ch periods cfg ok where
  start: "gw_reach ch periods cfg ok (tk, gateway_init skip inst)"
| step: "gw_reach ch periods cfg ok s \<Longrightarrow>
    gw_reach ch periods cfg ok (gw_step ch periods cfg ok (i :: nat gw_input) s)"

section \<open>What the other tasks leave alone\<close>

definition bar_frame :: "gateway \<Rightarrow> gateway \<Rightarrow> bool" where
  "bar_frame g g' \<longleftrightarrow> gw_published g' = gw_published g \<and> gw_sent g' = gw_sent g
     \<and> gw_last_emitted g' = gw_last_emitted g \<and> gw_pending_live g' = gw_pending_live g
     \<and> gw_buffered g' = gw_buffered g \<and> st_received (gw_stats g') = st_received (gw_stats g)
     \<and> st_emitted (gw_stats g') = st_emitted (gw_stats g)
     \<and> st_dropped (gw_stats g') = st_dropped (gw_stats g)"

lemma bar_frame_refl [simp]: "bar_frame g g"
  by (simp add: bar_frame_def)

lemma bar_frame_trans: "bar_frame a b \<Longrightarrow> bar_frame b c \<Longrightarrow> bar_frame a c"
  by (simp add: bar_frame_def)

lemma in_order_frame: "bar_frame g g' \<Longrightarrow> in_order g \<Longrightarrow> in_order g'"
  by (simp add: bar_frame_def in_order_def)

lemma accounted_frame: "bar_frame g g' \<Longrightarrow> accounted g \<Longrightarrow> accounted g'"
  by (simp add: bar_frame_def accounted_def pending_wf_def pend_def settled_def stats_wf_def n_defs)

lemma bar_frame_transition [simp]: "bar_frame g (transition_phase ph g)"
  by (simp add: bar_frame_def transition_phase_def)

lemma bar_frame_set_plan [simp]: "bar_frame g (set_plan plan mode g)"
  by (simp add: bar_frame_def set_plan_def)

lemma bar_frame_ignored [simp]: "bar_frame g (stats_update (record_ignored s r) g)"
  by (simp add: bar_frame_def stats_update_def record_ignored_def)

lemma bar_frame_health [simp]: "bar_frame g (g\<lparr>gw_health := h\<rparr>)"
  by (simp add: bar_frame_def)

lemma bar_frame_reconnecting: "bar_frame g (on_reconnecting cfg now g)"
  unfolding on_reconnecting_def Let_def
  by (simp add: bar_frame_def transition_phase_def set_plan_def split: option.splits prod.splits)

lemma bar_frame_live_event: "bar_frame g (fst (ws_live_event cfg now room e g))"
proof (cases "(cfg, now, room, e, g)" rule: ws_live_event.cases)
  case (4 cfg now room g gw)
  then show ?thesis using bar_frame_reconnecting by simp
qed (auto simp: bar_frame_def transition_phase_def stats_update_def record_ignored_def
      split: data_origin.splits)

lemma bar_frame_ws: "bar_frame g (fst (ws_event_step cfg now room e g))"
proof -
  have "bar_frame g (fst (ws_live_event cfg now room e (g\<lparr>gw_generation := n\<rparr>)))" for n
    using bar_frame_live_event [of "g\<lparr>gw_generation := n\<rparr>" cfg now room e]
    by (simp add: bar_frame_def)
  note live = this
  show ?thesis
  proof (cases e)
    case (WsConn c n)
    then show ?thesis using live by (cases c) (simp_all add: ws_event_step_def bar_frame_live_event del: ws_live_event.simps)
  next
    case (WsRaw v n)
    then show ?thesis using live
      by (simp add: ws_event_step_def bar_frame_live_event del: ws_live_event.simps
          split: option.split)
  qed (simp_all add: ws_event_step_def bar_frame_live_event del: ws_live_event.simps)
qed

lemma bar_frame_forward [simp]:
  "bar_frame g (forward_position p g)" "bar_frame g (forward_order r g)"
  "bar_frame g (forward_stop_order so g)" "bar_frame g (forward_trade t g)"
  by (simp_all add: bar_frame_def forward_position_def forward_order_def forward_stop_order_def
      forward_trade_def Let_def)

lemma bar_frame_refresh [simp]: "bar_frame g (refresh_health ch periods cfg now inst g)"
  by (simp add: bar_frame_def refresh_health_def Let_def)

lemma bar_frame_resync: "bar_frame g (snd (fst (resync_on_silence cfg now inst (tk, g))))"
proof -
  have "bar_frame g (g\<lparr>gw_main_dead := True\<rparr>)" by (simp add: bar_frame_def)
  moreover have "bar_frame g ((transition_phase ph (set_plan plan mode g))
      \<lparr>gw_resync := True, gw_last_bar_instant := inst\<rparr>)" for ph plan mode
    by (simp add: bar_frame_def transition_phase_def set_plan_def)
  ultimately show ?thesis
    by (simp add: resync_on_silence_def split: option.split prod.split)
qed

lemma bar_frame_tick: "bar_frame g (snd (fst (tick_step ch periods cfg now now_utc inst (tk, g))))"
  using bar_frame_trans [OF bar_frame_refresh bar_frame_resync]
  by (auto simp: tick_step_def Let_def split: option.split)

lemma gw_step_frame:
  assumes "\<And>now inst bar. i \<noteq> GwBar now inst bar"
  shows "bar_frame (snd s) (snd (gw_step ch periods cfg ok i s))"
proof (cases s)
  case (Pair tk gw)
  show ?thesis
  proof (cases i)
    case (GwWs now room e)
    then show ?thesis using Pair bar_frame_ws by simp
  next
    case (GwTick now now_utc inst)
    then show ?thesis using Pair bar_frame_tick by simp
  qed (use Pair assms in \<open>auto simp: bar_frame_def\<close>,
       simp_all add: forward_position_def forward_order_def forward_stop_order_def
         forward_trade_def Let_def)
qed

section \<open>Invariants of the gateway\<close>

lemma gateway_init_inv:
  "in_order (gateway_init skip inst)" "accounted (gateway_init skip inst)"
  by (simp_all add: gateway_init_def in_order_def marked_def accounted_def pending_wf_def pend_def
      settled_def stats_wf_ops)

lemma gw_step_inv [inv_intros]:
  assumes "in_order (snd s)" "accounted (snd s)"
  shows "in_order (snd (gw_step ch periods cfg ok i s)) \<and> accounted (snd (gw_step ch periods cfg ok i s))"
proof (cases "\<exists>now inst bar. i = GwBar now inst bar")
  case True
  then show ?thesis using assms
    by (cases s) (auto intro: in_order_bar_step accounted_bar_step)
next
  case False
  then show ?thesis using assms gw_step_frame [of i s ch periods cfg ok]
    by (blast intro: in_order_frame accounted_frame)
qed

lemma gw_reach_inv:
  "gw_reach ch periods cfg ok s \<Longrightarrow> in_order (snd s) \<and> accounted (snd s)"
  by (induction rule: gw_reach.induct) (simp_all add: gateway_init_inv gw_step_inv)

section \<open>The plan\<close>

lemma backfill_from_Some:
  assumes "backfill_from tf pad lst ss m0 = Some (Some f)"
  shows "(\<forall>s\<in>set ss. \<exists>l. lst s = Some l \<and> f \<le> max (l - int pad * tf) 0)
    \<and> (case m0 of None \<Rightarrow> 0 \<le> f | Some m \<Rightarrow> f \<le> m \<and> (0 \<le> m \<longrightarrow> 0 \<le> f))"
  using assms
proof (induction ss arbitrary: m0)
  case (Cons s ss)
  then obtain l where l: "lst s = Some l" by (auto split: option.splits)
  define m1 where "m1 = (case m0 of None \<Rightarrow> max (l - int pad * tf) 0
    | Some m \<Rightarrow> min m (max (l - int pad * tf) 0))"
  have "backfill_from tf pad lst ss (Some m1) = Some (Some f)"
    using Cons.prems l by (simp add: m1_def Let_def)
  from Cons.IH [OF this] show ?case using l by (auto simp: m1_def split: option.splits)
qed (auto split: option.splits)

lemma backfill_from_None_iff:
  "backfill_from tf pad lst ss m0 = None \<longleftrightarrow> (\<exists>s\<in>set ss. lst s = None)"
  by (induction ss arbitrary: m0) (auto simp: Let_def split: option.splits)

lemma plan_cases:
  assumes "compute_backfill_plan cfg now lst = Some (plan, mode)"
  shows "mode = bp_mode plan
    \<and> (mode = Cold \<longrightarrow> plan = backfill_plan_cold)
    \<and> (mode = Warm \<longrightarrow> (\<exists>f. bp_from_ts plan = Some f
         \<and> backfill_from (gc_tf_sec cfg) (gc_padding_bars cfg) lst (gc_symbols cfg) None = Some (Some f)
         \<and> bp_gap_sec plan \<le> gc_warm_max_gap_sec cfg))"
  using assms
  by (auto simp: compute_backfill_plan_def Let_def backfill_plan_cold_def
      split: option.splits if_splits)

section \<open>Properties\<close>

lemma marked_ascending: "marked ts mark \<Longrightarrow> ascending ts"
  by (simp add: marked_def)

lemma marked_last:
  assumes "marked ts mark"
  shows "case mark of None \<Rightarrow> ts = [] | Some t \<Rightarrow> ts \<noteq> [] \<and> last ts = t"
proof (cases mark)
  case None
  then show ?thesis using assms by (simp add: marked_def)
next
  case (Some t)
  then have t: "t \<in> set ts" "\<forall>u\<in>set ts. u \<le> t" "ascending ts"
    using assms by (simp_all add: marked_def)
  then obtain us u where ts: "ts = us @ [u]" by (cases ts rule: rev_cases) auto
  have "t = u" using t by (fastforce simp: ts sorted_wrt_append)
  then show ?thesis using Some by (simp add: ts)
qed

text \<open>A configuration, a bar and a short history of the gateway, for the witnesses.\<close>

definition sample_gw_config :: gateway_config where
  "sample_gw_config = \<lparr>gc_symbols = [''IMOEXF''], gc_tf_sec = 600, gc_warm_max_gap_sec = 21600,
     gc_padding_bars = 2, gc_max_silence_bars_sec = 900, gc_bar_silence_resync_min_sec = 300,
     gc_ws_idle_timeout_sec = 30\<rparr>"

definition sample_bar :: "i64 \<Rightarrow> data_origin \<Rightarrow> bar_event" where
  "sample_bar t og = \<lparr>bar_symbol = ''IMOEXF'', bar_close_time = t, bar_o = Fin 10, bar_h = Fin 12,
     bar_l = Fin 9, bar_c = Fin 11, bar_v = Fin 5, bar_origin = og\<rparr>"

definition sample_ticker :: ticker where
  "sample_ticker = \<lparr>tk_last_resync = 0, tk_last_ignored_log = 0\<rparr>"

definition sample_run :: "ticker \<times> gateway" where
  "sample_run =
     gw_step chrono_example None sample_gw_config (\<lambda>_. True)
       (GwBar 2000 1 (sample_bar 1200 History) :: nat gw_input)
       (gw_step chrono_example None sample_gw_config (\<lambda>_. True)
          (GwBar 2000 0 (sample_bar 600 History) :: nat gw_input)
          (sample_ticker, gateway_init False 0))"

lemma sample_run_reach: "gw_reach chrono_example None sample_gw_config (\<lambda>_. True) sample_run"
  unfolding sample_run_def by (intro gw_reach.step gw_reach.start)

text \<open>C4. In every state the gateway's tasks can reach, in any interleaving and whichever
  sends fail, the bars that went out for one symbol have strictly increasing close times, the
  bars published are the bars sent, and the high-water mark is the close time of the last
  one: no bar is emitted twice or after a newer one, across reconnects, gap filling and the
  flush of the bars held meanwhile.\<close>

theorem gateway_bars_in_order:
  assumes "gw_reach ch periods cfg ok (tk, gw)"
  shows "ascending (closes s (gw_sent gw)) \<and> gw_published gw = gw_sent gw
    \<and> (case gw_last_emitted gw s of None \<Rightarrow> closes s (gw_sent gw) = []
       | Some t \<Rightarrow> closes s (gw_sent gw) \<noteq> [] \<and> last (closes s (gw_sent gw)) = t)"
proof -
  have inv: "in_order gw" using gw_reach_inv [OF assms] by simp
  then have "marked (closes s (gw_sent gw)) (gw_last_emitted gw s)" by (simp add: in_order_def)
  from marked_ascending [OF this] marked_last [OF this] inv show ?thesis
    by (simp add: in_order_def)
qed

lemma gateway_bars_in_order_witness:
  "ascending (closes ''IMOEXF'' (gw_sent (snd sample_run)))"
  using gateway_bars_in_order [of chrono_example None sample_gw_config "\<lambda>_. True" "fst sample_run"
      "snd sample_run" "''IMOEXF''"] sample_run_reach by simp

text \<open>C13. In every reachable state each bar received is emitted, dropped with a reason, or
  held for the flush, and is so exactly once. The data report, which also adds the ignored
  messages to the right-hand side, therefore reports an imbalance for exactly the received
  symbols that have at least one ignored message.\<close>

theorem report_imbalance_is_ignored:
  assumes "gw_reach ch periods cfg ok (tk, gw)"
  shows "imb_symbol ` set (snd (build_data_report (gw_stats gw)
      \<lparr>buffered_bars = gw_buffered gw, pr_pending_acks = gw_pending_acks gw\<rparr>))
    = {s. s \<in> fst ` set (st_received (gw_stats gw)) \<and> 0 < n_ignored (gw_stats gw) s}
    \<and> n_received (gw_stats gw) s
        = n_emitted (gw_stats gw) s + n_dropped (gw_stats gw) s + pend gw s"
proof -
  have acc: "accounted gw" using gw_reach_inv [OF assms] by simp
  let ?p = "\<lparr>buffered_bars = gw_buffered gw, pr_pending_acks = gw_pending_acks gw\<rparr>"
  have p: "n_pending ?p s = pend gw s" for s
    using acc by (simp add: accounted_def pending_wf_def n_pending_def)
  have "imb_symbol ` set (snd (build_data_report (gw_stats gw) ?p)) =
      {s. s \<in> fst ` set (st_received (gw_stats gw)) \<and> n_received (gw_stats gw) s \<noteq>
        n_emitted (gw_stats gw) s + n_dropped (gw_stats gw) s + n_ignored (gw_stats gw) s
        + pend gw s}"
    using imbalance_symbols [of "gw_stats gw" ?p] acc unfolding p by (simp add: accounted_def)
  then show ?thesis using acc by (auto simp: accounted_def settled_def)
qed

lemma report_imbalance_is_ignored_witness:
  "n_received (gw_stats (snd sample_run)) ''IMOEXF''
     = n_emitted (gw_stats (snd sample_run)) ''IMOEXF''
       + n_dropped (gw_stats (snd sample_run)) ''IMOEXF'' + pend (snd sample_run) ''IMOEXF''"
  using report_imbalance_is_ignored [of chrono_example None sample_gw_config "\<lambda>_. True"
      "fst sample_run" "snd sample_run" "''IMOEXF''"] sample_run_reach by simp

text \<open>Which steps can make the gateway live.\<close>

lemma live_event_not_live:
  "gw_phase gw \<noteq> LiveReady \<Longrightarrow> gw_phase (fst (ws_live_event cfg now room e gw)) \<noteq> LiveReady"
  by (cases "(cfg, now, room, e, gw)" rule: ws_live_event.cases)
     (auto simp: transition_phase_def stats_update_def on_reconnecting_def set_plan_def Let_def
       split: data_origin.splits option.splits)

lemma ws_not_live:
  assumes "gw_phase gw \<noteq> LiveReady"
  shows "gw_phase (fst (ws_event_step cfg now room e gw)) \<noteq> LiveReady"
proof -
  note live = assms live_event_not_live [of "gw\<lparr>gw_generation := n\<rparr>" cfg now room e for n]
    live_event_not_live [of gw cfg now room e]
  show ?thesis
  proof (cases e)
    case (WsConn c n)
    then show ?thesis using live by (cases c) (simp_all add: ws_event_step_def live_event_not_live del: ws_live_event.simps)
  next
    case (WsRaw v n)
    then show ?thesis using live
      by (simp add: ws_event_step_def stats_update_def live_event_not_live
          del: ws_live_event.simps split: option.split)
  qed (use live in \<open>simp_all add: ws_event_step_def live_event_not_live del: ws_live_event.simps\<close>)
qed

lemma tick_not_live:
  "gw_phase gw \<noteq> LiveReady \<Longrightarrow>
     gw_phase (snd (fst (tick_step ch periods cfg now now_utc inst (tk, gw)))) \<noteq> LiveReady"
  by (simp add: tick_step_def refresh_health_def Let_def)

lemma gw_step_not_live:
  assumes "gw_phase (snd s) \<noteq> LiveReady" "\<And>now inst bar. i \<noteq> GwBar now inst bar"
  shows "gw_phase (snd (gw_step ch periods cfg ok i s)) \<noteq> LiveReady"
proof (cases s)
  case (Pair tk gw)
  show ?thesis
  proof (cases i)
    case (GwWs now room e)
    then show ?thesis using Pair assms(1) ws_not_live by simp
  next
    case (GwTick now now_utc inst)
    then show ?thesis using Pair assms(1) tick_not_live by simp
  qed (use Pair assms in \<open>auto simp: forward_position_def forward_order_def
        forward_stop_order_def forward_trade_def Let_def\<close>)
qed

text \<open>C15. The gateway turns live only at a bar, and only when live bars have been seen for as
  many symbols as are configured, positions, orders and stop orders are synced, every desired
  subscription is active and the command connection is authorised; the resynchronisation flag
  is then cleared and, if a gap was being filled, no bar is left waiting for the flush.\<close>

theorem turns_live_only_when_ready:
  assumes "gw_phase gw \<noteq> LiveReady"
    and "gw_phase (snd (gw_step ch periods cfg ok i (tk, gw))) = LiveReady"
  shows "case i of
      GwBar now inst bar \<Rightarrow>
        length (gc_symbols cfg) \<le> length (gw_live_symbols (bar_arrive inst bar gw))
        \<and> mg_synced (gw_positions gw) \<and> mg_synced (gw_orders gw) \<and> mg_synced (gw_stops gw)
        \<and> h_desired_subscriptions (gw_health gw) \<le> h_active_subscriptions (gw_health gw)
        \<and> h_cws_authorized (gw_health gw)
        \<and> \<not> gw_resync (snd (gw_step ch periods cfg ok i (tk, gw)))
        \<and> (gw_pending_live (snd (gw_step ch periods cfg ok i (tk, gw))) = []
           \<or> gw_phase gw \<noteq> SyncingGap)
    | _ \<Rightarrow> False"
proof (cases "\<exists>now inst bar. i = GwBar now inst bar")
  case True
  then obtain now inst bar where i: "i = GwBar now inst bar" by blast
  have "live_ready cfg (bar_arrive inst bar gw) \<and> \<not> gw_resync (bar_step ok cfg now inst bar gw)
      \<and> (gw_phase gw = SyncingGap \<longrightarrow> gw_pending_live (bar_step ok cfg now inst bar gw) = [])"
    using assms i by (intro bar_step_to_live) auto
  then show ?thesis unfolding i by (auto simp: live_ready_def bar_arrive_def)
next
  case False
  then show ?thesis using assms gw_step_not_live [of "(tk, gw)" i] by simp
qed

definition ready_gateway :: gateway where
  "ready_gateway = (gateway_init False 0)
     \<lparr>gw_live_symbols := [''IMOEXF''], gw_orders := mark_synced 5 manager_init,
      gw_positions := mark_synced 5 manager_init, gw_stops := mark_synced 5 manager_init,
      gw_health := health_init\<lparr>h_cws_authorized := True\<rparr>\<rparr>"

lemma sample_bar_valid:
  "validate (bar_validation_config_new 600) 2000 (sample_bar 600 Live) None = Ok ()"
  by (simp add: validate_def bar_validation_config_new_def sample_bar_def trunc_rem_pos zero_f64_def
      f_max_def f_min_def is_nan_def)

lemma turns_live_only_when_ready_witness:
  "\<not> gw_resync (bar_step (\<lambda>_. True) sample_gw_config 2000 1 (sample_bar 600 Live) ready_gateway)"
proof -
  have live: "gw_phase (bar_step (\<lambda>_. True) sample_gw_config 2000 1 (sample_bar 600 Live) ready_gateway)
      = LiveReady"
    using sample_bar_valid
    by (simp add: bar_step_def bar_arrive_def ready_gateway_def gateway_init_def health_init_def
        live_ready_def sample_gw_config_def sample_bar_def emit_or_drop_def emit_bar_def
        publish_emitted_def stats_update_def after_emit_def turn_live_def transition_phase_def
        mark_synced_def Let_def)
  have "gw_phase ready_gateway \<noteq> LiveReady"
    by (simp add: ready_gateway_def gateway_init_def)
  from turns_live_only_when_ready [OF this, where i = "GwBar 2000 1 (sample_bar 600 Live) :: nat gw_input"
      and ch = chrono_example and periods = None and cfg = sample_gw_config and ok = "\<lambda>_. True"
      and tk = sample_ticker] live
  show ?thesis by simp
qed

text \<open>C21. An event of an old connection changes nothing: if its generation is not the current
  one and it does not announce a reconnect, no message reaches the router and the state is the
  same except, for a raw message with a symbol, the counter of ignored messages.\<close>

theorem stale_generation_has_no_effect:
  assumes "ws_generation e \<noteq> gw_generation gw" "\<And>g. e \<noteq> WsConn ConnReconnecting g"
  shows "snd (ws_event_step cfg now room e gw) = []
    \<and> (fst (ws_event_step cfg now room e gw))\<lparr>gw_stats := gw_stats gw\<rparr> = gw
    \<and> bar_frame gw (fst (ws_event_step cfg now room e gw))
    \<and> st_last_close (gw_stats (fst (ws_event_step cfg now room e gw))) = st_last_close (gw_stats gw)"
proof (cases e)
  case (WsRaw v n)
  then show ?thesis using assms(1)
    by (auto simp: ws_event_step_def stats_update_def record_ignored_def bar_frame_def
        split: option.split)
next
  case (WsConn c n)
  then show ?thesis using assms by (cases c) (auto simp: ws_event_step_def)
qed (use assms(1) in \<open>auto simp: ws_event_step_def\<close>)

lemma stale_generation_has_no_effect_witness:
  "snd (ws_event_step sample_gw_config 0 True (WsRx 7 3 :: nat ws_event) (gateway_init False 0)) = []"
  using stale_generation_has_no_effect [of "WsRx 7 3 :: nat ws_event" "gateway_init False 0"
      sample_gw_config 0 True]
  by (simp add: gateway_init_def)

text \<open>A warm backfill replays enough: its start is not before the epoch, it is at most
  the last emitted bar of every configured symbol less the padding, and the gap it reports is
  within the configured limit. When a symbol has emitted nothing the plan is the cold one.\<close>

theorem warm_plan_covers_every_symbol:
  assumes "compute_backfill_plan cfg now lst = Some (plan, mode)"
  shows "case bp_from_ts plan of
      Some f \<Rightarrow> mode = Warm \<and> bp_mode plan = Warm \<and> 0 \<le> f
        \<and> bp_gap_sec plan \<le> gc_warm_max_gap_sec cfg
        \<and> (\<forall>s\<in>set (gc_symbols cfg). \<exists>l. lst s = Some l
             \<and> f \<le> max (l - int (gc_padding_bars cfg) * gc_tf_sec cfg) 0)
    | None \<Rightarrow> mode = Cold \<and> plan = backfill_plan_cold"
proof (cases mode)
  case Cold
  then show ?thesis using plan_cases [OF assms] by (simp add: backfill_plan_cold_def)
next
  case Warm
  then obtain f where f: "bp_from_ts plan = Some f"
      "backfill_from (gc_tf_sec cfg) (gc_padding_bars cfg) lst (gc_symbols cfg) None = Some (Some f)"
      "bp_gap_sec plan \<le> gc_warm_max_gap_sec cfg" "bp_mode plan = Warm"
    using plan_cases [OF assms] by auto
  from backfill_from_Some [OF f(2)] show ?thesis using Warm f by simp
qed

lemma warm_plan_covers_every_symbol_witness:
  "case bp_from_ts \<lparr>bp_mode = Warm, bp_from_ts = Some 58800, bp_gap_sec = 2400\<rparr> of
      Some f \<Rightarrow> f \<le> 60000 - 2 * 600 | None \<Rightarrow> False"
  using warm_plan_covers_every_symbol [of sample_gw_config 61300 "\<lambda>_. Some 60000"
      "\<lparr>bp_mode = Warm, bp_from_ts = Some 58800, bp_gap_sec = 2400\<rparr>" Warm]
  by (simp add: compute_backfill_plan_def sample_gw_config_def trunc_div_def sat_sub_def sat_i64_def
      i64_min_def i64_max_def as_u64_def)

text \<open>Bars staying away make the ticker resubscribe only when the gateway is live, the
  time since the last bar exceeds the configured silence, no resynchronisation is running, the
  last one is at least the configured interval ago, and, when trading periods are configured
  and the clock readings are representable, the market is open.\<close>

theorem resubscribes_only_on_real_silence:
  assumes "snd (tick_step ch periods cfg now now_utc inst (tk, gw)) \<noteq> []"
  shows "gw_phase gw = LiveReady \<and> \<not> gw_resync gw \<and> h_ws_connected (gw_health gw)
    \<and> int (gc_max_silence_bars_sec cfg) * ns_per_sec < inst - gw_last_bar_instant gw
    \<and> int (gc_bar_silence_resync_min_sec cfg) * ns_per_sec \<le> inst - tk_last_resync tk
    \<and> (case periods of None \<Rightarrow> True
       | Some p \<Rightarrow> is_market_open_utc ch (new_with_fallback_offset_hours p 3) now_utc)"
proof -
  let ?g = "refresh_health ch periods cfg now inst gw"
  have same: "gw_phase ?g = gw_phase gw" "gw_resync ?g = gw_resync gw"
      "h_ws_connected (gw_health ?g) = h_ws_connected (gw_health gw)"
      "gw_last_bar_instant ?g = gw_last_bar_instant gw"
    by (simp_all add: refresh_health_def Let_def)
  have rs: "snd (resync_on_silence cfg now_utc inst (tk, ?g)) \<noteq> [] \<Longrightarrow>
      \<not> gw_resync gw \<and> h_ws_connected (gw_health gw)
      \<and> int (gc_bar_silence_resync_min_sec cfg) * ns_per_sec \<le> inst - tk_last_resync tk"
    by (auto simp: resync_on_silence_def same split: if_splits)
  have open_m: "\<not> silence_ok ch p cfg now_utc g \<Longrightarrow>
      is_market_open_utc ch (new_with_fallback_offset_hours p 3) now_utc" for p g
    using silence_alarm_iff [of ch "new_with_fallback_offset_hours p 3" "of_timestamp now_utc"]
    by (auto simp: silence_ok_def Let_def of_timestamp_def split: if_splits)
  have c: "gw_phase gw = LiveReady
      \<and> int (gc_max_silence_bars_sec cfg) * ns_per_sec < inst - gw_last_bar_instant gw"
    using assms by (auto simp: tick_step_def Let_def same split: if_splits)
  show ?thesis
  proof (cases periods)
    case None
    then have "snd (resync_on_silence cfg now_utc inst (tk, ?g)) \<noteq> []"
      using assms by (auto simp: tick_step_def Let_def split: if_splits)
    then show ?thesis using c rs None by simp
  next
    case (Some p)
    then have "snd (resync_on_silence cfg now_utc inst (tk, ?g)) \<noteq> [] \<and> \<not> silence_ok ch p cfg now_utc ?g"
      using assms by (auto simp: tick_step_def Let_def split: if_splits)
    then show ?thesis using c rs open_m [of p ?g] Some by simp
  qed
qed

definition live_gateway :: gateway where
  "live_gateway = (gateway_init False 0)
     \<lparr>gw_phase := LiveReady, gw_health := health_init\<lparr>h_ws_connected := True\<rparr>\<rparr>"

lemma resubscribes_only_on_real_silence_witness:
  "int (gc_max_silence_bars_sec sample_gw_config) * ns_per_sec
     < 901 * ns_per_sec - gw_last_bar_instant live_gateway"
proof -
  have "snd (tick_step chrono_example None sample_gw_config 0 0 (901 * ns_per_sec)
      (sample_ticker, live_gateway)) \<noteq> []"
    by (simp add: tick_step_def refresh_health_def resync_on_silence_def live_gateway_def
        gateway_init_def health_init_def sample_gw_config_def sample_ticker_def
        compute_backfill_plan_def Let_def)
  from resubscribes_only_on_real_silence [OF this] show ?thesis by blast
qed

end
