(* ===== verification/Router.thy ===== *)
theory Router
  imports Gateway_Models
begin

text \<open>
  The message router of \<open>alor-gateway/src/router.rs\<close>: the parsers that read bars, trades,
  positions, stop orders and orders from a raw message, and the task that classifies every
  message and holds back the live bar of a symbol until a bar with a later close time shows
  it is complete. The task is one step per received message; what it sends on its channels
  is the list of outputs. \<open>now\<close> is the clock the parsers read when a message carries no
  time.
\<close>

section \<open>Parsers\<close>

definition to_i64 :: "'n wire_lib \<Rightarrow> 'n json \<Rightarrow> i64 option" where
  "to_i64 lib v =
     (case j_i64 lib v of Some k \<Rightarrow> Some k
      | None \<Rightarrow> (case j_u64 lib v of Some k \<Rightarrow> Some (as_i64 (int k))
        | None \<Rightarrow> (case jstr v of None \<Rightarrow> None
          | Some s \<Rightarrow> (case parse_i64 s of Some k \<Rightarrow> Some k
            | None \<Rightarrow> (case rfc3339_secs lib s of Some t \<Rightarrow> Some t
              | None \<Rightarrow> naive_secs lib s)))))"

text \<open>\<open>get(..).or_else(..).and_then(f)\<close>, and the same with a default.\<close>

definition field :: "'n json \<Rightarrow> string list \<Rightarrow> ('n json \<Rightarrow> 'a option) \<Rightarrow> 'a option" where
  "field v ks f = Option.bind (first_of v ks) f"

definition field_or :: "'n json \<Rightarrow> string list \<Rightarrow> ('n json \<Rightarrow> 'a option) \<Rightarrow> 'a \<Rightarrow> 'a" where
  "field_or v ks f d = (case field v ks f of Some x \<Rightarrow> x | None \<Rightarrow> d)"

text \<open>An identifier that may be a text or a number.\<close>

fun id_text :: "'n wire_lib \<Rightarrow> 'n json \<Rightarrow> string option" where
  "id_text lib (JStr s) = Some s"
| "id_text lib (JNum n) = Some (num_text lib n)"
| "id_text lib _ = None"

definition parse_bar_item ::
  "'n wire_lib \<Rightarrow> 'n json \<Rightarrow> i64 option \<Rightarrow> data_origin \<Rightarrow> bar_event option" where
  "parse_bar_item lib data live_cutoff history_origin =
     (case field data [''symbol'', ''code''] jstr of None \<Rightarrow> None
      | Some symbol \<Rightarrow>
        (case field data [''time'', ''timestamp''] (to_i64 lib) of None \<Rightarrow> None
         | Some close \<Rightarrow>
            Some \<lparr>bar_symbol = symbol, bar_close_time = close,
                  bar_o = field_or data [''open''] (j_f64 lib) 0,
                  bar_h = field_or data [''high''] (j_f64 lib) 0,
                  bar_l = field_or data [''low''] (j_f64 lib) 0,
                  bar_c = field_or data [''close''] (j_f64 lib) 0,
                  bar_v = field_or data [''volume''] (j_f64 lib) 0,
                  bar_origin =
                    (case live_cutoff of
                       Some cutoff \<Rightarrow> if close \<le> cutoff then history_origin else Live
                     | None \<Rightarrow> Live)\<rparr>))"

definition parse_bars ::
  "'n wire_lib \<Rightarrow> 'n json \<Rightarrow> i64 option \<Rightarrow> data_origin \<Rightarrow> bar_event list" where
  "parse_bars lib v live_cutoff history_origin =
     (case jget v ''data'' of None \<Rightarrow> []
      | Some data \<Rightarrow>
        (case jarr data of
           Some items \<Rightarrow>
             List.map_filter (\<lambda>item. parse_bar_item lib item live_cutoff history_origin) items
         | None \<Rightarrow>
             (case parse_bar_item lib data live_cutoff history_origin of
                None \<Rightarrow> [] | Some b \<Rightarrow> [b])))"

definition parse_position :: "'n wire_lib \<Rightarrow> i64 \<Rightarrow> 'n json \<Rightarrow> position_event option" where
  "parse_position lib now v =
     (case jget v ''data'' of None \<Rightarrow> None
      | Some data \<Rightarrow>
        if has_key data ''status'' \<or> has_key data ''orderId'' \<or> has_key data ''id''
           \<or> has_key data ''price'' \<or> has_key data ''side'' \<or> has_key data ''type'' then None
        else (case field data [''avgPrice'', ''avg_price''] (j_f64 lib) of None \<Rightarrow> None
          | Some avg \<Rightarrow>
            (case field data [''symbol'', ''code''] jstr of None \<Rightarrow> None
             | Some symbol \<Rightarrow>
                Some \<lparr>pos_symbol = symbol, pos_qty = field_or data [''qty''] (j_f64 lib) 0,
                      pos_avg_price = avg,
                      pos_ts = field_or data [''timestamp''] (to_i64 lib) now\<rparr>)))"

definition parse_order :: "'n wire_lib \<Rightarrow> i64 \<Rightarrow> 'n json \<Rightarrow> order_event option" where
  "parse_order lib now v =
     (case jget v ''data'' of None \<Rightarrow> None
      | Some data \<Rightarrow>
        if has_key data ''stopPrice'' \<or> has_key data ''triggerPrice'' then None
        else (case field data [''orderId'', ''id''] (to_i64 lib) of None \<Rightarrow> None
          | Some oid \<Rightarrow>
            (case field data [''symbol'', ''code''] jstr of None \<Rightarrow> None
             | Some symbol \<Rightarrow>
                Some \<lparr>ord_order_id = oid, ord_request_id = None, ord_symbol = symbol,
                      ord_status = to_ascii_lowercase (field_or data [''status''] jstr ''unknown''),
                      ord_side = field_or data [''side''] jstr ''unknown'',
                      ord_type = field_or data [''type''] jstr ''unknown'',
                      ord_qty = field_or data [''qty'', ''qtyUnits'', ''qtyBatch''] (j_f64 lib) 0,
                      ord_filled =
                        field_or data [''filled'', ''filledQty'', ''filledQtyUnits'',
                                       ''filledQtyBatch''] (j_f64 lib) 0,
                      ord_price = field_or data [''price''] (j_f64 lib) 0,
                      ord_existing = field_or data [''existing''] jbool False,
                      ord_comment = field data [''comment'', ''user''] jstr,
                      ord_ts = field_or data [''updateTime'', ''transTime'', ''timestamp'']
                                 (to_i64 lib) now\<rparr>)))"

definition parse_stop_order :: "'n wire_lib \<Rightarrow> i64 \<Rightarrow> 'n json \<Rightarrow> stop_order_event option" where
  "parse_stop_order lib now v =
     (case jget v ''data'' of None \<Rightarrow> None
      | Some data \<Rightarrow>
        if \<not> has_key data ''stopPrice'' \<and> \<not> has_key data ''triggerPrice''
           \<and> \<not> has_key data ''stopEndUnixTime'' then None
        else (case field data [''id'', ''orderId''] (id_text lib) of None \<Rightarrow> None
          | Some sid \<Rightarrow>
            (case field data [''symbol'', ''code''] jstr of None \<Rightarrow> None
             | Some symbol \<Rightarrow>
                Some \<lparr>sto_id = sid,
                      sto_exchange_order_id =
                        field data [''exchangeOrderId'', ''orderNo''] (to_i64 lib),
                      sto_symbol = symbol,
                      sto_status = to_ascii_lowercase (field_or data [''status''] jstr ''unknown''),
                      sto_side = field_or data [''side''] jstr ''unknown'',
                      sto_qty = field_or data [''qty'', ''qtyUnits'', ''qtyBatch''] (j_f64 lib) 0,
                      sto_filled =
                        field_or data [''filled'', ''filledQty'', ''filledQtyUnits'',
                                       ''filledQtyBatch''] (j_f64 lib) 0,
                      sto_stop_price =
                        field_or data [''stopPrice'', ''triggerPrice''] (j_f64 lib) 0,
                      sto_price = field_or data [''price''] (j_f64 lib) 0,
                      sto_existing = field_or data [''existing''] jbool False,
                      sto_comment = field data [''comment''] jstr,
                      sto_end_time = field data [''endTime'', ''stopEndUnixTime''] (to_i64 lib),
                      sto_ts = field_or data [''updateTime'', ''transTime'', ''timestamp'']
                                 (to_i64 lib) now\<rparr>)))"

definition parse_trade :: "'n wire_lib \<Rightarrow> i64 \<Rightarrow> 'n json \<Rightarrow> trade_event option" where
  "parse_trade lib now v =
     (case jget v ''data'' of None \<Rightarrow> None
      | Some data \<Rightarrow>
        (case field data [''orderno'', ''orderNo''] (to_i64 lib) of None \<Rightarrow> None
         | Some oid \<Rightarrow>
           (case field data [''id'', ''tradeId''] (id_text lib) of None \<Rightarrow> None
            | Some tid \<Rightarrow>
              (case field data [''symbol'', ''code''] jstr of None \<Rightarrow> None
               | Some symbol \<Rightarrow>
                  Some \<lparr>tr_trade_id = tid, tr_order_id = oid, tr_symbol = symbol,
                        tr_side = to_ascii_lowercase (field_or data [''side''] jstr ''unknown''),
                        tr_qty = field_or data [''qty'', ''qtyUnits'', ''qtyBatch''] (j_f64 lib) 0,
                        tr_price = field_or data [''price''] (j_f64 lib) 0,
                        tr_commission = field_or data [''commission''] (j_f64 lib) 0,
                        tr_existing = field_or data [''existing''] jbool False,
                        tr_ts = field_or data [''date'', ''timestamp''] (to_i64 lib) now\<rparr>))))"

section \<open>The routing task\<close>

record router_state =
  live_buffers :: "string \<Rightarrow> bar_event option"
  live_cutoff_ts :: "i64 option"
  history_origin :: data_origin

definition router_init :: router_state where
  "router_init = \<lparr>live_buffers = (\<lambda>_. None), live_cutoff_ts = None, history_origin = History\<rparr>"

datatype 'n router_input =
  UpdateSubscribeWallclock i64 data_origin
| RawMessage i64 "'n json"

datatype router_output =
  OutBar bar_event
| OutTrade trade_event
| OutPosition position_event
| OutStopOrder stop_order_event
| OutOrder order_event
| OutAuthError i64

definition route_bar :: "bar_event \<Rightarrow> router_state \<Rightarrow> router_state \<times> router_output list" where
  "route_bar bar st =
     (case bar_origin bar of
        Live \<Rightarrow>
          (case live_buffers st (bar_symbol bar) of
             None \<Rightarrow> (st\<lparr>live_buffers := (live_buffers st)(bar_symbol bar := Some bar)\<rparr>, [])
           | Some prev \<Rightarrow>
               if bar_close_time bar = bar_close_time prev then
                 (st\<lparr>live_buffers := (live_buffers st)(bar_symbol bar := Some bar)\<rparr>, [])
               else if bar_close_time prev < bar_close_time bar then
                 (st\<lparr>live_buffers := (live_buffers st)(bar_symbol bar := Some bar)\<rparr>, [OutBar prev])
               else (st, []))
      | _ \<Rightarrow> (st, [OutBar bar]))"

fun route_bars :: "bar_event list \<Rightarrow> router_state \<Rightarrow> router_state \<times> router_output list" where
  "route_bars [] st = (st, [])"
| "route_bars (b # bs) st =
     (let (st1, out1) = route_bar b st; (st2, out2) = route_bars bs st1 in (st2, out1 @ out2))"

definition route_raw ::
  "'n wire_lib \<Rightarrow> i64 \<Rightarrow> 'n json \<Rightarrow> router_state \<Rightarrow> router_state \<times> router_output list" where
  "route_raw lib now v st =
     (case field v [''httpCode''] (j_i64 lib) of
        Some code \<Rightarrow> (st, if code = 401 \<or> code = 403 then [OutAuthError code] else [])
      | None \<Rightarrow>
        (let bars = parse_bars lib v (live_cutoff_ts st) (history_origin st) in
         if bars \<noteq> [] then route_bars bars st
         else (case parse_trade lib now v of Some t \<Rightarrow> (st, [OutTrade t])
           | None \<Rightarrow> (case parse_position lib now v of Some p \<Rightarrow> (st, [OutPosition p])
             | None \<Rightarrow> (case parse_stop_order lib now v of Some s \<Rightarrow> (st, [OutStopOrder s])
               | None \<Rightarrow> (case parse_order lib now v of Some r \<Rightarrow> (st, [OutOrder r])
                 | None \<Rightarrow> (st, [])))))))"

fun router_step ::
  "'n wire_lib \<Rightarrow> i64 \<Rightarrow> 'n router_input \<Rightarrow> router_state \<Rightarrow> router_state \<times> router_output list"
where
  "router_step lib tf (UpdateSubscribeWallclock wallclock origin) st =
     (st\<lparr>live_cutoff_ts := Some (wallclock - 2 * tf), history_origin := origin\<rparr>, [])"
| "router_step lib tf (RawMessage now v) st = route_raw lib now v st"

fun router_run ::
  "'n wire_lib \<Rightarrow> i64 \<Rightarrow> 'n router_input list \<Rightarrow> router_state \<Rightarrow> router_state \<times> router_output list"
where
  "router_run lib tf [] st = (st, [])"
| "router_run lib tf (i # is) st =
     (let (st1, out1) = router_step lib tf i st; (st2, out2) = router_run lib tf is st1
      in (st2, out1 @ out2))"

section \<open>Live bars leave in order\<close>

text \<open>The close times of a symbol's live bars among the outputs, in the order sent.\<close>

definition live_closes :: "string \<Rightarrow> router_output list \<Rightarrow> i64 list" where
  "live_closes s outs =
     List.map_filter (\<lambda>x. case x of OutBar b \<Rightarrow>
         if bar_symbol b = s \<and> bar_origin b = Live then Some (bar_close_time b) else None
       | _ \<Rightarrow> None) outs"

lemma live_closes_append [simp]:
  "live_closes s (xs @ ys) = live_closes s xs @ live_closes s ys"
  by (simp add: live_closes_def map_filter_def)

lemma live_closes_Nil [simp]: "live_closes s [] = []"
  by (simp add: live_closes_def map_filter_simps)

lemma live_closes_bar [simp]:
  "live_closes s [OutBar b] =
     (if bar_symbol b = s \<and> bar_origin b = Live then [bar_close_time b] else [])"
  by (simp add: live_closes_def map_filter_simps)

lemma live_closes_other [simp]:
  "live_closes s [OutTrade t] = []" "live_closes s [OutPosition p] = []"
  "live_closes s [OutStopOrder so] = []" "live_closes s [OutOrder r] = []"
  "live_closes s [OutAuthError c] = []"
  by (simp_all add: live_closes_def map_filter_simps)

text \<open>The invariant: a symbol's sent live closes ascend and stay below its buffered bar; a
  buffered bar is a live bar of its symbol.\<close>

definition held_back :: "string \<Rightarrow> i64 list \<Rightarrow> bar_event option \<Rightarrow> bool" where
  "held_back s closes buf \<longleftrightarrow> ascending closes \<and>
     (case buf of
        None \<Rightarrow> closes = []
      | Some b \<Rightarrow> bar_symbol b = s \<and> bar_origin b = Live \<and> (\<forall>t\<in>set closes. t < bar_close_time b))"

lemma held_back_simps [simp]:
  "held_back s closes None \<longleftrightarrow> closes = []"
  "held_back s closes (Some b) \<longleftrightarrow> ascending closes \<and> bar_symbol b = s \<and> bar_origin b = Live
     \<and> (\<forall>t\<in>set closes. t < bar_close_time b)"
  by (auto simp: held_back_def)

definition router_inv :: "router_output list \<Rightarrow> router_state \<Rightarrow> bool" where
  "router_inv outs st \<longleftrightarrow> (\<forall>s. held_back s (live_closes s outs) (live_buffers st s))"

lemma router_inv_init [inv_intros]: "router_inv [] router_init"
  by (simp add: router_inv_def router_init_def)

lemma router_inv_quiet:
  assumes "router_inv outs st" "\<And>s. live_closes s out = []" "live_buffers st' = live_buffers st"
  shows "router_inv (outs @ out) st'"
  using assms by (simp add: router_inv_def)

lemma router_inv_bar [inv_intros]:
  assumes inv: "router_inv outs st"
  shows "router_inv (outs @ snd (route_bar bar st)) (fst (route_bar bar st))"
proof (cases "bar_origin bar = Live")
  case False
  then have "route_bar bar st = (st, [OutBar bar])"
    by (cases "bar_origin bar") (simp_all add: route_bar_def)
  then show ?thesis using inv False by (auto intro: router_inv_quiet)
next
  case True
  have own: "held_back (bar_symbol bar) (live_closes (bar_symbol bar) outs)
      (live_buffers st (bar_symbol bar))"
    using inv by (simp add: router_inv_def)
  show ?thesis
  proof (cases "live_buffers st (bar_symbol bar)")
    case None
    then show ?thesis using inv own True by (auto simp: route_bar_def router_inv_def)
  next
    case (Some prev)
    consider "bar_close_time bar = bar_close_time prev" | "bar_close_time prev < bar_close_time bar"
      | "bar_close_time bar < bar_close_time prev" by linarith
    then show ?thesis
    proof cases
      case 2
      then show ?thesis using inv own True Some
        by (fastforce simp: route_bar_def router_inv_def sorted_wrt_append)
    qed (use inv own True Some in \<open>auto simp: route_bar_def router_inv_def\<close>)
  qed
qed

lemma router_inv_bars [inv_intros]:
  "router_inv outs st \<Longrightarrow> router_inv (outs @ snd (route_bars bars st)) (fst (route_bars bars st))"
proof (induction bars arbitrary: outs st)
  case (Cons b bs)
  show ?case
    using Cons.IH [OF router_inv_bar [OF Cons.prems, of b]]
    by (simp add: case_prod_beta Let_def)
qed simp

lemma router_inv_raw:
  assumes "router_inv outs st"
  shows "router_inv (outs @ snd (route_raw lib now v st)) (fst (route_raw lib now v st))"
proof (cases "field v [''httpCode''] (j_i64 lib)")
  case (Some code)
  then show ?thesis using assms by (auto simp: route_raw_def intro: router_inv_quiet)
next
  case None
  then show ?thesis using assms router_inv_bars [OF assms]
    by (auto simp: route_raw_def Let_def split: option.splits intro: router_inv_quiet)
qed

lemma router_inv_step [inv_intros]:
  "router_inv outs st \<Longrightarrow>
     router_inv (outs @ snd (router_step lib tf i st)) (fst (router_step lib tf i st))"
  using router_inv_quiet [of outs st "[]"]
  by (cases i) (simp_all add: router_inv_raw router_inv_quiet)

lemma router_inv_run [inv_intros]:
  "router_inv outs st \<Longrightarrow>
     router_inv (outs @ snd (router_run lib tf is st)) (fst (router_run lib tf is st))"
proof (induction "is" arbitrary: outs st)
  case (Cons i "is")
  show ?case
    using Cons.IH [OF router_inv_step [OF Cons.prems, of lib tf i]]
    by (simp add: case_prod_beta Let_def)
qed simp

section \<open>Every message goes to one stream\<close>

datatype stream = BarStream | TradeStream | PositionStream | StopOrderStream | OrderStream
  | ControlStream

fun stream_of :: "router_output \<Rightarrow> stream" where
  "stream_of (OutBar _) = BarStream"
| "stream_of (OutTrade _) = TradeStream"
| "stream_of (OutPosition _) = PositionStream"
| "stream_of (OutStopOrder _) = StopOrderStream"
| "stream_of (OutOrder _) = OrderStream"
| "stream_of (OutAuthError _) = ControlStream"

lemma route_bar_stream: "x \<in> set (snd (route_bar b st)) \<Longrightarrow> stream_of x = BarStream"
  by (auto simp: route_bar_def split: data_origin.splits option.splits if_splits)

lemma route_bars_stream: "x \<in> set (snd (route_bars bs st)) \<Longrightarrow> stream_of x = BarStream"
  by (induction bs arbitrary: st) (auto simp: case_prod_beta Let_def dest: route_bar_stream)

lemma parse_order_no_stop:
  "parse_order lib now v = Some r \<Longrightarrow> jget v ''data'' = Some data \<Longrightarrow>
     \<not> has_key data ''stopPrice'' \<and> \<not> has_key data ''triggerPrice''"
  by (auto simp: parse_order_def split: if_splits)

section \<open>Properties\<close>

text \<open>C14. Whatever messages and subscription updates the routing task receives, in any
  order, the live bars it sends for one symbol have strictly increasing close times: a bar is
  sent once, when a later one has shown it complete, and an out-of-order update never
  follows.\<close>

theorem router_live_bars_ascend:
  "ascending (live_closes s (snd (router_run lib tf inputs router_init)))"
  using router_inv_run [OF router_inv_init, of lib tf inputs]
  by (auto simp: router_inv_def held_back_def)

text \<open>Every raw message is sent to at most one of the streams: bars, trades, positions,
  stop orders, orders or control.\<close>

theorem route_raw_one_stream:
  "length (remdups (map stream_of (snd (route_raw lib now v st)))) \<le> 1"
proof -
  have one: "(\<forall>x\<in>set xs. stream_of x = k) \<Longrightarrow> length (remdups (map stream_of xs)) \<le> 1" for xs k
  proof (induction xs)
    case (Cons x xs)
    then show ?case by (cases xs) auto
  qed simp
  show ?thesis
  proof (cases "field v [''httpCode''] (j_i64 lib) = None
      \<and> parse_bars lib v (live_cutoff_ts st) (history_origin st) \<noteq> []")
    case True
    then show ?thesis
      by (intro one [of _ BarStream]) (simp add: route_raw_def Let_def route_bars_stream)
  next
    case False
    then have "length (snd (route_raw lib now v st)) \<le> 1"
      by (auto simp: route_raw_def Let_def split: option.split)
    then show ?thesis using length_remdups_leq [of "map stream_of (snd (route_raw lib now v st))"]
      by simp
  qed
qed

end
