(* ===== verification/Normalize.thy ===== *)
theory Normalize
  imports Protocol
begin

text \<open>
  Rounding of prices and quantities to the instrument's steps, from
  \<open>alor-gateway/src/services/command_consumer.rs\<close>, in binary64. The lemmas show what the
  functions compute for whole-numbered steps, where no rounding error is left.
\<close>

section \<open>Operations\<close>

definition normalize_price :: "f64 \<Rightarrow> f64 \<Rightarrow> side \<Rightarrow> f64" where
  "normalize_price price step sd =
     (if step \<le> 0 then price
      else let scaled = price div step;
               adjusted = (case sd of Buy \<Rightarrow> f_floor scaled | Sell \<Rightarrow> f_ceil scaled)
           in adjusted * step)"

text \<open>The literal \<open>1e-9\<close>, and \<open>10_f64.powi(n)\<close> for the small \<open>n\<close> used here.\<close>

definition lit_1e_9 :: f64 where
  "lit_1e_9 = rnd (1 / 1000000000)"

definition ten_powi :: "nat \<Rightarrow> f64" where
  "ten_powi n = rnd (10 ^ n)"

fun decimals_loop :: "nat list \<Rightarrow> f64 \<Rightarrow> nat" where
  "decimals_loop [] scaled = 8"
| "decimals_loop (d # ds) scaled =
     (if \<bar>scaled - f_round scaled\<bar> \<le> lit_1e_9 then d else decimals_loop ds (scaled * Fin 10))"

definition decimal_places_for_step :: "f64 \<Rightarrow> nat" where
  "decimal_places_for_step step = decimals_loop [0..<9] \<bar>step\<bar>"

definition normalize_step_round :: "f64 \<Rightarrow> f64 \<Rightarrow> f64" where
  "normalize_step_round value step =
     (if step \<le> 0 then value
      else let normalized = f_round (value div step) * step;
               scale = ten_powi (decimal_places_for_step step)
           in f_round (normalized * scale) div scale)"

definition normalize_qty :: "f64 \<Rightarrow> f64 \<Rightarrow> f64" where
  "normalize_qty value step = (if step \<le> 0 then value else f_floor (value div step) * step)"

section \<open>Whole numbers of lots\<close>

lemma pow2_ulp_le:
  assumes "0 < x"
  shows "pow2 (ulp_exp x) \<le> max (pow2 (- 1074)) (x / 2 ^ 52)"
proof (cases "rat_log2 \<bar>x\<bar> - 52 \<le> - 1074")
  case True
  then show ?thesis by (simp add: ulp_exp_def)
next
  case False
  have "pow2 (rat_log2 x) = pow2 (rat_log2 x - 52) * 2 ^ 52"
    using pow2_add [of "rat_log2 x - 52" 52] by (simp add: pow2_def)
  then have "pow2 (rat_log2 x - 52) \<le> x / 2 ^ 52"
    using rat_log2_bounds(1) [OF assms] by (simp add: field_simps)
  then show ?thesis using False assms by (simp add: ulp_exp_def max_def)
qed

text \<open>A quotient of whole numbers below \<open>2 ^ 53\<close> stays on its side of the next integer.\<close>

lemma rnd_rat_div_close:
  assumes v: "0 < v" "v < 2 ^ 53" and s: "0 < s" "s \<le> 2 ^ 53"
  shows "\<bar>rnd_rat (of_int v / of_int s) - of_int v / of_int s\<bar> < 1 / of_int s"
proof -
  let ?x = "of_int v / of_int s :: rat"
  have x: "0 < ?x" using v s by simp
  have sv: "(of_int v :: rat) < 2 ^ 53" "(of_int s :: rat) \<le> 2 ^ 53"
    using v(2) s(2) by (metis of_int_less_iff of_int_numeral of_int_power,
        metis of_int_le_iff of_int_numeral of_int_power)
  have s0: "(0::rat) < of_int s" using s by simp
  have "pow2 (- 1074) \<le> pow2 (- 54)" by (intro pow2_mono) simp
  also have "pow2 (- 54) = 1 / 2 ^ 54" using pow2_diff_nat [of 0 54] by simp
  also have "\<dots> < 2 / of_int s" using sv s0 by (simp add: field_simps)
  finally have a: "pow2 (- 1074) < 2 / of_int s" .
  have b: "?x / 2 ^ 52 < 2 / of_int s" using sv s0 by (simp add: field_simps)
  have "pow2 (ulp_exp ?x) < 2 / of_int s" using pow2_ulp_le [OF x] a b by linarith
  then show ?thesis using rnd_rat_near [of ?x] by linarith
qed

lemma div_bounds_rat:
  assumes "0 < s"
  shows "of_int (v div s) \<le> (of_int v / of_int s :: rat)"
    and "(of_int v / of_int s :: rat) + 1 / of_int s \<le> of_int (v div s) + 1"
proof -
  have s0: "(0::rat) < of_int s" using assms by simp
  define q r where "q = v div s" and "r = v mod s"
  have r: "0 \<le> r" "r < s" using assms by (simp_all add: r_def)
  have qs: "q * s = v - r" "(q + 1) * s = v - r + s"
    by (simp_all add: q_def r_def minus_mod_eq_div_mult distrib_right)
  have "q * s \<le> v" "v + 1 \<le> (q + 1) * s"
    unfolding qs using r by linarith+
  then have "v div s * s \<le> v" "v + 1 \<le> (v div s + 1) * s" by (simp_all only: q_def)
  then have "of_int (v div s * s) \<le> (of_int v :: rat)" "(of_int (v + 1) :: rat) \<le> of_int ((v div s + 1) * s)"
    by (simp_all only: of_int_le_iff)
  then show "of_int (v div s) \<le> (of_int v / of_int s :: rat)"
    "(of_int v / of_int s :: rat) + 1 / of_int s \<le> of_int (v div s) + 1"
    using s0 by (simp_all add: field_simps)
qed

lemma whole_div:
  assumes v: "0 \<le> v" "v < 2 ^ 53" and s: "0 < s" "s \<le> 2 ^ 53"
  obtains y where "Fin (of_int v) div Fin (of_int s) = Fin y" "\<lfloor>y\<rfloor> = v div s"
    "\<lceil>y\<rceil> = - ((- v) div s)"
proof -
  let ?x = "of_int v / of_int s :: rat"
  have s0: "(0::rat) < of_int s" using s by simp
  have q: "0 \<le> v div s" "v div s \<le> v"
    using v s zdiv_mono2 [of v 1 s] by (simp_all add: pos_imp_zdiv_nonneg_iff)
  show ?thesis
  proof (cases "v = 0")
    case True
    then show ?thesis using that [of 0] s by simp
  next
    case False
    then have v0: "0 < v" using v by simp
    note close = rnd_rat_div_close [OF v0 v(2) s]
    have i53: "rnd_rat (of_int k) = of_int k" if "\<bar>k\<bar> \<le> 2 ^ 53" for k :: int
      using rnd_rat_exact [of k 0 "of_int k"] that by simp
    have lo: "of_int (v div s) \<le> rnd_rat ?x"
      using rnd_rat_mono [OF div_bounds_rat(1) [OF s(1), of v]] i53 [of "v div s"] q v by simp
    have hi: "rnd_rat ?x < of_int (v div s) + 1"
      using close div_bounds_rat(2) [OF s(1), of v] by linarith
    have fl: "\<lfloor>rnd_rat ?x\<rfloor> = v div s" using lo hi by (intro floor_unique) auto
    let ?c = "- ((- v) div s)"
    have cq: "?c \<le> v div s + 1" "0 \<le> ?c" "v div s \<le> ?c"
      using zdiv_zminus1_eq_if [of s v] s q by auto
    have hic: "rnd_rat ?x \<le> of_int ?c"
    proof -
      have "?x \<le> of_int ?c" using div_bounds_rat(1) [OF s(1), of "- v"] by simp
      moreover have "\<bar>?c\<bar> \<le> 2 ^ 53" using cq q v by linarith
      ultimately show ?thesis using rnd_rat_mono [of ?x "of_int ?c"] i53 [of ?c] by simp
    qed
    have loc: "of_int ?c - 1 < rnd_rat ?x"
      using close div_bounds_rat(2) [OF s(1), of "- v"] by simp
    have ce: "\<lceil>rnd_rat ?x\<rceil> = ?c" using hic loc by (intro ceiling_unique) auto
    have "\<bar>?x\<bar> \<le> of_int v" using v0 s s0 by (simp add: field_simps abs_of_pos)
    also have "(of_int v :: rat) < 2 ^ 53" using v(2) by (metis of_int_less_iff of_int_numeral of_int_power)
    also have "(2::rat) ^ 53 < 2 ^ 1023" by (rule power_strict_increasing) simp_all
    finally have "rnd ?x = Fin (rnd_rat ?x)" by (rule rnd_Fin)
    then show ?thesis using that [OF _ fl ce] s0 by simp
  qed
qed

lemma Fin_int_times: "\<bar>a * b\<bar> \<le> 2 ^ 53 \<Longrightarrow> Fin (of_int a) * Fin (of_int b) = Fin (of_int (a * b))"
  using rnd_of_int [of "a * b"] by simp

lemma Fin_int_pos: "\<not> Fin (of_int s) \<le> 0 \<longleftrightarrow> 0 < s"
  by (simp add: zero_f64_def not_le)

lemma normalize_qty_whole:
  assumes "0 \<le> v" "v < 2 ^ 53" "0 < s" "s \<le> 2 ^ 53"
  shows "normalize_qty (Fin (of_int v)) (Fin (of_int s)) = Fin (of_int (v - v mod s))"
proof -
  obtain y where y: "Fin (of_int v) div Fin (of_int s) = Fin y" "\<lfloor>y\<rfloor> = v div s"
    using whole_div [OF assms] by blast
  have e: "v div s * s = v - v mod s" by (simp add: minus_mod_eq_div_mult)
  have "\<bar>v div s * s\<bar> \<le> 2 ^ 53"
    unfolding e abs_le_iff using assms pos_mod_sign [of s v] zmod_le_nonneg_dividend [of v s]
    by linarith
  from Fin_int_times [OF this] show ?thesis
    using y assms Fin_int_pos [of s] unfolding e by (simp add: normalize_qty_def f_floor_def)
qed

text \<open>A buy price goes down to the grid and a sell price up.\<close>

lemma normalize_price_whole:
  assumes "0 \<le> v" "v + s < 2 ^ 53" "0 < s"
  shows "normalize_price (Fin (of_int v)) (Fin (of_int s)) Buy = Fin (of_int (v - v mod s))"
    and "normalize_price (Fin (of_int v)) (Fin (of_int s)) Sell = Fin (of_int (v + (- v) mod s))"
proof -
  have b: "v < 2 ^ 53" "s \<le> 2 ^ 53" using assms by auto
  obtain y where y: "Fin (of_int v) div Fin (of_int s) = Fin y" "\<lfloor>y\<rfloor> = v div s"
      "\<lceil>y\<rceil> = - ((- v) div s)"
    using whole_div [OF assms(1) b(1) assms(3) b(2)] by blast
  have e: "v div s * s = v - v mod s" by (simp add: minus_mod_eq_div_mult)
  have c: "- ((- v) div s) * s = v + (- v) mod s"
    using minus_mod_eq_div_mult [of "- v" s] by simp
  have m: "0 \<le> v mod s" "v mod s < s" "0 \<le> (- v) mod s" "(- v) mod s < s" "v mod s \<le> v"
    using assms zmod_le_nonneg_dividend [of v s] by auto
  have "\<bar>v div s * s\<bar> \<le> 2 ^ 53" "\<bar>- ((- v) div s) * s\<bar> \<le> 2 ^ 53"
    unfolding e c abs_le_iff using assms m by linarith+
  note t = this [THEN Fin_int_times]
  show "normalize_price (Fin (of_int v)) (Fin (of_int s)) Buy = Fin (of_int (v - v mod s))"
    using y t(1) assms Fin_int_pos [of s] unfolding e by (simp add: normalize_price_def f_floor_def)
  show "normalize_price (Fin (of_int v)) (Fin (of_int s)) Sell = Fin (of_int (v + (- v) mod s))"
    using y t(2) assms Fin_int_pos [of s] unfolding c by (simp add: normalize_price_def f_ceil_def)
qed

section \<open>A step that is not a binary fraction\<close>

text \<open>The doubles written \<open>0.1\<close>, \<open>0.2\<close> and \<open>0.3\<close>.\<close>

lemma pow2_neg: "pow2 (- int n) = 1 / 2 ^ n"
  using pow2_diff_nat [of 0 n] by simp

lemma rnd_dyadic_eqI:
  assumes "(2::rat) ^ 52 / 2 ^ n \<le> q" "q < 2 ^ 53 / 2 ^ n" "n \<le> 1074"
    and "\<bar>of_int m - q * 2 ^ n\<bar> < 1 / 2"
  shows "rnd q = Fin (of_int m / 2 ^ n)"
proof -
  have p: "pow2 (52 - int n) = 2 ^ 52 / 2 ^ n" "pow2 (53 - int n) = 2 ^ 53 / 2 ^ n"
    using pow2_diff_nat [of 52 n] pow2_diff_nat [of 53 n] by simp_all
  have q0: "0 < q" using assms(1) by (rule less_le_trans [rotated]) simp
  have "rnd q = Fin (of_int m * pow2 (- int n))"
    using assms q0 by (intro rnd_eqI) (simp_all add: p pow2_neg)
  then show ?thesis by (simp add: pow2_neg)
qed

lemma rnd_tenths:
  "rnd (1 / 10) = Fin (7205759403792794 / 2 ^ 56)"
  "rnd (1 / 5) = Fin (7205759403792794 / 2 ^ 55)"
  "rnd (3 / 10) = Fin (5404319552844595 / 2 ^ 54)"
  using rnd_dyadic_eqI [of 56 "1 / 10" 7205759403792794]
    rnd_dyadic_eqI [of 55 "1 / 5" 7205759403792794]
    rnd_dyadic_eqI [of 54 "3 / 10" 5404319552844595]
  by simp_all

lemma three_tenths_over_tenth:
  "rnd (5404319552844595 / 2 ^ 54 / (7205759403792794 / 2 ^ 56)) = Fin (6755399441055743 / 2 ^ 51)"
  using rnd_dyadic_eqI [of 51 "5404319552844595 / 2 ^ 54 / (7205759403792794 / 2 ^ 56)" 6755399441055743]
  by simp

lemma twice_tenth: "rnd (2 * (7205759403792794 / 2 ^ 56)) = Fin (7205759403792794 / 2 ^ 55)"
  using rnd_dyadic_eqI [of 55 "2 * (7205759403792794 / 2 ^ 56)" 7205759403792794] by simp

section \<open>Properties\<close>

text \<open>With whole-numbered steps normalisation is exact, for any price and quantity below
  \<open>2 ^ 53\<close>: the quantity and a buy price are lowered, a sell price raised, to the nearest
  multiple of the step; a value already on the grid is unchanged. No rounding error of the
  floating-point division can move the result by a step.\<close>

theorem normalize_whole_steps:
  assumes "0 \<le> v" "0 < s" "v + s < 2 ^ 53"
  shows "normalize_qty (Fin (of_int v)) (Fin (of_int s)) = Fin (of_int (v - v mod s))
    \<and> normalize_price (Fin (of_int v)) (Fin (of_int s)) Buy = Fin (of_int (v - v mod s))
    \<and> normalize_price (Fin (of_int v)) (Fin (of_int s)) Sell = Fin (of_int (v + (- v) mod s))"
proof -
  have "v < 2 ^ 53" "s \<le> 2 ^ 53" using assms by auto
  then show ?thesis using normalize_qty_whole normalize_price_whole assms by simp
qed

lemma normalize_whole_steps_witness:
  "normalize_price (Fin (of_int 103)) (Fin (of_int 10)) Buy = Fin (of_int (103 - 103 mod 10))"
  using normalize_whole_steps [of 103 10] by simp

text \<open>With a step that is no binary fraction normalisation can move a price that is on
  the grid by a whole step: a buy at \<open>0.3\<close> with the step \<open>0.1\<close> is sent at \<open>0.2\<close>, because
  the quotient of the two doubles is just below 3 and is floored.\<close>

theorem normalize_moves_grid_price:
  "normalize_price (rnd (3 / 10)) (rnd (1 / 10)) Buy = rnd (1 / 5)"
proof -
  have d: "Fin (5404319552844595 / 2 ^ 54) div Fin (7205759403792794 / 2 ^ 56)
      = Fin (6755399441055743 / 2 ^ 51)"
    using three_tenths_over_tenth by (simp only: divide_f64.simps) simp
  have "\<lfloor>6755399441055743 / 2251799813685248 :: rat\<rfloor> = 2" by (rule floor_unique) simp_all
  then have "f_floor (Fin (6755399441055743 / 2 ^ 51)) = Fin 2" by (simp add: f_floor_def)
  then show ?thesis
    using twice_tenth unfolding rnd_tenths normalize_price_def d Let_def
    by (simp add: zero_f64_def)
qed

end
