(* ===== verification/Idempotency.thy ===== *)
theory Idempotency
  imports Protocol
begin

text \<open>
  The request-id memory of the command consumer, \<open>InMemoryIdempotency\<close> in
  \<open>alor-gateway/src/services/command_consumer.rs\<close>: a map from ids to the instant they
  were accepted and a queue of the ids in that order. Expired ids leave from the front of the
  queue, and so does the oldest one when the queue exceeds its bound. Instants are
  nanoseconds of a monotonic clock; the readings of one call are one reading.
\<close>

section \<open>The in-memory store\<close>

record idem_store =
  idm_entries :: "uuid \<Rightarrow> int option"
  idm_order :: "uuid list"

definition idem_empty :: idem_store where
  "idem_empty = \<lparr>idm_entries = (\<lambda>_. None), idm_order = []\<rparr>"

fun evict_expired_loop ::
  "int \<Rightarrow> int \<Rightarrow> uuid list \<Rightarrow> (uuid \<Rightarrow> int option) \<Rightarrow> uuid list \<times> (uuid \<Rightarrow> int option)" where
  "evict_expired_loop ttl now [] entries = ([], entries)"
| "evict_expired_loop ttl now (front # rest) entries =
     (case entries front of
        None \<Rightarrow> evict_expired_loop ttl now rest entries
      | Some ts \<Rightarrow>
          if max 0 (now - ts) > ttl then evict_expired_loop ttl now rest (entries(front := None))
          else (front # rest, entries))"

definition evict_expired :: "int \<Rightarrow> int \<Rightarrow> idem_store \<Rightarrow> idem_store" where
  "evict_expired ttl now s =
     (let (order, entries) = evict_expired_loop ttl now (idm_order s) (idm_entries s)
      in \<lparr>idm_entries = entries, idm_order = order\<rparr>)"

fun evict_overflow_loop ::
  "nat \<Rightarrow> uuid list \<Rightarrow> (uuid \<Rightarrow> int option) \<Rightarrow> uuid list \<times> (uuid \<Rightarrow> int option)" where
  "evict_overflow_loop bound [] entries = ([], entries)"
| "evict_overflow_loop bound (front # rest) entries =
     (if length (front # rest) > bound
      then evict_overflow_loop bound rest (entries(front := None))
      else (front # rest, entries))"

definition evict_overflow :: "nat \<Rightarrow> idem_store \<Rightarrow> idem_store" where
  "evict_overflow bound s =
     (let (order, entries) = evict_overflow_loop bound (idm_order s) (idm_entries s)
      in \<lparr>idm_entries = entries, idm_order = order\<rparr>)"

definition check_and_set ::
  "int \<Rightarrow> nat \<Rightarrow> int \<Rightarrow> uuid \<Rightarrow> idem_store \<Rightarrow> bool \<times> idem_store" where
  "check_and_set ttl bound now rid s0 =
     (let s = evict_expired ttl now s0 in
      if idm_entries s rid \<noteq> None then (False, s)
      else (True, evict_overflow bound
              \<lparr>idm_entries = (idm_entries s)(rid := Some now), idm_order = idm_order s @ [rid]\<rparr>))"

section \<open>The interface the consumer relies on\<close>

text \<open>\<open>cas t i s\<close> asks at time \<open>t\<close> whether the id is new and remembers it; \<open>live t s i\<close>
  says that \<open>i\<close> is remembered at \<open>t\<close>; \<open>inv c s\<close> holds of the states reached by time
  \<open>c\<close>.\<close>

locale idempotency =
  fixes cas :: "int \<Rightarrow> 'id \<Rightarrow> 's \<Rightarrow> bool \<times> 's"
    and live :: "int \<Rightarrow> 's \<Rightarrow> 'id \<Rightarrow> bool"
    and inv :: "int \<Rightarrow> 's \<Rightarrow> bool"
  assumes inv_cas: "inv c s \<Longrightarrow> c \<le> t \<Longrightarrow> inv t (snd (cas t i s))"
    and answer: "inv c s \<Longrightarrow> c \<le> t \<Longrightarrow> fst (cas t i s) \<longleftrightarrow> \<not> live t s i"
    and remembers: "inv c s \<Longrightarrow> c \<le> t \<Longrightarrow> live t (snd (cas t i s)) i"
    and no_invention: "inv c s \<Longrightarrow> c \<le> t \<Longrightarrow> live t (snd (cas t i s)) j \<Longrightarrow> j = i \<or> live t s j"
begin

lemma repeat_refused: "inv c s \<Longrightarrow> c \<le> t \<Longrightarrow> \<not> fst (cas t i (snd (cas t i s)))"
  using answer [OF inv_cas [of c s t i] order_refl] remembers by blast

lemma fresh_accepted: "inv c s \<Longrightarrow> c \<le> t \<Longrightarrow> \<not> live t s i \<Longrightarrow> fst (cas t i s)"
  using answer by blast

lemma other_still_fresh:
  "inv c s \<Longrightarrow> c \<le> t \<Longrightarrow> j \<noteq> i \<Longrightarrow> fst (cas t j s) \<Longrightarrow> fst (cas t j (snd (cas t i s)))"
  using answer [OF inv_cas [of c s t i] order_refl, of j] answer [of c s t j] no_invention
  by blast

end

section \<open>Invariant\<close>

definition idem_times :: "idem_store \<Rightarrow> int list" where
  "idem_times s = map (\<lambda>i. the (idm_entries s i)) (idm_order s)"

definition idem_inv :: "nat \<Rightarrow> int \<Rightarrow> idem_store \<Rightarrow> bool" where
  "idem_inv bound clock s \<longleftrightarrow>
     distinct (idm_order s) \<and> set (idm_order s) = dom (idm_entries s)
     \<and> length (idm_order s) \<le> bound
     \<and> sorted (idem_times s) \<and> (\<forall>t\<in>set (idem_times s). t \<le> clock)"

definition idem_live :: "int \<Rightarrow> int \<Rightarrow> idem_store \<Rightarrow> uuid \<Rightarrow> bool" where
  "idem_live ttl now s i =
     (case idm_entries s i of None \<Rightarrow> False | Some ts \<Rightarrow> now - ts \<le> ttl)"

text \<open>The loop removes exactly the expired ids, because the queue is in order of time.\<close>

lemma evict_expired_loop_result:
  assumes "distinct q" "set q = dom m" "sorted (map (\<lambda>i. the (m i)) q)"
    "\<forall>i\<in>set q. the (m i) \<le> now" "0 \<le> ttl"
  shows "evict_expired_loop ttl now q m =
    (dropWhile (\<lambda>i. ttl < now - the (m i)) q,
     \<lambda>i. case m i of None \<Rightarrow> None | Some ts \<Rightarrow> if now - ts \<le> ttl then Some ts else None)"
  using assms
proof (induction q arbitrary: m)
  case Nil
  then have "dom m = {}" by simp
  then have "m = Map.empty" by (simp only: dom_eq_empty_conv)
  then show ?case by simp
next
  case (Cons i q)
  have dom: "dom m = insert i (set q)" and i: "i \<notin> set q" "distinct q"
    using Cons.prems(1,2) by simp_all
  from dom have "i \<in> dom m" by simp
  then obtain ts where ts: "m i = Some ts" by blast
  have srt: "\<forall>j\<in>set q. ts \<le> the (m j)" "sorted (map (\<lambda>j. the (m j)) q)"
    using Cons.prems(3) ts by simp_all
  show ?case
  proof (cases "ttl < now - ts")
    case False
    have "(case m j of None \<Rightarrow> None | Some t \<Rightarrow> if now - t \<le> ttl then Some t else None) = m j" for j
    proof (cases "m j")
      case (Some t)
      then have "j \<in> insert i (set q)" using dom by (metis domI)
      then have "ts \<le> t" using srt(1) ts Some by auto
      then show ?thesis using Some False by simp
    qed simp
    then have "(\<lambda>j. case m j of None \<Rightarrow> None | Some t \<Rightarrow> if now - t \<le> ttl then Some t else None) = m"
      by (rule ext)
    moreover have "\<not> ttl < max 0 (now - ts)" using False Cons.prems(5) by auto
    ultimately show ?thesis using False ts by simp
  next
    case True
    let ?m = "m(i := None)"
    have same: "the (?m j) = the (m j)" if "j \<in> set q" for j
      using that i(1) by auto
    have ih: "evict_expired_loop ttl now q ?m =
        (dropWhile (\<lambda>i. ttl < now - the (?m i)) q,
         \<lambda>i. case ?m i of None \<Rightarrow> None | Some ts \<Rightarrow> if now - ts \<le> ttl then Some ts else None)"
    proof (rule Cons.IH)
      show "distinct q" "0 \<le> ttl" using i Cons.prems(5) by simp_all
      show "set q = dom ?m" using dom i(1) by auto
      show "\<forall>j\<in>set q. the (?m j) \<le> now" using Cons.prems(4) same by simp
      have "map (\<lambda>j. the (?m j)) q = map (\<lambda>j. the (m j)) q" using same by (intro map_cong) auto
      then show "sorted (map (\<lambda>j. the (?m j)) q)" using srt(2) by (simp only:)
    qed
    have dw: "dropWhile (\<lambda>j. ttl < now - the (?m j)) q = dropWhile (\<lambda>j. ttl < now - the (m j)) q"
      using same by (intro dropWhile_cong) auto
    have fe: "(\<lambda>j. case ?m j of None \<Rightarrow> None | Some ts \<Rightarrow> if now - ts \<le> ttl then Some ts else None)
        = (\<lambda>j. case m j of None \<Rightarrow> None | Some ts \<Rightarrow> if now - ts \<le> ttl then Some ts else None)"
      using True ts by (auto simp: fun_eq_iff)
    have "evict_expired_loop ttl now (i # q) m = evict_expired_loop ttl now q ?m"
      using ts True Cons.prems(5) by simp
    then show ?thesis using ih dw fe ts True by simp
  qed
qed

lemma evict_expired_entries:
  assumes "idem_inv bound c s" "c \<le> now" "0 \<le> ttl"
  shows "idm_entries (evict_expired ttl now s) i =
      (if idem_live ttl now s i then idm_entries s i else None)"
    and "idm_order (evict_expired ttl now s) =
      dropWhile (\<lambda>i. ttl < now - the (idm_entries s i)) (idm_order s)"
proof -
  have le: "\<forall>i\<in>set (idm_order s). the (idm_entries s i) \<le> now"
  proof
    fix i
    assume "i \<in> set (idm_order s)"
    then have "the (idm_entries s i) \<in> set (idem_times s)" by (simp add: idem_times_def)
    then show "the (idm_entries s i) \<le> now" using assms(1,2) by (auto simp: idem_inv_def)
  qed
  have "evict_expired_loop ttl now (idm_order s) (idm_entries s) =
    (dropWhile (\<lambda>i. ttl < now - the (idm_entries s i)) (idm_order s),
     \<lambda>i. case idm_entries s i of None \<Rightarrow> None | Some ts \<Rightarrow> if now - ts \<le> ttl then Some ts else None)"
    using assms(1,3) le
    by (intro evict_expired_loop_result) (auto simp: idem_inv_def idem_times_def)
  then show "idm_entries (evict_expired ttl now s) i =
      (if idem_live ttl now s i then idm_entries s i else None)"
    "idm_order (evict_expired ttl now s) =
      dropWhile (\<lambda>i. ttl < now - the (idm_entries s i)) (idm_order s)"
    by (auto simp: evict_expired_def idem_live_def split: option.splits)
qed

text \<open>One new id at the back: at most the front leaves.\<close>

lemma evict_overflow_loop_short:
  "length q \<le> bound \<Longrightarrow> evict_overflow_loop bound q m = (q, m)"
  by (cases q) simp_all

lemma evict_overflow_one:
  assumes "length q \<le> Suc bound"
  shows "evict_overflow_loop bound q m =
    (if length q \<le> bound then (q, m) else (tl q, m(hd q := None)))"
proof (cases "length q \<le> bound")
  case False
  then obtain x xs where q: "q = x # xs" by (cases q) auto
  then show ?thesis using False assms evict_overflow_loop_short [of xs bound] by simp
qed (simp add: evict_overflow_loop_short)

lemma idem_inv_evict_expired:
  assumes "idem_inv bound c s" "c \<le> now" "0 \<le> ttl"
  shows "idem_inv bound now (evict_expired ttl now s)"
proof -
  note e = evict_expired_entries [OF assms]
  let ?q = "idm_order s" and ?q' = "idm_order (evict_expired ttl now s)"
  let ?old = "\<lambda>i. ttl < now - the (idm_entries s i)"
  have inv: "distinct ?q" "set ?q = dom (idm_entries s)" "length ?q \<le> bound"
      "sorted (idem_times s)" "\<forall>t\<in>set (idem_times s). t \<le> c"
    using assms(1) by (auto simp: idem_inv_def)
  have sub: "?q' = dropWhile ?old ?q" by (rule e(2))
  have srt: "sorted (map (\<lambda>i. the (idm_entries s i)) ?q)"
    using inv(4) by (simp add: idem_times_def)
  have young: "\<not> ?old i" if "i \<in> set ?q'" for i
  proof (cases "?q' = []")
    case False
    then obtain x xs where x: "?q' = x # xs" by (cases ?q') auto
    have nx: "\<not> ?old x" using hd_dropWhile [of ?old ?q] False sub x by (metis list.sel(1))
    have "sorted (map (\<lambda>i. the (idm_entries s i)) ?q')"
      unfolding sub using srt by (metis dropWhile_map sorted_dropWhile dropWhile_eq_drop drop_map sorted_wrt_drop)
    then have "the (idm_entries s x) \<le> the (idm_entries s i)" using that x by auto
    then show ?thesis using nx by linarith
  qed (use that in simp)
  have keep: "idem_live ttl now s i \<longleftrightarrow> i \<in> set ?q'" for i
  proof
    assume "i \<in> set ?q'"
    moreover from this have "i \<in> dom (idm_entries s)"
      using inv(2) set_dropWhileD [of i ?old ?q] sub by auto
    ultimately show "idem_live ttl now s i"
      using young [of i] by (auto simp: idem_live_def)
  next
    assume l: "idem_live ttl now s i"
    then have "i \<in> set ?q" "\<not> ?old i" using inv(2) by (auto simp: idem_live_def split: option.splits)
    then show "i \<in> set ?q'" unfolding sub by (metis Un_iff set_append set_takeWhileD takeWhile_dropWhile_id)
  qed
  have same: "the (idm_entries (evict_expired ttl now s) i) = the (idm_entries s i)" if "i \<in> set ?q'" for i
    using that keep e(1) by simp
  have times: "idem_times (evict_expired ttl now s) = map (\<lambda>i. the (idm_entries s i)) ?q'"
    unfolding idem_times_def using same by (intro map_cong) auto
  have dq: "\<exists>n. ?q' = drop n ?q" unfolding sub by (metis dropWhile_eq_drop)
  then obtain n where n: "?q' = drop n ?q" by blast
  have "set ?q' = dom (idm_entries (evict_expired ttl now s))"
  proof (intro set_eqI)
    fix i
    show "i \<in> set ?q' \<longleftrightarrow> i \<in> dom (idm_entries (evict_expired ttl now s))"
      using keep [of i] e(1) [of i] by (auto simp: idem_live_def split: option.splits)
  qed
  moreover have "sorted (idem_times (evict_expired ttl now s))"
    unfolding times n using srt by (simp add: drop_map [symmetric] sorted_wrt_drop)
  moreover have "\<forall>t\<in>set (idem_times (evict_expired ttl now s)). t \<le> now"
    unfolding times n using inv(5) assms(2) set_drop_subset [of n ?q]
    by (fastforce simp: idem_times_def)
  moreover have "distinct ?q'" "length ?q' \<le> bound" unfolding n using inv(1,3) by auto
  ultimately show ?thesis by (simp add: idem_inv_def)
qed

lemma idem_live_evict_expired:
  assumes "idem_inv bound c s" "c \<le> now" "0 \<le> ttl"
  shows "idm_entries (evict_expired ttl now s) i \<noteq> None \<longleftrightarrow> idem_live ttl now s i"
  using evict_expired_entries(1) [OF assms, of i] by (auto simp: idem_live_def split: option.splits)

text \<open>The state after an id was taken in.\<close>

definition idem_insert :: "nat \<Rightarrow> int \<Rightarrow> uuid \<Rightarrow> idem_store \<Rightarrow> idem_store" where
  "idem_insert bound now rid s =
     evict_overflow bound
       \<lparr>idm_entries = (idm_entries s)(rid := Some now), idm_order = idm_order s @ [rid]\<rparr>"

lemma idem_insert_alt:
  assumes "idem_inv bound now s"
  shows "idem_insert bound now rid s =
    (if length (idm_order s) < bound
     then \<lparr>idm_entries = (idm_entries s)(rid := Some now), idm_order = idm_order s @ [rid]\<rparr>
     else \<lparr>idm_entries = ((idm_entries s)(rid := Some now))(hd (idm_order s @ [rid]) := None),
           idm_order = tl (idm_order s @ [rid])\<rparr>)"
proof -
  have "length (idm_order s @ [rid]) \<le> Suc bound" using assms by (simp add: idem_inv_def)
  then show ?thesis
    unfolding idem_insert_def evict_overflow_def
    by (simp only: idem_store.simps evict_overflow_one) (auto simp: Let_def)
qed

lemma idem_inv_insert:
  assumes inv: "idem_inv bound now s" and new: "idm_entries s rid = None"
  shows "idem_inv bound now (idem_insert bound now rid s)"
proof -
  let ?q = "idm_order s @ [rid]" and ?m = "(idm_entries s)(rid := Some now)"
  have d: "distinct ?q" "set ?q = dom ?m" using inv new by (auto simp: idem_inv_def)
  have t: "map (\<lambda>i. the (?m i)) ?q = idem_times s @ [now]"
    using new inv unfolding idem_times_def idem_inv_def by (auto intro!: map_cong)
  have srt: "sorted (map (\<lambda>i. the (?m i)) ?q)" "\<forall>u\<in>set (map (\<lambda>i. the (?m i)) ?q). u \<le> now"
    unfolding t using inv by (auto simp: idem_inv_def sorted_append)
  show ?thesis
  proof (cases "length (idm_order s) < bound")
    case True
    then show ?thesis using d srt inv
      by (simp add: idem_insert_alt idem_inv_def idem_times_def)
  next
    case False
    obtain x xs where q: "?q = x # xs" by (cases ?q) auto
    have same: "map (\<lambda>i. the ((?m(x := None)) i)) xs = map (\<lambda>i. the (?m i)) xs"
      using d(1) q by (intro map_cong) auto
    have "idem_insert bound now rid s = \<lparr>idm_entries = ?m(x := None), idm_order = xs\<rparr>"
      using False q by (simp add: idem_insert_alt [OF inv])
    moreover have "length xs \<le> bound"
      using inv q by (simp add: idem_inv_def) (metis length_append_singleton length_Cons not_less_eq_eq Suc_le_mono)
    moreover have "set xs = dom (?m(x := None))" "distinct xs" using d q by auto
    moreover have "sorted (map (\<lambda>i. the (?m i)) xs)" "\<forall>u\<in>set (map (\<lambda>i. the (?m i)) xs). u \<le> now"
      using srt unfolding q by auto
    ultimately show ?thesis
      unfolding idem_inv_def idem_times_def by (simp only: idem_store.simps same)
  qed
qed

lemma check_and_set_alt:
  "check_and_set ttl bound now rid s =
     (if idm_entries (evict_expired ttl now s) rid \<noteq> None then (False, evict_expired ttl now s)
      else (True, idem_insert bound now rid (evict_expired ttl now s)))"
  by (simp add: check_and_set_def idem_insert_def Let_def)

lemma idem_inv_check_and_set:
  assumes "idem_inv bound c s" "c \<le> now" "0 \<le> ttl"
  shows "idem_inv bound now (snd (check_and_set ttl bound now rid s))"
  using idem_inv_evict_expired [OF assms] idem_inv_insert [of bound now "evict_expired ttl now s" rid]
  by (simp add: check_and_set_alt)

lemma idem_inv_empty: "idem_inv bound c idem_empty"
  by (simp add: idem_inv_def idem_empty_def idem_times_def)

lemma idem_answer:
  assumes "idem_inv bound c s" "c \<le> now" "0 \<le> ttl"
  shows "fst (check_and_set ttl bound now rid s) \<longleftrightarrow> \<not> idem_live ttl now s rid"
  using idem_live_evict_expired [OF assms, of rid] by (simp add: check_and_set_alt)

text \<open>Which entries survive taking an id in.\<close>

lemma idem_insert_entries:
  assumes "idem_inv bound now s"
  shows "idm_entries (idem_insert bound now rid s) j =
    (if bound \<le> length (idm_order s) \<and> j = hd (idm_order s @ [rid]) then None
     else if j = rid then Some now else idm_entries s j)"
  using assms by (auto simp: idem_insert_alt)

lemma idem_remembers:
  assumes "idem_inv (Suc b) c s" "c \<le> now" "0 \<le> ttl"
  shows "idem_live ttl now (snd (check_and_set ttl (Suc b) now rid s)) rid"
proof (cases "idm_entries (evict_expired ttl now s) rid")
  case None
  note inv = idem_inv_evict_expired [OF assms]
  let ?s = "evict_expired ttl now s"
  have "rid \<notin> set (idm_order ?s)" using inv None by (auto simp: idem_inv_def)
  then have "hd (idm_order ?s @ [rid]) \<noteq> rid \<or> idm_order ?s = []"
    by (cases "idm_order ?s") auto
  then have "idm_entries (idem_insert (Suc b) now rid ?s) rid = Some now"
    by (auto simp: idem_insert_entries [OF inv])
  then show ?thesis using None assms(3) by (simp add: check_and_set_alt idem_live_def)
next
  case (Some ts)
  then have "idem_live ttl now s rid" using idem_live_evict_expired [OF assms, of rid] by simp
  then show ?thesis using Some evict_expired_entries(1) [OF assms, of rid]
    by (simp add: check_and_set_alt idem_live_def)
qed

lemma idem_no_invention:
  assumes "idem_inv bound c s" "c \<le> now" "0 \<le> ttl"
    and "idem_live ttl now (snd (check_and_set ttl bound now rid s)) j"
  shows "j = rid \<or> idem_live ttl now s j"
  using assms(4) idem_live_evict_expired [OF assms(1-3), of j]
    idem_insert_entries [OF idem_inv_evict_expired [OF assms(1-3)], of rid j]
  by (auto simp: check_and_set_alt idem_live_def split: if_splits option.splits)

interpretation memory: idempotency "check_and_set (int ttl) (Suc b)" "idem_live (int ttl)"
    "idem_inv (Suc b)" for ttl b
  by unfold_locales
     (simp_all add: idem_inv_check_and_set idem_answer idem_remembers idem_no_invention)

section \<open>How long an id is remembered\<close>

text \<open>The requests between the two uses of an id, each with its time.\<close>

fun cas_run :: "int \<Rightarrow> nat \<Rightarrow> (int \<times> uuid) list \<Rightarrow> idem_store \<Rightarrow> idem_store" where
  "cas_run ttl bound [] s = s"
| "cas_run ttl bound ((t, i) # reqs) s = cas_run ttl bound reqs (snd (check_and_set ttl bound t i s))"

text \<open>The id \<open>rid\<close> was taken in at \<open>t0\<close> and at most \<open>m\<close> ids after it.\<close>

definition held :: "nat \<Rightarrow> uuid \<Rightarrow> int \<Rightarrow> idem_store \<Rightarrow> bool" where
  "held m rid t0 s \<longleftrightarrow> idm_entries s rid = Some t0
     \<and> (\<exists>us vs. idm_order s = us @ rid # vs \<and> length vs \<le> m)"

lemma held_evict_expired:
  assumes "held m rid t0 s" "idem_inv bound c s" "c \<le> now" "0 \<le> ttl" "now - t0 \<le> ttl"
  shows "held m rid t0 (evict_expired ttl now s)"
proof -
  note e = evict_expired_entries [OF assms(2-4)]
  obtain us vs where q: "idm_order s = us @ rid # vs" "length vs \<le> m" "idm_entries s rid = Some t0"
    using assms(1) by (auto simp: held_def)
  let ?old = "\<lambda>i. ttl < now - the (idm_entries s i)"
  have "\<not> ?old rid" using q(3) assms(5) by simp
  then have "dropWhile ?old (us @ rid # vs) = dropWhile ?old us @ rid # vs"
    by (induction us) auto
  then have "idm_order (evict_expired ttl now s) = dropWhile ?old us @ rid # vs"
    using e(2) q(1) by simp
  moreover have "idm_entries (evict_expired ttl now s) rid = Some t0"
    using e(1) [of rid] q(3) assms(5) by (simp add: idem_live_def)
  ultimately show ?thesis using q(2) by (auto simp: held_def)
qed

lemma held_insert:
  assumes "held m rid t0 s" "idem_inv bound now s" "Suc m < bound" "idm_entries s i = None"
  shows "held (Suc m) rid t0 (idem_insert bound now i s)"
proof -
  obtain us vs where q: "idm_order s = us @ rid # vs" "length vs \<le> m" "idm_entries s rid = Some t0"
    using assms(1) by (auto simp: held_def)
  have ne: "i \<noteq> rid" using q(3) assms(4) by auto
  have d: "distinct (us @ rid # vs)" using assms(2) q(1) by (simp add: idem_inv_def)
  have new: "idm_order s @ [i] = us @ rid # (vs @ [i])" "length (vs @ [i]) \<le> Suc m"
    using q(1,2) by simp_all
  show ?thesis
  proof (cases "length (idm_order s) < bound")
    case True
    have "\<exists>us' vs'. idm_order s @ [i] = us' @ rid # vs' \<and> length vs' \<le> Suc m"
      using new by blast
    then show ?thesis unfolding held_def idem_insert_alt [OF assms(2)] using True q(3) ne by simp
  next
    case False
    then obtain u us' where u: "us = u # us'" using q(1,2) assms(3) by (cases us) auto
    then have "u \<noteq> rid" using d by simp
    moreover have hd: "hd (idm_order s @ [i]) = u" using q(1) u by simp
    moreover have "\<exists>us vs'. tl (idm_order s @ [i]) = us @ rid # vs' \<and> length vs' \<le> Suc m"
      using q(1) u new(2) by (intro exI [of _ us'] exI [of _ "vs @ [i]"]) simp
    ultimately show ?thesis
      unfolding held_def idem_insert_alt [OF assms(2)] using False q(3) ne
      by (simp only: idem_store.simps if_False) simp
  qed
qed

lemma held_mono: "held m rid t0 s \<Longrightarrow> m \<le> n \<Longrightarrow> held n rid t0 s"
  by (auto simp: held_def intro: order_trans)

lemma held_step:
  assumes "held m rid t0 s" "idem_inv bound c s" "c \<le> now" "0 \<le> ttl" "now - t0 \<le> ttl"
    and "Suc m < bound"
  shows "held (Suc m) rid t0 (snd (check_and_set ttl bound now i s))"
proof -
  note h = held_evict_expired [OF assms(1-5)]
  show ?thesis
  proof (cases "idm_entries (evict_expired ttl now s) i")
    case None
    then show ?thesis
      using held_insert [OF h idem_inv_evict_expired [OF assms(2-4)] assms(6) None]
      by (simp add: check_and_set_alt)
  next
    case (Some ts)
    then show ?thesis using held_mono [OF h, of "Suc m"] by (simp add: check_and_set_alt)
  qed
qed

lemma held_run:
  assumes "held m rid t0 s" "idem_inv bound c s" "0 \<le> ttl" "m + length reqs < bound"
    and "sorted (c # map fst reqs)" "\<forall>(t, i)\<in>set reqs. t - t0 \<le> ttl"
  shows "held (m + length reqs) rid t0 (cas_run ttl bound reqs s)
    \<and> idem_inv bound (last (c # map fst reqs)) (cas_run ttl bound reqs s)"
  using assms
proof (induction reqs arbitrary: m s c)
  case (Cons r reqs)
  obtain t i where r: "r = (t, i)" by fastforce
  let ?s = "snd (check_and_set ttl bound t i s)"
  have "held (Suc m) rid t0 ?s"
    using Cons.prems r by (intro held_step [where c = c]) auto
  moreover have "idem_inv bound t ?s"
    using Cons.prems r by (intro idem_inv_check_and_set [where c = c]) auto
  ultimately have "held (Suc m + length reqs) rid t0 (cas_run ttl bound reqs ?s)
      \<and> idem_inv bound (last (t # map fst reqs)) (cas_run ttl bound reqs ?s)"
    using Cons.prems r by (intro Cons.IH) auto
  then show ?case using r by simp
qed simp

lemma check_and_set_held:
  assumes "idem_inv bound c s" "c \<le> t" "0 \<le> ttl" "fst (check_and_set ttl bound t rid s)" "0 < bound"
  shows "held 0 rid t (snd (check_and_set ttl bound t rid s))"
proof -
  let ?e = "evict_expired ttl t s"
  have inv: "idem_inv bound t ?e" using assms(1-3) by (rule idem_inv_evict_expired)
  have s: "snd (check_and_set ttl bound t rid s) = idem_insert bound t rid ?e"
      "idm_entries ?e rid = None"
    using assms(4) by (auto simp: check_and_set_alt split: if_splits)
  show ?thesis unfolding s(1)
    using inv assms(5) s(2)
    by (cases "idm_order ?e") (auto simp: idem_insert_alt held_def idem_inv_def)
qed

text \<open>An id just taken in is refused at once.\<close>

lemma taken_refused:
  assumes "idem_inv bound c s" "c \<le> t0" "0 \<le> ttl" "\<not> idem_live ttl t0 s rid" "0 < bound"
    and "t0 \<le> t1" "t1 - t0 \<le> ttl"
  shows "\<not> fst (check_and_set ttl bound t1 rid (snd (check_and_set ttl bound t0 rid s)))"
proof -
  have "fst (check_and_set ttl bound t0 rid s)" using idem_answer [OF assms(1-3)] assms(4) by simp
  then have "held 0 rid t0 (snd (check_and_set ttl bound t0 rid s))"
    by (rule check_and_set_held [OF assms(1-3) _ assms(5)])
  moreover have "idem_inv bound t0 (snd (check_and_set ttl bound t0 rid s))"
    using assms(1-3) by (rule idem_inv_check_and_set)
  ultimately show ?thesis
    using idem_answer [of bound t0 _ t1 ttl rid] assms(3,6,7)
    by (auto simp: held_def idem_live_def)
qed

section \<open>Properties\<close>

text \<open>A request id that was accepted is refused again for the whole lifetime configured,
  as long as fewer requests than the bound of the store arrived in between: eviction never
  forgets an id early. The store holds at most as many ids as its bound.\<close>

theorem duplicate_refused_within_ttl:
  assumes "idem_inv bound c s" "c \<le> t0" "fst (check_and_set (int ttl) bound t0 rid s)"
    and "length reqs < bound" "sorted (t0 # map fst reqs @ [t1])" "t1 - t0 \<le> int ttl"
  shows "\<not> fst (check_and_set (int ttl) bound t1 rid
      (cas_run (int ttl) bound reqs (snd (check_and_set (int ttl) bound t0 rid s))))
    \<and> length (idm_order (cas_run (int ttl) bound reqs (snd (check_and_set (int ttl) bound t0 rid s))))
        \<le> bound"
proof -
  let ?s = "snd (check_and_set (int ttl) bound t0 rid s)"
  have inv: "idem_inv bound t0 ?s"
    using assms(1,2) by (auto intro: idem_inv_check_and_set)
  have "held 0 rid t0 ?s"
    using check_and_set_held [OF assms(1,2) _ assms(3)] assms(4) by simp
  moreover have "\<forall>(t, i)\<in>set reqs. t - t0 \<le> int ttl"
    using assms(5,6) by (auto simp: sorted_append)
  moreover have "sorted (t0 # map fst reqs)" using assms(5) by (auto simp: sorted_append)
  ultimately have run: "held (length reqs) rid t0 (cas_run (int ttl) bound reqs ?s)"
      "idem_inv bound (last (t0 # map fst reqs)) (cas_run (int ttl) bound reqs ?s)"
    using held_run [of 0 rid t0 ?s bound t0 "int ttl" reqs] inv assms(4) by auto
  have "last (t0 # map fst reqs) \<le> t1"
    using assms(5) last_in_set [of "t0 # map fst reqs"]
    by (auto simp: sorted_append simp del: last.simps)
  from idem_answer [OF run(2) this, of "int ttl" rid] run assms(6) show ?thesis
    by (auto simp: held_def idem_live_def idem_inv_def)
qed

lemma duplicate_refused_within_ttl_witness:
  "\<not> fst (check_and_set (int 100) 2 50 ''a''
     (cas_run (int 100) 2 [(20, ''b'')] (snd (check_and_set (int 100) 2 10 ''a'' idem_empty))))"
proof -
  have "fst (check_and_set (int 100) 2 10 ''a'' idem_empty)"
    using idem_answer [OF idem_inv_empty, of 0 10 "int 100" 2 "''a''"]
    by (simp add: idem_live_def) (simp add: idem_empty_def)
  from duplicate_refused_within_ttl [OF idem_inv_empty _ this, of 0 "[(20, ''b'')]" 50]
  show ?thesis by simp
qed

end
