(* ===== verification/Command_Consumer.thy ===== *)
theory Command_Consumer
  imports Normalize Idempotency Bar_Pipeline
begin

text \<open>
  The command consumer of \<open>alor-gateway/src/services/command_consumer.rs\<close>: what happens
  to one command from its arrival to its acknowledgement. A command is a step on the
  consumer's state; its effects on the outside (sends to the broker, published
  acknowledgements, acknowledged messages) are a list in the order they are made. What the
  outside answers is a \<open>cmd_env\<close>: the clock, the control path, the broker's response, and
  whether publishing succeeds. The idempotency store is the argument \<open>cas\<close>.
\<close>

section \<open>Configuration, state and environment\<close>

datatype control_cws_mode = CwsLegacyLongLived | CwsActionScoped

datatype hardening_policy = EntryPolicy | ExitPolicy

datatype execution_path = LegacyLongLived | ActionScoped

record consumer_config =
  cc_pause_when_degraded :: bool
  cc_pre_entry_recycle :: bool
  cc_pre_exit_recycle :: bool
  cc_control_cws_mode :: control_cws_mode
  cc_as_create_limit :: bool
  cc_as_market :: bool
  cc_as_delete_limit :: bool
  cc_as_replace_limit :: bool
  cc_as_exit :: bool

text \<open>The fields of \<open>HealthState\<close> the consumer reads or writes.\<close>

record consumer_health =
  ch_gateway_phase :: gateway_phase
  ch_event_sink_degraded :: bool
  ch_scheduler_state :: "market_state option"
  ch_alive :: bool
  ch_last_poll_ts :: i64
  ch_last_message_id :: "string option"
  ch_errors_total :: u64
  ch_redis_timeouts_total :: u64
  ch_received_total :: u64
  ch_command_duplicate_total :: u64
  ch_duplicate_total :: u64
  ch_validation_failed_total :: u64
  ch_rejected_total :: u64
  ch_expired_total :: u64
  ch_processed_total :: u64
  ch_accepted_total :: u64
  ch_rejected_http :: "(i64 \<times> u64) list"
  ch_cws_errors_total :: u64
  ch_limit_error_total :: u64
  ch_last_limit_error_ts :: "i64 option"
  ch_request_map_size :: u64

record 'i consumer =
  cs_health :: consumer_health
  cs_request_map :: "(i64 \<times> uuid) list"
  cs_idem :: 'i

text \<open>What is sent to the broker: the calls of the CWS client, with the execution path.\<close>

datatype broker_request =
  ReqCreateLimit execution_path string string string f64 f64 string "string option" string
| ReqCreateMarket execution_path string string string f64 string "string option" string
| ReqCancel execution_path string string i64 string
| ReqReplace string string string i64 f64 f64 string
| ReqCreateStopLimit execution_path string string string string f64 f64 f64
    stop_limit_condition i64 "string option" "string option" bool string
| ReqDeleteStopLimit execution_path string string string "string option" bool string

text \<open>A failed request: the client's own error with its guid and the kind of disconnect, or
  any other error with its text.\<close>

datatype exec_error = RequestFailure string string | OtherFailure string

datatype ensure_result = EnsureOk bool bool | EnsureErr string string

record 'n cmd_env =
  e_now :: i64
  e_now_ms :: i64
  e_ensure :: "hardening_policy \<Rightarrow> ensure_result"
  e_begin :: "(string \<times> string) option"
  e_execute :: "broker_request \<Rightarrow> exec_error + 'n json"
  e_publish_ok :: bool
  e_source_ack_ok :: bool

datatype effect =
  EfEnsure hardening_policy
| EfBegin
| EfSend broker_request
| EfFinish bool string
| EfPublish command_ack
| EfSourceAck string

section \<open>Policies\<close>

definition is_place :: "command_action \<Rightarrow> bool" where
  "is_place a = (case a of Place _ \<Rightarrow> True | _ \<Rightarrow> False)"

definition control_path_hardening_policy ::
  "order_command \<Rightarrow> consumer_config \<Rightarrow> hardening_policy option" where
  "control_path_hardening_policy cmd config =
     (if \<not> is_place (oc_action cmd) then None
      else (case effective_intent_class cmd of
          Entry \<Rightarrow> if cc_pre_entry_recycle config then Some EntryPolicy else None
        | Exit \<Rightarrow> if cc_pre_exit_recycle config then Some ExitPolicy else None
        | _ \<Rightarrow> None))"

definition execution_path_for_command :: "order_command \<Rightarrow> consumer_config \<Rightarrow> execution_path" where
  "execution_path_for_command cmd config =
     (if cc_control_cws_mode config \<noteq> CwsActionScoped then LegacyLongLived
      else (case (oc_action cmd, effective_intent_class cmd) of
          (Place _, Entry) \<Rightarrow> if cc_as_create_limit config then ActionScoped else LegacyLongLived
        | (Place _, Exit) \<Rightarrow> if cc_as_exit config then ActionScoped else LegacyLongLived
        | (Place _, ProtectiveRepair) \<Rightarrow>
            if cc_as_create_limit config then ActionScoped else LegacyLongLived
        | (Market _, Entry) \<Rightarrow> if cc_as_market config then ActionScoped else LegacyLongLived
        | (Market _, Exit) \<Rightarrow> if cc_as_market config then ActionScoped else LegacyLongLived
        | (CreateStopLimit _, ProtectiveRepair) \<Rightarrow>
            if cc_as_create_limit config then ActionScoped else LegacyLongLived
        | (Cancel _, _) \<Rightarrow> if cc_as_delete_limit config then ActionScoped else LegacyLongLived
        | (DeleteStopLimit _, _) \<Rightarrow>
            if cc_as_delete_limit config then ActionScoped else LegacyLongLived
        | _ \<Rightarrow> LegacyLongLived))"

section \<open>Validation and expiry\<close>

definition is_cancel_like :: "command_action \<Rightarrow> bool" where
  "is_cancel_like a = (case a of Cancel _ \<Rightarrow> True | DeleteStopLimit _ \<Rightarrow> True | _ \<Rightarrow> False)"

definition action_invalid :: "f64 \<Rightarrow> f64 \<Rightarrow> command_action \<Rightarrow> bool" where
  "action_invalid price_step volume_step a =
     (case a of
        Place p \<Rightarrow>
          po_price p \<le> 0 \<or> po_qty p \<le> 0
          \<or> normalize_price (po_price p) price_step (po_side p) \<le> 0
          \<or> normalize_qty (po_qty p) volume_step \<le> 0
      | Market p \<Rightarrow> mo_qty p \<le> 0 \<or> normalize_qty (mo_qty p) volume_step \<le> 0
      | Cancel p \<Rightarrow> co_order_id p \<le> 0
      | Replace p \<Rightarrow>
          ro_order_id p \<le> 0 \<or> ro_new_price p \<le> 0 \<or> ro_new_qty p \<le> 0
          \<or> normalize_step_round (ro_new_price p) price_step \<le> 0
          \<or> normalize_qty (ro_new_qty p) volume_step \<le> 0
      | CreateStopLimit p \<Rightarrow>
          sl_qty p \<le> 0 \<or> sl_price p \<le> 0 \<or> sl_trigger_price p \<le> 0
          \<or> sl_stop_end_unix_time p \<le> 0
          \<or> normalize_step_round (sl_price p) price_step \<le> 0
          \<or> normalize_step_round (sl_trigger_price p) price_step \<le> 0
          \<or> normalize_qty (sl_qty p) volume_step \<le> 0
      | DeleteStopLimit p \<Rightarrow> trim (dl_order_id p) = [])"

definition validate_command ::
  "order_command \<Rightarrow> f64 \<Rightarrow> f64 \<Rightarrow> consumer_health \<Rightarrow> bool \<Rightarrow> string option" where
  "validate_command cmd price_step volume_step h pause_when_degraded =
     (if ch_gateway_phase h \<noteq> LiveReady then Some ''gateway_not_ready''
      else if pause_when_degraded \<and> ch_event_sink_degraded h then Some ''gateway_degraded''
      else if \<not> is_cancel_like (oc_action cmd) \<and> ch_scheduler_state h \<noteq> Some Open
        then Some ''trading_window_closed''
      else if action_invalid price_step volume_step (oc_action cmd) then Some ''validation_failed''
      else None)"

text \<open>\<open>ttl_ms as i64\<close> reinterprets the bits, and the sum wraps.\<close>

definition is_command_expired :: "i64 \<Rightarrow> order_command \<Rightarrow> bool" where
  "is_command_expired now_ms cmd =
     (case oc_ttl_ms cmd of
        None \<Rightarrow> False
      | Some ttl \<Rightarrow>
          if ttl = 0 \<or> oc_created_ts_utc cmd \<le> 0 then False
          else now_ms > as_i64 (sat_mul (oc_created_ts_utc cmd) 1000 + as_i64 (int ttl)))"

section \<open>Sending\<close>

fun side_str :: "side \<Rightarrow> string" where
  "side_str Buy = ''buy''"
| "side_str Sell = ''sell''"

definition build_request ::
  "execution_path \<Rightarrow> order_command \<Rightarrow> uuid \<Rightarrow> f64 \<Rightarrow> f64 \<Rightarrow> broker_request" where
  "build_request path cmd rid price_step volume_step =
     (case oc_action cmd of
        Place p \<Rightarrow>
          ReqCreateLimit path (oc_portfolio cmd) (oc_exchange cmd) (oc_symbol cmd)
            (normalize_price (po_price p) price_step (po_side p))
            (normalize_qty (po_qty p) volume_step) (side_str (po_side p)) (po_comment p) rid
      | Market p \<Rightarrow>
          ReqCreateMarket path (oc_portfolio cmd) (oc_exchange cmd) (oc_symbol cmd)
            (normalize_qty (mo_qty p) volume_step) (side_str (mo_side p)) (mo_comment p) rid
      | Cancel p \<Rightarrow> ReqCancel path (oc_portfolio cmd) (oc_exchange cmd) (co_order_id p) rid
      | Replace p \<Rightarrow>
          ReqReplace (oc_portfolio cmd) (oc_exchange cmd) (oc_symbol cmd) (ro_order_id p)
            (normalize_step_round (ro_new_price p) price_step)
            (normalize_qty (ro_new_qty p) volume_step) rid
      | CreateStopLimit p \<Rightarrow>
          ReqCreateStopLimit path (oc_portfolio cmd) (oc_exchange cmd) (oc_symbol cmd)
            (side_str (sl_side p)) (normalize_qty (sl_qty p) volume_step)
            (normalize_step_round (sl_trigger_price p) price_step)
            (normalize_step_round (sl_price p) price_step) (sl_condition p)
            (sl_stop_end_unix_time p) (sl_comment p) (sl_instrument_group p)
            (case sl_check_duplicates p of None \<Rightarrow> True | Some b \<Rightarrow> b) rid
      | DeleteStopLimit p \<Rightarrow>
          ReqDeleteStopLimit path (oc_portfolio cmd) (oc_exchange cmd) (dl_order_id p)
            (map_option side_str (dl_side p))
            (case dl_check_duplicates p of None \<Rightarrow> True | Some b \<Rightarrow> b) rid)"

section \<open>Responses\<close>

definition cws_to_i64 :: "'n wire_lib \<Rightarrow> 'n json \<Rightarrow> i64 option" where
  "cws_to_i64 lib v =
     (case j_i64 lib v of Some k \<Rightarrow> Some k
      | None \<Rightarrow> (case j_u64 lib v of Some k \<Rightarrow> Some (as_i64 (int k))
        | None \<Rightarrow> Option.bind (jstr v) parse_i64))"

text \<open>\<open>str::parse::<u64>\<close> and the reader of an unsigned field.\<close>

definition parse_u64 :: "string \<Rightarrow> u64 option" where
  "parse_u64 s =
     (let ds = (case s of c # cs \<Rightarrow> if c = CHR ''+'' then cs else s | [] \<Rightarrow> []) in
      if ds \<noteq> [] \<and> (\<forall>c\<in>set ds. is_digit c) \<and> digits_value ds \<le> u64_max then Some (digits_value ds)
      else None)"

definition cws_to_u64 :: "'n wire_lib \<Rightarrow> 'n json \<Rightarrow> u64 option" where
  "cws_to_u64 lib v =
     (case j_u64 lib v of Some k \<Rightarrow> Some k
      | None \<Rightarrow> (case j_i64 lib v of Some k \<Rightarrow> if k \<ge> 0 then Some (nat k) else None
        | None \<Rightarrow> Option.bind (jstr v) parse_u64))"

definition extract_order_id :: "'n wire_lib \<Rightarrow> 'n json \<Rightarrow> i64 option" where
  "extract_order_id lib v =
     (case Option.bind (first_of v [''orderNumber'', ''orderId'']) (cws_to_i64 lib) of
        Some k \<Rightarrow> Some k
      | None \<Rightarrow> Option.bind (jget v ''data'')
          (\<lambda>d. Option.bind (first_of d [''orderNumber'', ''orderId'']) (cws_to_i64 lib)))"

definition extract_order_id_str :: "'n json \<Rightarrow> string option" where
  "extract_order_id_str v =
     (case Option.bind (first_of v [''orderNumber'', ''orderId'']) jstr of
        Some s \<Rightarrow> Some s
      | None \<Rightarrow> Option.bind (jget v ''data'')
          (\<lambda>d. Option.bind (first_of d [''orderNumber'', ''orderId'']) jstr))"

record cws_trace_info =
  ct_send_seq :: "u64 option"
  ct_send_ts_utc :: "i64 option"
  ct_recv_seq :: "u64 option"
  ct_recv_ts_utc :: "i64 option"
  ct_message_class :: "string option"
  ct_connection_instance_id :: "string option"
  ct_connect_seq :: "u64 option"
  ct_reconnect_seq :: "u64 option"
  ct_order_id :: "string option"
  ct_request_order_id :: "string option"

definition parse_cws_trace :: "'n wire_lib \<Rightarrow> 'n json \<Rightarrow> cws_trace_info" where
  "parse_cws_trace lib v =
     \<lparr>ct_send_seq = Option.bind (jget v ''_diag_cws_send_seq'') (cws_to_u64 lib),
      ct_send_ts_utc = Option.bind (jget v ''_diag_cws_send_ts_utc'') (cws_to_i64 lib),
      ct_recv_seq = Option.bind (jget v ''_diag_cws_recv_seq'') (cws_to_u64 lib),
      ct_recv_ts_utc = Option.bind (jget v ''_diag_cws_recv_ts_utc'') (cws_to_i64 lib),
      ct_message_class = Option.bind (jget v ''_diag_cws_message_class'') jstr,
      ct_connection_instance_id = Option.bind (jget v ''_diag_cws_connection_instance_id'') jstr,
      ct_connect_seq = Option.bind (jget v ''_diag_cws_connect_seq'') (cws_to_u64 lib),
      ct_reconnect_seq = Option.bind (jget v ''_diag_cws_reconnect_seq'') (cws_to_u64 lib),
      ct_order_id = Option.bind (jget v ''_diag_cws_order_id'') jstr,
      ct_request_order_id = Option.bind (jget v ''_diag_cws_request_order_id'') jstr\<rparr>"

record cws_response_info =
  ri_http_code :: "i64 option"
  ri_message :: "string option"
  ri_request_guid :: "string option"
  ri_order_id :: "i64 option"
  ri_order_id_str :: "string option"
  ri_trace :: cws_trace_info

definition parse_cws_response :: "'n wire_lib \<Rightarrow> 'n json \<Rightarrow> cws_response_info" where
  "parse_cws_response lib v =
     \<lparr>ri_http_code = Option.bind (jget v ''httpCode'') (cws_to_i64 lib),
      ri_message = Option.bind (jget v ''message'') jstr,
      ri_request_guid = Option.bind (first_of v [''requestGuid'', ''guid'']) jstr,
      ri_order_id = extract_order_id lib v,
      ri_order_id_str = extract_order_id_str v,
      ri_trace = parse_cws_trace lib v\<rparr>"

text \<open>The status an HTTP code stands for, with the error code and message.\<close>

definition classify_response ::
  "cws_response_info \<Rightarrow> ack_status \<times> string option \<times> string option" where
  "classify_response info =
     (let http_code = (case ri_http_code info of None \<Rightarrow> 0 | Some k \<Rightarrow> k) in
      if http_code = 200 then (Accepted, None, None)
      else if http_code > 0 then
        (Rejected, Some (''cws_http_'' @ show_int http_code), ri_message info)
      else (Error, Some ''cws_error'', Some ''missing httpCode''))"

definition build_cws_ack ::
  "i64 \<Rightarrow> uuid \<Rightarrow> ack_status \<Rightarrow> cws_response_info \<Rightarrow> string option \<Rightarrow> string option \<Rightarrow> command_ack"
where
  "build_cws_ack now rid st info code msg =
     \<lparr>ack_request_id = rid, ack_status = st, ack_broker_order_id = ri_order_id info,
      ack_broker_order_id_str =
        (case ri_order_id_str info of Some s \<Rightarrow> Some s | None \<Rightarrow> map_option show_int (ri_order_id info)),
      ack_error_code = code, ack_error_msg = msg, ack_cws_http_code = ri_http_code info,
      ack_cws_message = ri_message info, ack_cws_request_guid = ri_request_guid info,
      ack_processed_ts_utc = now\<rparr>"

text \<open>\<open>str::contains\<close>.\<close>

fun has_prefix :: "string \<Rightarrow> string \<Rightarrow> bool" where
  "has_prefix s [] = True"
| "has_prefix (c # cs) (p # ps) = (c = p \<and> has_prefix cs ps)"
| "has_prefix [] (p # ps) = False"

fun str_contains :: "string \<Rightarrow> string \<Rightarrow> bool" where
  "str_contains [] pat = (pat = [])"
| "str_contains (c # cs) pat = (has_prefix (c # cs) pat \<or> str_contains cs pat)"

definition failure_summary :: "string \<Rightarrow> string" where
  "failure_summary kind = ''cws disconnected: '' @ kind"

fun format_transport_error_message :: "exec_error \<Rightarrow> string" where
  "format_transport_error_message (RequestFailure guid kind) = failure_summary kind"
| "format_transport_error_message (OtherFailure text) = text"

fun classify_transport_error :: "exec_error \<Rightarrow> string" where
  "classify_transport_error (RequestFailure guid kind) = kind"
| "classify_transport_error (OtherFailure err) =
     (let txt = to_ascii_lowercase err in
      if str_contains txt ''authorize timeout'' then ''authorize_timeout''
      else if str_contains txt ''response timeout'' \<or> str_contains txt ''timeout waiting for guid''
              \<or> str_contains txt ''read timeout while waiting for guid'' then ''response_timeout''
      else if str_contains txt ''open timeout'' then ''open_timeout''
      else if str_contains txt ''close timeout'' then ''close_timeout''
      else if str_contains txt ''timeout'' then ''timeout''
      else ''transport_error'')"

definition build_transport_error_ack :: "i64 \<Rightarrow> uuid \<Rightarrow> exec_error \<Rightarrow> command_ack" where
  "build_transport_error_ack now rid err =
     \<lparr>ack_request_id = rid, ack_status = Error, ack_broker_order_id = None,
      ack_broker_order_id_str = None, ack_error_code = Some ''cws_error'',
      ack_error_msg = Some (format_transport_error_message err), ack_cws_http_code = None,
      ack_cws_message = Some (classify_transport_error err),
      ack_cws_request_guid =
        (case err of RequestFailure guid _ \<Rightarrow> Some guid | OtherFailure _ \<Rightarrow> None),
      ack_processed_ts_utc = now\<rparr>"

definition build_control_path_error_ack :: "i64 \<Rightarrow> uuid \<Rightarrow> string \<Rightarrow> string \<Rightarrow> command_ack" where
  "build_control_path_error_ack now rid code msg = ack_error now rid code msg"

section \<open>One command\<close>

definition upd_health :: "(consumer_health \<Rightarrow> consumer_health) \<Rightarrow> 'i consumer \<Rightarrow> 'i consumer" where
  "upd_health f st = st\<lparr>cs_health := f (cs_health st)\<rparr>"

definition on_received :: "i64 \<Rightarrow> string option \<Rightarrow> consumer_health \<Rightarrow> consumer_health" where
  "on_received now mid h =
     (let h1 = h\<lparr>ch_alive := True, ch_last_poll_ts := now,
                 ch_received_total := sat_inc (ch_received_total h)\<rparr>
      in case mid of None \<Rightarrow> h1 | Some m \<Rightarrow> h1\<lparr>ch_last_message_id := Some m\<rparr>)"

definition on_duplicate :: "consumer_health \<Rightarrow> consumer_health" where
  "on_duplicate h = h\<lparr>ch_command_duplicate_total := sat_inc (ch_command_duplicate_total h),
     ch_duplicate_total := sat_inc (ch_duplicate_total h)\<rparr>"

definition on_invalid :: "consumer_health \<Rightarrow> consumer_health" where
  "on_invalid h = h\<lparr>ch_validation_failed_total := sat_inc (ch_validation_failed_total h),
     ch_rejected_total := sat_inc (ch_rejected_total h)\<rparr>"

definition on_expired :: "consumer_health \<Rightarrow> consumer_health" where
  "on_expired h = h\<lparr>ch_expired_total := sat_inc (ch_expired_total h),
     ch_rejected_total := sat_inc (ch_rejected_total h)\<rparr>"

definition on_cws_error :: "consumer_health \<Rightarrow> consumer_health" where
  "on_cws_error h = h\<lparr>ch_cws_errors_total := sat_inc (ch_cws_errors_total h)\<rparr>"

definition on_limit_error :: "i64 \<Rightarrow> command_action \<Rightarrow> consumer_health \<Rightarrow> consumer_health" where
  "on_limit_error now a h =
     (if is_place a then
        h\<lparr>ch_limit_error_total := sat_inc (ch_limit_error_total h),
          ch_last_limit_error_ts := Some now\<rparr>
      else h)"

text \<open>\<open>increment_http_code\<close>; the counter of one code stays below the width of \<open>u64\<close>.\<close>

definition increment_http_code :: "i64 \<Rightarrow> consumer_health \<Rightarrow> consumer_health" where
  "increment_http_code code h =
     (if code \<le> 0 then h else h\<lparr>ch_rejected_http := count_up code (ch_rejected_http h)\<rparr>)"

definition map_request :: "i64 \<Rightarrow> uuid \<Rightarrow> 'i consumer \<Rightarrow> 'i consumer" where
  "map_request oid rid st =
     (let m = AList.update oid rid (cs_request_map st) in
      upd_health (\<lambda>h. h\<lparr>ch_request_map_size := length m\<rparr>) (st\<lparr>cs_request_map := m\<rparr>))"

text \<open>How a command ends: the acknowledgement is published, then the message is acknowledged;
  the flag is false when one of the two fails, which stops the consumer.\<close>

definition conclude ::
  "'n cmd_env \<Rightarrow> string option \<Rightarrow> command_ack \<Rightarrow> effect list \<Rightarrow> 'i consumer
   \<Rightarrow> 'i consumer \<times> effect list \<times> bool" where
  "conclude env mid ack effs st =
     (if \<not> e_publish_ok env then (st, effs @ [EfPublish ack], False)
      else (case mid of
          None \<Rightarrow> (st, effs @ [EfPublish ack], True)
        | Some m \<Rightarrow> (st, effs @ [EfPublish ack, EfSourceAck m], e_source_ack_ok env)))"

text \<open>The response of the broker: counters, the request map and the acknowledgement.\<close>

definition on_response ::
  "'n wire_lib \<Rightarrow> 'n cmd_env \<Rightarrow> order_command \<Rightarrow> 'n json \<Rightarrow> 'i consumer
   \<Rightarrow> 'i consumer \<times> command_ack" where
  "on_response lib env cmd v st =
     (let info = parse_cws_response lib v;
          http_code = (case ri_http_code info of None \<Rightarrow> 0 | Some k \<Rightarrow> k);
          rid = oc_request_id cmd
      in case classify_response info of (status, code, msg) \<Rightarrow>
        (if status = Accepted then
           let st1 = upd_health (\<lambda>h. h\<lparr>ch_processed_total := sat_inc (ch_processed_total h),
                       ch_accepted_total := sat_inc (ch_accepted_total h)\<rparr>) st
           in (case ri_order_id info of None \<Rightarrow> st1 | Some oid \<Rightarrow> map_request oid rid st1)
         else if status = Rejected then
           upd_health (\<lambda>h. on_limit_error (e_now env) (oc_action cmd)
             (increment_http_code http_code (h\<lparr>ch_rejected_total := sat_inc (ch_rejected_total h)\<rparr>))) st
         else upd_health (\<lambda>h. on_limit_error (e_now env) (oc_action cmd) (on_cws_error h)) st,
         build_cws_ack (e_now env) rid status info code msg))"

text \<open>What \<open>finish_post_recycle_exit_send\<close> is told about a response.\<close>

definition finish_of_response :: "'n wire_lib \<Rightarrow> 'n json \<Rightarrow> effect" where
  "finish_of_response lib v =
     (let http_code = (case ri_http_code (parse_cws_response lib v) of None \<Rightarrow> 0 | Some k \<Rightarrow> k) in
      EfFinish (http_code = 200)
        (if http_code = 200 then ''accepted''
         else if http_code > 0 then ''http_code='' @ show_int http_code
         else ''missing_http_code''))"

definition run_execute ::
  "'n wire_lib \<Rightarrow> f64 \<Rightarrow> f64 \<Rightarrow> 'n cmd_env \<Rightarrow> execution_path \<Rightarrow> order_command \<Rightarrow> string option
   \<Rightarrow> bool \<Rightarrow> effect list \<Rightarrow> 'i consumer \<Rightarrow> 'i consumer \<times> effect list \<times> bool" where
  "run_execute lib price_step volume_step env path cmd mid exit_send effs st =
     (let req = build_request path cmd (oc_request_id cmd) price_step volume_step;
          effs1 = effs @ [EfSend req]
      in case e_execute env req of
           Inr v \<Rightarrow>
             (case on_response lib env cmd v st of (st1, ack) \<Rightarrow>
                conclude env mid ack
                  (if exit_send then effs1 @ [finish_of_response lib v] else effs1) st1)
         | Inl err \<Rightarrow>
             conclude env mid (build_transport_error_ack (e_now env) (oc_request_id cmd) err)
               (if exit_send
                then effs1 @ [EfFinish False (format_transport_error_message err)] else effs1)
               (upd_health (\<lambda>h. on_limit_error (e_now env) (oc_action cmd) (on_cws_error h)) st))"

definition preinsert_cancel :: "order_command \<Rightarrow> 'i consumer \<Rightarrow> 'i consumer" where
  "preinsert_cancel cmd st =
     (case oc_action cmd of
        Cancel p \<Rightarrow> map_request (co_order_id p) (oc_request_id cmd) st
      | _ \<Rightarrow> st)"

text \<open>From the hardening of the control path to the end: the path may have to be recycled
  first, and a send after a recycle for an exit has to be begun.\<close>

definition run_accepted ::
  "'n wire_lib \<Rightarrow> consumer_config \<Rightarrow> f64 \<Rightarrow> f64 \<Rightarrow> 'n cmd_env \<Rightarrow> order_command \<Rightarrow> string option
   \<Rightarrow> 'i consumer \<Rightarrow> 'i consumer \<times> effect list \<times> bool" where
  "run_accepted lib config price_step volume_step env cmd mid st0 =
     (let st = preinsert_cancel cmd st0;
          path = execution_path_for_command cmd config;
          rid = oc_request_id cmd;
          blocked = (\<lambda>code msg effs. conclude env mid
            (build_control_path_error_ack (e_now env) rid code msg) effs (upd_health on_cws_error st))
      in case (if path = LegacyLongLived then control_path_hardening_policy cmd config else None) of
           None \<Rightarrow> run_execute lib price_step volume_step env path cmd mid False [] st
         | Some policy \<Rightarrow>
             (case e_ensure env policy of
                EnsureErr code msg \<Rightarrow> blocked code msg [EfEnsure policy]
              | EnsureOk recycled armed \<Rightarrow>
                  if recycled \<and> armed then
                    (case e_begin env of
                       Some (code, msg) \<Rightarrow> blocked code msg [EfEnsure policy, EfBegin]
                     | None \<Rightarrow>
                         run_execute lib price_step volume_step env path cmd mid True
                           [EfEnsure policy, EfBegin] st)
                  else run_execute lib price_step volume_step env path cmd mid False
                         [EfEnsure policy] st))"

text \<open>One iteration of the consumer's loop that received a command. The store answers
  whether the id is new; \<open>None\<close> is its error, which stops the consumer.\<close>

definition command_step ::
  "'n wire_lib \<Rightarrow> consumer_config \<Rightarrow> f64 \<Rightarrow> f64 \<Rightarrow> (uuid \<Rightarrow> 'i \<Rightarrow> bool option \<times> 'i) \<Rightarrow> 'n cmd_env
   \<Rightarrow> order_command \<Rightarrow> string option \<Rightarrow> 'i consumer \<Rightarrow> 'i consumer \<times> effect list \<times> bool" where
  "command_step lib config price_step volume_step cas env cmd mid st0 =
     (let rid = oc_request_id cmd; now = e_now env;
          st1 = upd_health (on_received now mid) st0
      in case cas rid (cs_idem st1) of (answer, idem) \<Rightarrow>
        (let st = st1\<lparr>cs_idem := idem\<rparr> in
         case answer of
           None \<Rightarrow> (st, [], False)
         | Some False \<Rightarrow> conclude env mid (ack_duplicate now rid) [] (upd_health on_duplicate st)
         | Some True \<Rightarrow>
             (case validate_command cmd price_step volume_step (cs_health st)
                     (cc_pause_when_degraded config) of
                Some code \<Rightarrow>
                  conclude env mid (ack_rejected now rid code ''validation failed'') []
                    (upd_health on_invalid st)
              | None \<Rightarrow>
                  if is_command_expired (e_now_ms env) cmd then
                    conclude env mid (ack_expired now rid ''command expired'') []
                      (upd_health on_expired st)
                  else run_accepted lib config price_step volume_step env cmd mid st)))"

section \<open>The shape of a command's effects\<close>

definition sends :: "effect list \<Rightarrow> broker_request list" where
  "sends effs = List.map_filter (\<lambda>e. case e of EfSend r \<Rightarrow> Some r | _ \<Rightarrow> None) effs"

definition acks :: "effect list \<Rightarrow> command_ack list" where
  "acks effs = List.map_filter (\<lambda>e. case e of EfPublish a \<Rightarrow> Some a | _ \<Rightarrow> None) effs"

definition source_acks :: "effect list \<Rightarrow> string list" where
  "source_acks effs = List.map_filter (\<lambda>e. case e of EfSourceAck m \<Rightarrow> Some m | _ \<Rightarrow> None) effs"

lemmas trace_defs = sends_def acks_def source_acks_def

lemma trace_simps [simp]:
  "sends [] = []" "acks [] = []" "source_acks [] = []"
  "sends (EfSend r # es) = r # sends es" "sends (EfPublish a # es) = sends es"
  "sends (EfSourceAck m # es) = sends es" "sends (EfEnsure p # es) = sends es"
  "sends (EfBegin # es) = sends es" "sends (EfFinish b t # es) = sends es"
  "acks (EfSend r # es) = acks es" "acks (EfPublish a # es) = a # acks es"
  "acks (EfSourceAck m # es) = acks es" "acks (EfEnsure p # es) = acks es"
  "acks (EfBegin # es) = acks es" "acks (EfFinish b t # es) = acks es"
  "source_acks (EfSend r # es) = source_acks es" "source_acks (EfPublish a # es) = source_acks es"
  "source_acks (EfSourceAck m # es) = m # source_acks es" "source_acks (EfEnsure p # es) = source_acks es"
  "source_acks (EfBegin # es) = source_acks es" "source_acks (EfFinish b t # es) = source_acks es"
  by (simp_all add: trace_defs map_filter_simps)

lemma trace_append [simp]:
  "sends (xs @ ys) = sends xs @ sends ys" "acks (xs @ ys) = acks xs @ acks ys"
  "source_acks (xs @ ys) = source_acks xs @ source_acks ys"
  by (simp_all add: trace_defs map_filter_def)

lemma finish_silent [simp]:
  "sends [finish_of_response lib v] = []" "acks [finish_of_response lib v] = []"
  "source_acks [finish_of_response lib v] = []"
  by (simp_all add: finish_of_response_def Let_def)

text \<open>Which acknowledgement each outcome of the broker gets.\<close>

definition answer_ack :: "'n wire_lib \<Rightarrow> 'n cmd_env \<Rightarrow> order_command \<Rightarrow> exec_error + 'n json \<Rightarrow> command_ack"
where
  "answer_ack lib env cmd r =
     (case r of
        Inr v \<Rightarrow> (case classify_response (parse_cws_response lib v) of (status, code, msg) \<Rightarrow>
          build_cws_ack (e_now env) (oc_request_id cmd) status (parse_cws_response lib v) code msg)
      | Inl err \<Rightarrow> build_transport_error_ack (e_now env) (oc_request_id cmd) err)"

lemma conclude_effects:
  "fst (snd (conclude env mid ack effs st)) =
     effs @ EfPublish ack # (if e_publish_ok env then case mid of None \<Rightarrow> [] | Some m \<Rightarrow> [EfSourceAck m] else [])"
  "fst (conclude env mid ack effs st) = st"
  by (simp_all add: conclude_def split: option.split)

lemma conclude_trace [simp]:
  "sends (fst (snd (conclude env mid ack effs st))) = sends effs"
  "acks (fst (snd (conclude env mid ack effs st))) = acks effs @ [ack]"
  by (simp_all add: conclude_effects split: option.split)

lemma on_response_ack: "snd (on_response lib env cmd v st) = answer_ack lib env cmd (Inr v)"
  by (simp add: on_response_def answer_ack_def Let_def case_prod_beta)

lemma run_execute_effects:
  fixes path cmd price_step volume_step
  defines "req \<equiv> build_request path cmd (oc_request_id cmd) price_step volume_step"
  defines "out \<equiv> \<lambda>lib env mid x effs st.
    fst (snd (run_execute lib price_step volume_step env path cmd mid x effs st))"
  assumes "sends effs = []" "acks effs = []"
  shows "sends (out lib env mid x effs st) = [req]"
    and "acks (out lib env mid x effs st) = [answer_ack lib env cmd (e_execute env req)]"
  unfolding out_def run_execute_def Let_def
  using assms(3,4) on_response_ack [of lib env cmd _ st]
  by (auto simp: req_def [symmetric] conclude_effects case_prod_beta answer_ack_def
      split: sum.split option.split)

section \<open>The loop\<close>

text \<open>What \<open>source.next_command()\<close> or the shutdown channel gives: a command with the
  monotonic time the store reads, nothing before the poll timeout, a failed poll, shutdown.\<close>

datatype 'n consumer_input =
  InCommand int "'n cmd_env" order_command "string option"
| InTimeout i64
| InPollError i64
| InShutdown

record loop_state =
  lp_backoff :: nat
  lp_running :: bool

record backoff_config =
  bo_base :: nat
  bo_max :: nat

definition memory_cas :: "int \<Rightarrow> nat \<Rightarrow> int \<Rightarrow> uuid \<Rightarrow> idem_store \<Rightarrow> bool option \<times> idem_store" where
  "memory_cas ttl bound t rid s =
     (case check_and_set ttl bound t rid s of (b, s') \<Rightarrow> (Some b, s'))"

definition on_poll :: "i64 \<Rightarrow> consumer_health \<Rightarrow> consumer_health" where
  "on_poll now h = h\<lparr>ch_alive := True, ch_last_poll_ts := now\<rparr>"

fun loop_step ::
  "'n wire_lib \<Rightarrow> consumer_config \<Rightarrow> backoff_config \<Rightarrow> f64 \<Rightarrow> f64 \<Rightarrow> int \<Rightarrow> nat \<Rightarrow> 'n consumer_input
   \<Rightarrow> loop_state \<times> idem_store consumer \<Rightarrow> (loop_state \<times> idem_store consumer) \<times> effect list" where
  "loop_step lib config bo ps vs ttl bound (InCommand t env cmd mid) (lp, st) =
     (case command_step lib config ps vs (memory_cas ttl bound t) env cmd mid st of (st1, effs, go) \<Rightarrow>
        ((lp\<lparr>lp_backoff := bo_base bo, lp_running := go\<rparr>, st1), effs))"
| "loop_step lib config bo ps vs ttl bound (InTimeout now) (lp, st) =
     ((lp, upd_health (\<lambda>h. (on_poll now h)
         \<lparr>ch_redis_timeouts_total := sat_inc (ch_redis_timeouts_total h)\<rparr>) st), [])"
| "loop_step lib config bo ps vs ttl bound (InPollError now) (lp, st) =
     ((lp\<lparr>lp_backoff := min (lp_backoff lp * 2) (bo_max bo)\<rparr>,
       upd_health (\<lambda>h. (on_poll now h)\<lparr>ch_errors_total := sat_inc (ch_errors_total h)\<rparr>) st), [])"
| "loop_step lib config bo ps vs ttl bound InShutdown (lp, st) =
     ((lp\<lparr>lp_running := False\<rparr>, upd_health (\<lambda>h. h\<lparr>ch_alive := False\<rparr>) st), [])"

fun run_command_consumer ::
  "'n wire_lib \<Rightarrow> consumer_config \<Rightarrow> backoff_config \<Rightarrow> f64 \<Rightarrow> f64 \<Rightarrow> int \<Rightarrow> nat \<Rightarrow> 'n consumer_input list
   \<Rightarrow> loop_state \<times> idem_store consumer \<Rightarrow> (loop_state \<times> idem_store consumer) \<times> effect list" where
  "run_command_consumer lib config bo ps vs ttl bound [] s = (s, [])"
| "run_command_consumer lib config bo ps vs ttl bound (i # is) s =
     (if \<not> lp_running (fst s) then (s, [])
      else case loop_step lib config bo ps vs ttl bound i s of (s1, effs1) \<Rightarrow>
        (case run_command_consumer lib config bo ps vs ttl bound is s1 of (s2, effs2) \<Rightarrow>
           (s2, effs1 @ effs2)))"

section \<open>What a command does\<close>

text \<open>The control path lets a command through: no hardening applies, or the path is fresh, or
  it was recycled and a send reserved for an exit could be begun.\<close>

definition path_clear :: "consumer_config \<Rightarrow> 'n cmd_env \<Rightarrow> order_command \<Rightarrow> bool" where
  "path_clear config env cmd \<longleftrightarrow>
     (case (if execution_path_for_command cmd config = LegacyLongLived
            then control_path_hardening_policy cmd config else None) of
        None \<Rightarrow> True
      | Some policy \<Rightarrow>
          (case e_ensure env policy of
             EnsureErr _ _ \<Rightarrow> False
           | EnsureOk recycled armed \<Rightarrow> \<not> (recycled \<and> armed) \<or> e_begin env = None))"

text \<open>The health the validation sees, and when a command reaches the broker.\<close>

definition admitted ::
  "consumer_config \<Rightarrow> f64 \<Rightarrow> f64 \<Rightarrow> (uuid \<Rightarrow> 'i \<Rightarrow> bool option \<times> 'i) \<Rightarrow> 'n cmd_env \<Rightarrow> order_command
   \<Rightarrow> 'i consumer \<Rightarrow> bool" where
  "admitted config ps vs cas env cmd st \<longleftrightarrow>
     fst (cas (oc_request_id cmd) (cs_idem st)) = Some True
     \<and> validate_command cmd ps vs (cs_health st) (cc_pause_when_degraded config) = None
     \<and> \<not> is_command_expired (e_now_ms env) cmd \<and> path_clear config env cmd"

lemma validate_on_received [simp]:
  "validate_command cmd ps vs (on_received now mid h) b = validate_command cmd ps vs h b"
  by (simp add: validate_command_def on_received_def Let_def split: option.split)

lemma cs_idem_upd [simp]:
  "cs_idem (upd_health f st) = cs_idem st" "cs_health (upd_health f st) = f (cs_health st)"
  "cs_health (st\<lparr>cs_idem := x\<rparr>) = cs_health st"
  by (simp_all add: upd_health_def)

lemma run_accepted_effects:
  defines "out \<equiv> \<lambda>lib config ps vs env cmd mid st.
    fst (snd (run_accepted lib config ps vs env cmd mid st))"
  defines "req \<equiv> \<lambda>config ps vs cmd.
    build_request (execution_path_for_command cmd config) cmd (oc_request_id cmd) ps vs"
  shows "sends (out lib config ps vs env cmd mid st)
      = (if path_clear config env cmd then [req config ps vs cmd] else [])"
    and "\<exists>a. acks (out lib config ps vs env cmd mid st) = [a] \<and> ack_request_id a = oc_request_id cmd
      \<and> (path_clear config env cmd \<longrightarrow> a = answer_ack lib env cmd (e_execute env (req config ps vs cmd)))
      \<and> (\<not> path_clear config env cmd \<longrightarrow> ack_status a = Error)"
proof -
  have rid: "ack_request_id (answer_ack lib env cmd r) = oc_request_id cmd" for r
    by (simp add: answer_ack_def build_cws_ack_def build_transport_error_ack_def case_prod_beta
        split: sum.split)
  show "sends (out lib config ps vs env cmd mid st)
      = (if path_clear config env cmd then [req config ps vs cmd] else [])"
    unfolding out_def run_accepted_def Let_def
    by (auto simp: path_clear_def req_def run_execute_effects conclude_effects
        split: option.split ensure_result.split)
  show "\<exists>a. acks (out lib config ps vs env cmd mid st) = [a] \<and> ack_request_id a = oc_request_id cmd
      \<and> (path_clear config env cmd \<longrightarrow> a = answer_ack lib env cmd (e_execute env (req config ps vs cmd)))
      \<and> (\<not> path_clear config env cmd \<longrightarrow> ack_status a = Error)"
    unfolding out_def run_accepted_def Let_def
    by (auto simp: path_clear_def req_def run_execute_effects conclude_effects rid
        build_control_path_error_ack_def ack_error_def ack_bare_def
        split: option.split ensure_result.split)
qed

lemma command_step_sends:
  "sends (fst (snd (command_step lib config ps vs cas env cmd mid st))) =
     (if admitted config ps vs cas env cmd st
      then [build_request (execution_path_for_command cmd config) cmd (oc_request_id cmd) ps vs]
      else [])"
  unfolding command_step_def Let_def admitted_def
  by (simp add: case_prod_beta conclude_effects run_accepted_effects split: option.split bool.split)

text \<open>The acknowledgement of a command, by the first test it fails.\<close>

definition expected_status ::
  "'n wire_lib \<Rightarrow> consumer_config \<Rightarrow> f64 \<Rightarrow> f64 \<Rightarrow> bool \<Rightarrow> 'n cmd_env \<Rightarrow> order_command \<Rightarrow> consumer_health
   \<Rightarrow> ack_status" where
  "expected_status lib config ps vs fresh env cmd h =
     (if \<not> fresh then Duplicate
      else if validate_command cmd ps vs h (cc_pause_when_degraded config) \<noteq> None then Rejected
      else if is_command_expired (e_now_ms env) cmd then Expired
      else if \<not> path_clear config env cmd then Error
      else ack_status (answer_ack lib env cmd (e_execute env
        (build_request (execution_path_for_command cmd config) cmd (oc_request_id cmd) ps vs))))"

lemma command_step_acks:
  assumes "fst (cas (oc_request_id cmd) (cs_idem st)) = Some fresh"
  shows "\<exists>a. acks (fst (snd (command_step lib config ps vs cas env cmd mid st))) = [a]
    \<and> ack_request_id a = oc_request_id cmd
    \<and> ack_status a = expected_status lib config ps vs fresh env cmd (cs_health st)"
proof (cases fresh)
  case False
  then show ?thesis using assms
    by (simp add: command_step_def Let_def case_prod_beta ack_duplicate_def
        ack_bare_def expected_status_def)
next
  case True
  show ?thesis
  proof (cases "validate_command cmd ps vs (cs_health st) (cc_pause_when_degraded config) = None
      \<and> \<not> is_command_expired (e_now_ms env) cmd")
    case True
    define st' where "st' = (upd_health (on_received (e_now env) mid) st)
      \<lparr>cs_idem := snd (cas (oc_request_id cmd) (cs_idem st))\<rparr>"
    have "command_step lib config ps vs cas env cmd mid st =
        run_accepted lib config ps vs env cmd mid st'"
      using assms True \<open>fresh\<close>
      by (simp add: command_step_def Let_def case_prod_beta st'_def)
    then show ?thesis
      using run_accepted_effects(2) [of lib config ps vs env cmd mid st'] True \<open>fresh\<close>
      by (auto simp: expected_status_def)
  next
    case False
    then show ?thesis using assms \<open>fresh\<close>
      by (auto simp: command_step_def Let_def case_prod_beta ack_rejected_def
          ack_expired_def ack_bare_def expected_status_def split: option.split)
  qed
qed

lemma cs_idem_parts [simp]:
  "cs_idem (map_request oid rid st) = cs_idem st"
  "cs_idem (preinsert_cancel cmd st) = cs_idem st"
  "cs_idem (fst (on_response lib env cmd v st)) = cs_idem st"
  "cs_idem (fst (run_execute lib ps vs env path cmd mid x effs st)) = cs_idem st"
  "cs_idem (fst (run_accepted lib config ps vs env cmd mid st)) = cs_idem st"
proof -
  show m: "cs_idem (map_request oid rid st) = cs_idem st" for oid rid and st :: "'a consumer"
    by (simp add: map_request_def upd_health_def Let_def)
  show p: "cs_idem (preinsert_cancel cmd st) = cs_idem st" for st :: "'a consumer"
    by (simp add: preinsert_cancel_def m split: command_action.split)
  show r: "cs_idem (fst (on_response lib env cmd v st)) = cs_idem st" for v and st :: "'a consumer"
    by (simp add: on_response_def Let_def case_prod_beta m split: option.split)
  show x: "cs_idem (fst (run_execute lib ps vs env path cmd mid x effs st)) = cs_idem st"
    for path x effs and st :: "'a consumer"
    by (simp add: run_execute_def Let_def case_prod_beta conclude_effects r split: sum.split)
  show "cs_idem (fst (run_accepted lib config ps vs env cmd mid st)) = cs_idem st"
    by (simp add: run_accepted_def Let_def conclude_effects x p
        split: option.split ensure_result.split)
qed

lemma command_step_idem:
  "cs_idem (fst (command_step lib config ps vs cas env cmd mid st)) =
     snd (cas (oc_request_id cmd) (cs_idem st))"
  by (simp add: command_step_def Let_def case_prod_beta conclude_effects
      split: option.split bool.split)

section \<open>At most one send per request id\<close>

fun request_rid :: "broker_request \<Rightarrow> uuid" where
  "request_rid (ReqCreateLimit pa po ex sy pr qt sd cm rid) = rid"
| "request_rid (ReqCreateMarket pa po ex sy qt sd cm rid) = rid"
| "request_rid (ReqCancel pa po ex oid rid) = rid"
| "request_rid (ReqReplace po ex sy oid pr qt rid) = rid"
| "request_rid (ReqCreateStopLimit pa po ex sy sd qt tr pr cond end_t cm ig dup rid) = rid"
| "request_rid (ReqDeleteStopLimit pa po ex oid sd dup rid) = rid"

lemma request_rid_build [simp]: "request_rid (build_request path cmd rid ps vs) = rid"
  by (simp add: build_request_def split: command_action.split)

definition sends_of :: "uuid \<Rightarrow> effect list \<Rightarrow> nat" where
  "sends_of rid effs = length (filter (\<lambda>r. request_rid r = rid) (sends effs))"

lemma sends_of_append [simp]: "sends_of rid (xs @ ys) = sends_of rid xs + sends_of rid ys"
  by (simp add: sends_of_def)

lemma sends_of_Nil [simp]: "sends_of rid [] = 0"
  by (simp add: sends_of_def)

lemma sends_of_command:
  "sends_of rid (fst (snd (command_step lib config ps vs cas env cmd mid st))) =
     (if admitted config ps vs cas env cmd st \<and> oc_request_id cmd = rid then 1 else 0)"
  by (simp add: sends_of_def command_step_sends)

fun input_times :: "'n consumer_input list \<Rightarrow> int list" where
  "input_times [] = []"
| "input_times (InCommand t env cmd mid # is) = t # input_times is"
| "input_times (_ # is) = input_times is"

lemma memory_cas_simps [simp]:
  "fst (memory_cas ttl bound t rid s) = Some (fst (check_and_set ttl bound t rid s))"
  "snd (memory_cas ttl bound t rid s) = snd (check_and_set ttl bound t rid s)"
  by (simp_all add: memory_cas_def case_prod_beta)

text \<open>After an id was taken in, nothing more is sent for it while the store holds it.\<close>

lemma no_send_while_held:
  assumes "held m rid t0 (cs_idem (snd s))" "idem_inv bound c (cs_idem (snd s))" "0 \<le> ttl"
    and "m + length (input_times is) < bound" "sorted (c # input_times is)"
    and "\<forall>t\<in>set (input_times is). t - t0 \<le> ttl"
  shows "sends_of rid (snd (run_command_consumer lib config bo ps vs ttl bound is s)) = 0"
  using assms
proof (induction "is" arbitrary: m s c)
  case (Cons i "is")
  obtain lp st where s: "s = (lp, st)" by fastforce
  show ?case
  proof (cases "lp_running lp")
    case False
    then show ?thesis by (simp add: s)
  next
    case run: True
    show ?thesis
    proof (cases i)
      case (InCommand t env cmd mid)
      let ?cas = "memory_cas ttl bound t"
      let ?r = "command_step lib config ps vs ?cas env cmd mid st"
      have prems: "held m rid t0 (cs_idem st)" "idem_inv bound c (cs_idem st)" "c \<le> t"
          "t - t0 \<le> ttl" "Suc (m + length (input_times is)) < bound" "sorted (t # input_times is)"
          "\<forall>t\<in>set (input_times is). t - t0 \<le> ttl"
        using Cons.prems InCommand by (auto simp: s)
      let ?idem = "snd (check_and_set ttl bound t (oc_request_id cmd) (cs_idem st))"
      have next_held: "held (Suc m) rid t0 ?idem"
        using prems Cons.prems(3) by (intro held_step [where c = c]) auto
      have next_inv: "idem_inv bound t ?idem"
        using prems Cons.prems(3) by (intro idem_inv_check_and_set [where c = c]) auto
      have "\<not> fst (check_and_set ttl bound t rid (cs_idem st))"
        using idem_answer [OF prems(2,3) Cons.prems(3), of rid] prems(1,4)
        by (simp add: held_def idem_live_def)
      then have "sends_of rid (fst (snd ?r)) = 0"
        by (auto simp: sends_of_command admitted_def)
      moreover have "sends_of rid (snd (run_command_consumer lib config bo ps vs ttl bound is
          (lp\<lparr>lp_backoff := bo_base bo, lp_running := snd (snd ?r)\<rparr>, fst ?r))) = 0"
        using next_held next_inv prems Cons.prems(3)
        by (intro Cons.IH [where c = t and m = "Suc m"]) (auto simp: command_step_idem)
      ultimately show ?thesis using run InCommand by (simp add: s case_prod_beta)
    qed (use Cons run in \<open>auto simp: s case_prod_beta\<close>)
  qed
qed simp

lemma one_send_per_id:
  assumes "idem_inv bound c (cs_idem (snd s))" "0 \<le> ttl"
    and "length (input_times is) \<le> bound" "sorted (c # input_times is)"
    and "\<forall>t\<in>set (input_times is). \<forall>u\<in>set (input_times is). t - u \<le> ttl"
  shows "sends_of rid (snd (run_command_consumer lib config bo ps vs ttl bound is s)) \<le> 1"
  using assms
proof (induction "is" arbitrary: s c)
  case (Cons i "is")
  obtain lp st where s: "s = (lp, st)" by fastforce
  show ?case
  proof (cases "lp_running lp")
    case False
    then show ?thesis by (simp add: s)
  next
    case run: True
    show ?thesis
    proof (cases i)
      case (InCommand t env cmd mid)
      let ?cas = "memory_cas ttl bound t"
      let ?r = "command_step lib config ps vs ?cas env cmd mid st"
      let ?s1 = "(lp\<lparr>lp_backoff := bo_base bo, lp_running := snd (snd ?r)\<rparr>, fst ?r)"
      let ?idem = "snd (check_and_set ttl bound t (oc_request_id cmd) (cs_idem st))"
      have prems: "idem_inv bound c (cs_idem st)" "c \<le> t" "Suc (length (input_times is)) \<le> bound"
          "sorted (t # input_times is)" "\<forall>u\<in>set (input_times is). u - t \<le> ttl"
          "\<forall>t\<in>set (input_times is). \<forall>u\<in>set (input_times is). t - u \<le> ttl"
        using Cons.prems InCommand by (auto simp: s)
      have inv: "idem_inv bound t ?idem"
        using prems Cons.prems(2) by (intro idem_inv_check_and_set [where c = c]) auto
      have step: "run_command_consumer lib config bo ps vs ttl bound (i # is) s =
          (let q = run_command_consumer lib config bo ps vs ttl bound is ?s1
           in (fst q, fst (snd ?r) @ snd q))"
        using run InCommand by (simp add: s case_prod_beta Let_def)
      show ?thesis
      proof (cases "admitted config ps vs ?cas env cmd st \<and> oc_request_id cmd = rid")
        case False
        then have "sends_of rid (fst (snd ?r)) = 0" by (simp add: sends_of_command)
        moreover have "sends_of rid (snd (run_command_consumer lib config bo ps vs ttl bound is ?s1)) \<le> 1"
          using inv prems Cons.prems(2)
          by (intro Cons.IH [where c = t]) (auto simp: command_step_idem)
        ultimately show ?thesis by (simp only: step Let_def snd_conv sends_of_append)
      next
        case True
        then have new: "fst (check_and_set ttl bound t rid (cs_idem st))"
            "oc_request_id cmd = rid" by (auto simp: admitted_def)
        have "held 0 rid t ?idem"
          using check_and_set_held [OF prems(1,2) Cons.prems(2) new(1)] prems(3) new(2) by simp
        then have "sends_of rid (snd (run_command_consumer lib config bo ps vs ttl bound is ?s1)) = 0"
          using inv prems Cons.prems(2) new(2)
          by (intro no_send_while_held [of 0 rid t _ bound t])
             (auto simp: command_step_idem)
        moreover have "sends_of rid (fst (snd ?r)) \<le> 1" by (simp add: sends_of_command)
        ultimately show ?thesis by (simp only: step Let_def snd_conv sends_of_append)
      qed
    qed (use Cons run in \<open>auto simp: s case_prod_beta\<close>)
  qed
qed simp

section \<open>Counters\<close>

text \<open>Every command counted as received ended in exactly one of the four outcomes.\<close>

definition tallied :: "consumer_health \<Rightarrow> bool" where
  "tallied h \<longleftrightarrow> ch_received_total h
     = ch_accepted_total h + ch_rejected_total h + ch_duplicate_total h + ch_cws_errors_total h"

text \<open>One command received and not yet concluded.\<close>

definition one_open :: "consumer_health \<Rightarrow> bool" where
  "one_open h \<longleftrightarrow> ch_received_total h \<le> u64_max \<and> ch_received_total h
     = Suc (ch_accepted_total h + ch_rejected_total h + ch_duplicate_total h + ch_cws_errors_total h)"

lemma one_open_received:
  "tallied h \<Longrightarrow> ch_received_total h < u64_max \<Longrightarrow> one_open (on_received now mid h)"
  by (simp add: tallied_def one_open_def on_received_def sat_inc_def Let_def split: option.split)

lemma one_open_counters [simp]:
  "one_open (h\<lparr>ch_request_map_size := n\<rparr>) = one_open h"
  "one_open (increment_http_code code h) = one_open h"
  "one_open (on_limit_error now a h) = one_open h"
  "tallied (h\<lparr>ch_request_map_size := n\<rparr>) = tallied h"
  "tallied (increment_http_code code h) = tallied h"
  "tallied (on_limit_error now a h) = tallied h"
  by (simp_all add: one_open_def tallied_def increment_http_code_def on_limit_error_def)

lemma tallied_outcome [simp]:
  "one_open h \<Longrightarrow> tallied (on_duplicate h)"
  "one_open h \<Longrightarrow> tallied (on_invalid h)"
  "one_open h \<Longrightarrow> tallied (on_expired h)"
  "one_open h \<Longrightarrow> tallied (on_cws_error h)"
  "one_open h \<Longrightarrow> tallied (h\<lparr>ch_rejected_total := sat_inc (ch_rejected_total h)\<rparr>)"
  "one_open h \<Longrightarrow> tallied (h\<lparr>ch_processed_total := p,
     ch_accepted_total := sat_inc (ch_accepted_total h)\<rparr>)"
  by (simp_all add: one_open_def tallied_def on_duplicate_def on_invalid_def on_expired_def
      on_cws_error_def sat_inc_def)

lemma health_map_request [simp]:
  "one_open (cs_health (map_request oid rid st)) = one_open (cs_health st)"
  "tallied (cs_health (map_request oid rid st)) = tallied (cs_health st)"
  by (simp_all add: map_request_def upd_health_def Let_def)

lemma tallied_on_response:
  "one_open (cs_health st) \<Longrightarrow> tallied (cs_health (fst (on_response lib env cmd v st)))"
  by (auto simp: on_response_def Let_def classify_response_def split: option.split)

lemma tallied_run_execute:
  "one_open (cs_health st) \<Longrightarrow>
     tallied (cs_health (fst (run_execute lib ps vs env path cmd mid x effs st)))"
  by (simp add: run_execute_def Let_def case_prod_beta conclude_effects tallied_on_response
      split: sum.split)

lemma tallied_run_accepted:
  assumes "one_open (cs_health st)"
  shows "tallied (cs_health (fst (run_accepted lib config ps vs env cmd mid st)))"
proof -
  have "one_open (cs_health (preinsert_cancel cmd st))"
    using assms by (simp add: preinsert_cancel_def split: command_action.split)
  then show ?thesis
    by (simp add: run_accepted_def Let_def conclude_effects tallied_run_execute
        split: option.split ensure_result.split)
qed

lemma tallied_command_step:
  assumes "tallied (cs_health st)" "ch_received_total (cs_health st) < u64_max"
    and "fst (cas (oc_request_id cmd) (cs_idem st)) \<noteq> None"
  shows "tallied (cs_health (fst (command_step lib config ps vs cas env cmd mid st)))"
proof -
  have "one_open (on_received (e_now env) mid (cs_health st))"
    using assms by (intro one_open_received)
  then show ?thesis using assms(3)
    by (auto simp: command_step_def Let_def case_prod_beta conclude_effects tallied_run_accepted
        split: option.split bool.split)
qed

lemma received_map_request [simp]:
  "ch_received_total (cs_health (map_request oid rid st)) = ch_received_total (cs_health st)"
  by (simp add: map_request_def upd_health_def Let_def)

lemma received_parts [simp]:
  "ch_received_total (on_duplicate h) = ch_received_total h"
  "ch_received_total (on_invalid h) = ch_received_total h"
  "ch_received_total (on_expired h) = ch_received_total h"
  "ch_received_total (on_cws_error h) = ch_received_total h"
  "ch_received_total (on_limit_error now a h) = ch_received_total h"
  "ch_received_total (increment_http_code code h) = ch_received_total h"
  by (simp_all add: on_duplicate_def on_invalid_def on_expired_def on_cws_error_def
      on_limit_error_def increment_http_code_def)

lemma received_run_execute [simp]:
  "ch_received_total (cs_health (fst (run_execute lib ps vs env path cmd mid x effs st)))
     = ch_received_total (cs_health st)"
  by (auto simp: run_execute_def on_response_def Let_def case_prod_beta conclude_effects
      split: sum.split option.split)

lemma received_command_step:
  "ch_received_total (cs_health (fst (command_step lib config ps vs cas env cmd mid st)))
     \<le> Suc (ch_received_total (cs_health st))"
proof -
  have p: "ch_received_total (cs_health (preinsert_cancel cmd st)) = ch_received_total (cs_health st)"
    for st :: "'d consumer"
    by (simp add: preinsert_cancel_def split: command_action.split)
  have a: "ch_received_total (cs_health (fst (run_accepted lib config ps vs env cmd mid st)))
      = ch_received_total (cs_health st)" for st :: "'d consumer"
    by (simp add: run_accepted_def Let_def conclude_effects p split: option.split ensure_result.split)
  have r: "ch_received_total (on_received now mid h) \<le> Suc (ch_received_total h)" for now h
    by (simp add: on_received_def sat_inc_def Let_def split: option.split)
  show ?thesis
    by (simp add: command_step_def Let_def case_prod_beta conclude_effects a r
        split: option.split bool.split)
qed

lemma tallied_poll [simp]:
  "tallied (h\<lparr>ch_alive := b\<rparr>) = tallied h"
  "tallied ((on_poll now h)\<lparr>ch_redis_timeouts_total := n\<rparr>) = tallied h"
  "tallied ((on_poll now h)\<lparr>ch_errors_total := n\<rparr>) = tallied h"
  by (simp_all add: tallied_def on_poll_def)

lemma received_poll [simp]: "ch_received_total (on_poll now h) = ch_received_total h"
  by (simp add: on_poll_def)

lemma tallied_run:
  "tallied (cs_health (snd s)) \<Longrightarrow> ch_received_total (cs_health (snd s)) + length is \<le> u64_max
   \<Longrightarrow> tallied (cs_health (snd (fst (run_command_consumer lib config bo ps vs ttl bound is s))))"
proof (induction "is" arbitrary: s)
  case (Cons i "is")
  obtain lp st where s: "s = (lp, st)" by fastforce
  show ?case
  proof (cases "lp_running lp")
    case run: True
    show ?thesis
    proof (cases i)
      case (InCommand t env cmd mid)
      let ?r = "command_step lib config ps vs (memory_cas ttl bound t) env cmd mid st"
      have "tallied (cs_health (fst ?r))"
        using Cons.prems by (intro tallied_command_step) (auto simp: s)
      moreover have "ch_received_total (cs_health (fst ?r)) + length is \<le> u64_max"
        using received_command_step [of lib config ps vs "memory_cas ttl bound t" env cmd mid st]
          Cons.prems by (simp add: s)
      ultimately have "tallied (cs_health (snd (fst (run_command_consumer lib config bo ps vs ttl bound
          is (lp\<lparr>lp_backoff := bo_base bo, lp_running := snd (snd ?r)\<rparr>, fst ?r)))))"
        by (intro Cons.IH) simp_all
      then show ?thesis using run InCommand by (simp add: s case_prod_beta)
    qed (use Cons run in \<open>auto simp: s case_prod_beta\<close>)
  qed (use Cons.prems s in simp)
qed simp

text \<open>The messages acknowledged at the end of a command.\<close>

definition tail_acks :: "'n cmd_env \<Rightarrow> string option \<Rightarrow> string list" where
  "tail_acks env mid = (if e_publish_ok env then case mid of None \<Rightarrow> [] | Some m \<Rightarrow> [m] else [])"

lemma source_acks_conclude [simp]:
  "source_acks (fst (snd (conclude env mid ack effs st))) = source_acks effs @ tail_acks env mid"
  by (simp add: conclude_effects tail_acks_def split: option.split)

lemma source_acks_execute [simp]:
  "source_acks effs = [] \<Longrightarrow>
     source_acks (fst (snd (run_execute lib ps vs env path cmd mid x effs st))) = tail_acks env mid"
  by (simp add: run_execute_def Let_def case_prod_beta split: sum.split)

lemma source_acks_accepted [simp]:
  "source_acks (fst (snd (run_accepted lib config ps vs env cmd mid st))) = tail_acks env mid"
  by (simp add: run_accepted_def Let_def split: option.split ensure_result.split)

section \<open>Properties\<close>

text \<open>C1. At most one request is sent to the broker for a request id, whatever commands and
  failures come in between: in any run of the consumer over at most as many commands as the
  store holds ids, all within the store's lifetime, resent or duplicated commands never reach
  the broker a second time.\<close>

theorem at_most_one_send_per_request:
  assumes "idem_inv bound c (cs_idem st)" "length (input_times inputs) \<le> bound"
    and "sorted (c # input_times inputs)"
    and "\<forall>t\<in>set (input_times inputs). \<forall>u\<in>set (input_times inputs). t - u \<le> int ttl"
  shows "length (filter (\<lambda>r. request_rid r = rid)
      (sends (snd (run_command_consumer lib config bo ps vs (int ttl) bound inputs (lp, st))))) \<le> 1"
  using one_send_per_id [of bound c "(lp, st)" "int ttl" inputs rid lib config bo ps vs] assms
  by (simp add: sends_of_def)

text \<open>The health of a gateway that takes orders, and a consumer without history.\<close>

definition sample_health :: consumer_health where
  "sample_health = \<lparr>ch_gateway_phase = LiveReady, ch_event_sink_degraded = False,
     ch_scheduler_state = Some Open, ch_alive = True, ch_last_poll_ts = 0,
     ch_last_message_id = None, ch_errors_total = 0, ch_redis_timeouts_total = 0,
     ch_received_total = 0, ch_command_duplicate_total = 0, ch_duplicate_total = 0,
     ch_validation_failed_total = 0, ch_rejected_total = 0, ch_expired_total = 0,
     ch_processed_total = 0, ch_accepted_total = 0, ch_rejected_http = [],
     ch_cws_errors_total = 0, ch_limit_error_total = 0, ch_last_limit_error_ts = None,
     ch_request_map_size = 0\<rparr>"

definition sample_consumer :: "idem_store consumer" where
  "sample_consumer = \<lparr>cs_health = sample_health, cs_request_map = [], cs_idem = idem_empty\<rparr>"

definition sample_consumer_config :: consumer_config where
  "sample_consumer_config = \<lparr>cc_pause_when_degraded = True, cc_pre_entry_recycle = True,
     cc_pre_exit_recycle = True, cc_control_cws_mode = CwsLegacyLongLived,
     cc_as_create_limit = False, cc_as_market = False, cc_as_delete_limit = False,
     cc_as_replace_limit = False, cc_as_exit = False\<rparr>"

definition sample_env :: "nat cmd_env" where
  "sample_env = \<lparr>e_now = 1000, e_now_ms = 1000000, e_ensure = (\<lambda>_. EnsureOk False False),
     e_begin = None, e_execute = (\<lambda>_. Ok (JObj [(''httpCode'', JNum 200)])),
     e_publish_ok = True, e_source_ack_ok = True\<rparr>"

definition sample_wire :: "nat wire_lib" where
  "sample_wire = \<lparr>num_i64 = (\<lambda>n. Some (int n)), num_u64 = (\<lambda>n. Some n),
     num_f64 = (\<lambda>n. Some (f64_of_int (int n))), num_text = show_nat,
     rfc3339_secs = (\<lambda>_. None), naive_secs = (\<lambda>_. None)\<rparr>"

definition sample_command :: order_command where
  "sample_command = (order_command_new ''r1'' 990 ''s'' ''p'' ''MOEX'' ''IMOEXF''
     (Market \<lparr>mo_qty = Fin 2, mo_side = Buy, mo_comment = None\<rparr>))\<lparr>oc_ttl_ms := Some 60000\<rparr>"

lemma at_most_one_send_per_request_witness:
  "length (filter (\<lambda>r. request_rid r = ''r1'')
     (sends (snd (run_command_consumer sample_wire sample_consumer_config
        \<lparr>bo_base = 50, bo_max = 2000\<rparr> (Fin 1) (Fin 1) (int 300) 10
        [InCommand 1 sample_env sample_command (Some ''m1''),
         InCommand 2 sample_env sample_command (Some ''m2'')]
        (\<lparr>lp_backoff = 50, lp_running = True\<rparr>, sample_consumer))))) \<le> 1"
  by (rule at_most_one_send_per_request [where c = 0])
     (simp_all add: sample_consumer_def idem_inv_empty)

text \<open>The prices and quantities of a request.\<close>

fun request_amounts :: "broker_request \<Rightarrow> f64 list" where
  "request_amounts (ReqCreateLimit pa po ex sy pr qt sd cm rid) = [pr, qt]"
| "request_amounts (ReqCreateMarket pa po ex sy qt sd cm rid) = [qt]"
| "request_amounts (ReqCancel pa po ex oid rid) = []"
| "request_amounts (ReqReplace po ex sy oid pr qt rid) = [pr, qt]"
| "request_amounts (ReqCreateStopLimit pa po ex sy sd qt tr pr cond end_t cm ig dup rid) = [qt, tr, pr]"
| "request_amounts (ReqDeleteStopLimit pa po ex oid sd dup rid) = []"

text \<open>C6. A command reaches the broker only when it is allowed to: its id was new, the gateway
  is live, its event sink is not degraded where the consumer is to pause then, and, unless the
  command cancels something, the market is open; it has not outlived its time to live; the
  request is built from this command, carries its id, and no price or quantity of it compares as
  zero or negative after rounding to the instrument's steps. That comparison is the code's: a
  NaN passes it.\<close>

theorem send_is_admitted:
  assumes "r \<in> set (sends (fst (snd (command_step lib config ps vs cas env cmd mid st))))"
  shows "fst (cas (oc_request_id cmd) (cs_idem st)) = Some True
    \<and> ch_gateway_phase (cs_health st) = LiveReady
    \<and> \<not> (cc_pause_when_degraded config \<and> ch_event_sink_degraded (cs_health st))
    \<and> (is_cancel_like (oc_action cmd) \<or> ch_scheduler_state (cs_health st) = Some Open)
    \<and> \<not> is_command_expired (e_now_ms env) cmd
    \<and> r = build_request (execution_path_for_command cmd config) cmd (oc_request_id cmd) ps vs
    \<and> request_rid r = oc_request_id cmd
    \<and> (\<forall>x\<in>set (request_amounts r). \<not> x \<le> 0)"
proof -
  have adm: "admitted config ps vs cas env cmd st"
    and r: "r = build_request (execution_path_for_command cmd config) cmd (oc_request_id cmd) ps vs"
    using assms by (simp_all add: command_step_sends split: if_splits)
  then have "\<not> action_invalid ps vs (oc_action cmd)" "ch_gateway_phase (cs_health st) = LiveReady"
      "\<not> (cc_pause_when_degraded config \<and> ch_event_sink_degraded (cs_health st))"
      "is_cancel_like (oc_action cmd) \<or> ch_scheduler_state (cs_health st) = Some Open"
    by (auto simp: admitted_def validate_command_def split: if_splits)
  moreover from this(1) have "\<forall>x\<in>set (request_amounts r). \<not> x \<le> 0"
    unfolding r by (auto simp: action_invalid_def build_request_def split: command_action.splits)
  ultimately show ?thesis using adm by (simp add: admitted_def r)
qed

lemma sample_command_admitted:
  "admitted sample_consumer_config (Fin 1) (Fin 1) (memory_cas (int 300) 10 1) sample_env
     sample_command sample_consumer"
  using idem_answer [OF idem_inv_empty, of 0 1 300 10 "''r1''"]
  by (simp add: admitted_def sample_command_def sample_consumer_def order_command_new_def
      validate_command_def sample_health_def sample_consumer_config_def is_cancel_like_def
      action_invalid_def normalize_qty_def zero_f64_def f_floor_def is_command_expired_def
      sample_env_def sat_mul_def sat_i64_def i64_min_def i64_max_def as_i64_def path_clear_def
      execution_path_for_command_def control_path_hardening_policy_def is_place_def idem_live_def)
     (simp add: idem_empty_def)

lemma send_is_admitted_witness:
  "filter (\<lambda>x. x \<le> 0)
     (request_amounts (build_request LegacyLongLived sample_command ''r1'' (Fin 1) (Fin 1))) = []"
proof -
  have p: "execution_path_for_command sample_command sample_consumer_config = LegacyLongLived"
      "oc_request_id sample_command = ''r1''"
    by (simp_all add: execution_path_for_command_def sample_consumer_config_def sample_command_def
        order_command_new_def)
  have "build_request LegacyLongLived sample_command ''r1'' (Fin 1) (Fin 1) \<in> set (sends (fst (snd
      (command_step sample_wire sample_consumer_config (Fin 1) (Fin 1) (memory_cas (int 300) 10 1)
        sample_env sample_command None sample_consumer))))"
    using sample_command_admitted p by (simp add: command_step_sends)
  from send_is_admitted [OF this] show ?thesis by (auto simp: filter_empty_conv)
qed

text \<open>C7. Every command the store answers for is acknowledged exactly once, under its own
  request id, with the status of the first test it fails: duplicate, rejected by validation,
  expired, blocked control path, and otherwise what the broker's answer stands for. The
  message is acknowledged to its source only after that, and only if the acknowledgement could
  be published.\<close>

theorem every_command_acknowledged_once:
  assumes "fst (cas (oc_request_id cmd) (cs_idem st)) = Some fresh"
  shows "(\<exists>a. acks (fst (snd (command_step lib config ps vs cas env cmd mid st))) = [a]
      \<and> ack_request_id a = oc_request_id cmd
      \<and> ack_status a = expected_status lib config ps vs fresh env cmd (cs_health st))
    \<and> source_acks (fst (snd (command_step lib config ps vs cas env cmd mid st)))
        = (if e_publish_ok env then case mid of None \<Rightarrow> [] | Some m \<Rightarrow> [m] else [])"
proof -
  have "source_acks (fst (snd (command_step lib config ps vs cas env cmd mid st)))
      = tail_acks env mid"
    using assms
    by (cases fresh; cases "validate_command cmd ps vs (cs_health st) (cc_pause_when_degraded config)")
       (simp_all add: command_step_def Let_def case_prod_beta)
  then show ?thesis
    using command_step_acks [of cas cmd st fresh lib config ps vs env mid] assms
    unfolding tail_acks_def by blast
qed

lemma every_command_acknowledged_once_witness:
  "source_acks (fst (snd (command_step sample_wire sample_consumer_config (Fin 1) (Fin 1)
     (memory_cas (int 300) 10 1) sample_env sample_command (Some ''m1'') sample_consumer))) = [''m1'']"
proof -
  have "fst (memory_cas (int 300) 10 1 (oc_request_id sample_command) (cs_idem sample_consumer))
      = Some True"
    using sample_command_admitted by (simp add: admitted_def)
  from every_command_acknowledged_once [where cas = "memory_cas (int 300) 10 1"
      and cmd = sample_command and st = sample_consumer and fresh = True and lib = sample_wire
      and config = sample_consumer_config and ps = "Fin 1" and vs = "Fin 1" and env = sample_env
      and mid = "Some ''m1''", OF this]
  show ?thesis by (simp add: sample_env_def)
qed

text \<open>Over a whole run the consumer's counters add up: every command received is counted
  exactly once as accepted, rejected, duplicate or failed, until the counter of received
  commands reaches the width of its type.\<close>

theorem counters_add_up:
  assumes "ch_received_total h = ch_accepted_total h + ch_rejected_total h + ch_duplicate_total h
      + ch_cws_errors_total h"
    and "ch_received_total h + length inputs \<le> u64_max"
    and "h' = cs_health (snd (fst (run_command_consumer lib config bo ps vs ttl bound inputs
      (lp, \<lparr>cs_health = h, cs_request_map = rm, cs_idem = idem\<rparr>))))"
  shows "ch_received_total h' = ch_accepted_total h' + ch_rejected_total h' + ch_duplicate_total h'
      + ch_cws_errors_total h'"
  using tallied_run [of "(lp, \<lparr>cs_health = h, cs_request_map = rm, cs_idem = idem\<rparr>)" inputs
      lib config bo ps vs ttl bound] assms
  by (simp add: tallied_def)

lemma counters_add_up_witness:
  "\<exists>h. ch_received_total h = ch_accepted_total h + ch_rejected_total h + ch_duplicate_total h
      + ch_cws_errors_total h \<and>
    h = cs_health (snd (fst (run_command_consumer sample_wire sample_consumer_config
      \<lparr>bo_base = 50, bo_max = 2000\<rparr> (Fin 1) (Fin 1) 300 10
      [InCommand 1 sample_env sample_command None, InTimeout 5]
      (\<lparr>lp_backoff = 50, lp_running = True\<rparr>,
       \<lparr>cs_health = sample_health, cs_request_map = [], cs_idem = idem_empty\<rparr>))))"
  using counters_add_up [of sample_health "[InCommand 1 sample_env sample_command None, InTimeout 5]" _
      sample_wire sample_consumer_config "\<lparr>bo_base = 50, bo_max = 2000\<rparr>" "Fin 1" "Fin 1" 300 10
      "\<lparr>lp_backoff = 50, lp_running = True\<rparr>" "[]" idem_empty]
  by (auto simp: sample_health_def u64_max_def)

text \<open>A command with a time to live is expired exactly when the clock has passed its
  creation plus that time, for every time to live up to \<open>2 ^ 62\<close> milliseconds and every
  creation time before the year 100,000,000.\<close>

theorem expired_after_deadline:
  assumes "oc_ttl_ms cmd = Some ttl" "0 < ttl" "int ttl \<le> 2 ^ 62"
    and "0 < oc_created_ts_utc cmd" "oc_created_ts_utc cmd \<le> 3155760000000000"
  shows "is_command_expired now_ms cmd \<longleftrightarrow> now_ms > oc_created_ts_utc cmd * 1000 + int ttl"
proof -
  have t: "as_i64 (int ttl) = int ttl" using assms by (intro as_i64_id) (auto simp: i64_min_def i64_max_def)
  have m: "sat_mul (oc_created_ts_utc cmd) 1000 = oc_created_ts_utc cmd * 1000"
    using assms by (simp add: sat_mul_def i64_min_def i64_max_def)
  have "as_i64 (oc_created_ts_utc cmd * 1000 + int ttl) = oc_created_ts_utc cmd * 1000 + int ttl"
    using assms by (intro as_i64_id) (auto simp: i64_min_def i64_max_def)
  then show ?thesis using assms by (simp add: is_command_expired_def t m)
qed

lemma expired_after_deadline_witness:
  "is_command_expired 1050001 sample_command \<longleftrightarrow> (1050001::int) > 990 * 1000 + 60000"
  using expired_after_deadline [of sample_command 60000 1050001]
  by (simp add: sample_command_def order_command_new_def)

end
