(* ===== verification/Strategy_Host.thy ===== *)
theory Strategy_Host
  imports Scheduler Bar_Pipeline
begin

text \<open>
  What the strategy runtime and its strategies exchange
  (\<open>strategy-runtime/src/strategy_host.rs\<close>, the enums and the request ids of \<open>lib.rs\<close>):
  intents, the events a strategy is called with, the context of a call, and the trait
  \<open>Strategy\<close> as a record of operations over a strategy object. \<open>GatewayPhase\<close> is declared
  once more in \<open>live_guard.rs\<close> with the constructors it has in the gateway; the two are
  the same text on the wire and one type here.
\<close>

section \<open>Enums of the configuration\<close>

datatype trade_mode = TmLive | TmPaper | TmBacktest

datatype paper_execution_mode = LiveOnly | HistorySim

datatype close_trigger = NextBar | PositionUpdate

section \<open>Events\<close>

text \<open>\<open>OrderEvent\<close>, \<open>TradeEvent\<close> and \<open>StopOrderEvent\<close> have the fields of the gateway's.\<close>

datatype host_origin = OrHistory | OrHistoryGap | OrLive | OrReplay

record host_bar =
  hb_symbol :: string
  hb_close_time :: i64
  hb_close :: f64
  hb_o :: f64
  hb_h :: f64
  hb_l :: f64
  hb_v :: f64
  hb_origin :: host_origin

type_synonym host_order = order_event
type_synonym host_trade = trade_event
type_synonym host_stop_order = stop_order_event

record host_position =
  hp_symbol :: string
  hp_qty :: f64
  hp_existing :: bool
  hp_avg_price :: f64
  hp_ts :: i64

section \<open>Intents\<close>

datatype intent =
  Classified intent intent_class
| Routed intent string
| IPlace f64 f64 side "string option"
| IMarket f64 side "f64 option" "string option"
| ICancel i64
| IReplace i64 f64 f64
| ICreateStopLimit side f64 f64 f64 stop_limit_condition i64
    "string option" "string option" "bool option"
| IDeleteStopLimit string "side option" "bool option"

definition with_class :: "intent \<Rightarrow> intent_class \<Rightarrow> intent" where
  "with_class i c = Classified i c"

definition with_symbol :: "intent \<Rightarrow> string \<Rightarrow> intent" where
  "with_symbol i s = Routed i s"

fun explicit_class :: "intent \<Rightarrow> intent_class option" where
  "explicit_class (Classified _ c) = Some c"
| "explicit_class (Routed i _) = explicit_class i"
| "explicit_class _ = None"

fun base_intent :: "intent \<Rightarrow> intent" where
  "base_intent (Classified i _) = base_intent i"
| "base_intent (Routed i _) = base_intent i"
| "base_intent i = i"

fun is_wrapped :: "intent \<Rightarrow> bool" where
  "is_wrapped (Classified _ _) = True"
| "is_wrapped (Routed _ _) = True"
| "is_wrapped _ = False"

lemma base_intent_not_wrapped [simp]: "\<not> is_wrapped (base_intent i)"
  by (induction i rule: base_intent.induct) simp_all

section \<open>The context of a call\<close>

record strategy_ctx =
  cx_strategy_id :: string
  cx_portfolio :: string
  cx_exchange :: string
  cx_symbol :: string
  cx_tick_size :: f64
  cx_trade_mode :: trade_mode
  cx_paper_execution_mode :: paper_execution_mode
  cx_allow_live_orders :: bool
  cx_gateway_phase :: gateway_phase
  cx_position_qty :: "f64 option"
  cx_event_ts :: i64
  cx_now_ts :: i64
  cx_last_bar_ts :: "i64 option"

record command_prepared =
  cp_request_id :: uuid
  cp_intent_class :: intent_class
  cp_created_ts :: i64
  cp_symbol :: string
  cp_action :: string
  cp_target_order_id :: "string option"

record intent_blocked =
  ib_reason :: string
  ib_action :: string
  ib_intent_class :: intent_class
  ib_created_ts :: i64
  ib_guard_reasons :: "string list"

datatype block_disposition = Rollback | KeepStrategyState

text \<open>What a strategy is told when the runtime starts; the vectors of \<open>RuntimeStateRestored\<close> list
  sets in no particular order.\<close>

record bootstrap_snapshot =
  bsn_positions :: "string \<Rightarrow> host_position option"
  bsn_orders :: "i64 \<Rightarrow> host_order option"
  bsn_stop_orders :: "string \<Rightarrow> host_stop_order option"
  bsn_ts :: "i64 option"

record runtime_state_restored =
  rsr_known_order_ids :: "i64 set"
  rsr_pending_requests :: "uuid set"

section \<open>The trait\<close>

text \<open>
  A strategy is an object \<open>'s\<close> whose persisted part is \<open>'st\<close>: a callback takes the object and
  returns it changed, with the intents it asks for.
\<close>

record ('s, 'st) strategy_ops =
  so_on_bar :: "strategy_ctx \<Rightarrow> host_bar \<Rightarrow> 's \<Rightarrow> 's \<times> intent list"
  so_on_ack :: "strategy_ctx \<Rightarrow> command_ack \<Rightarrow> 's \<Rightarrow> 's \<times> intent list"
  so_on_order :: "strategy_ctx \<Rightarrow> host_order \<Rightarrow> 's \<Rightarrow> 's \<times> intent list"
  so_on_stop_order :: "strategy_ctx \<Rightarrow> host_stop_order \<Rightarrow> 's \<Rightarrow> 's \<times> intent list"
  so_on_position :: "strategy_ctx \<Rightarrow> host_position \<Rightarrow> 's \<Rightarrow> 's \<times> intent list"
  so_on_timer :: "strategy_ctx \<Rightarrow> i64 \<Rightarrow> 's \<Rightarrow> 's \<times> intent list"
  so_on_bootstrap_snapshot :: "strategy_ctx \<Rightarrow> bootstrap_snapshot \<Rightarrow> 's \<Rightarrow> 's \<times> intent list"
  so_on_runtime_state_restored ::
    "strategy_ctx \<Rightarrow> runtime_state_restored \<Rightarrow> 's \<Rightarrow> 's \<times> intent list"
  so_warmup_from_history :: "strategy_ctx \<Rightarrow> host_bar list \<Rightarrow> 's \<Rightarrow> 's \<times> nat"
  so_tracked_order_ids :: "'s \<Rightarrow> i64 list"
  so_pending_request_ids :: "'s \<Rightarrow> uuid list"
  so_intent_comment_tag :: "strategy_ctx \<Rightarrow> i64 \<Rightarrow> intent_class \<Rightarrow> 's \<Rightarrow> string option"
  so_on_command_prepared :: "strategy_ctx \<Rightarrow> command_prepared \<Rightarrow> 's \<Rightarrow> 's"
  so_on_intent_blocked :: "strategy_ctx \<Rightarrow> intent_blocked \<Rightarrow> 's \<Rightarrow> 's \<times> block_disposition"
  so_state :: "'s \<Rightarrow> 'st"
  so_set_state :: "'st \<Rightarrow> 's \<Rightarrow> 's"

text \<open>The bodies the trait gives the methods a strategy does not override.\<close>

definition default_on_stop_order :: "strategy_ctx \<Rightarrow> host_stop_order \<Rightarrow> 's \<Rightarrow> 's \<times> intent list" where
  "default_on_stop_order ctx ord s = (s, [])"

definition default_on_timer :: "strategy_ctx \<Rightarrow> i64 \<Rightarrow> 's \<Rightarrow> 's \<times> intent list" where
  "default_on_timer ctx now_ms s = (s, [])"

definition default_on_bootstrap_snapshot ::
  "strategy_ctx \<Rightarrow> bootstrap_snapshot \<Rightarrow> 's \<Rightarrow> 's \<times> intent list" where
  "default_on_bootstrap_snapshot ctx snap s = (s, [])"

definition default_on_runtime_state_restored ::
  "strategy_ctx \<Rightarrow> runtime_state_restored \<Rightarrow> 's \<Rightarrow> 's \<times> intent list" where
  "default_on_runtime_state_restored ctx r s = (s, [])"

definition default_warmup_from_history ::
  "strategy_ctx \<Rightarrow> host_bar list \<Rightarrow> 's \<Rightarrow> 's \<times> nat" where
  "default_warmup_from_history ctx bars s = (s, 0)"

definition default_intent_comment_tag ::
  "strategy_ctx \<Rightarrow> i64 \<Rightarrow> intent_class \<Rightarrow> 's \<Rightarrow> string option" where
  "default_intent_comment_tag ctx ts c s = None"

definition default_on_command_prepared :: "strategy_ctx \<Rightarrow> command_prepared \<Rightarrow> 's \<Rightarrow> 's" where
  "default_on_command_prepared ctx c s = s"

definition default_on_intent_blocked ::
  "strategy_ctx \<Rightarrow> intent_blocked \<Rightarrow> 's \<Rightarrow> 's \<times> block_disposition" where
  "default_on_intent_blocked ctx e s = (s, Rollback)"

lemmas default_ops_defs = default_on_stop_order_def default_intent_comment_tag_def
  default_on_timer_def default_on_bootstrap_snapshot_def default_on_runtime_state_restored_def
  default_warmup_from_history_def
  default_on_command_prepared_def default_on_intent_blocked_def

text \<open>A call of one of the event callbacks, and a sequence of calls with all their intents.\<close>

datatype host_event =
  EvBar strategy_ctx host_bar
| EvAck strategy_ctx command_ack
| EvOrder strategy_ctx host_order
| EvStopOrder strategy_ctx host_stop_order
| EvPosition strategy_ctx host_position

fun ops_call :: "('s, 'st) strategy_ops \<Rightarrow> host_event \<Rightarrow> 's \<Rightarrow> 's \<times> intent list" where
  "ops_call ops (EvBar ctx bar) s = so_on_bar ops ctx bar s"
| "ops_call ops (EvAck ctx ack) s = so_on_ack ops ctx ack s"
| "ops_call ops (EvOrder ctx ord) s = so_on_order ops ctx ord s"
| "ops_call ops (EvStopOrder ctx ord) s = so_on_stop_order ops ctx ord s"
| "ops_call ops (EvPosition ctx pos) s = so_on_position ops ctx pos s"

fun ops_run :: "('s, 'st) strategy_ops \<Rightarrow> host_event list \<Rightarrow> 's \<Rightarrow> 's \<times> intent list" where
  "ops_run ops [] s = (s, [])"
| "ops_run ops (e # es) s =
     (let (s1, is1) = ops_call ops e s; (s2, is2) = ops_run ops es s1 in (s2, is1 @ is2))"

lemma ops_run_Cons [simp]:
  "fst (ops_run ops (e # es) s) = fst (ops_run ops es (fst (ops_call ops e s)))"
  "snd (ops_run ops (e # es) s) = snd (ops_call ops e s) @ snd (ops_run ops es (fst (ops_call ops e s)))"
  by (simp_all add: case_prod_unfold Let_def)

declare ops_run.simps(2) [simp del]

text \<open>An invariant of the object and the intents so far that every call keeps holds after a run.\<close>

lemma ops_run_induct:
  assumes "\<And>e s is. P s is \<Longrightarrow> P (fst (ops_call ops e s)) (is @ snd (ops_call ops e s))"
    and "P s is0"
  shows "P (fst (ops_run ops evs s)) (is0 @ snd (ops_run ops evs s))"
  using assms(2)
proof (induction evs arbitrary: s is0)
  case (Cons e evs)
  from Cons.IH [OF assms(1) [OF Cons.prems]] show ?case by simp
qed simp

text \<open>What the runtime relies on when it rolls a strategy back: the persisted part reads back
  as it was set.\<close>

locale strategy_object =
  fixes ops :: "('s, 'st) strategy_ops"
  assumes state_set: "so_state ops (so_set_state ops st s) = st"

section \<open>Request ids\<close>

text \<open>
  The name a request id is derived from; \<open>Uuid::new_v5\<close> with the URL name space is the
  parameter \<open>v5\<close>.
\<close>

definition request_name :: "string \<Rightarrow> string \<Rightarrow> string \<Rightarrow> string \<Rightarrow> i64 \<Rightarrow> nat \<Rightarrow> string" where
  "request_name strategy_id portfolio symbol action bar_ts n =
     strategy_id @ ''|'' @ portfolio @ ''|'' @ symbol @ ''|'' @ action @ ''|''
     @ show_int bar_ts @ ''|'' @ show_nat n"

definition deterministic_request_id ::
  "(string \<Rightarrow> uuid) \<Rightarrow> string \<Rightarrow> string \<Rightarrow> string \<Rightarrow> string \<Rightarrow> i64 \<Rightarrow> nat \<Rightarrow> uuid" where
  "deterministic_request_id v5 strategy_id portfolio symbol action bar_ts n =
     v5 (request_name strategy_id portfolio symbol action bar_ts n)"

definition market_request_seq :: "side \<Rightarrow> nat" where
  "market_request_seq sd = (if sd = Buy then 3 else 4)"

definition deterministic_market_request_id ::
  "(string \<Rightarrow> uuid) \<Rightarrow> string \<Rightarrow> string \<Rightarrow> string \<Rightarrow> i64 \<Rightarrow> side \<Rightarrow> uuid" where
  "deterministic_market_request_id v5 strategy_id portfolio symbol created_ts sd =
     deterministic_request_id v5 strategy_id portfolio symbol ''market'' created_ts
       (market_request_seq sd)"

lemma show_nat_not_in: "\<not> is_digit c \<Longrightarrow> c \<notin> set (show_nat n)"
  using show_nat_digits by blast

lemma bar_dash_not_digit: "\<not> is_digit CHR ''|''" "\<not> is_digit CHR ''-''"
  by (simp_all add: is_digit_def)

lemma show_int_no_bar: "CHR ''|'' \<notin> set (show_int k)"
  by (simp add: show_int_def show_nat_not_in bar_dash_not_digit)

lemma show_int_inj: "show_int a = show_int b \<Longrightarrow> a = b"
proof -
  have d: "show_nat n \<noteq> CHR ''-'' # cs" "CHR ''-'' # cs \<noteq> show_nat n" for n cs
    using show_nat_not_in [OF bar_dash_not_digit(2), of n] by (metis list.set_intros(1))+
  assume "show_int a = show_int b"
  then show "a = b"
    by (cases "a < 0"; cases "b < 0") (auto simp: show_int_def d dest!: show_nat_inj)
qed

lemma split_first_bar:
  "c \<notin> set xs \<Longrightarrow> c \<notin> set xs' \<Longrightarrow> xs @ c # ys = xs' @ c # ys' \<longleftrightarrow> xs = xs' \<and> ys = ys'"
proof (induction xs arbitrary: xs')
  case Nil
  then show ?case by (cases xs') auto
next
  case (Cons x xs)
  then show ?case by (cases xs') auto
qed

text \<open>With the same action and symbol, the timestamp and the number are read off the name.\<close>

lemma request_name_eq_iff [simp]:
  "request_name a p s act t n = request_name a p s act t' n' \<longleftrightarrow> t = t' \<and> n = n'"
  using split_first_bar [OF show_int_no_bar [of t] show_int_no_bar [of t']]
  by (auto simp: request_name_def dest: show_int_inj show_nat_inj)

end
