(* ===== verification/Live_Guard.thy ===== *)
theory Live_Guard
  imports Strategy_Host
begin

text \<open>
  The live guard (\<open>strategy-runtime/src/live_guard.rs\<close>): whether the runtime may send orders,
  as a list of reasons against it, and the runtime's own additions to it
  (\<open>BootstrapState\<close>, \<open>guard_block_may_be_readiness_race\<close> of \<open>runtime.rs\<close>).
\<close>

section \<open>Data\<close>

record health_event =
  he_gateway_phase :: gateway_phase
  he_readiness :: bool
  he_ws_connected :: bool
  he_cws_authorized :: bool
  he_scheduler_state :: "string option"
  he_last_event_ts :: i64

text \<open>\<open>LiveGuardState\<close> has the one field \<open>health\<close>.\<close>

type_synonym live_guard_state = "health_event option"

definition update_health :: "health_event \<Rightarrow> live_guard_state \<Rightarrow> live_guard_state" where
  "update_health h st = Some h"

record live_guard_decision =
  gd_allowed :: bool
  gd_reasons :: "string list"

text \<open>The \<open>Debug\<close> texts.\<close>

fun debug_trade_mode :: "trade_mode \<Rightarrow> string" where
  "debug_trade_mode TmLive = ''Live''"
| "debug_trade_mode TmPaper = ''Paper''"
| "debug_trade_mode TmBacktest = ''Backtest''"

fun debug_phase :: "gateway_phase \<Rightarrow> string" where
  "debug_phase SyncingHistory = ''SyncingHistory''"
| "debug_phase Reconnecting = ''Reconnecting''"
| "debug_phase SyncingGap = ''SyncingGap''"
| "debug_phase LiveReady = ''LiveReady''"

section \<open>The decision\<close>

definition health_phase :: "live_guard_state \<Rightarrow> gateway_phase" where
  "health_phase st = (case st of None \<Rightarrow> SyncingHistory | Some h \<Rightarrow> he_gateway_phase h)"

definition health_stale :: "live_guard_state \<Rightarrow> i64 \<Rightarrow> u64 \<Rightarrow> bool" where
  "health_stale st now stale_sec =
     (case st of
        None \<Rightarrow> True
      | Some h \<Rightarrow> he_last_event_ts h \<le> 0
                  \<or> i64_of_u64_sat stale_sec < sat_sub now (he_last_event_ts h))"

definition health_flag :: "live_guard_state \<Rightarrow> (health_event \<Rightarrow> bool) \<Rightarrow> bool" where
  "health_flag st f = (case st of None \<Rightarrow> False | Some h \<Rightarrow> f h)"

definition evaluate_live_guard ::
  "trade_mode \<Rightarrow> bool \<Rightarrow> live_guard_state \<Rightarrow> bool \<Rightarrow> bool \<Rightarrow> i64 \<Rightarrow> u64 \<Rightarrow> bool
   \<Rightarrow> live_guard_decision" where
  "evaluate_live_guard mode allow st has_bars stream_has_data now stale_sec require_ready =
     (let phase = health_phase st;
          reasons =
            (if mode \<noteq> TmLive then [''trade_mode='' @ debug_trade_mode mode] else [])
            @ (if \<not> allow then [''allow_live_orders=false''] else [])
            @ (if mode = TmLive \<and> \<not> has_bars then
                 (if stream_has_data then [''waiting_for_next_bar_after_restart'']
                  else [''waiting_for_first_bar'']) else [])
            @ (if phase \<noteq> LiveReady then [''phase='' @ debug_phase phase] else [])
            @ (if health_stale st now stale_sec then [''gateway_health_stale''] else [])
            @ (if require_ready then
                 (if \<not> health_flag st he_readiness then [''gateway_ready=false''] else [])
                 @ (if \<not> health_flag st he_ws_connected then [''ws_connected=false''] else [])
                 @ (if \<not> health_flag st he_cws_authorized then [''cws_authorized=false''] else [])
               else [])
      in \<lparr>gd_allowed = (reasons = []), gd_reasons = reasons\<rparr>)"

section \<open>The runtime's additions\<close>

record bootstrap_state =
  bs_orders_snapshot_loaded :: bool
  bs_positions_snapshot_loaded :: bool
  bs_seen_live_bar :: bool

definition bootstrap_ready :: "bootstrap_state \<Rightarrow> bool" where
  "bootstrap_ready b \<longleftrightarrow>
     bs_orders_snapshot_loaded b \<and> bs_positions_snapshot_loaded b \<and> bs_seen_live_bar b"

definition bootstrap_reasons :: "bootstrap_state \<Rightarrow> string list" where
  "bootstrap_reasons b =
     (if bootstrap_ready b then []
      else [''bootstrap:not_ready'']
        @ (if \<not> bs_orders_snapshot_loaded b then [''bootstrap:missing_orders_snapshot''] else [])
        @ (if \<not> bs_positions_snapshot_loaded b then [''bootstrap:missing_positions_snapshot'']
           else [])
        @ (if \<not> bs_seen_live_bar b then [''bootstrap:missing_live_bar''] else []))"

definition guard_with_bootstrap :: "bootstrap_state \<Rightarrow> live_guard_decision \<Rightarrow> live_guard_decision" where
  "guard_with_bootstrap b d =
     (let reasons = gd_reasons d @ bootstrap_reasons b
      in \<lparr>gd_allowed = (reasons = []), gd_reasons = reasons\<rparr>)"

text \<open>Reasons that a fresh health event may remove.\<close>

definition readiness_reason :: "string \<Rightarrow> bool" where
  "readiness_reason r \<longleftrightarrow>
     r \<in> {''gateway_ready=false'', ''gateway_health_stale'', ''ws_connected=false'',
          ''cws_authorized=false'', ''bootstrap:not_ready''}
     \<or> take 6 r = ''phase=''"

definition guard_block_may_be_readiness_race :: "live_guard_decision \<Rightarrow> bool" where
  "guard_block_may_be_readiness_race d \<longleftrightarrow>
     \<not> gd_allowed d \<and> gd_reasons d \<noteq> [] \<and> list_all readiness_reason (gd_reasons d)"

section \<open>Lemmas\<close>

text \<open>What an allowing decision stands for.\<close>

definition gateway_live :: "live_guard_state \<Rightarrow> i64 \<Rightarrow> u64 \<Rightarrow> bool \<Rightarrow> bool" where
  "gateway_live st now stale_sec require_ready \<longleftrightarrow>
     (\<exists>h. st = Some h \<and> he_gateway_phase h = LiveReady \<and> 0 < he_last_event_ts h
        \<and> sat_sub now (he_last_event_ts h) \<le> i64_of_u64_sat stale_sec
        \<and> (require_ready \<longrightarrow> he_readiness h \<and> he_ws_connected h \<and> he_cws_authorized h))"

lemma evaluate_allowed_iff:
  "gd_allowed (evaluate_live_guard mode allow st has_bars data now stale_sec require_ready) \<longleftrightarrow>
     mode = TmLive \<and> allow \<and> has_bars \<and> gateway_live st now stale_sec require_ready"
  by (cases st)
    (auto simp: evaluate_live_guard_def health_phase_def health_stale_def health_flag_def
      gateway_live_def Let_def not_le not_less)

lemma evaluate_allowed_reasons:
  "gd_allowed (evaluate_live_guard m a st b d now s r)
     = (gd_reasons (evaluate_live_guard m a st b d now s r) = [])"
  by (simp only: evaluate_live_guard_def Let_def live_guard_decision.select_convs)

lemma bootstrap_reasons_Nil_iff: "bootstrap_reasons b = [] \<longleftrightarrow> bootstrap_ready b"
  by (simp add: bootstrap_reasons_def)

lemma guard_with_bootstrap_allowed_iff:
  "gd_allowed (guard_with_bootstrap b (evaluate_live_guard m a st bars data now s r)) \<longleftrightarrow>
     bootstrap_ready b \<and> m = TmLive \<and> a \<and> bars \<and> gateway_live st now s r"
  using evaluate_allowed_iff [of m a st bars data now s r]
  by (auto simp: guard_with_bootstrap_def Let_def bootstrap_reasons_Nil_iff
      evaluate_allowed_reasons)

text \<open>A wait for readiness is never entered while the bootstrap is incomplete: of the reasons
  of an incomplete bootstrap only the first is one a fresh health event may remove.\<close>

lemma bootstrap_blocks_race:
  assumes "\<not> bootstrap_ready b"
  shows "\<not> guard_block_may_be_readiness_race (guard_with_bootstrap b d)"
proof -
  have "\<not> list_all readiness_reason (bootstrap_reasons b)"
    using assms by (auto simp: bootstrap_reasons_def bootstrap_ready_def readiness_reason_def)
  then show ?thesis
    by (simp add: guard_block_may_be_readiness_race_def guard_with_bootstrap_def Let_def)
qed

end
