(* ===== verification/Strategy_State.thy ===== *)
theory Strategy_State
  imports Strategy_Host
begin

text \<open>
  The persisted state of a strategy (\<open>StrategyState\<close> of \<open>strategy-runtime/src/state.rs\<close>), one
  constructor per variant with a record of its fields. The variants of the strategies that
  are not modelled carry the one field the modelled code writes, \<open>last_bar_ts\<close>, and the rest
  of their fields as a parameter \<open>'r\<close>.
\<close>

record placed =
  pl_request_id :: uuid
  pl_order_id :: "i64 option"
  pl_cancel_due :: bool
  pl_cancel_bar_ts :: "i64 option"
  pl_placed_bar_ts :: i64
  pl_last_bar_ts :: i64
  pl_bars_waited :: u32

record market_buy_pending =
  bp_request_id :: uuid
  bp_baseline_qty :: "f64 option"
  bp_close_trigger :: close_trigger
  bp_pending_bar_ts :: i64
  bp_last_bar_ts :: i64

record market_buy_sent =
  bu_request_id :: uuid
  bu_baseline_qty :: "f64 option"
  bu_close_trigger :: close_trigger
  bu_buy_bar_ts :: i64
  bu_last_bar_ts :: i64

record market_close_sent =
  cl_request_id :: uuid
  cl_baseline_qty :: "f64 option"
  cl_last_bar_ts :: i64

record live_pending_entry =
  en_request_guid :: uuid
  en_side :: side
  en_qty :: f64
  en_baseline_qty :: f64
  en_close_trigger :: close_trigger
  en_sent_ts :: i64
  en_acked :: bool
  en_entry_confirmed_ts :: "i64 option"
  en_last_bar_ts :: i64

record live_in_position =
  in_side :: side
  in_qty :: f64
  in_avg_price :: f64
  in_baseline_qty :: f64
  in_close_trigger :: close_trigger
  in_opened_ts :: i64
  in_last_bar_ts :: i64

record live_pending_exit =
  ex_request_guid :: uuid
  ex_reason :: string
  ex_side :: side
  ex_qty :: f64
  ex_baseline_qty :: f64
  ex_sent_ts :: i64
  ex_acked :: bool
  ex_last_bar_ts :: i64

record cancel_sent =
  cn_request_id :: uuid
  cn_order_id :: i64
  cn_last_bar_ts :: i64

datatype 'r strategy_state =
  Idle
| Placed placed
| MarketBuyPending market_buy_pending
| MarketBuySent market_buy_sent
| MarketCloseSent market_close_sent
| MarketLivePendingEntry live_pending_entry
| MarketLiveInPosition live_in_position
| MarketLivePendingExit live_pending_exit
| Blocked string i64
| SessionGapStandalone "i64 option" 'r
| HybridIntradayRuntime 'r
| AlorUsdrubfHybrid "i64 option" 'r
| RiAuthor4142Live "i64 option" 'r
| CancelSent cancel_sent
| Done i64

section \<open>The state as it is stored\<close>

datatype strategy_kind =
  LimitCancel | MarketBuyAndClose | ToySessionTiming | SessionGapStandaloneKind | MockLiveProbe
| HybridIntraday | AlorUsdrubfHybridKind | RiAuthor4142

fun default_strategy_id :: "strategy_kind \<Rightarrow> string" where
  "default_strategy_id LimitCancel = ''limit_cancel''"
| "default_strategy_id MarketBuyAndClose = ''market_buy_and_close''"
| "default_strategy_id ToySessionTiming = ''toy_session_timing''"
| "default_strategy_id SessionGapStandaloneKind = ''session_gap_standalone''"
| "default_strategy_id MockLiveProbe = ''mock_live_probe''"
| "default_strategy_id HybridIntraday = ''hybrid_intraday''"
| "default_strategy_id AlorUsdrubfHybridKind = ''alor_usdrubf_hybrid_v1''"
| "default_strategy_id RiAuthor4142 = ''ri_author41_42''"

record 'st state_envelope =
  se_strategy_kind :: strategy_kind
  se_state_version :: u32
  se_payload :: 'st

datatype 'st envelope_compat = LegacyState 'st | EnvelopeState "'st state_envelope"

definition default_strategy_state_version :: u32 where
  "default_strategy_state_version = 1"

definition from_strategy_state :: "strategy_kind \<Rightarrow> 'st \<Rightarrow> 'st envelope_compat" where
  "from_strategy_state kind payload =
     EnvelopeState \<lparr>se_strategy_kind = kind, se_state_version = default_strategy_state_version,
                    se_payload = payload\<rparr>"

fun into_payload :: "'st envelope_compat \<Rightarrow> 'st" where
  "into_payload (LegacyState p) = p"
| "into_payload (EnvelopeState e) = se_payload e"

fun envelope_kind :: "'st envelope_compat \<Rightarrow> strategy_kind option" where
  "envelope_kind (LegacyState _) = None"
| "envelope_kind (EnvelopeState e) = Some (se_strategy_kind e)"

text \<open>The default ids tell the kinds apart.\<close>

lemma default_strategy_id_inj: "inj default_strategy_id"
  by (rule injI) (case_tac x; case_tac y; simp)

lemma envelope_round_trip [simp]:
  "into_payload (from_strategy_state kind p) = p"
  "envelope_kind (from_strategy_state kind p) = Some kind"
  by (simp_all add: from_strategy_state_def)

end
