(* ===== verification/Trade_Ledger.thy ===== *)
theory Trade_Ledger
  imports Strategy_Host "HOL-Library.Product_Lexorder"
begin

text \<open>
  The ledger of fills (\<open>strategy-runtime/src/trade_ledger.rs\<close>): the position and its cost, the
  trades closed when the position returns to flat or changes its sign, and the summary. A CSV
  report that exists already is an argument; writing the files is I/O.
\<close>

section \<open>Records\<close>

record trade_record =
  tk_ts :: i64
  tk_order_id :: i64
  tk_symbol :: string
  tk_side :: string
  tk_qty :: f64
  tk_price :: f64
  tk_commission :: f64
  tk_owned :: bool
  tk_comment :: "string option"

record order_record =
  od_order_id :: i64
  od_symbol :: string
  od_side :: string
  od_qty :: f64
  od_filled :: f64
  od_price :: f64
  od_status :: string
  od_ts :: i64
  od_owned :: bool

record closed_trade =
  ct_entry_ts :: i64
  ct_exit_ts :: i64
  ct_symbol :: string
  ct_component :: "string option"
  ct_side :: string
  ct_qty :: f64
  ct_entry_price :: f64
  ct_exit_price :: f64
  ct_commission :: f64
  ct_pnl_gross :: f64
  ct_pnl_net :: f64
  ct_entry_role :: "string option"
  ct_exit_role :: "string option"
  ct_entry_comment :: "string option"
  ct_exit_comment :: "string option"

record ledger_summary =
  ls_strategy_id :: string
  ls_symbol :: string
  ls_trades_total :: nat
  ls_win_rate :: f64
  ls_pnl_gross_total :: f64
  ls_pnl_net_total :: f64
  ls_commission_total :: f64
  ls_gross_profit :: f64
  ls_gross_loss :: f64
  ls_avg_pnl :: f64
  ls_max_pnl :: f64
  ls_min_pnl :: f64

record trade_ledger =
  lg_orders :: "i64 \<Rightarrow> order_record option"
  lg_trades :: "trade_record list"
  lg_closed :: "closed_trade list"
  lg_realized :: f64
  lg_qty :: f64
  lg_cost :: f64
  lg_entry_ts :: "i64 option"
  lg_entry_price :: f64
  lg_entry_side :: "string option"
  lg_entry_symbol :: "string option"
  lg_entry_comment :: "string option"
  lg_open_commission :: f64

definition ledger_empty :: trade_ledger where
  "ledger_empty = \<lparr>lg_orders = Map.empty, lg_trades = [], lg_closed = [], lg_realized = 0,
     lg_qty = 0, lg_cost = 0, lg_entry_ts = None, lg_entry_price = 0, lg_entry_side = None,
     lg_entry_symbol = None, lg_entry_comment = None, lg_open_commission = 0\<rparr>"

section \<open>Comment tags\<close>

record hybrid_trade_tag =
  ht_owner :: "string option"
  ht_role :: "string option"

text \<open>\<open>str::split\<close> and \<open>split_once\<close> with a character.\<close>

fun split_on :: "char \<Rightarrow> string \<Rightarrow> string list" where
  "split_on c [] = [[]]"
| "split_on c (x # xs) =
     (if x = c then [] # split_on c xs
      else (case split_on c xs of [] \<Rightarrow> [[x]] | w # ws \<Rightarrow> (x # w) # ws))"

definition split_once :: "char \<Rightarrow> string \<Rightarrow> (string \<times> string) option" where
  "split_once c s = (if c \<in> set s then Some (takeWhile ((\<noteq>) c) s, tl (dropWhile ((\<noteq>) c) s)) else None)"

definition tag_part :: "string \<Rightarrow> hybrid_trade_tag \<Rightarrow> hybrid_trade_tag" where
  "tag_part part tag =
     (case split_once CHR ''='' part of
        None \<Rightarrow> tag
      | Some (key, v) \<Rightarrow>
          if key = ''o'' \<and> v \<in> {''MR'', ''BO''} then tag\<lparr>ht_owner := Some v\<rparr>
          else if key = ''r'' \<and> v \<in> {''ENTRY'', ''EXIT'', ''TP'', ''SL'', ''CANCEL'', ''REPAIR''}
            then tag\<lparr>ht_role := Some v\<rparr>
          else tag)"

definition parse_tag :: "string option \<Rightarrow> hybrid_trade_tag option" where
  "parse_tag comment =
     (case comment of
        None \<Rightarrow> None
      | Some c \<Rightarrow>
          if \<not> list_all (\<lambda>x. (of_char x :: nat) < 128) c \<or> take 4 c \<noteq> ''HYB|'' then None
          else Some (fold tag_part (tl (split_on CHR ''|'' c))
                       \<lparr>ht_owner = None, ht_role = None\<rparr>))"

section \<open>Fills\<close>

definition avg_price :: "f64 \<Rightarrow> f64 \<Rightarrow> f64" where
  "avg_price qty cost = (if \<bar>qty\<bar> \<le> f64_epsilon then 0 else cost div qty)"

definition average_price :: "trade_ledger \<Rightarrow> f64" where
  "average_price l = avg_price (lg_qty l) (lg_cost l)"

text \<open>The first match of \<open>apply_fill\<close>: quantity, cost and realised profit.\<close>

definition fill_position :: "trade_record \<Rightarrow> trade_ledger \<Rightarrow> trade_ledger" where
  "fill_position t l =
     (let q = lg_qty l; c = lg_cost l; qty = tk_qty t; price = tk_price t; avg = average_price l in
      if tk_side t = ''buy'' then
        (if q < 0 then
           let cover = f_min qty \<bar>q\<bar>;
               q1 = q + cover; c1 = c + avg * cover; remaining = qty - cover;
               l1 = l\<lparr>lg_realized := lg_realized l + (avg - price) * cover\<rparr>
           in if 0 < remaining then l1\<lparr>lg_qty := q1 + remaining, lg_cost := c1 + remaining * price\<rparr>
              else l1\<lparr>lg_qty := q1, lg_cost := c1\<rparr>
         else l\<lparr>lg_qty := q + qty, lg_cost := c + qty * price\<rparr>)
      else if tk_side t = ''sell'' then
        (if 0 < q then
           let close = f_min qty q;
               q1 = q - close; c1 = c - avg * close; remaining = qty - close;
               l1 = l\<lparr>lg_realized := lg_realized l + (price - avg) * close\<rparr>
           in if 0 < remaining then l1\<lparr>lg_qty := q1 - remaining, lg_cost := c1 - remaining * price\<rparr>
              else l1\<lparr>lg_qty := q1, lg_cost := c1\<rparr>
         else l\<lparr>lg_qty := q - qty, lg_cost := c - qty * price\<rparr>)
      else l)"

definition buy_or_sell :: "f64 \<Rightarrow> string" where
  "buy_or_sell q = (if 0 < q then ''buy'' else ''sell'')"

text \<open>The closed trade of a fill that ends the position; \<open>before_qty\<close> and \<open>before_avg\<close> are those
  before the fill.\<close>

definition closed_trade_of :: "trade_record \<Rightarrow> f64 \<Rightarrow> f64 \<Rightarrow> bool \<Rightarrow> f64 \<Rightarrow> trade_ledger \<Rightarrow> closed_trade"
where
  "closed_trade_of t before_qty before_avg flipped ratio l =
     (let entry_price = (if 0 < lg_entry_price l then lg_entry_price l else \<bar>before_avg\<bar>);
          entry_side = (case lg_entry_side l of Some s \<Rightarrow> s | None \<Rightarrow> buy_or_sell before_qty);
          close_qty = \<bar>before_qty\<bar>;
          pnl_gross = (if entry_side = ''buy'' then (tk_price t - entry_price) * close_qty
                       else (entry_price - tk_price t) * close_qty);
          commission = (if flipped then lg_open_commission l + tk_commission t * ratio
                        else lg_open_commission l + tk_commission t);
          entry_tag = parse_tag (lg_entry_comment l); exit_tag = parse_tag (tk_comment t)
      in \<lparr>ct_entry_ts = (case lg_entry_ts l of Some e \<Rightarrow> e | None \<Rightarrow> tk_ts t),
          ct_exit_ts = tk_ts t,
          ct_symbol = (case lg_entry_symbol l of Some s \<Rightarrow> s | None \<Rightarrow> tk_symbol t),
          ct_component = (case Option.bind entry_tag ht_owner of
              Some x \<Rightarrow> Some x | None \<Rightarrow> Option.bind exit_tag ht_owner),
          ct_side = entry_side, ct_qty = close_qty, ct_entry_price = entry_price,
          ct_exit_price = tk_price t, ct_commission = commission, ct_pnl_gross = pnl_gross,
          ct_pnl_net = pnl_gross - commission,
          ct_entry_role = Option.bind entry_tag ht_role,
          ct_exit_role = Option.bind exit_tag ht_role,
          ct_entry_comment = lg_entry_comment l, ct_exit_comment = tk_comment t\<rparr>)"

definition open_entry :: "trade_record \<Rightarrow> string \<Rightarrow> f64 \<Rightarrow> trade_ledger \<Rightarrow> trade_ledger" where
  "open_entry t sd commission l =
     l\<lparr>lg_entry_ts := Some (tk_ts t), lg_entry_side := Some sd, lg_entry_symbol := Some (tk_symbol t),
       lg_entry_comment := tk_comment t, lg_entry_price := \<bar>average_price l\<bar>,
       lg_open_commission := commission\<rparr>"

definition apply_fill :: "trade_record \<Rightarrow> trade_ledger \<Rightarrow> trade_ledger" where
  "apply_fill t l0 =
     (let before_qty = lg_qty l0;
          before_avg = avg_price before_qty (lg_cost l0);
          l = fill_position t l0;
          is_flat = (\<bar>lg_qty l\<bar> \<le> f64_epsilon);
          was_flat = (\<bar>before_qty\<bar> \<le> f64_epsilon);
          flipped = (\<not> was_flat \<and> \<not> is_flat \<and> \<not> f_eq (f_signum before_qty) (f_signum (lg_qty l)));
          ratio = (if flipped \<and> 0 < tk_qty t then f_min (\<bar>before_qty\<bar> div tk_qty t) 1 else 1)
      in if \<not> was_flat \<and> (is_flat \<or> flipped) then
           (let ct = closed_trade_of t before_qty before_avg flipped ratio l;
                l1 = (if 0 < ct_entry_price ct then l\<lparr>lg_closed := lg_closed l @ [ct]\<rparr> else l);
                l2 = l1\<lparr>lg_entry_ts := None, lg_entry_side := None, lg_entry_symbol := None,
                        lg_entry_comment := None, lg_entry_price := 0, lg_open_commission := 0\<rparr>
            in if flipped then open_entry t (buy_or_sell (lg_qty l2)) (tk_commission t * (1 - ratio)) l2
               else l2)
         else if was_flat \<and> \<not> is_flat then open_entry t (tk_side t) (tk_commission t) l
         else if \<not> is_flat then
           l\<lparr>lg_entry_price := \<bar>average_price l\<bar>,
             lg_open_commission := lg_open_commission l + tk_commission t\<rparr>
         else l)"

definition record_order :: "order_record \<Rightarrow> trade_ledger \<Rightarrow> trade_ledger" where
  "record_order r l = l\<lparr>lg_orders := (lg_orders l)(od_order_id r := Some r)\<rparr>"

definition record_fill :: "trade_record \<Rightarrow> trade_ledger \<Rightarrow> trade_ledger" where
  "record_fill t l = (let l1 = apply_fill t l in l1\<lparr>lg_trades := lg_trades l1 @ [t]\<rparr>)"

section \<open>The summary and the report\<close>

record summary_acc =
  sa_first :: bool
  sa_gross_profit :: f64
  sa_gross_loss :: f64
  sa_max :: f64
  sa_min :: f64
  sa_gross :: f64
  sa_net :: f64
  sa_commission :: f64

definition summary_start :: summary_acc where
  "summary_start = \<lparr>sa_first = True, sa_gross_profit = 0, sa_gross_loss = 0, sa_max = 0,
     sa_min = 0, sa_gross = 0, sa_net = 0, sa_commission = 0\<rparr>"

definition summary_step :: "closed_trade \<Rightarrow> summary_acc \<Rightarrow> summary_acc" where
  "summary_step t a =
     a\<lparr>sa_first := False,
       sa_gross := sa_gross a + ct_pnl_gross t, sa_net := sa_net a + ct_pnl_net t,
       sa_commission := sa_commission a + ct_commission t,
       sa_gross_profit := (if 0 \<le> ct_pnl_gross t then sa_gross_profit a + ct_pnl_gross t
                           else sa_gross_profit a),
       sa_gross_loss := (if 0 \<le> ct_pnl_gross t then sa_gross_loss a
                         else sa_gross_loss a + \<bar>ct_pnl_gross t\<bar>),
       sa_max := (if sa_first a \<or> sa_max a < ct_pnl_net t then ct_pnl_net t else sa_max a),
       sa_min := (if sa_first a \<or> ct_pnl_net t < sa_min a then ct_pnl_net t else sa_min a)\<rparr>"

definition summary_for_trades :: "string \<Rightarrow> string \<Rightarrow> closed_trade list \<Rightarrow> ledger_summary" where
  "summary_for_trades strategy_id symbol ts =
     (let n = length ts; a = fold summary_step ts summary_start;
          wins = length (filter (\<lambda>t. 0 < ct_pnl_net t) ts)
      in \<lparr>ls_strategy_id = strategy_id, ls_symbol = symbol, ls_trades_total = n,
          ls_win_rate = (if n = 0 then 0 else f64_of_int (int wins) div f64_of_int (int n)),
          ls_pnl_gross_total = sa_gross a, ls_pnl_net_total = sa_net a,
          ls_commission_total = sa_commission a, ls_gross_profit = sa_gross_profit a,
          ls_gross_loss = sa_gross_loss a,
          ls_avg_pnl = (if n = 0 then 0 else sa_net a div f64_of_int (int n)),
          ls_max_pnl = sa_max a, ls_min_pnl = sa_min a\<rparr>)"

definition ledger_summary_of :: "string \<Rightarrow> string \<Rightarrow> trade_ledger \<Rightarrow> ledger_summary" where
  "ledger_summary_of strategy_id symbol l = summary_for_trades strategy_id symbol (lg_closed l)"

text \<open>\<open>ClosedTradeKey\<close> compares the bits of the floats, here their values.\<close>

definition closed_trade_key ::
  "closed_trade \<Rightarrow> i64 \<times> i64 \<times> string \<times> string \<times> f64 list" where
  "closed_trade_key t = (ct_entry_ts t, ct_exit_ts t, ct_symbol t, ct_side t,
     [ct_qty t, ct_entry_price t, ct_exit_price t, ct_commission t, ct_pnl_gross t, ct_pnl_net t])"

fun retain_new :: "'k set \<Rightarrow> ('a \<Rightarrow> 'k) \<Rightarrow> 'a list \<Rightarrow> 'a list" where
  "retain_new seen key [] = []"
| "retain_new seen key (x # xs) =
     (if key x \<in> seen then retain_new seen key xs
      else x # retain_new (insert (key x) seen) key xs)"

definition report_order :: "closed_trade \<Rightarrow> i64 \<times> i64 \<times> string \<times> string" where
  "report_order t = (ct_entry_ts t, ct_exit_ts t, ct_symbol t, ct_side t)"

definition report_trades :: "closed_trade list \<Rightarrow> trade_ledger \<Rightarrow> closed_trade list" where
  "report_trades stored l =
     retain_new {} closed_trade_key (sort_key report_order (stored @ lg_closed l))"

section \<open>The position is the sum of the fills\<close>

text \<open>The abstract account: fills of whole quantities as signed integers, the position as their
  sum.\<close>

definition whole_qty :: "trade_record \<Rightarrow> int" where
  "whole_qty t = (case tk_qty t of Fin q \<Rightarrow> \<lfloor>q\<rfloor> | _ \<Rightarrow> 0)"

definition whole_fill :: "trade_record \<Rightarrow> bool" where
  "whole_fill t \<longleftrightarrow> tk_side t \<in> {''buy'', ''sell''} \<and> 0 < whole_qty t \<and> tk_qty t = Fin (of_int (whole_qty t))"

definition signed_qty :: "trade_record \<Rightarrow> int" where
  "signed_qty t = (if tk_side t = ''buy'' then whole_qty t else - whole_qty t)"

definition entry_matches :: "int \<Rightarrow> trade_ledger \<Rightarrow> bool" where
  "entry_matches n l \<longleftrightarrow> lg_qty l = Fin (of_int n)
     \<and> lg_entry_side l = (if n = 0 then None else if 0 < n then Some ''buy'' else Some ''sell'')"

lemma Fin_int_plus: "\<bar>a + b\<bar> \<le> 2 ^ 53 \<Longrightarrow> Fin (of_int a) + Fin (of_int b) = Fin (of_int (a + b))"
  using rnd_of_int [of "a + b"] by simp

lemma Fin_int_minus: "\<bar>a - b\<bar> \<le> 2 ^ 53 \<Longrightarrow> Fin (of_int a) - Fin (of_int b) = Fin (of_int (a - b))"
  using rnd_of_int [of "a - b"] by simp

lemma zero_less_Fin [simp]: "0 < Fin a \<longleftrightarrow> 0 < a" "Fin a < 0 \<longleftrightarrow> a < 0"
  by (simp_all add: zero_f64_def)

lemma f_min_int [simp]: "f_min (Fin (of_int a)) (Fin \<bar>of_int b\<bar>) = Fin (of_int (min a \<bar>b\<bar>))"
    "f_min (Fin (of_int a)) (Fin (of_int b)) = Fin (of_int (min a b))"
  by (simp_all add: of_int_min of_int_abs [symmetric] del: of_int_abs)

lemma fill_position_qty:
  assumes "lg_qty l = Fin (of_int n)" "whole_fill t" "\<bar>n\<bar> + whole_qty t \<le> 2 ^ 53"
  shows "lg_qty (fill_position t l) = Fin (of_int (n + signed_qty t))"
proof -
  define k where "k = whole_qty t"
  have k: "0 < k" "tk_qty t = Fin (of_int k)" "\<bar>n\<bar> + k \<le> 2 ^ 53"
    using assms(2,3) by (auto simp: whole_fill_def k_def)
  show ?thesis
  proof (cases "tk_side t = ''buy''")
    case True
    show ?thesis
    proof (cases "n < 0")
      case neg: True
      have "Fin (of_int n) + Fin (of_int (min k \<bar>n\<bar>)) = Fin (of_int (n + min k \<bar>n\<bar>))"
          "Fin (of_int k) - Fin (of_int (min k \<bar>n\<bar>)) = Fin (of_int (k - min k \<bar>n\<bar>))"
          "Fin (of_int (n + min k \<bar>n\<bar>)) + Fin (of_int (k - min k \<bar>n\<bar>)) = Fin (of_int (n + k))"
        using k neg by (subst Fin_int_plus Fin_int_minus; simp)+
      then show ?thesis using True neg k assms(1)
        by (simp add: fill_position_def Let_def signed_qty_def k_def [symmetric] del: plus_f64.simps Fin_minus_Fin)
          (auto simp: min_def)
    next
      case False
      then show ?thesis using True k assms(1) Fin_int_plus [of n k]
        by (simp add: fill_position_def Let_def signed_qty_def k_def [symmetric] del: plus_f64.simps)
    qed
  next
    case False
    then have sell: "tk_side t = ''sell''" using assms(2) by (auto simp: whole_fill_def)
    show ?thesis
    proof (cases "0 < n")
      case pos: True
      have "Fin (of_int n) - Fin (of_int (min k n)) = Fin (of_int (n - min k n))"
          "Fin (of_int k) - Fin (of_int (min k n)) = Fin (of_int (k - min k n))"
          "Fin (of_int (n - min k n)) - Fin (of_int (k - min k n)) = Fin (of_int (n - k))"
        using k pos by (subst Fin_int_minus; simp)+
      then show ?thesis using sell pos k assms(1)
        by (simp add: fill_position_def Let_def signed_qty_def k_def [symmetric] del: plus_f64.simps Fin_minus_Fin)
          (auto simp: min_def)
    next
      case False
      then show ?thesis using sell k assms(1) Fin_int_minus [of n k]
        by (simp add: fill_position_def Let_def signed_qty_def k_def [symmetric] del: Fin_minus_Fin)
    qed
  qed
qed

lemma fill_position_frame [simp]:
  "lg_trades (fill_position t l) = lg_trades l" "lg_closed (fill_position t l) = lg_closed l"
  "lg_entry_side (fill_position t l) = lg_entry_side l"
  by (simp_all add: fill_position_def Let_def)

lemma apply_fill_frame [simp]:
  "lg_trades (apply_fill t l) = lg_trades l" "lg_qty (apply_fill t l) = lg_qty (fill_position t l)"
  by (simp_all add: apply_fill_def open_entry_def Let_def)

lemma int_flat_iff [simp]: "\<bar>Fin (of_int n)\<bar> \<le> f64_epsilon \<longleftrightarrow> n = 0"
proof (cases "n = 0")
  case False
  then have "(1::rat) \<le> \<bar>of_int n\<bar>" by (metis of_int_1_le_iff of_int_abs zero_less_abs_iff zless_imp_add1_zle add_0)
  then show ?thesis using False by (simp add: f64_epsilon_def)
qed (simp add: f64_epsilon_def)

lemma apply_fill_entry_side:
  "lg_entry_side (apply_fill t l) =
     (let was_flat = (\<bar>lg_qty l\<bar> \<le> f64_epsilon);
          is_flat = (\<bar>lg_qty (fill_position t l)\<bar> \<le> f64_epsilon);
          same_sign = f_eq (f_signum (lg_qty l)) (f_signum (lg_qty (fill_position t l)))
      in if \<not> was_flat \<and> is_flat then None
         else if \<not> was_flat \<and> \<not> same_sign then Some (buy_or_sell (lg_qty (fill_position t l)))
         else if was_flat \<and> \<not> is_flat then Some (tk_side t)
         else lg_entry_side l)"
  by (simp add: apply_fill_def open_entry_def Let_def)

lemma signum_int_eq:
  "f_eq (f_signum (Fin (of_int n))) (f_signum (Fin (of_int m))) \<longleftrightarrow> (n < 0 \<longleftrightarrow> m < 0)"
  by simp

lemma apply_fill_entry:
  assumes "entry_matches n l" "whole_fill t" "\<bar>n\<bar> + whole_qty t \<le> 2 ^ 53"
  shows "entry_matches (n + signed_qty t) (apply_fill t l)"
proof -
  define m where "m = n + signed_qty t"
  have q: "lg_qty l = Fin (of_int n)" using assms(1) by (simp add: entry_matches_def)
  have q': "lg_qty (fill_position t l) = Fin (of_int m)"
    unfolding m_def by (rule fill_position_qty [OF q assms(2,3)])
  have sg: "0 < whole_qty t" "tk_side t = ''buy'' \<and> m = n + whole_qty t
      \<or> tk_side t = ''sell'' \<and> m = n - whole_qty t"
    using assms(2) by (auto simp: whole_fill_def signed_qty_def m_def)
  have side: "lg_entry_side l = (if n = 0 then None else if 0 < n then Some ''buy'' else Some ''sell'')"
    using assms(1) by (simp add: entry_matches_def)
  have bs: "buy_or_sell (Fin (of_int m)) = (if 0 < m then ''buy'' else ''sell'')"
    by (simp add: buy_or_sell_def)
  have "lg_entry_side (apply_fill t l)
      = (if m = 0 then None else if 0 < m then Some ''buy'' else Some ''sell'')"
    unfolding apply_fill_entry_side Let_def q q' int_flat_iff signum_int_eq bs side
    using sg by (cases "n = 0"; cases "0 < n"; cases "m = 0"; cases "0 < m"; simp)
  then show ?thesis unfolding entry_matches_def apply_fill_frame q' m_def [symmetric] by simp
qed

text \<open>C9. For fills of whole quantities the ledger refines the account that adds them up: its
  position is exactly their signed sum, the entry it holds open is on the side of the position
  and there is none when it is flat, and every fill is kept, in order.\<close>

theorem ledger_refines_account:
  assumes "list_all whole_fill ts" "sum_list (map whole_qty ts) \<le> 2 ^ 53"
  shows "entry_matches (sum_list (map signed_qty ts)) (fold record_fill ts ledger_empty)
    \<and> lg_trades (fold record_fill ts ledger_empty) = ts"
proof -
  have "entry_matches (n + sum_list (map signed_qty ts)) (fold record_fill ts l)
      \<and> lg_trades (fold record_fill ts l) = lg_trades l @ ts"
    if "entry_matches n l" "\<bar>n\<bar> + sum_list (map whole_qty ts) \<le> 2 ^ 53" for n l
    using assms(1) that
  proof (induction ts arbitrary: n l)
    case (Cons t ts)
    have nn: "0 \<le> sum_list (map whole_qty ts)"
      using Cons.prems(1) by (intro sum_list_nonneg) (auto simp: list_all_iff whole_fill_def)
    have w: "whole_fill t" "0 < whole_qty t" "\<bar>signed_qty t\<bar> = whole_qty t"
      using Cons.prems(1) by (auto simp: whole_fill_def signed_qty_def)
    have "entry_matches (n + signed_qty t) (apply_fill t l)"
      using Cons.prems nn w by (intro apply_fill_entry) auto
    then have "entry_matches (n + signed_qty t) (record_fill t l)"
      by (simp add: record_fill_def entry_matches_def Let_def)
    moreover have "\<bar>n + signed_qty t\<bar> + sum_list (map whole_qty ts) \<le> 2 ^ 53"
      using Cons.prems(3) w(3) abs_triangle_ineq [of n "signed_qty t"] by simp
    moreover have "lg_trades (record_fill t l) = lg_trades l @ [t]"
      by (simp add: record_fill_def Let_def)
    ultimately show ?case using Cons.IH [of "n + signed_qty t" "record_fill t l"] Cons.prems(1)
      by (simp add: add.assoc)
  qed simp
  from this [of 0 ledger_empty] assms(2) show ?thesis
    by (simp add: entry_matches_def ledger_empty_def zero_f64_def)
qed

definition sample_fill :: "string \<Rightarrow> int \<Rightarrow> int \<Rightarrow> trade_record" where
  "sample_fill sd qty price = \<lparr>tk_ts = 0, tk_order_id = 1, tk_symbol = ''IMOEXF'', tk_side = sd,
     tk_qty = Fin (of_int qty), tk_price = Fin (of_int price), tk_commission = 0, tk_owned = True,
     tk_comment = None\<rparr>"

lemma ledger_refines_account_witness:
  "entry_matches (- 1) (fold record_fill [sample_fill ''buy'' 2 100, sample_fill ''sell'' 3 110] ledger_empty)"
  using ledger_refines_account [of "[sample_fill ''buy'' 2 100, sample_fill ''sell'' 3 110]"]
  by (simp add: whole_fill_def whole_qty_def signed_qty_def sample_fill_def)

section \<open>A partial exit is lost from the closed trades\<close>

text \<open>The closed trade of a position is priced at its last fill alone: after buying two at
  \<open>a\<close>, selling one at \<open>b\<close> and one at \<open>c\<close> without commission the ledger has realised
  \<open>(b - a) + (c - a)\<close>, but its one closed trade, and with it the summary, shows one unit sold
  at \<open>c\<close>.\<close>

theorem partial_exit_lost:
  assumes "0 < a" "a \<le> 2 ^ 40" "0 < b" "b \<le> 2 ^ 40" "0 < c" "c \<le> 2 ^ 40"
  shows "map ct_pnl_gross (lg_closed (fold record_fill
        [sample_fill ''buy'' 2 a, sample_fill ''sell'' 1 b, sample_fill ''sell'' 1 c] ledger_empty))
      = [Fin (of_int (c - a))]
    \<and> lg_realized (fold record_fill
        [sample_fill ''buy'' 2 a, sample_fill ''sell'' 1 b, sample_fill ''sell'' 1 c] ledger_empty)
      = Fin (of_int ((b - a) + (c - a)))"
proof -
  have r: "rnd (2 * of_int a) = Fin (2 * of_int a)" "rnd (of_int a) = Fin (of_int a)"
      "rnd (of_int b - of_int a) = Fin (of_int b - of_int a)"
      "rnd (of_int c - of_int a) = Fin (of_int c - of_int a)"
      "rnd (of_int b + of_int c - 2 * of_int a) = Fin (of_int b + of_int c - 2 * of_int a)"
    using assms rnd_of_int [of "2 * a"] rnd_of_int [of a] rnd_of_int [of "b - a"]
      rnd_of_int [of "c - a"] rnd_of_int [of "b + c - 2 * a"]
    by simp_all
  have e: "0 < (of_int a :: rat)" using assms by simp
  show ?thesis using assms e
    by (simp add: record_fill_def apply_fill_def fill_position_def closed_trade_of_def
        open_entry_def average_price_def avg_price_def sample_fill_def ledger_empty_def
        f64_epsilon_def zero_f64_def one_f64_def Let_def r)
qed

text \<open>Bought at 100, sold at 110 and at 90: nothing gained, a loss of 10 in the summary.\<close>

lemma partial_exit_lost_witness:
  "lg_realized (fold record_fill
      [sample_fill ''buy'' 2 100, sample_fill ''sell'' 1 110, sample_fill ''sell'' 1 90] ledger_empty) = 0
   \<and> map ct_pnl_gross (lg_closed (fold record_fill
      [sample_fill ''buy'' 2 100, sample_fill ''sell'' 1 110, sample_fill ''sell'' 1 90] ledger_empty))
      = [Fin (- 10)]"
  using partial_exit_lost [of 100 110 90] by (simp add: zero_f64_def)

section \<open>Appending a report twice\<close>

lemma retain_new_set: "set (retain_new seen key xs) \<subseteq> set xs"
  by (induction seen key xs rule: retain_new.induct) auto

lemma retain_new_keys: "key ` set (retain_new seen key xs) = key ` set xs - seen"
  by (induction seen key xs rule: retain_new.induct) auto

lemma retain_new_distinct: "distinct (map key (retain_new seen key xs))"
proof (induction seen key xs rule: retain_new.induct)
  case (2 seen key x xs)
  then show ?case using retain_new_keys [of key "insert (key x) seen" xs] by auto
qed simp

lemma retain_new_sorted: "sorted (map f xs) \<Longrightarrow> sorted (map f (retain_new seen key xs))"
proof (induction seen key xs rule: retain_new.induct)
  case (2 seen key x xs)
  then show ?case using retain_new_set [of "insert (key x) seen" key xs] by auto
qed simp

lemma retain_new_id:
  "distinct (map key xs) \<Longrightarrow> key ` set xs \<inter> seen = {} \<Longrightarrow> retain_new seen key xs = xs"
  by (induction seen key xs rule: retain_new.induct) auto

lemma retain_new_append:
  "retain_new seen key (xs @ ys) = retain_new seen key xs @ retain_new (seen \<union> key ` set xs) key ys"
  by (induction seen key xs rule: retain_new.induct) (auto simp: insert_absorb Un_commute)

lemma retain_new_Nil: "key ` set ys \<subseteq> seen \<Longrightarrow> retain_new seen key ys = []"
  by (induction seen key ys rule: retain_new.induct) auto

lemma retain_new_other:
  "k \<notin> key ` set xs \<Longrightarrow> retain_new (insert k seen) key xs = retain_new seen key xs"
  by (induction seen key xs rule: retain_new.induct) (auto simp: insert_commute)

lemma filter_retain_new:
  assumes "\<And>x y. key x = key y \<Longrightarrow> P x = P y"
  shows "filter P (retain_new seen key xs) = retain_new seen key (filter P xs)"
  using assms
proof (induction seen key xs rule: retain_new.induct)
  case (2 seen key x xs)
  have new: "key x \<notin> key ` set (filter P xs)" if "\<not> P x"
  proof
    assume "key x \<in> key ` set (filter P xs)"
    then obtain y where "P y" "key x = key y" by auto
    with that 2(3) [of x y] show False by blast
  qed
  note IH = 2(1) [OF _ 2(3)] 2(2) [OF _ 2(3)]
  show ?case using IH retain_new_other [OF new] by (cases "P x"; cases "key x \<in> seen") simp_all
qed simp

lemma sorted_by_eqI:
  assumes "sorted (map f xs)" "sorted (map f ys)"
    and "\<And>k. filter (\<lambda>x. f x = k) xs = filter (\<lambda>x. f x = k) ys"
  shows "xs = ys"
proof -
  have "count (mset xs) x = count (mset ys) x" for x
  proof -
    have "count (filter_mset (\<lambda>y. f y = f x) (mset xs)) x = count (filter_mset (\<lambda>y. f y = f x) (mset ys)) x"
      using assms(3) [of "f x"] by (simp flip: mset_filter)
    then show ?thesis by simp
  qed
  then have "mset xs = mset ys" by (rule multiset_eqI)
  moreover have "filter (\<lambda>x. f k = f x) xs = filter (\<lambda>x. f k = f x) ys" for k
    using assms(3) [of "f k"] by (simp add: eq_commute)
  ultimately have "sort_key f ys = xs"
    using assms(1) by (intro properties_for_sort_key) auto
  moreover have "sort_key f ys = ys"
    using assms(2) by (intro properties_for_sort_key) auto
  ultimately show ?thesis by simp
qed

lemma report_order_of_key: "closed_trade_key x = closed_trade_key y \<Longrightarrow> report_order x = report_order y"
  by (simp add: closed_trade_key_def report_order_def)

text \<open>C22. Writing the report again over itself changes nothing: with the report of a ledger as
  the stored one, the report of the same ledger is the same list, each trade once and in the
  order of the report, and it misses no trade, stored or closed.\<close>

theorem report_append_idempotent:
  "report_trades (report_trades stored l) l = report_trades stored l
   \<and> distinct (map closed_trade_key (report_trades stored l))
   \<and> sorted (map report_order (report_trades stored l))
   \<and> closed_trade_key ` set (report_trades stored l) = closed_trade_key ` (set stored \<union> set (lg_closed l))"
proof -
  let ?key = closed_trade_key and ?f = report_order
  define R where "R = report_trades stored l"
  define C where "C = lg_closed l"
  have dist: "distinct (map ?key R)" unfolding R_def report_trades_def by (rule retain_new_distinct)
  have sort: "sorted (map ?f R)" unfolding R_def report_trades_def
    by (intro retain_new_sorted) simp
  have keys: "?key ` set R = ?key ` (set stored \<union> set C)"
    unfolding R_def report_trades_def C_def by (subst retain_new_keys) simp
  have "report_trades R l = R"
  proof (rule sorted_by_eqI [where f = ?f])
    show "sorted (map ?f (report_trades R l))" unfolding report_trades_def
      by (intro retain_new_sorted) simp
    fix k
    let ?P = "\<lambda>x. ?f x = k"
    have r: "\<And>x y. ?key x = ?key y \<Longrightarrow> ?P x = ?P y" using report_order_of_key by metis
    have "filter ?P (report_trades R l) = retain_new {} ?key (filter ?P (sort_key ?f (R @ C)))"
      unfolding report_trades_def C_def by (rule filter_retain_new) (rule r)
    also have "filter ?P (sort_key ?f (R @ C)) = filter ?P R @ filter ?P C"
      by (simp add: sort_key_stable)
    also have "retain_new {} ?key (filter ?P R @ filter ?P C)
        = retain_new {} ?key (filter ?P R) @ retain_new (?key ` set (filter ?P R)) ?key (filter ?P C)"
      by (simp add: retain_new_append)
    also have "retain_new {} ?key (filter ?P R) = filter ?P R"
      using dist by (intro retain_new_id) (auto simp: distinct_map inj_on_def)
    also have "?key ` set (filter ?P C) \<subseteq> ?key ` set (filter ?P R)"
    proof
      fix y assume "y \<in> ?key ` set (filter ?P C)"
      then obtain c where c: "c \<in> set C" "?f c = k" "y = ?key c" by auto
      then obtain x where "x \<in> set R" "?key x = ?key c" using keys by (metis Un_iff image_iff)
      then show "y \<in> ?key ` set (filter ?P R)" using c r [of x c] by (intro image_eqI [where x = x]) auto
    qed
    then have "retain_new (?key ` set (filter ?P R)) ?key (filter ?P C) = []" by (rule retain_new_Nil)
    finally show "filter ?P (report_trades R l) = filter ?P R" by simp
  qed (rule sort)
  then show ?thesis using dist sort keys by (simp add: R_def C_def)
qed

end
