(* ===== verification/Runtime_State.thy ===== *)
theory Runtime_State
  imports Live_Guard Strategy_State Trade_Ledger
begin

text \<open>
  The strategy runtime (\<open>strategy-runtime/src/runtime.rs\<close>), first part: its configuration, its
  state, what it reads from the outside, the context it builds for a strategy, the guard with
  its wait, and the writes that may fail. The runtime is generic in its strategy: the object
  \<open>'s\<close> with the persisted part \<open>'st\<close> and the operations \<open>('s, 'st) strategy_ops\<close>.
\<close>

section \<open>Configuration and state\<close>

text \<open>The settings the modelled part reads; \<open>rc_order_symbol\<close> is the one only the strategy
  \<open>ri_author41_42\<close> has.\<close>

record runtime_config =
  rc_strategy_id :: string
  rc_portfolio :: string
  rc_exchange :: string
  rc_symbol :: string
  rc_order_symbol :: "string option"
  rc_tick_size :: f64
  rc_trade_mode :: trade_mode
  rc_paper_mode :: paper_execution_mode
  rc_allow_live :: bool
  rc_health_stale_sec :: u64
  rc_require_ready :: bool
  rc_has_health_stream :: bool
  rc_periods :: "trading_periods option"
  rc_tz_offset :: i32
  rc_max_silence_sec :: u64
  rc_close_hour :: u32
  rc_close_minute :: u32
  rc_uses_bootstrap_snapshot :: bool
  rc_uses_runtime_state_restore :: bool
  rc_uses_history_warmup :: bool
  rc_uses_stop_orders :: bool
  rc_has_snapshots_stream :: bool
  rc_reset_state_on_start :: bool

record pending_execution =
  px_order_id :: i64
  px_symbol :: string
  px_side :: string
  px_target_qty :: f64
  px_filled_qty :: f64
  px_order_price :: f64

datatype sim_order_type = SimLimit | SimMarket

record sim_order =
  sm_order_id :: i64
  sm_symbol :: string
  sm_side :: string
  sm_class :: "intent_class option"
  sm_type :: sim_order_type
  sm_qty :: f64
  sm_price :: "f64 option"
  sm_comment :: "string option"
  sm_created_bar_ts :: i64

text \<open>The snapshot \<open>persist_state\<close> writes; its time stamp is left out.\<close>

record 'st runtime_snapshot =
  sn_last_bar :: "string \<Rightarrow> i64 option"
  sn_strategy_state :: 'st
  sn_last_trade_ts :: "i64 option"
  sn_last_trade_id :: "string option"
  sn_seen_trades :: "string list"

text \<open>What leaves the runtime, in order: commands with the snapshot written in the same
  transaction, snapshots, virtual trades and reports of paper and backtest, acknowledged
  messages; and the audit record of a bar given to the strategy.\<close>

datatype 'st rt_effect =
  RtCommand order_command "'st runtime_snapshot"
| RtState "'st runtime_snapshot"
| RtVirtual "intent list"
| RtReports
| RtXack
| RtOnBar host_bar

record ('s, 'st) runtime =
  rt_last_bar :: "string \<Rightarrow> i64 option"
  rt_strategy_state :: 'st
  rt_orders :: "i64 \<Rightarrow> host_order option"
  rt_stop_orders :: "string \<Rightarrow> host_stop_order option"
  rt_positions :: "string \<Rightarrow> host_position option"
  rt_last_trade_ts :: "i64 option"
  rt_last_trade_id :: "string option"
  rt_seen_trades :: "string list"
  rt_strategy :: 's
  rt_health :: live_guard_state
  rt_bootstrap :: bootstrap_state
  rt_bootstrap_snapshot :: "bootstrap_snapshot option"
  rt_bars_read :: u64
  rt_xlen :: "u64 option"
  rt_state_kept :: u64
  rt_orphans :: u64
  rt_our_requests :: "uuid set"
  rt_our_orders :: "i64 set"
  rt_pending_trades :: "(i64 \<times> host_trade list) list"
  rt_pending_exec :: "i64 \<Rightarrow> pending_execution option"
  rt_sim_orders :: "sim_order list"
  rt_next_sim_id :: i64
  rt_now :: i64
  rt_ledger :: trade_ledger
  rt_reads :: nat
  rt_writes :: nat
  rt_log :: "'st rt_effect list"

text \<open>
  The outside during one message: the clock where the code reads it, the answers of the health
  stream and of the writes by their number, the order in which a hash map lists its keys, the
  \<open>Display\<close> text of an \<open>f64\<close>, and the two libraries. Texts are compared in lower case only with
  ASCII words, so \<open>to_lowercase\<close> is the ASCII one.
\<close>

datatype health_poll = PollError | PollNothing | PollHealth health_event

record rt_env =
  re_chrono :: chrono_lib
  re_v5 :: "string \<Rightarrow> uuid"
  re_ctx_now :: i64
  re_emit_now :: "nat \<Rightarrow> i64"
  re_dispatch_now :: i64
  re_guard_now :: "nat \<Rightarrow> i64"
  re_poll :: "nat \<Rightarrow> health_poll"
  re_write_ok :: "nat \<Rightarrow> bool"
  re_xack_ok :: bool
  re_key_order :: "i64 list \<Rightarrow> i64 list"
  re_f64_text :: "f64 \<Rightarrow> string"

text \<open>\<open>Result<()>\<close>: the state as it was left, and whether the call succeeded; \<open>?\<close> is
  \<open>and_then\<close>.\<close>

definition and_then :: "'a \<times> bool \<Rightarrow> ('a \<Rightarrow> 'a \<times> bool) \<Rightarrow> 'a \<times> bool" where
  "and_then r f = (if snd r then f (fst r) else (fst r, False))"

section \<open>Symbols, positions, contexts\<close>

definition strategy_symbols :: "runtime_config \<Rightarrow> string list" where
  "strategy_symbols cfg =
     rc_symbol cfg # (case rc_order_symbol cfg of
        None \<Rightarrow> [] | Some s \<Rightarrow> if s \<noteq> rc_symbol cfg then [s] else [])"

definition matches_strategy_symbol :: "runtime_config \<Rightarrow> string \<Rightarrow> bool" where
  "matches_strategy_symbol cfg s \<longleftrightarrow> s \<in> set (strategy_symbols cfg)"

fun position_qty_of ::
  "(string \<Rightarrow> host_position option) \<Rightarrow> string list \<Rightarrow> f64 option \<Rightarrow> f64 option" where
  "position_qty_of positions [] fallback = fallback"
| "position_qty_of positions (s # ss) fallback =
     (case positions s of
        None \<Rightarrow> position_qty_of positions ss fallback
      | Some p \<Rightarrow>
          if f64_epsilon < \<bar>hp_qty p\<bar> then Some (hp_qty p)
          else position_qty_of positions ss
                 (case fallback of None \<Rightarrow> Some (hp_qty p) | Some q \<Rightarrow> Some q))"

definition strategy_position_qty :: "runtime_config \<Rightarrow> ('s, 'st) runtime \<Rightarrow> f64 option" where
  "strategy_position_qty cfg st = position_qty_of (rt_positions st) (strategy_symbols cfg) None"

definition strategy_last_bar_ts :: "runtime_config \<Rightarrow> ('s, 'st) runtime \<Rightarrow> i64 option" where
  "strategy_last_bar_ts cfg st =
     (case List.map_filter (rt_last_bar st) (strategy_symbols cfg) of [] \<Rightarrow> None | t # _ \<Rightarrow> Some t)"

definition runtime_ctx ::
  "runtime_config \<Rightarrow> i64 \<Rightarrow> i64 option \<Rightarrow> i64 \<Rightarrow> ('s, 'st) runtime \<Rightarrow> strategy_ctx" where
  "runtime_ctx cfg now last_bar_ts event_ts st =
     \<lparr>cx_strategy_id = rc_strategy_id cfg, cx_portfolio = rc_portfolio cfg,
      cx_exchange = rc_exchange cfg, cx_symbol = rc_symbol cfg, cx_tick_size = rc_tick_size cfg,
      cx_trade_mode = rc_trade_mode cfg, cx_paper_execution_mode = rc_paper_mode cfg,
      cx_allow_live_orders = rc_allow_live cfg,
      cx_gateway_phase = health_phase (rt_health st),
      cx_position_qty = strategy_position_qty cfg st, cx_event_ts = event_ts, cx_now_ts = now,
      cx_last_bar_ts = last_bar_ts\<rparr>"

definition normalize_event_ts :: "i64 \<Rightarrow> ('s, 'st) runtime \<Rightarrow> i64 \<times> ('s, 'st) runtime" where
  "normalize_event_ts ts st =
     (let candidate = (if 0 < ts then ts else rt_now st); now = max (rt_now st) candidate
      in (now, st\<lparr>rt_now := now\<rparr>))"

definition is_duplicate_bar :: "string \<Rightarrow> i64 \<Rightarrow> ('s, 'st) runtime \<Rightarrow> bool" where
  "is_duplicate_bar symbol ts st \<longleftrightarrow> at_or_before ts (rt_last_bar st symbol)"

definition update_last_bar_ts :: "string \<Rightarrow> i64 \<Rightarrow> ('s, 'st) runtime \<Rightarrow> ('s, 'st) runtime" where
  "update_last_bar_ts symbol ts st = st\<lparr>rt_last_bar := (rt_last_bar st)(symbol := Some ts)\<rparr>"

section \<open>Writes\<close>

definition snapshot :: "('s, 'st) runtime \<Rightarrow> 'st runtime_snapshot" where
  "snapshot st = \<lparr>sn_last_bar = rt_last_bar st, sn_strategy_state = rt_strategy_state st,
     sn_last_trade_ts = rt_last_trade_ts st, sn_last_trade_id = rt_last_trade_id st,
     sn_seen_trades = rt_seen_trades st\<rparr>"

definition emit_effect :: "rt_env \<Rightarrow> 'st rt_effect \<Rightarrow> ('s, 'st) runtime \<Rightarrow> ('s, 'st) runtime \<times> bool"
where
  "emit_effect env eff st =
     (let st1 = st\<lparr>rt_writes := Suc (rt_writes st)\<rparr> in
      if re_write_ok env (rt_writes st) then (st1\<lparr>rt_log := rt_log st @ [eff]\<rparr>, True)
      else (st1, False))"

definition persist_state ::
  "rt_env \<Rightarrow> order_command option \<Rightarrow> ('s, 'st) runtime \<Rightarrow> ('s, 'st) runtime \<times> bool" where
  "persist_state env maybe_cmd st =
     emit_effect env (case maybe_cmd of
         Some cmd \<Rightarrow> RtCommand cmd (snapshot st) | None \<Rightarrow> RtState (snapshot st)) st"

definition xack :: "rt_env \<Rightarrow> ('s, 'st) runtime \<Rightarrow> ('s, 'st) runtime \<times> bool" where
  "xack env st = (if re_xack_ok env then (st\<lparr>rt_log := rt_log st @ [RtXack]\<rparr>, True) else (st, False))"

section \<open>The guard and the wait for readiness\<close>

definition evaluate_guard_decision ::
  "runtime_config \<Rightarrow> rt_env \<Rightarrow> ('s, 'st) runtime \<Rightarrow> live_guard_decision" where
  "evaluate_guard_decision cfg env st =
     guard_with_bootstrap (rt_bootstrap st)
       (evaluate_live_guard (rc_trade_mode cfg) (rc_allow_live cfg) (rt_health st)
          (0 < rt_bars_read st) (0 < (case rt_xlen st of None \<Rightarrow> 0 | Some n \<Rightarrow> n))
          (re_guard_now env (rt_reads st)) (rc_health_stale_sec cfg) (rc_require_ready cfg))"

definition refresh_health_now ::
  "rt_env \<Rightarrow> ('s, 'st) runtime \<Rightarrow> ('s, 'st) runtime \<times> bool" where
  "refresh_health_now env st =
     (let st1 = st\<lparr>rt_reads := Suc (rt_reads st)\<rparr> in
      case re_poll env (rt_reads st) of
        PollError \<Rightarrow> (st1, False)
      | PollNothing \<Rightarrow> (st1, True)
      | PollHealth h \<Rightarrow> (st1\<lparr>rt_health := update_health h (rt_health st)\<rparr>, True))"

definition guard_readiness_grace_attempts :: nat where
  "guard_readiness_grace_attempts = 240"

text \<open>The loop of the wait, by the attempts left; the decision is \<open>None\<close> when a read failed.\<close>

fun readiness_wait ::
  "runtime_config \<Rightarrow> rt_env \<Rightarrow> nat \<Rightarrow> ('s, 'st) runtime
   \<Rightarrow> ('s, 'st) runtime \<times> live_guard_decision option" where
  "readiness_wait cfg env 0 st = (st, Some (evaluate_guard_decision cfg env st))"
| "readiness_wait cfg env (Suc n) st =
     (case refresh_health_now env st of
        (st1, False) \<Rightarrow> (st1, None)
      | (st1, True) \<Rightarrow>
          let current = evaluate_guard_decision cfg env st1 in
          if gd_allowed current then (st1, Some current)
          else if \<not> guard_block_may_be_readiness_race current then (st1, Some current)
          else readiness_wait cfg env n st1)"

definition maybe_wait_for_readiness ::
  "runtime_config \<Rightarrow> rt_env \<Rightarrow> live_guard_decision \<Rightarrow> ('s, 'st) runtime
   \<Rightarrow> ('s, 'st) runtime \<times> live_guard_decision option" where
  "maybe_wait_for_readiness cfg env d st =
     (if \<not> guard_block_may_be_readiness_race d \<or> \<not> rc_has_health_stream cfg then (st, Some d)
      else readiness_wait cfg env guard_readiness_grace_attempts st)"

text \<open>\<open>maybe_wait_for_live_bar_readiness\<close>: the wait before a live bar.\<close>

definition maybe_wait_for_live_bar ::
  "runtime_config \<Rightarrow> rt_env \<Rightarrow> host_bar \<Rightarrow> ('s, 'st) runtime \<Rightarrow> ('s, 'st) runtime \<times> bool" where
  "maybe_wait_for_live_bar cfg env bar st =
     (if rc_trade_mode cfg \<noteq> TmLive \<or> hb_origin bar \<noteq> OrLive then (st, True)
      else let d = evaluate_guard_decision cfg env st in
        if gd_allowed d \<or> \<not> guard_block_may_be_readiness_race d then (st, True)
        else (case maybe_wait_for_readiness cfg env d st of (st1, r) \<Rightarrow> (st1, r \<noteq> None)))"

section \<open>Lemmas\<close>

text \<open>The wait changes the health and the number of reads, nothing else.\<close>

definition only_health :: "('s, 'st) runtime \<Rightarrow> ('s, 'st) runtime \<Rightarrow> bool" where
  "only_health st st' \<longleftrightarrow> st' = st\<lparr>rt_health := rt_health st', rt_reads := rt_reads st'\<rparr>"

lemma only_health_refl [simp]: "only_health st st"
  by (simp add: only_health_def)

lemma only_health_trans: "only_health a b \<Longrightarrow> only_health b c \<Longrightarrow> only_health a c"
  unfolding only_health_def by (cases a; cases b; cases c) simp

lemma only_health_frame:
  assumes "only_health st st'"
  shows "rt_log st' = rt_log st" "rt_strategy st' = rt_strategy st"
    "rt_strategy_state st' = rt_strategy_state st" "rt_last_bar st' = rt_last_bar st"
    "rt_bootstrap st' = rt_bootstrap st" "rt_bars_read st' = rt_bars_read st"
    "rt_positions st' = rt_positions st" "rt_writes st' = rt_writes st" "rt_now st' = rt_now st"
  using assms unfolding only_health_def by (cases st; cases st'; simp)+

lemma refresh_only_health: "only_health st (fst (refresh_health_now env st))"
  by (simp add: refresh_health_now_def only_health_def Let_def split: health_poll.split)

lemma readiness_wait_only_health: "only_health st (fst (readiness_wait cfg env n st))"
proof (induction n arbitrary: st)
  case (Suc n)
  obtain st1 ok where r: "refresh_health_now env st = (st1, ok)" by fastforce
  then have "only_health st st1" using refresh_only_health [of st env] by simp
  then show ?case using Suc [of st1] r
    by (auto simp: Let_def intro: only_health_trans split: bool.split)
qed simp

lemma maybe_wait_only_health: "only_health st (fst (maybe_wait_for_readiness cfg env d st))"
  by (simp add: maybe_wait_for_readiness_def readiness_wait_only_health)

lemma wait_live_bar_only_health: "only_health st (fst (maybe_wait_for_live_bar cfg env bar st))"
  using maybe_wait_only_health
  by (auto simp: maybe_wait_for_live_bar_def Let_def case_prod_unfold)

text \<open>A decision the wait returns was made on the state it returns.\<close>

lemma readiness_wait_decision:
  "snd (readiness_wait cfg env n st) = Some d
   \<Longrightarrow> d = evaluate_guard_decision cfg env (fst (readiness_wait cfg env n st))"
proof (induction n arbitrary: st)
  case (Suc n)
  obtain st1 ok where "refresh_health_now env st = (st1, ok)" by fastforce
  then show ?case using Suc by (auto simp: Let_def split: bool.splits if_splits)
qed simp

lemma maybe_wait_decision:
  assumes "snd (maybe_wait_for_readiness cfg env (evaluate_guard_decision cfg env st) st) = Some d"
  shows "d = evaluate_guard_decision cfg env
     (fst (maybe_wait_for_readiness cfg env (evaluate_guard_decision cfg env st) st))"
  using assms readiness_wait_decision
  by (auto simp: maybe_wait_for_readiness_def split: if_splits)

lemma evaluate_guard_allowed:
  assumes "gd_allowed (evaluate_guard_decision cfg env st)"
  shows "bootstrap_ready (rt_bootstrap st)" "rc_trade_mode cfg = TmLive" "rc_allow_live cfg"
    "0 < rt_bars_read st"
    "gateway_live (rt_health st) (re_guard_now env (rt_reads st)) (rc_health_stale_sec cfg)
       (rc_require_ready cfg)"
  using assms by (simp_all add: evaluate_guard_decision_def guard_with_bootstrap_allowed_iff)

end
