(* ===== verification/Intent_Dispatch.thy ===== *)
theory Intent_Dispatch
  imports Runtime_State
begin

text \<open>
  The strategy runtime, second part: from the intents of a callback to published commands
  (\<open>apply_intents\<close> and what it calls in \<open>strategy-runtime/src/runtime.rs\<close>): the class of an
  intent, the trading window, the command, the guard, the deferral of exits, and the roll-back
  of the strategy when nothing may be sent.
\<close>

section \<open>Classes and the trading window\<close>

fun class_of_base :: "strategy_ctx \<Rightarrow> intent \<Rightarrow> intent_class" where
  "class_of_base ctx (ICancel _) = CancelCleanup"
| "class_of_base ctx (IReplace _ _ _) = Entry"
| "class_of_base ctx (IPlace _ _ _ _) = Entry"
| "class_of_base ctx (ICreateStopLimit _ _ _ _ _ _ _ _ _) = ProtectiveRepair"
| "class_of_base ctx (IDeleteStopLimit _ _ _) = CancelCleanup"
| "class_of_base ctx (IMarket _ sd _ _) =
     (let qty = (case cx_position_qty ctx of None \<Rightarrow> 0 | Some q \<Rightarrow> q) in
      if (0 < qty \<and> sd = Sell) \<or> (qty < 0 \<and> sd = Buy) then Exit else Entry)"
| "class_of_base ctx (Classified i _) = class_of_base ctx i"
| "class_of_base ctx (Routed i _) = class_of_base ctx i"

definition resolve_intent_class :: "strategy_ctx \<Rightarrow> intent \<Rightarrow> intent_class" where
  "resolve_intent_class ctx i =
     (case explicit_class i of Some c \<Rightarrow> c | None \<Rightarrow> class_of_base ctx (base_intent i))"

definition runtime_scheduler :: "runtime_config \<Rightarrow> trading_periods \<Rightarrow> scheduler" where
  "runtime_scheduler cfg p = new_with_fallback_offset_hours p (rc_tz_offset cfg)"

definition trading_window_allows_order ::
  "chrono_lib \<Rightarrow> runtime_config \<Rightarrow> strategy_ctx \<Rightarrow> i64 \<Rightarrow> intent_class \<Rightarrow> bool" where
  "trading_window_allows_order ch cfg ctx ts cls =
     (if cls \<noteq> Entry then True
      else case rc_periods cfg of
        None \<Rightarrow> True
      | Some p \<Rightarrow>
          let s = runtime_scheduler cfg p; max_silence = as_i64 (int (rc_max_silence_sec cfg)) in
          if \<not> utc_ok ch ts then True
          else if market_state_utc ch s ts \<noteq> Open then False
          else if max_silence = 0 then True
          else (case cx_last_bar_ts ctx of
              None \<Rightarrow> False
            | Some lst \<Rightarrow>
                if \<not> utc_ok ch lst then True
                else check_silence_period_at ch s (of_timestamp ts) (of_timestamp lst) max_silence))"

definition current_market_state :: "chrono_lib \<Rightarrow> runtime_config \<Rightarrow> i64 \<Rightarrow> market_state option" where
  "current_market_state ch cfg ts =
     map_option (\<lambda>p. market_state_utc ch (runtime_scheduler cfg p) ts) (rc_periods cfg)"

definition guard_allows_intent_when_blocked :: "intent_class \<Rightarrow> bool \<Rightarrow> bool" where
  "guard_allows_intent_when_blocked cls has_open_position \<longleftrightarrow>
     has_open_position \<and> cls \<in> {Exit, CancelCleanup, ProtectiveRepair}"

section \<open>Commands\<close>

definition sanitize_comment :: "string option \<Rightarrow> string option" where
  "sanitize_comment raw =
     (case raw of
        None \<Rightarrow> None
      | Some s \<Rightarrow>
          let comment = take 100 (filter (\<lambda>c. (of_char c :: nat) < 128 \<and> c \<noteq> CHR 0x0A \<and> c \<noteq> CHR 0x0D) s)
          in if trim comment = [] then None else Some comment)"

text \<open>The days the search for the end of the session visits: at most eight.\<close>

fun find_stop_end ::
  "chrono_lib \<Rightarrow> bool \<Rightarrow> naive_time \<Rightarrow> i32 \<Rightarrow> i64 \<Rightarrow> nat \<Rightarrow> naive_date \<Rightarrow> i64 option" where
  "find_stop_end ch weekends session_end_t off created 0 day = None"
| "find_stop_end ch weekends session_end_t off created (Suc n) day =
     (if weekends \<and> is_weekend_day (weekday_of day)
        then find_stop_end ch weekends session_end_t off created n (day + 1)
      else let close_ts = and_time day session_end_t div ns_per_sec - off;
               stop_end = sat_i64 (close_ts + 60)
           in if utc_ok ch close_ts \<and> created < stop_end then Some stop_end
              else find_stop_end ch weekends session_end_t off created n (day + 1))"

definition compute_intraday_stop_end ::
  "chrono_lib \<Rightarrow> runtime_config \<Rightarrow> i64 \<Rightarrow> i64 option" where
  "compute_intraday_stop_end ch cfg created =
     (let hours = (case rc_periods cfg of
            None \<Rightarrow> rc_tz_offset cfg
          | Some p \<Rightarrow> if timezone_offset_hours p = 0 then rc_tz_offset cfg else timezone_offset_hours p);
          off = sat_mul_i32 hours 3600;
          session_end_t = (case rc_periods cfg of
            Some p \<Rightarrow> session_end p
          | None \<Rightarrow> hms (int (min (rc_close_hour cfg) 23)) (int (min (rc_close_minute cfg) 59)) 0);
          weekends = (case rc_periods cfg of None \<Rightarrow> False | Some p \<Rightarrow> weekends_off p)
      in if created \<le> 0 \<or> \<not> east_ok ch off \<or> \<not> utc_ok ch created then None
         else find_stop_end ch weekends session_end_t off created 8
                (dt_date (of_timestamp (created + off))))"

definition or_comment :: "string option \<Rightarrow> string option \<Rightarrow> string option" where
  "or_comment a b = (case a of Some x \<Rightarrow> Some x | None \<Rightarrow> b)"

definition runtime_command ::
  "(string \<Rightarrow> uuid) \<Rightarrow> strategy_ctx \<Rightarrow> i64 \<Rightarrow> intent_class \<Rightarrow> string \<Rightarrow> nat \<Rightarrow> command_action
   \<Rightarrow> order_command" where
  "runtime_command v5 ctx created cls action_name n action =
     \<lparr>oc_request_id = deterministic_request_id v5 (cx_strategy_id ctx) (cx_portfolio ctx)
        (cx_symbol ctx) action_name created n,
      oc_created_ts_utc = created, oc_strategy_id = cx_strategy_id ctx,
      oc_portfolio = cx_portfolio ctx, oc_exchange = cx_exchange ctx, oc_symbol = cx_symbol ctx,
      oc_action = action, oc_intent_class = Some cls, oc_ttl_ms = None\<rparr>"

text \<open>\<open>tag\<close> is \<open>intent_comment_tag\<close> of the strategy as it is.\<close>

fun intent_to_command ::
  "chrono_lib \<Rightarrow> (string \<Rightarrow> uuid) \<Rightarrow> runtime_config
   \<Rightarrow> (strategy_ctx \<Rightarrow> i64 \<Rightarrow> intent_class \<Rightarrow> string option)
   \<Rightarrow> strategy_ctx \<Rightarrow> i64 \<Rightarrow> intent \<Rightarrow> intent_class \<Rightarrow> order_command" where
  "intent_to_command ch v5 cfg tag ctx created (Classified i _) cls =
     intent_to_command ch v5 cfg tag ctx created i cls"
| "intent_to_command ch v5 cfg tag ctx created (Routed i symbol) cls =
     intent_to_command ch v5 cfg tag (ctx\<lparr>cx_symbol := symbol\<rparr>) created i cls"
| "intent_to_command ch v5 cfg tag ctx created (IPlace price qty sd comment) cls =
     runtime_command v5 ctx created cls ''place'' 0
       (Place \<lparr>po_price = price, po_qty = qty, po_side = sd,
          po_comment = sanitize_comment (or_comment comment (tag ctx created cls))\<rparr>)"
| "intent_to_command ch v5 cfg tag ctx created (IMarket qty sd _ comment) cls =
     runtime_command v5 ctx created cls ''market'' (market_request_seq sd)
       (Market \<lparr>mo_qty = qty, mo_side = sd,
          mo_comment = sanitize_comment (or_comment comment (tag ctx created cls))\<rparr>)"
| "intent_to_command ch v5 cfg tag ctx created (ICancel order_id) cls =
     runtime_command v5 ctx created cls ''cancel'' 1 (Cancel \<lparr>co_order_id = order_id\<rparr>)"
| "intent_to_command ch v5 cfg tag ctx created (IReplace order_id new_price new_qty) cls =
     runtime_command v5 ctx created cls ''replace'' 2
       (Replace \<lparr>ro_order_id = order_id, ro_new_price = new_price, ro_new_qty = new_qty\<rparr>)"
| "intent_to_command ch v5 cfg tag ctx created
     (ICreateStopLimit sd qty trigger price cond stop_end comment grp dups) cls =
     runtime_command v5 ctx created cls ''create_stop_limit'' 5
       (CreateStopLimit \<lparr>sl_side = sd, sl_qty = qty, sl_trigger_price = trigger, sl_price = price,
          sl_condition = cond,
          sl_stop_end_unix_time =
            (case compute_intraday_stop_end ch cfg created of None \<Rightarrow> stop_end | Some t \<Rightarrow> t),
          sl_comment = sanitize_comment (or_comment comment (tag ctx created cls)),
          sl_instrument_group = grp, sl_check_duplicates = dups\<rparr>)"
| "intent_to_command ch v5 cfg tag ctx created (IDeleteStopLimit order_id sd dups) cls =
     runtime_command v5 ctx created cls ''delete_stop_limit'' 6
       (DeleteStopLimit \<lparr>dl_order_id = order_id, dl_side = sd, dl_check_duplicates = dups\<rparr>)"

fun command_action_name :: "command_action \<Rightarrow> string" where
  "command_action_name (Place _) = ''place''"
| "command_action_name (Market _) = ''market''"
| "command_action_name (Cancel _) = ''cancel''"
| "command_action_name (Replace _) = ''replace''"
| "command_action_name (CreateStopLimit _) = ''create_stop_limit''"
| "command_action_name (DeleteStopLimit _) = ''delete_stop_limit''"

fun command_target_order_id :: "command_action \<Rightarrow> string option" where
  "command_target_order_id (Cancel p) = Some (show_int (co_order_id p))"
| "command_target_order_id (Replace p) = Some (show_int (ro_order_id p))"
| "command_target_order_id (DeleteStopLimit p) = Some (dl_order_id p)"
| "command_target_order_id _ = None"

fun intent_action_name :: "intent \<Rightarrow> string" where
  "intent_action_name (Classified i _) = intent_action_name i"
| "intent_action_name (Routed i _) = intent_action_name i"
| "intent_action_name (IPlace _ _ _ _) = ''place''"
| "intent_action_name (IMarket _ _ _ _) = ''market''"
| "intent_action_name (ICancel _) = ''cancel''"
| "intent_action_name (IReplace _ _ _) = ''replace''"
| "intent_action_name (ICreateStopLimit _ _ _ _ _ _ _ _ _) = ''create_stop_limit''"
| "intent_action_name (IDeleteStopLimit _ _ _) = ''delete_stop_limit''"

section \<open>Calling the strategy\<close>

text \<open>\<open>invoke_strategy_callback\<close>: the object after the call, the intents, and the persisted state
  before it.\<close>

definition invoke_strategy_callback ::
  "('s, 'st) strategy_ops \<Rightarrow> ('s \<Rightarrow> 's \<times> intent list) \<Rightarrow> ('s, 'st) runtime
   \<Rightarrow> ('s, 'st) runtime \<times> intent list \<times> 'st" where
  "invoke_strategy_callback ops f st =
     (case f (rt_strategy st) of
        (s, intents) \<Rightarrow> (st\<lparr>rt_strategy := s, rt_strategy_state := so_state ops s\<rparr>, intents,
                        rt_strategy_state st))"

definition restore_strategy_state ::
  "('s, 'st) strategy_ops \<Rightarrow> 'st \<Rightarrow> ('s, 'st) runtime \<Rightarrow> ('s, 'st) runtime" where
  "restore_strategy_state ops prev st =
     st\<lparr>rt_strategy := so_set_state ops prev (rt_strategy st), rt_strategy_state := prev\<rparr>"

definition notify_command_prepared ::
  "('s, 'st) strategy_ops \<Rightarrow> strategy_ctx \<Rightarrow> order_command \<Rightarrow> intent_class \<Rightarrow> ('s, 'st) runtime
   \<Rightarrow> ('s, 'st) runtime" where
  "notify_command_prepared ops ctx cmd cls st =
     (let s = so_on_command_prepared ops ctx
            \<lparr>cp_request_id = oc_request_id cmd, cp_intent_class = cls,
             cp_created_ts = oc_created_ts_utc cmd, cp_symbol = oc_symbol cmd,
             cp_action = command_action_name (oc_action cmd),
             cp_target_order_id = command_target_order_id (oc_action cmd)\<rparr> (rt_strategy st)
      in st\<lparr>rt_strategy := s, rt_strategy_state := so_state ops s\<rparr>)"

fun notify_intents_blocked ::
  "('s, 'st) strategy_ops \<Rightarrow> strategy_ctx \<Rightarrow> intent_blocked list \<Rightarrow> ('s, 'st) runtime
   \<Rightarrow> ('s, 'st) runtime \<times> bool" where
  "notify_intents_blocked ops ctx [] st = (st, False)"
| "notify_intents_blocked ops ctx (e # es) st =
     (case so_on_intent_blocked ops ctx e (rt_strategy st) of
        (s, disposition) \<Rightarrow>
          let keep = (disposition = KeepStrategyState);
              st1 = st\<lparr>rt_strategy := s, rt_strategy_state := so_state ops s,
                       rt_state_kept := (if keep then sat_inc (rt_state_kept st) else rt_state_kept st)\<rparr>
          in case notify_intents_blocked ops ctx es st1 of (st2, k) \<Rightarrow> (st2, keep \<or> k))"

section \<open>Sending\<close>

definition strategy_tag ::
  "('s, 'st) strategy_ops \<Rightarrow> ('s, 'st) runtime
   \<Rightarrow> strategy_ctx \<Rightarrow> i64 \<Rightarrow> intent_class \<Rightarrow> string option" where
  "strategy_tag ops st ctx ts cls = so_intent_comment_tag ops ctx ts cls (rt_strategy st)"

text \<open>An exit outside the session is not sent: the strategy is told it was, and then that it was
  rejected. Nothing is deferred without configured periods.\<close>

definition exit_must_wait :: "chrono_lib \<Rightarrow> runtime_config \<Rightarrow> i64 \<Rightarrow> intent_class \<Rightarrow> bool" where
  "exit_must_wait ch cfg dispatch cls \<longleftrightarrow>
     cls = Exit \<and> (case current_market_state ch cfg dispatch of None \<Rightarrow> False | Some m \<Rightarrow> m \<noteq> Open)"

definition defer_exit ::
  "('s, 'st) strategy_ops \<Rightarrow> runtime_config \<Rightarrow> rt_env \<Rightarrow> strategy_ctx \<Rightarrow> i64 \<Rightarrow> i64 \<Rightarrow> intent
   \<Rightarrow> intent_class \<Rightarrow> ('s, 'st) runtime \<Rightarrow> ('s, 'st) runtime \<times> bool" where
  "defer_exit ops cfg env ctx created dispatch i cls st =
     (let cmd = intent_to_command (re_chrono env) (re_v5 env) cfg (strategy_tag ops st) ctx created i cls;
          st1 = notify_command_prepared ops ctx cmd cls st;
          ack = ack_rejected dispatch (oc_request_id cmd) ''trading_window_closed'' ''validation failed'';
          ack_ctx = runtime_ctx cfg (re_emit_now env (rt_writes st1)) (rt_last_bar st1 (rc_symbol cfg)) dispatch st1
      in case invoke_strategy_callback ops (so_on_ack ops ack_ctx ack) st1 of
           (st2, _, _) \<Rightarrow> persist_state env None st2)"

definition send_intent ::
  "('s, 'st) strategy_ops \<Rightarrow> runtime_config \<Rightarrow> rt_env \<Rightarrow> strategy_ctx \<Rightarrow> i64 \<Rightarrow> intent
   \<Rightarrow> intent_class \<Rightarrow> ('s, 'st) runtime \<Rightarrow> ('s, 'st) runtime \<times> bool" where
  "send_intent ops cfg env ctx created i cls st =
     (let cmd = intent_to_command (re_chrono env) (re_v5 env) cfg (strategy_tag ops st) ctx created i cls;
          st1 = notify_command_prepared ops ctx cmd cls st
      in and_then (persist_state env (Some cmd) st1) (\<lambda>st2.
           (st2\<lparr>rt_our_requests := insert (oc_request_id cmd) (rt_our_requests st2)\<rparr>, True)))"

fun send_intents ::
  "('s, 'st) strategy_ops \<Rightarrow> runtime_config \<Rightarrow> rt_env \<Rightarrow> strategy_ctx \<Rightarrow> i64 \<Rightarrow> i64
   \<Rightarrow> (intent \<times> intent_class) list \<Rightarrow> ('s, 'st) runtime \<Rightarrow> ('s, 'st) runtime \<times> bool" where
  "send_intents ops cfg env ctx created dispatch [] st = (st, True)"
| "send_intents ops cfg env ctx created dispatch ((i, cls) # rest) st =
     and_then
       (if exit_must_wait (re_chrono env) cfg dispatch cls
          then defer_exit ops cfg env ctx created dispatch i cls st
        else send_intent ops cfg env ctx created i cls st)
       (send_intents ops cfg env ctx created dispatch rest)"

section \<open>Applying the intents of a callback\<close>

definition has_open_position :: "strategy_ctx \<Rightarrow> bool" where
  "has_open_position ctx \<longleftrightarrow> 0 < \<bar>case cx_position_qty ctx of None \<Rightarrow> 0 | Some q \<Rightarrow> q\<bar>"

definition accept_intents ::
  "chrono_lib \<Rightarrow> runtime_config \<Rightarrow> strategy_ctx \<Rightarrow> i64 \<Rightarrow> intent list
   \<Rightarrow> (intent \<times> intent_class) list" where
  "accept_intents ch cfg ctx dispatch intents =
     filter (\<lambda>(i, cls). trading_window_allows_order ch cfg ctx dispatch cls)
       (map (\<lambda>i. (i, resolve_intent_class ctx i)) intents)"

definition blocked_event :: "i64 \<Rightarrow> string list \<Rightarrow> intent \<times> intent_class \<Rightarrow> intent_blocked" where
  "blocked_event created reasons ic =
     \<lparr>ib_reason = ''live_guard'', ib_action = intent_action_name (fst ic),
      ib_intent_class = snd ic, ib_created_ts = created, ib_guard_reasons = reasons\<rparr>"

definition drop_batch ::
  "('s, 'st) strategy_ops \<Rightarrow> rt_env \<Rightarrow> 'st \<Rightarrow> ('s, 'st) runtime \<Rightarrow> ('s, 'st) runtime \<times> bool" where
  "drop_batch ops env prev st = persist_state env None (restore_strategy_state ops prev st)"

text \<open>The guarded part, once a decision is made.\<close>

definition dispatch_decided ::
  "('s, 'st) strategy_ops \<Rightarrow> runtime_config \<Rightarrow> rt_env \<Rightarrow> strategy_ctx \<Rightarrow> i64 \<Rightarrow> i64
   \<Rightarrow> (intent \<times> intent_class) list \<Rightarrow> 'st \<Rightarrow> live_guard_decision \<Rightarrow> ('s, 'st) runtime
   \<Rightarrow> ('s, 'st) runtime \<times> bool" where
  "dispatch_decided ops cfg env ctx created dispatch accepted prev d st =
     (if gd_allowed d then send_intents ops cfg env ctx created dispatch accepted st
      else
        let open_pos = has_open_position ctx;
            pass = filter (\<lambda>(i, cls). guard_allows_intent_when_blocked cls open_pos) accepted;
            stopped = filter (\<lambda>(i, cls). \<not> guard_allows_intent_when_blocked cls open_pos) accepted
        in if pass = [] then
             (case notify_intents_blocked ops ctx (map (blocked_event created (gd_reasons d)) stopped) st of
                (st1, True) \<Rightarrow> persist_state env None st1
              | (st1, False) \<Rightarrow> drop_batch ops env prev st1)
           else send_intents ops cfg env ctx created dispatch pass st)"

definition apply_intents ::
  "('s, 'st) strategy_ops \<Rightarrow> runtime_config \<Rightarrow> rt_env \<Rightarrow> strategy_ctx \<Rightarrow> i64 \<Rightarrow> i64 \<Rightarrow> intent list
   \<Rightarrow> 'st \<Rightarrow> ('s, 'st) runtime \<Rightarrow> ('s, 'st) runtime \<times> bool" where
  "apply_intents ops cfg env ctx created dispatch intents prev st =
     (if intents = [] then persist_state env None st
      else if rc_trade_mode cfg = TmLive then
        (let accepted = accept_intents (re_chrono env) cfg ctx dispatch intents in
         if accepted = [] then drop_batch ops env prev st
         else
           let d0 = evaluate_guard_decision cfg env st in
           if gd_allowed d0 then
             dispatch_decided ops cfg env ctx created dispatch accepted prev d0 st
           else (case maybe_wait_for_readiness cfg env d0 st of
               (st1, None) \<Rightarrow> (st1, False)
             | (st1, Some d) \<Rightarrow>
                 dispatch_decided ops cfg env ctx created dispatch accepted prev d st1))
      else and_then (emit_effect env (RtVirtual intents) st) (persist_state env None))"

text \<open>\<open>invoke_and_apply_strategy_callback\<close>: the dispatch time is the clock, but not before the
  creation time.\<close>

definition invoke_and_apply ::
  "('s, 'st) strategy_ops \<Rightarrow> runtime_config \<Rightarrow> rt_env \<Rightarrow> strategy_ctx \<Rightarrow> i64
   \<Rightarrow> ('s \<Rightarrow> 's \<times> intent list) \<Rightarrow> ('s, 'st) runtime \<Rightarrow> ('s, 'st) runtime \<times> bool" where
  "invoke_and_apply ops cfg env ctx created f st =
     (case invoke_strategy_callback ops f st of
        (st1, intents, prev) \<Rightarrow>
          apply_intents ops cfg env ctx created (max (re_dispatch_now env) created) intents prev st1)"

end
