(* ===== verification/Trade_Tracking.thy ===== *)
theory Trade_Tracking
  imports Runtime_State "HOL-Library.Multiset"
begin

text \<open>
  How the runtime attributes broker trades to its orders (\<open>strategy-runtime/src/runtime.rs\<close>):
  duplicates are filtered, trades that come before the acknowledgement or the order event are
  held, trades of nobody's order are recorded as orphans, the others go to the ledger.
\<close>

section \<open>Working orders and open positions\<close>

definition is_open_position :: "host_position \<Rightarrow> bool" where
  "is_open_position p \<longleftrightarrow> f64_epsilon < \<bar>hp_qty p\<bar>"

definition non_working_order_statuses :: "string list" where
  "non_working_order_statuses =
     [''filled'', ''canceled'', ''cancelled'', ''expired'', ''rejected'']"

definition non_working_stop_order_statuses :: "string list" where
  "non_working_stop_order_statuses =
     [''canceled'', ''cancelled'', ''rejected'', ''expired'', ''filled'', ''executed'',
      ''triggered'', ''done'', ''completed'']"

definition is_working_order :: "host_order \<Rightarrow> bool" where
  "is_working_order ord \<longleftrightarrow> 0 < ord_order_id ord
     \<and> to_ascii_lowercase (ord_status ord) \<notin> set non_working_order_statuses"

definition is_working_stop_order :: "host_stop_order \<Rightarrow> bool" where
  "is_working_stop_order ord \<longleftrightarrow> trim (sto_id ord) \<noteq> []
     \<and> to_ascii_lowercase (sto_status ord) \<notin> set non_working_stop_order_statuses"

section \<open>Duplicates\<close>

definition trade_dedup_limit :: nat where
  "trade_dedup_limit = 512"

definition trade_dedupe_key :: "(f64 \<Rightarrow> string) \<Rightarrow> host_trade \<Rightarrow> string" where
  "trade_dedupe_key f64_text t =
     (if trim (tr_trade_id t) = [] then
        show_int (tr_order_id t) @ '':'' @ show_int (tr_ts t) @ '':'' @ tr_side t @ '':''
        @ f64_text (tr_qty t) @ '':'' @ f64_text (tr_price t)
      else tr_trade_id t)"

definition remember_trade :: "string \<Rightarrow> i64 \<Rightarrow> ('s, 'st) runtime \<Rightarrow> ('s, 'st) runtime" where
  "remember_trade key ts st =
     (if key \<in> set (rt_seen_trades st) then st
      else
        let seen = rt_seen_trades st @ [key];
            st1 = st\<lparr>rt_seen_trades := drop (length seen - trade_dedup_limit) seen\<rparr>
        in if (case rt_last_trade_ts st of None \<Rightarrow> i64_min | Some l \<Rightarrow> l) \<le> ts
           then st1\<lparr>rt_last_trade_ts := Some ts, rt_last_trade_id := Some key\<rparr> else st1)"

definition should_process_trade ::
  "(f64 \<Rightarrow> string) \<Rightarrow> host_trade \<Rightarrow> ('s, 'st) runtime \<Rightarrow> bool \<times> ('s, 'st) runtime" where
  "should_process_trade f64_text t st =
     (let key = trade_dedupe_key f64_text t in
      if key \<in> set (rt_seen_trades st) then (False, st)
      else if (case rt_last_trade_ts st of None \<Rightarrow> False | Some l \<Rightarrow> tr_ts t < l) then (False, st)
      else (True, remember_trade key (tr_ts t) st))"

section \<open>Executions\<close>

definition trade_fill :: "bool \<Rightarrow> host_trade \<Rightarrow> trade_record" where
  "trade_fill owned t =
     \<lparr>tk_ts = tr_ts t, tk_order_id = tr_order_id t, tk_symbol = tr_symbol t,
      tk_side = to_ascii_lowercase (tr_side t), tk_qty = tr_qty t, tk_price = tr_price t,
      tk_commission = tr_commission t, tk_owned = owned, tk_comment = None\<rparr>"

definition filled_or_qty :: "host_order \<Rightarrow> f64" where
  "filled_or_qty ord = (if 0 < ord_filled ord then ord_filled ord else ord_qty ord)"

definition pending_for :: "host_order \<Rightarrow> i64 \<Rightarrow> f64 \<Rightarrow> pending_execution" where
  "pending_for ord order_id target =
     \<lparr>px_order_id = order_id, px_symbol = ord_symbol ord,
      px_side = to_ascii_lowercase (ord_side ord), px_target_qty = target, px_filled_qty = 0,
      px_order_price = ord_price ord\<rparr>"

definition ensure_pending :: "host_trade \<Rightarrow> ('s, 'st) runtime \<Rightarrow> ('s, 'st) runtime" where
  "ensure_pending t st =
     (if rt_pending_exec st (tr_order_id t) \<noteq> None then st
      else case rt_orders st (tr_order_id t) of
          None \<Rightarrow> st
        | Some ord \<Rightarrow>
            st\<lparr>rt_pending_exec := (rt_pending_exec st)(tr_order_id t \<mapsto>
                 pending_for ord (tr_order_id t) (f_max (filled_or_qty ord) (tr_qty t)))\<rparr>)"

definition apply_trade_execution :: "host_trade \<Rightarrow> ('s, 'st) runtime \<Rightarrow> ('s, 'st) runtime" where
  "apply_trade_execution t st0 =
     (let st = ensure_pending t st0 in
      case rt_pending_exec st (tr_order_id t) of
        None \<Rightarrow> st
      | Some p \<Rightarrow>
          if \<not> 0 < tr_qty t then st
          else
            let p1 = p\<lparr>px_filled_qty := px_filled_qty p + tr_qty t\<rparr>
            in st\<lparr>rt_ledger := record_fill (trade_fill True t) (rt_ledger st),
                  rt_pending_exec := (rt_pending_exec st)(tr_order_id t :=
                    if px_target_qty p1 \<le> px_filled_qty p1 + f64_epsilon then None else Some p1)\<rparr>)"

definition record_orphan_trade :: "host_trade \<Rightarrow> ('s, 'st) runtime \<Rightarrow> ('s, 'st) runtime" where
  "record_orphan_trade t st =
     st\<lparr>rt_orphans := sat_inc (rt_orphans st),
        rt_ledger := record_fill (trade_fill False t) (rt_ledger st)\<rparr>"

text \<open>An orphan makes its order the runtime's own.\<close>

definition adopt_orphan :: "host_trade \<Rightarrow> ('s, 'st) runtime \<Rightarrow> ('s, 'st) runtime" where
  "adopt_orphan t st =
     record_orphan_trade t (st\<lparr>rt_our_orders := insert (tr_order_id t) (rt_our_orders st)\<rparr>)"

section \<open>Trades that must wait\<close>

type_synonym trade_buffer = "(i64 \<times> host_trade list) list"

definition push_pending :: "host_trade \<Rightarrow> trade_buffer \<Rightarrow> trade_buffer" where
  "push_pending t ps =
     (case map_of ps (tr_order_id t) of
        None \<Rightarrow> ps @ [(tr_order_id t, [t])]
      | Some _ \<Rightarrow> map (\<lambda>(k, ts). (k, if k = tr_order_id t then ts @ [t] else ts)) ps)"

definition hold_trade :: "host_trade \<Rightarrow> ('s, 'st) runtime \<Rightarrow> ('s, 'st) runtime" where
  "hold_trade t st = st\<lparr>rt_pending_trades := push_pending t (rt_pending_trades st)\<rparr>"

definition buffer_pre_ack_trade ::
  "host_trade \<Rightarrow> ('s, 'st) runtime \<Rightarrow> bool \<times> ('s, 'st) runtime" where
  "buffer_pre_ack_trade t st =
     (if rt_our_requests st = {} then (False, st) else (True, hold_trade t st))"

definition queue_or_apply_owned_trade :: "host_trade \<Rightarrow> ('s, 'st) runtime \<Rightarrow> ('s, 'st) runtime" where
  "queue_or_apply_owned_trade t st =
     (if rt_orders st (tr_order_id t) \<noteq> None then apply_trade_execution t st else hold_trade t st)"

definition take_pending ::
  "(host_trade \<Rightarrow> ('s, 'st) runtime \<Rightarrow> ('s, 'st) runtime) \<Rightarrow> i64 \<Rightarrow> ('s, 'st) runtime
   \<Rightarrow> ('s, 'st) runtime" where
  "take_pending f order_id st =
     (case map_of (rt_pending_trades st) order_id of
        None \<Rightarrow> st
      | Some ts \<Rightarrow>
          fold f ts (st\<lparr>rt_pending_trades := filter (\<lambda>(k, _). k \<noteq> order_id) (rt_pending_trades st)\<rparr>))"

definition replay_pending_trades_for_order :: "i64 \<Rightarrow> ('s, 'st) runtime \<Rightarrow> ('s, 'st) runtime" where
  "replay_pending_trades_for_order order_id st =
     (if order_id \<notin> rt_our_orders st \<or> rt_orders st order_id = None then st
      else take_pending apply_trade_execution order_id st)"

definition flush_unmatched_pre_ack_trades :: "rt_env \<Rightarrow> ('s, 'st) runtime \<Rightarrow> ('s, 'st) runtime" where
  "flush_unmatched_pre_ack_trades env st =
     (if rt_our_requests st \<noteq> {} then st
      else fold (take_pending adopt_orphan)
             (filter (\<lambda>k. k \<notin> rt_our_orders st) (re_key_order env (map fst (rt_pending_trades st)))) st)"

definition register_acknowledged_order :: "rt_env \<Rightarrow> command_ack \<Rightarrow> ('s, 'st) runtime \<Rightarrow> ('s, 'st) runtime"
where
  "register_acknowledged_order env ack st =
     (let st1 =
        (if ack_request_id ack \<notin> rt_our_requests st then st
         else
           let st0 = st\<lparr>rt_our_requests := rt_our_requests st - {ack_request_id ack}\<rparr>
           in case ack_broker_order_id ack of
                None \<Rightarrow> st0
              | Some order_id \<Rightarrow>
                  replay_pending_trades_for_order order_id
                    (st0\<lparr>rt_our_orders := insert order_id (rt_our_orders st0)\<rparr>))
      in flush_unmatched_pre_ack_trades env st1)"

definition update_ledger_from_order ::
  "runtime_config \<Rightarrow> host_order \<Rightarrow> ('s, 'st) runtime \<Rightarrow> ('s, 'st) runtime" where
  "update_ledger_from_order cfg ord st =
     (if ord_order_id ord \<le> 0 \<or> ord_symbol ord \<noteq> rc_symbol cfg then st
      else
        let owned = (ord_order_id ord \<in> rt_our_orders st);
            status = to_ascii_lowercase (ord_status ord);
            fill = filled_or_qty ord;
            st1 = st\<lparr>rt_ledger := record_order
              \<lparr>od_order_id = ord_order_id ord, od_symbol = ord_symbol ord,
               od_side = to_ascii_lowercase (ord_side ord), od_qty = ord_qty ord,
               od_filled = ord_filled ord, od_price = ord_price ord, od_status = status,
               od_ts = ord_ts ord, od_owned = owned\<rparr> (rt_ledger st)\<rparr>
        in if rc_trade_mode cfg = TmLive then
             (let prev_filled = (case rt_orders st (ord_order_id ord) of
                    None \<Rightarrow> False | Some prev \<Rightarrow> to_ascii_lowercase (ord_status prev) = ''filled'')
              in if owned \<and> status = ''filled'' \<and> 0 < fill \<and> \<not> (prev_filled \<and> ord_existing ord) then
                   st1\<lparr>rt_pending_exec := (rt_pending_exec st1)(ord_order_id ord \<mapsto>
                     (case rt_pending_exec st1 (ord_order_id ord) of
                        None \<Rightarrow> pending_for ord (ord_order_id ord) fill | Some p \<Rightarrow> p)
                       \<lparr>px_target_qty := fill, px_order_price := ord_price ord\<rparr>)\<rparr>
                 else st1)
           else if status = ''filled'' \<and> 0 < fill then
             st1\<lparr>rt_ledger := record_fill
               \<lparr>tk_ts = ord_ts ord, tk_order_id = ord_order_id ord, tk_symbol = ord_symbol ord,
                tk_side = to_ascii_lowercase (ord_side ord), tk_qty = fill, tk_price = ord_price ord,
                tk_commission = 0, tk_owned = True, tk_comment = ord_comment ord\<rparr> (rt_ledger st1)\<rparr>
           else st1)"

text \<open>What a trade of one of the strategy's symbols in live mode does, once it is not a
  duplicate.\<close>

definition track_trade :: "host_trade \<Rightarrow> ('s, 'st) runtime \<Rightarrow> ('s, 'st) runtime" where
  "track_trade t st =
     (if tr_order_id t \<le> 0 then st
      else if tr_order_id t \<in> rt_our_orders st then queue_or_apply_owned_trade t st
      else case buffer_pre_ack_trade t st of
          (True, st1) \<Rightarrow> st1
        | (False, st1) \<Rightarrow> adopt_orphan t st1)"

section \<open>Lemmas: the buffer\<close>

abbreviation held_list :: "trade_buffer \<Rightarrow> host_trade list" where
  "held_list ps \<equiv> concat (map snd ps)"

lemma push_update_absent:
  assumes "k \<notin> fst ` set ps"
  shows "map (\<lambda>(k', ts). (k', if k' = k then ts @ [t] else ts)) ps = ps"
  by (rule map_idI) (use assms in force)

lemma push_pending_keys:
  "map fst (push_pending t ps) =
     (if tr_order_id t \<in> fst ` set ps then map fst ps else map fst ps @ [tr_order_id t])"
proof -
  have "map fst (map (\<lambda>(k', ts). (k', if k' = k then ts @ [t] else ts)) ps) = map fst ps" for k
    by (induction ps) auto
  then show ?thesis
    by (auto simp: push_pending_def map_of_eq_None_iff [symmetric] split: option.split)
qed

lemma push_pending_held:
  assumes "distinct (map fst ps)"
  shows "mset (held_list (push_pending t ps)) = add_mset t (mset (held_list ps))"
proof (cases "map_of ps (tr_order_id t)")
  case (Some ts)
  have "mset (held_list (map (\<lambda>(k', ts). (k', if k' = k then ts @ [t] else ts)) ps))
      = add_mset t (mset (held_list ps))" if "k \<in> fst ` set ps" for k
    using that assms
  proof (induction ps)
    case (Cons p ps)
    then show ?case
      by (cases p) (auto simp: push_update_absent simp del: map_map)
  qed simp
  then show ?thesis using Some by (force simp: push_pending_def dest: map_of_SomeD)
qed (simp add: push_pending_def)

lemma push_pending_mem:
  assumes "(k, ts) \<in> set (push_pending t ps)"
  shows "(k, ts) \<in> set ps \<or> (k = tr_order_id t \<and> (ts = [t] \<or> (\<exists>ts0. (k, ts0) \<in> set ps \<and> ts = ts0 @ [t])))"
  using assms by (auto simp: push_pending_def split: option.splits if_splits)

lemma remove_key_held:
  assumes "distinct (map fst ps)" "map_of ps k = Some ts"
  shows "mset (held_list ps) = mset ts + mset (held_list (filter (\<lambda>(k', _). k' \<noteq> k) ps))"
  using assms
proof (induction ps)
  case (Cons p ps)
  have "filter (\<lambda>(k', _). k' \<noteq> k) ps = ps" if "k \<notin> fst ` set ps"
    using that by (force intro!: filter_True)
  then show ?case using Cons by (cases p) (auto split: if_splits)
qed simp

lemma remove_key_keys:
  "map fst (filter (\<lambda>(k', _). k' \<noteq> k) ps) = filter (\<lambda>k'. k' \<noteq> k) (map fst ps)"
  by (induction ps) auto

section \<open>Lemmas: what is conserved\<close>

text \<open>The fills in the ledger, and the trades still held, as fills; trades without quantity do not
  count.\<close>

definition fills :: "('s, 'st) runtime \<Rightarrow> trade_record multiset" where
  "fills st = image_mset (\<lambda>r. r\<lparr>tk_owned := True\<rparr>)
     (filter_mset (\<lambda>r. 0 < tk_qty r) (mset (lg_trades (rt_ledger st))))"

definition as_fills :: "host_trade multiset \<Rightarrow> trade_record multiset" where
  "as_fills ts = image_mset (trade_fill True) (filter_mset (\<lambda>t. 0 < tr_qty t) ts)"

definition held :: "('s, 'st) runtime \<Rightarrow> trade_record multiset" where
  "held st = as_fills (mset (held_list (rt_pending_trades st)))"

lemma as_fills_simps [simp]:
  "as_fills {#} = {#}" "as_fills (a + b) = as_fills a + as_fills b"
  "as_fills (add_mset t a) = (if 0 < tr_qty t then {#trade_fill True t#} else {#}) + as_fills a"
  by (simp_all add: as_fills_def)

lemma record_fill_trades [simp]: "lg_trades (record_fill r l) = lg_trades l @ [r]"
  by (simp add: record_fill_def Let_def apply_fill_def open_entry_def split: option.split)

text \<open>The fields the tracking reads and never writes.\<close>

definition track_frame :: "('s, 'st) runtime \<Rightarrow> ('s, 'st) runtime \<Rightarrow> bool" where
  "track_frame st st' \<longleftrightarrow>
     st' = st\<lparr>rt_pending_exec := rt_pending_exec st', rt_ledger := rt_ledger st',
              rt_orphans := rt_orphans st', rt_our_orders := rt_our_orders st',
              rt_our_requests := rt_our_requests st', rt_pending_trades := rt_pending_trades st'\<rparr>"

lemma track_frame_refl [simp]: "track_frame st st"
  by (simp add: track_frame_def)

lemma track_frame_trans: "track_frame a b \<Longrightarrow> track_frame b c \<Longrightarrow> track_frame a c"
  unfolding track_frame_def by (cases a; cases b; cases c) simp

lemma track_frameD:
  assumes "track_frame st st'"
  shows "rt_last_bar st' = rt_last_bar st" "rt_orders st' = rt_orders st"
    "rt_stop_orders st' = rt_stop_orders st" "rt_positions st' = rt_positions st"
    "rt_strategy st' = rt_strategy st" "rt_strategy_state st' = rt_strategy_state st"
    "rt_bootstrap st' = rt_bootstrap st" "rt_bars_read st' = rt_bars_read st"
    "rt_now st' = rt_now st" "rt_log st' = rt_log st" "rt_writes st' = rt_writes st"
    "rt_seen_trades st' = rt_seen_trades st" "rt_last_trade_ts st' = rt_last_trade_ts st"
    "rt_health st' = rt_health st" "rt_sim_orders st' = rt_sim_orders st"
    "rt_next_sim_id st' = rt_next_sim_id st"
  using assms unfolding track_frame_def by (cases st; cases st'; simp)+

lemma fold_rel:
  assumes "\<And>x a. x \<in> set xs \<Longrightarrow> R a (f x a)" "\<And>a. R a a" "\<And>a b c. R a b \<Longrightarrow> R b c \<Longrightarrow> R a c"
  shows "R a (fold f xs a)"
  using assms(1)
proof (induction xs arbitrary: a)
  case (Cons x xs)
  then show ?case using assms(3) [of a "f x a"] by simp
qed (simp add: assms(2))

lemmas track_fold = fold_rel [of _ track_frame, OF _ track_frame_refl track_frame_trans]

lemma apply_trade_frame: "track_frame st (apply_trade_execution t st)"
  by (auto simp: apply_trade_execution_def ensure_pending_def Let_def track_frame_def
      split: option.split)

lemma adopt_orphan_frame: "track_frame st (adopt_orphan t st)"
  by (simp add: adopt_orphan_def record_orphan_trade_def track_frame_def)

lemma take_pending_frame:
  assumes "\<And>t a. track_frame a (f t a)"
  shows "track_frame st (take_pending f k st)"
proof -
  have "track_frame st (st\<lparr>rt_pending_trades := x\<rparr>)" for x by (simp add: track_frame_def)
  then show ?thesis
    by (auto simp: take_pending_def intro!: track_frame_trans [OF _ track_fold] assms
        split: option.split)
qed

lemma replay_frame: "track_frame st (replay_pending_trades_for_order k st)"
  by (simp add: replay_pending_trades_for_order_def take_pending_frame apply_trade_frame)

lemma flush_frame: "track_frame st (flush_unmatched_pre_ack_trades env st)"
  by (simp add: flush_unmatched_pre_ack_trades_def track_fold take_pending_frame adopt_orphan_frame)

lemma register_frame: "track_frame st (register_acknowledged_order env ack st)"
proof -
  have "track_frame st (st\<lparr>rt_our_requests := x\<rparr>)"
    "track_frame st (st\<lparr>rt_our_requests := x, rt_our_orders := y\<rparr>)" for x y
    by (simp_all add: track_frame_def)
  then show ?thesis
    by (auto simp: register_acknowledged_order_def Let_def
        intro!: track_frame_trans [OF _ flush_frame] track_frame_trans [OF _ replay_frame]
        split: option.split)
qed

lemma track_trade_frame: "track_frame st (track_trade t st)"
proof -
  have "track_frame st (hold_trade t st)" by (simp add: hold_trade_def track_frame_def)
  then show ?thesis
    by (simp add: track_trade_def buffer_pre_ack_trade_def queue_or_apply_owned_trade_def
        apply_trade_frame adopt_orphan_frame)
qed

section \<open>The invariant of the buffer\<close>

abbreviation buffer_keys :: "('s, 'st) runtime \<Rightarrow> i64 set" where
  "buffer_keys st \<equiv> fst ` set (rt_pending_trades st)"

definition buffer_shape :: "trade_buffer \<Rightarrow> bool" where
  "buffer_shape ps \<longleftrightarrow>
     distinct (map fst ps) \<and> list_all (\<lambda>(k, ts). list_all (\<lambda>t. tr_order_id t = k) ts) ps"

text \<open>Nothing held could be applied already, and what is held while no request is open belongs
  to the runtime's orders.\<close>

definition waiting :: "('s, 'st) runtime \<Rightarrow> bool" where
  "waiting st \<longleftrightarrow> buffer_shape (rt_pending_trades st)
     \<and> (\<forall>k \<in> buffer_keys st. k \<in> rt_our_orders st \<longrightarrow> rt_orders st k = None)"

definition buffer_ok :: "('s, 'st) runtime \<Rightarrow> bool" where
  "buffer_ok st \<longleftrightarrow> waiting st \<and> (rt_our_requests st = {} \<longrightarrow> buffer_keys st \<subseteq> rt_our_orders st)"

definition total_fills :: "('s, 'st) runtime \<Rightarrow> trade_record multiset" where
  "total_fills st = fills st + held st"

lemma shape_filter: "buffer_shape ps \<Longrightarrow> buffer_shape (filter P ps)"
  by (auto simp: buffer_shape_def list_all_iff intro: distinct_map_filter)

lemma shape_push: "buffer_shape ps \<Longrightarrow> buffer_shape (push_pending t ps)"
  unfolding buffer_shape_def push_pending_keys
  by (fastforce simp: list_all_iff dest: push_pending_mem)

lemma shape_bucket:
  "buffer_shape ps \<Longrightarrow> map_of ps k = Some ts \<Longrightarrow> t \<in> set ts \<Longrightarrow> tr_order_id t = k"
  by (auto simp: buffer_shape_def list_all_iff dest!: map_of_SomeD)

lemma apply_trade_fields [simp]:
  "rt_pending_trades (apply_trade_execution t st) = rt_pending_trades st"
  "rt_our_orders (apply_trade_execution t st) = rt_our_orders st"
  "rt_our_requests (apply_trade_execution t st) = rt_our_requests st"
  "rt_orders (apply_trade_execution t st) = rt_orders st"
  by (auto simp: apply_trade_execution_def ensure_pending_def Let_def split: option.split)

lemma adopt_orphan_fields [simp]:
  "rt_pending_trades (adopt_orphan t st) = rt_pending_trades st"
  "rt_our_orders (adopt_orphan t st) = insert (tr_order_id t) (rt_our_orders st)"
  "rt_our_requests (adopt_orphan t st) = rt_our_requests st"
  "rt_orders (adopt_orphan t st) = rt_orders st"
  by (simp_all add: adopt_orphan_def record_orphan_trade_def)

lemma apply_trade_fills:
  assumes "rt_orders st (tr_order_id t) \<noteq> None"
  shows "fills (apply_trade_execution t st) = fills st + as_fills {#t#}"
  using assms
  by (auto simp: apply_trade_execution_def ensure_pending_def fills_def Let_def trade_fill_def
      split: option.split)

lemma adopt_orphan_fills: "fills (adopt_orphan t st) = fills st + as_fills {#t#}"
  by (simp add: adopt_orphan_def record_orphan_trade_def fills_def trade_fill_def)

lemma fold_apply:
  assumes "list_all (\<lambda>t. rt_orders st (tr_order_id t) \<noteq> None) ts"
  shows "fills (fold apply_trade_execution ts st) = fills st + as_fills (mset ts)"
    "rt_pending_trades (fold apply_trade_execution ts st) = rt_pending_trades st"
    "rt_our_orders (fold apply_trade_execution ts st) = rt_our_orders st"
    "rt_our_requests (fold apply_trade_execution ts st) = rt_our_requests st"
    "rt_orders (fold apply_trade_execution ts st) = rt_orders st"
  using assms by (induction ts arbitrary: st) (simp_all add: apply_trade_fills ac_simps)

lemma fold_adopt:
  "fills (fold adopt_orphan ts st) = fills st + as_fills (mset ts)"
  "rt_pending_trades (fold adopt_orphan ts st) = rt_pending_trades st"
  "rt_our_orders (fold adopt_orphan ts st) = rt_our_orders st \<union> tr_order_id ` set ts"
  "rt_our_requests (fold adopt_orphan ts st) = rt_our_requests st"
  "rt_orders (fold adopt_orphan ts st) = rt_orders st"
  by (induction ts arbitrary: st) (simp_all add: adopt_orphan_fills ac_simps)

lemma held_remove:
  assumes "buffer_shape (rt_pending_trades st)" "map_of (rt_pending_trades st) k = Some ts"
  shows "held st = as_fills (mset ts)
     + as_fills (mset (held_list (filter (\<lambda>(k', _). k' \<noteq> k) (rt_pending_trades st))))"
  using remove_key_held [of "rt_pending_trades st" k ts] assms
  by (simp add: held_def buffer_shape_def)

lemma fills_pending [simp]: "fills (st\<lparr>rt_pending_trades := x\<rparr>) = fills st"
  by (simp add: fills_def)

lemma filter_absent_key:
  assumes "map_of ps k = None"
  shows "filter (\<lambda>(k', _). k' \<noteq> k) ps = ps"
proof -
  have "k \<notin> fst ` set ps" using assms by (simp add: map_of_eq_None_iff)
  then show ?thesis by (force intro!: filter_True)
qed

lemma take_apply:
  assumes "buffer_shape (rt_pending_trades st)" "rt_orders st k \<noteq> None"
  defines "st' \<equiv> take_pending apply_trade_execution k st"
  shows "total_fills st' = total_fills st"
    "rt_pending_trades st' = filter (\<lambda>(k', _). k' \<noteq> k) (rt_pending_trades st)"
    "rt_our_orders st' = rt_our_orders st" "rt_our_requests st' = rt_our_requests st"
    "rt_orders st' = rt_orders st"
proof -
  have known: "list_all (\<lambda>t. rt_orders st (tr_order_id t) \<noteq> None) ts"
    if "map_of (rt_pending_trades st) k = Some ts" for ts
    using shape_bucket [OF assms(1) that] assms(2) by (auto simp: list_all_iff)
  show "total_fills st' = total_fills st"
    "rt_pending_trades st' = filter (\<lambda>(k', _). k' \<noteq> k) (rt_pending_trades st)"
    "rt_our_orders st' = rt_our_orders st" "rt_our_requests st' = rt_our_requests st"
    "rt_orders st' = rt_orders st"
    using known held_remove [OF assms(1)]
    by (auto simp: st'_def take_pending_def total_fills_def fold_apply filter_absent_key held_def ac_simps
        split: option.split)
qed

lemma take_adopt:
  fixes k st st'
  assumes "buffer_shape (rt_pending_trades st)"
  defines "st' \<equiv> take_pending adopt_orphan k st"
  shows "total_fills st' = total_fills st"
    "rt_pending_trades st' = filter (\<lambda>(k', _). k' \<noteq> k) (rt_pending_trades st)"
    "rt_our_orders st \<subseteq> rt_our_orders st'" "rt_our_orders st' \<subseteq> insert k (rt_our_orders st)"
    "rt_our_requests st' = rt_our_requests st" "rt_orders st' = rt_orders st"
proof -
  have "tr_order_id ` set ts \<subseteq> {k}" if "map_of (rt_pending_trades st) k = Some ts" for ts
    using shape_bucket [OF assms(1) that] by auto
  then show "total_fills st' = total_fills st"
    "rt_pending_trades st' = filter (\<lambda>(k', _). k' \<noteq> k) (rt_pending_trades st)"
    "rt_our_orders st \<subseteq> rt_our_orders st'" "rt_our_orders st' \<subseteq> insert k (rt_our_orders st)"
    "rt_our_requests st' = rt_our_requests st" "rt_orders st' = rt_orders st"
    using held_remove [OF assms(1)]
    by (auto simp: st'_def take_pending_def total_fills_def fold_adopt filter_absent_key held_def ac_simps
        split: option.split)
qed

lemma waiting_remove:
  assumes "buffer_shape (rt_pending_trades st)"
    and "\<forall>k' \<in> buffer_keys st. k' \<noteq> k \<longrightarrow> k' \<in> rt_our_orders st \<longrightarrow> rt_orders st k' = None"
    and "rt_pending_trades st' = filter (\<lambda>(k', _). k' \<noteq> k) (rt_pending_trades st)"
    and "rt_our_orders st' \<subseteq> insert k (rt_our_orders st)" "rt_orders st' = rt_orders st"
  shows "waiting st'"
proof -
  have "a \<in> rt_our_orders st" if "a \<in> rt_our_orders st'" "a \<noteq> k" for a
    using that assms(4) by auto
  then show ?thesis
    using assms(2) shape_filter [OF assms(1)] unfolding waiting_def assms(3,5) by force
qed

lemma hold_trade_keys: "buffer_keys (hold_trade t st) = insert (tr_order_id t) (buffer_keys st)"
proof -
  have "fst ` set (push_pending t ps) = insert (tr_order_id t) (fst ` set ps)" for ps
    using arg_cong [OF push_pending_keys [of t ps], of set] by (auto split: if_splits)
  then show ?thesis by (simp add: hold_trade_def)
qed

lemma hold_trade_fields [simp]:
  "rt_our_orders (hold_trade t st) = rt_our_orders st" "rt_orders (hold_trade t st) = rt_orders st"
  "rt_our_requests (hold_trade t st) = rt_our_requests st" "fills (hold_trade t st) = fills st"
  by (simp_all add: hold_trade_def)

lemma hold_trade_ok:
  assumes "buffer_ok st"
    and "tr_order_id t \<in> rt_our_orders st \<longrightarrow> rt_orders st (tr_order_id t) = None"
    and "rt_our_requests st = {} \<longrightarrow> tr_order_id t \<in> rt_our_orders st"
  shows "buffer_ok (hold_trade t st)" "total_fills (hold_trade t st) = total_fills st + as_fills {#t#}"
proof -
  have shape: "buffer_shape (rt_pending_trades st)" using assms(1) by (simp add: buffer_ok_def waiting_def)
  then have "distinct (map fst (rt_pending_trades st))" by (simp add: buffer_shape_def)
  then have "buffer_shape (rt_pending_trades (hold_trade t st))"
    "mset (held_list (rt_pending_trades (hold_trade t st)))
       = add_mset t (mset (held_list (rt_pending_trades st)))"
    by (simp_all add: hold_trade_def shape_push [OF shape] push_pending_held)
  then show "buffer_ok (hold_trade t st)"
    "total_fills (hold_trade t st) = total_fills st + as_fills {#t#}"
    using assms by (auto simp: buffer_ok_def waiting_def hold_trade_keys total_fills_def held_def)
qed

lemma total_fills_step:
  assumes "fills st' = fills st + x" "rt_pending_trades st' = rt_pending_trades st"
  shows "total_fills st' = total_fills st + x"
  using assms by (simp add: total_fills_def held_def)

lemma buffer_ok_fields:
  assumes "buffer_ok st" "rt_pending_trades st' = rt_pending_trades st" "rt_orders st' = rt_orders st"
    "rt_our_orders st' = rt_our_orders st" "rt_our_requests st' = {} \<longrightarrow> rt_our_requests st = {}"
  shows "buffer_ok st'"
  using assms by (simp add: buffer_ok_def waiting_def)

text \<open>A trade is recorded or held, once.\<close>

lemma track_trade_ok:
  assumes "buffer_ok st"
  shows "buffer_ok (track_trade t st)
    \<and> total_fills (track_trade t st)
        = total_fills st + (if 0 < tr_order_id t then as_fills {#t#} else {#})"
proof -
  let ?k = "tr_order_id t"
  consider "?k \<le> 0" | "0 < ?k" "?k \<in> rt_our_orders st" "rt_orders st ?k \<noteq> None"
    | "0 < ?k" "?k \<in> rt_our_orders st" "rt_orders st ?k = None"
    | "0 < ?k" "?k \<notin> rt_our_orders st" "rt_our_requests st \<noteq> {}"
    | "0 < ?k" "?k \<notin> rt_our_orders st" "rt_our_requests st = {}" by fastforce
  then show ?thesis
  proof cases
    case 1
    then show ?thesis using assms by (simp add: track_trade_def)
  next
    case 2
    then have "track_trade t st = apply_trade_execution t st"
      by (simp add: track_trade_def queue_or_apply_owned_trade_def)
    then show ?thesis
      using 2 assms total_fills_step [OF apply_trade_fills [OF 2(3)]]
      by (simp add: buffer_ok_fields [OF assms])
  next
    case 3
    then have "track_trade t st = hold_trade t st"
      by (simp add: track_trade_def queue_or_apply_owned_trade_def)
    then show ?thesis using 3 hold_trade_ok [OF assms] by simp
  next
    case 4
    then have "track_trade t st = hold_trade t st"
      by (simp add: track_trade_def buffer_pre_ack_trade_def)
    then show ?thesis using 4 hold_trade_ok [OF assms] by simp
  next
    case 5
    then have eq: "track_trade t st = adopt_orphan t st"
      by (simp add: track_trade_def buffer_pre_ack_trade_def)
    have "?k \<notin> buffer_keys st" using assms 5 by (auto simp: buffer_ok_def)
    then have "buffer_ok (adopt_orphan t st)"
      using assms 5 by (auto simp: buffer_ok_def waiting_def)
    then show ?thesis using 5 eq total_fills_step [OF adopt_orphan_fills, of t st] by simp
  qed
qed

lemma replay_ok:
  assumes "buffer_shape (rt_pending_trades st)"
    and "\<forall>k' \<in> buffer_keys st. k' \<noteq> k \<longrightarrow> k' \<in> rt_our_orders st \<longrightarrow> rt_orders st k' = None"
  defines "st' \<equiv> replay_pending_trades_for_order k st"
  shows "waiting st'" "total_fills st' = total_fills st" "rt_our_orders st' = rt_our_orders st"
    "rt_our_requests st' = rt_our_requests st" "rt_orders st' = rt_orders st"
    "buffer_keys st' \<subseteq> buffer_keys st"
proof -
  have "waiting st' \<and> total_fills st' = total_fills st \<and> rt_our_orders st' = rt_our_orders st
    \<and> rt_our_requests st' = rt_our_requests st \<and> rt_orders st' = rt_orders st
    \<and> buffer_keys st' \<subseteq> buffer_keys st"
  proof (cases "k \<notin> rt_our_orders st \<or> rt_orders st k = None")
    case True
    then have "st' = st" by (auto simp: st'_def replay_pending_trades_for_order_def)
    then show ?thesis using assms True by (auto simp: waiting_def)
  next
    case False
    then have st': "st' = take_pending apply_trade_execution k st"
      by (auto simp: st'_def replay_pending_trades_for_order_def)
    have "rt_orders st k \<noteq> None" using False by simp
    note take = take_apply [OF assms(1) this, folded st']
    then show ?thesis using waiting_remove [OF assms(1,2) take(2)] by auto
  qed
  then show "waiting st'" "total_fills st' = total_fills st" "rt_our_orders st' = rt_our_orders st"
    "rt_our_requests st' = rt_our_requests st" "rt_orders st' = rt_orders st"
    "buffer_keys st' \<subseteq> buffer_keys st" by blast+
qed

text \<open>An order event makes its held trades fills.\<close>

lemma order_known_ok:
  fixes k ord st st'
  assumes "buffer_ok st"
  defines "st' \<equiv> replay_pending_trades_for_order k (st\<lparr>rt_orders := (rt_orders st)(k \<mapsto> ord)\<rparr>)"
  shows "buffer_ok st'" "total_fills st' = total_fills st"
proof -
  let ?s = "st\<lparr>rt_orders := (rt_orders st)(k \<mapsto> ord)\<rparr>"
  have "buffer_shape (rt_pending_trades ?s)"
    "\<forall>k' \<in> buffer_keys ?s. k' \<noteq> k \<longrightarrow> k' \<in> rt_our_orders ?s \<longrightarrow> rt_orders ?s k' = None"
    using assms(1) by (auto simp: buffer_ok_def waiting_def)
  note r = replay_ok [OF this, folded st'_def]
  show "buffer_ok st'" using r(1,3,4) order_trans [OF r(6)] assms(1) by (simp add: buffer_ok_def)
  show "total_fills st' = total_fills st" using r by (simp add: total_fills_def held_def fills_def)
qed

lemma fold_take_adopt:
  assumes "waiting st"
  defines "st' ks \<equiv> fold (take_pending adopt_orphan) ks st"
  shows "waiting (st' ks)" "total_fills (st' ks) = total_fills st"
    "rt_our_orders st \<subseteq> rt_our_orders (st' ks)" "rt_our_requests (st' ks) = rt_our_requests st"
    "rt_orders (st' ks) = rt_orders st" "buffer_keys (st' ks) = buffer_keys st - set ks"
proof -
  have "waiting (st' ks) \<and> total_fills (st' ks) = total_fills st
    \<and> rt_our_orders st \<subseteq> rt_our_orders (st' ks) \<and> rt_our_requests (st' ks) = rt_our_requests st
    \<and> rt_orders (st' ks) = rt_orders st \<and> buffer_keys (st' ks) = buffer_keys st - set ks"
    unfolding st'_def using assms(1)
  proof (induction ks arbitrary: st)
    case (Cons k ks)
    have shape: "buffer_shape (rt_pending_trades st)" using Cons.prems by (simp add: waiting_def)
    note take = take_adopt [OF shape, of k]
    have "waiting (take_pending adopt_orphan k st)"
      using waiting_remove [OF shape _ take(2,4,6)] Cons.prems by (simp add: waiting_def)
    moreover have "buffer_keys (take_pending adopt_orphan k st) = buffer_keys st - {k}"
      unfolding take(2) by auto
    ultimately show ?case using Cons.IH [of "take_pending adopt_orphan k st"] take by auto
  qed simp
  then show "waiting (st' ks)" "total_fills (st' ks) = total_fills st"
    "rt_our_orders st \<subseteq> rt_our_orders (st' ks)" "rt_our_requests (st' ks) = rt_our_requests st"
    "rt_orders (st' ks) = rt_orders st" "buffer_keys (st' ks) = buffer_keys st - set ks"
    by blast+
qed

text \<open>What the code relies on of a hash map: listing its keys gives them all.\<close>

definition lists_keys :: "rt_env \<Rightarrow> bool" where
  "lists_keys env \<longleftrightarrow> (\<forall>ks. set (re_key_order env ks) = set ks)"

lemma flush_ok:
  assumes "waiting st" "lists_keys env"
  shows "buffer_ok (flush_unmatched_pre_ack_trades env st)"
    "total_fills (flush_unmatched_pre_ack_trades env st) = total_fills st"
proof -
  let ?ks = "filter (\<lambda>k. k \<notin> rt_our_orders st) (re_key_order env (map fst (rt_pending_trades st)))"
  note fold = fold_take_adopt [OF assms(1), of ?ks]
  have "buffer_keys st - set ?ks \<subseteq> rt_our_orders st"
    using assms(2) by (auto simp: lists_keys_def)
  then have "buffer_ok (fold (take_pending adopt_orphan) ?ks st)"
    using fold by (auto simp: buffer_ok_def)
  then show "buffer_ok (flush_unmatched_pre_ack_trades env st)"
    "total_fills (flush_unmatched_pre_ack_trades env st) = total_fills st"
    using assms(1) fold(2) by (auto simp: flush_unmatched_pre_ack_trades_def buffer_ok_def)
qed

lemma register_ok:
  assumes "buffer_ok st" "lists_keys env"
  shows "buffer_ok (register_acknowledged_order env ack st)"
    "total_fills (register_acknowledged_order env ack st) = total_fills st"
proof -
  have w: "waiting st" using assms(1) by (simp add: buffer_ok_def)
  let ?s0 = "st\<lparr>rt_our_requests := rt_our_requests st - {ack_request_id ack}\<rparr>"
  define s1 where "s1 = (if ack_request_id ack \<notin> rt_our_requests st then st
      else case ack_broker_order_id ack of
          None \<Rightarrow> ?s0
        | Some order_id \<Rightarrow> replay_pending_trades_for_order order_id
            (?s0\<lparr>rt_our_orders := insert order_id (rt_our_orders ?s0)\<rparr>))"
  have "waiting s1 \<and> total_fills s1 = total_fills st"
  proof -
    have s0: "waiting ?s0" "total_fills ?s0 = total_fills st"
      using w by (simp_all add: waiting_def total_fills_def fills_def held_def)
    have "waiting (replay_pending_trades_for_order k (?s0\<lparr>rt_our_orders := insert k (rt_our_orders ?s0)\<rparr>))
      \<and> total_fills (replay_pending_trades_for_order k (?s0\<lparr>rt_our_orders := insert k (rt_our_orders ?s0)\<rparr>))
          = total_fills st" for k
    proof -
      let ?s = "?s0\<lparr>rt_our_orders := insert k (rt_our_orders ?s0)\<rparr>"
      have "buffer_shape (rt_pending_trades ?s)"
        "\<forall>k' \<in> buffer_keys ?s. k' \<noteq> k \<longrightarrow> k' \<in> rt_our_orders ?s \<longrightarrow> rt_orders ?s k' = None"
        using w by (auto simp: waiting_def)
      from replay_ok(1,2) [OF this] show ?thesis
        by (simp add: total_fills_def fills_def held_def)
    qed
    then show ?thesis using w s0 by (auto simp: s1_def split: option.split)
  qed
  moreover have "register_acknowledged_order env ack st = flush_unmatched_pre_ack_trades env s1"
    by (simp add: register_acknowledged_order_def Let_def s1_def)
  ultimately show "buffer_ok (register_acknowledged_order env ack st)"
    "total_fills (register_acknowledged_order env ack st) = total_fills st"
    using flush_ok [of s1 env] assms(2) by simp_all
qed

section \<open>Lemmas: duplicates\<close>

lemma should_process_iff:
  "fst (should_process_trade txt t st) \<longleftrightarrow>
     trade_dedupe_key txt t \<notin> set (rt_seen_trades st)
     \<and> (\<forall>l. rt_last_trade_ts st = Some l \<longrightarrow> l \<le> tr_ts t)"
  by (auto simp: should_process_trade_def Let_def split: option.split)

lemma remember_trade_frame:
  "remember_trade k ts st = st\<lparr>rt_seen_trades := rt_seen_trades (remember_trade k ts st),
     rt_last_trade_ts := rt_last_trade_ts (remember_trade k ts st),
     rt_last_trade_id := rt_last_trade_id (remember_trade k ts st)\<rparr>"
  by (simp add: remember_trade_def Let_def)

lemma should_process_fields [simp]:
  "rt_pending_trades (snd (should_process_trade txt t st)) = rt_pending_trades st"
  "rt_our_orders (snd (should_process_trade txt t st)) = rt_our_orders st"
  "rt_our_requests (snd (should_process_trade txt t st)) = rt_our_requests st"
  "rt_orders (snd (should_process_trade txt t st)) = rt_orders st"
  "rt_ledger (snd (should_process_trade txt t st)) = rt_ledger st"
  "rt_strategy (snd (should_process_trade txt t st)) = rt_strategy st"
  "rt_strategy_state (snd (should_process_trade txt t st)) = rt_strategy_state st"
  "rt_log (snd (should_process_trade txt t st)) = rt_log st"
  "rt_last_bar (snd (should_process_trade txt t st)) = rt_last_bar st"
  "rt_bootstrap (snd (should_process_trade txt t st)) = rt_bootstrap st"
  "rt_bars_read (snd (should_process_trade txt t st)) = rt_bars_read st"
  by (simp_all add: should_process_trade_def remember_trade_def Let_def)

end
