(* ===== verification/Paper_Sim.thy ===== *)
theory Paper_Sim
  imports Intent_Dispatch Trade_Tracking
begin

text \<open>
  The simulator of paper and backtest mode (\<open>simulate_intents\<close> and \<open>simulate_fills\<close> of
  \<open>strategy-runtime/src/runtime.rs\<close>): orders wait in a list, fill on a later bar, move the
  position and are reported to the ledger.
\<close>

section \<open>Reports and filters\<close>

definition persist_ledger_reports ::
  "runtime_config \<Rightarrow> rt_env \<Rightarrow> ('s, 'st) runtime \<Rightarrow> ('s, 'st) runtime \<times> bool" where
  "persist_ledger_reports cfg env st =
     (case rc_trade_mode cfg of TmLive \<Rightarrow> (st, True) | _ \<Rightarrow> emit_effect env RtReports st)"

definition record_non_live_intents ::
  "rt_env \<Rightarrow> intent list \<Rightarrow> ('s, 'st) runtime \<Rightarrow> ('s, 'st) runtime \<times> bool" where
  "record_non_live_intents env intents st =
     (if intents = [] then (st, True) else emit_effect env (RtVirtual intents) st)"

definition can_advance_paper_execution :: "runtime_config \<Rightarrow> host_origin \<Rightarrow> bool" where
  "can_advance_paper_execution cfg origin \<longleftrightarrow>
     rc_trade_mode cfg \<noteq> TmPaper \<or> rc_paper_mode cfg = HistorySim \<or> origin = OrLive"

definition filter_paper_intents_for_simulation ::
  "('s, 'st) strategy_ops \<Rightarrow> runtime_config \<Rightarrow> rt_env \<Rightarrow> strategy_ctx \<Rightarrow> i64 \<Rightarrow> intent list \<Rightarrow> 'st
   \<Rightarrow> ('s, 'st) runtime \<Rightarrow> ('s, 'st) runtime \<times> intent list" where
  "filter_paper_intents_for_simulation ops cfg env ctx created intents prev st =
     (if rc_trade_mode cfg \<noteq> TmPaper then (st, intents)
      else
        let accepted = filter (\<lambda>i. trading_window_allows_order (re_chrono env) cfg ctx created
                                 (resolve_intent_class ctx i)) intents
        in (if length accepted < length intents \<and> accepted = []
              then restore_strategy_state ops prev st else st, accepted))"

section \<open>Intents\<close>

text \<open>The class the simulator works with: the innermost one. The intent itself is the base
  intent, so the wrapped cases of \<open>simulate_base\<close> do not occur.\<close>

fun sim_class :: "intent_class option \<Rightarrow> intent \<Rightarrow> intent_class option" where
  "sim_class cls (Classified i c) = sim_class (Some c) i"
| "sim_class cls (Routed i _) = sim_class cls i"
| "sim_class cls i = cls"

fun side_lower :: "side \<Rightarrow> string" where
  "side_lower Buy = ''buy''"
| "side_lower Sell = ''sell''"

definition position_qty :: "string \<Rightarrow> ('s, 'st) runtime \<Rightarrow> f64" where
  "position_qty symbol st = (case rt_positions st symbol of None \<Rightarrow> 0 | Some p \<Rightarrow> hp_qty p)"

text \<open>How much of a market order is taken, if any: an exit never more than the position, any
  other order never through flat.\<close>

definition exit_qty :: "bool \<Rightarrow> f64 \<Rightarrow> f64 \<Rightarrow> f64 option" where
  "exit_qty is_sell qty pos =
     (if \<bar>pos\<bar> \<le> f64_epsilon then None
      else if (is_sell \<and> pos < 0) \<or> (\<not> is_sell \<and> 0 < pos) then None
      else let q = f_min qty \<bar>pos\<bar> in if q \<le> f64_epsilon then None else Some q)"

definition market_qty :: "intent_class option \<Rightarrow> side \<Rightarrow> f64 \<Rightarrow> f64 \<Rightarrow> f64 option" where
  "market_qty cls sd qty pos =
     (case (if cls = Some Exit then exit_qty (sd = Sell) qty pos
            else if (sd = Buy \<and> pos < 0) \<or> (sd = Sell \<and> 0 < pos) then Some (f_min qty \<bar>pos\<bar>)
            else Some qty) of
        None \<Rightarrow> None
      | Some q \<Rightarrow> if q \<le> 0 then None else Some q)"

definition sim_record :: "sim_order \<Rightarrow> f64 \<Rightarrow> f64 \<Rightarrow> f64 \<Rightarrow> string \<Rightarrow> i64 \<Rightarrow> order_record" where
  "sim_record ord qty filled price status ts =
     \<lparr>od_order_id = sm_order_id ord, od_symbol = sm_symbol ord, od_side = sm_side ord,
      od_qty = qty, od_filled = filled, od_price = price, od_status = status, od_ts = ts,
      od_owned = True\<rparr>"

definition sim_fill :: "sim_order \<Rightarrow> f64 \<Rightarrow> f64 \<Rightarrow> i64 \<Rightarrow> trade_record" where
  "sim_fill ord qty price ts =
     \<lparr>tk_ts = ts, tk_order_id = sm_order_id ord, tk_symbol = sm_symbol ord, tk_side = sm_side ord,
      tk_qty = qty, tk_price = price, tk_commission = 0, tk_owned = True, tk_comment = sm_comment ord\<rparr>"

definition or_zero :: "f64 option \<Rightarrow> f64" where
  "or_zero p = (case p of None \<Rightarrow> 0 | Some x \<Rightarrow> x)"

fun take_order :: "i64 \<Rightarrow> sim_order list \<Rightarrow> (sim_order \<times> sim_order list) option" where
  "take_order k [] = None"
| "take_order k (x # xs) =
     (if sm_order_id x = k then Some (x, xs)
      else map_option (\<lambda>(y, ys). (y, x # ys)) (take_order k xs))"

fun update_order :: "i64 \<Rightarrow> (sim_order \<Rightarrow> sim_order) \<Rightarrow> sim_order list \<Rightarrow> (sim_order \<times> sim_order list) option"
where
  "update_order k f [] = None"
| "update_order k f (x # xs) =
     (if sm_order_id x = k then Some (f x, f x # xs)
      else map_option (\<lambda>(y, ys). (y, x # ys)) (update_order k f xs))"

definition new_sim_order ::
  "host_bar \<Rightarrow> i64 \<Rightarrow> side \<Rightarrow> intent_class option \<Rightarrow> sim_order_type \<Rightarrow> f64 \<Rightarrow> f64 option
   \<Rightarrow> string option \<Rightarrow> sim_order" where
  "new_sim_order bar order_id sd cls ty qty price comment =
     \<lparr>sm_order_id = order_id, sm_symbol = hb_symbol bar, sm_side = side_lower sd, sm_class = cls,
      sm_type = ty, sm_qty = qty, sm_price = price, sm_comment = comment,
      sm_created_bar_ts = hb_close_time bar\<rparr>"

definition enqueue_sim_order :: "sim_order \<Rightarrow> f64 \<Rightarrow> ('s, 'st) runtime \<Rightarrow> ('s, 'st) runtime" where
  "enqueue_sim_order ord price st =
     st\<lparr>rt_next_sim_id := rt_next_sim_id st + 1, rt_sim_orders := rt_sim_orders st @ [ord],
        rt_ledger := record_order (sim_record ord (sm_qty ord) 0 price ''working''
          (sm_created_bar_ts ord)) (rt_ledger st)\<rparr>"

definition simulate_market ::
  "runtime_config \<Rightarrow> rt_env \<Rightarrow> host_bar \<Rightarrow> intent_class option \<Rightarrow> f64 \<Rightarrow> side \<Rightarrow> f64 option
   \<Rightarrow> string option \<Rightarrow> ('s, 'st) runtime \<Rightarrow> ('s, 'st) runtime \<times> bool" where
  "simulate_market cfg env bar cls qty sd fill_price comment st =
     (case market_qty cls sd qty (position_qty (hb_symbol bar) st) of
        None \<Rightarrow> (st, True)
      | Some q \<Rightarrow>
          let ord = new_sim_order bar (rt_next_sim_id st) sd cls SimMarket q None comment
          in case fill_price of
               None \<Rightarrow> (enqueue_sim_order ord 0 st, True)
             | Some price \<Rightarrow>
                 persist_ledger_reports cfg env
                   (st\<lparr>rt_next_sim_id := rt_next_sim_id st + 1,
                       rt_ledger := record_order (sim_record ord q q price ''filled'' (hb_close_time bar))
                         (record_fill (sim_fill ord q price (hb_close_time bar)) (rt_ledger st))\<rparr>))"

fun simulate_base ::
  "runtime_config \<Rightarrow> rt_env \<Rightarrow> host_bar \<Rightarrow> intent_class option \<Rightarrow> intent \<Rightarrow> ('s, 'st) runtime
   \<Rightarrow> ('s, 'st) runtime \<times> bool" where
  "simulate_base cfg env bar cls (IPlace price qty sd comment) st =
     (enqueue_sim_order (new_sim_order bar (rt_next_sim_id st) sd cls SimLimit qty (Some price) comment)
        price st, True)"
| "simulate_base cfg env bar cls (IMarket qty sd fill_price comment) st =
     simulate_market cfg env bar cls qty sd fill_price comment st"
| "simulate_base cfg env bar cls (ICancel order_id) st =
     (case take_order order_id (rt_sim_orders st) of
        None \<Rightarrow> (st, True)
      | Some (ord, rest) \<Rightarrow>
          (st\<lparr>rt_sim_orders := rest,
              rt_ledger := record_order (sim_record ord (sm_qty ord) 0 (or_zero (sm_price ord))
                ''canceled'' (hb_close_time bar)) (rt_ledger st)\<rparr>, True))"
| "simulate_base cfg env bar cls (IReplace order_id new_price new_qty) st =
     (case update_order order_id (\<lambda>x. x\<lparr>sm_price := Some new_price, sm_qty := new_qty\<rparr>) (rt_sim_orders st) of
        None \<Rightarrow> (st, True)
      | Some (ord, orders) \<Rightarrow>
          (st\<lparr>rt_sim_orders := orders,
              rt_ledger := record_order (sim_record ord (sm_qty ord) 0 new_price
                ''working'' (hb_close_time bar)) (rt_ledger st)\<rparr>, True))"
| "simulate_base cfg env bar cls (ICreateStopLimit _ _ _ _ _ _ _ _ _) st = (st, True)"
| "simulate_base cfg env bar cls (IDeleteStopLimit _ _ _) st = (st, True)"
| "simulate_base cfg env bar cls (Classified i c) st = simulate_base cfg env bar (Some c) i st"
| "simulate_base cfg env bar cls (Routed i s) st = simulate_base cfg env bar cls i st"

fun simulate_intents ::
  "runtime_config \<Rightarrow> rt_env \<Rightarrow> host_bar \<Rightarrow> intent list \<Rightarrow> ('s, 'st) runtime
   \<Rightarrow> ('s, 'st) runtime \<times> bool" where
  "simulate_intents cfg env bar [] st = (st, True)"
| "simulate_intents cfg env bar (i # is) st =
     and_then (simulate_base cfg env bar (sim_class (explicit_class i) i) (base_intent i) st)
       (simulate_intents cfg env bar is)"

section \<open>Fills\<close>

definition sim_fill_price :: "host_bar \<Rightarrow> sim_order \<Rightarrow> f64 option" where
  "sim_fill_price bar ord =
     (if hb_close_time bar \<le> sm_created_bar_ts ord then None
      else case sm_type ord of
          SimMarket \<Rightarrow> Some (hb_o bar)
        | SimLimit \<Rightarrow>
            let price = or_zero (sm_price ord) in
            if (sm_side ord = ''buy'' \<and> hb_l bar \<le> price) \<or> (sm_side ord = ''sell'' \<and> price \<le> hb_h bar)
            then Some price else None)"

definition fills_on_bar :: "host_bar \<Rightarrow> sim_order list \<Rightarrow> (i64 \<times> f64) list" where
  "fills_on_bar bar orders =
     List.map_filter (\<lambda>ord. map_option (\<lambda>p. (sm_order_id ord, p)) (sim_fill_price bar ord)) orders"

text \<open>How much of an order is filled; \<open>None\<close> is an exit without a position to leave.\<close>

definition fill_qty :: "sim_order \<Rightarrow> f64 \<Rightarrow> f64 option" where
  "fill_qty ord pos =
     (if sm_class ord = Some Exit then exit_qty (to_ascii_lowercase (sm_side ord) = ''sell'') (sm_qty ord) pos
      else Some (sm_qty ord))"

definition apply_sim_fill ::
  "('s, 'st) strategy_ops \<Rightarrow> runtime_config \<Rightarrow> rt_env \<Rightarrow> host_bar \<Rightarrow> sim_order \<Rightarrow> f64 \<Rightarrow> f64
   \<Rightarrow> ('s, 'st) runtime \<Rightarrow> ('s, 'st) runtime \<times> bool" where
  "apply_sim_fill ops cfg env bar ord price q st =
     (let t = hb_close_time bar;
          delta = (if to_ascii_lowercase (sm_side ord) = ''buy'' then q else - q);
          pos = \<lparr>hp_symbol = sm_symbol ord, hp_qty = position_qty (sm_symbol ord) st + delta,
                 hp_existing = False, hp_avg_price = price, hp_ts = t\<rparr>;
          st1 = st\<lparr>rt_ledger := record_order (sim_record ord q q price ''filled'' t)
                     (record_fill (sim_fill ord q price t) (rt_ledger st)),
                   rt_positions := (rt_positions st)(sm_symbol ord \<mapsto> pos)\<rparr>;
          ctx = runtime_ctx cfg (re_emit_now env (rt_writes st1)) (strategy_last_bar_ts cfg st1)
                  (rt_now st1) st1
      in case so_on_position ops ctx pos (rt_strategy st1) of
           (s, intents) \<Rightarrow>
             let st2 = st1\<lparr>rt_strategy := s, rt_strategy_state := so_state ops s\<rparr>
             in and_then
                  (if intents = [] then (st2, True)
                   else and_then (record_non_live_intents env intents st2)
                          (simulate_intents cfg env bar intents))
                  (persist_ledger_reports cfg env))"

definition fill_one ::
  "('s, 'st) strategy_ops \<Rightarrow> runtime_config \<Rightarrow> rt_env \<Rightarrow> host_bar \<Rightarrow> i64 \<Rightarrow> f64
   \<Rightarrow> ('s, 'st) runtime \<Rightarrow> ('s, 'st) runtime \<times> bool" where
  "fill_one ops cfg env bar order_id price st =
     (case take_order order_id (rt_sim_orders st) of
        None \<Rightarrow> (st, True)
      | Some (ord, rest) \<Rightarrow>
          let st1 = st\<lparr>rt_sim_orders := rest\<rparr> in
          case fill_qty ord (position_qty (sm_symbol ord) st1) of
            None \<Rightarrow>
              (st1\<lparr>rt_ledger := record_order (sim_record ord (sm_qty ord) 0
                 (case sm_price ord of None \<Rightarrow> price | Some p \<Rightarrow> p) ''dropped'' (hb_close_time bar))
                 (rt_ledger st1)\<rparr>, True)
          | Some q \<Rightarrow> apply_sim_fill ops cfg env bar ord price q st1)"

fun fill_all ::
  "('s, 'st) strategy_ops \<Rightarrow> runtime_config \<Rightarrow> rt_env \<Rightarrow> host_bar \<Rightarrow> (i64 \<times> f64) list
   \<Rightarrow> ('s, 'st) runtime \<Rightarrow> ('s, 'st) runtime \<times> bool" where
  "fill_all ops cfg env bar [] st = (st, True)"
| "fill_all ops cfg env bar ((order_id, price) # rest) st =
     and_then (fill_one ops cfg env bar order_id price st) (fill_all ops cfg env bar rest)"

definition simulate_fills ::
  "('s, 'st) strategy_ops \<Rightarrow> runtime_config \<Rightarrow> rt_env \<Rightarrow> host_bar \<Rightarrow> ('s, 'st) runtime
   \<Rightarrow> ('s, 'st) runtime \<times> bool" where
  "simulate_fills ops cfg env bar st =
     fill_all ops cfg env bar (fills_on_bar bar (rt_sim_orders st)) st"

text \<open>A bar outside live mode, after the callback.\<close>

definition advance_paper ::
  "('s, 'st) strategy_ops \<Rightarrow> runtime_config \<Rightarrow> rt_env \<Rightarrow> strategy_ctx \<Rightarrow> host_bar \<Rightarrow> i64
   \<Rightarrow> intent list \<Rightarrow> 'st \<Rightarrow> ('s, 'st) runtime \<Rightarrow> ('s, 'st) runtime \<times> bool" where
  "advance_paper ops cfg env ctx bar event_ts intents prev st =
     (if \<not> can_advance_paper_execution cfg (hb_origin bar) then (st, True)
      else and_then (simulate_fills ops cfg env bar st) (\<lambda>st1.
        case filter_paper_intents_for_simulation ops cfg env ctx event_ts intents prev st1 of
          (st2, accepted) \<Rightarrow>
            and_then (record_non_live_intents env accepted st2)
              (simulate_intents cfg env bar accepted)))"

end
