(* ===== verification/Limit_Cancel.thy ===== *)
theory Limit_Cancel
  imports Strategy_State
begin

text \<open>
  The strategy \<open>strategies/limit_cancel.rs\<close>: on the first bar place a limit order, on a later
  bar cancel it as soon as its id is known, give up after a number of bars. The object, its
  callbacks, and a step relation over the callbacks.
\<close>

section \<open>The object\<close>

record limit_cancel_config =
  lcc_symbol :: string
  lcc_tick_size :: f64
  lcc_offset_ticks :: i64
  lcc_qty :: f64
  lcc_side :: side
  lcc_max_wait_bars :: u32

record 'r limit_cancel =
  lc_config :: limit_cancel_config
  lc_state :: "'r strategy_state"
  lc_last_processed :: "i64 option"

definition limit_cancel_new :: "limit_cancel_config \<Rightarrow> 'r limit_cancel" where
  "limit_cancel_new cfg = \<lparr>lc_config = cfg, lc_state = Idle, lc_last_processed = None\<rparr>"

definition build_place_intent :: "limit_cancel_config \<Rightarrow> host_bar \<Rightarrow> intent" where
  "build_place_intent cfg bar =
     (let shift = f64_of_int (lcc_offset_ticks cfg) * lcc_tick_size cfg;
          price = (case lcc_side cfg of Buy \<Rightarrow> hb_close bar - shift | Sell \<Rightarrow> hb_close bar + shift)
      in IPlace price (lcc_qty cfg) (lcc_side cfg) None)"

definition build_cancel_intent :: "i64 \<Rightarrow> intent" where
  "build_cancel_intent order_id = ICancel order_id"

text \<open>\<open>lib.rs\<close> builds the same two orders as ready commands.\<close>

definition build_place_command ::
  "(string \<Rightarrow> uuid) \<Rightarrow> limit_cancel_config \<Rightarrow> string \<Rightarrow> string \<Rightarrow> string \<Rightarrow> host_bar \<Rightarrow> order_command"
where
  "build_place_command v5 cfg strategy_id portfolio exchange bar =
     (let shift = f64_of_int (lcc_offset_ticks cfg) * lcc_tick_size cfg;
          price = (case lcc_side cfg of Buy \<Rightarrow> hb_close bar - shift | Sell \<Rightarrow> hb_close bar + shift)
      in \<lparr>oc_request_id = deterministic_request_id v5 strategy_id portfolio (hb_symbol bar) ''place''
            (hb_close_time bar) 0,
          oc_created_ts_utc = hb_close_time bar, oc_strategy_id = strategy_id,
          oc_portfolio = portfolio, oc_exchange = exchange, oc_symbol = hb_symbol bar,
          oc_action = Place \<lparr>po_price = price, po_qty = lcc_qty cfg, po_side = lcc_side cfg,
            po_comment = None\<rparr>,
          oc_intent_class = Some Entry, oc_ttl_ms = None\<rparr>)"

definition build_cancel_command ::
  "(string \<Rightarrow> uuid) \<Rightarrow> string \<Rightarrow> string \<Rightarrow> string \<Rightarrow> string \<Rightarrow> i64 \<Rightarrow> i64 \<Rightarrow> order_command" where
  "build_cancel_command v5 strategy_id portfolio exchange symbol order_id bar_ts =
     \<lparr>oc_request_id = deterministic_request_id v5 strategy_id portfolio symbol ''cancel'' bar_ts 1,
      oc_created_ts_utc = bar_ts, oc_strategy_id = strategy_id, oc_portfolio = portfolio,
      oc_exchange = exchange, oc_symbol = symbol,
      oc_action = Cancel \<lparr>co_order_id = order_id\<rparr>,
      oc_intent_class = Some CancelCleanup, oc_ttl_ms = None\<rparr>"

section \<open>Bars\<close>

text \<open>The guard both live strategies open \<open>on_bar\<close> with.\<close>

definition live_bar_blocked :: "strategy_ctx \<Rightarrow> host_bar \<Rightarrow> bool" where
  "live_bar_blocked ctx bar \<longleftrightarrow>
     cx_trade_mode ctx = TmLive
     \<and> (hb_origin bar \<noteq> OrLive \<or> \<not> cx_allow_live_orders ctx \<or> cx_gateway_phase ctx \<noteq> LiveReady)"

text \<open>A cancel is numbered 1 and named after the bar that made it due.\<close>

definition lc_cancel_id :: "(string \<Rightarrow> uuid) \<Rightarrow> strategy_ctx \<Rightarrow> string \<Rightarrow> i64 \<Rightarrow> uuid" where
  "lc_cancel_id v5 ctx symbol bar_ts =
     deterministic_request_id v5 (cx_strategy_id ctx) (cx_portfolio ctx) symbol ''cancel'' bar_ts 1"

definition lc_place_id :: "(string \<Rightarrow> uuid) \<Rightarrow> strategy_ctx \<Rightarrow> host_bar \<Rightarrow> uuid" where
  "lc_place_id v5 ctx bar =
     deterministic_request_id v5 (cx_strategy_id ctx) (cx_portfolio ctx) (hb_symbol bar) ''place''
       (hb_close_time bar) 0"

text \<open>\<open>bars_waited += 1\<close> on a \<open>u32\<close>.\<close>

definition lc_placed_bar ::
  "(string \<Rightarrow> uuid) \<Rightarrow> strategy_ctx \<Rightarrow> host_bar \<Rightarrow> u32 \<Rightarrow> placed \<Rightarrow> 'r strategy_state \<times> intent option"
where
  "lc_placed_bar v5 ctx bar max_wait p =
     (let t = hb_close_time bar; waited = (pl_bars_waited p + 1) mod 2 ^ 32;
          p1 = p\<lparr>pl_last_bar_ts := t, pl_bars_waited := waited\<rparr>
      in if max_wait < waited then (Done t, None)
         else (case pl_order_id p of
             None \<Rightarrow> (Placed (p1\<lparr>pl_cancel_due := True, pl_cancel_bar_ts := Some t\<rparr>), None)
           | Some order_id \<Rightarrow>
               (CancelSent \<lparr>cn_request_id = lc_cancel_id v5 ctx (hb_symbol bar) t,
                  cn_order_id = order_id, cn_last_bar_ts = t\<rparr>,
                Some (build_cancel_intent order_id))))"

definition lc_bar_state ::
  "(string \<Rightarrow> uuid) \<Rightarrow> limit_cancel_config \<Rightarrow> strategy_ctx \<Rightarrow> host_bar \<Rightarrow> 'r strategy_state
   \<Rightarrow> 'r strategy_state \<times> intent option" where
  "lc_bar_state v5 cfg ctx bar st =
     (let t = hb_close_time bar in
      case st of
        Idle \<Rightarrow> (Placed \<lparr>pl_request_id = lc_place_id v5 ctx bar, pl_order_id = None,
                   pl_cancel_due = False, pl_cancel_bar_ts = None, pl_placed_bar_ts = t,
                   pl_last_bar_ts = t, pl_bars_waited = 0\<rparr>,
                 Some (build_place_intent cfg bar))
      | Placed p \<Rightarrow> lc_placed_bar v5 ctx bar (lcc_max_wait_bars cfg) p
      | CancelSent c \<Rightarrow> (CancelSent (c\<lparr>cn_last_bar_ts := t\<rparr>), None)
      | MarketBuyPending b \<Rightarrow> (MarketBuyPending (b\<lparr>bp_last_bar_ts := t\<rparr>), None)
      | MarketBuySent b \<Rightarrow> (MarketBuySent (b\<lparr>bu_last_bar_ts := t\<rparr>), None)
      | MarketCloseSent c \<Rightarrow> (MarketCloseSent (c\<lparr>cl_last_bar_ts := t\<rparr>), None)
      | MarketLivePendingEntry e \<Rightarrow> (MarketLivePendingEntry (e\<lparr>en_last_bar_ts := t\<rparr>), None)
      | MarketLiveInPosition i \<Rightarrow> (MarketLiveInPosition (i\<lparr>in_last_bar_ts := t\<rparr>), None)
      | MarketLivePendingExit e \<Rightarrow> (MarketLivePendingExit (e\<lparr>ex_last_bar_ts := t\<rparr>), None)
      | Blocked r _ \<Rightarrow> (Blocked r t, None)
      | SessionGapStandalone _ r \<Rightarrow> (SessionGapStandalone (Some t) r, None)
      | AlorUsdrubfHybrid _ r \<Rightarrow> (AlorUsdrubfHybrid (Some t) r, None)
      | RiAuthor4142Live _ r \<Rightarrow> (RiAuthor4142Live (Some t) r, None)
      | HybridIntradayRuntime r \<Rightarrow> (HybridIntradayRuntime r, None)
      | Done _ \<Rightarrow> (Done t, None))"

definition lc_on_bar ::
  "(string \<Rightarrow> uuid) \<Rightarrow> strategy_ctx \<Rightarrow> host_bar \<Rightarrow> 'r limit_cancel \<Rightarrow> 'r limit_cancel \<times> intent list"
where
  "lc_on_bar v5 ctx bar s =
     (let t = hb_close_time bar in
      if live_bar_blocked ctx bar then (s\<lparr>lc_last_processed := Some t\<rparr>, [])
      else if at_or_before t (lc_last_processed s) then (s, [])
      else (case lc_bar_state v5 (lc_config s) ctx bar (lc_state s) of
              (st, i) \<Rightarrow> (s\<lparr>lc_state := st, lc_last_processed := Some t\<rparr>,
                          case i of None \<Rightarrow> [] | Some x \<Rightarrow> [x])))"

section \<open>Acknowledgements and order events\<close>

fun ack_good :: "ack_status \<Rightarrow> bool" where
  "ack_good Confirmed = True" | "ack_good Accepted = True" | "ack_good Duplicate = True"
| "ack_good Rejected = False" | "ack_good Expired = False" | "ack_good Error = False"

text \<open>\<open>a.or_else(|| b).unwrap_or(c)\<close>.\<close>

definition first_some :: "'a option \<Rightarrow> 'a option \<Rightarrow> 'a \<Rightarrow> 'a" where
  "first_some a b c = (case a of Some x \<Rightarrow> x | None \<Rightarrow> (case b of Some y \<Rightarrow> y | None \<Rightarrow> c))"

definition lc_send_cancel ::
  "(string \<Rightarrow> uuid) \<Rightarrow> strategy_ctx \<Rightarrow> i64 \<Rightarrow> i64 \<Rightarrow> 'r limit_cancel \<Rightarrow> 'r limit_cancel \<times> intent list"
where
  "lc_send_cancel v5 ctx order_id bar_ts s =
     (s\<lparr>lc_state := CancelSent \<lparr>cn_request_id = lc_cancel_id v5 ctx (cx_symbol ctx) bar_ts,
          cn_order_id = order_id, cn_last_bar_ts = bar_ts\<rparr>\<rparr>,
      [build_cancel_intent order_id])"

definition lc_finish :: "command_ack \<Rightarrow> 'r limit_cancel \<Rightarrow> 'r limit_cancel" where
  "lc_finish ack s =
     s\<lparr>lc_state := Done (case lc_last_processed s of Some t \<Rightarrow> t | None \<Rightarrow> ack_processed_ts_utc ack)\<rparr>"

definition lc_on_ack ::
  "(string \<Rightarrow> uuid) \<Rightarrow> strategy_ctx \<Rightarrow> command_ack \<Rightarrow> 'r limit_cancel \<Rightarrow> 'r limit_cancel \<times> intent list"
where
  "lc_on_ack v5 ctx ack s =
     (case lc_state s of
        Placed p \<Rightarrow>
          if pl_request_id p \<noteq> ack_request_id ack then (s, [])
          else if ack_good (ack_status ack) then
            (let oid = (case ack_broker_order_id ack of Some b \<Rightarrow> Some b | None \<Rightarrow> pl_order_id p);
                 s1 = s\<lparr>lc_state := Placed (p\<lparr>pl_order_id := oid\<rparr>)\<rparr>
             in if pl_cancel_due p then
                  (case oid of
                     None \<Rightarrow> (s1, [])
                   | Some order_id \<Rightarrow>
                       lc_send_cancel v5 ctx order_id
                         (first_some (pl_cancel_bar_ts p) (cx_last_bar_ts ctx)
                           (ack_processed_ts_utc ack)) s1)
                else (s1, []))
          else (lc_finish ack s, [])
      | CancelSent c \<Rightarrow>
          if cn_request_id c \<noteq> ack_request_id ack then (s, []) else (lc_finish ack s, [])
      | _ \<Rightarrow> (s, []))"

definition lc_on_order ::
  "(string \<Rightarrow> uuid) \<Rightarrow> strategy_ctx \<Rightarrow> host_order \<Rightarrow> 'r limit_cancel \<Rightarrow> 'r limit_cancel \<times> intent list"
where
  "lc_on_order v5 ctx ev s =
     (case lc_state s of
        Placed p \<Rightarrow>
          if (case ord_request_id ev of None \<Rightarrow> False | Some r \<Rightarrow> r \<noteq> pl_request_id p) then (s, [])
          else
            (let s1 = s\<lparr>lc_state := Placed (p\<lparr>pl_order_id := Some (ord_order_id ev)\<rparr>)\<rparr> in
             if pl_cancel_due p then
               lc_send_cancel v5 ctx (ord_order_id ev)
                 (first_some (pl_cancel_bar_ts p) (cx_last_bar_ts ctx) 0) s1
             else (s1, []))
      | _ \<Rightarrow> (s, []))"

definition lc_on_position ::
  "strategy_ctx \<Rightarrow> host_position \<Rightarrow> 'r limit_cancel \<Rightarrow> 'r limit_cancel \<times> intent list" where
  "lc_on_position ctx pos s = (s, [])"

definition lc_tracked_order_ids :: "'r limit_cancel \<Rightarrow> i64 list" where
  "lc_tracked_order_ids s =
     remdups (sort (case lc_state s of
         Placed p \<Rightarrow> (case pl_order_id p of Some i \<Rightarrow> [i] | None \<Rightarrow> [])
       | CancelSent c \<Rightarrow> [cn_order_id c]
       | _ \<Rightarrow> []))"

definition lc_pending_request_ids :: "'r limit_cancel \<Rightarrow> uuid list" where
  "lc_pending_request_ids s =
     (case lc_state s of
        Placed p \<Rightarrow> [pl_request_id p] | CancelSent c \<Rightarrow> [cn_request_id c] | _ \<Rightarrow> [])"

text \<open>The strategy as an implementation of the trait.\<close>

definition limit_cancel_ops ::
  "(string \<Rightarrow> uuid) \<Rightarrow> ('r limit_cancel, 'r strategy_state) strategy_ops" where
  "limit_cancel_ops v5 =
     \<lparr>so_on_bar = lc_on_bar v5, so_on_ack = lc_on_ack v5, so_on_order = lc_on_order v5,
      so_on_stop_order = default_on_stop_order, so_on_position = lc_on_position,
      so_on_timer = default_on_timer, so_on_bootstrap_snapshot = default_on_bootstrap_snapshot,
      so_on_runtime_state_restored = default_on_runtime_state_restored,
      so_warmup_from_history = default_warmup_from_history,
      so_tracked_order_ids = lc_tracked_order_ids, so_pending_request_ids = lc_pending_request_ids,
      so_intent_comment_tag = default_intent_comment_tag,
      so_on_command_prepared = default_on_command_prepared,
      so_on_intent_blocked = default_on_intent_blocked,
      so_state = lc_state, so_set_state = (\<lambda>st s. s\<lparr>lc_state := st\<rparr>)\<rparr>"

section \<open>Runs\<close>

abbreviation lc_call :: "(string \<Rightarrow> uuid) \<Rightarrow> host_event \<Rightarrow> 'r limit_cancel \<Rightarrow> 'r limit_cancel \<times> intent list" where
  "lc_call v5 \<equiv> ops_call (limit_cancel_ops v5)"

abbreviation lc_run :: "(string \<Rightarrow> uuid) \<Rightarrow> host_event list \<Rightarrow> 'r limit_cancel \<Rightarrow> 'r limit_cancel \<times> intent list" where
  "lc_run v5 \<equiv> ops_run (limit_cancel_ops v5)"

lemma limit_cancel_ops_simps [simp]:
  "so_on_bar (limit_cancel_ops v5) = lc_on_bar v5" "so_on_ack (limit_cancel_ops v5) = lc_on_ack v5"
  "so_on_order (limit_cancel_ops v5) = lc_on_order v5"
  "so_on_stop_order (limit_cancel_ops v5) = default_on_stop_order"
  "so_on_position (limit_cancel_ops v5) = lc_on_position"
  "so_pending_request_ids (limit_cancel_ops v5) = lc_pending_request_ids"
  "so_state (limit_cancel_ops v5) = lc_state"
  "so_set_state (limit_cancel_ops v5) = (\<lambda>st s. s\<lparr>lc_state := st\<rparr>)"
  by (simp_all add: limit_cancel_ops_def)

interpretation lc: strategy_object "limit_cancel_ops v5"
  by unfold_locales simp

text \<open>The life of the strategy as a step relation on its state, with the intents of a step.\<close>

inductive lc_moves :: "limit_cancel_config \<Rightarrow> 'r strategy_state \<Rightarrow> intent list \<Rightarrow> 'r strategy_state \<Rightarrow> bool"
  for cfg where
  stays: "lc_moves cfg st [] st"
| places: "pl_order_id p = None \<Longrightarrow> pl_bars_waited p = 0
           \<Longrightarrow> lc_moves cfg Idle [build_place_intent cfg bar] (Placed p)"
| waits: "pl_request_id q = pl_request_id p
          \<Longrightarrow> pl_bars_waited q = pl_bars_waited p
              \<or> pl_bars_waited q = (pl_bars_waited p + 1) mod 2 ^ 32
                \<and> pl_bars_waited q \<le> lcc_max_wait_bars cfg
          \<Longrightarrow> lc_moves cfg (Placed p) [] (Placed q)"
| gives_up: "lc_moves cfg (Placed p) [] (Done t)"
| cancels: "lc_moves cfg (Placed p) [ICancel (cn_order_id c)] (CancelSent c)"
| marks: "cn_order_id d = cn_order_id c \<Longrightarrow> cn_request_id d = cn_request_id c
          \<Longrightarrow> lc_moves cfg (CancelSent c) [] (CancelSent d)"
| finishes: "lc_moves cfg (CancelSent c) [] (Done t)"
| rests: "lc_moves cfg (Done t) [] (Done u)"

inductive_cases lc_moves_IdleE: "lc_moves cfg Idle is st"
inductive_cases lc_moves_PlacedE: "lc_moves cfg (Placed p) is st"
inductive_cases lc_moves_CancelSentE: "lc_moves cfg (CancelSent c) is st"
inductive_cases lc_moves_DoneE: "lc_moves cfg (Done t) is st"

lemmas lc_call_defs = default_on_stop_order_def lc_on_bar_def lc_on_ack_def lc_on_order_def lc_on_position_def
  lc_bar_state_def lc_placed_bar_def lc_send_cancel_def lc_finish_def build_cancel_intent_def

text \<open>The states the strategy itself produces.\<close>

fun lc_own_state :: "'r strategy_state \<Rightarrow> bool" where
  "lc_own_state Idle = True" | "lc_own_state (Placed _) = True"
| "lc_own_state (CancelSent _) = True" | "lc_own_state (Done _) = True"
| "lc_own_state _ = False"

lemma lc_own_cases:
  assumes "lc_own_state st"
  obtains "st = Idle" | p where "st = Placed p" | c where "st = CancelSent c" | t where "st = Done t"
  using assms by (cases st) auto

lemma lc_config_frame [simp]: "lc_config (fst (lc_call v5 e s)) = lc_config s"
  by (cases e) (auto simp: lc_call_defs Let_def split: strategy_state.splits option.splits prod.splits)

lemma lc_bar_state_moves:
  assumes "lc_own_state st"
  shows "lc_moves cfg st (case snd (lc_bar_state v5 cfg ctx bar st) of None \<Rightarrow> [] | Some i \<Rightarrow> [i])
           (fst (lc_bar_state v5 cfg ctx bar st))"
  using assms
proof (cases rule: lc_own_cases)
  case (2 p)
  then show ?thesis
    by (cases "pl_order_id p")
      (auto simp: lc_bar_state_def lc_placed_bar_def Let_def build_cancel_intent_def
        intro: lc_moves.waits lc_moves.gives_up lc_moves.cancels [where c = "\<lparr>cn_request_id = x,
          cn_order_id = y, cn_last_bar_ts = z\<rparr>" for x y z, simplified])
qed (auto simp: lc_bar_state_def Let_def intro: lc_moves.intros)

lemma lc_send_cancel_moves:
  "lc_moves cfg (Placed p) (snd (lc_send_cancel v5 ctx oid t s)) (lc_state (fst (lc_send_cancel v5 ctx oid t s)))"
  using lc_moves.cancels [where c = "\<lparr>cn_request_id = x, cn_order_id = oid, cn_last_bar_ts = z\<rparr>" for x z]
  by (simp add: lc_send_cancel_def build_cancel_intent_def)

lemma lc_on_ack_moves:
  assumes "lc_own_state (lc_state s)"
  shows "lc_moves cfg (lc_state s) (snd (lc_on_ack v5 ctx ack s)) (lc_state (fst (lc_on_ack v5 ctx ack s)))"
  using assms
proof (cases rule: lc_own_cases)
  case (2 p)
  then show ?thesis
    by (auto simp: lc_on_ack_def lc_finish_def Let_def lc_send_cancel_moves
        intro: lc_moves.stays lc_moves.waits lc_moves.gives_up split: option.split)
next
  case (3 c)
  then show ?thesis by (auto simp: lc_on_ack_def lc_finish_def intro: lc_moves.stays lc_moves.finishes)
qed (auto simp: lc_on_ack_def intro: lc_moves.stays)

lemma lc_on_order_moves:
  assumes "lc_own_state (lc_state s)"
  shows "lc_moves cfg (lc_state s) (snd (lc_on_order v5 ctx ord s)) (lc_state (fst (lc_on_order v5 ctx ord s)))"
  using assms
proof (cases rule: lc_own_cases)
  case (2 p)
  then show ?thesis
    by (auto simp: lc_on_order_def Let_def lc_send_cancel_moves
        intro: lc_moves.stays lc_moves.waits split: option.split)
qed (auto simp: lc_on_order_def intro: lc_moves.stays)

lemma lc_call_moves:
  assumes "lc_own_state (lc_state s)"
  shows "lc_moves (lc_config s) (lc_state s) (snd (lc_call v5 e s)) (lc_state (fst (lc_call v5 e s)))"
proof (cases e)
  case (EvBar ctx bar)
  then show ?thesis
    using lc_bar_state_moves [OF assms, of "lc_config s" v5 ctx bar]
    by (auto simp: lc_on_bar_def Let_def lc_moves.stays split: prod.split)
next
  case (EvPosition ctx pos)
  then show ?thesis by (simp add: lc_on_position_def lc_moves.stays)
next
  case (EvStopOrder ctx ord)
  then show ?thesis by (simp add: default_on_stop_order_def lc_moves.stays)
qed (use assms in \<open>simp_all add: lc_on_ack_moves lc_on_order_moves\<close>)

lemma lc_moves_own: "lc_moves cfg st is st' \<Longrightarrow> lc_own_state st \<Longrightarrow> lc_own_state st'"
  by (induction rule: lc_moves.induct) auto

section \<open>One order, one cancel\<close>

text \<open>Events that tell the strategy the id of the order it asked for under the request \<open>rid\<close>.\<close>

definition names_order :: "uuid \<Rightarrow> i64 \<Rightarrow> host_event \<Rightarrow> bool" where
  "names_order rid order_id e =
     (case e of
        EvAck ctx ack \<Rightarrow> ack_request_id ack = rid \<and> ack_good (ack_status ack)
          \<and> ack_broker_order_id ack = Some order_id
      | EvOrder ctx ord \<Rightarrow> ord_order_id ord = order_id \<and> ord_request_id ord \<in> {None, Some rid}
      | _ \<Rightarrow> False)"

text \<open>What may have been asked for, after some events, when the strategy is in a state.\<close>

definition placed_on ::
  "(string \<Rightarrow> uuid) \<Rightarrow> limit_cancel_config \<Rightarrow> host_event list \<Rightarrow> uuid \<Rightarrow> intent \<Rightarrow> bool" where
  "placed_on v5 cfg evs rid i \<longleftrightarrow> (\<exists>ctx bar. EvBar ctx bar \<in> set evs \<and> rid = lc_place_id v5 ctx bar
     \<and> i = build_place_intent cfg bar)"

fun lc_round :: "(string \<Rightarrow> uuid) \<Rightarrow> limit_cancel_config \<Rightarrow> host_event list \<Rightarrow> 'r strategy_state
  \<Rightarrow> intent list \<Rightarrow> bool" where
  "lc_round v5 cfg evs Idle is \<longleftrightarrow> is = []"
| "lc_round v5 cfg evs (Placed p) is \<longleftrightarrow>
     (\<exists>i. is = [i] \<and> placed_on v5 cfg evs (pl_request_id p) i)
     \<and> (\<forall>k. pl_order_id p = Some k \<longrightarrow> list_ex (names_order (pl_request_id p) k) evs)"
| "lc_round v5 cfg evs (CancelSent c) is \<longleftrightarrow>
     (\<exists>i rid. is = [i, ICancel (cn_order_id c)] \<and> placed_on v5 cfg evs rid i
        \<and> list_ex (names_order rid (cn_order_id c)) evs)"
| "lc_round v5 cfg evs (Done t) is \<longleftrightarrow>
     (\<exists>i rid. placed_on v5 cfg evs rid i
        \<and> (is = [i] \<or> (\<exists>k. is = [i, ICancel k] \<and> list_ex (names_order rid k) evs)))"
| "lc_round v5 cfg evs st is \<longleftrightarrow> False"

lemma placed_on_more: "placed_on v5 cfg evs rid i \<Longrightarrow> placed_on v5 cfg (evs @ evs2) rid i"
  by (auto simp: placed_on_def)

lemma lc_run_config [simp]: "lc_config (fst (lc_run v5 evs s)) = lc_config s"
proof (induction evs arbitrary: s)
  case (Cons e evs)
  then show ?case
    using lc_config_frame [of v5 e s] by simp
qed simp

text \<open>A round stays one when more events are known, and every call continues it.\<close>

lemma lc_round_more: "lc_round v5 cfg evs st is \<Longrightarrow> lc_round v5 cfg (evs @ evs2) st is"
  by (cases st) (auto 0 4 intro: placed_on_more)

lemma lc_bar_round:
  assumes "lc_round v5 (lc_config s) evs (lc_state s) is"
  shows "lc_round v5 (lc_config s) (evs @ [EvBar ctx bar]) (lc_state (fst (lc_on_bar v5 ctx bar s)))
    (is @ snd (lc_on_bar v5 ctx bar s))"
proof -
  note old = lc_round_more [OF assms, of "[EvBar ctx bar]"]
  have new: "placed_on v5 (lc_config s) (evs @ [EvBar ctx bar]) (lc_place_id v5 ctx bar)
      (build_place_intent (lc_config s) bar)" by (auto simp: placed_on_def)
  show ?thesis using old new
    by (cases "lc_state s") (auto simp: lc_on_bar_def lc_bar_state_def lc_placed_bar_def build_cancel_intent_def
        Let_def split: option.split)
qed

lemma lc_ack_round:
  assumes "lc_round v5 (lc_config s) evs (lc_state s) is"
  shows "lc_round v5 (lc_config s) (evs @ [EvAck ctx ack]) (lc_state (fst (lc_on_ack v5 ctx ack s)))
    (is @ snd (lc_on_ack v5 ctx ack s))"
  using lc_round_more [OF assms, of "[EvAck ctx ack]"]
  by (cases "lc_state s") (auto simp: lc_on_ack_def lc_send_cancel_def lc_finish_def build_cancel_intent_def
      names_order_def Let_def split: option.split)

lemma lc_order_round:
  assumes "lc_round v5 (lc_config s) evs (lc_state s) is"
  shows "lc_round v5 (lc_config s) (evs @ [EvOrder ctx ord]) (lc_state (fst (lc_on_order v5 ctx ord s)))
    (is @ snd (lc_on_order v5 ctx ord s))"
  using lc_round_more [OF assms, of "[EvOrder ctx ord]"]
  by (cases "lc_state s") (auto simp: lc_on_order_def lc_send_cancel_def build_cancel_intent_def
      names_order_def Let_def split: option.splits)

lemma lc_call_round:
  assumes "lc_round v5 (lc_config s) evs (lc_state s) is"
  shows "lc_round v5 (lc_config s) (evs @ [e]) (lc_state (fst (lc_call v5 e s))) (is @ snd (lc_call v5 e s))"
  using lc_bar_round [OF assms] lc_ack_round [OF assms] lc_order_round [OF assms] lc_round_more [OF assms]
  by (cases e) (simp_all add: lc_on_position_def default_on_stop_order_def)

lemma lc_run_round:
  assumes "lc_round v5 (lc_config s) evs0 (lc_state s) is0"
  shows "lc_round v5 (lc_config s) (evs0 @ evs) (lc_state (fst (lc_run v5 evs s))) (is0 @ snd (lc_run v5 evs s))"
  using assms
proof (induction evs arbitrary: s evs0 is0)
  case (Cons e evs)
  from Cons.IH [of "fst (lc_call v5 e s)", OF lc_call_round [OF Cons.prems, of e, folded lc_config_frame [of v5 e s]]]
  show ?case by simp
qed simp

text \<open>C16. Over any sequence of bars, acknowledgements, order events and position events the
  strategy asks for nothing, or for one order, placed on a bar of the sequence, or for that
  order and then one cancel. The cancelled order is one an event of the sequence named: a good
  acknowledgement of the placing request with that order id, or an order event with that order
  id that carries the placing request's id or none.\<close>

theorem limit_cancel_one_round:
  "snd (lc_run v5 evs (limit_cancel_new cfg :: 'r limit_cancel)) = []
   \<or> (\<exists>ctx bar. EvBar ctx bar \<in> set evs
       \<and> (snd (lc_run v5 evs (limit_cancel_new cfg :: 'r limit_cancel)) = [build_place_intent cfg bar]
         \<or> (\<exists>k e. e \<in> set evs \<and> names_order (lc_place_id v5 ctx bar) k e
             \<and> snd (lc_run v5 evs (limit_cancel_new cfg :: 'r limit_cancel))
                 = [build_place_intent cfg bar, ICancel k])))"
proof -
  let ?r = "lc_run v5 evs (limit_cancel_new cfg :: 'r limit_cancel)"
  have "lc_round v5 cfg evs (lc_state (fst ?r)) (snd ?r)"
    using lc_run_round [of v5 "limit_cancel_new cfg :: 'r limit_cancel" "[]" "[]" evs]
    by (simp add: limit_cancel_new_def)
  then show ?thesis
    by (cases "lc_state (fst ?r)") (fastforce simp: placed_on_def list_ex_iff)+
qed

section \<open>The strategy ends\<close>

text \<open>Bars the strategy takes: not blocked, each later than the last.\<close>

fun fresh_bars :: "i64 option \<Rightarrow> host_event list \<Rightarrow> bool" where
  "fresh_bars lst [] = True"
| "fresh_bars lst (EvBar ctx bar # es) \<longleftrightarrow>
     \<not> live_bar_blocked ctx bar \<and> \<not> at_or_before (hb_close_time bar) lst
     \<and> fresh_bars (Some (hb_close_time bar)) es"
| "fresh_bars lst (e # es) = fresh_bars lst es"

fun bar_count :: "host_event list \<Rightarrow> nat" where
  "bar_count [] = 0"
| "bar_count (EvBar _ _ # es) = Suc (bar_count es)"
| "bar_count (e # es) = bar_count es"

text \<open>How many bars the strategy still waits at most.\<close>

fun lc_lag :: "u32 \<Rightarrow> 'r strategy_state \<Rightarrow> nat" where
  "lc_lag max_wait Idle = max_wait + 2"
| "lc_lag max_wait (Placed p) = max_wait + 1 - pl_bars_waited p"
| "lc_lag max_wait st = 0"

definition lc_waits_within :: "u32 \<Rightarrow> 'r strategy_state \<Rightarrow> bool" where
  "lc_waits_within max_wait st \<longleftrightarrow>
     lc_own_state st \<and> (\<forall>p. st = Placed p \<longrightarrow> pl_bars_waited p \<le> max_wait)"

lemma lc_moves_within:
  assumes "lc_moves cfg st is st'" "lc_waits_within (lcc_max_wait_bars cfg) st"
  shows "lc_waits_within (lcc_max_wait_bars cfg) st'
    \<and> (is = [] \<or> st \<noteq> Idle \<longrightarrow> lc_lag (lcc_max_wait_bars cfg) st' \<le> lc_lag (lcc_max_wait_bars cfg) st
        \<or> (\<exists>p q. st = Placed p \<and> st' = Placed q \<and> pl_bars_waited q \<noteq> pl_bars_waited p))"
  using assms by (induction rule: lc_moves.induct) (auto simp: lc_waits_within_def)

lemma lc_bar_lag:
  assumes "lc_waits_within (lcc_max_wait_bars cfg) st" "lcc_max_wait_bars cfg + 1 < 2 ^ 32"
  shows "lc_lag (lcc_max_wait_bars cfg) (fst (lc_bar_state v5 cfg ctx bar st))
    \<le> lc_lag (lcc_max_wait_bars cfg) st - 1"
proof -
  have "lc_own_state st" using assms(1) by (simp add: lc_waits_within_def)
  then show ?thesis
  proof (cases rule: lc_own_cases)
    case (2 p)
    then have "pl_bars_waited p \<le> lcc_max_wait_bars cfg"
      using assms(1) by (simp add: lc_waits_within_def)
    then have w: "(pl_bars_waited p + 1) mod 2 ^ 32 = pl_bars_waited p + 1"
      using assms(2) by simp
    then show ?thesis using 2
      by (cases "pl_order_id p") (auto simp: lc_bar_state_def lc_placed_bar_def Let_def)
  qed (auto simp: lc_bar_state_def Let_def)
qed

lemma lc_other_lag:
  assumes "\<And>ctx bar. e \<noteq> EvBar ctx bar"
  shows "lc_lag m (lc_state (fst (lc_call v5 e s))) \<le> lc_lag m (lc_state s)"
proof (cases "lc_state s")
  case (Placed p)
  then show ?thesis using assms
    by (cases e) (auto simp: lc_call_defs Let_def split: option.split)
qed (use assms in \<open>cases e; auto simp: lc_call_defs\<close>)+

lemma lc_other_mark:
  assumes "\<And>ctx bar. e \<noteq> EvBar ctx bar"
  shows "lc_last_processed (fst (lc_call v5 e s)) = lc_last_processed s"
  using assms by (cases e) (auto simp: lc_call_defs Let_def split: strategy_state.split option.split)

lemma lc_run_lag:
  assumes "lc_waits_within (lcc_max_wait_bars (lc_config s)) (lc_state s)"
    and "lcc_max_wait_bars (lc_config s) + 1 < 2 ^ 32"
    and "fresh_bars (lc_last_processed s) evs"
  shows "lc_waits_within (lcc_max_wait_bars (lc_config s)) (lc_state (fst (lc_run v5 evs s)))
    \<and> lc_lag (lcc_max_wait_bars (lc_config s)) (lc_state (fst (lc_run v5 evs s)))
        \<le> lc_lag (lcc_max_wait_bars (lc_config s)) (lc_state s) - bar_count evs"
  using assms
proof (induction evs arbitrary: s)
  case (Cons e evs)
  let ?m = "lcc_max_wait_bars (lc_config s)"
  let ?s = "fst (lc_call v5 e s)"
  have own: "lc_own_state (lc_state s)" using Cons.prems(1) by (simp add: lc_waits_within_def)
  have within: "lc_waits_within ?m (lc_state ?s)"
    using lc_moves_within [OF lc_call_moves [OF own] Cons.prems(1)] by simp
  show ?case
  proof (cases "\<exists>ctx bar. e = EvBar ctx bar")
    case True
    then obtain ctx bar where e: "e = EvBar ctx bar" by blast
    have f: "\<not> live_bar_blocked ctx bar" "\<not> at_or_before (hb_close_time bar) (lc_last_processed s)"
        "fresh_bars (Some (hb_close_time bar)) evs"
      using Cons.prems(3) e by auto
    have s: "lc_state ?s = fst (lc_bar_state v5 (lc_config s) ctx bar (lc_state s))"
        "lc_last_processed ?s = Some (hb_close_time bar)"
      using f by (simp_all add: e lc_on_bar_def Let_def case_prod_unfold)
    have "lc_lag ?m (lc_state ?s) \<le> lc_lag ?m (lc_state s) - 1"
      unfolding s by (rule lc_bar_lag [OF Cons.prems(1,2)])
    then show ?thesis using Cons.IH [of ?s] within Cons.prems(2) f(3) s(2) e
      by (simp del: ops_call.simps) linarith
  next
    case False
    then have n: "\<And>ctx bar. e \<noteq> EvBar ctx bar" by blast
    then have "fresh_bars (lc_last_processed s) evs" "bar_count (e # evs) = bar_count evs"
      using Cons.prems(3) by (cases e; simp)+
    then show ?thesis
      using Cons.IH [of ?s] within Cons.prems(2) lc_other_lag [OF n, of ?m v5 s]
        lc_other_mark [OF n, of v5 s]
      by (simp del: ops_call.simps) linarith
  qed
qed simp

text \<open>C17. The strategy does not wait forever: once it has taken \<open>max_wait_bars_for_ack + 2\<close>
  bars, whatever acknowledgements and order events came in between, or did not come, it has
  asked for the cancel or is done.\<close>

theorem limit_cancel_ends:
  assumes "fresh_bars None evs" "lcc_max_wait_bars cfg + 2 \<le> bar_count evs"
    and "lcc_max_wait_bars cfg + 1 < 2 ^ 32"
  shows "(\<exists>c. lc_state (fst (lc_run v5 evs (limit_cancel_new cfg :: 'r limit_cancel))) = CancelSent c)
    \<or> (\<exists>t. lc_state (fst (lc_run v5 evs (limit_cancel_new cfg :: 'r limit_cancel))) = Done t)"
proof -
  define st where "st = lc_state (fst (lc_run v5 evs (limit_cancel_new cfg :: 'r limit_cancel)))"
  have "lc_waits_within (lcc_max_wait_bars cfg) st \<and> lc_lag (lcc_max_wait_bars cfg) st = 0"
    using lc_run_lag [of "limit_cancel_new cfg :: 'r limit_cancel" evs v5] assms
    by (simp add: st_def limit_cancel_new_def lc_waits_within_def)
  then show ?thesis
    unfolding st_def [symmetric] by (auto simp: lc_waits_within_def elim: lc_own_cases)
qed

definition sample_ctx :: strategy_ctx where
  "sample_ctx = \<lparr>cx_strategy_id = ''s'', cx_portfolio = ''D1'', cx_exchange = ''MOEX'',
     cx_symbol = ''IMOEXF'', cx_tick_size = Fin 1, cx_trade_mode = TmPaper,
     cx_paper_execution_mode = HistorySim, cx_allow_live_orders = False,
     cx_gateway_phase = LiveReady, cx_position_qty = None, cx_event_ts = 0, cx_now_ts = 0,
     cx_last_bar_ts = None\<rparr>"

definition sample_host_bar :: "i64 \<Rightarrow> host_bar" where
  "sample_host_bar t = \<lparr>hb_symbol = ''IMOEXF'', hb_close_time = t, hb_close = Fin 100,
     hb_o = Fin 100, hb_h = Fin 101, hb_l = Fin 99, hb_v = Fin 1, hb_origin = OrLive\<rparr>"

definition sample_lc_config :: limit_cancel_config where
  "sample_lc_config = \<lparr>lcc_symbol = ''IMOEXF'', lcc_tick_size = Fin 1, lcc_offset_ticks = 10,
     lcc_qty = Fin 1, lcc_side = Buy, lcc_max_wait_bars = 0\<rparr>"

lemma limit_cancel_ends_witness:
  "(\<exists>c. lc_state (fst (lc_run id [EvBar sample_ctx (sample_host_bar 60), EvBar sample_ctx (sample_host_bar 120)]
      (limit_cancel_new sample_lc_config :: unit limit_cancel))) = CancelSent c)
   \<or> (\<exists>t. lc_state (fst (lc_run id [EvBar sample_ctx (sample_host_bar 60), EvBar sample_ctx (sample_host_bar 120)]
      (limit_cancel_new sample_lc_config :: unit limit_cancel))) = Done t)"
  by (rule limit_cancel_ends)
    (simp_all add: sample_lc_config_def sample_ctx_def sample_host_bar_def live_bar_blocked_def)

end
