(* ===== verification/Market_Close.thy ===== *)
theory Market_Close
  imports Limit_Cancel
begin

text \<open>
  The strategy \<open>strategies/market_buy_and_close.rs\<close>: open a position, close it on the next bar
  or the next position update. In paper and backtest mode it walks through its states on bars;
  in live mode it waits for the broker's position and gives up on timeouts.
\<close>

section \<open>The object\<close>

datatype live_order_style = StyleMarket | StyleMarketableLimit

fun style_str :: "live_order_style \<Rightarrow> string" where
  "style_str StyleMarket = ''market''"
| "style_str StyleMarketableLimit = ''marketable_limit''"

record market_close_config =
  mcc_symbol :: string
  mcc_qty :: f64
  mcc_side :: side
  mcc_style :: live_order_style
  mcc_tick_size :: f64
  mcc_offset_ticks :: i64
  mcc_close_trigger :: close_trigger
  mcc_entry_ack_timeout_ms :: u64
  mcc_entry_fill_timeout_ms :: u64
  mcc_exit_ack_timeout_ms :: u64
  mcc_exit_fill_timeout_ms :: u64

record 'r market_close =
  mc_config :: market_close_config
  mc_state :: "'r strategy_state"
  mc_last_processed :: "i64 option"
  mc_last_bar_close :: "f64 option"

definition market_close_new :: "market_close_config \<Rightarrow> 'r market_close" where
  "market_close_new cfg = \<lparr>mc_config = cfg, mc_state = Idle, mc_last_processed = None,
     mc_last_bar_close = None\<rparr>"

fun opposite :: "side \<Rightarrow> side" where
  "opposite Buy = Sell" | "opposite Sell = Buy"

definition mc_close_side :: "market_close_config \<Rightarrow> side" where
  "mc_close_side cfg = opposite (mcc_side cfg)"

text \<open>\<open>offset.max(0) + 1\<close> on an \<open>i64\<close>.\<close>

definition marketable_price :: "market_close_config \<Rightarrow> side \<Rightarrow> f64 \<Rightarrow> f64" where
  "marketable_price cfg sd reference =
     (if mcc_tick_size cfg \<le> 0 then reference
      else let shift = f64_of_int (as_i64 (max (mcc_offset_ticks cfg) 0 + 1)) * mcc_tick_size cfg
           in case sd of Buy \<Rightarrow> reference + shift | Sell \<Rightarrow> reference - shift)"

definition build_live_intent :: "market_close_config \<Rightarrow> side \<Rightarrow> f64 \<Rightarrow> f64 \<Rightarrow> intent" where
  "build_live_intent cfg sd qty reference =
     (case mcc_style cfg of
        StyleMarket \<Rightarrow> IMarket qty sd None None
      | StyleMarketableLimit \<Rightarrow> IPlace (marketable_price cfg sd reference) qty sd None)"

definition live_request_id ::
  "(string \<Rightarrow> uuid) \<Rightarrow> live_order_style \<Rightarrow> strategy_ctx \<Rightarrow> string \<Rightarrow> side \<Rightarrow> uuid" where
  "live_request_id v5 style ctx symbol sd =
     (case style of
        StyleMarket \<Rightarrow> deterministic_market_request_id v5 (cx_strategy_id ctx) (cx_portfolio ctx)
          symbol (cx_event_ts ctx) sd
      | StyleMarketableLimit \<Rightarrow> deterministic_request_id v5 (cx_strategy_id ctx) (cx_portfolio ctx)
          symbol ''place'' (cx_event_ts ctx) 0)"

section \<open>Paper and backtest\<close>

definition mc_paper_bar ::
  "(string \<Rightarrow> uuid) \<Rightarrow> market_close_config \<Rightarrow> strategy_ctx \<Rightarrow> host_bar \<Rightarrow> 'r strategy_state
   \<Rightarrow> 'r strategy_state \<times> intent list" where
  "mc_paper_bar v5 cfg ctx bar st =
     (let t = hb_close_time bar;
          rid = (\<lambda>action n. deterministic_request_id v5 (cx_strategy_id ctx) (cx_portfolio ctx)
                   (hb_symbol bar) action t n)
      in case st of
        Idle \<Rightarrow> (MarketBuyPending \<lparr>bp_request_id = rid ''market_buy'' 0,
            bp_baseline_qty = cx_position_qty ctx, bp_close_trigger = NextBar,
            bp_pending_bar_ts = t, bp_last_bar_ts = t\<rparr>, [])
      | MarketBuyPending p \<Rightarrow>
          if bp_pending_bar_ts p < t then
            (MarketBuySent \<lparr>bu_request_id = bp_request_id p, bu_baseline_qty = bp_baseline_qty p,
               bu_close_trigger = bp_close_trigger p, bu_buy_bar_ts = t, bu_last_bar_ts = t\<rparr>,
             [IMarket (mcc_qty cfg) (mcc_side cfg) (Some (hb_o bar)) None])
          else (MarketBuyPending (p\<lparr>bp_last_bar_ts := t\<rparr>), [])
      | MarketBuySent p \<Rightarrow>
          if bu_buy_bar_ts p < t then
            (MarketCloseSent \<lparr>cl_request_id = rid ''market_close'' 1,
               cl_baseline_qty = bu_baseline_qty p, cl_last_bar_ts = t\<rparr>,
             [IMarket (mcc_qty cfg) (mc_close_side cfg) (Some (hb_o bar)) None])
          else (MarketBuySent (p\<lparr>bu_last_bar_ts := t\<rparr>), [])
      | MarketCloseSent c \<Rightarrow> (MarketCloseSent (c\<lparr>cl_last_bar_ts := t\<rparr>), [])
      | Done _ \<Rightarrow> (Done t, [])
      | Blocked r _ \<Rightarrow> (Blocked r t, [])
      | _ \<Rightarrow> (st, []))"

section \<open>Live\<close>

definition mc_live_entry ::
  "(string \<Rightarrow> uuid) \<Rightarrow> market_close_config \<Rightarrow> strategy_ctx \<Rightarrow> host_bar
   \<Rightarrow> 'r strategy_state \<times> intent list" where
  "mc_live_entry v5 cfg ctx bar =
     (case cx_last_bar_ts ctx of
        None \<Rightarrow> (Idle, [])
      | Some _ \<Rightarrow>
          (MarketLivePendingEntry
             \<lparr>en_request_guid = live_request_id v5 (mcc_style cfg) ctx (hb_symbol bar) (mcc_side cfg),
              en_side = mcc_side cfg, en_qty = mcc_qty cfg,
              en_baseline_qty = (case cx_position_qty ctx of None \<Rightarrow> 0 | Some q \<Rightarrow> q),
              en_close_trigger = mcc_close_trigger cfg, en_sent_ts = cx_now_ts ctx,
              en_acked = False, en_entry_confirmed_ts = None, en_last_bar_ts = hb_close_time bar\<rparr>,
           [build_live_intent cfg (mcc_side cfg) (mcc_qty cfg) (hb_close bar)]))"

text \<open>Milliseconds since an order was sent, as a \<open>u64\<close>.\<close>

definition elapsed_ms :: "i64 \<Rightarrow> i64 \<Rightarrow> u64" where
  "elapsed_ms now sent = as_u64 (sat_sub (sat_mul now 1000) (sat_mul sent 1000))"

definition check_live_timeouts ::
  "market_close_config \<Rightarrow> i64 \<Rightarrow> i64 \<Rightarrow> 'r strategy_state \<Rightarrow> 'r strategy_state" where
  "check_live_timeouts cfg now bar_ts st =
     (case st of
        MarketLivePendingEntry e \<Rightarrow>
          let elapsed = elapsed_ms now (en_sent_ts e) in
          if \<not> en_acked e \<and> mcc_entry_ack_timeout_ms cfg < elapsed then
            Blocked (''entry_ack_timeout_ms exceeded: '' @ show_nat (mcc_entry_ack_timeout_ms cfg)) bar_ts
          else if en_entry_confirmed_ts e = None \<and> mcc_entry_fill_timeout_ms cfg < elapsed then
            Blocked (''entry_fill_timeout_ms exceeded: '' @ show_nat (mcc_entry_fill_timeout_ms cfg)) bar_ts
          else st
      | MarketLivePendingExit e \<Rightarrow>
          let elapsed = elapsed_ms now (ex_sent_ts e) in
          if \<not> ex_acked e \<and> mcc_exit_ack_timeout_ms cfg < elapsed then
            Blocked (''exit_ack_timeout_ms exceeded: '' @ show_nat (mcc_exit_ack_timeout_ms cfg)) bar_ts
          else if mcc_exit_fill_timeout_ms cfg < elapsed then
            Blocked (''exit_fill_timeout_ms exceeded: '' @ show_nat (mcc_exit_fill_timeout_ms cfg)) bar_ts
          else st
      | _ \<Rightarrow> st)"

definition mc_pending_exit ::
  "(string \<Rightarrow> uuid) \<Rightarrow> market_close_config \<Rightarrow> strategy_ctx \<Rightarrow> string \<Rightarrow> string \<Rightarrow> f64 \<Rightarrow> i64
   \<Rightarrow> 'r strategy_state" where
  "mc_pending_exit v5 cfg ctx symbol reason baseline bar_ts =
     MarketLivePendingExit
       \<lparr>ex_request_guid = live_request_id v5 (mcc_style cfg) ctx symbol (mc_close_side cfg),
        ex_reason = reason, ex_side = mc_close_side cfg, ex_qty = mcc_qty cfg,
        ex_baseline_qty = baseline, ex_sent_ts = cx_now_ts ctx, ex_acked = False,
        ex_last_bar_ts = bar_ts\<rparr>"

definition mc_live_bar ::
  "(string \<Rightarrow> uuid) \<Rightarrow> market_close_config \<Rightarrow> strategy_ctx \<Rightarrow> host_bar \<Rightarrow> 'r strategy_state
   \<Rightarrow> 'r strategy_state \<times> intent list" where
  "mc_live_bar v5 cfg ctx bar st0 =
     (let t = hb_close_time bar; st = check_live_timeouts cfg (cx_now_ts ctx) t st0 in
      case st of
        Idle \<Rightarrow> mc_live_entry v5 cfg ctx bar
      | MarketLiveInPosition p \<Rightarrow>
          if in_close_trigger p = NextBar \<and> in_opened_ts p < t then
            (mc_pending_exit v5 cfg ctx (hb_symbol bar) ''next_bar'' (in_baseline_qty p) t,
             [build_live_intent cfg (mc_close_side cfg) (mcc_qty cfg) (hb_close bar)])
          else (st, [])
      | MarketLivePendingEntry e \<Rightarrow> (MarketLivePendingEntry (e\<lparr>en_last_bar_ts := t\<rparr>), [])
      | MarketLivePendingExit e \<Rightarrow> (MarketLivePendingExit (e\<lparr>ex_last_bar_ts := t\<rparr>), [])
      | Blocked r _ \<Rightarrow> (Blocked r t, [])
      | Done _ \<Rightarrow> (Done t, [])
      | _ \<Rightarrow> (st, []))"

definition mc_on_bar ::
  "(string \<Rightarrow> uuid) \<Rightarrow> strategy_ctx \<Rightarrow> host_bar \<Rightarrow> 'r market_close \<Rightarrow> 'r market_close \<times> intent list"
where
  "mc_on_bar v5 ctx bar s =
     (let t = hb_close_time bar in
      if live_bar_blocked ctx bar \<or> hb_symbol bar \<noteq> mcc_symbol (mc_config s) then
        (s\<lparr>mc_last_processed := Some t\<rparr>, [])
      else if at_or_before t (mc_last_processed s) then (s, [])
      else (case (if cx_trade_mode ctx = TmLive then mc_live_bar v5 (mc_config s) ctx bar (mc_state s)
                  else mc_paper_bar v5 (mc_config s) ctx bar (mc_state s)) of
              (st, is) \<Rightarrow> (s\<lparr>mc_state := st, mc_last_processed := Some t,
                            mc_last_bar_close := Some (hb_close bar)\<rparr>, is)))"

text \<open>The \<open>Debug\<close> text of a status.\<close>

fun debug_ack_status :: "ack_status \<Rightarrow> string" where
  "debug_ack_status Accepted = ''Accepted''" | "debug_ack_status Confirmed = ''Confirmed''"
| "debug_ack_status Rejected = ''Rejected''" | "debug_ack_status Duplicate = ''Duplicate''"
| "debug_ack_status Expired = ''Expired''" | "debug_ack_status Error = ''Error''"

definition mc_on_ack ::
  "strategy_ctx \<Rightarrow> command_ack \<Rightarrow> 'r market_close \<Rightarrow> 'r market_close \<times> intent list" where
  "mc_on_ack ctx ack s =
     ((case mc_state s of
        MarketLivePendingEntry e \<Rightarrow>
          if ack_request_id ack \<noteq> en_request_guid e then s
          else if ack_good (ack_status ack) then
            s\<lparr>mc_state := MarketLivePendingEntry (e\<lparr>en_acked := True\<rparr>)\<rparr>
          else s\<lparr>mc_state := Blocked (''entry_rejected status='' @ debug_ack_status (ack_status ack))
                   (ack_processed_ts_utc ack)\<rparr>
      | MarketLivePendingExit e \<Rightarrow>
          if ack_request_id ack \<noteq> ex_request_guid e then s
          else if ack_good (ack_status ack) then
            s\<lparr>mc_state := MarketLivePendingExit (e\<lparr>ex_acked := True\<rparr>)\<rparr>
          else s\<lparr>mc_state := Blocked (''exit_rejected status='' @ debug_ack_status (ack_status ack))
                   (ack_processed_ts_utc ack)\<rparr>
      | _ \<Rightarrow> s), [])"

definition mc_on_order ::
  "strategy_ctx \<Rightarrow> host_order \<Rightarrow> 'r market_close \<Rightarrow> 'r market_close \<times> intent list" where
  "mc_on_order ctx ord s = (s, [])"

definition mc_on_position ::
  "(string \<Rightarrow> uuid) \<Rightarrow> strategy_ctx \<Rightarrow> host_position \<Rightarrow> 'r market_close
   \<Rightarrow> 'r market_close \<times> intent list" where
  "mc_on_position v5 ctx pos s =
     (let cfg = mc_config s;
          now = (case cx_last_bar_ts ctx of Some t \<Rightarrow> t | None \<Rightarrow> hp_ts pos)
      in if hp_symbol pos \<noteq> mcc_symbol cfg then (s, [])
      else case mc_state s of
        MarketLivePendingEntry e \<Rightarrow>
          if f64_epsilon < \<bar>hp_qty pos - en_baseline_qty e\<bar> then
            (s\<lparr>mc_state := MarketLiveInPosition
                 \<lparr>in_side = mcc_side cfg, in_qty = mcc_qty cfg, in_avg_price = hp_avg_price pos,
                  in_baseline_qty = en_baseline_qty e, in_close_trigger = en_close_trigger e,
                  in_opened_ts = now, in_last_bar_ts = now\<rparr>\<rparr>, [])
          else (s\<lparr>mc_state := MarketLivePendingEntry (e\<lparr>en_last_bar_ts := now\<rparr>)\<rparr>, [])
      | MarketLiveInPosition p \<Rightarrow>
          if \<bar>hp_qty pos - in_baseline_qty p\<bar> \<le> f64_epsilon then (s\<lparr>mc_state := Idle\<rparr>, [])
          else if in_close_trigger p = PositionUpdate then
            (s\<lparr>mc_state := mc_pending_exit v5 cfg ctx (hp_symbol pos) ''position_update''
                 (in_baseline_qty p) now\<rparr>,
             [build_live_intent cfg (mc_close_side cfg) (mcc_qty cfg)
                (case mc_last_bar_close s of Some c \<Rightarrow> c | None \<Rightarrow> hp_avg_price pos)])
          else (s, [])
      | MarketLivePendingExit e \<Rightarrow>
          if \<bar>hp_qty pos - ex_baseline_qty e\<bar> \<le> f64_epsilon then (s\<lparr>mc_state := Done now\<rparr>, [])
          else (s\<lparr>mc_state := MarketLivePendingExit (e\<lparr>ex_last_bar_ts := now\<rparr>)\<rparr>, [])
      | Idle \<Rightarrow>
          if f64_epsilon < \<bar>hp_qty pos\<bar> then
            (s\<lparr>mc_state := MarketLiveInPosition
                 \<lparr>in_side = mcc_side cfg, in_qty = \<bar>hp_qty pos\<bar>, in_avg_price = hp_avg_price pos,
                  in_baseline_qty = 0, in_close_trigger = mcc_close_trigger cfg,
                  in_opened_ts = now, in_last_bar_ts = now\<rparr>\<rparr>, [])
          else (s, [])
      | _ \<Rightarrow> (s, []))"

definition mc_pending_request_ids :: "'r market_close \<Rightarrow> uuid list" where
  "mc_pending_request_ids s =
     (case mc_state s of
        MarketBuyPending p \<Rightarrow> [bp_request_id p]
      | MarketBuySent p \<Rightarrow> [bu_request_id p]
      | MarketCloseSent c \<Rightarrow> [cl_request_id c]
      | MarketLivePendingEntry e \<Rightarrow> [en_request_guid e]
      | MarketLivePendingExit e \<Rightarrow> [ex_request_guid e]
      | _ \<Rightarrow> [])"

definition market_close_ops ::
  "(string \<Rightarrow> uuid) \<Rightarrow> ('r market_close, 'r strategy_state) strategy_ops" where
  "market_close_ops v5 =
     \<lparr>so_on_bar = mc_on_bar v5, so_on_ack = mc_on_ack, so_on_order = mc_on_order,
      so_on_stop_order = default_on_stop_order, so_on_position = mc_on_position v5,
      so_on_timer = default_on_timer, so_on_bootstrap_snapshot = default_on_bootstrap_snapshot,
      so_on_runtime_state_restored = default_on_runtime_state_restored,
      so_warmup_from_history = default_warmup_from_history,
      so_tracked_order_ids = (\<lambda>_. []), so_pending_request_ids = mc_pending_request_ids,
      so_intent_comment_tag = default_intent_comment_tag,
      so_on_command_prepared = default_on_command_prepared,
      so_on_intent_blocked = default_on_intent_blocked,
      so_state = mc_state, so_set_state = (\<lambda>st s. s\<lparr>mc_state := st\<rparr>)\<rparr>"

section \<open>Runs\<close>

lemma market_close_ops_simps [simp]:
  "so_on_bar (market_close_ops v5) = mc_on_bar v5" "so_on_ack (market_close_ops v5) = mc_on_ack"
  "so_on_order (market_close_ops v5) = mc_on_order"
  "so_on_stop_order (market_close_ops v5) = default_on_stop_order"
  "so_on_position (market_close_ops v5) = mc_on_position v5"
  "so_pending_request_ids (market_close_ops v5) = mc_pending_request_ids"
  "so_state (market_close_ops v5) = mc_state"
  "so_set_state (market_close_ops v5) = (\<lambda>st s. s\<lparr>mc_state := st\<rparr>)"
  by (simp_all add: market_close_ops_def)

interpretation mc: strategy_object "market_close_ops v5"
  by unfold_locales simp

abbreviation mc_call :: "(string \<Rightarrow> uuid) \<Rightarrow> host_event \<Rightarrow> 'r market_close \<Rightarrow> 'r market_close \<times> intent list" where
  "mc_call v5 \<equiv> ops_call (market_close_ops v5)"

abbreviation mc_run :: "(string \<Rightarrow> uuid) \<Rightarrow> host_event list \<Rightarrow> 'r market_close \<Rightarrow> 'r market_close \<times> intent list" where
  "mc_run v5 \<equiv> ops_run (market_close_ops v5)"

section \<open>Paper: one round trip\<close>

text \<open>The orders of a paper run over a list of bars, by the position of the bar.\<close>

definition paper_orders :: "market_close_config \<Rightarrow> host_bar list \<Rightarrow> intent list" where
  "paper_orders cfg bars =
     (case bars of
        b0 # b1 # rest \<Rightarrow>
          IMarket (mcc_qty cfg) (mcc_side cfg) (Some (hb_o b1)) None #
          (case rest of
             b2 # _ \<Rightarrow> [IMarket (mcc_qty cfg) (mc_close_side cfg) (Some (hb_o b2)) None]
           | [] \<Rightarrow> [])
      | _ \<Rightarrow> [])"

definition paper_bars :: "market_close_config \<Rightarrow> (strategy_ctx \<times> host_bar) list \<Rightarrow> bool" where
  "paper_bars cfg cbs \<longleftrightarrow>
     (\<forall>(ctx, bar)\<in>set cbs. cx_trade_mode ctx \<noteq> TmLive \<and> hb_symbol bar = mcc_symbol cfg)
     \<and> sorted_wrt (<) (map (hb_close_time \<circ> snd) cbs)"

lemma mc_paper_step:
  assumes "cx_trade_mode ctx \<noteq> TmLive" "hb_symbol bar = mcc_symbol (mc_config s)"
    and "\<not> at_or_before (hb_close_time bar) (mc_last_processed s)"
  shows "mc_on_bar v5 ctx bar s =
    (s\<lparr>mc_state := fst (mc_paper_bar v5 (mc_config s) ctx bar (mc_state s)),
       mc_last_processed := Some (hb_close_time bar), mc_last_bar_close := Some (hb_close bar)\<rparr>,
     snd (mc_paper_bar v5 (mc_config s) ctx bar (mc_state s)))"
  using assms by (simp add: mc_on_bar_def live_bar_blocked_def Let_def case_prod_unfold)

lemma mc_paper_rest:
  assumes "paper_bars (mc_config s) cbs" "mc_state s = MarketCloseSent c"
    and "\<forall>(ctx, bar)\<in>set cbs. \<not> at_or_before (hb_close_time bar) (mc_last_processed s)"
  shows "snd (mc_run v5 (map (\<lambda>(c, b). EvBar c b) cbs) s) = []"
  using assms
proof (induction cbs arbitrary: s c)
  case (Cons cb cbs)
  obtain ctx bar where cb: "cb = (ctx, bar)" by (cases cb)
  have step: "mc_on_bar v5 ctx bar s = (s\<lparr>mc_state := MarketCloseSent (c\<lparr>cl_last_bar_ts := hb_close_time bar\<rparr>),
      mc_last_processed := Some (hb_close_time bar), mc_last_bar_close := Some (hb_close bar)\<rparr>, [])"
    using Cons.prems cb by (subst mc_paper_step) (auto simp: paper_bars_def mc_paper_bar_def)
  show ?case
    using Cons.prems cb
    by (auto simp: step paper_bars_def split: prod.splits intro!: Cons.IH)
qed simp

text \<open>In paper and backtest mode the strategy makes one round trip: over bars of its symbol
  in order it asks for nothing on the first, for the entry at the open of the second, for the
  close at the open of the third, and for nothing more.\<close>

theorem paper_round_trip:
  assumes "paper_bars cfg cbs"
  shows "snd (mc_run v5 (map (\<lambda>(c, b). EvBar c b) cbs) (market_close_new cfg :: 'r market_close))
    = paper_orders cfg (map snd cbs)"
proof -
  define start :: "'r market_close" where "start = market_close_new cfg"
  note step = mc_paper_step mc_paper_bar_def paper_bars_def paper_orders_def Let_def start_def
    market_close_new_def
  consider "cbs = []" | c0 b0 where "cbs = [(c0, b0)]"
    | c0 b0 c1 b1 where "cbs = [(c0, b0), (c1, b1)]"
    | c0 b0 c1 b1 c2 b2 rest where "cbs = (c0, b0) # (c1, b1) # (c2, b2) # rest"
    by (metis neq_Nil_conv prod.exhaust)
  then have "snd (mc_run v5 (map (\<lambda>(c, b). EvBar c b) cbs) start) = paper_orders cfg (map snd cbs)"
  proof cases
    case (4 c0 b0 c1 b1 c2 b2 rest)
    have "snd (mc_run v5 (map (\<lambda>(c, b). EvBar c b) rest) s) = []"
      if "mc_config s = cfg" "mc_state s = MarketCloseSent c" "mc_last_processed s = Some (hb_close_time b2)"
      for s :: "'r market_close" and c
      using assms that by (intro mc_paper_rest) (auto simp: 4 paper_bars_def split: prod.splits)
    then show ?thesis using assms unfolding 4 by (simp add: step)
  qed (use assms in \<open>simp_all add: step\<close>)
  then show ?thesis by (simp add: start_def)
qed

definition sample_mc_config :: market_close_config where
  "sample_mc_config = \<lparr>mcc_symbol = ''IMOEXF'', mcc_qty = Fin 1, mcc_side = Buy,
     mcc_style = StyleMarket, mcc_tick_size = Fin 1, mcc_offset_ticks = 2,
     mcc_close_trigger = NextBar, mcc_entry_ack_timeout_ms = 3000,
     mcc_entry_fill_timeout_ms = 10000, mcc_exit_ack_timeout_ms = 3000,
     mcc_exit_fill_timeout_ms = 10000\<rparr>"

lemma paper_round_trip_witness:
  "snd (mc_run id (map (\<lambda>(c, b). EvBar c b) [(sample_ctx, sample_host_bar 60),
      (sample_ctx, sample_host_bar 120), (sample_ctx, sample_host_bar 180)])
      (market_close_new sample_mc_config :: unit market_close))
    = [IMarket (Fin 1) Buy (Some (Fin 100)) None, IMarket (Fin 1) Sell (Some (Fin 100)) None]"
  by (subst paper_round_trip)
    (simp_all add: paper_bars_def paper_orders_def sample_ctx_def sample_host_bar_def
      sample_mc_config_def mc_close_side_def)

section \<open>Live: at most one exit, and nothing after it\<close>

fun intent_side :: "intent \<Rightarrow> side option" where
  "intent_side (IPlace _ _ sd _) = Some sd"
| "intent_side (IMarket _ sd _ _) = Some sd"
| "intent_side i = None"

definition order_sides :: "intent list \<Rightarrow> side option list" where
  "order_sides is = map intent_side is"

fun live_call :: "host_event \<Rightarrow> bool" where
  "live_call (EvBar ctx _) = (cx_trade_mode ctx = TmLive)"
| "live_call _ = True"

text \<open>The states a live run goes through, and whether its exit may be out.\<close>

fun mc_before_exit :: "'r strategy_state \<Rightarrow> bool" where
  "mc_before_exit Idle = True" | "mc_before_exit (MarketLivePendingEntry _) = True"
| "mc_before_exit (MarketLiveInPosition _) = True" | "mc_before_exit (Blocked _ _) = True"
| "mc_before_exit _ = False"

fun mc_after_exit :: "'r strategy_state \<Rightarrow> bool" where
  "mc_after_exit (MarketLivePendingExit _) = True" | "mc_after_exit (Blocked _ _) = True"
| "mc_after_exit (Done _) = True" | "mc_after_exit _ = False"

definition mc_round :: "market_close_config \<Rightarrow> 'r strategy_state \<Rightarrow> intent list \<Rightarrow> bool" where
  "mc_round cfg st is \<longleftrightarrow>
     (\<exists>n. order_sides is = replicate n (Some (mcc_side cfg)) \<and> mc_before_exit st
        \<or> order_sides is = replicate n (Some (mcc_side cfg)) @ [Some (mc_close_side cfg)]
          \<and> mc_after_exit st)"

text \<open>What one live call can do.\<close>

inductive mc_moves ::
  "market_close_config \<Rightarrow> 'r strategy_state \<Rightarrow> intent list \<Rightarrow> 'r strategy_state \<Rightarrow> bool" for cfg where
  stays_before: "mc_before_exit st \<Longrightarrow> mc_before_exit st' \<Longrightarrow> (\<exists>r u. st = Blocked r u) \<longrightarrow> mc_after_exit st'
                 \<Longrightarrow> mc_moves cfg st [] st'"
| stays_after: "mc_after_exit st \<Longrightarrow> mc_after_exit st' \<Longrightarrow> (\<exists>r u. st = Blocked r u) \<longrightarrow> mc_before_exit st'
                \<Longrightarrow> mc_moves cfg st [] st'"
| enters: "intent_side i = Some (mcc_side cfg)
           \<Longrightarrow> mc_moves cfg Idle [i] (MarketLivePendingEntry e)"
| exits: "intent_side i = Some (mc_close_side cfg)
          \<Longrightarrow> mc_moves cfg (MarketLiveInPosition p) [i] (MarketLivePendingExit e)"

lemma mc_moves_round:
  "mc_moves cfg st is st' \<Longrightarrow> mc_round cfg st is0 \<Longrightarrow> mc_round cfg st' (is0 @ is)"
proof (induction rule: mc_moves.induct)
  case (enters i e)
  then obtain n where "order_sides is0 = replicate n (Some (mcc_side cfg))"
    by (auto simp: mc_round_def)
  then have "order_sides (is0 @ [i]) = replicate (Suc n) (Some (mcc_side cfg))"
    using enters.hyps by (simp add: order_sides_def replicate_append_same)
  then show ?case unfolding mc_round_def by (metis mc_before_exit.simps(2))
next
  case (stays_before st st')
  then show ?case by (cases st) (auto simp: mc_round_def)
next
  case (stays_after st st')
  then show ?case by (cases st) (auto simp: mc_round_def)
qed (auto simp: mc_round_def order_sides_def)

lemma build_live_intent_side [simp]: "intent_side (build_live_intent cfg sd q r) = Some sd"
  by (simp add: build_live_intent_def split: live_order_style.split)

lemma mc_live_bar_moves:
  assumes "mc_before_exit st \<or> mc_after_exit st"
  shows "mc_moves cfg st (snd (mc_live_bar v5 cfg ctx bar st)) (fst (mc_live_bar v5 cfg ctx bar st))"
proof (cases st)
  case (MarketLivePendingEntry e)
  then show ?thesis
    by (auto simp: mc_live_bar_def check_live_timeouts_def Let_def intro: mc_moves.stays_before)
next
  case (MarketLivePendingExit e)
  then show ?thesis
    by (auto simp: mc_live_bar_def check_live_timeouts_def Let_def intro: mc_moves.stays_after)
next
  case Idle
  then show ?thesis
    by (auto simp: mc_live_bar_def check_live_timeouts_def Let_def mc_live_entry_def
        intro: mc_moves.stays_before mc_moves.enters split: option.split)
next
  case (MarketLiveInPosition p)
  then show ?thesis
    by (auto simp: mc_live_bar_def check_live_timeouts_def Let_def mc_pending_exit_def
        intro: mc_moves.stays_before mc_moves.exits)
qed (use assms in \<open>auto simp: mc_live_bar_def check_live_timeouts_def Let_def
      intro: mc_moves.stays_after mc_moves.stays_before\<close>)

lemma mc_stay: "mc_before_exit st \<or> mc_after_exit st \<Longrightarrow> mc_moves cfg st [] st"
  by (cases st) (auto intro: mc_moves.stays_before mc_moves.stays_after)

lemma mc_on_position_moves:
  assumes "mc_before_exit (mc_state s) \<or> mc_after_exit (mc_state s)"
  shows "mc_moves (mc_config s) (mc_state s) (snd (mc_on_position v5 ctx pos s))
           (mc_state (fst (mc_on_position v5 ctx pos s)))"
  using assms mc_stay [OF assms, of "mc_config s"]
  by (cases "mc_state s")
    (auto simp: mc_on_position_def Let_def mc_pending_exit_def
      intro: mc_moves.stays_before mc_moves.stays_after mc_moves.exits)

lemma mc_on_ack_moves:
  assumes "mc_before_exit (mc_state s) \<or> mc_after_exit (mc_state s)"
  shows "mc_moves cfg (mc_state s) (snd (mc_on_ack ctx ack s)) (mc_state (fst (mc_on_ack ctx ack s)))"
  using assms mc_stay [OF assms, of cfg]
  by (cases "mc_state s")
    (auto simp: mc_on_ack_def intro: mc_moves.stays_before mc_moves.stays_after)

lemma mc_on_bar_moves:
  assumes "mc_before_exit (mc_state s) \<or> mc_after_exit (mc_state s)" "cx_trade_mode ctx = TmLive"
  shows "mc_moves (mc_config s) (mc_state s) (snd (mc_on_bar v5 ctx bar s))
           (mc_state (fst (mc_on_bar v5 ctx bar s)))"
  using assms(2) mc_stay [OF assms(1), of "mc_config s"]
    mc_live_bar_moves [OF assms(1), of "mc_config s" v5 ctx bar]
  by (auto simp: mc_on_bar_def Let_def case_prod_unfold)

lemma mc_config_frame [simp]: "mc_config (fst (mc_call v5 e s)) = mc_config s"
  by (cases e)
    (auto simp: mc_on_bar_def mc_on_ack_def mc_on_order_def mc_on_position_def
      default_on_stop_order_def Let_def case_prod_unfold split: strategy_state.split)

lemma mc_round_states: "mc_round cfg st is \<Longrightarrow> mc_before_exit st \<or> mc_after_exit st"
  by (auto simp: mc_round_def)

lemma mc_call_round:
  assumes "live_call e" "mc_round (mc_config s) (mc_state s) is"
  shows "mc_round (mc_config s) (mc_state (fst (mc_call v5 e s))) (is @ snd (mc_call v5 e s))"
proof -
  note st = mc_round_states [OF assms(2)]
  have "mc_moves (mc_config s) (mc_state s) (snd (mc_call v5 e s)) (mc_state (fst (mc_call v5 e s)))"
    using assms(1) mc_on_bar_moves [OF st] mc_on_ack_moves [OF st] mc_on_position_moves [OF st]
      mc_stay [OF st]
    by (cases e) (simp_all add: mc_on_order_def default_on_stop_order_def)
  then show ?thesis using assms(2) by (rule mc_moves_round)
qed

lemma mc_run_round:
  assumes "list_all live_call evs" "mc_round (mc_config s) (mc_state s) is0"
  shows "mc_round (mc_config s) (mc_state (fst (mc_run v5 evs s))) (is0 @ snd (mc_run v5 evs s))"
  using assms
proof (induction evs arbitrary: s is0)
  case (Cons e evs)
  have "mc_round (mc_config (fst (mc_call v5 e s))) (mc_state (fst (mc_call v5 e s)))
      (is0 @ snd (mc_call v5 e s))"
    using mc_call_round [OF _ Cons.prems(2), of e v5] Cons.prems(1) by simp
  from Cons.IH [OF _ this] Cons.prems(1) show ?case by simp
qed simp

text \<open>C18. In live mode the strategy never asks for a second exit, and for nothing after the
  exit: over any sequence of calls its orders are entries on the configured side, then at most
  one order on the opposite side, and once that is out it waits for the position, is blocked or
  done. While an entry is pending it asks for nothing.\<close>

theorem live_single_exit:
  assumes "list_all live_call evs"
  shows "mc_round cfg (mc_state (fst (mc_run v5 evs (market_close_new cfg :: 'r market_close))))
           (snd (mc_run v5 evs (market_close_new cfg :: 'r market_close)))"
  using mc_run_round [OF assms, of "market_close_new cfg :: 'r market_close" "[]" v5]
  by (simp add: market_close_new_def mc_round_def order_sides_def)

definition sample_live_ctx :: strategy_ctx where
  "sample_live_ctx = sample_ctx\<lparr>cx_trade_mode := TmLive, cx_allow_live_orders := True,
     cx_last_bar_ts := Some 0, cx_now_ts := 60\<rparr>"

lemma live_single_exit_witness:
  "snd (mc_run id [EvBar sample_live_ctx (sample_host_bar 60)]
       (market_close_new sample_mc_config :: unit market_close)) = [IMarket (Fin 1) Buy None None]
   \<and> mc_round sample_mc_config
       (mc_state (fst (mc_run id [EvBar sample_live_ctx (sample_host_bar 60)]
         (market_close_new sample_mc_config :: unit market_close))))
       [IMarket (Fin 1) Buy None None]"
proof -
  have run: "snd (mc_run id [EvBar sample_live_ctx (sample_host_bar 60)]
       (market_close_new sample_mc_config :: unit market_close)) = [IMarket (Fin 1) Buy None None]"
    by (simp add: mc_on_bar_def live_bar_blocked_def sample_ctx_def sample_live_ctx_def
        sample_host_bar_def market_close_new_def sample_mc_config_def mc_live_bar_def
        check_live_timeouts_def mc_live_entry_def build_live_intent_def Let_def)
  then show ?thesis
    using live_single_exit [of "[EvBar sample_live_ctx (sample_host_bar 60)]" sample_mc_config id,
        where 'r = unit]
    by (simp add: sample_live_ctx_def)
qed

section \<open>Timeouts\<close>

lemma elapsed_forward:
  assumes "0 \<le> sent" "sent \<le> now" "now * 1000 \<le> i64_max"
  shows "elapsed_ms now sent = nat ((now - sent) * 1000)"
proof -
  have "0 \<le> now * 1000 - sent * 1000" "now * 1000 - sent * 1000 \<le> i64_max"
      "i64_min \<le> now * 1000" "i64_min \<le> sent * 1000" "sent * 1000 \<le> i64_max"
    using assms by (simp_all add: i64_min_def)
  then show ?thesis using assms(3)
    by (simp add: elapsed_ms_def sat_sub_def sat_mul_def as_u64_nonneg i64_min_def algebra_simps)
qed

lemma elapsed_backward:
  assumes "0 \<le> now" "now < sent" "sent * 1000 \<le> i64_max"
  shows "i64_max < int (elapsed_ms now sent)"
proof -
  have b: "i64_min \<le> now * 1000 - sent * 1000" "now * 1000 - sent * 1000 < 0"
      "i64_min \<le> now * 1000" "now * 1000 \<le> i64_max" "i64_min \<le> sent * 1000"
    using assms by (simp_all add: i64_min_def i64_max_def)
  then have "elapsed_ms now sent = nat (now * 1000 - sent * 1000 + 18446744073709551616)"
    using assms(3) by (simp add: elapsed_ms_def sat_sub_def sat_mul_def as_u64_neg i64_max_def)
  then show ?thesis using b by (simp add: i64_min_def i64_max_def)
qed

text \<open>When a pending entry times out: at a bar it is given up exactly if it is not
  acknowledged and the acknowledgement timeout has passed, or the position is not confirmed and
  the fill timeout has passed, or if the clock has gone back behind the time it was sent, for
  then the negative difference read as an unsigned number exceeds every timeout.\<close>

theorem pending_entry_times_out:
  assumes "0 \<le> now" "now * 1000 \<le> i64_max" "0 \<le> en_sent_ts e" "en_sent_ts e * 1000 \<le> i64_max"
    and "int (mcc_entry_ack_timeout_ms cfg) \<le> i64_max"
    and "int (mcc_entry_fill_timeout_ms cfg) \<le> i64_max"
  shows "(\<exists>r. check_live_timeouts cfg now t (MarketLivePendingEntry e) = Blocked r t) \<longleftrightarrow>
     \<not> en_acked e \<and> (now < en_sent_ts e
        \<or> int (mcc_entry_ack_timeout_ms cfg) < (now - en_sent_ts e) * 1000)
     \<or> en_entry_confirmed_ts e = None \<and> (now < en_sent_ts e
        \<or> int (mcc_entry_fill_timeout_ms cfg) < (now - en_sent_ts e) * 1000)"
proof -
  have over: "n < elapsed_ms now (en_sent_ts e) \<longleftrightarrow>
      now < en_sent_ts e \<or> int n < (now - en_sent_ts e) * 1000" if "int n \<le> i64_max" for n
  proof (cases "now < en_sent_ts e")
    case True
    then show ?thesis using elapsed_backward [of now "en_sent_ts e"] assms that by linarith
  next
    case False
    then have "elapsed_ms now (en_sent_ts e) = nat ((now - en_sent_ts e) * 1000)"
      using assms by (intro elapsed_forward) auto
    then show ?thesis using False by linarith
  qed
  show ?thesis
    using over [OF assms(5)] over [OF assms(6)]
    by (auto simp: check_live_timeouts_def Let_def)
qed

definition sample_entry :: live_pending_entry where
  "sample_entry = \<lparr>en_request_guid = ''g'', en_side = Buy, en_qty = Fin 1, en_baseline_qty = 0,
     en_close_trigger = NextBar, en_sent_ts = 1000, en_acked = False,
     en_entry_confirmed_ts = None, en_last_bar_ts = 1000\<rparr>"

text \<open>One second back is enough.\<close>

lemma pending_entry_times_out_witness:
  "\<exists>r. check_live_timeouts sample_mc_config 999 960
         (MarketLivePendingEntry sample_entry :: unit strategy_state) = Blocked r 960"
  by (subst pending_entry_times_out)
    (simp_all add: sample_entry_def sample_mc_config_def i64_max_def)

section \<open>Adopted positions\<close>

text \<open>A position found while the strategy is idle is adopted as if it were its own: on the
  next bar the exit goes out on the side opposite to the configured one and with the configured
  quantity, whatever the sign and the size of the position. A short position is sold deeper by
  a buying strategy.\<close>

theorem adopted_position_exit:
  assumes "mc_state s = Idle" "hp_symbol pos = mcc_symbol (mc_config s)"
    and "f64_epsilon < \<bar>hp_qty pos\<bar>" "mcc_close_trigger (mc_config s) = NextBar"
    and "cx_trade_mode ctx = TmLive" "\<not> live_bar_blocked ctx bar"
    and "hb_symbol bar = mcc_symbol (mc_config s)"
    and "\<not> at_or_before (hb_close_time bar) (mc_last_processed s)"
    and "(case cx_last_bar_ts ctx0 of Some t \<Rightarrow> t | None \<Rightarrow> hp_ts pos) < hb_close_time bar"
  shows "snd (mc_on_bar v5 ctx bar (fst (mc_on_position v5 ctx0 pos s)))
    = [build_live_intent (mc_config s) (mc_close_side (mc_config s)) (mcc_qty (mc_config s))
         (hb_close bar)]"
  using assms
  by (simp add: mc_on_position_def mc_on_bar_def mc_live_bar_def check_live_timeouts_def Let_def)

lemma adopted_position_exit_witness:
  "snd (mc_on_bar id sample_live_ctx (sample_host_bar 60) (fst (mc_on_position id sample_live_ctx
      \<lparr>hp_symbol = ''IMOEXF'', hp_qty = Fin (- 5), hp_existing = True, hp_avg_price = Fin 100,
       hp_ts = 0\<rparr> (market_close_new sample_mc_config :: unit market_close))))
    = [IMarket (Fin 1) Sell None None]"
  by (subst adopted_position_exit)
    (simp_all add: market_close_new_def sample_mc_config_def f64_epsilon_def sample_live_ctx_def
      sample_ctx_def sample_host_bar_def live_bar_blocked_def build_live_intent_def
      mc_close_side_def)

end
