(* ===== verification/Dispatch_Safety.thy ===== *)
theory Dispatch_Safety
  imports Intent_Dispatch Market_Close
begin

text \<open>
  What the dispatch of intents guarantees: which commands leave the runtime, that a batch which
  may not be sent leaves the strategy as it was, and that the persisted state and the strategy
  never disagree.
\<close>

section \<open>Reading the log\<close>

fun command_of :: "'st rt_effect \<Rightarrow> order_command option" where
  "command_of (RtCommand cmd _) = Some cmd"
| "command_of _ = None"

definition commands_in :: "'st rt_effect list \<Rightarrow> order_command list" where
  "commands_in es = List.map_filter command_of es"

lemma commands_in_simps [simp]:
  "commands_in [] = []"
  "commands_in (e # es) = (case command_of e of None \<Rightarrow> [] | Some c \<Rightarrow> [c]) @ commands_in es"
  "commands_in (xs @ ys) = commands_in xs @ commands_in ys"
  by (simp_all add: commands_in_def List.map_filter_def split: option.split)

fun bar_of :: "'st rt_effect \<Rightarrow> host_bar option" where
  "bar_of (RtOnBar bar) = Some bar"
| "bar_of _ = None"

definition bars_in :: "'st rt_effect list \<Rightarrow> host_bar list" where
  "bars_in es = List.map_filter bar_of es"

lemma bars_in_simps [simp]:
  "bars_in [] = []"
  "bars_in (e # es) = (case bar_of e of None \<Rightarrow> [] | Some b \<Rightarrow> [b]) @ bars_in es"
  "bars_in (xs @ ys) = bars_in xs @ bars_in ys"
  by (simp_all add: bars_in_def List.map_filter_def split: option.split)

fun snapshot_of :: "'st rt_effect \<Rightarrow> 'st runtime_snapshot option" where
  "snapshot_of (RtCommand _ sn) = Some sn"
| "snapshot_of (RtState sn) = Some sn"
| "snapshot_of _ = None"

text \<open>What a dispatch writes: no bars, and snapshots with the last bars as they are.\<close>

definition dispatch_effect :: "(string \<Rightarrow> i64 option) \<Rightarrow> 'st rt_effect \<Rightarrow> bool" where
  "dispatch_effect last_bar e \<longleftrightarrow>
     bar_of e = None \<and> (case snapshot_of e of None \<Rightarrow> True | Some sn \<Rightarrow> sn_last_bar sn = last_bar)"

definition log_ext :: "('st rt_effect \<Rightarrow> bool) \<Rightarrow> 'st rt_effect list \<Rightarrow> 'st rt_effect list \<Rightarrow> bool" where
  "log_ext Q es es' \<longleftrightarrow> (\<exists>new. es' = es @ new \<and> list_all Q new)"

lemma log_ext_refl [simp]: "log_ext Q es es"
  by (simp add: log_ext_def)

lemma log_ext_trans: "log_ext Q a b \<Longrightarrow> log_ext Q b c \<Longrightarrow> log_ext Q a c"
  unfolding log_ext_def by force

lemma log_ext_bars: "log_ext (dispatch_effect lb) a b \<Longrightarrow> bars_in b = bars_in a"
proof -
  have "list_all (dispatch_effect lb) new \<Longrightarrow> bars_in new = []" for new
    by (induction new) (simp_all add: dispatch_effect_def)
  then show "log_ext (dispatch_effect lb) a b \<Longrightarrow> bars_in b = bars_in a"
    by (auto simp: log_ext_def)
qed

section \<open>What a dispatch touches\<close>

definition dispatch_frame :: "('s, 'st) runtime \<Rightarrow> ('s, 'st) runtime \<Rightarrow> bool" where
  "dispatch_frame st st' \<longleftrightarrow>
     st' = st\<lparr>rt_strategy := rt_strategy st', rt_strategy_state := rt_strategy_state st',
              rt_state_kept := rt_state_kept st', rt_our_requests := rt_our_requests st',
              rt_health := rt_health st', rt_reads := rt_reads st',
              rt_writes := rt_writes st', rt_log := rt_log st'\<rparr>
     \<and> rt_our_requests st \<subseteq> rt_our_requests st'
     \<and> log_ext (dispatch_effect (rt_last_bar st)) (rt_log st) (rt_log st')"

definition send_frame :: "('s, 'st) runtime \<Rightarrow> ('s, 'st) runtime \<Rightarrow> bool" where
  "send_frame st st' \<longleftrightarrow> dispatch_frame st st' \<and> rt_health st' = rt_health st \<and> rt_reads st' = rt_reads st"

lemma dispatch_frame_refl [simp]: "dispatch_frame st st"
  by (simp add: dispatch_frame_def)

lemma dispatch_frame_trans: "dispatch_frame a b \<Longrightarrow> dispatch_frame b c \<Longrightarrow> dispatch_frame a c"
  unfolding dispatch_frame_def by (cases a; cases b; cases c) (auto intro: log_ext_trans)

lemma send_frame_refl [simp]: "send_frame st st"
  by (simp add: send_frame_def)

lemma send_frame_trans: "send_frame a b \<Longrightarrow> send_frame b c \<Longrightarrow> send_frame a c"
  unfolding send_frame_def by (auto intro: dispatch_frame_trans)

lemma send_dispatch: "send_frame a b \<Longrightarrow> dispatch_frame a b"
  by (simp add: send_frame_def)

lemma only_health_dispatch: "only_health a b \<Longrightarrow> dispatch_frame a b"
  unfolding only_health_def dispatch_frame_def by (cases a; cases b) auto

lemma dispatch_frameD:
  assumes "dispatch_frame st st'"
  shows "rt_last_bar st' = rt_last_bar st" "rt_orders st' = rt_orders st"
    "rt_stop_orders st' = rt_stop_orders st" "rt_positions st' = rt_positions st"
    "rt_last_trade_ts st' = rt_last_trade_ts st" "rt_last_trade_id st' = rt_last_trade_id st"
    "rt_seen_trades st' = rt_seen_trades st" "rt_bootstrap st' = rt_bootstrap st"
    "rt_bootstrap_snapshot st' = rt_bootstrap_snapshot st" "rt_bars_read st' = rt_bars_read st"
    "rt_xlen st' = rt_xlen st" "rt_our_requests st \<subseteq> rt_our_requests st'"
    "rt_our_orders st' = rt_our_orders st" "rt_pending_trades st' = rt_pending_trades st"
    "rt_pending_exec st' = rt_pending_exec st" "rt_now st' = rt_now st"
    "rt_sim_orders st' = rt_sim_orders st" "rt_next_sim_id st' = rt_next_sim_id st"
    "rt_ledger st' = rt_ledger st" "rt_orphans st' = rt_orphans st"
  using assms unfolding dispatch_frame_def by (cases st; cases st'; simp)+

lemma dispatch_frame_log:
  assumes "dispatch_frame st st'"
  shows "log_ext (dispatch_effect (rt_last_bar st)) (rt_log st) (rt_log st')"
    "bars_in (rt_log st') = bars_in (rt_log st)"
proof -
  show "log_ext (dispatch_effect (rt_last_bar st)) (rt_log st) (rt_log st')"
    using assms by (simp add: dispatch_frame_def)
  then show "bars_in (rt_log st') = bars_in (rt_log st)" by (rule log_ext_bars)
qed

lemma and_then_rel:
  assumes "R st (fst r)" and "\<And>a b c. R a b \<Longrightarrow> R b c \<Longrightarrow> R a c"
    and "snd r \<Longrightarrow> R (fst r) (fst (f (fst r)))"
  shows "R st (fst (and_then r f))"
  using assms by (auto simp: and_then_def)

lemma emit_effect_frame:
  assumes "dispatch_effect (rt_last_bar st) e"
  shows "send_frame st (fst (emit_effect env e st))"
  using assms
  by (auto simp: emit_effect_def Let_def send_frame_def dispatch_frame_def log_ext_def)

lemma persist_state_frame: "send_frame st (fst (persist_state env c st))"
  unfolding persist_state_def 
  by (rule emit_effect_frame) (simp add: dispatch_effect_def snapshot_def split: option.split)

lemma invoke_callback_frame: "send_frame st (fst (invoke_strategy_callback ops f st))"
  by (auto simp: invoke_strategy_callback_def send_frame_def dispatch_frame_def split: prod.split)

lemma notify_prepared_frame: "send_frame st (notify_command_prepared ops ctx cmd cls st)"
  by (auto simp: notify_command_prepared_def Let_def send_frame_def dispatch_frame_def)

lemma restore_frame: "send_frame st (restore_strategy_state ops prev st)"
  by (auto simp: restore_strategy_state_def send_frame_def dispatch_frame_def)

lemma notify_blocked_frame: "send_frame st (fst (notify_intents_blocked ops ctx es st))"
proof (induction es arbitrary: st)
  case (Cons e es)
  obtain s d where o: "so_on_intent_blocked ops ctx e (rt_strategy st) = (s, d)" by fastforce
  define st1 where "st1 = st\<lparr>rt_strategy := s, rt_strategy_state := so_state ops s,
     rt_state_kept := (if d = KeepStrategyState then sat_inc (rt_state_kept st) else rt_state_kept st)\<rparr>"
  have "send_frame st st1" by (auto simp: st1_def send_frame_def dispatch_frame_def)
  then show ?case using Cons [of st1] o
    by (auto simp: Let_def st1_def [symmetric] case_prod_unfold intro: send_frame_trans)
qed simp

lemma send_intent_frame: "send_frame st (fst (send_intent ops cfg env ctx created i cls st))"
proof -
  have req: "send_frame b (a\<lparr>rt_our_requests := insert x (rt_our_requests a)\<rparr>)" if "send_frame b a"
    for a b :: "('a, 'b) runtime" and x
    by (rule send_frame_trans [OF that]) (auto simp: send_frame_def dispatch_frame_def)
  have p: "send_frame st (fst (persist_state env c (notify_command_prepared ops ctx cmd cls st)))"
    for c cmd
    by (rule send_frame_trans [OF notify_prepared_frame persist_state_frame])
  show ?thesis unfolding send_intent_def Let_def and_then_def
    by (simp add: p req)
qed

lemma defer_exit_frame: "send_frame st (fst (defer_exit ops cfg env ctx created dispatch i cls st))"
  unfolding defer_exit_def Let_def case_prod_unfold
  by (rule send_frame_trans [OF send_frame_trans [OF notify_prepared_frame invoke_callback_frame]
        persist_state_frame])

lemma send_intents_frame: "send_frame st (fst (send_intents ops cfg env ctx created dispatch xs st))"
proof (induction ops cfg env ctx created dispatch xs st rule: send_intents.induct)
  case (2 ops cfg env ctx created dispatch i cls rest st)
  show ?case unfolding send_intents.simps
    by (rule and_then_rel)
      (auto simp: send_intent_frame defer_exit_frame 2 intro: send_frame_trans)
qed simp

lemma drop_batch_frame: "send_frame st (fst (drop_batch ops env prev st))"
  unfolding drop_batch_def by (rule send_frame_trans [OF restore_frame persist_state_frame])

lemma dispatch_decided_frame:
  "send_frame st (fst (dispatch_decided ops cfg env ctx created dispatch accepted prev d st))"
  unfolding dispatch_decided_def Let_def case_prod_unfold
  by (auto simp: send_intents_frame split: bool.split
      intro: send_frame_trans notify_blocked_frame persist_state_frame drop_batch_frame)

lemma apply_intents_frame:
  "dispatch_frame st (fst (apply_intents ops cfg env ctx created dispatch intents prev st))"
proof -
  have wait: "dispatch_frame st (fst (dispatch_decided ops cfg env ctx created dispatch acc prev d st1))"
    if "maybe_wait_for_readiness cfg env d0 st = (st1, r)" for d0 st1 r acc d
    using that maybe_wait_only_health [of st cfg env d0]
    by (auto intro: dispatch_frame_trans only_health_dispatch
        send_dispatch [OF dispatch_decided_frame])
  have "send_frame st (fst (and_then (emit_effect env (RtVirtual intents) st) (persist_state env None)))"
    by (rule and_then_rel [of send_frame])
      (auto simp: dispatch_effect_def intro: emit_effect_frame send_frame_trans persist_state_frame)
  then show ?thesis
    using maybe_wait_only_health [of st cfg env "evaluate_guard_decision cfg env st"] wait
    by (auto simp: apply_intents_def Let_def split: prod.splits option.splits
        intro: send_dispatch persist_state_frame dispatch_decided_frame only_health_dispatch
          drop_batch_frame)
qed

section \<open>Which commands leave the runtime\<close>

text \<open>The log grows by effects whose commands all satisfy \<open>P\<close>.\<close>

definition log_grows :: "(order_command \<Rightarrow> bool) \<Rightarrow> ('s, 'st) runtime \<Rightarrow> ('s, 'st) runtime \<Rightarrow> bool" where
  "log_grows P st st' \<longleftrightarrow> (\<exists>new. rt_log st' = rt_log st @ new \<and> list_all P (commands_in new))"

lemma log_grows_refl [simp]: "log_grows P st st"
  by (auto simp: log_grows_def intro: exI [of _ "[]"])

lemma log_grows_trans: "log_grows P a b \<Longrightarrow> log_grows P b c \<Longrightarrow> log_grows P a c"
  unfolding log_grows_def by (metis append.assoc commands_in_simps(3) list_all_append)

lemma log_grows_same: "rt_log st' = rt_log st \<Longrightarrow> log_grows P st st'"
  by (auto simp: log_grows_def intro: exI [of _ "[]"])

lemma log_grows_mono: "log_grows P a b \<Longrightarrow> (\<And>c. P c \<Longrightarrow> Q c) \<Longrightarrow> log_grows Q a b"
  by (auto simp: log_grows_def list_all_iff)

lemma emit_effect_log:
  assumes "\<And>c. command_of e = Some c \<Longrightarrow> P c"
  shows "log_grows P st (fst (emit_effect env e st))"
  using assms by (auto simp: emit_effect_def Let_def log_grows_def split: option.split)

lemma persist_state_log:
  assumes "\<And>c. m = Some c \<Longrightarrow> P c"
  shows "log_grows P st (fst (persist_state env m st))"
  unfolding persist_state_def using assms
  by (intro emit_effect_log) (auto split: option.splits)

lemma quiet_logs [simp]:
  "rt_log (fst (invoke_strategy_callback ops f st)) = rt_log st"
  "rt_log (notify_command_prepared ops ctx cmd cls st) = rt_log st"
  "rt_log (restore_strategy_state ops prev st) = rt_log st"
  by (simp_all add: invoke_strategy_callback_def notify_command_prepared_def Let_def
      restore_strategy_state_def split: prod.split)

lemma notify_blocked_log [simp]: "rt_log (fst (notify_intents_blocked ops ctx es st)) = rt_log st"
  by (induction es arbitrary: st) (simp_all add: Let_def case_prod_unfold)

lemma persist_after_quiet:
  assumes "rt_log st1 = rt_log st" and "\<And>c. m = Some c \<Longrightarrow> P c"
  shows "log_grows P st (fst (persist_state env m st1))"
  using log_grows_trans [OF log_grows_same [OF assms(1)] persist_state_log] assms(2) by blast

lemma drop_batch_log: "log_grows P st (fst (drop_batch ops env prev st))"
  unfolding drop_batch_def by (rule persist_after_quiet) simp_all

lemma defer_exit_log: "log_grows P st (fst (defer_exit ops cfg env ctx created dispatch i cls st))"
  unfolding defer_exit_def Let_def case_prod_unfold by (rule persist_after_quiet) simp_all

text \<open>Every command carries the class it was given and the time of the callback.\<close>

lemma intent_to_command_fields [simp]:
  "oc_intent_class (intent_to_command ch v5 cfg tag ctx created i cls) = Some cls"
  "oc_created_ts_utc (intent_to_command ch v5 cfg tag ctx created i cls) = created"
  by (induction ch v5 cfg tag ctx created i cls rule: intent_to_command.induct)
    (simp_all add: runtime_command_def)

lemma send_intent_log:
  assumes "\<And>tag. P (intent_to_command (re_chrono env) (re_v5 env) cfg tag ctx created i cls)"
  shows "log_grows P st (fst (send_intent ops cfg env ctx created i cls st))"
proof -
  have p: "log_grows P st (fst (persist_state env (Some (intent_to_command (re_chrono env) (re_v5 env)
      cfg tag ctx created i cls)) (notify_command_prepared ops ctx cmd cls st)))" for tag cmd
    by (rule persist_after_quiet) (auto simp: assms)
  have "log_grows P st (a\<lparr>rt_our_requests := x\<rparr>)" if "log_grows P st a" for a x
    by (rule log_grows_trans [OF that log_grows_same]) simp
  then show ?thesis unfolding send_intent_def Let_def and_then_def by (simp add: p)
qed

definition sendable ::
  "runtime_config \<Rightarrow> rt_env \<Rightarrow> strategy_ctx \<Rightarrow> i64 \<Rightarrow> i64 \<Rightarrow> (intent \<times> intent_class) list
   \<Rightarrow> order_command \<Rightarrow> bool" where
  "sendable cfg env ctx created dispatch xs cmd \<longleftrightarrow>
     (\<exists>i cls tag. (i, cls) \<in> set xs \<and> \<not> exit_must_wait (re_chrono env) cfg dispatch cls
        \<and> cmd = intent_to_command (re_chrono env) (re_v5 env) cfg tag ctx created i cls)"

lemma send_intents_log:
  "log_grows (sendable cfg env ctx created dispatch xs) st
     (fst (send_intents ops cfg env ctx created dispatch xs st))"
proof (induction ops cfg env ctx created dispatch xs st rule: send_intents.induct)
  case (2 ops cfg env ctx created dispatch i cls rest st)
  let ?P = "sendable cfg env ctx created dispatch ((i, cls) # rest)"
  define first where "first = (if exit_must_wait (re_chrono env) cfg dispatch cls
      then defer_exit ops cfg env ctx created dispatch i cls st
      else send_intent ops cfg env ctx created i cls st)"
  have "log_grows ?P st (fst first)"
    unfolding first_def by (simp add: defer_exit_log)
      (intro impI send_intent_log, auto simp: sendable_def)
  moreover have "log_grows ?P (fst first) (fst (send_intents ops cfg env ctx created dispatch rest (fst first)))"
    if "snd first"
    using 2 by (rule log_grows_mono) (auto simp: sendable_def)
  ultimately show ?case
    by (auto simp: and_then_def first_def [symmetric] intro: log_grows_trans)
qed simp

definition authorised ::
  "runtime_config \<Rightarrow> rt_env \<Rightarrow> strategy_ctx \<Rightarrow> i64 \<Rightarrow> i64 \<Rightarrow> intent list \<Rightarrow> ('s, 'st) runtime
   \<Rightarrow> order_command \<Rightarrow> bool" where
  "authorised cfg env ctx created dispatch intents decided cmd \<longleftrightarrow>
     (\<exists>i \<in> set intents. \<exists>tag. let cls = resolve_intent_class ctx i in
        cmd = intent_to_command (re_chrono env) (re_v5 env) cfg tag ctx created i cls
        \<and> trading_window_allows_order (re_chrono env) cfg ctx dispatch cls
        \<and> \<not> exit_must_wait (re_chrono env) cfg dispatch cls
        \<and> (gd_allowed (evaluate_guard_decision cfg env decided)
           \<or> has_open_position ctx \<and> cls \<noteq> Entry))"

lemma send_frame_decision:
  "send_frame st st' \<Longrightarrow> evaluate_guard_decision cfg env st' = evaluate_guard_decision cfg env st"
  by (simp add: send_frame_def evaluate_guard_decision_def dispatch_frameD [of st st'])

lemma accept_intents_mem:
  "(i, cls) \<in> set (accept_intents ch cfg ctx dispatch intents) \<longleftrightarrow>
     i \<in> set intents \<and> cls = resolve_intent_class ctx i
     \<and> trading_window_allows_order ch cfg ctx dispatch cls"
  by (auto simp: accept_intents_def)

lemma dispatch_decided_log:
  assumes d: "d = evaluate_guard_decision cfg env st"
    and acc: "accepted = accept_intents (re_chrono env) cfg ctx dispatch intents"
  shows "log_grows (authorised cfg env ctx created dispatch intents
      (fst (dispatch_decided ops cfg env ctx created dispatch accepted prev d st))) st
     (fst (dispatch_decided ops cfg env ctx created dispatch accepted prev d st))"
    (is "log_grows ?P st ?st'")
proof -
  let ?pass = "filter (\<lambda>(i, cls). guard_allows_intent_when_blocked cls (has_open_position ctx)) accepted"
  have dec: "evaluate_guard_decision cfg env ?st' = d"
    unfolding d by (rule send_frame_decision [OF dispatch_decided_frame])
  have P: "?P c" if "sendable cfg env ctx created dispatch xs c" "set xs \<subseteq> set accepted"
      "gd_allowed d \<or> xs = ?pass" for xs c
  proof -
    from that(1) obtain i cls tag where c: "(i, cls) \<in> set xs"
      "\<not> exit_must_wait (re_chrono env) cfg dispatch cls"
      "c = intent_to_command (re_chrono env) (re_v5 env) cfg tag ctx created i cls"
      by (auto simp: sendable_def)
    then have "i \<in> set intents" "cls = resolve_intent_class ctx i"
      "trading_window_allows_order (re_chrono env) cfg ctx dispatch cls"
      using that(2) by (auto simp: acc accept_intents_mem)
    moreover have "gd_allowed d \<or> has_open_position ctx \<and> cls \<noteq> Entry"
      using c(1) that(3) by (auto simp: guard_allows_intent_when_blocked_def)
    ultimately show ?thesis using c unfolding authorised_def dec Let_def by blast
  qed
  have sent: "log_grows ?P st (fst (send_intents ops cfg env ctx created dispatch xs st))"
    if "set xs \<subseteq> set accepted" "gd_allowed d \<or> xs = ?pass" for xs
    using P [OF _ that] by (rule log_grows_mono [OF send_intents_log])
  have kept: "log_grows ?P st (fst (persist_state env None (fst (notify_intents_blocked ops ctx es st))))"
    for es
    by (rule persist_after_quiet) simp_all
  have dropped: "log_grows ?P st (fst (drop_batch ops env prev (fst (notify_intents_blocked ops ctx es st))))"
    for es
    by (rule log_grows_trans [OF log_grows_same drop_batch_log]) simp
  consider "gd_allowed d" | "\<not> gd_allowed d" "?pass = []" | "\<not> gd_allowed d" "?pass \<noteq> []" by blast
  then show ?thesis
  proof cases
    case 1
    then have "?st' = fst (send_intents ops cfg env ctx created dispatch accepted st)"
      by (simp add: dispatch_decided_def)
    then show ?thesis using sent [of accepted] 1 by simp
  next
    case 2
    then have "\<exists>es. ?st' = fst (persist_state env None (fst (notify_intents_blocked ops ctx es st)))
        \<or> ?st' = fst (drop_batch ops env prev (fst (notify_intents_blocked ops ctx es st)))"
      by (auto simp: dispatch_decided_def Let_def case_prod_unfold split: bool.split)
    then show ?thesis using kept dropped by metis
  next
    case 3
    then have "?st' = fst (send_intents ops cfg env ctx created dispatch ?pass st)"
      by (simp add: dispatch_decided_def Let_def)
    then show ?thesis using sent [of ?pass] by simp
  qed
qed

lemma apply_intents_log:
  "log_grows (\<lambda>c. rc_trade_mode cfg = TmLive \<and> authorised cfg env ctx created dispatch intents
      (fst (apply_intents ops cfg env ctx created dispatch intents prev st)) c) st
     (fst (apply_intents ops cfg env ctx created dispatch intents prev st))"
    (is "log_grows ?P st ?st'")
proof (cases "intents = [] \<or> rc_trade_mode cfg \<noteq> TmLive")
  case True
  have "log_grows ?P st (fst (and_then (emit_effect env (RtVirtual intents) st) (persist_state env None)))"
    by (rule and_then_rel [of "log_grows ?P"])
      (auto intro: log_grows_trans emit_effect_log persist_state_log)
  then show ?thesis using True persist_state_log [of None ?P st env]
    by (auto simp: apply_intents_def)
next
  case live: False
  define acc where "acc = accept_intents (re_chrono env) cfg ctx dispatch intents"
  define d0 where "d0 = evaluate_guard_decision cfg env st"
  obtain st1 r where w: "maybe_wait_for_readiness cfg env d0 st = (st1, r)" by fastforce
  then have h: "rt_log st1 = rt_log st"
    using only_health_frame(1) [OF maybe_wait_only_health [of st cfg env d0]] by simp
  have step: "log_grows ?P st (fst (dispatch_decided ops cfg env ctx created dispatch acc prev d a))"
    if "?st' = fst (dispatch_decided ops cfg env ctx created dispatch acc prev d a)"
      "d = evaluate_guard_decision cfg env a" "rt_log a = rt_log st" for d a
    using dispatch_decided_log [OF that(2) acc_def] live that(1)
    by (intro log_grows_trans [OF log_grows_same [OF that(3)]]) (auto elim: log_grows_mono)
  consider "acc = []" | "acc \<noteq> []" "gd_allowed d0" | "acc \<noteq> []" "\<not> gd_allowed d0" "r = None"
    | d where "acc \<noteq> []" "\<not> gd_allowed d0" "r = Some d" by (cases r) auto
  then show ?thesis
  proof cases
    case 1
    then have "?st' = fst (drop_batch ops env prev st)"
      using live by (simp add: apply_intents_def acc_def)
    then show ?thesis by (simp add: drop_batch_log)
  next
    case 2
    then have "?st' = fst (dispatch_decided ops cfg env ctx created dispatch acc prev d0 st)"
      using live by (simp add: apply_intents_def acc_def d0_def)
    then show ?thesis using step [of d0 st] by (simp add: d0_def)
  next
    case 3
    then have "?st' = st1" using live w by (simp add: apply_intents_def acc_def d0_def)
    then show ?thesis using h by (simp add: log_grows_same)
  next
    case 4
    then have "?st' = fst (dispatch_decided ops cfg env ctx created dispatch acc prev d st1)"
      using live w by (simp add: apply_intents_def acc_def d0_def)
    moreover have "d = evaluate_guard_decision cfg env st1"
      using maybe_wait_decision [of cfg env st d] w 4 by (simp add: d0_def)
    ultimately show ?thesis using step [of d st1] h by simp
  qed
qed

section \<open>Examples\<close>

definition sample_rt_config :: runtime_config where
  "sample_rt_config = \<lparr>rc_strategy_id = ''s'', rc_portfolio = ''D1'', rc_exchange = ''MOEX'',
     rc_symbol = ''IMOEXF'', rc_order_symbol = None, rc_tick_size = Fin 1, rc_trade_mode = TmLive,
     rc_paper_mode = HistorySim, rc_allow_live = True, rc_health_stale_sec = 60,
     rc_require_ready = True, rc_has_health_stream = True, rc_periods = None, rc_tz_offset = 3,
     rc_max_silence_sec = 0, rc_close_hour = 23, rc_close_minute = 50, rc_uses_bootstrap_snapshot = False,
     rc_uses_runtime_state_restore = False, rc_uses_history_warmup = False,
     rc_uses_stop_orders = False, rc_has_snapshots_stream = True, rc_reset_state_on_start = False\<rparr>"

definition sample_rt_env :: rt_env where
  "sample_rt_env = \<lparr>re_chrono = chrono_example, re_v5 = id, re_ctx_now = 100, re_emit_now = (\<lambda>_. 100),
     re_dispatch_now = 100, re_guard_now = (\<lambda>_. 100), re_poll = (\<lambda>_. PollNothing),
     re_write_ok = (\<lambda>_. True), re_xack_ok = True, re_key_order = id,
     re_f64_text = (\<lambda>_. ''1'')\<rparr>"

definition sample_runtime :: "'s \<Rightarrow> 'st \<Rightarrow> ('s, 'st) runtime" where
  "sample_runtime s p = \<lparr>rt_last_bar = Map.empty, rt_strategy_state = p, rt_orders = Map.empty,
     rt_stop_orders = Map.empty, rt_positions = Map.empty, rt_last_trade_ts = None,
     rt_last_trade_id = None, rt_seen_trades = [], rt_strategy = s,
     rt_health = Some \<lparr>he_gateway_phase = LiveReady, he_readiness = True, he_ws_connected = True,
       he_cws_authorized = True, he_scheduler_state = None, he_last_event_ts = 90\<rparr>,
     rt_bootstrap = \<lparr>bs_orders_snapshot_loaded = True, bs_positions_snapshot_loaded = True,
       bs_seen_live_bar = True\<rparr>,
     rt_bootstrap_snapshot = None, rt_bars_read = 1, rt_xlen = None, rt_state_kept = 0, rt_orphans = 0, rt_our_requests = {},
     rt_our_orders = {}, rt_pending_trades = [], rt_pending_exec = Map.empty, rt_sim_orders = [], rt_next_sim_id = 1, rt_now = 0,
     rt_ledger = ledger_empty, rt_reads = 0, rt_writes = 0, rt_log = []\<rparr>"

definition sample_mc :: "(unit market_close, unit strategy_state) runtime" where
  "sample_mc = sample_runtime (market_close_new sample_mc_config) Idle"

lemmas sample_rt_defs = sample_mc_def sample_runtime_def sample_rt_env_def sample_rt_config_def
  sample_ctx_def sample_live_ctx_def

lemma sample_mc_log [simp]: "rt_log sample_mc = []"
  by (simp add: sample_rt_defs)

section \<open>Properties of the dispatch\<close>

text \<open>C2. Every command the runtime publishes for the intents of a callback comes from one of
  them, with the class of that intent and the time of the callback; the mode is live; the
  trading window accepts that class at the time of dispatch; where trading periods are
  configured an exit goes out only while the market is open; and either the live guard allows
  orders, or a position is open and the command is not an entry. The last case is the code's
  class test: nothing compares the order with the position, so it may also enlarge it.\<close>

theorem dispatched_commands_authorised:
  assumes "rt_log (fst (apply_intents ops cfg env ctx created dispatch intents prev st)) = rt_log st @ new"
    and "cmd \<in> set (commands_in new)"
  shows "rc_trade_mode cfg = TmLive
    \<and> authorised cfg env ctx created dispatch intents
        (fst (apply_intents ops cfg env ctx created dispatch intents prev st)) cmd"
proof -
  show ?thesis
    using apply_intents_log [where cfg = cfg and env = env and ctx = ctx and created = created
        and dispatch = dispatch and intents = intents and ops = ops and prev = prev and st = st] assms
    by (auto simp: log_grows_def list_all_iff)
qed

lemma sample_dispatch_log:
  "rt_log (fst (apply_intents (market_close_ops id) sample_rt_config sample_rt_env sample_live_ctx
      60 100 [ICancel 7] Idle sample_mc))
   = [RtCommand (intent_to_command chrono_example id sample_rt_config (\<lambda>_ _ _. None)
        sample_live_ctx 60 (ICancel 7) CancelCleanup) (snapshot sample_mc)]"
  by (simp add: apply_intents_def accept_intents_def resolve_intent_class_def
      trading_window_allows_order_def evaluate_guard_decision_def guard_with_bootstrap_def
      evaluate_live_guard_def bootstrap_reasons_def bootstrap_ready_def health_phase_def
      health_stale_def health_flag_def sat_sub_def sat_i64_def i64_min_def i64_max_def
      i64_of_u64_sat_def dispatch_decided_def exit_must_wait_def send_intent_def Let_def
      and_then_def persist_state_def emit_effect_def notify_command_prepared_def snapshot_def
      market_close_ops_def default_ops_defs sample_rt_defs runtime_command_def
      market_close_new_def)

lemma dispatched_commands_authorised_witness:
  "rc_trade_mode sample_rt_config = TmLive
   \<and> authorised sample_rt_config sample_rt_env sample_live_ctx 60 100 [ICancel 7]
      (fst (apply_intents (market_close_ops id) sample_rt_config sample_rt_env sample_live_ctx
        60 100 [ICancel 7] Idle sample_mc))
      (intent_to_command chrono_example id sample_rt_config (\<lambda>_ _ _. None)
        sample_live_ctx 60 (ICancel 7) CancelCleanup)"
  by (rule dispatched_commands_authorised [where ops = "market_close_ops id" and prev = Idle
        and st = sample_mc and new = "[RtCommand (intent_to_command chrono_example id
          sample_rt_config (\<lambda>_ _ _. None) sample_live_ctx 60 (ICancel 7) CancelCleanup)
          (snapshot sample_mc)]"])
    (simp_all add: sample_dispatch_log)

section \<open>Roll-back and agreement of the two states\<close>

definition in_sync :: "('s, 'st) strategy_ops \<Rightarrow> ('s, 'st) runtime \<Rightarrow> bool" where
  "in_sync ops st \<longleftrightarrow> so_state ops (rt_strategy st) = rt_strategy_state st"

text \<open>The strategy state of the last snapshot written; \<open>x\<close> is the one found at the start.\<close>

fun state_written :: "'st rt_effect \<Rightarrow> 'st option" where
  "state_written (RtCommand cmd sn) = Some (sn_strategy_state sn)"
| "state_written (RtState sn) = Some (sn_strategy_state sn)"
| "state_written _ = None"

definition last_state :: "'st \<Rightarrow> 'st rt_effect list \<Rightarrow> 'st" where
  "last_state x effs = foldl (\<lambda>y e. case state_written e of None \<Rightarrow> y | Some z \<Rightarrow> z) x effs"

lemma last_state_simps [simp]:
  "last_state x [] = x"
  "last_state x (effs @ [e]) = (case state_written e of None \<Rightarrow> last_state x effs | Some z \<Rightarrow> z)"
  by (auto simp: last_state_def split: option.split)

lemma in_sync_writes [simp]:
  "in_sync ops (fst (persist_state env c st)) = in_sync ops st"
  "in_sync ops (fst (emit_effect env e st)) = in_sync ops st"
  "in_sync ops (fst (invoke_strategy_callback ops f st))"
  "in_sync ops (notify_command_prepared ops ctx cmd cls st)"
  by (simp_all add: in_sync_def persist_state_def emit_effect_def Let_def invoke_strategy_callback_def
      notify_command_prepared_def split: prod.split)

lemma in_sync_notify: "in_sync ops st \<Longrightarrow> in_sync ops (fst (notify_intents_blocked ops ctx es st))"
proof (induction es arbitrary: st)
  case (Cons e es)
  show ?case
    using Cons.IH by (simp add: Let_def case_prod_unfold in_sync_def)
qed simp

lemma in_sync_health: "only_health a b \<Longrightarrow> in_sync ops b = in_sync ops a"
  by (simp add: in_sync_def only_health_frame)

lemma in_sync_send_intents:
  "in_sync ops st \<Longrightarrow> in_sync ops (fst (send_intents ops cfg env ctx created dispatch xs st))"
proof (induction ops cfg env ctx created dispatch xs st rule: send_intents.induct)
  case (2 ops cfg env ctx created dispatch i cls rest st)
  have send: "in_sync ops (fst (send_intent ops cfg env ctx created i cls st))"
  proof -
    have "in_sync ops (fst (persist_state env c (notify_command_prepared ops ctx cmd cls st)))" for c cmd
      by simp
    then show ?thesis unfolding send_intent_def Let_def and_then_def
      by (simp add: in_sync_def)
  qed
  have "in_sync ops (fst (defer_exit ops cfg env ctx created dispatch i cls st))"
    by (simp add: defer_exit_def Let_def case_prod_unfold)
  then show ?case using send 2 by (simp add: and_then_def)
qed simp

context strategy_object
begin

lemma in_sync_drop: "in_sync ops (fst (drop_batch ops env prev st))"
  by (simp add: drop_batch_def) (simp add: in_sync_def restore_strategy_state_def state_set)

lemma in_sync_decided:
  "in_sync ops st
   \<Longrightarrow> in_sync ops (fst (dispatch_decided ops cfg env ctx created dispatch accepted prev d st))"
  unfolding dispatch_decided_def Let_def case_prod_unfold
  by (auto simp: in_sync_send_intents in_sync_notify in_sync_drop split: bool.split)

lemma in_sync_apply_intents:
  assumes "in_sync ops st"
  shows "in_sync ops (fst (apply_intents ops cfg env ctx created dispatch intents prev st))"
proof -
  have "in_sync ops (fst (and_then (emit_effect env (RtVirtual intents) st) (persist_state env None)))"
    using assms by (simp add: and_then_def)
  then show ?thesis
    using assms maybe_wait_only_health [of st cfg env "evaluate_guard_decision cfg env st"]
    by (auto simp: apply_intents_def Let_def in_sync_decided in_sync_drop in_sync_health
        split: prod.splits option.splits)
qed

lemma in_sync_invoke: "in_sync ops (fst (invoke_and_apply ops cfg env ctx created f st))"
  unfolding invoke_and_apply_def case_prod_unfold by (rule in_sync_apply_intents) simp

end

text \<open>C12. When the trading window refuses everything a strategy asks for in a callback, and the
  strategy gives back the state it is set to (as \<open>market_buy_and_close\<close> and \<open>limit_cancel\<close> do
  with any state), it is back in the state it had before the callback, the runtime's copy with
  it, no command was published, and the state last written, if the write succeeds, is that state:
  the strategy does not wait for an order nobody sent, not even after a restart.\<close>

theorem dropped_batch_undone:
  assumes "rc_trade_mode cfg = TmLive" "snd (f (rt_strategy st)) \<noteq> []"
    and "accept_intents (re_chrono env) cfg ctx (max (re_dispatch_now env) created)
      (snd (f (rt_strategy st))) = []"
    and "\<forall>s. so_state ops (so_set_state ops (rt_strategy_state st) s) = rt_strategy_state st"
    and "invoke_and_apply ops cfg env ctx created f st = (st', ok)"
  shows "so_state ops (rt_strategy st') = rt_strategy_state st
    \<and> rt_strategy_state st' = rt_strategy_state st
    \<and> commands_in (rt_log st') = commands_in (rt_log st)
    \<and> (ok \<longrightarrow> last_state x (rt_log st') = rt_strategy_state st)"
  using assms
  by (auto simp: invoke_and_apply_def invoke_strategy_callback_def case_prod_unfold apply_intents_def
      drop_batch_def persist_state_def emit_effect_def snapshot_def restore_strategy_state_def Let_def
      split: if_splits)

definition closed_config :: runtime_config where
  "closed_config = sample_rt_config\<lparr>rc_periods := Some sample_periods\<rparr>"

lemma sample_closed: "market_state_utc chrono_example (runtime_scheduler closed_config sample_periods) 100
    = OutsideSession"
  by (simp add: market_state_utc_def local_datetime_utc_def runtime_scheduler_def
      new_with_fallback_offset_hours_def sample_periods_def closed_config_def sample_rt_config_def
      sat_mul_i32_def chrono_example_def market_state_at_def Let_def in_window_def
      hms_def dt_time_def dt_date_def of_timestamp_def weekday_of_def
      is_weekend_day_def)

lemma sample_entry_signal:
  "snd (mc_on_bar id sample_live_ctx (sample_host_bar 60) (market_close_new sample_mc_config :: unit market_close))
     = [IMarket (Fin 1) Buy None None]"
  by (simp add: mc_on_bar_def live_bar_blocked_def sample_ctx_def sample_live_ctx_def
      sample_host_bar_def market_close_new_def sample_mc_config_def mc_live_bar_def
      check_live_timeouts_def mc_live_entry_def build_live_intent_def Let_def)

lemma dropped_batch_undone_witness:
  "mc_state (rt_strategy (fst (invoke_and_apply (market_close_ops id) closed_config sample_rt_env
       sample_live_ctx 60 (mc_on_bar id sample_live_ctx (sample_host_bar 60)) sample_mc))) = Idle
   \<and> rt_strategy_state (fst (invoke_and_apply (market_close_ops id) closed_config sample_rt_env
       sample_live_ctx 60 (mc_on_bar id sample_live_ctx (sample_host_bar 60)) sample_mc)) = Idle
   \<and> commands_in (rt_log (fst (invoke_and_apply (market_close_ops id) closed_config sample_rt_env
       sample_live_ctx 60 (mc_on_bar id sample_live_ctx (sample_host_bar 60)) sample_mc))) = []"
proof -
  have st: "rt_strategy sample_mc = market_close_new sample_mc_config" "rt_strategy_state sample_mc = Idle"
    by (simp_all add: sample_mc_def sample_runtime_def)
  have ctx: "resolve_intent_class sample_live_ctx (IMarket (Fin 1) Buy None None) = Entry"
    by (simp add: resolve_intent_class_def sample_live_ctx_def sample_ctx_def)
  have "rc_trade_mode closed_config = TmLive" "rc_periods closed_config = Some sample_periods"
    "re_chrono sample_rt_env = chrono_example" "re_dispatch_now sample_rt_env = 100"
    by (simp_all add: closed_config_def sample_rt_config_def sample_rt_env_def)
  then show ?thesis
    using dropped_batch_undone [of closed_config "mc_on_bar id sample_live_ctx (sample_host_bar 60)"
        sample_mc sample_rt_env sample_live_ctx 60 "market_close_ops id", OF _ _ _ _ surjective_pairing]
    by (simp add: st sample_entry_signal accept_intents_def ctx trading_window_allows_order_def
        sample_closed chrono_example_def [THEN arg_cong [of _ _ "\<lambda>c. utc_ok c 100"]])
qed

end
