(* ===== verification/Runtime_Events.thy ===== *)
theory Runtime_Events
  imports Paper_Sim Dispatch_Safety
begin

text \<open>
  The strategy runtime, third part: the handlers of the messages it reads
  (\<open>handle_ack\<close>, \<open>handle_order\<close>, \<open>handle_stop_order\<close>, \<open>handle_trade\<close>, \<open>handle_position\<close>,
  \<open>handle_bar\<close>, the replay of a bar, one poll of \<open>strategy-runtime/src/runtime.rs\<close>), and runs
  of messages: the first failure ends a run, as it ends the process.
\<close>

section \<open>Handlers\<close>

definition handle_ack ::
  "('s, 'st) strategy_ops \<Rightarrow> runtime_config \<Rightarrow> rt_env \<Rightarrow> command_ack \<Rightarrow> ('s, 'st) runtime
   \<Rightarrow> ('s, 'st) runtime \<times> bool" where
  "handle_ack ops cfg env ack st =
     (let st1 = register_acknowledged_order env ack st in
      case normalize_event_ts (ack_processed_ts_utc ack) st1 of
        (event_ts, st2) \<Rightarrow>
          let ctx = runtime_ctx cfg (re_ctx_now env) (rt_last_bar st2 (rc_symbol cfg))
                      (ack_processed_ts_utc ack) st2
          in and_then (invoke_and_apply ops cfg env ctx event_ts (so_on_ack ops ctx ack) st2) (xack env))"

text \<open>What a message is skipped for.\<close>

definition relevant :: "runtime_config \<Rightarrow> string \<Rightarrow> bool" where
  "relevant cfg symbol \<longleftrightarrow> rc_trade_mode cfg = TmLive \<and> matches_strategy_symbol cfg symbol"

definition handle_order ::
  "('s, 'st) strategy_ops \<Rightarrow> runtime_config \<Rightarrow> rt_env \<Rightarrow> host_order \<Rightarrow> ('s, 'st) runtime
   \<Rightarrow> ('s, 'st) runtime \<times> bool" where
  "handle_order ops cfg env ord st =
     (if \<not> relevant cfg (ord_symbol ord) then xack env st
      else case normalize_event_ts (ord_ts ord) st of
        (event_ts, st1) \<Rightarrow>
          let ctx = runtime_ctx cfg (re_ctx_now env) (strategy_last_bar_ts cfg st1) (ord_ts ord) st1
          in and_then (invoke_and_apply ops cfg env ctx event_ts (so_on_order ops ctx ord) st1) (\<lambda>st2.
               let st3 = update_ledger_from_order cfg ord st2;
                   st4 = st3\<lparr>rt_orders := (rt_orders st3)(ord_order_id ord \<mapsto> ord)\<rparr>
               in xack env (replay_pending_trades_for_order (ord_order_id ord) st4)))"

definition handle_stop_order ::
  "('s, 'st) strategy_ops \<Rightarrow> runtime_config \<Rightarrow> rt_env \<Rightarrow> host_stop_order \<Rightarrow> ('s, 'st) runtime
   \<Rightarrow> ('s, 'st) runtime \<times> bool" where
  "handle_stop_order ops cfg env ord st =
     (let store = (\<lambda>s. s\<lparr>rt_stop_orders := (rt_stop_orders s)(sto_id ord \<mapsto> ord)\<rparr>) in
      if \<not> relevant cfg (sto_symbol ord) then xack env st
      else if \<not> rc_uses_stop_orders cfg then xack env (store st)
      else case normalize_event_ts (sto_ts ord) st of
        (event_ts, st1) \<Rightarrow>
          let ctx = runtime_ctx cfg (re_ctx_now env) (strategy_last_bar_ts cfg st1) (sto_ts ord) st1
          in and_then (invoke_and_apply ops cfg env ctx event_ts (so_on_stop_order ops ctx ord) st1)
               (\<lambda>st2. xack env (store st2)))"

definition handle_trade ::
  "runtime_config \<Rightarrow> rt_env \<Rightarrow> host_trade \<Rightarrow> ('s, 'st) runtime \<Rightarrow> ('s, 'st) runtime \<times> bool" where
  "handle_trade cfg env t st =
     (if \<not> relevant cfg (tr_symbol t) then xack env st
      else case should_process_trade (re_f64_text env) t st of
          (False, st1) \<Rightarrow> xack env st1
        | (True, st1) \<Rightarrow> xack env (track_trade t st1))"

text \<open>Outside live mode positions come from the simulator; the failure of that acknowledgement is
  only logged.\<close>

definition handle_position ::
  "('s, 'st) strategy_ops \<Rightarrow> runtime_config \<Rightarrow> rt_env \<Rightarrow> host_position \<Rightarrow> ('s, 'st) runtime
   \<Rightarrow> ('s, 'st) runtime \<times> bool" where
  "handle_position ops cfg env pos st =
     (if rc_trade_mode cfg \<noteq> TmLive then (fst (xack env st), True)
      else if \<not> matches_strategy_symbol cfg (hp_symbol pos) then xack env st
      else case normalize_event_ts (hp_ts pos) st of
        (event_ts, st1) \<Rightarrow>
          let ctx = runtime_ctx cfg (re_ctx_now env) (strategy_last_bar_ts cfg st1) (hp_ts pos) st1
          in and_then (invoke_and_apply ops cfg env ctx event_ts (so_on_position ops ctx pos) st1)
               (\<lambda>st2. xack env (st2\<lparr>rt_positions := (rt_positions st2)(hp_symbol pos \<mapsto> pos)\<rparr>)))"

text \<open>The callback of a bar, with its audit record, and what follows it. The context of the
  callback has the bar before this one; the context its intents are judged in has this one.\<close>

definition call_on_bar ::
  "('s, 'st) strategy_ops \<Rightarrow> strategy_ctx \<Rightarrow> host_bar \<Rightarrow> ('s, 'st) runtime
   \<Rightarrow> ('s, 'st) runtime \<times> intent list \<times> 'st" where
  "call_on_bar ops ctx bar st =
     invoke_strategy_callback ops (so_on_bar ops ctx bar) (st\<lparr>rt_log := rt_log st @ [RtOnBar bar]\<rparr>)"

definition handle_bar ::
  "('s, 'st) strategy_ops \<Rightarrow> runtime_config \<Rightarrow> rt_env \<Rightarrow> host_bar \<Rightarrow> ('s, 'st) runtime
   \<Rightarrow> ('s, 'st) runtime \<times> bool" where
  "handle_bar ops cfg env bar st =
     (if is_duplicate_bar (hb_symbol bar) (hb_close_time bar) st then xack env st
      else
        let prev_bar_ts = rt_last_bar st (hb_symbol bar) in
        case normalize_event_ts (hb_close_time bar) st of
          (event_ts, st1) \<Rightarrow>
            let st2 = (if hb_origin bar = OrLive
                       then st1\<lparr>rt_bootstrap := (rt_bootstrap st1)\<lparr>bs_seen_live_bar := True\<rparr>\<rparr> else st1)
            in and_then (maybe_wait_for_live_bar cfg env bar st2) (\<lambda>st3.
                 let ctx = runtime_ctx cfg (re_ctx_now env) prev_bar_ts event_ts st3 in
                 case call_on_bar ops ctx bar st3 of
                   (st4, intents, prev) \<Rightarrow>
                     and_then
                       (if rc_trade_mode cfg \<noteq> TmLive then
                          and_then (advance_paper ops cfg env ctx bar event_ts intents prev st4)
                            (persist_state env None)
                        else
                          apply_intents ops cfg env
                            (runtime_ctx cfg (re_emit_now env 0) (Some (hb_close_time bar)) event_ts st4)
                            event_ts (max (re_dispatch_now env) event_ts) intents prev st4)
                       (\<lambda>st5. xack env (update_last_bar_ts (hb_symbol bar) (hb_close_time bar) st5))))"

definition handle_replay_bar ::
  "('s, 'st) strategy_ops \<Rightarrow> runtime_config \<Rightarrow> rt_env \<Rightarrow> host_bar \<Rightarrow> ('s, 'st) runtime
   \<Rightarrow> ('s, 'st) runtime \<times> bool" where
  "handle_replay_bar ops cfg env bar st =
     (if is_duplicate_bar (hb_symbol bar) (hb_close_time bar) st then (st, True)
      else
        let t = hb_close_time bar;
            ctx = runtime_ctx cfg (re_ctx_now env) (rt_last_bar st (hb_symbol bar)) t st
        in case call_on_bar ops ctx bar st of
          (st1, intents, prev) \<Rightarrow>
            and_then
              (if rc_trade_mode cfg \<noteq> TmLive then advance_paper ops cfg env ctx bar t intents prev st1
               else apply_intents ops cfg env ctx t (max (re_dispatch_now env) t) intents prev st1)
              (\<lambda>st2. ((update_last_bar_ts (hb_symbol bar) t st2)
                 \<lparr>rt_bars_read := sat_inc (rt_bars_read st2)\<rparr>, True)))"

definition handle_timer ::
  "('s, 'st) strategy_ops \<Rightarrow> runtime_config \<Rightarrow> rt_env \<Rightarrow> i64 \<Rightarrow> ('s, 'st) runtime
   \<Rightarrow> ('s, 'st) runtime \<times> bool" where
  "handle_timer ops cfg env now_ms st =
     (let event_ts = now_ms div 1000;
          ctx = runtime_ctx cfg (re_ctx_now env) (rt_last_bar st (rc_symbol cfg)) event_ts st
      in invoke_and_apply ops cfg env ctx event_ts (so_on_timer ops ctx now_ms) st)"

section \<open>Messages and runs\<close>

text \<open>\<open>RmBarsRead n\<close> is the count of a batch of bars that was read; \<open>RmHealth\<close> a poll of the health
  stream that is due.\<close>

datatype rt_message =
  RmAck command_ack
| RmOrder host_order
| RmStopOrder host_stop_order
| RmTrade host_trade
| RmPosition host_position
| RmBarsRead nat
| RmBar host_bar
| RmTimer i64
| RmHealth

fun handle_message ::
  "('s, 'st) strategy_ops \<Rightarrow> runtime_config \<Rightarrow> rt_env \<Rightarrow> rt_message \<Rightarrow> ('s, 'st) runtime
   \<Rightarrow> ('s, 'st) runtime \<times> bool" where
  "handle_message ops cfg env (RmAck ack) st = handle_ack ops cfg env ack st"
| "handle_message ops cfg env (RmOrder ord) st = handle_order ops cfg env ord st"
| "handle_message ops cfg env (RmStopOrder ord) st = handle_stop_order ops cfg env ord st"
| "handle_message ops cfg env (RmTrade t) st = handle_trade cfg env t st"
| "handle_message ops cfg env (RmPosition pos) st = handle_position ops cfg env pos st"
| "handle_message ops cfg env (RmBarsRead n) st =
     (st\<lparr>rt_bars_read := min (rt_bars_read st + n) (2 ^ 64 - 1)\<rparr>, True)"
| "handle_message ops cfg env (RmBar bar) st = handle_bar ops cfg env bar st"
| "handle_message ops cfg env (RmTimer now_ms) st = handle_timer ops cfg env now_ms st"
| "handle_message ops cfg env RmHealth st =
     (if rc_has_health_stream cfg then refresh_health_now env st else (st, True))"

fun run_runtime ::
  "('s, 'st) strategy_ops \<Rightarrow> runtime_config \<Rightarrow> (rt_env \<times> rt_message) list \<Rightarrow> ('s, 'st) runtime
   \<Rightarrow> ('s, 'st) runtime \<times> bool" where
  "run_runtime ops cfg [] st = (st, True)"
| "run_runtime ops cfg ((env, m) # ms) st =
     and_then (handle_message ops cfg env m st) (run_runtime ops cfg ms)"

text \<open>One poll reads the streams in a fixed order, then calls the timer and polls the health.\<close>

record rt_poll =
  rp_acks :: "(rt_env \<times> command_ack) list"
  rp_orders :: "(rt_env \<times> (host_order + host_stop_order)) list"
  rp_trades :: "(rt_env \<times> host_trade) list"
  rp_positions :: "(rt_env \<times> host_position) list"
  rp_bars :: "(rt_env \<times> host_bar) list"
  rp_env :: rt_env
  rp_now_ms :: i64
  rp_health_due :: bool

definition poll_messages :: "rt_poll \<Rightarrow> (rt_env \<times> rt_message) list" where
  "poll_messages p =
     map (apsnd RmAck) (rp_acks p)
     @ map (apsnd (case_sum RmOrder RmStopOrder)) (rp_orders p)
     @ map (apsnd RmTrade) (rp_trades p)
     @ map (apsnd RmPosition) (rp_positions p)
     @ (rp_env p, RmBarsRead (length (rp_bars p))) # map (apsnd RmBar) (rp_bars p)
     @ [(rp_env p, RmTimer (rp_now_ms p))]
     @ (if rp_health_due p then [(rp_env p, RmHealth)] else [])"

definition poll_once ::
  "('s, 'st) strategy_ops \<Rightarrow> runtime_config \<Rightarrow> rt_poll \<Rightarrow> ('s, 'st) runtime
   \<Rightarrow> ('s, 'st) runtime \<times> bool" where
  "poll_once ops cfg p st = run_runtime ops cfg (poll_messages p) st"

end
