(* ===== verification/Runtime_Safety.thy ===== *)
theory Runtime_Safety
  imports Runtime_Events
begin

text \<open>
  Invariants of the strategy runtime over runs of messages: the persisted state agrees with the
  strategy, bars reach the strategy in order, no fill is lost, and no entry leaves before the
  runtime is ready.
\<close>

section \<open>What the simulator touches\<close>

definition paper_frame :: "('s, 'st) runtime \<Rightarrow> ('s, 'st) runtime \<Rightarrow> bool" where
  "paper_frame st st' \<longleftrightarrow>
     st' = st\<lparr>rt_next_sim_id := rt_next_sim_id st', rt_sim_orders := rt_sim_orders st',
              rt_ledger := rt_ledger st', rt_positions := rt_positions st',
              rt_strategy := rt_strategy st', rt_strategy_state := rt_strategy_state st',
              rt_writes := rt_writes st', rt_log := rt_log st'\<rparr>
     \<and> bars_in (rt_log st') = bars_in (rt_log st) \<and> commands_in (rt_log st') = commands_in (rt_log st)"

definition sim_frame :: "('s, 'st) runtime \<Rightarrow> ('s, 'st) runtime \<Rightarrow> bool" where
  "sim_frame st st' \<longleftrightarrow> paper_frame st st'
     \<and> rt_strategy st' = rt_strategy st \<and> rt_strategy_state st' = rt_strategy_state st"

lemma paper_frame_refl [simp]: "paper_frame st st"
  by (simp add: paper_frame_def)

lemma paper_frame_trans: "paper_frame a b \<Longrightarrow> paper_frame b c \<Longrightarrow> paper_frame a c"
  unfolding paper_frame_def by (cases a; cases b; cases c) simp

lemma sim_frame_refl [simp]: "sim_frame st st"
  by (simp add: sim_frame_def)

lemma sim_frame_trans: "sim_frame a b \<Longrightarrow> sim_frame b c \<Longrightarrow> sim_frame a c"
  unfolding sim_frame_def by (auto intro: paper_frame_trans)

lemma sim_paper: "sim_frame a b \<Longrightarrow> paper_frame a b"
  by (simp add: sim_frame_def)

lemma paper_frameD:
  assumes "paper_frame st st'"
  shows "rt_last_bar st' = rt_last_bar st" "rt_bootstrap st' = rt_bootstrap st"
    "rt_bars_read st' = rt_bars_read st" "rt_now st' = rt_now st"
    "bars_in (rt_log st') = bars_in (rt_log st)" "commands_in (rt_log st') = commands_in (rt_log st)"
    "rt_our_requests st' = rt_our_requests st" "rt_our_orders st' = rt_our_orders st"
    "rt_pending_trades st' = rt_pending_trades st" "rt_orders st' = rt_orders st"
  using assms unfolding paper_frame_def by (cases st; cases st'; simp)+

lemma emit_sim_frame:
  assumes "bar_of e = None" "command_of e = None"
  shows "sim_frame st (fst (emit_effect env e st))"
  using assms by (auto simp: emit_effect_def Let_def sim_frame_def paper_frame_def)

lemma reports_sim_frame: "sim_frame st (fst (persist_ledger_reports cfg env st))"
  by (simp add: persist_ledger_reports_def emit_sim_frame split: trade_mode.split)

lemma record_intents_sim_frame: "sim_frame st (fst (record_non_live_intents env is st))"
  by (simp add: record_non_live_intents_def emit_sim_frame)

lemma enqueue_sim_frame: "sim_frame st (enqueue_sim_order ord p st)"
  by (simp add: enqueue_sim_order_def sim_frame_def paper_frame_def)

lemma sim_update_frame:
  "sim_frame st (st\<lparr>rt_next_sim_id := n, rt_ledger := l\<rparr>)"
  "sim_frame st (st\<lparr>rt_sim_orders := os, rt_ledger := l\<rparr>)"
  "sim_frame st (st\<lparr>rt_sim_orders := os\<rparr>)"
  by (simp_all add: sim_frame_def paper_frame_def)

lemma simulate_market_frame:
  "sim_frame st (fst (simulate_market cfg env bar cls qty sd fp c st))"
  by (auto simp: simulate_market_def Let_def enqueue_sim_frame split: option.split
      intro!: sim_frame_trans [OF sim_update_frame(1) reports_sim_frame])

lemma simulate_base_frame: "sim_frame st (fst (simulate_base cfg env bar cls i st))"
  by (induction cfg env bar cls i st rule: simulate_base.induct)
    (auto simp: simulate_market_frame enqueue_sim_frame sim_update_frame split: option.split)

lemma simulate_intents_frame: "sim_frame st (fst (simulate_intents cfg env bar is st))"
proof (induction "is" arbitrary: st)
  case (Cons i "is")
  show ?case unfolding simulate_intents.simps
    by (rule and_then_rel) (auto simp: simulate_base_frame Cons intro: sim_frame_trans)
qed simp

lemma apply_sim_fill_frame: "paper_frame st (fst (apply_sim_fill ops cfg env bar ord p q st))"
proof -
  define upd where "upd = (\<lambda>l ps s. st\<lparr>rt_ledger := l, rt_positions := ps, rt_strategy := s,
    rt_strategy_state := so_state ops s\<rparr>)"
  have upd: "paper_frame st (upd l ps s)" for l ps s by (simp add: upd_def paper_frame_def)
  have more: "paper_frame a (fst (and_then
      (if is = [] then (a, True)
       else and_then (record_non_live_intents env is a) (simulate_intents cfg env bar is))
      (persist_ledger_reports cfg env)))" for a "is"
    by (intro and_then_rel [of paper_frame])
      (auto simp: and_then_def intro: paper_frame_trans sim_paper
        [OF sim_frame_trans [OF record_intents_sim_frame simulate_intents_frame]]
        sim_paper [OF record_intents_sim_frame] sim_paper [OF reports_sim_frame])
  show ?thesis
    unfolding apply_sim_fill_def Let_def case_prod_unfold
    by (rule paper_frame_trans [OF _ more]) (simp add: upd [unfolded upd_def])
qed

lemma fill_one_frame: "paper_frame st (fst (fill_one ops cfg env bar k p st))"
  by (auto simp: fill_one_def Let_def sim_paper sim_update_frame split: option.split
      intro!: paper_frame_trans [OF sim_paper [OF sim_update_frame(3)] apply_sim_fill_frame])

lemma fill_all_frame: "paper_frame st (fst (fill_all ops cfg env bar fs st))"
proof (induction ops cfg env bar fs st rule: fill_all.induct)
  case (2 ops cfg env bar k p rest st)
  show ?case unfolding fill_all.simps
    by (rule and_then_rel) (auto simp: fill_one_frame 2 intro: paper_frame_trans)
qed simp

lemma filter_paper_frame:
  "paper_frame st (fst (filter_paper_intents_for_simulation ops cfg env ctx t is prev st))"
  by (auto simp: filter_paper_intents_for_simulation_def Let_def restore_strategy_state_def
      paper_frame_def)

lemma advance_paper_frame: "paper_frame st (fst (advance_paper ops cfg env ctx bar t is prev st))"
proof -
  have "paper_frame a (fst (case filter_paper_intents_for_simulation ops cfg env ctx t is prev a of
      (b, acc) \<Rightarrow> and_then (record_non_live_intents env acc b) (simulate_intents cfg env bar acc)))" for a
    unfolding case_prod_unfold
    by (rule paper_frame_trans [OF filter_paper_frame], rule and_then_rel)
      (auto intro: paper_frame_trans sim_paper [OF record_intents_sim_frame]
        sim_paper [OF simulate_intents_frame])
  then show ?thesis unfolding advance_paper_def simulate_fills_def
    by (auto intro!: and_then_rel [of paper_frame] intro: paper_frame_trans fill_all_frame)
qed

section \<open>The strategy and its persisted state agree\<close>

lemma in_sync_sim: "sim_frame a b \<Longrightarrow> in_sync ops b = in_sync ops a"
  by (simp add: in_sync_def sim_frame_def)

lemma in_sync_same:
  "rt_strategy b = rt_strategy a \<Longrightarrow> rt_strategy_state b = rt_strategy_state a
   \<Longrightarrow> in_sync ops b = in_sync ops a"
  by (simp add: in_sync_def)

lemma in_sync_and_then:
  assumes "in_sync ops (fst r)" "\<And>a. in_sync ops a \<Longrightarrow> in_sync ops (fst (f a))"
  shows "in_sync ops (fst (and_then r f))"
  using assms by (simp add: and_then_def)

lemma in_sync_apply_fill: "in_sync ops (fst (apply_sim_fill ops cfg env bar ord p q st))"
proof -
  have more: "in_sync ops (fst (and_then
      (if is = [] then (a, True)
       else and_then (record_non_live_intents env is a) (simulate_intents cfg env bar is))
      (persist_ledger_reports cfg env)))" if "in_sync ops a" for a "is"
    using that
    by (intro in_sync_and_then)
      (auto simp: and_then_def in_sync_sim [OF record_intents_sim_frame]
        in_sync_sim [OF simulate_intents_frame] in_sync_sim [OF reports_sim_frame])
  show ?thesis
    unfolding apply_sim_fill_def Let_def case_prod_unfold
    by (rule more) (simp add: in_sync_def)
qed

lemma in_sync_fill_one:
  assumes "in_sync ops st"
  shows "in_sync ops (fst (fill_one ops cfg env bar k p st))"
  using assms
  by (auto simp: fill_one_def Let_def in_sync_apply_fill in_sync_sim [OF sim_update_frame(2)]
      split: option.split)

lemma in_sync_fill_all: "in_sync ops st \<Longrightarrow> in_sync ops (fst (fill_all ops cfg env bar fs st))"
proof (induction ops cfg env bar fs st rule: fill_all.induct)
  case (2 ops cfg env bar k p rest st)
  then show ?case by (simp add: and_then_def in_sync_fill_one)
qed simp

lemma in_sync_track: "track_frame a b \<Longrightarrow> in_sync ops b = in_sync ops a"
  by (rule in_sync_same) (simp_all add: track_frameD)

lemma normalize_fields [simp]:
  "rt_strategy (snd (normalize_event_ts t st)) = rt_strategy st"
  "rt_strategy_state (snd (normalize_event_ts t st)) = rt_strategy_state st"
  "rt_last_bar (snd (normalize_event_ts t st)) = rt_last_bar st"
  "rt_log (snd (normalize_event_ts t st)) = rt_log st"
  "rt_bootstrap (snd (normalize_event_ts t st)) = rt_bootstrap st"
  "rt_bars_read (snd (normalize_event_ts t st)) = rt_bars_read st"
  "rt_orders (snd (normalize_event_ts t st)) = rt_orders st"
  "rt_our_orders (snd (normalize_event_ts t st)) = rt_our_orders st"
  "rt_our_requests (snd (normalize_event_ts t st)) = rt_our_requests st"
  "rt_pending_trades (snd (normalize_event_ts t st)) = rt_pending_trades st"
  "rt_ledger (snd (normalize_event_ts t st)) = rt_ledger st"
  by (simp_all add: normalize_event_ts_def Let_def)

lemma xack_fields [simp]:
  "rt_strategy (fst (xack env st)) = rt_strategy st"
  "rt_strategy_state (fst (xack env st)) = rt_strategy_state st"
  "rt_last_bar (fst (xack env st)) = rt_last_bar st"
  "bars_in (rt_log (fst (xack env st))) = bars_in (rt_log st)"
  "commands_in (rt_log (fst (xack env st))) = commands_in (rt_log st)"
  "rt_bootstrap (fst (xack env st)) = rt_bootstrap st"
  "rt_bars_read (fst (xack env st)) = rt_bars_read st"
  "rt_orders (fst (xack env st)) = rt_orders st"
  "rt_our_orders (fst (xack env st)) = rt_our_orders st"
  "rt_our_requests (fst (xack env st)) = rt_our_requests st"
  "rt_pending_trades (fst (xack env st)) = rt_pending_trades st"
  "rt_ledger (fst (xack env st)) = rt_ledger st"
  by (simp_all add: xack_def)

lemma in_sync_xack [simp]: "in_sync ops (fst (xack env st)) = in_sync ops st"
  by (simp add: in_sync_def)

lemma update_ledger_frame: "track_frame st (update_ledger_from_order cfg ord st)"
  by (simp add: update_ledger_from_order_def Let_def track_frame_def)

context strategy_object
begin

lemma in_sync_advance_paper:
  assumes "in_sync ops st"
  shows "in_sync ops (fst (advance_paper ops cfg env ctx bar t is prev st))"
proof -
  have filt: "in_sync ops (fst (filter_paper_intents_for_simulation ops cfg env ctx t is prev a))"
    if "in_sync ops a" for a
    using that
    by (simp add: filter_paper_intents_for_simulation_def Let_def restore_strategy_state_def
        in_sync_def state_set)
  show ?thesis
    unfolding advance_paper_def case_prod_unfold simulate_fills_def using assms
    by (auto intro!: in_sync_and_then in_sync_fill_all
        simp: in_sync_sim [OF record_intents_sim_frame] in_sync_sim [OF simulate_intents_frame] filt)
qed

lemma in_sync_ack: "in_sync ops (fst (handle_ack ops cfg env ack st))"
  unfolding handle_ack_def Let_def case_prod_unfold
  by (rule in_sync_and_then) (simp_all add: in_sync_invoke)

lemma in_sync_order:
  assumes "in_sync ops st"
  shows "in_sync ops (fst (handle_order ops cfg env ord st))"
proof -
  have "in_sync ops (fst (xack env (replay_pending_trades_for_order k
      ((update_ledger_from_order cfg ord a)\<lparr>rt_orders := m\<rparr>))))" if "in_sync ops a" for a k m
    using that in_sync_track [OF update_ledger_frame [of a cfg ord], of ops]
    by (simp add: in_sync_track [OF replay_frame]) (simp add: in_sync_def)
  then show ?thesis unfolding handle_order_def Let_def case_prod_unfold using assms
    by (auto intro!: in_sync_and_then in_sync_invoke)
qed

lemma in_sync_stop_order:
  assumes "in_sync ops st"
  shows "in_sync ops (fst (handle_stop_order ops cfg env ord st))"
  unfolding handle_stop_order_def Let_def case_prod_unfold using assms
  by (auto intro!: in_sync_and_then in_sync_invoke) (simp_all add: in_sync_def)

lemma in_sync_trade:
  assumes "in_sync ops st"
  shows "in_sync ops (fst (handle_trade cfg env t st))"
proof -
  have "in_sync ops (snd (should_process_trade fmt t st))" for fmt
    using assms by (simp add: in_sync_def)
  then show ?thesis using assms
    by (auto simp: handle_trade_def case_prod_unfold in_sync_track [OF track_trade_frame]
        split: bool.split)
qed

lemma in_sync_position:
  assumes "in_sync ops st"
  shows "in_sync ops (fst (handle_position ops cfg env pos st))"
  unfolding handle_position_def Let_def case_prod_unfold using assms
  by (auto intro!: in_sync_and_then in_sync_invoke) (simp add: in_sync_def)

lemma in_sync_call: "in_sync ops (fst (call_on_bar ops ctx bar st))"
  by (simp add: call_on_bar_def)

lemma in_sync_bar:
  assumes "in_sync ops st"
  shows "in_sync ops (fst (handle_bar ops cfg env bar st))"
proof -
  have wait: "in_sync ops (fst (maybe_wait_for_live_bar cfg env bar a))" if "in_sync ops a" for a
    using that by (simp add: in_sync_health [OF wait_live_bar_only_health])
  have upd: "in_sync ops (update_last_bar_ts s t a)" if "in_sync ops a" for a s t
    using that by (simp add: in_sync_def update_last_bar_ts_def)
  have norm: "in_sync ops (snd (normalize_event_ts t st))"
      "in_sync ops ((snd (normalize_event_ts t st))\<lparr>rt_bootstrap := b\<rparr>)" for t b
    using assms by (simp_all add: in_sync_def)
  show ?thesis
    unfolding handle_bar_def Let_def case_prod_unfold using assms norm
    by (auto intro!: in_sync_and_then wait in_sync_apply_intents in_sync_advance_paper in_sync_call
        simp: upd)
qed

lemma in_sync_message:
  assumes "in_sync ops st"
  shows "in_sync ops (fst (handle_message ops cfg env m st))"
proof (cases m)
  case (RmBarsRead n)
  then show ?thesis using assms by (simp add: in_sync_def)
qed (use assms in \<open>simp_all add: in_sync_ack in_sync_order in_sync_stop_order in_sync_trade
      in_sync_position in_sync_bar handle_timer_def Let_def in_sync_invoke
      in_sync_health [OF refresh_only_health]\<close>)

lemma in_sync_run: "in_sync ops st \<Longrightarrow> in_sync ops (fst (run_runtime ops cfg ms st))"
proof (induction ms arbitrary: st)
  case (Cons em ms)
  then show ?case by (cases em) (simp add: and_then_def in_sync_message)
qed simp

end

section \<open>The last snapshot is the state\<close>

text \<open>The state last written is the runtime's copy; and a result that, when it succeeded, is so.\<close>

definition current :: "'st \<Rightarrow> ('s, 'st) runtime \<Rightarrow> bool" where
  "current x st \<longleftrightarrow> last_state x (rt_log st) = rt_strategy_state st"

definition settles :: "'st \<Rightarrow> ('s, 'st) runtime \<times> bool \<Rightarrow> bool" where
  "settles x r \<longleftrightarrow> (snd r \<longrightarrow> current x (fst r))"

lemma settles_and_then:
  assumes "settles x r" "\<And>a. current x a \<Longrightarrow> settles x (f a)"
  shows "settles x (and_then r f)"
  using assms by (auto simp: settles_def and_then_def)

lemma settles_after:
  assumes "\<And>a. settles x (f a)"
  shows "settles x (and_then r f)"
  using assms by (auto simp: settles_def and_then_def)

lemma settles_failed [simp]: "settles x (st, False)"
  by (simp add: settles_def)

lemma settles_persist [simp]: "settles x (persist_state env c st)"
  by (auto simp: settles_def current_def persist_state_def emit_effect_def snapshot_def Let_def split: option.split)

lemma current_same:
  "rt_log b = rt_log a \<Longrightarrow> rt_strategy_state b = rt_strategy_state a \<Longrightarrow> current x b = current x a"
  by (simp add: current_def)

lemma current_frames:
  "track_frame a b \<Longrightarrow> current x b = current x a" "only_health a b \<Longrightarrow> current x b = current x a"
  by (rule current_same; simp add: track_frameD only_health_frame)+

lemma settles_xack [simp]: "current x st \<Longrightarrow> settles x (xack env st)"
  by (auto simp: settles_def current_def xack_def)

lemma last_state_xack [simp]: "last_state x (rt_log (fst (xack env st))) = last_state x (rt_log st)"
  by (simp add: xack_def)

lemma settles_drop [simp]: "settles x (drop_batch ops env prev st)"
  by (simp add: drop_batch_def)

lemma settles_send: "xs \<noteq> [] \<Longrightarrow> settles x (send_intents ops cfg env ctx created dispatch xs st)"
proof (induction ops cfg env ctx created dispatch xs st rule: send_intents.induct)
  case (2 ops cfg env ctx created dispatch i cls rest st)
  have "settles x (send_intent ops cfg env ctx created i cls st)"
    unfolding send_intent_def Let_def
    by (rule settles_and_then [OF settles_persist]) (simp add: settles_def current_def)
  then have one: "settles x (if exit_must_wait (re_chrono env) cfg dispatch cls
      then defer_exit ops cfg env ctx created dispatch i cls st
      else send_intent ops cfg env ctx created i cls st)"
    by (simp add: defer_exit_def case_prod_unfold Let_def)
  show ?case
  proof (cases "rest = []")
    case True
    then show ?thesis using one by (simp add: settles_def and_then_def)
  next
    case False
    then show ?thesis using one 2 by (auto intro!: settles_and_then)
  qed
qed simp

lemma settles_decided:
  "accepted \<noteq> [] \<Longrightarrow> settles x (dispatch_decided ops cfg env ctx created dispatch accepted prev d st)"
  by (auto simp: dispatch_decided_def Let_def settles_send split: prod.split bool.split)

lemma settles_intents: "settles x (apply_intents ops cfg env ctx created dispatch intents prev st)"
  by (auto simp: apply_intents_def Let_def settles_decided intro: settles_after
      split: prod.split option.split)

lemma settles_invoke [simp]: "settles x (invoke_and_apply ops cfg env ctx created f st)"
  by (simp add: invoke_and_apply_def settles_intents split: prod.split)

lemma settles_bar: "current x st \<Longrightarrow> settles x (handle_bar ops cfg env bar st)"
proof -
  assume st: "current x st"
  have upd: "current x (update_last_bar_ts s t a) = current x a" for s t a
    by (rule current_same) (simp_all add: update_last_bar_ts_def)
  have paper: "settles x (and_then r (persist_state env None))" for r
    by (rule settles_after) simp
  show ?thesis
    unfolding handle_bar_def Let_def case_prod_unfold using st
    by (auto intro!: settles_after [of x "\<lambda>st3. and_then (r st3) (f st3)" for r f] settles_and_then paper settles_intents
        settles_xack simp: upd)
qed

lemma settles_message:
  assumes st: "current x st"
  shows "settles x (handle_message ops cfg env m st)"
proof (cases m)
  case (RmOrder ord)
  have "current x (replay_pending_trades_for_order k ((update_ledger_from_order cfg ord a)\<lparr>rt_orders := m1\<rparr>))"
    if "current x a" for a k m1
  proof -
    have "current x ((update_ledger_from_order cfg ord a)\<lparr>rt_orders := m1\<rparr>)"
      using that current_frames(1) [OF update_ledger_frame [of a cfg ord], of x] by (simp add: current_def)
    then show ?thesis using current_frames(1) [OF replay_frame, of x] by blast
  qed
  then show ?thesis using st RmOrder
    by (auto simp: handle_order_def Let_def case_prod_unfold intro!: settles_and_then settles_xack)
next
  case (RmTrade t)
  have "current x (snd (should_process_trade fmt t st))" for fmt
    using st by (simp add: current_def)
  then show ?thesis using st RmTrade
    by (auto simp: handle_trade_def case_prod_unfold current_frames(1) [OF track_trade_frame]
        split: bool.split)
next
  case RmHealth
  then show ?thesis using st current_frames(2) [OF refresh_only_health [of st env], of x]
    by (simp add: settles_def)
qed (use st settles_xack [OF st] settles_bar [OF st] in \<open>auto simp: handle_ack_def handle_stop_order_def
      handle_position_def handle_timer_def case_prod_unfold Let_def settles_def [of x "(st', True)" for st']
      current_def intro!: settles_and_then settles_xack\<close>)

lemma settles_run: "current x st \<Longrightarrow> settles x (run_runtime ops cfg ms st)"
proof (induction ms arbitrary: st)
  case (Cons em ms)
  then show ?case by (cases em) (simp add: settles_and_then settles_message)
qed (simp add: settles_def)

section \<open>Steps that only a bar or an order changes\<close>

text \<open>Two states with the same commands and bars in their logs, the same last bars and the same
  readiness.\<close>

definition quiet :: "('s, 'st) runtime \<Rightarrow> ('s, 'st) runtime \<Rightarrow> bool" where
  "quiet st st' \<longleftrightarrow> commands_in (rt_log st') = commands_in (rt_log st)
     \<and> bars_in (rt_log st') = bars_in (rt_log st) \<and> rt_last_bar st' = rt_last_bar st
     \<and> rt_bootstrap st' = rt_bootstrap st \<and> rt_bars_read st' = rt_bars_read st"

lemma quiet_facts:
  "track_frame a b \<Longrightarrow> quiet a b" "paper_frame a b \<Longrightarrow> quiet a b" "only_health a b \<Longrightarrow> quiet a b"
  "quiet a (snd (normalize_event_ts t a))" "quiet a (a\<lparr>rt_orders := m1\<rparr>)"
  "quiet a (a\<lparr>rt_stop_orders := m2\<rparr>)" "quiet a (a\<lparr>rt_positions := m3\<rparr>)"
  "quiet a (snd (should_process_trade fmt tr a))" "quiet a (fst (xack env a))"
  "quiet a (fst (persist_state env None a))"
  by (simp_all add: quiet_def track_frameD paper_frameD only_health_frame)
    (auto simp: persist_state_def emit_effect_def Let_def)

fun bar_message :: "rt_message \<Rightarrow> bool" where
  "bar_message (RmBarsRead _) = True"
| "bar_message (RmBar _) = True"
| "bar_message _ = False"

text \<open>A relation on states that holds over quiet steps and over a callback with its dispatch holds
  over every message that is not a bar.\<close>

locale quiet_relation =
  fixes ops :: "('s, 'st) strategy_ops" and cfg :: runtime_config
    and R :: "('s, 'st) runtime \<Rightarrow> ('s, 'st) runtime \<Rightarrow> bool"
  assumes trans: "R a b \<Longrightarrow> R b c \<Longrightarrow> R a c"
    and quiet: "quiet a b \<Longrightarrow> R a b"
    and invoke: "R a (fst (invoke_and_apply ops cfg env ctx created f a))"
begin

lemmas quietly = quiet_facts [THEN quiet]
lemmas andthen = and_then_rel [of R, OF _ trans]

lemma refl: "R a a"
  by (rule quiet) (simp add: quiet_def)

lemma xack: "R a b \<Longrightarrow> R a (fst (xack env b))"
  by (rule trans [OF _ quietly(9)])

lemma normalize_invoke:
  "R a (fst (invoke_and_apply ops cfg env ctx created f (snd (normalize_event_ts t a))))"
  by (rule trans [OF quietly(4) invoke])

lemma ack: "R st (fst (handle_ack ops cfg env ack st))"
  unfolding handle_ack_def Let_def case_prod_unfold
  by (rule andthen) (auto intro: trans [OF quietly(1) [OF register_frame] normalize_invoke] xack refl)

lemma order: "R st (fst (handle_order ops cfg env ord st))"
proof -
  note keep = trans [OF trans [OF quietly(1) [OF update_ledger_frame] quietly(5)]
        quietly(1) [OF replay_frame]]
  show ?thesis unfolding handle_order_def Let_def case_prod_unfold
    by (auto intro!: andthen normalize_invoke xack keep refl)
qed

lemma stop_order: "R st (fst (handle_stop_order ops cfg env ord st))"
  unfolding handle_stop_order_def Let_def case_prod_unfold
  by (auto intro!: andthen normalize_invoke xack refl quietly(6))

lemma trade: "R st (fst (handle_trade cfg env t st))"
  by (auto simp: handle_trade_def case_prod_unfold split: bool.split
      intro!: xack refl quietly(8) trans [OF quietly(8) quietly(1) [OF track_trade_frame]])

lemma position: "R st (fst (handle_position ops cfg env pos st))"
  unfolding handle_position_def Let_def case_prod_unfold
  by (auto intro!: andthen normalize_invoke xack refl quietly(7))

lemma non_bar: "\<not> bar_message m \<Longrightarrow> R st (fst (handle_message ops cfg env m st))"
  by (cases m) (auto simp: handle_timer_def Let_def
      intro: ack order stop_order trade position invoke refl quietly(3) [OF refresh_only_health])

end

section \<open>Entries wait for readiness\<close>

definition runtime_ready :: "runtime_config \<Rightarrow> ('s, 'st) runtime \<Rightarrow> bool" where
  "runtime_ready cfg st \<longleftrightarrow> rc_trade_mode cfg = TmLive \<and> rc_allow_live cfg
     \<and> bootstrap_ready (rt_bootstrap st) \<and> 0 < rt_bars_read st"

text \<open>A step after which the runtime is still ready if it was, and that publishes entries only
  if it is.\<close>

definition safe_step :: "runtime_config \<Rightarrow> ('s, 'st) runtime \<Rightarrow> ('s, 'st) runtime \<Rightarrow> bool" where
  "safe_step cfg st st' \<longleftrightarrow> (runtime_ready cfg st \<longrightarrow> runtime_ready cfg st')
     \<and> (\<exists>new. commands_in (rt_log st') = commands_in (rt_log st) @ new
          \<and> list_all (\<lambda>c. oc_intent_class c = Some Entry \<longrightarrow> runtime_ready cfg st') new)"

lemma safe_step_refl [simp]: "safe_step cfg st st"
  by (simp add: safe_step_def)

lemma safe_step_trans: "safe_step cfg a b \<Longrightarrow> safe_step cfg b c \<Longrightarrow> safe_step cfg a c"
  unfolding safe_step_def by (fastforce simp: list_all_iff)

lemma safe_step_quiet:
  assumes "commands_in (rt_log st') = commands_in (rt_log st)" "rt_bars_read st' = rt_bars_read st"
    and "rt_bootstrap st' = rt_bootstrap st"
  shows "safe_step cfg st st'"
  using assms by (simp add: safe_step_def runtime_ready_def)

lemma safe_apply_intents:
  "safe_step cfg st (fst (apply_intents ops cfg env ctx created dispatch intents prev st))"
    (is "safe_step cfg st ?st'")
proof -
  note frame = dispatch_frameD [OF apply_intents_frame [of st ops cfg env ctx created dispatch intents prev]]
  have "runtime_ready cfg ?st'"
    if "rc_trade_mode cfg = TmLive" "authorised cfg env ctx created dispatch intents ?st' c"
      "oc_intent_class c = Some Entry" for c
    using that by (auto simp: authorised_def Let_def runtime_ready_def dest: evaluate_guard_allowed)
  moreover obtain new where new: "rt_log ?st' = rt_log st @ new"
    "list_all (\<lambda>c. rc_trade_mode cfg = TmLive \<and> authorised cfg env ctx created dispatch intents ?st' c)
       (commands_in new)"
    using apply_intents_log [of cfg env ctx created dispatch intents ops prev st]
    unfolding log_grows_def by blast
  ultimately have "list_all (\<lambda>c. oc_intent_class c = Some Entry \<longrightarrow> runtime_ready cfg ?st') (commands_in new)"
    by (auto simp: list_all_iff)
  moreover have "runtime_ready cfg st \<longrightarrow> runtime_ready cfg ?st'"
    using frame(8,10) by (simp add: runtime_ready_def)
  ultimately show ?thesis unfolding safe_step_def using new(1) by auto
qed

lemma safe_invoke: "safe_step cfg st (fst (invoke_and_apply ops cfg env ctx created f st))"
  unfolding invoke_and_apply_def case_prod_unfold
  by (rule safe_step_trans [OF safe_step_quiet safe_apply_intents])
    (simp_all add: dispatch_frameD [OF send_dispatch [OF invoke_callback_frame]])

interpretation safe: quiet_relation ops cfg "safe_step cfg"
  by unfold_locales (auto intro: safe_step_trans safe_step_quiet safe_invoke simp: quiet_def)

lemma safe_call: "safe_step cfg st (fst (call_on_bar ops ctx bar st))"
  unfolding call_on_bar_def
  by (rule safe_step_trans [OF safe_step_quiet safe_step_quiet])
    (simp_all add: dispatch_frameD [OF send_dispatch [OF invoke_callback_frame]])

lemma safe_bar: "safe_step cfg st (fst (handle_bar ops cfg env bar st))"
proof -
  let ?n = "snd (normalize_event_ts (hb_close_time bar) st)"
  have live: "safe_step cfg st (?n\<lparr>rt_bootstrap := rt_bootstrap st\<lparr>bs_seen_live_bar := True\<rparr>\<rparr>)"
    by (simp add: safe_step_def runtime_ready_def bootstrap_ready_def)
  have wait: "safe_step cfg a (fst (maybe_wait_for_live_bar cfg env bar a))"
    for a :: "('a, 'b) runtime"
    by (rule safe.quietly(3) [OF wait_live_bar_only_health])
  have upd: "safe_step cfg a (update_last_bar_ts s t a)" for a :: "('a, 'b) runtime" and s t
    by (rule safe_step_quiet) (simp_all add: update_last_bar_ts_def)
  have paper: "safe_step cfg a (fst (and_then (advance_paper ops cfg env ctx bar t is prev a)
      (persist_state env None)))" for a ctx t "is" prev
    by (auto intro!: safe.andthen
        safe.quietly(2) [OF advance_paper_frame] safe.quietly(10))
  have call: "safe_step cfg a (fst (apply_intents ops cfg env ctx' t d is prev
      (fst (call_on_bar ops ctx bar a))))" for a ctx ctx' t d "is" prev
    by (rule safe_step_trans [OF safe_call safe_apply_intents])
  have sim: "safe_step cfg a (fst (and_then (advance_paper ops cfg env ctx' bar t is prev
      (fst (call_on_bar ops ctx bar a))) (persist_state env None)))" for a ctx ctx' t "is" prev
    by (rule safe_step_trans [OF safe_call paper])
  show ?thesis
    unfolding handle_bar_def Let_def case_prod_unfold
    by (auto intro!: safe.andthen safe.xack safe_step_trans [OF live wait]
        safe_step_trans [OF safe.quietly(4) wait] simp: call sim upd)
qed

lemma safe_message: "safe_step cfg st (fst (handle_message ops cfg env m st))"
proof (cases m)
  case (RmBarsRead n)
  then show ?thesis by (simp add: safe_step_def runtime_ready_def)
next
  case (RmBar bar)
  then show ?thesis by (simp add: safe_bar)
qed (rule safe.non_bar, simp)+

lemma safe_run: "safe_step cfg st (fst (run_runtime ops cfg ms st))"
proof (induction ms arbitrary: st)
  case (Cons em ms)
  then show ?case by (cases em) (auto intro!: safe.andthen safe_message)
qed simp

section \<open>Bars reach the strategy in order\<close>

text \<open>The close times of the bars of a symbol the strategy was called with, in order.\<close>

definition bar_times :: "string \<Rightarrow> 'st rt_effect list \<Rightarrow> i64 list" where
  "bar_times symbol es = map hb_close_time (filter (\<lambda>b. hb_symbol b = symbol) (bars_in es))"

definition bar_frame :: "('s, 'st) runtime \<Rightarrow> ('s, 'st) runtime \<Rightarrow> bool" where
  "bar_frame st st' \<longleftrightarrow> rt_last_bar st' = rt_last_bar st \<and> bars_in (rt_log st') = bars_in (rt_log st)"

lemma bar_frame_dispatch: "dispatch_frame a b \<Longrightarrow> bar_frame a b"
  by (simp add: bar_frame_def dispatch_frameD dispatch_frame_log)

lemma bar_frame_invoke: "bar_frame st (fst (invoke_and_apply ops cfg env ctx created f st))"
  unfolding invoke_and_apply_def case_prod_unfold
  by (rule bar_frame_dispatch, rule dispatch_frame_trans [OF send_dispatch [OF invoke_callback_frame]
        apply_intents_frame])

interpretation bars: quiet_relation ops cfg bar_frame
  by unfold_locales (auto simp: bar_frame_invoke, auto simp: bar_frame_def quiet_def)

text \<open>Times strictly ascend, and lie after \<open>first\<close> and up to the last bar processed.\<close>

definition ascending_after :: "(string \<Rightarrow> i64 option) \<Rightarrow> ('s, 'st) runtime \<Rightarrow> bool" where
  "ascending_after first st \<longleftrightarrow>
     (\<forall>s. sorted_wrt (<) (bar_times s (rt_log st))
        \<and> (\<forall>t \<in> set (bar_times s (rt_log st)). \<not> at_or_before t (first s)))"

definition bars_inv :: "(string \<Rightarrow> i64 option) \<Rightarrow> ('s, 'st) runtime \<Rightarrow> bool" where
  "bars_inv first st \<longleftrightarrow> ascending_after first st
     \<and> (\<forall>s. (\<forall>t \<in> set (bar_times s (rt_log st)). at_or_before t (rt_last_bar st s))
          \<and> (\<forall>t. at_or_before t (first s) \<longrightarrow> at_or_before t (rt_last_bar st s)))"

lemma bars_inv_frame: "bar_frame a b \<Longrightarrow> bars_inv first a \<Longrightarrow> bars_inv first b"
  by (simp add: bars_inv_def bar_frame_def ascending_after_def bar_times_def)

lemma bar_times_snoc:
  "bars_in es' = bars_in es @ [bar] \<Longrightarrow>
     bar_times s es' = bar_times s es @ (if hb_symbol bar = s then [hb_close_time bar] else [])"
  by (simp add: bar_times_def)

lemma bars_inv_new:
  assumes "bars_inv first a" "\<not> is_duplicate_bar (hb_symbol bar) (hb_close_time bar) a"
    and "bars_in (rt_log b) = bars_in (rt_log a) @ [bar]"
  shows "ascending_after first b"
    "rt_last_bar b = (rt_last_bar a)(hb_symbol bar \<mapsto> hb_close_time bar) \<Longrightarrow> bars_inv first b"
proof -
  have new: "\<not> at_or_before (hb_close_time bar) (rt_last_bar a (hb_symbol bar))"
    using assms(2) by (simp add: is_duplicate_bar_def)
  then have later: "t < hb_close_time bar" if "at_or_before t (rt_last_bar a (hb_symbol bar))" for t
    using that by (cases "rt_last_bar a (hb_symbol bar)") auto
  show asc: "ascending_after first b"
    using assms(1) new later
    by (auto simp: ascending_after_def bars_inv_def bar_times_snoc [OF assms(3)] sorted_wrt_append)
  assume lst: "rt_last_bar b = (rt_last_bar a)(hb_symbol bar \<mapsto> hb_close_time bar)"
  show "bars_inv first b"
    using asc assms(1) later
    by (fastforce simp: bars_inv_def lst bar_times_snoc [OF assms(3)] intro: less_imp_le)
qed

lemma call_on_bar_frame:
  "rt_last_bar (fst (call_on_bar ops ctx bar st)) = rt_last_bar st"
  "bars_in (rt_log (fst (call_on_bar ops ctx bar st))) = bars_in (rt_log st) @ [bar]"
  by (simp_all add: call_on_bar_def dispatch_frameD [OF send_dispatch [OF invoke_callback_frame]])

lemma handle_bar_log:
  assumes "\<not> is_duplicate_bar (hb_symbol bar) (hb_close_time bar) st"
  shows "bar_frame st (fst (handle_bar ops cfg env bar st)) \<and> \<not> snd (handle_bar ops cfg env bar st)
    \<or> bars_in (rt_log (fst (handle_bar ops cfg env bar st))) = bars_in (rt_log st) @ [bar]
       \<and> (snd (handle_bar ops cfg env bar st) \<longrightarrow>
            rt_last_bar (fst (handle_bar ops cfg env bar st))
              = (rt_last_bar st)(hb_symbol bar \<mapsto> hb_close_time bar))"
proof -
  let ?n = "snd (normalize_event_ts (hb_close_time bar) st)"
  define a where "a = (if hb_origin bar = OrLive
    then ?n\<lparr>rt_bootstrap := (rt_bootstrap ?n)\<lparr>bs_seen_live_bar := True\<rparr>\<rparr> else ?n)"
  define w where "w = maybe_wait_for_live_bar cfg env bar a"
  define ctx where "ctx = runtime_ctx cfg (re_ctx_now env) (rt_last_bar st (hb_symbol bar))
    (fst (normalize_event_ts (hb_close_time bar) st)) (fst w)"
  define c where "c = call_on_bar ops ctx bar (fst w)"
  define r where "r = (if rc_trade_mode cfg \<noteq> TmLive then
      and_then (advance_paper ops cfg env ctx bar (fst (normalize_event_ts (hb_close_time bar) st))
        (fst (snd c)) (snd (snd c)) (fst c)) (persist_state env None)
    else apply_intents ops cfg env (runtime_ctx cfg (re_emit_now env 0) (Some (hb_close_time bar))
        (fst (normalize_event_ts (hb_close_time bar) st)) (fst c))
      (fst (normalize_event_ts (hb_close_time bar) st))
      (max (re_dispatch_now env) (fst (normalize_event_ts (hb_close_time bar) st)))
      (fst (snd c)) (snd (snd c)) (fst c))"
  have eq: "handle_bar ops cfg env bar st = and_then w (\<lambda>_. and_then r
      (\<lambda>b. xack env (update_last_bar_ts (hb_symbol bar) (hb_close_time bar) b)))"
    using assms
    by (simp add: handle_bar_def Let_def case_prod_unfold a_def w_def ctx_def c_def r_def and_then_def)
  have w: "rt_last_bar (fst w) = rt_last_bar st" "bars_in (rt_log (fst w)) = bars_in (rt_log st)"
    using quiet_facts(3) [OF wait_live_bar_only_health [of a cfg env bar]]
    by (simp_all add: w_def a_def quiet_def)
  have "bar_frame (fst c) (fst r)"
    unfolding r_def
    by (auto intro!: bars.andthen bar_frame_dispatch [OF apply_intents_frame]
        bars.quietly(2) [OF advance_paper_frame] bars.quietly(10))
  then have "rt_last_bar (fst r) = rt_last_bar st" "bars_in (rt_log (fst r)) = bars_in (rt_log st) @ [bar]"
    by (simp_all add: bar_frame_def c_def call_on_bar_frame w)
  then show ?thesis using w unfolding eq
    by (auto simp: and_then_def bar_frame_def update_last_bar_ts_def)
qed

lemma bars_inv_message:
  assumes "bars_inv first st"
  shows "ascending_after first (fst (handle_message ops cfg env m st))"
    "snd (handle_message ops cfg env m st) \<Longrightarrow> bars_inv first (fst (handle_message ops cfg env m st))"
proof -
  have *: "bars_inv first b \<Longrightarrow> ascending_after first b" for b :: "('a, 'b) runtime"
    by (simp add: bars_inv_def)
  have frame: "bar_frame st (fst (handle_message ops cfg env m st))" if "\<not> bar_message m"
    by (rule bars.non_bar [OF that])
  have "ascending_after first (fst (handle_message ops cfg env m st))
    \<and> (snd (handle_message ops cfg env m st) \<longrightarrow> bars_inv first (fst (handle_message ops cfg env m st)))"
  proof (cases m)
    case (RmBar bar)
    show ?thesis
    proof (cases "is_duplicate_bar (hb_symbol bar) (hb_close_time bar) st")
      case True
      then have "bars_inv first (fst (handle_bar ops cfg env bar st))"
        using bars_inv_frame [OF bars.xack [OF bars.refl] assms] by (simp add: handle_bar_def)
      then show ?thesis using * by (simp add: RmBar)
    next
      case False
      then show ?thesis
        using handle_bar_log [OF False, of ops cfg env] bars_inv_new [OF assms False]
          bars_inv_frame [OF _ assms] * by (auto simp: RmBar)
    qed
  next
    case (RmBarsRead n)
    then show ?thesis
      using assms * bars_inv_frame [of st "fst (handle_message ops cfg env m st)" first]
      by (simp add: bar_frame_def)
  qed (use bars_inv_frame [OF frame assms] * in auto)
  then show "ascending_after first (fst (handle_message ops cfg env m st))"
    "snd (handle_message ops cfg env m st) \<Longrightarrow> bars_inv first (fst (handle_message ops cfg env m st))"
    by blast+
qed

lemma bars_inv_run: "bars_inv first st \<Longrightarrow> ascending_after first (fst (run_runtime ops cfg ms st))"
proof (induction ms arbitrary: st)
  case Nil
  then show ?case by (simp add: bars_inv_def)
next
  case (Cons em ms)
  obtain env m where "em = (env, m)" by fastforce
  then show ?case
    using Cons.IH bars_inv_message [OF Cons.prems, of ops cfg env m] by (simp add: and_then_def)
qed

section \<open>No fill is lost or counted twice\<close>

text \<open>Steps that leave the trades, the orders and their owners alone; requests may be added.\<close>

definition fill_frame :: "('s, 'st) runtime \<Rightarrow> ('s, 'st) runtime \<Rightarrow> bool" where
  "fill_frame a b \<longleftrightarrow> rt_pending_trades b = rt_pending_trades a \<and> rt_orders b = rt_orders a
     \<and> rt_our_orders b = rt_our_orders a \<and> rt_our_requests a \<subseteq> rt_our_requests b
     \<and> lg_trades (rt_ledger b) = lg_trades (rt_ledger a)"

lemma fill_frame_refl [simp]: "fill_frame a a"
  by (simp add: fill_frame_def)

lemma fill_frame_trans: "fill_frame a b \<Longrightarrow> fill_frame b c \<Longrightarrow> fill_frame a c"
  by (auto simp: fill_frame_def)

lemma fill_frame_facts:
  "dispatch_frame a b \<Longrightarrow> fill_frame a b" "only_health a b \<Longrightarrow> fill_frame a b"
  "fill_frame a (snd (normalize_event_ts t a))" "fill_frame a (fst (xack env a))"
  "fill_frame a (update_last_bar_ts s t a)" "fill_frame a (snd (should_process_trade fmt tr a))"
  "fill_frame a (a\<lparr>rt_stop_orders := m1\<rparr>)" "fill_frame a (a\<lparr>rt_positions := m2\<rparr>)"
  "fill_frame a (a\<lparr>rt_bars_read := n\<rparr>)" "fill_frame a (a\<lparr>rt_bootstrap := bs\<rparr>)"
  "fill_frame a (a\<lparr>rt_log := lg\<rparr>)"
  by (auto simp: fill_frame_def dispatch_frameD update_last_bar_ts_def
      dispatch_frameD [OF only_health_dispatch])

lemma fill_frame_invoke: "fill_frame st (fst (invoke_and_apply ops cfg env ctx created f st))"
  unfolding invoke_and_apply_def case_prod_unfold
  by (rule fill_frame_facts(1), rule dispatch_frame_trans [OF send_dispatch [OF invoke_callback_frame]
        apply_intents_frame])

lemmas fill_and_then = and_then_rel [of fill_frame, OF _ fill_frame_trans]

lemma fill_normalize_invoke:
  "fill_frame st (fst (invoke_and_apply ops cfg env ctx created f (snd (normalize_event_ts t st))))"
  by (rule fill_frame_trans [OF fill_frame_facts(3) fill_frame_invoke])

lemma fill_xack: "fill_frame a b \<Longrightarrow> fill_frame a (fst (xack env b))"
  by (rule fill_frame_trans [OF _ fill_frame_facts(4)])

text \<open>\<open>conserves x\<close>: the invariant is kept and exactly the fills \<open>x\<close> are added.\<close>

definition conserves ::
  "trade_record multiset \<Rightarrow> ('s, 'st) runtime \<Rightarrow> ('s, 'st) runtime \<Rightarrow> bool" where
  "conserves x a b \<longleftrightarrow> (buffer_ok a \<longrightarrow> buffer_ok b \<and> total_fills b = total_fills a + x)"

lemma conserves_trans: "conserves x a b \<Longrightarrow> conserves y b c \<Longrightarrow> conserves (x + y) a c"
  by (auto simp: conserves_def)

lemma conserves_frame: "fill_frame a b \<Longrightarrow> conserves {#} a b"
  by (auto simp: conserves_def fill_frame_def total_fills_def fills_def held_def
      intro: buffer_ok_fields)

lemma conserves_before: "fill_frame a b \<Longrightarrow> conserves x b c \<Longrightarrow> conserves x a c"
  using conserves_trans [OF conserves_frame] by fastforce

lemma conserves_after: "conserves x a b \<Longrightarrow> fill_frame b c \<Longrightarrow> conserves x a c"
  using conserves_trans [OF _ conserves_frame] by fastforce

lemma update_ledger_keeps:
  assumes "rc_trade_mode cfg = TmLive"
  shows "fill_frame a (update_ledger_from_order cfg ord a)"
  using assms
  by (simp add: update_ledger_from_order_def Let_def fill_frame_def record_order_def)

lemma conserves_ack:
  assumes "lists_keys env"
  shows "conserves {#} st (fst (handle_ack ops cfg env ack st))"
proof -
  have "conserves {#} st (register_acknowledged_order env ack st)"
    by (simp add: conserves_def register_ok [OF _ assms])
  moreover have "fill_frame a (fst (and_then (invoke_and_apply ops cfg env ctx t f
      (snd (normalize_event_ts n a))) (xack env)))" for a :: "('a, 'b) runtime" and ctx t f n
    by (auto intro!: fill_and_then fill_normalize_invoke fill_frame_facts(4))
  ultimately show ?thesis unfolding handle_ack_def Let_def case_prod_unfold by (rule conserves_after)
qed

lemma conserves_order: "conserves {#} st (fst (handle_order ops cfg env ord st))"
proof (cases "relevant cfg (ord_symbol ord)")
  case True
  then have live: "rc_trade_mode cfg = TmLive" by (simp add: relevant_def)
  have known: "conserves {#} a (replay_pending_trades_for_order k (a\<lparr>rt_orders := (rt_orders a)(k \<mapsto> ord)\<rparr>))"
    for a :: "('a, 'b) runtime" and k
    by (simp add: conserves_def order_known_ok)
  note keep = conserves_after [OF conserves_before [OF update_ledger_keeps [OF live] known]
      fill_frame_facts(4)]
  have step: "conserves {#} st (fst (and_then r (\<lambda>b. xack env (replay_pending_trades_for_order k
      ((update_ledger_from_order cfg ord b)\<lparr>rt_orders :=
         (rt_orders (update_ledger_from_order cfg ord b))(k \<mapsto> ord)\<rparr>)))))"
    if "fill_frame st (fst r)" for r k
    using conserves_frame [OF that] conserves_before [OF that keep] by (simp add: and_then_def)
  show ?thesis unfolding handle_order_def Let_def case_prod_unfold
    by (simp add: True step fill_normalize_invoke)
qed (simp add: handle_order_def conserves_frame fill_frame_facts)

lemma conserves_stop_order: "conserves {#} st (fst (handle_stop_order ops cfg env ord st))"
  unfolding handle_stop_order_def Let_def case_prod_unfold
  by (rule conserves_frame)
    (auto intro!: fill_and_then fill_normalize_invoke fill_xack fill_frame_facts(7))

lemma conserves_position: "conserves {#} st (fst (handle_position ops cfg env pos st))"
  unfolding handle_position_def Let_def case_prod_unfold
  by (rule conserves_frame)
    (auto intro!: fill_and_then fill_normalize_invoke fill_xack fill_frame_facts(8))

lemma call_on_bar_fill: "fill_frame a (fst (call_on_bar ops ctx bar a))"
  unfolding call_on_bar_def
  by (rule fill_frame_trans [OF fill_frame_facts(11) fill_frame_facts(1)
        [OF send_dispatch [OF invoke_callback_frame]]])

lemma conserves_bar:
  assumes "rc_trade_mode cfg = TmLive"
  shows "conserves {#} st (fst (handle_bar ops cfg env bar st))"
proof -
  note start = fill_frame_trans [OF fill_frame_trans [OF fill_frame_facts(3) fill_frame_facts(10)]
      fill_frame_facts(2) [OF wait_live_bar_only_health]]
    fill_frame_trans [OF fill_frame_facts(3) fill_frame_facts(2) [OF wait_live_bar_only_health]]
  show ?thesis
    unfolding handle_bar_def Let_def case_prod_unfold using assms
    by (intro conserves_frame)
      (auto intro!: fill_and_then start fill_xack fill_frame_facts(5)
        fill_frame_trans [OF call_on_bar_fill fill_frame_facts(1) [OF apply_intents_frame]])
qed

fun accepted_trade :: "runtime_config \<Rightarrow> rt_env \<Rightarrow> rt_message \<Rightarrow> ('s, 'st) runtime \<Rightarrow> host_trade multiset"
where
  "accepted_trade cfg env (RmTrade t) st =
     (if relevant cfg (tr_symbol t) \<and> fst (should_process_trade (re_f64_text env) t st)
         \<and> 0 < tr_order_id t then {#t#} else {#})"
| "accepted_trade cfg env _ st = {#}"

lemma conserves_trade:
  "conserves (as_fills (accepted_trade cfg env (RmTrade t) st)) st (fst (handle_trade cfg env t st))"
proof -
  have track: "conserves (if 0 < tr_order_id t then as_fills {#t#} else {#}) a (track_trade t a)"
    for a :: "('a, 'b) runtime"
    using track_trade_ok [of a t] by (simp add: conserves_def)
  let ?p = "should_process_trade (re_f64_text env) t st"
  consider "\<not> relevant cfg (tr_symbol t)" | "relevant cfg (tr_symbol t)" "\<not> fst ?p"
    | "relevant cfg (tr_symbol t)" "fst ?p" by blast
  then show ?thesis
  proof cases
    case 1
    then show ?thesis by (simp add: handle_trade_def conserves_frame fill_frame_facts)
  next
    case 2
    then show ?thesis
      by (simp add: handle_trade_def case_prod_unfold conserves_frame fill_xack fill_frame_facts)
  next
    case 3
    then have "fst (handle_trade cfg env t st) = fst (xack env (track_trade t (snd ?p)))"
      by (simp add: handle_trade_def case_prod_unfold)
    moreover have "as_fills (accepted_trade cfg env (RmTrade t) st)
        = (if 0 < tr_order_id t then as_fills {#t#} else {#})"
      using 3 by simp
    ultimately show ?thesis
      using conserves_after [OF conserves_before [OF fill_frame_facts(6) track] fill_frame_facts(4)]
      by metis
  qed
qed

lemma conserves_message:
  assumes "rc_trade_mode cfg = TmLive" "lists_keys env"
  shows "conserves (as_fills (accepted_trade cfg env m st)) st (fst (handle_message ops cfg env m st))"
  using assms
  by (cases m)
    (auto simp: conserves_ack conserves_order conserves_stop_order conserves_trade [simplified]
      conserves_position conserves_bar handle_timer_def Let_def
      intro!: conserves_frame fill_frame_facts(9) fill_frame_invoke
        fill_frame_facts(2) [OF refresh_only_health])

text \<open>The trades a run accepts.\<close>

fun run_accepted ::
  "('s, 'st) strategy_ops \<Rightarrow> runtime_config \<Rightarrow> (rt_env \<times> rt_message) list \<Rightarrow> ('s, 'st) runtime
   \<Rightarrow> host_trade multiset" where
  "run_accepted ops cfg [] st = {#}"
| "run_accepted ops cfg ((env, m) # ms) st =
     accepted_trade cfg env m st
     + (case handle_message ops cfg env m st of
          (st1, ok) \<Rightarrow> if ok then run_accepted ops cfg ms st1 else {#})"

lemma conserves_run:
  assumes "rc_trade_mode cfg = TmLive" "list_all (\<lambda>em. lists_keys (fst em)) ms"
  shows "conserves (as_fills (run_accepted ops cfg ms st)) st (fst (run_runtime ops cfg ms st))"
  using assms(2)
proof (induction ms arbitrary: st)
  case (Cons em ms)
  obtain env m where em: "em = (env, m)" by fastforce
  have step: "conserves (as_fills (accepted_trade cfg env m st)) st (fst (handle_message ops cfg env m st))"
    by (rule conserves_message [OF assms(1)]) (use Cons.prems em in simp)
  show ?case
    using step conserves_trans [OF step Cons.IH] Cons.prems
    by (auto simp: em and_then_def case_prod_unfold)
qed (simp add: conserves_def)

section \<open>Properties of a run\<close>

text \<open>C10. For a strategy that gives back whatever state it is set to, as \<open>market_buy_and_close\<close> and
  \<open>limit_cancel\<close> do, and a runtime that starts with the strategy, its copy and the last snapshot in
  agreement: after any run of messages, failed writes, blocked and rolled back batches and
  simulated fills included, the runtime's copy of the strategy's state is the state of the
  strategy; and if no step of the run failed, the state in the last snapshot written is that state
  too, so that a stop after any message loses none of it.\<close>

theorem persisted_state_agrees:
  assumes "\<forall>x s. so_state ops (so_set_state ops x s) = x"
    and "so_state ops (rt_strategy st) = rt_strategy_state st" "last_state x (rt_log st) = rt_strategy_state st"
    and "run_runtime ops cfg ms st = (st', ok)"
  shows "rt_strategy_state st' = so_state ops (rt_strategy st')
    \<and> (ok \<longrightarrow> last_state x (rt_log st') = so_state ops (rt_strategy st'))"
proof -
  have "strategy_object ops" using assms(1) by unfold_locales simp
  from strategy_object.in_sync_run [OF this, of st cfg ms]
  have "so_state ops (rt_strategy st') = rt_strategy_state st'" using assms(2,4) by (simp add: in_sync_def)
  moreover have "settles x (run_runtime ops cfg ms st)"
    using assms(3) by (intro settles_run) (simp add: current_def)
  ultimately show ?thesis using assms(4) by (simp add: settles_def current_def)
qed

lemma persisted_state_agrees_witness:
  "rt_strategy_state (fst (run_runtime (market_close_ops id) sample_rt_config
       [(sample_rt_env, RmBar (sample_host_bar 60)), (sample_rt_env, RmBar (sample_host_bar 120))] sample_mc))
   = mc_state (rt_strategy (fst (run_runtime (market_close_ops id) sample_rt_config
       [(sample_rt_env, RmBar (sample_host_bar 60)), (sample_rt_env, RmBar (sample_host_bar 120))] sample_mc)))"
proof -
  have "mc_state (rt_strategy sample_mc) = rt_strategy_state sample_mc"
    "last_state Idle (rt_log sample_mc) = rt_strategy_state sample_mc"
    by (simp_all add: sample_mc_def sample_runtime_def market_close_new_def)
  then show ?thesis
    using persisted_state_agrees [of "market_close_ops id" sample_mc Idle sample_rt_config,
      OF _ _ _ surjective_pairing] by (simp del: run_runtime.simps)
qed

text \<open>C8. Whatever messages arrive and in whatever order, repeated or late bars included, the
  strategy is called with the bars of a symbol in strictly increasing order of their close
  times, and only with bars after the last one processed before the start.\<close>

theorem bars_strictly_in_order:
  assumes "rt_log st = []"
  shows "sorted_wrt (<) (bar_times s (rt_log (fst (run_runtime ops cfg ms st))))
    \<and> list_all (\<lambda>t. \<not> at_or_before t (rt_last_bar st s))
        (bar_times s (rt_log (fst (run_runtime ops cfg ms st))))"
proof -
  have "bars_inv (rt_last_bar st) st"
    using assms by (simp add: bars_inv_def ascending_after_def bar_times_def)
  from bars_inv_run [OF this] show ?thesis
    by (simp add: ascending_after_def list_all_iff)
qed

lemma bars_strictly_in_order_witness:
  "sorted_wrt (<) (bar_times ''IMOEXF'' (rt_log (fst (run_runtime (market_close_ops id) sample_rt_config
       [(sample_rt_env, RmBar (sample_host_bar 120)), (sample_rt_env, RmBar (sample_host_bar 60))] sample_mc))))
   \<and> list_all (\<lambda>t. \<not> at_or_before t (rt_last_bar sample_mc ''IMOEXF''))
       (bar_times ''IMOEXF'' (rt_log (fst (run_runtime (market_close_ops id) sample_rt_config
         [(sample_rt_env, RmBar (sample_host_bar 120)), (sample_rt_env, RmBar (sample_host_bar 60))] sample_mc))))"
  by (rule bars_strictly_in_order) simp

text \<open>C3. Every trade the runtime accepts in live mode, and none twice, is a fill in its ledger or
  held back for an order it does not know yet; trades and orders and acknowledgements may come
  in any order. Once no request is open and every own order is known, all of them are fills.\<close>

theorem fills_conserved:
  assumes "rc_trade_mode cfg = TmLive" "list_all (\<lambda>em. lists_keys (fst em)) ms"
    and "rt_pending_trades st = []" "lg_trades (rt_ledger st) = []"
    and "st' = fst (run_runtime ops cfg ms st)"
  shows "fills st' + held st' = as_fills (run_accepted ops cfg ms st)
    \<and> (rt_our_requests st' = {} \<and> (\<forall>k \<in> rt_our_orders st'. rt_orders st' k \<noteq> None)
        \<longrightarrow> fills st' = as_fills (run_accepted ops cfg ms st))"
proof -
  have "buffer_ok st" using assms(3) by (simp add: buffer_ok_def waiting_def buffer_shape_def)
  then have st': "buffer_ok st'" "total_fills st' = total_fills st + as_fills (run_accepted ops cfg ms st)"
    using conserves_run [OF assms(1,2), of ops st] by (simp_all add: conserves_def assms(5))
  have start: "total_fills st = {#}" using assms(3,4) by (simp add: total_fills_def fills_def held_def)
  have "held st' = {#}" if "rt_our_requests st' = {}" "\<forall>k \<in> rt_our_orders st'. rt_orders st' k \<noteq> None"
  proof -
    have "p \<notin> set (rt_pending_trades st')" for p
      using st'(1) that by (cases p) (fastforce simp: buffer_ok_def waiting_def)
    then have "rt_pending_trades st' = []" by (cases "rt_pending_trades st'") auto
    then show ?thesis by (simp add: held_def)
  qed
  then show ?thesis using st'(2) start by (auto simp: total_fills_def)
qed

definition sample_trade :: host_trade where
  "sample_trade = \<lparr>tr_trade_id = ''t1'', tr_order_id = 7, tr_symbol = ''IMOEXF'', tr_side = ''buy'',
     tr_qty = Fin 1, tr_price = Fin 100, tr_commission = 0, tr_existing = False, tr_ts = 60\<rparr>"

lemma fills_conserved_witness:
  "fills (fst (run_runtime (market_close_ops id) sample_rt_config [(sample_rt_env, RmTrade sample_trade)] sample_mc))
   + held (fst (run_runtime (market_close_ops id) sample_rt_config [(sample_rt_env, RmTrade sample_trade)] sample_mc))
   = as_fills {#sample_trade#}"
proof -
  have "run_accepted (market_close_ops id) sample_rt_config [(sample_rt_env, RmTrade sample_trade)] sample_mc
      = {#sample_trade#}"
    by (simp add: relevant_def matches_strategy_symbol_def strategy_symbols_def sample_trade_def
        should_process_trade_def sample_rt_config_def sample_mc_def sample_runtime_def Let_def
        case_prod_unfold)
  then show ?thesis
    using fills_conserved [of sample_rt_config "[(sample_rt_env, RmTrade sample_trade)]" sample_mc _
        "market_close_ops id"]
    by (simp add: lists_keys_def sample_rt_config_def sample_rt_env_def sample_mc_def
        sample_runtime_def ledger_empty_def)
qed

text \<open>An entry command leaves the runtime only when it is ready: live mode, live orders
  allowed, both snapshots loaded, a live bar seen and bars read, at that moment and ever after.\<close>

theorem no_entry_before_ready:
  assumes "rt_log st = []"
    and "cmd \<in> set (commands_in (rt_log (fst (run_runtime ops cfg ms st))))"
    and "oc_intent_class cmd = Some Entry"
  shows "runtime_ready cfg (fst (run_runtime ops cfg ms st))"
  using safe_run [of cfg st ops ms] assms by (auto simp: safe_step_def list_all_iff)

definition sample_open :: "(unit market_close, unit strategy_state) runtime" where
  "sample_open = sample_mc\<lparr>rt_last_bar := [''IMOEXF'' \<mapsto> 0]\<rparr>"

lemmas guard_eval = evaluate_guard_decision_def guard_with_bootstrap_def
  evaluate_live_guard_def bootstrap_reasons_def bootstrap_ready_def health_phase_def
  health_stale_def health_flag_def sat_sub_def sat_i64_def i64_min_def i64_max_def
  i64_of_u64_sat_def

lemmas dispatch_eval = apply_intents_def accept_intents_def resolve_intent_class_def
  trading_window_allows_order_def dispatch_decided_def exit_must_wait_def send_intent_def
  persist_state_def emit_effect_def notify_command_prepared_def snapshot_def and_then_def

lemmas bar_eval = handle_bar_def is_duplicate_bar_def normalize_event_ts_def
  maybe_wait_for_live_bar_def call_on_bar_def invoke_strategy_callback_def runtime_ctx_def
  strategy_position_qty_def strategy_symbols_def update_last_bar_ts_def xack_def

lemmas entry_eval = mc_on_bar_def live_bar_blocked_def sample_host_bar_def market_close_new_def
  sample_mc_config_def mc_live_bar_def check_live_timeouts_def mc_live_entry_def
  build_live_intent_def runtime_command_def market_close_ops_def default_ops_defs

lemma no_entry_before_ready_witness:
  "runtime_ready sample_rt_config (fst (run_runtime (market_close_ops id) sample_rt_config
     [(sample_rt_env, RmBar (sample_host_bar 60))] sample_open))"
proof -
  have "map oc_intent_class (commands_in (rt_log (fst (run_runtime (market_close_ops id) sample_rt_config
     [(sample_rt_env, RmBar (sample_host_bar 60))] sample_open)))) = [Some Entry]"
    by (simp add: bar_eval guard_eval dispatch_eval entry_eval sample_open_def sample_rt_defs Let_def
        del: market_close_ops_simps)
  then obtain c where "c \<in> set (commands_in (rt_log (fst (run_runtime (market_close_ops id)
      sample_rt_config [(sample_rt_env, RmBar (sample_host_bar 60))] sample_open))))"
    "oc_intent_class c = Some Entry"
    by auto
  then show ?thesis
    by (intro no_entry_before_ready) (simp_all add: sample_open_def)
qed

end
