(* ===== verification/Request_Ids.thy ===== *)
theory Request_Ids
  imports Dispatch_Safety Command_Consumer
begin

text \<open>
  Request ids are computed twice: by the strategy, which waits for the acknowledgement of the id
  it computed (\<open>strategies/limit_cancel.rs\<close>, \<open>strategies/market_buy_and_close.rs\<close>), and by
  \<open>intent_to_command\<close> of the runtime. When the two agree, and what the consumer does with the
  commands of a batch that share an id.
\<close>

section \<open>When the runtime's id is the strategy's\<close>

lemma runtime_command_id_eq:
  assumes "inj v5"
  shows "oc_request_id (runtime_command v5 ctx created cls name n act)
       = deterministic_request_id v5 (cx_strategy_id ctx) (cx_portfolio ctx) (cx_symbol ctx) name t n
     \<longleftrightarrow> created = t"
  by (simp add: runtime_command_def deterministic_request_id_def inj_eq [OF assms])

lemma live_intent_id:
  assumes "inj v5"
  shows "oc_request_id (intent_to_command ch v5 rcfg tag ctx created (build_live_intent cfg sd qty ref) cls)
       = live_request_id v5 (mcc_style cfg) ctx (cx_symbol ctx) sd
     \<longleftrightarrow> created = cx_event_ts ctx"
  by (cases "mcc_style cfg")
    (simp_all add: build_live_intent_def live_request_id_def deterministic_market_request_id_def
      runtime_command_id_eq [OF assms])

text \<open>The context and the symbol of a call.\<close>

fun event_ctx :: "host_event \<Rightarrow> strategy_ctx" where
  "event_ctx (EvBar ctx _) = ctx"
| "event_ctx (EvAck ctx _) = ctx"
| "event_ctx (EvOrder ctx _) = ctx"
| "event_ctx (EvStopOrder ctx _) = ctx"
| "event_ctx (EvPosition ctx _) = ctx"

fun event_symbol :: "host_event \<Rightarrow> string option" where
  "event_symbol (EvBar _ bar) = Some (hb_symbol bar)"
| "event_symbol (EvPosition _ pos) = Some (hp_symbol pos)"
| "event_symbol _ = None"

text \<open>A live call that asks for an order leaves exactly its id pending.\<close>

lemma mc_live_bar_order:
  assumes "i \<in> set (snd (mc_live_bar v5 cfg ctx bar st))"
  shows "\<exists>sd qty ref. i = build_live_intent cfg sd qty ref
    \<and> (\<forall>s. mc_pending_request_ids (s\<lparr>mc_state := fst (mc_live_bar v5 cfg ctx bar st)\<rparr>)
           = [live_request_id v5 (mcc_style cfg) ctx (hb_symbol bar) sd])"
  using assms
  by (auto simp: mc_live_bar_def mc_live_entry_def mc_pending_exit_def mc_pending_request_ids_def
      Let_def split: strategy_state.splits if_splits option.splits)

lemma mc_on_bar_order:
  assumes "i \<in> set (snd (mc_on_bar v5 ctx bar s))" "cx_trade_mode ctx = TmLive"
  shows "\<exists>sd qty ref. i = build_live_intent (mc_config s) sd qty ref
    \<and> mc_pending_request_ids (fst (mc_on_bar v5 ctx bar s))
        = [live_request_id v5 (mcc_style (mc_config s)) ctx (hb_symbol bar) sd]"
  using mc_live_bar_order [of i v5 "mc_config s" ctx bar "mc_state s"] assms
  by (auto simp: mc_on_bar_def Let_def case_prod_unfold mc_pending_request_ids_def split: if_splits)

lemma mc_on_position_order:
  assumes "i \<in> set (snd (mc_on_position v5 ctx pos s))"
  shows "\<exists>sd qty ref. i = build_live_intent (mc_config s) sd qty ref
    \<and> mc_pending_request_ids (fst (mc_on_position v5 ctx pos s))
        = [live_request_id v5 (mcc_style (mc_config s)) ctx (hp_symbol pos) sd]"
  using assms
  by (auto simp: mc_on_position_def mc_pending_exit_def mc_pending_request_ids_def Let_def
      split: strategy_state.splits if_splits option.splits)

lemma mc_call_order:
  assumes "i \<in> set (snd (mc_call v5 e s))" "live_call e"
  shows "\<exists>sd qty ref symbol. event_symbol e = Some symbol
    \<and> i = build_live_intent (mc_config s) sd qty ref
    \<and> mc_pending_request_ids (fst (mc_call v5 e s))
        = [live_request_id v5 (mcc_style (mc_config s)) (event_ctx e) symbol sd]"
  using assms mc_on_bar_order mc_on_position_order
  by (cases e) (fastforce simp: mc_on_ack_def mc_on_order_def default_on_stop_order_def)+

text \<open>C20. The id \<open>market_buy_and_close\<close> waits for is the id of the command the runtime publishes
  for its order exactly when the command is created at the time of the event: on a late event
  (a position update older than something already seen) the runtime moves the time forward and
  the two ids differ.\<close>

theorem market_close_ids_agree:
  assumes "inj v5" "i \<in> set (snd (mc_call v5 e s))" "live_call e"
    and "event_symbol e = Some (cx_symbol (event_ctx e))"
  shows "mc_pending_request_ids (fst (mc_call v5 e s))
      = [oc_request_id (intent_to_command ch v5 rcfg tag (event_ctx e) created i cls)]
    \<longleftrightarrow> created = cx_event_ts (event_ctx e)"
proof -
  obtain sd qty ref where "i = build_live_intent (mc_config s) sd qty ref"
    "mc_pending_request_ids (fst (mc_call v5 e s))
        = [live_request_id v5 (mcc_style (mc_config s)) (event_ctx e) (cx_symbol (event_ctx e)) sd]"
    using mc_call_order [OF assms(2,3)] assms(4) by fastforce
  then show ?thesis
    using live_intent_id [OF assms(1), of ch rcfg tag "event_ctx e" created "mc_config s" sd qty ref cls]
    by auto
qed

lemma market_close_ids_agree_witness:
  "mc_pending_request_ids (fst (mc_call id (EvBar sample_live_ctx (sample_host_bar 60))
       (market_close_new sample_mc_config :: unit market_close)))
     \<noteq> [oc_request_id (intent_to_command chrono_example id sample_rt_config (\<lambda>_ _ _. None)
          sample_live_ctx 60 (IMarket (Fin 1) Buy None None) Entry)]
   \<and> mc_pending_request_ids (fst (mc_call id (EvBar sample_live_ctx (sample_host_bar 60))
       (market_close_new sample_mc_config :: unit market_close)))
     = [oc_request_id (intent_to_command chrono_example id sample_rt_config (\<lambda>_ _ _. None)
          sample_live_ctx 0 (IMarket (Fin 1) Buy None None) Entry)]"
proof -
  have "cx_event_ts sample_live_ctx = 0" "cx_trade_mode sample_live_ctx = TmLive"
    "hb_symbol (sample_host_bar 60) = cx_symbol sample_live_ctx"
    by (simp_all add: sample_live_ctx_def sample_ctx_def sample_host_bar_def)
  then show ?thesis
    using market_close_ids_agree [of id "IMarket (Fin 1) Buy None None"
        "EvBar sample_live_ctx (sample_host_bar 60)" "market_close_new sample_mc_config :: unit market_close"
        chrono_example sample_rt_config "\<lambda>_ _ _. None" 60 Entry]
      market_close_ids_agree [of id "IMarket (Fin 1) Buy None None"
        "EvBar sample_live_ctx (sample_host_bar 60)" "market_close_new sample_mc_config :: unit market_close"
        chrono_example sample_rt_config "\<lambda>_ _ _. None" 0 Entry]
    by (simp add: sample_entry_signal)
qed

text \<open>When \<open>limit_cancel\<close> learns the order id only after its cancel fell due, it waits for an
  id named after the bar that made the cancel due, while the runtime names the command after
  the time of the acknowledgement: unless the two times are equal the acknowledgement of the
  cancel is ignored and the strategy stays where it is.\<close>

theorem followup_cancel_unacknowledged:
  assumes "inj v5" "lc_state s = Placed p" "pl_cancel_bar_ts p = Some t"
    and "snd (lc_on_ack v5 ctx ack s) = [ICancel oid]" "created \<noteq> t"
    and "ack_request_id cancel_ack
       = oc_request_id (intent_to_command ch v5 rcfg tag ctx created (ICancel oid) cls)"
  shows "lc_on_ack v5 ctx' cancel_ack (fst (lc_on_ack v5 ctx ack s)) = (fst (lc_on_ack v5 ctx ack s), [])"
proof -
  obtain c where c: "lc_state (fst (lc_on_ack v5 ctx ack s)) = CancelSent c"
    "cn_request_id c = lc_cancel_id v5 ctx (cx_symbol ctx) t"
    using assms(2-4)
    by (auto simp: lc_on_ack_def lc_send_cancel_def first_some_def Let_def
        split: if_splits option.splits)
  then have "cn_request_id c \<noteq> ack_request_id cancel_ack"
    using runtime_command_id_eq [OF assms(1), of ctx created cls "''cancel''" 1
        "Cancel \<lparr>co_order_id = oid\<rparr>" t] assms(5,6)
    by (simp add: lc_cancel_id_def)
  then show ?thesis by (simp add: lc_on_ack_def [of v5 ctx'] c(1))
qed

definition sample_due :: "unit limit_cancel" where
  "sample_due = (limit_cancel_new sample_lc_config)\<lparr>lc_state := Placed
     \<lparr>pl_request_id = ''r'', pl_order_id = None, pl_cancel_due = True,
      pl_cancel_bar_ts = Some 120, pl_placed_bar_ts = 60, pl_last_bar_ts = 120, pl_bars_waited = 1\<rparr>\<rparr>"

lemma followup_cancel_unacknowledged_witness:
  "lc_on_ack id sample_live_ctx
     (ack_accepted 130 (oc_request_id (intent_to_command chrono_example id sample_rt_config
        (\<lambda>_ _ _. None) sample_live_ctx 125 (ICancel 7) CancelCleanup)))
     (fst (lc_on_ack id sample_live_ctx (ack_confirmed 125 ''r'' (Some 7)) sample_due))
   = (fst (lc_on_ack id sample_live_ctx (ack_confirmed 125 ''r'' (Some 7)) sample_due), [])"
  by (rule followup_cancel_unacknowledged [where t = 120 and created = 125 and oid = 7
        and ch = chrono_example and rcfg = sample_rt_config and tag = "\<lambda>_ _ _. None"
        and cls = CancelCleanup and p = "\<lparr>pl_request_id = ''r'', pl_order_id = None,
          pl_cancel_due = True, pl_cancel_bar_ts = Some 120, pl_placed_bar_ts = 60,
          pl_last_bar_ts = 120, pl_bars_waited = 1\<rparr>"])
    (simp_all add: sample_due_def lc_on_ack_def ack_confirmed_def ack_accepted_def ack_bare_def
      lc_send_cancel_def build_cancel_intent_def first_some_def Let_def)

section \<open>Cancels of one batch\<close>

lemma cancel_id_without_order:
  "oc_request_id (intent_to_command ch v5 cfg tag ctx created (ICancel a) cls)
     = deterministic_request_id v5 (cx_strategy_id ctx) (cx_portfolio ctx) (cx_symbol ctx)
         ''cancel'' created 1"
  by (simp add: runtime_command_def)

fun input_ids :: "'n consumer_input list \<Rightarrow> uuid set" where
  "input_ids [] = {}"
| "input_ids (InCommand t env cmd mid # is) = insert (oc_request_id cmd) (input_ids is)"
| "input_ids (_ # is) = input_ids is"

text \<open>Every request to the broker carries the id of a command the consumer read.\<close>

lemma run_request_ids:
  "request_rid ` set (sends (snd (run_command_consumer lib config bo ps vs ttl bound is s))) \<subseteq> input_ids is"
proof (induction "is" arbitrary: s)
  case (Cons i "is")
  obtain lp st where s: "s = (lp, st)" by fastforce
  show ?case
    using Cons.IH
    by (cases i) (fastforce simp: s case_prod_beta command_step_sends split: if_splits)+
qed simp

lemma same_id_one_send:
  assumes "idem_inv bound c (cs_idem st)" "length (input_times is) \<le> bound"
    and "sorted (c # input_times is)"
    and "\<forall>t\<in>set (input_times is). \<forall>u\<in>set (input_times is). t - u \<le> int ttl"
    and "input_ids is \<subseteq> {rid}"
  shows "length (sends (snd (run_command_consumer lib config bo ps vs (int ttl) bound is (lp, st)))) \<le> 1"
proof -
  let ?sent = "sends (snd (run_command_consumer lib config bo ps vs (int ttl) bound is (lp, st)))"
  have "filter (\<lambda>r. request_rid r = rid) ?sent = ?sent"
    using run_request_ids [of lib config bo ps vs "int ttl" bound "is" "(lp, st)"] assms(5)
    by (intro filter_True) blast
  then show ?thesis
    using one_send_per_id [of bound c "(lp, st)" "int ttl" "is" rid lib config bo ps vs] assms(1-4)
    by (simp add: sends_of_def)
qed

text \<open>A guarded batch that nothing stops: two cancels, with every write accepted.\<close>

definition two_cancels :: "i64 \<Rightarrow> i64 \<Rightarrow> intent list" where
  "two_cancels a b = [with_class (ICancel a) CancelCleanup, with_class (ICancel b) CancelCleanup]"

text \<open>The id of every cancel of a batch.\<close>

definition cancel_request_id :: "rt_env \<Rightarrow> strategy_ctx \<Rightarrow> i64 \<Rightarrow> uuid" where
  "cancel_request_id env ctx created = deterministic_request_id (re_v5 env) (cx_strategy_id ctx)
     (cx_portfolio ctx) (cx_symbol ctx) ''cancel'' created 1"

lemma send_cancel_ok:
  assumes "re_write_ok env (rt_writes st)"
  shows "\<exists>k sn st1. send_intent ops cfg env ctx created (Classified (ICancel a) CancelCleanup) CancelCleanup st
      = (st1, True)
    \<and> rt_log st1 = rt_log st @ [RtCommand k sn] \<and> oc_action k = Cancel \<lparr>co_order_id = a\<rparr>
    \<and> oc_request_id k = cancel_request_id env ctx created"
  using assms
  by (simp add: cancel_request_id_def send_intent_def Let_def and_then_def persist_state_def emit_effect_def
      notify_command_prepared_def runtime_command_def)

lemma two_cancels_log:
  assumes "rc_trade_mode cfg = TmLive" "gd_allowed (evaluate_guard_decision cfg env st)"
    and "\<forall>n. re_write_ok env n"
  shows "\<exists>k1 s1 k2 s2. rt_log (fst (apply_intents ops cfg env ctx created dispatch (two_cancels a b) prev st))
      = rt_log st @ [RtCommand k1 s1, RtCommand k2 s2]
    \<and> oc_action k1 = Cancel \<lparr>co_order_id = a\<rparr> \<and> oc_action k2 = Cancel \<lparr>co_order_id = b\<rparr>
    \<and> oc_request_id k1 = cancel_request_id env ctx created \<and> oc_request_id k2 = cancel_request_id env ctx created"
proof -
  obtain k1 s1 st1 where 1: "send_intent ops cfg env ctx created
      (Classified (ICancel a) CancelCleanup) CancelCleanup st = (st1, True)"
      "rt_log st1 = rt_log st @ [RtCommand k1 s1]" "oc_action k1 = Cancel \<lparr>co_order_id = a\<rparr>"
      "oc_request_id k1 = cancel_request_id env ctx created"
    using send_cancel_ok [of env st] assms(3) by blast
  obtain k2 s2 st2 where 2: "send_intent ops cfg env ctx created
      (Classified (ICancel b) CancelCleanup) CancelCleanup st1 = (st2, True)"
      "rt_log st2 = rt_log st1 @ [RtCommand k2 s2]" "oc_action k2 = Cancel \<lparr>co_order_id = b\<rparr>"
      "oc_request_id k2 = cancel_request_id env ctx created"
    using send_cancel_ok [of env st1] assms(3) by blast
  have "fst (apply_intents ops cfg env ctx created dispatch (two_cancels a b) prev st) = st2"
    using assms(1,2)
    by (simp add: apply_intents_def accept_intents_def two_cancels_def with_class_def
        resolve_intent_class_def trading_window_allows_order_def dispatch_decided_def
        exit_must_wait_def and_then_def 1(1) 2(1))
  then show ?thesis using 1 2 by auto
qed

lemma refused_step:
  assumes "\<not> fst (check_and_set ttl bound t (oc_request_id cmd) (cs_idem st))"
  shows "sends (fst (snd (command_step lib config ps vs (memory_cas ttl bound t) env cmd mid st))) = []
    \<and> (\<exists>k. acks (fst (snd (command_step lib config ps vs (memory_cas ttl bound t) env cmd mid st))) = [k]
         \<and> ack_status k = Duplicate \<and> ack_request_id k = oc_request_id cmd)"
proof -
  have "command_step lib config ps vs (memory_cas ttl bound t) env cmd mid st
      = conclude env mid (ack_duplicate (e_now env) (oc_request_id cmd)) []
          (upd_health on_duplicate ((upd_health (on_received (e_now env) mid) st)\<lparr>cs_idem :=
            snd (check_and_set ttl bound t (oc_request_id cmd) (cs_idem st))\<rparr>))"
    using assms by (simp add: command_step_def case_prod_unfold Let_def)
  then show ?thesis
    using assms by (simp add: command_step_sends admitted_def ack_duplicate_def ack_bare_def)
qed

text \<open>C19. A strategy asks in one callback for the cancels of the orders \<open>a\<close> and \<open>b\<close>, both of class
  cancel-cleanup, in live mode, with the guard allowing orders and every write succeeding. The
  runtime publishes both under one request id, since the order to cancel is not part of the name
  the id is derived from. A consumer whose store does not know that id yet, and that reads both
  within the life time of an id, sends nothing for the second and acknowledges it as a duplicate:
  however it handled the first, the order \<open>b\<close> is not cancelled, and at most one request leaves.\<close>

theorem second_cancel_never_sent:
  assumes "rc_trade_mode cfg = TmLive" "gd_allowed (evaluate_guard_decision cfg env st)"
    and "\<forall>n. re_write_ok env n"
    and "t1 \<le> t2" "t2 - t1 \<le> int ttl" "2 \<le> bound"
    and "idem_inv bound t1 (cs_idem con)"
    and "\<not> idem_live (int ttl) t1 (cs_idem con) (cancel_request_id env ctx created)"
  shows "\<exists>k1 s1 k2 s2. rt_log (fst (apply_intents ops cfg env ctx created dispatch (two_cancels a b) prev st))
      = rt_log st @ [RtCommand k1 s1, RtCommand k2 s2]
    \<and> oc_action k1 = Cancel \<lparr>co_order_id = a\<rparr> \<and> oc_action k2 = Cancel \<lparr>co_order_id = b\<rparr>
    \<and> oc_request_id k1 = oc_request_id k2
    \<and> (let con1 = fst (command_step lib config ps vs (memory_cas (int ttl) bound t1) e1 k1 m1 con);
           effs = fst (snd (command_step lib config ps vs (memory_cas (int ttl) bound t2) e2 k2 m2 con1))
       in sends effs = []
          \<and> (\<exists>k. acks effs = [k] \<and> ack_status k = Duplicate \<and> ack_request_id k = oc_request_id k2))
    \<and> length (sends (snd (run_command_consumer lib config bo ps vs (int ttl) bound
          [InCommand t1 e1 k1 m1, InCommand t2 e2 k2 m2] (lp, con)))) \<le> 1"
proof -
  obtain k1 s1 k2 s2 where k: "rt_log (fst (apply_intents ops cfg env ctx created dispatch (two_cancels a b) prev st))
      = rt_log st @ [RtCommand k1 s1, RtCommand k2 s2]"
    "oc_action k1 = Cancel \<lparr>co_order_id = a\<rparr>" "oc_action k2 = Cancel \<lparr>co_order_id = b\<rparr>"
    "oc_request_id k1 = cancel_request_id env ctx created" "oc_request_id k2 = cancel_request_id env ctx created"
    using two_cancels_log [OF assms(1-3), of ops ctx created dispatch a b prev] by blast
  let ?con1 = "fst (command_step lib config ps vs (memory_cas (int ttl) bound t1) e1 k1 m1 con)"
  have "cs_idem ?con1 = snd (check_and_set (int ttl) bound t1 (oc_request_id k1) (cs_idem con))"
    by (simp add: command_step_idem)
  then have "\<not> fst (check_and_set (int ttl) bound t2 (oc_request_id k2) (cs_idem ?con1))"
    using taken_refused [OF assms(7) _ _ assms(8) _ assms(4,5)] assms(6) k(4,5) by simp
  note refused_step [OF this, of lib config ps vs e2 m2]
  moreover have "length (sends (snd (run_command_consumer lib config bo ps vs (int ttl) bound
      [InCommand t1 e1 k1 m1, InCommand t2 e2 k2 m2] (lp, con)))) \<le> 1"
    using assms(4-7) k(4,5) by (intro same_id_one_send [where c = t1 and rid = "oc_request_id k2"]) auto
  ultimately show ?thesis using k by (auto simp: Let_def)
qed

lemma sample_guard_allows: "gd_allowed (evaluate_guard_decision sample_rt_config sample_rt_env sample_mc)"
  by (simp add: evaluate_guard_decision_def guard_with_bootstrap_def
      evaluate_live_guard_def bootstrap_reasons_def bootstrap_ready_def health_phase_def
      health_stale_def health_flag_def sat_sub_def sat_i64_def i64_min_def i64_max_def
      i64_of_u64_sat_def Let_def sample_rt_defs)

lemma second_cancel_never_sent_witness:
  "\<exists>k1 s1 k2 s2. rt_log (fst (apply_intents (market_close_ops id) sample_rt_config sample_rt_env
        sample_live_ctx 60 100 (two_cancels 111 222) Idle sample_mc))
      = [RtCommand k1 s1, RtCommand k2 s2]
    \<and> oc_action k1 = Cancel \<lparr>co_order_id = 111\<rparr> \<and> oc_action k2 = Cancel \<lparr>co_order_id = 222\<rparr>
    \<and> length (sends (snd (run_command_consumer sample_wire sample_consumer_config
          \<lparr>bo_base = 50, bo_max = 2000\<rparr> (Fin 1) (Fin 1) (int 300) 10
          [InCommand 100 sample_env k1 (Some ''m1''), InCommand 101 sample_env k2 (Some ''m2'')]
          (\<lparr>lp_backoff = 50, lp_running = True\<rparr>, sample_consumer)))) \<le> 1"
proof -
  have "rc_trade_mode sample_rt_config = TmLive" "\<forall>n. re_write_ok sample_rt_env n"
    "idem_inv 10 100 (cs_idem sample_consumer)"
    "\<not> idem_live (int 300) 100 (cs_idem sample_consumer) (cancel_request_id sample_rt_env sample_live_ctx 60)"
    by (simp_all add: sample_rt_config_def sample_rt_env_def sample_consumer_def idem_inv_empty idem_live_def)
    (simp add: idem_empty_def)
  from second_cancel_never_sent [OF this(1) sample_guard_allows this(2) _ _ _ this(3,4), of 101
        "market_close_ops id" 100 111 222 Idle sample_wire sample_consumer_config "Fin 1" "Fin 1" sample_env
        "Some ''m1''" sample_env "Some ''m2''" "\<lparr>bo_base = 50, bo_max = 2000\<rparr>"
        "\<lparr>lp_backoff = 50, lp_running = True\<rparr>"]
  show ?thesis by (auto simp del: run_command_consumer.simps)
qed

end
