(* ===== verification/Runtime_Bootstrap.thy ===== *)
theory Runtime_Bootstrap
  imports Runtime_Safety Request_Ids
begin

text \<open>
  How the strategy runtime starts (\<open>bootstrap\<close> of \<open>strategy-runtime/src/runtime.rs\<close>): the
  broker's snapshots, the persisted state, what the strategy is told of both, the warm-up from
  history, and the messages left pending by the run before. Streams and files are arguments.
\<close>

section \<open>Snapshots\<close>

text \<open>A decoded envelope of the snapshots stream, newest first; the JSON maps as association
  lists. \<open>SpOther\<close> is anything that does not parse as one of the three.\<close>

datatype snapshot_payload =
  SpOrders "(i64 \<times> host_order) list"
| SpPositions "(string \<times> host_position) list"
| SpStopOrders "(string \<times> host_stop_order) list"
| SpOther

record found_snapshots =
  fs_orders :: "(i64 \<times> host_order) list option"
  fs_positions :: "(string \<times> host_position) list option"
  fs_stop_orders :: "(string \<times> host_stop_order) list option"

text \<open>The scan keeps the first of each kind and stops when it has all three.\<close>

fun scan_snapshots :: "snapshot_payload list \<Rightarrow> found_snapshots \<Rightarrow> found_snapshots" where
  "scan_snapshots [] f = f"
| "scan_snapshots (p # ps) f =
     (let f1 = (case p of
          SpOrders x \<Rightarrow> if fs_orders f = None then f\<lparr>fs_orders := Some x\<rparr> else f
        | SpPositions x \<Rightarrow> if fs_positions f = None then f\<lparr>fs_positions := Some x\<rparr> else f
        | SpStopOrders x \<Rightarrow> if fs_stop_orders f = None then f\<lparr>fs_stop_orders := Some x\<rparr> else f
        | SpOther \<Rightarrow> f)
      in if fs_orders f1 \<noteq> None \<and> fs_positions f1 \<noteq> None \<and> fs_stop_orders f1 \<noteq> None then f1
         else scan_snapshots ps f1)"

definition no_snapshots :: found_snapshots where
  "no_snapshots = \<lparr>fs_orders = None, fs_positions = None, fs_stop_orders = None\<rparr>"

definition newest_ts :: "i64 list \<Rightarrow> i64 option \<Rightarrow> i64 option" where
  "newest_ts ts acc = fold (\<lambda>t a. if 0 < t then Some (case a of None \<Rightarrow> t | Some x \<Rightarrow> max x t) else a) ts acc"

definition orders_of_strategy :: "runtime_config \<Rightarrow> (i64 \<times> host_order) list \<Rightarrow> (i64 \<times> host_order) list" where
  "orders_of_strategy cfg os = filter (\<lambda>(_, x). matches_strategy_symbol cfg (ord_symbol x)) os"

definition working_of_strategy :: "runtime_config \<Rightarrow> (i64 \<times> host_order) list \<Rightarrow> (i64 \<times> host_order) list" where
  "working_of_strategy cfg os = filter (\<lambda>(_, x). is_working_order x) (orders_of_strategy cfg os)"

definition stops_of_strategy ::
  "runtime_config \<Rightarrow> (string \<times> host_stop_order) list \<Rightarrow> (string \<times> host_stop_order) list" where
  "stops_of_strategy cfg os = filter (\<lambda>(_, x). matches_strategy_symbol cfg (sto_symbol x)) os"

definition positions_of_strategy ::
  "runtime_config \<Rightarrow> (string \<times> host_position) list \<Rightarrow> (string \<times> host_position) list" where
  "positions_of_strategy cfg ps = filter (\<lambda>(s, _). matches_strategy_symbol cfg s) ps"

definition load_orders ::
  "runtime_config \<Rightarrow> (i64 \<times> host_order) list \<Rightarrow> ('s, 'st) runtime \<Rightarrow> ('s, 'st) runtime" where
  "load_orders cfg os st =
     st\<lparr>rt_our_orders := rt_our_orders st \<union> fst ` set (working_of_strategy cfg os),
        rt_orders := map_of (orders_of_strategy cfg os),
        rt_bootstrap := (rt_bootstrap st)\<lparr>bs_orders_snapshot_loaded := True\<rparr>\<rparr>"

definition load_positions ::
  "runtime_config \<Rightarrow> (string \<times> host_position) list \<Rightarrow> ('s, 'st) runtime \<Rightarrow> ('s, 'st) runtime" where
  "load_positions cfg ps st =
     st\<lparr>rt_positions := map_of (positions_of_strategy cfg ps),
        rt_bootstrap := (rt_bootstrap st)\<lparr>bs_positions_snapshot_loaded := True\<rparr>\<rparr>"

definition or_empty :: "'a list option \<Rightarrow> 'a list" where
  "or_empty x = (case x of None \<Rightarrow> [] | Some l \<Rightarrow> l)"

definition snapshot_for_strategy :: "runtime_config \<Rightarrow> found_snapshots \<Rightarrow> bootstrap_snapshot" where
  "snapshot_for_strategy cfg f =
     (let os = orders_of_strategy cfg (or_empty (fs_orders f));
          ss = stops_of_strategy cfg (or_empty (fs_stop_orders f));
          ps = positions_of_strategy cfg (or_empty (fs_positions f))
      in \<lparr>bsn_positions = map_of ps,
          bsn_orders = map_of (working_of_strategy cfg (or_empty (fs_orders f))),
          bsn_stop_orders = map_of (filter (\<lambda>(_, x). is_working_stop_order x) ss),
          bsn_ts = newest_ts (map (hp_ts \<circ> snd) ps)
            (newest_ts (map (sto_ts \<circ> snd) ss) (newest_ts (map (ord_ts \<circ> snd) os) None))\<rparr>)"

definition apply_snapshots ::
  "runtime_config \<Rightarrow> found_snapshots \<Rightarrow> ('s, 'st) runtime \<Rightarrow> ('s, 'st) runtime \<times> bool" where
  "apply_snapshots cfg f st =
     (if rc_trade_mode cfg \<noteq> TmLive then
        (st\<lparr>rt_orders := Map.empty, rt_stop_orders := Map.empty, rt_positions := Map.empty,
            rt_bootstrap := (rt_bootstrap st)\<lparr>bs_orders_snapshot_loaded := fs_orders f \<noteq> None,
              bs_positions_snapshot_loaded := fs_positions f \<noteq> None\<rparr>,
            rt_bootstrap_snapshot := Some \<lparr>bsn_positions = Map.empty, bsn_orders = Map.empty,
              bsn_stop_orders = Map.empty, bsn_ts = None\<rparr>\<rparr>, True)
      else
        let st1 = (case fs_orders f of None \<Rightarrow> st | Some os \<Rightarrow> load_orders cfg os st);
            st2 = (case fs_stop_orders f of None \<Rightarrow> st1
              | Some ss \<Rightarrow> st1\<lparr>rt_stop_orders := map_of (stops_of_strategy cfg ss)\<rparr>);
            st3 = (case fs_positions f of None \<Rightarrow> st2 | Some ps \<Rightarrow> load_positions cfg ps st2);
            b = rt_bootstrap st3;
            st4 = (if bs_orders_snapshot_loaded b \<or> bs_positions_snapshot_loaded b
                   then st3\<lparr>rt_bootstrap_snapshot := Some (snapshot_for_strategy cfg f)\<rparr> else st3)
        in (st4, bs_orders_snapshot_loaded b \<and> bs_positions_snapshot_loaded b))"

text \<open>\<open>None\<close> is a failed read of the stream.\<close>

definition load_snapshots ::
  "runtime_config \<Rightarrow> snapshot_payload list option \<Rightarrow> ('s, 'st) runtime \<Rightarrow> ('s, 'st) runtime \<times> bool" where
  "load_snapshots cfg payloads st =
     (if \<not> rc_has_snapshots_stream cfg then (st, True)
      else case payloads of
          None \<Rightarrow> (st, False)
        | Some ps \<Rightarrow> apply_snapshots cfg (scan_snapshots ps no_snapshots) st)"

section \<open>The persisted state\<close>

datatype 'st state_read = StReadFailed | StNone | StUnparsable | StSnapshot "'st runtime_snapshot"

definition restore_pending_requests ::
  "('s, 'st) strategy_ops \<Rightarrow> ('s, 'st) runtime \<Rightarrow> ('s, 'st) runtime" where
  "restore_pending_requests ops st =
     st\<lparr>rt_our_requests := rt_our_requests st \<union> set (so_pending_request_ids ops (rt_strategy st))\<rparr>"

definition load_runtime_state ::
  "('s, 'st) strategy_ops \<Rightarrow> runtime_config \<Rightarrow> 'st state_read \<Rightarrow> ('s, 'st) runtime
   \<Rightarrow> ('s, 'st) runtime \<times> bool" where
  "load_runtime_state ops cfg read st =
     (if rc_reset_state_on_start cfg then (st, True)
      else case read of
          StReadFailed \<Rightarrow> (st, False)
        | StNone \<Rightarrow> (st, True)
        | StUnparsable \<Rightarrow> (st, True)
        | StSnapshot sn \<Rightarrow>
            (restore_pending_requests ops
              (st\<lparr>rt_last_bar := sn_last_bar sn, rt_strategy_state := sn_strategy_state sn,
                  rt_last_trade_ts := sn_last_trade_ts sn, rt_last_trade_id := sn_last_trade_id sn,
                  rt_seen_trades := sn_seen_trades sn,
                  rt_strategy := so_set_state ops (sn_strategy_state sn) (rt_strategy st)\<rparr>), True))"

section \<open>What the strategy is told\<close>

definition notify_bootstrap_snapshot ::
  "('s, 'st) strategy_ops \<Rightarrow> runtime_config \<Rightarrow> rt_env \<Rightarrow> ('s, 'st) runtime \<Rightarrow> ('s, 'st) runtime \<times> bool"
where
  "notify_bootstrap_snapshot ops cfg env st =
     (if \<not> rc_uses_bootstrap_snapshot cfg then (st, True)
      else case rt_bootstrap_snapshot st of
          None \<Rightarrow> (st, True)
        | Some snap \<Rightarrow>
            (case normalize_event_ts (case bsn_ts snap of None \<Rightarrow> 0 | Some t \<Rightarrow> t) st of
               (created, st1) \<Rightarrow>
                 let ctx = runtime_ctx cfg (re_ctx_now env) (rt_last_bar st1 (rc_symbol cfg)) created st1
                 in invoke_and_apply ops cfg env ctx created (so_on_bootstrap_snapshot ops ctx snap) st1))"

definition notify_runtime_state_restored ::
  "('s, 'st) strategy_ops \<Rightarrow> runtime_config \<Rightarrow> rt_env \<Rightarrow> ('s, 'st) runtime \<Rightarrow> ('s, 'st) runtime \<times> bool"
where
  "notify_runtime_state_restored ops cfg env st =
     (if \<not> rc_uses_runtime_state_restore cfg then (st, True)
      else
        let last_bar = rt_last_bar st (rc_symbol cfg);
            restored = \<lparr>rsr_known_order_ids = rt_our_orders st,
                        rsr_pending_requests = rt_our_requests st\<rparr>
        in case normalize_event_ts (case last_bar of None \<Rightarrow> 0 | Some t \<Rightarrow> t) st of
             (created, st1) \<Rightarrow>
               let ctx = runtime_ctx cfg (re_ctx_now env) last_bar created st1
               in invoke_and_apply ops cfg env ctx created
                    (so_on_runtime_state_restored ops ctx restored) st1)"

text \<open>\<open>dedup_by_key\<close> drops an element whose key is that of the one kept before it.\<close>

fun dedup_by :: "('a \<Rightarrow> 'k) \<Rightarrow> 'a list \<Rightarrow> 'a list" where
  "dedup_by f [] = []"
| "dedup_by f (x # xs) = x # dropWhile (\<lambda>y. f y = f x) (dedup_by f xs)"

definition history_bars :: "runtime_config \<Rightarrow> host_bar list \<Rightarrow> host_bar list" where
  "history_bars cfg bars =
     dedup_by hb_close_time (sort_key hb_close_time (filter (\<lambda>b. hb_symbol b = rc_symbol cfg) bars))"

definition warmup_from_history ::
  "('s, 'st) strategy_ops \<Rightarrow> runtime_config \<Rightarrow> rt_env \<Rightarrow> host_bar list option \<Rightarrow> ('s, 'st) runtime
   \<Rightarrow> ('s, 'st) runtime \<times> bool" where
  "warmup_from_history ops cfg env history st =
     (if \<not> rc_uses_history_warmup cfg then (st, True)
      else case history of
          None \<Rightarrow> (st, False)
        | Some raw \<Rightarrow>
            let bars = history_bars cfg raw in
            if bars = [] then (st, True)
            else
              let ctx = (runtime_ctx cfg (re_ctx_now env) (strategy_last_bar_ts cfg st) (rt_now st) st)
                          \<lparr>cx_allow_live_orders := False\<rparr>
              in case so_warmup_from_history ops ctx bars (rt_strategy st) of
                   (s, processed) \<Rightarrow>
                     let st1 = st\<lparr>rt_strategy := s, rt_strategy_state := so_state ops s\<rparr>
                     in (if 0 < processed
                           then update_last_bar_ts (hb_symbol (last bars)) (hb_close_time (last bars)) st1
                         else st1, True))"

text \<open>The whole start; the messages the run before left pending are handled like new ones. The
  risk-gate store, the stream groups and the report files are left out.\<close>

record 'st boot_input =
  bi_env :: rt_env
  bi_snapshots :: "snapshot_payload list option"
  bi_state :: "'st state_read"
  bi_history :: "host_bar list option"
  bi_pending :: "(rt_env \<times> rt_message) list"

definition bootstrap ::
  "('s, 'st) strategy_ops \<Rightarrow> runtime_config \<Rightarrow> 'st boot_input \<Rightarrow> ('s, 'st) runtime
   \<Rightarrow> ('s, 'st) runtime \<times> bool" where
  "bootstrap ops cfg inp st =
     and_then (load_snapshots cfg (bi_snapshots inp) st) (\<lambda>st1.
     and_then (load_runtime_state ops cfg (bi_state inp) st1) (\<lambda>st2.
     and_then (notify_bootstrap_snapshot ops cfg (bi_env inp) st2) (\<lambda>st3.
     and_then (notify_runtime_state_restored ops cfg (bi_env inp) st3) (\<lambda>st4.
     and_then (warmup_from_history ops cfg (bi_env inp) (bi_history inp) st4) (\<lambda>st5.
       run_runtime ops cfg (bi_pending inp @ [(bi_env inp, RmHealth)]) st5)))))"

section \<open>What a bar writes\<close>

lemma log_ext_mono: "log_ext P a b \<Longrightarrow> (\<And>e. P e \<Longrightarrow> Q e) \<Longrightarrow> log_ext Q a b"
  by (auto simp: log_ext_def list_all_iff)

lemma log_ext_one: "Q e \<Longrightarrow> log_ext Q es (es @ [e])"
  by (auto simp: log_ext_def)

lemma log_ext_new: "log_ext Q a b \<Longrightarrow> e \<in> set b \<Longrightarrow> e \<notin> set a \<Longrightarrow> Q e"
  by (auto simp: log_ext_def list_all_iff)

lemma log_ext_xack:
  assumes "Q RtXack" "log_ext Q es (rt_log st)"
  shows "log_ext Q es (rt_log (fst (xack env st)))"
  using assms by (auto simp: xack_def intro: log_ext_trans log_ext_one)

text \<open>The log of a live bar: what is written after the callback, in the state it left.\<close>

lemma live_bar_log:
  assumes "rc_trade_mode cfg = TmLive" "Q RtXack" "Q (RtOnBar bar)"
    and step: "\<And>st0 ctx emit_ctx d.
      rt_last_bar st0 = rt_last_bar st \<Longrightarrow>
      ctx = runtime_ctx cfg (re_ctx_now env) (rt_last_bar st (hb_symbol bar))
        (fst (normalize_event_ts (hb_close_time bar) st)) st0 \<Longrightarrow>
      emit_ctx = runtime_ctx cfg (re_emit_now env 0) (Some (hb_close_time bar))
        (fst (normalize_event_ts (hb_close_time bar) st)) (fst (call_on_bar ops ctx bar st0)) \<Longrightarrow>
      log_ext Q (rt_log (fst (call_on_bar ops ctx bar st0)))
        (rt_log (fst (apply_intents ops cfg env emit_ctx
          (fst (normalize_event_ts (hb_close_time bar) st)) d
          (fst (snd (call_on_bar ops ctx bar st0))) (snd (snd (call_on_bar ops ctx bar st0)))
          (fst (call_on_bar ops ctx bar st0)))))"
  shows "log_ext Q (rt_log st) (rt_log (fst (handle_bar ops cfg env bar st)))"
proof (cases "is_duplicate_bar (hb_symbol bar) (hb_close_time bar) st")
  case True
  then show ?thesis by (simp add: handle_bar_def log_ext_xack assms(2))
next
  case False
  let ?n = "snd (normalize_event_ts (hb_close_time bar) st)"
  let ?t = "fst (normalize_event_ts (hb_close_time bar) st)"
  define a where "a = (if hb_origin bar = OrLive
    then ?n\<lparr>rt_bootstrap := (rt_bootstrap ?n)\<lparr>bs_seen_live_bar := True\<rparr>\<rparr> else ?n)"
  define w where "w = maybe_wait_for_live_bar cfg env bar a"
  define ctx where "ctx = runtime_ctx cfg (re_ctx_now env) (rt_last_bar st (hb_symbol bar)) ?t (fst w)"
  define c where "c = call_on_bar ops ctx bar (fst w)"
  define r where "r = apply_intents ops cfg env (runtime_ctx cfg (re_emit_now env 0)
      (Some (hb_close_time bar)) ?t (fst c)) ?t (max (re_dispatch_now env) ?t)
      (fst (snd c)) (snd (snd c)) (fst c)"
  have eq: "handle_bar ops cfg env bar st = and_then w (\<lambda>_. and_then r
      (\<lambda>b. xack env (update_last_bar_ts (hb_symbol bar) (hb_close_time bar) b)))"
    using False assms(1)
    by (simp add: handle_bar_def Let_def case_prod_unfold a_def w_def ctx_def c_def r_def and_then_def)
  have w: "rt_last_bar (fst w) = rt_last_bar st" "rt_log (fst w) = rt_log st"
    using only_health_frame [OF wait_live_bar_only_health [of a cfg env bar]]
    by (simp_all add: w_def a_def)
  have c: "rt_log (fst c) = rt_log st @ [RtOnBar bar]"
    by (simp add: c_def call_on_bar_def w)
  have "log_ext Q (rt_log (fst c)) (rt_log (fst r))"
    unfolding r_def c_def by (rule step) (simp_all add: w ctx_def)
  then have "log_ext Q (rt_log st) (rt_log (fst r))"
    unfolding c by (rule log_ext_trans [OF log_ext_one [where Q = Q, OF assms(3)]])
  then show ?thesis unfolding eq
    by (auto simp: and_then_def w update_last_bar_ts_def intro!: log_ext_xack assms(2))
qed

lemma bar_snapshots_predate:
  fixes st :: "('s, 'st) runtime"
  assumes "rc_trade_mode cfg = TmLive"
  shows "log_ext (\<lambda>e. case snapshot_of e of None \<Rightarrow> True | Some sn \<Rightarrow> sn_last_bar sn = rt_last_bar st)
     (rt_log st) (rt_log (fst (handle_bar ops cfg env bar st)))"
proof (rule live_bar_log [OF assms])
  fix st0 :: "('s, 'st) runtime" and ctx emit_ctx d
  assume st0: "rt_last_bar st0 = rt_last_bar st"
  let ?c = "call_on_bar ops ctx bar st0"
  have lb: "rt_last_bar (fst ?c) = rt_last_bar st" by (simp add: call_on_bar_frame st0)
  show "log_ext (\<lambda>e. case snapshot_of e of None \<Rightarrow> True | Some sn \<Rightarrow> sn_last_bar sn = rt_last_bar st)
      (rt_log (fst ?c)) (rt_log (fst (apply_intents ops cfg env emit_ctx
          (fst (normalize_event_ts (hb_close_time bar) st)) d (fst (snd ?c)) (snd (snd ?c)) (fst ?c))))"
    by (rule log_ext_mono [OF dispatch_frame_log(1) [OF apply_intents_frame]])
      (simp add: dispatch_effect_def lb)
qed simp_all

section \<open>A batch of one intent\<close>

definition awaits :: "('s, 'st) strategy_ops \<Rightarrow> 's \<Rightarrow> (order_command \<Rightarrow> bool) \<Rightarrow> 'st rt_effect \<Rightarrow> bool" where
  "awaits ops s P e \<longleftrightarrow>
     (case e of RtCommand cmd sn \<Rightarrow> sn_strategy_state sn = so_state ops s \<and> P cmd | _ \<Rightarrow> True)"

lemma awaits_persist_None:
  assumes "rt_log a = es"
  shows "log_ext (awaits ops s P) es (rt_log (fst (persist_state env None a)))"
  using assms by (auto simp: persist_state_def emit_effect_def Let_def awaits_def intro: log_ext_one)

lemma awaits_send_one:
  assumes "so_on_command_prepared ops = default_on_command_prepared"
    and "\<And>tag cls. P (intent_to_command (re_chrono env) (re_v5 env) cfg tag ctx created i cls)"
    and "set xs \<subseteq> {(i, cls)}" "length xs \<le> 1" "rt_strategy a = s" "rt_log a = es"
  shows "log_ext (awaits ops s P) es (rt_log (fst (send_intents ops cfg env ctx created dispatch xs a)))"
proof (cases xs)
  case Nil
  then show ?thesis using assms(6) by simp
next
  case (Cons x ys)
  then have xs: "xs = [(i, cls)]" using assms(3,4) by simp
  have deferred: "log_ext (awaits ops s P) es (rt_log (fst (defer_exit ops cfg env ctx created dispatch i cls a)))"
    unfolding defer_exit_def Let_def case_prod_unfold
    by (rule awaits_persist_None) (simp add: assms(6))
  have send: "log_ext (awaits ops s P) es (rt_log (fst (send_intent ops cfg env ctx created i cls a)))"
    using assms(1,2,5,6)
    by (auto simp: send_intent_def and_then_def persist_state_def emit_effect_def Let_def
        notify_command_prepared_def default_on_command_prepared_def snapshot_def awaits_def
        intro: log_ext_one)
  show ?thesis using deferred send by (simp add: xs and_then_def)
qed

lemma single_intent_awaited:
  assumes "so_on_command_prepared ops = default_on_command_prepared"
    and "\<And>tag cls. P (intent_to_command (re_chrono env) (re_v5 env) cfg tag ctx created i cls)"
  shows "log_ext (awaits ops (rt_strategy st) P) (rt_log st)
    (rt_log (fst (apply_intents ops cfg env ctx created dispatch [i] prev st)))"
proof -
  define acc where "acc = accept_intents (re_chrono env) cfg ctx dispatch [i]"
  define d0 where "d0 = evaluate_guard_decision cfg env st"
  obtain st1 r where w: "maybe_wait_for_readiness cfg env d0 st = (st1, r)" by fastforce
  then have st1: "rt_log st1 = rt_log st" "rt_strategy st1 = rt_strategy st"
    using only_health_frame [OF maybe_wait_only_health [of st cfg env d0]] by simp_all
  have acc: "set acc \<subseteq> {(i, resolve_intent_class ctx i)}" "length acc \<le> 1"
    by (simp_all add: acc_def accept_intents_def)
  have sub: "set (filter F acc) \<subseteq> {(i, resolve_intent_class ctx i)}" "length (filter F acc) \<le> 1" for F
    using acc by (auto intro: order_trans [OF length_filter_le])
  have decided: "log_ext (awaits ops (rt_strategy st) P) (rt_log st)
      (rt_log (fst (dispatch_decided ops cfg env ctx created dispatch acc prev d a)))"
    if "rt_log a = rt_log st" "rt_strategy a = rt_strategy st" for a d
  proof -
    have send: "log_ext (awaits ops (rt_strategy st) P) (rt_log st)
        (rt_log (fst (send_intents ops cfg env ctx created dispatch xs a)))"
      if "set xs \<subseteq> {(i, resolve_intent_class ctx i)}" "length xs \<le> 1" for xs
      by (rule awaits_send_one [where P = P]) (use assms that \<open>rt_log a = rt_log st\<close>
          \<open>rt_strategy a = rt_strategy st\<close> in simp_all)
    have drop: "log_ext (awaits ops (rt_strategy st) P) (rt_log st)
        (rt_log (fst (drop_batch ops env prev (fst (notify_intents_blocked ops ctx es a)))))" for es
      unfolding drop_batch_def by (rule awaits_persist_None) (simp add: that)
    have keep: "log_ext (awaits ops (rt_strategy st) P) (rt_log st)
        (rt_log (fst (persist_state env None (fst (notify_intents_blocked ops ctx es a)))))" for es
      by (rule awaits_persist_None) (simp add: that)
    show ?thesis
      unfolding dispatch_decided_def Let_def case_prod_unfold
      by (simp add: send [OF acc] send [OF sub] drop keep split: bool.split)
  qed
  have virtual: "log_ext (awaits ops (rt_strategy st) P) (rt_log st)
      (rt_log (fst (and_then (emit_effect env (RtVirtual [i]) st) (persist_state env None))))"
    by (auto simp: and_then_def emit_effect_def persist_state_def Let_def awaits_def log_ext_def)
  have "log_ext (awaits ops (rt_strategy st) P) (rt_log st) (rt_log (fst (drop_batch ops env prev st)))"
    unfolding drop_batch_def by (rule awaits_persist_None) simp
  then show ?thesis
    using decided [of st] decided [OF st1] st1 virtual w
    by (auto simp: apply_intents_def acc_def [symmetric] d0_def [symmetric] Let_def
        split: option.split)
qed

section \<open>Restarting after a published command\<close>

lemma live_intent_same_id:
  assumes "cx_strategy_id ctx = cx_strategy_id call" "cx_portfolio ctx = cx_portfolio call"
    and "cx_symbol ctx = symbol" "created = cx_event_ts call"
  shows "oc_request_id (intent_to_command ch v5 rcfg tag ctx created (build_live_intent cfg sd qty ref) cls)
       = live_request_id v5 (mcc_style cfg) call symbol sd"
  using assms
  by (cases "mcc_style cfg")
    (simp_all add: build_live_intent_def live_request_id_def deterministic_market_request_id_def
      runtime_command_def)

text \<open>The command of a bar is written with a state in which its id is awaited.\<close>

lemma mc_bar_awaits:
  fixes st :: "('r market_close, 'r strategy_state) runtime"
  assumes live: "rc_trade_mode cfg = TmLive" and env: "re_v5 env = v5"
    and symbol: "hb_symbol bar = rc_symbol cfg"
  shows "log_ext (\<lambda>e. case e of
      RtCommand cmd sn \<Rightarrow> (\<exists>s. mc_state s = sn_strategy_state sn \<and> mc_pending_request_ids s = [oc_request_id cmd])
    | _ \<Rightarrow> True) (rt_log st) (rt_log (fst (handle_bar (market_close_ops v5) cfg env bar st)))"
    (is "log_ext ?Q _ _")
proof (rule live_bar_log [OF live])
  fix st0 :: "('r market_close, 'r strategy_state) runtime" and ctx emit_ctx d
  let ?t = "fst (normalize_event_ts (hb_close_time bar) st)"
  let ?c = "call_on_bar (market_close_ops v5) ctx bar st0"
  assume ctx: "ctx = runtime_ctx cfg (re_ctx_now env) (rt_last_bar st (hb_symbol bar)) ?t st0"
    and emit_ctx: "emit_ctx = runtime_ctx cfg (re_emit_now env 0) (Some (hb_close_time bar)) ?t (fst ?c)"
  let ?s = "fst (mc_on_bar v5 ctx bar (rt_strategy st0))"
  let ?is = "snd (mc_on_bar v5 ctx bar (rt_strategy st0))"
  have c: "rt_strategy (fst ?c) = ?s" "fst (snd ?c) = ?is"
    by (simp_all add: call_on_bar_def invoke_strategy_callback_def case_prod_unfold)
  have prepared: "so_on_command_prepared (market_close_ops v5 :: ('r market_close, _) strategy_ops)
      = default_on_command_prepared"
    by (simp add: market_close_ops_def)
  have "?is = [] \<or> (\<exists>i. ?is = [i])"
    by (auto simp: mc_on_bar_def mc_live_bar_def mc_live_entry_def Let_def ctx runtime_ctx_def live
        case_prod_unfold split: strategy_state.splits option.splits)
  then consider "?is = []" | i where "?is = [i]" by blast
  then show "log_ext ?Q (rt_log (fst ?c)) (rt_log (fst (apply_intents (market_close_ops v5) cfg env
      emit_ctx ?t d (fst (snd ?c)) (snd (snd ?c)) (fst ?c))))"
  proof cases
    case 1
    then show ?thesis
      by (auto simp: c apply_intents_def persist_state_def emit_effect_def Let_def log_ext_def)
  next
    case (2 i)
    then have "i \<in> set ?is" by simp
    then obtain sd qty ref where i: "i = build_live_intent (mc_config (rt_strategy st0)) sd qty ref"
      and ids: "mc_pending_request_ids ?s
        = [live_request_id v5 (mcc_style (mc_config (rt_strategy st0))) ctx (hb_symbol bar) sd]"
      using mc_on_bar_order [of i v5 ctx bar "rt_strategy st0"] live
      by (auto simp: ctx runtime_ctx_def)
    let ?P = "\<lambda>cmd. mc_pending_request_ids ?s = [oc_request_id cmd]"
    have "?P (intent_to_command (re_chrono env) (re_v5 env) cfg tag emit_ctx ?t i cls)" for tag cls
    proof -
      have "cx_strategy_id emit_ctx = cx_strategy_id ctx" "cx_portfolio emit_ctx = cx_portfolio ctx"
        "cx_symbol emit_ctx = hb_symbol bar" "?t = cx_event_ts ctx"
        by (simp_all add: ctx emit_ctx runtime_ctx_def symbol)
      from live_intent_same_id [OF this] show ?thesis unfolding i ids env by simp
    qed
    then have one: "log_ext (awaits (market_close_ops v5) (rt_strategy (fst ?c)) ?P) (rt_log (fst ?c))
        (rt_log (fst (apply_intents (market_close_ops v5) cfg env emit_ctx ?t d [i]
          (snd (snd ?c)) (fst ?c))))"
      by (rule single_intent_awaited [where P = ?P, OF prepared])
    have "?Q e" if "awaits (market_close_ops v5) (rt_strategy (fst ?c)) ?P e" for e
      using that by (cases e) (auto simp: awaits_def c(1) simp del: market_close_ops_simps,
        auto)
    then show ?thesis unfolding c(2) 2 by (rule log_ext_mono [OF one])
  qed
qed simp_all

lemma mc_pending_state:
  "mc_state a = mc_state b \<Longrightarrow> mc_pending_request_ids a = mc_pending_request_ids b"
  by (simp add: mc_pending_request_ids_def)

text \<open>C11. In live mode a runtime of \<open>market_buy_and_close\<close> publishes a command with a snapshot
  while it handles a bar of its symbol, and restarts from that snapshot. Then the restored
  strategy waits for the id of exactly that command, and that id is the only one the start adds
  to the requests whose acknowledgements the runtime takes as its own.\<close>

theorem restart_knows_command:
  fixes st :: "('r market_close, 'r strategy_state) runtime"
  assumes "rc_trade_mode cfg = TmLive" "hb_symbol bar = rc_symbol cfg" "rt_log st = []"
    and "RtCommand cmd sn \<in> set (rt_log (fst (handle_bar (market_close_ops (re_v5 env)) cfg env bar st)))"
    and "\<not> rc_reset_state_on_start cfg"
    and "restarted = fst (load_runtime_state (market_close_ops (re_v5 env)) cfg (StSnapshot sn) st0)"
  shows "mc_pending_request_ids (rt_strategy restarted) = [oc_request_id cmd]
    \<and> rt_our_requests restarted = insert (oc_request_id cmd) (rt_our_requests st0)"
proof -
  from log_ext_new [OF mc_bar_awaits [OF assms(1) refl assms(2)] assms(4)] assms(3)
  obtain s where s: "mc_state s = sn_strategy_state sn" "mc_pending_request_ids s = [oc_request_id cmd]"
    by auto
  have "mc_state (rt_strategy restarted) = sn_strategy_state sn"
    using assms(5,6) by (simp add: load_runtime_state_def restore_pending_requests_def)
  then have "mc_pending_request_ids (rt_strategy restarted) = [oc_request_id cmd]"
    using mc_pending_state [of "rt_strategy restarted" s] s by simp
  moreover have "rt_our_requests restarted
      = rt_our_requests st0 \<union> set (mc_pending_request_ids (rt_strategy restarted))"
    using assms(5,6) by (simp add: load_runtime_state_def restore_pending_requests_def)
  ultimately show ?thesis by simp
qed

text \<open>The snapshot written with a command on a bar does not have that bar among the processed
  ones: a runtime that stops between the write and the acknowledgement of the bar and restarts
  from the snapshot gives the strategy the same bar a second time.\<close>

theorem restart_repeats_bar:
  assumes "rc_trade_mode cfg = TmLive" "rt_log st = []"
    and "RtCommand cmd sn \<in> set (rt_log (fst (handle_bar ops cfg env bar st)))"
    and "\<not> is_duplicate_bar (hb_symbol bar) (hb_close_time bar) st"
    and "\<not> rc_reset_state_on_start cfg"
  shows "\<not> is_duplicate_bar (hb_symbol bar) (hb_close_time bar)
     (fst (load_runtime_state ops cfg (StSnapshot sn) st0))"
proof -
  from log_ext_new [OF bar_snapshots_predate [OF assms(1)] assms(3)] assms(2)
  have "sn_last_bar sn = rt_last_bar st" by simp
  then show ?thesis
    using assms(4,5)
    by (simp add: load_runtime_state_def restore_pending_requests_def is_duplicate_bar_def)
qed

text \<open>The entry of the example run, with the snapshot beside it.\<close>

lemma sample_bar_command:
  "\<exists>cmd sn. RtCommand cmd sn \<in> set (rt_log (fst (handle_bar (market_close_ops id) sample_rt_config
     sample_rt_env (sample_host_bar 60) sample_open)))"
  by (simp add: bar_eval guard_eval dispatch_eval entry_eval sample_open_def sample_rt_defs Let_def
      del: market_close_ops_simps)

lemma sample_env_v5 [simp]: "re_v5 sample_rt_env = id"
  by (simp add: sample_rt_env_def)

lemma restart_knows_command_witness:
  "\<exists>cmd sn. RtCommand cmd sn \<in> set (rt_log (fst (handle_bar (market_close_ops id) sample_rt_config
       sample_rt_env (sample_host_bar 60) sample_open)))
     \<and> oc_request_id cmd \<in> rt_our_requests (fst (load_runtime_state (market_close_ops id)
         sample_rt_config (StSnapshot sn) sample_mc))"
proof -
  have "rc_trade_mode sample_rt_config = TmLive" "hb_symbol (sample_host_bar 60) = rc_symbol sample_rt_config"
    "rt_log sample_open = []" "\<not> rc_reset_state_on_start sample_rt_config"
    by (simp_all add: sample_rt_config_def sample_host_bar_def sample_open_def)
  then show ?thesis
    using sample_bar_command restart_knows_command [of sample_rt_config "sample_host_bar 60" sample_open
        _ _ sample_rt_env _ sample_mc] by fastforce
qed

lemma restart_repeats_bar_witness:
  "\<exists>cmd sn. RtCommand cmd sn \<in> set (rt_log (fst (handle_bar (market_close_ops id) sample_rt_config
       sample_rt_env (sample_host_bar 60) sample_open)))
     \<and> \<not> is_duplicate_bar ''IMOEXF'' 60 (fst (load_runtime_state (market_close_ops id)
         sample_rt_config (StSnapshot sn) sample_mc))"
proof -
  have "rc_trade_mode sample_rt_config = TmLive" "rt_log sample_open = []"
    "\<not> rc_reset_state_on_start sample_rt_config" "hb_symbol (sample_host_bar 60) = ''IMOEXF''"
    "hb_close_time (sample_host_bar 60) = 60" "\<not> is_duplicate_bar ''IMOEXF'' 60 sample_open"
    by (simp_all add: sample_rt_config_def sample_host_bar_def sample_open_def is_duplicate_bar_def)
  then show ?thesis
    using sample_bar_command restart_repeats_bar [of sample_rt_config sample_open
        _ _ "market_close_ops id" sample_rt_env "sample_host_bar 60" sample_mc] by fastforce
qed

section \<open>Starting without snapshots\<close>

definition same_snapshots :: "('s, 'st) runtime \<Rightarrow> ('s, 'st) runtime \<Rightarrow> bool" where
  "same_snapshots a b \<longleftrightarrow>
     bs_orders_snapshot_loaded (rt_bootstrap b) = bs_orders_snapshot_loaded (rt_bootstrap a)
     \<and> bs_positions_snapshot_loaded (rt_bootstrap b) = bs_positions_snapshot_loaded (rt_bootstrap a)"

lemma same_snapshots_trans: "same_snapshots a b \<Longrightarrow> same_snapshots b c \<Longrightarrow> same_snapshots a c"
  by (simp add: same_snapshots_def)

lemma same_snapshots_bootstrap: "rt_bootstrap b = rt_bootstrap a \<Longrightarrow> same_snapshots a b"
  by (simp add: same_snapshots_def)

lemma invoke_dispatch_frame: "dispatch_frame st (fst (invoke_and_apply ops cfg env ctx created f st))"
  unfolding invoke_and_apply_def case_prod_unfold
  by (rule dispatch_frame_trans [OF send_dispatch [OF invoke_callback_frame] apply_intents_frame])

interpretation snaps: quiet_relation ops cfg same_snapshots
  by unfold_locales (auto intro: same_snapshots_trans same_snapshots_bootstrap
      simp: quiet_def dispatch_frameD [OF invoke_dispatch_frame])

lemma same_snapshots_bar: "same_snapshots st (fst (handle_bar ops cfg env bar st))"
proof -
  let ?n = "snd (normalize_event_ts (hb_close_time bar) st)"
  have live: "same_snapshots st (?n\<lparr>rt_bootstrap := rt_bootstrap st\<lparr>bs_seen_live_bar := True\<rparr>\<rparr>)"
    by (simp add: same_snapshots_def)
  have upd: "same_snapshots a (update_last_bar_ts s t a)" for a :: "('a, 'b) runtime" and s t
    by (rule same_snapshots_bootstrap) (simp add: update_last_bar_ts_def)
  have call: "same_snapshots a (fst (call_on_bar ops ctx bar a))" for a :: "('a, 'b) runtime" and ctx
    by (rule same_snapshots_bootstrap)
      (simp add: call_on_bar_def dispatch_frameD [OF send_dispatch [OF invoke_callback_frame]])
  have applied: "same_snapshots a (fst (apply_intents ops cfg env ctx t d is p a))"
    for a :: "('a, 'b) runtime" and ctx t d "is" p
    by (rule same_snapshots_bootstrap) (simp add: dispatch_frameD [OF apply_intents_frame])
  have paper: "same_snapshots a (fst (and_then (advance_paper ops cfg env ctx bar t is p a)
      (persist_state env None)))" for a :: "('a, 'b) runtime" and ctx t "is" p
    by (auto intro!: snaps.andthen snaps.quietly(2) [OF advance_paper_frame] snaps.quietly(10))
  note wait = snaps.quietly(3) [OF wait_live_bar_only_health]
  show ?thesis
    unfolding handle_bar_def Let_def case_prod_unfold
    by (auto intro!: snaps.andthen snaps.xack same_snapshots_trans [OF live wait]
        same_snapshots_trans [OF snaps.quietly(4) wait] same_snapshots_trans [OF call applied]
        same_snapshots_trans [OF call paper] upd snaps.refl)
qed

lemma same_snapshots_run: "same_snapshots st (fst (run_runtime ops cfg ms st))"
proof (induction ms arbitrary: st)
  case (Cons em ms)
  obtain env m where em: "em = (env, m)" by fastforce
  have "same_snapshots st (fst (handle_message ops cfg env m st))"
  proof (cases m)
    case (RmBarsRead n)
    then show ?thesis by (simp add: same_snapshots_def)
  next
    case (RmBar bar)
    then show ?thesis by (simp add: same_snapshots_bar)
  qed (rule snaps.non_bar, simp)+
  then show ?case using Cons.IH by (auto simp: em and_then_def intro: same_snapshots_trans)
qed (simp add: snaps.refl)

text \<open>What follows the snapshots in a start, then a run.\<close>

definition after_snapshots ::
  "('s, 'st) strategy_ops \<Rightarrow> runtime_config \<Rightarrow> 'st boot_input \<Rightarrow> (rt_env \<times> rt_message) list
   \<Rightarrow> ('s, 'st) runtime \<Rightarrow> ('s, 'st) runtime \<times> bool" where
  "after_snapshots ops cfg inp ms st1 =
     and_then (and_then (load_runtime_state ops cfg (bi_state inp) st1) (\<lambda>st2.
       and_then (notify_bootstrap_snapshot ops cfg (bi_env inp) st2) (\<lambda>st3.
       and_then (notify_runtime_state_restored ops cfg (bi_env inp) st3) (\<lambda>st4.
       and_then (warmup_from_history ops cfg (bi_env inp) (bi_history inp) st4) (\<lambda>st5.
         run_runtime ops cfg (bi_pending inp @ [(bi_env inp, RmHealth)]) st5)))))
     (run_runtime ops cfg ms)"

lemma and_then_assoc: "and_then (and_then r f) g = and_then r (\<lambda>a. and_then (f a) g)"
  by (simp add: and_then_def)

lemma bootstrap_then_run:
  "and_then (bootstrap ops cfg inp st) (run_runtime ops cfg ms)
     = and_then (load_snapshots cfg (bi_snapshots inp) st) (after_snapshots ops cfg inp ms)"
  by (simp add: bootstrap_def after_snapshots_def [abs_def] and_then_assoc)

lemma start_quiet:
  "rt_bootstrap (fst (load_runtime_state ops cfg r st)) = rt_bootstrap st"
  "rt_log (fst (load_runtime_state ops cfg r st)) = rt_log st"
  "rt_bars_read (fst (load_runtime_state ops cfg r st)) = rt_bars_read st"
  "rt_bootstrap (fst (warmup_from_history ops cfg env h st)) = rt_bootstrap st"
  "rt_log (fst (warmup_from_history ops cfg env h st)) = rt_log st"
  "rt_bars_read (fst (warmup_from_history ops cfg env h st)) = rt_bars_read st"
  by (auto simp: load_runtime_state_def restore_pending_requests_def warmup_from_history_def
      update_last_bar_ts_def Let_def case_prod_unfold split: state_read.split option.split)

text \<open>Any relation of the kind of \<open>quiet_relation\<close> that does not look at the last bars holds over the
  rest of the start.\<close>

lemma start_steps:
  assumes trans: "\<And>a b c. R a b \<Longrightarrow> R b c \<Longrightarrow> R a c"
    and same: "\<And>a b. rt_bootstrap b = rt_bootstrap a \<Longrightarrow> rt_log b = rt_log a
      \<Longrightarrow> rt_bars_read b = rt_bars_read a \<Longrightarrow> R a b"
    and invoke: "\<And>a ctx created f. R a (fst (invoke_and_apply ops cfg (bi_env inp) ctx created f a))"
    and run: "\<And>a ms. R a (fst (run_runtime ops cfg ms a))"
  shows "R st (fst (after_snapshots ops cfg inp ms st))"
proof -
  note andthen = and_then_rel [of R, OF _ trans]
  have refl: "R a a" for a by (rule same) simp_all
  have norm: "R a (fst (invoke_and_apply ops cfg (bi_env inp) ctx created f (snd (normalize_event_ts t a))))"
    for a ctx created f t
    by (rule trans [OF same invoke]) simp_all
  have "R a (fst (notify_bootstrap_snapshot ops cfg (bi_env inp) a))"
    "R a (fst (notify_runtime_state_restored ops cfg (bi_env inp) a))" for a
    by (auto simp: notify_bootstrap_snapshot_def notify_runtime_state_restored_def Let_def
        case_prod_unfold refl intro: norm split: option.split)
  moreover have "R a (fst (load_runtime_state ops cfg r a))"
    "R a (fst (warmup_from_history ops cfg (bi_env inp) h a))" for a r h
    by (rule same; simp add: start_quiet)+
  ultimately show ?thesis
    unfolding after_snapshots_def using run by (auto intro!: andthen)
qed

text \<open>C5. However a runtime is started and whatever it reads afterwards, it publishes an entry only
  if its start found a snapshot of the orders and one of the positions.\<close>

theorem no_entry_without_snapshots:
  assumes "rt_log st = []" "\<not> bs_orders_snapshot_loaded (rt_bootstrap st)"
      "\<not> bs_positions_snapshot_loaded (rt_bootstrap st)"
    and "cmd \<in> set (commands_in (rt_log (fst (and_then (bootstrap ops cfg inp st) (run_runtime ops cfg ms)))))"
    and "oc_intent_class cmd = Some Entry"
  shows "\<exists>ps. rc_has_snapshots_stream cfg \<and> bi_snapshots inp = Some ps
    \<and> fs_orders (scan_snapshots ps no_snapshots) \<noteq> None
    \<and> fs_positions (scan_snapshots ps no_snapshots) \<noteq> None"
proof -
  let ?l = "load_snapshots cfg (bi_snapshots inp) st"
  let ?e = "fst (after_snapshots ops cfg inp ms (fst ?l))"
  have l: "rt_log (fst ?l) = []"
    using assms(1)
    by (auto simp: load_snapshots_def apply_snapshots_def load_orders_def load_positions_def Let_def
        split: option.splits)
  then have cmd: "cmd \<in> set (commands_in (rt_log ?e))" "snd ?l"
    using assms(4) [unfolded bootstrap_then_run] by (auto simp: and_then_def split: if_splits)
  have "safe_step cfg (fst ?l) ?e"
    by (rule start_steps)
      (erule (1) safe_step_trans, simp add: safe_step_quiet, rule safe_invoke, rule safe_run)
  then have "runtime_ready cfg ?e"
    using cmd l assms(5) by (auto simp: safe_step_def list_all_iff)
  moreover have "same_snapshots (fst ?l) ?e"
    by (rule start_steps)
      (erule (1) same_snapshots_trans, simp add: same_snapshots_bootstrap, rule snaps.invoke,
        rule same_snapshots_run)
  ultimately have "bs_orders_snapshot_loaded (rt_bootstrap (fst ?l))"
    "bs_positions_snapshot_loaded (rt_bootstrap (fst ?l))"
    by (simp_all add: runtime_ready_def bootstrap_ready_def same_snapshots_def)
  then show ?thesis
    using assms(2,3)
    by (auto simp: load_snapshots_def apply_snapshots_def load_orders_def load_positions_def Let_def
        split: option.splits if_splits)
qed

definition sample_cold :: "(unit market_close, unit strategy_state) runtime" where
  "sample_cold = sample_open\<lparr>rt_bootstrap := \<lparr>bs_orders_snapshot_loaded = False,
     bs_positions_snapshot_loaded = False, bs_seen_live_bar = False\<rparr>\<rparr>"

definition sample_boot :: "unit strategy_state boot_input" where
  "sample_boot = \<lparr>bi_env = sample_rt_env, bi_snapshots = Some [SpOther, SpPositions [], SpOrders []],
     bi_state = StNone, bi_history = None, bi_pending = []\<rparr>"

lemmas boot_eval = bootstrap_def load_snapshots_def apply_snapshots_def load_orders_def
  load_positions_def no_snapshots_def orders_of_strategy_def working_of_strategy_def
  positions_of_strategy_def load_runtime_state_def notify_bootstrap_snapshot_def
  notify_runtime_state_restored_def warmup_from_history_def refresh_health_now_def

lemma no_entry_without_snapshots_witness:
  "\<exists>ps. rc_has_snapshots_stream sample_rt_config \<and> bi_snapshots sample_boot = Some ps
     \<and> fs_orders (scan_snapshots ps no_snapshots) \<noteq> None
     \<and> fs_positions (scan_snapshots ps no_snapshots) \<noteq> None"
proof -
  let ?e = "fst (and_then (bootstrap (market_close_ops id) sample_rt_config sample_boot sample_cold)
    (run_runtime (market_close_ops id) sample_rt_config [(sample_rt_env, RmBar (sample_host_bar 60))]))"
  have "map oc_intent_class (commands_in (rt_log ?e)) = [Some Entry]"
    by (simp add: boot_eval bar_eval guard_eval dispatch_eval entry_eval sample_boot_def sample_cold_def
        sample_open_def sample_rt_defs Let_def del: market_close_ops_simps)
  then obtain c where "c \<in> set (commands_in (rt_log ?e))" "oc_intent_class c = Some Entry" by auto
  then show ?thesis
    by (intro no_entry_without_snapshots [where st = sample_cold])
      (simp_all add: sample_cold_def sample_open_def)
qed

end
