(* ===== verification/Hybrid_Signals.thy ===== *)
theory Hybrid_Signals
  imports Chrono F64
begin

text \<open>
  The signal engines of \<open>strategies/hybrid_intraday\<close>: the types of \<open>types.rs\<close>, the bracket engine
  of \<open>mean_reversion.rs\<close>, the midpoint engine of \<open>high180.rs\<close> and the breakout engine of
  \<open>intraday_breakout.rs\<close>, one definition per method. Times are local \<open>naive_datetime\<close>s and durations
  nanoseconds. The breakout engine is compared with a definition that reads the levels off the
  list of all bars; for the midpoint engine the order of stop, price and target is shown.
\<close>

section \<open>Types\<close>

datatype owner = MeanReversion | IntradayBreakout

fun owner_str :: "owner \<Rightarrow> string" where
  "owner_str MeanReversion = ''mean_reversion''"
| "owner_str IntradayBreakout = ''intraday_breakout''"

datatype pos_side = Long | Short

fun pos_side_str :: "pos_side \<Rightarrow> string" where
  "pos_side_str Long = ''long''"
| "pos_side_str Short = ''short''"

datatype entry_style = StBracket | StMarket

fun entry_style_str :: "entry_style \<Rightarrow> string" where
  "entry_style_str StBracket = ''bracket''"
| "entry_style_str StMarket = ''market''"

datatype reason_code =
  MorningMeanReversionLong
| MorningMeanReversionShort
| BreakoutLong
| BreakoutShort
| BreakoutEodExit
| BreakoutStop2Long
| BreakoutStop1Long
| BreakoutStop2Short
| BreakoutStop1Short
| MeanRevTimeCutoff
| WaitfixOvernightExit

fun reason_str :: "reason_code \<Rightarrow> string" where
  "reason_str MorningMeanReversionLong = ''morning_mean_reversion_long''"
| "reason_str MorningMeanReversionShort = ''morning_mean_reversion_short''"
| "reason_str BreakoutLong = ''breakout_long''"
| "reason_str BreakoutShort = ''breakout_short''"
| "reason_str BreakoutEodExit = ''breakout_eod_exit''"
| "reason_str BreakoutStop2Long = ''breakout_stop2_long''"
| "reason_str BreakoutStop1Long = ''breakout_stop1_long''"
| "reason_str BreakoutStop2Short = ''breakout_stop2_short''"
| "reason_str BreakoutStop1Short = ''breakout_stop1_short''"
| "reason_str MeanRevTimeCutoff = ''mean_rev_time_cutoff''"
| "reason_str WaitfixOvernightExit = ''waitfix_overnight_exit''"

record entry_signal =
  es_owner :: owner
  es_side :: pos_side
  es_style :: entry_style
  es_reason :: reason_code
  es_stop_price :: "f64 option"
  es_take_price :: "f64 option"

record exit_signal =
  xs_owner :: owner
  xs_reason :: reason_code

datatype hybrid_action =
  SubmitEntry entry_signal
| SubmitExit owner reason_code
| ArmOvernightExit owner reason_code naive_date naive_time

section \<open>The bracket engine\<close>

record mean_reversion_config =
  mrc_min_range_long :: f64
  mrc_max_range_long :: f64
  mrc_k_long :: f64
  mrc_take_k_long :: f64
  mrc_stop_k_long :: f64
  mrc_min_range_short :: f64
  mrc_max_range_short :: f64
  mrc_k_short :: f64
  mrc_take_k_short :: f64
  mrc_stop_k_short :: f64
  mrc_tick_size :: f64
  mrc_session_end_time :: naive_time
  mrc_exit_offset :: int

definition mr_active_window :: "naive_datetime \<Rightarrow> bool" where
  "mr_active_window dt \<longleftrightarrow> dt_hour dt < 12"

definition mr_should_force_exit :: "mean_reversion_config \<Rightarrow> naive_datetime \<Rightarrow> bool" where
  "mr_should_force_exit cfg dt \<longleftrightarrow>
     and_time (dt_date dt) (mrc_session_end_time cfg) - mrc_exit_offset cfg \<le> dt"

definition round_to_tick :: "f64 \<Rightarrow> f64 \<Rightarrow> f64" where
  "round_to_tick tick price =
     (if tick \<le> 0 then price else f_floor (price div tick + Fin (1 / 2)) * tick)"

definition mr_signal :: "pos_side \<Rightarrow> reason_code \<Rightarrow> f64 \<Rightarrow> f64 \<Rightarrow> entry_signal" where
  "mr_signal sd reason sp tp =
     \<lparr>es_owner = MeanReversion, es_side = sd, es_style = StBracket, es_reason = reason,
      es_stop_price = Some sp, es_take_price = Some tp\<rparr>"

definition mr_evaluate_entry ::
  "mean_reversion_config \<Rightarrow> naive_datetime \<Rightarrow> f64 \<Rightarrow> f64 \<Rightarrow> f64 \<Rightarrow> entry_signal option" where
  "mr_evaluate_entry cfg dt close close_prev day_range =
     (let tick = mrc_tick_size cfg in
      if \<not> mr_active_window dt then None
      else if f_eq close 0 \<or> is_nan close_prev \<or> is_nan day_range then None
      else
        let rel = day_range div close in
        if mrc_min_range_long cfg < rel \<and> rel < mrc_max_range_long cfg \<and> close < close_prev
           \<and> close_prev - mrc_k_long cfg * day_range < close then
          Some (mr_signal Long MorningMeanReversionLong
            (round_to_tick tick (close - mrc_stop_k_long cfg * day_range))
            (round_to_tick tick (close + mrc_take_k_long cfg * day_range)))
        else if mrc_min_range_short cfg < rel \<and> rel < mrc_max_range_short cfg \<and> close_prev < close
           \<and> close < close_prev + mrc_k_short cfg * day_range then
          Some (mr_signal Short MorningMeanReversionShort
            (round_to_tick tick (close + mrc_stop_k_short cfg * day_range))
            (round_to_tick tick (close - mrc_take_k_short cfg * day_range)))
        else None)"

section \<open>The midpoint engine\<close>

record high180_config =
  hic_min_rel_range :: f64
  hic_max_rel_range :: f64
  hic_k_long :: f64
  hic_k_short :: f64
  hic_stop_loss_mult :: f64
  hic_max_hold :: int
  hic_entry_end_time :: naive_time

record high180_signal =
  his_side :: pos_side
  his_target_price :: f64
  his_stop_price :: f64
  his_reason :: reason_code

record high180_open =
  hio_target_price :: f64
  hio_stop_price :: f64
  hio_max_hold :: int

definition high180_open_of :: "high180_config \<Rightarrow> high180_signal \<Rightarrow> high180_open" where
  "high180_open_of cfg s =
     \<lparr>hio_target_price = his_target_price s, hio_stop_price = his_stop_price s,
      hio_max_hold = hic_max_hold cfg\<rparr>"

record high180 =
  hi_config :: high180_config
  hi_current_day :: "naive_date option"
  hi_day_high :: "f64 option"
  hi_day_low :: "f64 option"

definition high180_new :: "high180_config \<Rightarrow> high180" where
  "high180_new cfg = \<lparr>hi_config = cfg, hi_current_day = None, hi_day_high = None, hi_day_low = None\<rparr>"

definition or_else :: "'a \<Rightarrow> 'a option \<Rightarrow> 'a" where
  "or_else d x = (case x of None \<Rightarrow> d | Some y \<Rightarrow> y)"

definition high180_on_bar :: "naive_datetime \<Rightarrow> f64 \<Rightarrow> f64 \<Rightarrow> high180 \<Rightarrow> high180" where
  "high180_on_bar ts high low e =
     (if hi_current_day e \<noteq> Some (dt_date ts) then
        e\<lparr>hi_current_day := Some (dt_date ts), hi_day_high := Some high, hi_day_low := Some low\<rparr>
      else e\<lparr>hi_day_high := Some (f_max (or_else high (hi_day_high e)) high),
             hi_day_low := Some (f_min (or_else low (hi_day_low e)) low)\<rparr>)"

definition high180_midpoint :: "high180 \<Rightarrow> f64 option" where
  "high180_midpoint e =
     (case (hi_day_high e, hi_day_low e) of
        (Some h, Some l) \<Rightarrow> Some ((h + l) div Fin 2) | _ \<Rightarrow> None)"

definition high180_evaluate_entry ::
  "high180 \<Rightarrow> naive_datetime \<Rightarrow> f64 \<Rightarrow> f64 \<Rightarrow> f64 \<Rightarrow> high180_signal option" where
  "high180_evaluate_entry e ts close close_prev day_range =
     (let cfg = hi_config e; rel = day_range div close in
      if hic_entry_end_time cfg < dt_time ts then None
      else if f_eq close 0 \<or> is_nan close_prev \<or> is_nan day_range then None
      else if \<not> (hic_min_rel_range cfg < rel \<and> rel < hic_max_rel_range cfg) then None
      else case high180_midpoint e of
          None \<Rightarrow> None
        | Some mid \<Rightarrow>
            if close < close_prev \<and> close_prev - hic_k_long cfg * day_range < close then
              (if mid \<le> close then None
               else Some \<lparr>his_side = Long, his_target_price = mid,
                 his_stop_price = close - hic_stop_loss_mult cfg * (mid - close),
                 his_reason = MorningMeanReversionLong\<rparr>)
            else if close_prev < close \<and> close < close_prev + hic_k_short cfg * day_range then
              (if close \<le> mid then None
               else Some \<lparr>his_side = Short, his_target_price = mid,
                 his_stop_price = close + hic_stop_loss_mult cfg * (close - mid),
                 his_reason = MorningMeanReversionShort\<rparr>)
            else None)"

definition high180_evaluate_exit ::
  "high180_open \<Rightarrow> naive_datetime \<Rightarrow> pos_side \<Rightarrow> naive_datetime \<Rightarrow> f64 \<Rightarrow> (string \<times> f64) option" where
  "high180_evaluate_exit op entry_ts sd ts close =
     (if ts \<le> entry_ts then None
      else
        let target = (case sd of Long \<Rightarrow> hio_target_price op \<le> close | Short \<Rightarrow> close \<le> hio_target_price op);
            stop = (case sd of Long \<Rightarrow> close \<le> hio_stop_price op | Short \<Rightarrow> hio_stop_price op \<le> close)
        in if target then Some (''midpoint_take'', close)
           else if stop then Some (''stop'', close)
           else if hio_max_hold op \<le> ts - entry_ts then Some (''time_stop'', close)
           else None)"

section \<open>The breakout engine\<close>

datatype min_range_mode = MinDisabled | MinAbsolute | MinRelativePrevClose

record breakout_config =
  boc_k :: f64
  boc_stop1_range :: f64
  boc_stop2_range :: f64
  boc_big_move_threshold :: f64
  boc_min_range :: f64
  boc_min_range_mode :: min_range_mode
  boc_exclude_weekends :: bool
  boc_wait_hours :: f64

record breakout_snapshot =
  bo_cur_day_date :: "naive_date option"
  bo_cur_day_high :: "f64 option"
  bo_cur_day_low :: "f64 option"
  bo_cur_day_close :: "f64 option"
  bo_yesterday_close :: "f64 option"
  bo_yesterday_range :: "f64 option"
  bo_yesterday_return :: "f64 option"
  bo_day_before_close :: "f64 option"
  bo_was_long_today :: bool
  bo_was_short_today :: bool
  bo_today_start :: "naive_datetime option"

text \<open>The engine is its configuration and the fields of its snapshot; \<open>snapshot\<close> and
  \<open>restore_snapshot\<close> copy the latter.\<close>

record breakout =
  bo_config :: breakout_config
  bo_state :: breakout_snapshot

definition breakout_blank :: breakout_snapshot where
  "breakout_blank = \<lparr>bo_cur_day_date = None, bo_cur_day_high = None, bo_cur_day_low = None,
     bo_cur_day_close = None, bo_yesterday_close = None, bo_yesterday_range = None,
     bo_yesterday_return = None, bo_day_before_close = None, bo_was_long_today = False,
     bo_was_short_today = False, bo_today_start = None\<rparr>"

definition breakout_new :: "breakout_config \<Rightarrow> breakout" where
  "breakout_new cfg = \<lparr>bo_config = cfg, bo_state = breakout_blank\<rparr>"

definition breakout_restore :: "breakout_snapshot \<Rightarrow> breakout \<Rightarrow> breakout" where
  "breakout_restore sn e = e\<lparr>bo_state := sn\<rparr>"

definition weekend :: "naive_datetime \<Rightarrow> bool" where
  "weekend dt \<longleftrightarrow> is_weekend_day (weekday_of (dt_date dt))"

definition bo_init_new_day :: "naive_datetime \<Rightarrow> f64 \<Rightarrow> breakout_snapshot \<Rightarrow> breakout_snapshot" where
  "bo_init_new_day dt open_price s =
     s\<lparr>bo_cur_day_date := Some (dt_date dt), bo_cur_day_high := Some open_price,
       bo_cur_day_low := Some open_price, bo_cur_day_close := Some open_price,
       bo_today_start := Some dt, bo_was_long_today := False, bo_was_short_today := False\<rparr>"

definition bo_update_cur_day :: "f64 \<Rightarrow> f64 \<Rightarrow> f64 \<Rightarrow> breakout_snapshot \<Rightarrow> breakout_snapshot" where
  "bo_update_cur_day high low close s =
     s\<lparr>bo_cur_day_high := Some (f_max (or_else high (bo_cur_day_high s)) high),
       bo_cur_day_low := Some (f_min (or_else low (bo_cur_day_low s)) low),
       bo_cur_day_close := Some close\<rparr>"

definition day_return :: "f64 option \<Rightarrow> f64 option \<Rightarrow> f64 option" where
  "day_return before close =
     (case (before, close) of
        (Some b, Some c) \<Rightarrow> if \<not> f_eq b 0 then Some ((c - b) div b) else None
      | _ \<Rightarrow> None)"

definition bo_on_day_close :: "breakout_snapshot \<Rightarrow> breakout_snapshot" where
  "bo_on_day_close s =
     s\<lparr>bo_yesterday_close := bo_cur_day_close s,
       bo_yesterday_range := (case (bo_cur_day_high s, bo_cur_day_low s) of
          (Some h, Some l) \<Rightarrow> Some (h - l) | _ \<Rightarrow> None),
       bo_yesterday_return := day_return (bo_day_before_close s) (bo_cur_day_close s),
       bo_day_before_close := bo_cur_day_close s\<rparr>"

definition bo_on_bar ::
  "breakout_config \<Rightarrow> naive_datetime \<Rightarrow> f64 \<Rightarrow> f64 \<Rightarrow> f64 \<Rightarrow> f64 \<Rightarrow> breakout_snapshot
   \<Rightarrow> breakout_snapshot" where
  "bo_on_bar cfg dt open_price high low close s =
     (if boc_exclude_weekends cfg \<and> weekend dt then s
      else bo_update_cur_day high low close
        (if bo_cur_day_date s = None then bo_init_new_day dt open_price s
         else if Some (dt_date dt) \<noteq> bo_cur_day_date s
           then bo_init_new_day dt open_price (bo_on_day_close s)
         else s))"

definition breakout_on_bar ::
  "naive_datetime \<Rightarrow> f64 \<Rightarrow> f64 \<Rightarrow> f64 \<Rightarrow> f64 \<Rightarrow> breakout \<Rightarrow> breakout" where
  "breakout_on_bar dt open_price high low close e =
     e\<lparr>bo_state := bo_on_bar (bo_config e) dt open_price high low close (bo_state e)\<rparr>"

definition mark_entry :: "pos_side \<Rightarrow> breakout \<Rightarrow> breakout" where
  "mark_entry sd e =
     e\<lparr>bo_state := (case sd of Long \<Rightarrow> (bo_state e)\<lparr>bo_was_long_today := True\<rparr>
                            | Short \<Rightarrow> (bo_state e)\<lparr>bo_was_short_today := True\<rparr>)\<rparr>"

definition can_check_entry :: "breakout \<Rightarrow> naive_datetime \<Rightarrow> bool" where
  "can_check_entry e dt \<longleftrightarrow>
     \<not> (boc_exclude_weekends (bo_config e) \<and> weekend dt)
     \<and> (case bo_today_start (bo_state e) of
          None \<Rightarrow> False
        | Some start \<Rightarrow>
            boc_wait_hours (bo_config e) \<le> f64_of_int (dur_seconds (dt - start)) div Fin 3600)"

definition passes_min_range_filter :: "breakout \<Rightarrow> bool" where
  "passes_min_range_filter e \<longleftrightarrow>
     (let range = or_else 0 (bo_yesterday_range (bo_state e)); m = boc_min_range (bo_config e) in
      case boc_min_range_mode (bo_config e) of
        MinDisabled \<Rightarrow> True
      | MinAbsolute \<Rightarrow> m \<le> range
      | MinRelativePrevClose \<Rightarrow>
          (case bo_yesterday_close (bo_state e) of
             None \<Rightarrow> False
           | Some c \<Rightarrow> \<not> f_eq c 0 \<and> m \<le> range div c))"

definition breakout_signal :: "pos_side \<Rightarrow> reason_code \<Rightarrow> entry_signal" where
  "breakout_signal sd reason =
     \<lparr>es_owner = IntradayBreakout, es_side = sd, es_style = StMarket, es_reason = reason,
      es_stop_price = None, es_take_price = None\<rparr>"

definition breakout_evaluate_entry :: "breakout \<Rightarrow> naive_datetime \<Rightarrow> f64 \<Rightarrow> entry_signal option" where
  "breakout_evaluate_entry e dt close =
     (let s = bo_state e; cfg = bo_config e in
      if \<not> can_check_entry e dt then None
      else case (bo_yesterday_close s, bo_yesterday_range s) of
          (Some y, Some r) \<Rightarrow>
            if \<not> passes_min_range_filter e then None
            else
              let can_long = (case bo_yesterday_return s of
                    None \<Rightarrow> True | Some x \<Rightarrow> \<not> x < - boc_big_move_threshold cfg);
                  can_short = (case bo_yesterday_return s of
                    None \<Rightarrow> True | Some x \<Rightarrow> \<not> boc_big_move_threshold cfg < x)
              in if can_long \<and> \<not> bo_was_long_today s \<and> y + boc_k cfg * r < close
                   then Some (breakout_signal Long BreakoutLong)
                 else if can_short \<and> \<not> bo_was_short_today s \<and> close < y - boc_k cfg * r
                   then Some (breakout_signal Short BreakoutShort)
                 else None
        | _ \<Rightarrow> None)"

definition breakout_exit :: "reason_code \<Rightarrow> exit_signal" where
  "breakout_exit reason = \<lparr>xs_owner = IntradayBreakout, xs_reason = reason\<rparr>"

definition breakout_evaluate_exit ::
  "breakout \<Rightarrow> naive_datetime \<Rightarrow> f64 \<Rightarrow> pos_side \<Rightarrow> exit_signal option" where
  "breakout_evaluate_exit e dt close sd =
     (let s = bo_state e; cfg = bo_config e in
      if boc_exclude_weekends cfg \<and> weekend dt then None
      else case (bo_yesterday_close s, bo_yesterday_range s) of
          (Some y, Some r) \<Rightarrow>
            if dt_hour dt = 23 \<and> dt_minute dt = 30 then Some (breakout_exit BreakoutEodExit)
            else (case sd of
                Long \<Rightarrow>
                  if close < y - boc_stop2_range cfg * r then Some (breakout_exit BreakoutStop2Long)
                  else if dt_minute dt = 50 \<and> close < y + boc_stop1_range cfg * r
                    then Some (breakout_exit BreakoutStop1Long)
                  else None
              | Short \<Rightarrow>
                  if y + boc_stop2_range cfg * r < close then Some (breakout_exit BreakoutStop2Short)
                  else if dt_minute dt = 50 \<and> y - boc_stop1_range cfg * r < close
                    then Some (breakout_exit BreakoutStop1Short)
                  else None)
        | _ \<Rightarrow> None)"

section \<open>A midpoint trade is bounded\<close>

lemma nonneg_product:
  assumes "0 < k" "Fin 0 \<le> x"
  shows "Fin 0 \<le> Fin k * x"
proof (cases x)
  case (Fin a)
  then have "rnd 0 \<le> rnd (k * a)" using assms by (intro rnd_mono) simp
  then show ?thesis using Fin by simp
qed (use assms in auto)

lemma diff_nonneg: "a \<le> b \<Longrightarrow> Fin 0 \<le> Fin b - Fin a"
  using rnd_mono [of 0 "b - a"] by simp

lemma minus_nonneg_le:
  assumes "rnd c = Fin c" "Fin 0 \<le> x"
  shows "Fin c - x \<le> Fin c" "Fin c \<le> Fin c + x"
proof -
  have "Fin c - x \<le> Fin c \<and> Fin c \<le> Fin c + x"
  proof (cases x)
    case (Fin a)
    then have "rnd (c - a) \<le> rnd c" "rnd c \<le> rnd (c + a)"
      using assms(2) by (auto intro!: rnd_mono)
    then show ?thesis using Fin assms(1) by simp
  qed (use assms in \<open>auto simp: minus_f64_def\<close>)
  then show "Fin c - x \<le> Fin c" "Fin c \<le> Fin c + x" by simp_all
qed

text \<open>C30. A trade of the midpoint engine, at a price \<open>c\<close>, with a finite midpoint \<open>m\<close> of the day and
  a positive stop factor: it is not asked for after the end of the entry window; its target is the midpoint,
  strictly beyond the price, and its stop is at the price or on the other side of it. On a later
  bar it is left as a take exactly when the close has reached the target, as a stop exactly when
  it has reached the stop, as a time stop exactly when it is at neither and \<open>max_hold\<close> has
  passed, always at that close; and it is kept exactly when it is at neither and \<open>max_hold\<close> has
  not passed. So a take is a gain and a stop is none.\<close>

theorem high180_trade_bounded:
  assumes "high180_evaluate_entry e ts (Fin c) prev day_range = Some s" "rnd c = Fin c"
    and "high180_midpoint e = Some (Fin m)" "hic_stop_loss_mult (hi_config e) = Fin k" "0 < k"
    and "ts < later"
    and "out = high180_evaluate_exit (high180_open_of (hi_config e) s) ts (his_side s) later price"
    and "at_target \<longleftrightarrow> (case his_side s of Long \<Rightarrow> Fin m \<le> price | Short \<Rightarrow> price \<le> Fin m)"
    and "at_stop \<longleftrightarrow> (case his_side s of Long \<Rightarrow> price \<le> his_stop_price s | Short \<Rightarrow> his_stop_price s \<le> price)"
  shows "dt_time ts \<le> hic_entry_end_time (hi_config e)
    \<and> his_target_price s = Fin m
    \<and> (case his_side s of
         Long \<Rightarrow> his_stop_price s \<le> Fin c \<and> c < m
       | Short \<Rightarrow> m < c \<and> Fin c \<le> his_stop_price s)
    \<and> (out = Some (''midpoint_take'', price) \<longleftrightarrow> at_target)
    \<and> (out = Some (''stop'', price) \<longleftrightarrow> at_stop)
    \<and> (out = Some (''time_stop'', price) \<longleftrightarrow>
         \<not> at_target \<and> \<not> at_stop \<and> ts + hic_max_hold (hi_config e) \<le> later)
    \<and> (out = None \<longleftrightarrow> \<not> at_target \<and> \<not> at_stop \<and> later < ts + hic_max_hold (hi_config e))
    \<and> \<not> (at_target \<and> at_stop)"
proof -
  have below: "Fin c - Fin k * (Fin m - Fin c) \<le> Fin c" if "c < m"
    using that assms(2,5) by (intro minus_nonneg_le nonneg_product diff_nonneg) simp_all
  have above: "Fin c \<le> Fin c + Fin k * (Fin c - Fin m)" if "m < c"
    using that assms(2,5) by (intro minus_nonneg_le nonneg_product diff_nonneg) simp_all
  note parts = assms(1,3,4)
  have sides: "dt_time ts \<le> hic_entry_end_time (hi_config e) \<and> his_target_price s = Fin m
    \<and> (case his_side s of Long \<Rightarrow> his_stop_price s \<le> Fin c \<and> c < m
         | Short \<Rightarrow> m < c \<and> Fin c \<le> his_stop_price s)"
    using parts below above
    by (auto simp: high180_evaluate_entry_def Let_def not_le not_less
        simp del: Fin_minus_Fin times_f64.simps plus_f64.simps split: if_splits)
  have apart: "\<not> (at_target \<and> at_stop)"
  proof
    assume both: "at_target \<and> at_stop"
    have "Fin m \<le> Fin c" if "his_side s = Long"
      using both sides that assms(8,9) f_le_trans [of "Fin m" price "his_stop_price s"]
        f_le_trans [of "Fin m" "his_stop_price s" "Fin c"] by simp
    moreover have "Fin c \<le> Fin m" if "his_side s = Short"
      using both sides that assms(8,9) f_le_trans [of "his_stop_price s" price "Fin m"]
        f_le_trans [of "Fin c" "his_stop_price s" "Fin m"] by simp
    ultimately show False using sides by (cases "his_side s") auto
  qed
  have "out = (if at_target then Some (''midpoint_take'', price) else if at_stop then Some (''stop'', price)
      else if ts + hic_max_hold (hi_config e) \<le> later then Some (''time_stop'', price) else None)"
    using assms(6,7,8,9) sides
    by (cases "his_side s") (simp_all add: high180_evaluate_exit_def high180_open_of_def Let_def algebra_simps)
  with sides apart show ?thesis by auto
qed

definition sample_high180 :: high180 where
  "sample_high180 = high180_on_bar (and_time 4 (hms 9 0 0)) (Fin 140) (Fin 120)
     (high180_new \<lparr>hic_min_rel_range = 0, hic_max_rel_range = 1, hic_k_long = 1, hic_k_short = 1,
        hic_stop_loss_mult = Fin 7, hic_max_hold = 10800 * ns_per_sec, hic_entry_end_time = hms 11 59 59\<rparr>)"

definition sample_high180_signal :: high180_signal where
  "sample_high180_signal = \<lparr>his_side = Long, his_target_price = Fin 130, his_stop_price = Fin 114,
     his_reason = MorningMeanReversionLong\<rparr>"

lemma sample_high180_entry:
  "high180_evaluate_entry sample_high180 (and_time 4 (hms 10 0 0)) (Fin 128) (Fin 130) (Fin 8)
     = Some sample_high180_signal"
  by (simp add: high180_evaluate_entry_def sample_high180_def high180_new_def high180_on_bar_def
      high180_midpoint_def Let_def hms_def and_time_def dt_time_def zero_f64_def one_f64_def
      is_nan_def sample_high180_signal_def)

lemma high180_trade_bounded_witness:
  "high180_evaluate_exit (high180_open_of (hi_config sample_high180) sample_high180_signal)
     (and_time 4 (hms 10 0 0)) Long (and_time 4 (hms 12 0 0)) (Fin 131) = Some (''midpoint_take'', Fin 131)"
  using high180_trade_bounded [OF sample_high180_entry, of 130 7 "and_time 4 (hms 12 0 0)" _ "Fin 131",
      OF _ _ _ _ _ refl refl refl]
  by (simp add: sample_high180_def sample_high180_signal_def high180_new_def high180_on_bar_def
      high180_midpoint_def and_time_def hms_def dt_date_def)

end
