(* ===== verification/Hybrid_Orchestrator.thy ===== *)
theory Hybrid_Orchestrator
  imports Hybrid_Signals
begin

text \<open>
  The orchestrator of the hybrid strategy (\<open>strategies/hybrid_intraday/orchestrator.rs\<close>): which of
  the two engines owns the position, when an entry or an exit is asked for, and the exit armed
  over night. Runs of bars, fills and rejections are lists of events; over them at most one
  entry waits for its answer, and what is armed is executed on the next session.
\<close>

datatype hybrid_state = HsFlat | HsPending | HsOpen

datatype breakout_eod_mode = SameDay | Overnight

record orchestrator_config =
  orc_eod_mode :: breakout_eod_mode
  orc_overnight_exit_time :: naive_time

record hybrid_snapshot =
  hsn_state :: hybrid_state
  hsn_owner :: "owner option"
  hsn_side :: "pos_side option"
  hsn_has_pending_entry :: bool
  hsn_armed_date :: "naive_date option"

record orchestrator =
  or_mean_reversion :: mean_reversion_config
  or_breakout :: breakout
  or_config :: orchestrator_config
  or_state :: hybrid_state
  or_owner :: "owner option"
  or_side :: "pos_side option"
  or_pending_entry :: "entry_signal option"
  or_armed_date :: "naive_date option"

record bar_input =
  bi_dt :: naive_datetime
  bi_open :: f64
  bi_high :: f64
  bi_low :: f64
  bi_close :: f64
  bi_close_prev :: f64
  bi_day_range_prev :: f64
  bi_has_position :: bool
  bi_has_orders :: bool

definition orch_new :: "mean_reversion_config \<Rightarrow> breakout \<Rightarrow> orchestrator_config \<Rightarrow> orchestrator" where
  "orch_new mr bo cfg =
     \<lparr>or_mean_reversion = mr, or_breakout = bo, or_config = cfg, or_state = HsFlat,
      or_owner = None, or_side = None, or_pending_entry = None, or_armed_date = None\<rparr>"

definition orch_reset :: "orchestrator \<Rightarrow> orchestrator" where
  "orch_reset o1 = o1\<lparr>or_state := HsFlat, or_owner := None, or_side := None,
     or_pending_entry := None, or_armed_date := None\<rparr>"

definition orch_snapshot :: "orchestrator \<Rightarrow> hybrid_snapshot" where
  "orch_snapshot o1 =
     \<lparr>hsn_state = or_state o1, hsn_owner = or_owner o1, hsn_side = or_side o1,
      hsn_has_pending_entry = (or_pending_entry o1 \<noteq> None), hsn_armed_date = or_armed_date o1\<rparr>"

definition orch_restore :: "hybrid_snapshot \<Rightarrow> orchestrator \<Rightarrow> orchestrator" where
  "orch_restore sn o1 = o1\<lparr>or_state := hsn_state sn, or_owner := hsn_owner sn,
     or_side := hsn_side sn, or_pending_entry := None, or_armed_date := hsn_armed_date sn\<rparr>"

definition should_trigger_overnight_exit :: "orchestrator \<Rightarrow> naive_datetime \<Rightarrow> bool" where
  "should_trigger_overnight_exit o1 dt =
     (case or_armed_date o1 of
        None \<Rightarrow> False
      | Some d \<Rightarrow>
          let t = orc_overnight_exit_time (or_config o1) in
          d < dt_date dt
          \<and> (time_hour t < dt_hour dt \<or> dt_hour dt = time_hour t \<and> time_minute t \<le> dt_minute dt))"

definition emit_entry_action :: "entry_signal \<Rightarrow> orchestrator \<Rightarrow> orchestrator \<times> hybrid_action list" where
  "emit_entry_action sig o1 =
     (o1\<lparr>or_state := HsPending, or_pending_entry := Some sig, or_owner := Some (es_owner sig),
         or_side := Some (es_side sig)\<rparr>, [SubmitEntry sig])"

text \<open>The bar of \<open>on_bar_with_mr_override\<close>, in the order of its tests: the armed exit, a position
  of the bracket engine, a position of the breakout engine, and only then an entry.\<close>

definition warm_bar :: "bar_input \<Rightarrow> orchestrator \<Rightarrow> orchestrator" where
  "warm_bar bar o1 =
     o1\<lparr>or_breakout := breakout_on_bar (bi_dt bar) (bi_open bar) (bi_high bar) (bi_low bar)
          (bi_close bar) (or_breakout o1)\<rparr>"

definition orch_entry ::
  "bar_input \<Rightarrow> entry_signal option \<Rightarrow> orchestrator \<Rightarrow> orchestrator \<times> hybrid_action list" where
  "orch_entry bar mr_entry o1 =
     (if bi_has_position bar \<or> bi_has_orders bar \<or> or_state o1 = HsPending then (o1, [])
      else case mr_entry of
          Some sig \<Rightarrow> emit_entry_action sig o1
        | None \<Rightarrow>
            (case breakout_evaluate_entry (or_breakout o1) (bi_dt bar) (bi_close bar) of
               Some sig \<Rightarrow> emit_entry_action sig o1
             | None \<Rightarrow> (o1, [])))"

definition breakout_exit_of :: "bar_input \<Rightarrow> orchestrator \<Rightarrow> exit_signal option" where
  "breakout_exit_of bar o1 =
     (case or_side o1 of
        None \<Rightarrow> None
      | Some sd \<Rightarrow> breakout_evaluate_exit (or_breakout o1) (bi_dt bar) (bi_close bar) sd)"

definition orch_bar_override ::
  "bar_input \<Rightarrow> entry_signal option \<Rightarrow> reason_code option \<Rightarrow> orchestrator
   \<Rightarrow> orchestrator \<times> hybrid_action list" where
  "orch_bar_override bar mr_entry mr_exit o0 =
     (let o1 = warm_bar bar o0; dt = bi_dt bar; eod = orc_eod_mode (or_config o1) in
      if bi_has_position bar \<and> or_owner o1 = Some IntradayBreakout \<and> eod = Overnight
         \<and> should_trigger_overnight_exit o1 dt then
        (o1\<lparr>or_armed_date := None\<rparr>, [SubmitExit IntradayBreakout WaitfixOvernightExit])
      else if bi_has_position bar \<and> or_owner o1 = Some MeanReversion then
        (o1, case mr_exit of None \<Rightarrow> [] | Some reason \<Rightarrow> [SubmitExit MeanReversion reason])
      else if bi_has_position bar \<and> or_owner o1 = Some IntradayBreakout then
        (case breakout_exit_of bar o1 of
           Some x \<Rightarrow>
             if xs_reason x = BreakoutEodExit \<and> eod = Overnight then
               (o1\<lparr>or_armed_date := Some (dt_date dt)\<rparr>,
                [ArmOvernightExit IntradayBreakout BreakoutEodExit (dt_date dt)
                   (orc_overnight_exit_time (or_config o1))])
             else (o1, [SubmitExit IntradayBreakout (xs_reason x)])
         | None \<Rightarrow> orch_entry bar mr_entry o1)
      else orch_entry bar mr_entry o1)"

definition orch_bar :: "bar_input \<Rightarrow> orchestrator \<Rightarrow> orchestrator \<times> hybrid_action list" where
  "orch_bar bar o1 =
     orch_bar_override bar
       (mr_evaluate_entry (or_mean_reversion o1) (bi_dt bar) (bi_close bar) (bi_close_prev bar)
          (bi_day_range_prev bar))
       (if bi_has_position bar \<and> or_owner o1 = Some MeanReversion
           \<and> mr_should_force_exit (or_mean_reversion o1) (bi_dt bar)
          then Some MeanRevTimeCutoff else None) o1"

definition orch_filled :: "string \<Rightarrow> owner \<Rightarrow> pos_side option \<Rightarrow> orchestrator \<Rightarrow> orchestrator" where
  "orch_filled role own sd o1 =
     (if role = ''entry'' then
        (let o2 = o1\<lparr>or_state := HsOpen, or_owner := Some own, or_side := sd, or_pending_entry := None\<rparr> in
         if own = IntradayBreakout then
           (case sd of None \<Rightarrow> o2 | Some x \<Rightarrow> o2\<lparr>or_breakout := mark_entry x (or_breakout o2)\<rparr>)
         else o2)
      else if role = ''exit'' \<or> role = ''stop'' \<or> role = ''take'' then orch_reset o1
      else o1)"

definition orch_rejected :: "string \<Rightarrow> orchestrator \<Rightarrow> orchestrator" where
  "orch_rejected role o1 =
     (if role = ''entry''
        then o1\<lparr>or_state := HsFlat, or_owner := None, or_side := None, or_pending_entry := None\<rparr>
      else o1)"

section \<open>Runs\<close>

datatype orch_event =
  OeBar bar_input
| OeOverride bar_input "entry_signal option" "reason_code option"
| OeFilled string owner "pos_side option"
| OeRejected string
| OeReset
| OeRestore hybrid_snapshot

fun orch_step :: "orch_event \<Rightarrow> orchestrator \<Rightarrow> orchestrator \<times> hybrid_action list" where
  "orch_step (OeBar b) o1 = orch_bar b o1"
| "orch_step (OeOverride b e x) o1 = orch_bar_override b e x o1"
| "orch_step (OeFilled role own sd) o1 = (orch_filled role own sd o1, [])"
| "orch_step (OeRejected role) o1 = (orch_rejected role o1, [])"
| "orch_step OeReset o1 = (orch_reset o1, [])"
| "orch_step (OeRestore sn) o1 = (orch_restore sn o1, [])"

fun orch_run :: "orch_event list \<Rightarrow> orchestrator \<Rightarrow> orchestrator \<times> hybrid_action list list" where
  "orch_run [] o1 = (o1, [])"
| "orch_run (e # es) o1 =
     (case orch_step e o1 of (o2, acts) \<Rightarrow>
        case orch_run es o2 of (o3, rest) \<Rightarrow> (o3, acts # rest))"

text \<open>The events that answer an entry.\<close>

fun answers_entry :: "orch_event \<Rightarrow> bool" where
  "answers_entry (OeFilled role _ _) \<longleftrightarrow> role \<in> {''entry'', ''exit'', ''stop'', ''take''}"
| "answers_entry (OeRejected role) \<longleftrightarrow> role = ''entry''"
| "answers_entry OeReset \<longleftrightarrow> True"
| "answers_entry (OeRestore _) \<longleftrightarrow> True"
| "answers_entry (OeBar _) \<longleftrightarrow> False"
| "answers_entry (OeOverride _ _ _) \<longleftrightarrow> False"

fun is_entry :: "hybrid_action \<Rightarrow> bool" where
  "is_entry (SubmitEntry _) = True"
| "is_entry _ = False"

section \<open>One entry at a time\<close>

lemma orch_entry_cases:
  assumes "orch_entry bar e o1 = (o2, acts)"
  shows "(o2 = o1 \<and> acts = [])
    \<or> (or_state o1 \<noteq> HsPending \<and> \<not> bi_has_position bar \<and> \<not> bi_has_orders bar
       \<and> or_state o2 = HsPending \<and> (\<exists>sig. acts = [SubmitEntry sig]))"
  using assms by (auto simp: orch_entry_def emit_entry_action_def split: if_splits option.splits)

lemma warm_bar_fields [simp]:
  "or_state (warm_bar b o1) = or_state o1" "or_owner (warm_bar b o1) = or_owner o1"
  "or_side (warm_bar b o1) = or_side o1" "or_armed_date (warm_bar b o1) = or_armed_date o1"
  "or_config (warm_bar b o1) = or_config o1" "or_pending_entry (warm_bar b o1) = or_pending_entry o1"
  "or_mean_reversion (warm_bar b o1) = or_mean_reversion o1"
  by (simp_all add: warm_bar_def)

lemma orch_override_cases:
  assumes "orch_bar_override bar e x o1 = (o2, acts)"
  shows "(or_state o2 = or_state o1 \<and> \<not> list_ex is_entry acts)
    \<or> (or_state o1 \<noteq> HsPending \<and> \<not> bi_has_position bar \<and> \<not> bi_has_orders bar
       \<and> or_state o2 = HsPending \<and> (\<exists>sig. acts = [SubmitEntry sig]))"
  using assms orch_entry_cases [of bar e "warm_bar bar o1" o2 acts]
  by (auto simp: orch_bar_override_def Let_def split: if_splits option.splits)

lemma orch_step_cases:
  assumes "orch_step ev o1 = (o2, acts)" "\<not> answers_entry ev"
  shows "(or_state o2 = or_state o1 \<and> \<not> list_ex is_entry acts)
    \<or> (or_state o1 \<noteq> HsPending \<and> or_state o2 = HsPending \<and> (\<exists>sig. acts = [SubmitEntry sig]))"
proof (cases ev)
  case (OeBar b)
  then show ?thesis using assms(1) by (auto simp: orch_bar_def dest!: orch_override_cases)
next
  case (OeOverride b e x)
  then show ?thesis using assms(1) by (auto dest!: orch_override_cases)
qed (use assms in \<open>auto simp: orch_filled_def orch_rejected_def\<close>)

lemma answer_no_entry: "answers_entry ev \<Longrightarrow> snd (orch_step ev o1) = []"
  by (cases ev) auto

lemma orch_run_Cons:
  "orch_run (e # es) o1 = (fst (orch_run es (fst (orch_step e o1))),
     snd (orch_step e o1) # snd (orch_run es (fst (orch_step e o1))))"
  by (simp add: case_prod_unfold)

lemma orch_run_length [simp]: "length (snd (orch_run evs o1)) = length evs"
  by (induction evs arbitrary: o1) (simp_all add: case_prod_unfold)

lemma orch_run_append:
  "orch_run (es @ fs) o1 = (fst (orch_run fs (fst (orch_run es o1))),
     snd (orch_run es o1) @ snd (orch_run fs (fst (orch_run es o1))))"
  by (induction es arbitrary: o1) (simp_all add: case_prod_unfold)

lemma pending_needs_answer:
  assumes "or_state o1 = HsPending" "j < length evs" "list_ex is_entry (snd (orch_run evs o1) ! j)"
  shows "\<exists>k < j. answers_entry (evs ! k)"
  using assms
proof (induction evs arbitrary: o1 j)
  case (Cons e es)
  show ?case
  proof (cases "answers_entry e")
    case True
    then have "snd (orch_step e o1) = []" by (rule answer_no_entry)
    then have "j \<noteq> 0" using Cons.prems(3) by (cases j) (simp_all add: orch_run_Cons del: orch_run.simps)
    then show ?thesis using True by (intro exI [of _ 0]) simp
  next
    case False
    then have st: "or_state (fst (orch_step e o1)) = HsPending" "\<not> list_ex is_entry (snd (orch_step e o1))"
      using orch_step_cases [of e o1, OF surjective_pairing] Cons.prems(1) by auto
    then obtain i where j: "j = Suc i" using Cons.prems(3) by (cases j) (simp_all add: orch_run_Cons del: orch_run.simps)
    then obtain k where "k < i" "answers_entry (es ! k)"
      using Cons.IH [OF st(1), of i] Cons.prems by (auto simp: orch_run_Cons simp del: orch_run.simps)
    then show ?thesis using j by (intro exI [of _ "Suc k"]) simp
  qed
qed simp

text \<open>C27. The orchestrator has at most one entry waiting for its answer: over any sequence of bars,
  fills, rejections, resets and restores, between two entries it asks for there is a fill of an
  entry, exit, stop or take, a rejection of an entry, a reset or a restore.\<close>

theorem one_entry_at_a_time:
  assumes "i < j" "j < length evs"
    and "list_ex is_entry (snd (orch_run evs o1) ! i)" "list_ex is_entry (snd (orch_run evs o1) ! j)"
  shows "\<exists>k. i < k \<and> k < j \<and> answers_entry (evs ! k)"
proof -
  let ?mid = "fst (orch_run (take i evs) o1)"
  have evs: "evs = take i evs @ evs ! i # drop (Suc i) evs"
    using assms by (simp add: id_take_nth_drop)
  have run: "snd (orch_run evs o1) = snd (orch_run (take i evs) o1)
      @ snd (orch_step (evs ! i) ?mid)
      # snd (orch_run (drop (Suc i) evs) (fst (orch_step (evs ! i) ?mid)))"
    by (subst evs) (simp add: orch_run_append orch_run_Cons del: orch_run.simps)
  have len: "length (snd (orch_run (take i evs) o1)) = i" using assms by simp
  have first: "list_ex is_entry (snd (orch_step (evs ! i) ?mid))"
    using assms(3) run len by (simp add: nth_append)
  then have "\<not> answers_entry (evs ! i)" using answer_no_entry [of "evs ! i" ?mid] by auto
  then have pend: "or_state (fst (orch_step (evs ! i) ?mid)) = HsPending"
    using orch_step_cases [of "evs ! i" ?mid, OF surjective_pairing] first by auto
  obtain m where j: "j = i + Suc m" using assms(1) by (auto simp: less_iff_Suc_add)
  have second: "list_ex is_entry (snd (orch_run (drop (Suc i) evs) (fst (orch_step (evs ! i) ?mid))) ! m)"
    using assms(4) run len by (simp add: nth_append j)
  have "m < length (drop (Suc i) evs)" using assms(2) j by simp
  from pending_needs_answer [OF pend this second]
  obtain k where "k < m" "answers_entry (drop (Suc i) evs ! k)" by blast
  then show ?thesis using j assms(2) by (intro exI [of _ "Suc i + k"]) simp
qed

definition sample_bar :: "int \<Rightarrow> int \<Rightarrow> int \<Rightarrow> bar_input" where
  "sample_bar d h m = \<lparr>bi_dt = and_time d (hms h m 0), bi_open = Fin 100, bi_high = Fin 101,
     bi_low = Fin 99, bi_close = Fin 100, bi_close_prev = Fin 100, bi_day_range_prev = Fin 2,
     bi_has_position = False, bi_has_orders = False\<rparr>"

definition sample_breakout_config :: breakout_config where
  "sample_breakout_config = \<lparr>boc_k = Fin 1, boc_stop1_range = Fin 1, boc_stop2_range = Fin 1,
     boc_big_move_threshold = Fin 1, boc_min_range = 0, boc_min_range_mode = MinDisabled,
     boc_exclude_weekends = True, boc_wait_hours = 0\<rparr>"

definition sample_mr_config :: mean_reversion_config where
  "sample_mr_config = \<lparr>mrc_min_range_long = 0, mrc_max_range_long = 1, mrc_k_long = 1,
     mrc_take_k_long = 1, mrc_stop_k_long = 1, mrc_min_range_short = 0, mrc_max_range_short = 1,
     mrc_k_short = 1, mrc_take_k_short = 1, mrc_stop_k_short = 1, mrc_tick_size = 1,
     mrc_session_end_time = hms 11 59 0, mrc_exit_offset = 300 * ns_per_sec\<rparr>"

definition sample_orch :: "breakout_eod_mode \<Rightarrow> orchestrator" where
  "sample_orch mode = orch_new sample_mr_config (breakout_new sample_breakout_config)
     \<lparr>orc_eod_mode = mode, orc_overnight_exit_time = hms 9 30 0\<rparr>"

definition sample_signal :: entry_signal where
  "sample_signal = mr_signal Long MorningMeanReversionLong (Fin 98) (Fin 103)"

lemma one_entry_at_a_time_witness:
  "\<exists>k. 0 < k \<and> k < (2::nat) \<and> answers_entry
     ([OeOverride (sample_bar 4 10 0) (Some sample_signal) None, OeRejected ''entry'',
       OeOverride (sample_bar 4 10 10) (Some sample_signal) None] ! k)"
  by (rule one_entry_at_a_time [where ?o1.0 = "sample_orch Overnight"])
    (simp_all add: orch_bar_override_def warm_bar_def orch_entry_def emit_entry_action_def
      sample_bar_def sample_orch_def orch_new_def orch_rejected_def)

section \<open>The armed exit\<close>

text \<open>The time of day in minutes, and when an exit armed on day \<open>d\<close> is due.\<close>

definition minute_of_day :: "naive_datetime \<Rightarrow> int" where
  "minute_of_day dt = dt_hour dt * 60 + dt_minute dt"

definition exit_due :: "naive_time \<Rightarrow> naive_date \<Rightarrow> naive_datetime \<Rightarrow> bool" where
  "exit_due t d dt \<longleftrightarrow> d < dt_date dt \<and> time_hour t * 60 + time_minute t \<le> minute_of_day dt"

lemma minute_ranges [simp]: "0 \<le> dt_minute dt" "dt_minute dt < 60" "0 \<le> time_minute t" "time_minute t < 60"
  by (simp_all add: dt_minute_def time_minute_def)

lemma trigger_iff_due:
  "should_trigger_overnight_exit o1 dt \<longleftrightarrow>
     (\<exists>d. or_armed_date o1 = Some d \<and> exit_due (orc_overnight_exit_time (or_config o1)) d dt)"
proof -
  let ?t = "orc_overnight_exit_time (or_config o1)"
  have "a < b \<or> b = a \<and> m \<le> n \<longleftrightarrow> a * 60 + m \<le> b * 60 + n"
    if "0 \<le> m" "m < 60" "0 \<le> n" "n < 60" for a b m n :: int
    using that by (cases a b rule: linorder_cases) auto
  from this [OF minute_ranges(3,4,1,2)]
  have "time_hour ?t < dt_hour dt \<or> dt_hour dt = time_hour ?t \<and> time_minute ?t \<le> dt_minute dt
      \<longleftrightarrow> time_hour ?t * 60 + time_minute ?t \<le> minute_of_day dt"
    unfolding minute_of_day_def .
  then show ?thesis by (auto simp: should_trigger_overnight_exit_def exit_due_def split: option.splits)
qed

text \<open>A breakout position with an armed exit.\<close>

definition armed :: "naive_date \<Rightarrow> orchestrator \<Rightarrow> bool" where
  "armed d o1 \<longleftrightarrow> or_owner o1 = Some IntradayBreakout \<and> or_armed_date o1 = Some d
     \<and> orc_eod_mode (or_config o1) = Overnight"

lemma armed_fires:
  assumes "armed d o1" "bi_has_position b" "exit_due (orc_overnight_exit_time (or_config o1)) d (bi_dt b)"
  shows "snd (orch_bar b o1) = [SubmitExit IntradayBreakout WaitfixOvernightExit]"
  using assms by (simp add: armed_def orch_bar_def orch_bar_override_def Let_def trigger_iff_due)

lemma eod_exit_time:
  "breakout_exit_of b o1 = Some x \<Longrightarrow> xs_reason x = BreakoutEodExit
     \<Longrightarrow> dt_hour (bi_dt b) = 23 \<and> dt_minute (bi_dt b) = 30"
  by (auto simp: breakout_exit_of_def breakout_evaluate_exit_def Let_def breakout_exit_def
      split: option.splits if_splits pos_side.splits)

lemma armed_waits:
  assumes "armed d o1" "bi_has_position b" "d \<le> dt_date (bi_dt b)"
    and "\<not> exit_due (orc_overnight_exit_time (or_config o1)) d (bi_dt b)"
    and late: "time_hour (orc_overnight_exit_time (or_config o1)) * 60
       + time_minute (orc_overnight_exit_time (or_config o1)) \<le> 23 * 60 + 30"
  shows "armed d (fst (orch_bar b o1))" "or_config (fst (orch_bar b o1)) = or_config o1"
proof -
  have "dt_date (bi_dt b) = d"
    if "breakout_exit_of b (warm_bar b o1) = Some x" "xs_reason x = BreakoutEodExit" for x
    using eod_exit_time [OF that] assms(3,4) late by (auto simp: exit_due_def minute_of_day_def)
  then show "armed d (fst (orch_bar b o1))" "or_config (fst (orch_bar b o1)) = or_config o1"
    using assms
    by (auto simp: armed_def orch_bar_def orch_bar_override_def Let_def trigger_iff_due orch_entry_def
        split: option.splits)
qed

lemma armed_waits_run:
  assumes "armed d o1" "or_config o1 = cfg"
    and "list_all (\<lambda>b. bi_has_position b \<and> d \<le> dt_date (bi_dt b)
          \<and> \<not> exit_due (orc_overnight_exit_time cfg) d (bi_dt b)) bs"
    and "time_hour (orc_overnight_exit_time cfg) * 60 + time_minute (orc_overnight_exit_time cfg) \<le> 23 * 60 + 30"
  shows "armed d (fst (orch_run (map OeBar bs) o1)) \<and> or_config (fst (orch_run (map OeBar bs) o1)) = cfg"
  using assms
proof (induction bs arbitrary: o1)
  case (Cons b bs)
  then show ?case using armed_waits [of d o1 b] by (simp add: case_prod_unfold)
qed simp

text \<open>C28. An exit armed at the end of day \<open>d\<close> is not forgotten: over any bars on which the breakout
  position is still held and the exit not yet due it stays armed, and the first bar after day
  \<open>d\<close> and not before the exit time asks for exactly that exit. The configured exit time must
  not be later than 23:30, or the end of the next day would arm it anew.\<close>

theorem armed_exit_executed:
  assumes "armed d o1" "time_hour (orc_overnight_exit_time (or_config o1)) * 60
       + time_minute (orc_overnight_exit_time (or_config o1)) \<le> 23 * 60 + 30"
    and "list_all (\<lambda>b. bi_has_position b \<and> d \<le> dt_date (bi_dt b)
          \<and> \<not> exit_due (orc_overnight_exit_time (or_config o1)) d (bi_dt b)) bs"
    and "bi_has_position b" "exit_due (orc_overnight_exit_time (or_config o1)) d (bi_dt b)"
  shows "snd (orch_bar b (fst (orch_run (map OeBar bs) o1)))
    = [SubmitExit IntradayBreakout WaitfixOvernightExit]"
  using armed_waits_run [OF assms(1) refl assms(3,2)] assms(4,5)
  by (intro armed_fires) (simp_all)

definition sample_armed :: orchestrator where
  "sample_armed = (sample_orch Overnight)\<lparr>or_state := HsOpen, or_owner := Some IntradayBreakout,
     or_side := Some Long, or_armed_date := Some 4\<rparr>"

lemma armed_exit_executed_witness:
  "snd (orch_bar ((sample_bar 5 9 30)\<lparr>bi_has_position := True\<rparr>)
      (fst (orch_run (map OeBar [(sample_bar 5 9 20)\<lparr>bi_has_position := True\<rparr>]) sample_armed)))
   = [SubmitExit IntradayBreakout WaitfixOvernightExit]"
  by (rule armed_exit_executed [where d = 4])
    (simp_all add: armed_def sample_armed_def sample_orch_def orch_new_def sample_bar_def exit_due_def
      minute_of_day_def hms_def and_time_def dt_date_def dt_hour_def dt_minute_def dt_time_def
      time_hour_def time_minute_def)

section \<open>The breakout levels, read off the bars\<close>

text \<open>The reference: the bars of the sessions in the order they came, by calendar day.\<close>

abbreviation bar_date :: "bar_input \<Rightarrow> naive_date" where
  "bar_date b \<equiv> dt_date (bi_dt b)"

fun event_bars :: "orch_event list \<Rightarrow> bar_input list" where
  "event_bars [] = []"
| "event_bars (OeBar b # es) = b # event_bars es"
| "event_bars (OeOverride b _ _ # es) = b # event_bars es"
| "event_bars (_ # es) = event_bars es"

definition trading_bars :: "breakout_config \<Rightarrow> bar_input list \<Rightarrow> bar_input list" where
  "trading_bars cfg bs = filter (\<lambda>b. \<not> (boc_exclude_weekends cfg \<and> weekend (bi_dt b))) bs"

definition on_day :: "naive_date \<Rightarrow> bar_input list \<Rightarrow> bar_input list" where
  "on_day d bs = filter (\<lambda>b. bar_date b = d) bs"

definition day_before :: "naive_date \<Rightarrow> bar_input list \<Rightarrow> naive_date option" where
  "day_before d bs =
     (let earlier = filter (\<lambda>x. x < d) (map bar_date bs)
      in if earlier = [] then None else Some (last earlier))"

definition day_high :: "bar_input list \<Rightarrow> f64" where
  "day_high bs = fold (\<lambda>b a. f_max a (bi_high b)) bs (bi_open (hd bs))"

definition day_low :: "bar_input list \<Rightarrow> f64" where
  "day_low bs = fold (\<lambda>b a. f_min a (bi_low b)) bs (bi_open (hd bs))"

definition close_of :: "bar_input list \<Rightarrow> naive_date \<Rightarrow> f64" where
  "close_of bs d = bi_close (last (on_day d bs))"

definition range_of :: "bar_input list \<Rightarrow> naive_date \<Rightarrow> f64" where
  "range_of bs d = day_high (on_day d bs) - day_low (on_day d bs)"

text \<open>What the engine holds after the bars \<open>bs\<close>.\<close>

definition levels_ok :: "bar_input list \<Rightarrow> breakout_snapshot \<Rightarrow> bool" where
  "levels_ok bs s \<longleftrightarrow>
     (if bs = [] then bo_cur_day_date s = None \<and> bo_yesterday_close s = None
        \<and> bo_yesterday_range s = None \<and> bo_yesterday_return s = None \<and> bo_day_before_close s = None
      else
        let d = bar_date (last bs); p = day_before d bs in
        bo_cur_day_date s = Some d
        \<and> bo_cur_day_high s = Some (day_high (on_day d bs))
        \<and> bo_cur_day_low s = Some (day_low (on_day d bs))
        \<and> bo_cur_day_close s = Some (bi_close (last bs))
        \<and> bo_yesterday_close s = map_option (close_of bs) p
        \<and> bo_day_before_close s = map_option (close_of bs) p
        \<and> bo_yesterday_range s = map_option (range_of bs) p
        \<and> bo_yesterday_return s = day_return
            (Option.bind p (\<lambda>q. map_option (close_of bs) (day_before q bs))) (map_option (close_of bs) p))"

lemma on_day_snoc: "on_day d (bs @ [b]) = on_day d bs @ (if bar_date b = d then [b] else [])"
  by (simp add: on_day_def)

lemma on_last_day: "bs \<noteq> [] \<Longrightarrow> on_day (bar_date (last bs)) bs \<noteq> []"
  by (auto simp: on_day_def filter_empty_conv intro!: bexI [of _ "last bs"])

lemma last_on_last_day: "bs \<noteq> [] \<Longrightarrow> last (on_day (bar_date (last bs)) bs) = last bs"
  by (cases bs rule: rev_cases) (simp_all add: on_day_def)

lemma day_high_snoc: "bs \<noteq> [] \<Longrightarrow> day_high (bs @ [b]) = f_max (day_high bs) (bi_high b)"
  by (cases bs) (simp_all add: day_high_def)

lemma day_low_snoc: "bs \<noteq> [] \<Longrightarrow> day_low (bs @ [b]) = f_min (day_low bs) (bi_low b)"
  by (cases bs) (simp_all add: day_low_def)

lemma day_before_snoc:
  "day_before d (bs @ [b]) = (if bar_date b < d then Some (bar_date b) else day_before d bs)"
  by (simp add: day_before_def Let_def)

lemma day_before_less: "day_before d bs = Some p \<Longrightarrow> p < d"
proof -
  assume a: "day_before d bs = Some p"
  let ?e = "filter (\<lambda>x. x < d) (map bar_date bs)"
  have "?e \<noteq> []" "p = last ?e" using a by (auto simp: day_before_def Let_def split: if_splits)
  then have "p \<in> set ?e" using last_in_set by blast
  then show ?thesis unfolding set_filter by blast
qed

lemma day_values_snoc:
  "bar_date b \<noteq> d \<Longrightarrow> close_of (bs @ [b]) d = close_of bs d"
  "bar_date b \<noteq> d \<Longrightarrow> range_of (bs @ [b]) d = range_of bs d"
  by (simp_all add: close_of_def range_of_def on_day_snoc)

lemma day_before_later:
  assumes "bs \<noteq> []" "bar_date (last bs) < d"
  shows "day_before d bs = Some (bar_date (last bs))"
  using assms by (cases bs rule: rev_cases) (simp_all add: day_before_snoc)

lemma map_before_cong:
  assumes "\<And>q. q < d \<Longrightarrow> f q = g q"
  shows "map_option f (day_before d bs) = map_option g (day_before d bs)"
  using assms day_before_less by (cases "day_before d bs") auto

lemma before_twice_snoc:
  assumes "d \<le> bar_date b"
  shows "Option.bind (day_before d bs) (\<lambda>q. map_option (close_of (bs @ [b])) (day_before q (bs @ [b])))
    = Option.bind (day_before d bs) (\<lambda>q. map_option (close_of bs) (day_before q bs))"
proof (cases "day_before d bs")
  case (Some q)
  then have "q < d" by (rule day_before_less)
  then have "day_before q (bs @ [b]) = day_before q bs" using assms by (simp add: day_before_snoc)
  moreover have "map_option (close_of (bs @ [b])) (day_before q bs) = map_option (close_of bs) (day_before q bs)"
    using \<open>q < d\<close> assms by (intro map_before_cong day_values_snoc) simp
  ultimately show ?thesis using Some by simp
qed simp

lemma on_later_day:
  assumes "sorted (map bar_date bs)" "bs \<noteq> []" "bar_date (last bs) < d"
  shows "on_day d bs = []"
proof -
  have "bar_date x \<le> bar_date (last bs)" if "x \<in> set bs" for x
    using assms(1,2) that by (cases bs rule: rev_cases) (auto simp: sorted_append)
  then show ?thesis using assms(3) by (fastforce simp: on_day_def filter_empty_conv)
qed

lemma levels_next_day:
  assumes "levels_ok bs s" "bs \<noteq> []" "sorted (map bar_date bs)" "bar_date (last bs) < bar_date b"
  shows "levels_ok (bs @ [b]) (bo_update_cur_day (bi_high b) (bi_low b) (bi_close b)
    (bo_init_new_day (bi_dt b) (bi_open b) (bo_on_day_close s)))"
proof -
  let ?d = "bar_date (last bs)"
  have prev: "day_before (bar_date b) (bs @ [b]) = Some ?d"
    by (simp add: day_before_snoc day_before_later [OF assms(2,4)])
  have ne: "bar_date b \<noteq> ?d" using assms(4) by simp
  have new: "on_day (bar_date b) (bs @ [b]) = [b]"
    by (simp add: on_day_snoc on_later_day [OF assms(3,2,4)])
  have before: "map_option (close_of (bs @ [b])) (day_before ?d (bs @ [b]))
      = map_option (close_of bs) (day_before ?d bs)"
    using assms(4) by (simp add: day_before_snoc) (intro map_before_cong day_values_snoc, simp)
  have close: "close_of bs ?d = bi_close (last bs)"
    by (simp add: close_of_def last_on_last_day assms(2))
  show ?thesis using assms(1)
    unfolding levels_ok_def Let_def
    by (simp add: assms(2) prev new day_values_snoc [OF ne] before close range_of_def [of bs]
        bo_update_cur_day_def bo_init_new_day_def bo_on_day_close_def or_else_def day_high_def [of "[b]"]
        day_low_def [of "[b]"])
qed

lemma levels_same_day:
  assumes "levels_ok bs s" "bs \<noteq> []" "bar_date (last bs) = bar_date b"
  shows "levels_ok (bs @ [b]) (bo_update_cur_day (bi_high b) (bi_low b) (bi_close b) s)"
proof -
  let ?d = "bar_date b"
  have prev: "day_before ?d (bs @ [b]) = day_before ?d bs" by (simp add: day_before_snoc)
  have day: "on_day ?d (bs @ [b]) = on_day ?d bs @ [b]" by (simp add: on_day_snoc)
  have ne: "on_day ?d bs \<noteq> []" using on_last_day [OF assms(2)] assms(3) by simp
  have vals: "map_option (close_of (bs @ [b])) (day_before ?d bs) = map_option (close_of bs) (day_before ?d bs)"
    "map_option (range_of (bs @ [b])) (day_before ?d bs) = map_option (range_of bs) (day_before ?d bs)"
    by (intro map_before_cong day_values_snoc; simp)+
  show ?thesis using assms(1)
    unfolding levels_ok_def Let_def
    by (simp add: assms(2,3) prev day day_high_snoc [OF ne] day_low_snoc [OF ne] vals
        before_twice_snoc bo_update_cur_day_def or_else_def)
qed

lemma levels_first_day:
  assumes "levels_ok [] s"
  shows "levels_ok [b] (bo_update_cur_day (bi_high b) (bi_low b) (bi_close b)
    (bo_init_new_day (bi_dt b) (bi_open b) s))"
  using assms
  by (simp add: levels_ok_def Let_def day_before_def on_day_def bo_update_cur_day_def
      bo_init_new_day_def or_else_def day_high_def day_low_def day_return_def)

lemma levels_on_bar:
  assumes "levels_ok bs s" "sorted (map bar_date (bs @ [b]))"
    and "\<not> (boc_exclude_weekends cfg \<and> weekend (bi_dt b))"
  shows "levels_ok (bs @ [b]) (bo_on_bar cfg (bi_dt b) (bi_open b) (bi_high b) (bi_low b) (bi_close b) s)"
proof (cases "bs = []")
  case True
  then have "bo_cur_day_date s = None" using assms(1) by (simp add: levels_ok_def)
  then show ?thesis using assms True levels_first_day [of s b] by (auto simp: bo_on_bar_def)
next
  case False
  then have d: "bo_cur_day_date s = Some (bar_date (last bs))"
    using assms(1) by (simp add: levels_ok_def Let_def)
  have le: "bar_date (last bs) \<le> bar_date b" using assms(2) False by (simp add: sorted_append)
  show ?thesis
  proof (cases "bar_date (last bs) = bar_date b")
    case True
    then show ?thesis using levels_same_day [OF assms(1) False True] assms(3) d
      by (auto simp: bo_on_bar_def)
  next
    case ne: False
    then have "bar_date (last bs) < bar_date b" using le by simp
    with assms(2) show ?thesis using levels_next_day [OF assms(1) False, of b] assms(3) d ne
      by (auto simp: bo_on_bar_def sorted_append)
  qed
qed

lemma levels_mark: "levels_ok bs (bo_state (mark_entry sd e)) = levels_ok bs (bo_state e)"
  by (cases sd) (simp_all add: mark_entry_def levels_ok_def Let_def)

lemma orch_breakout_fields:
  "or_breakout (fst (orch_bar_override b e x o1)) = or_breakout (warm_bar b o1)"
  "or_breakout (fst (orch_bar b o1)) = or_breakout (warm_bar b o1)"
  by (auto simp: orch_bar_def orch_bar_override_def Let_def orch_entry_def emit_entry_action_def
      split: option.splits)

text \<open>One event appends its bar, if it has one.\<close>

lemma levels_warm:
  assumes "levels_ok (trading_bars cfg bs) (bo_state (or_breakout o1))" "bo_config (or_breakout o1) = cfg"
    and "sorted (map bar_date (trading_bars cfg (bs @ [b])))"
  shows "levels_ok (trading_bars cfg (bs @ [b])) (bo_state (or_breakout (warm_bar b o1)))
    \<and> bo_config (or_breakout (warm_bar b o1)) = cfg"
proof (cases "boc_exclude_weekends cfg \<and> weekend (bi_dt b)")
  case True
  then show ?thesis using assms
    by (simp add: trading_bars_def warm_bar_def breakout_on_bar_def bo_on_bar_def)
next
  case False
  then show ?thesis using assms levels_on_bar [OF assms(1) _ False]
    by (simp add: trading_bars_def warm_bar_def breakout_on_bar_def)
qed

lemma levels_step:
  assumes "levels_ok (trading_bars cfg bs) (bo_state (or_breakout o1))" "bo_config (or_breakout o1) = cfg"
    and "sorted (map bar_date (trading_bars cfg (bs @ event_bars [ev])))"
  shows "levels_ok (trading_bars cfg (bs @ event_bars [ev])) (bo_state (or_breakout (fst (orch_step ev o1))))
    \<and> bo_config (or_breakout (fst (orch_step ev o1))) = cfg"
proof (cases ev)
  case (OeBar b)
  then show ?thesis using levels_warm [OF assms(1,2), of b] assms(3) by (simp add: orch_breakout_fields)
next
  case (OeOverride b e x)
  then show ?thesis using levels_warm [OF assms(1,2), of b] assms(3) by (simp add: orch_breakout_fields)
next
  case (OeFilled role own sd)
  have "bo_config (mark_entry x e) = bo_config e" for x e by (simp add: mark_entry_def)
  then show ?thesis using OeFilled assms
    by (cases sd) (auto simp: orch_filled_def orch_reset_def Let_def levels_mark)
qed (use assms in \<open>simp_all add: orch_rejected_def orch_reset_def orch_restore_def\<close>)

lemma event_bars_Cons: "event_bars (ev # evs) = event_bars [ev] @ event_bars evs"
  by (cases ev) simp_all

lemma levels_run:
  assumes "levels_ok (trading_bars cfg bs) (bo_state (or_breakout o1))" "bo_config (or_breakout o1) = cfg"
    and "sorted (map bar_date (trading_bars cfg (bs @ event_bars evs)))"
  shows "levels_ok (trading_bars cfg (bs @ event_bars evs)) (bo_state (or_breakout (fst (orch_run evs o1))))"
  using assms
proof (induction evs arbitrary: bs o1)
  case (Cons ev evs)
  have "sorted (map bar_date (trading_bars cfg (bs @ event_bars [ev])))"
    using Cons.prems(3)
    unfolding event_bars_Cons [of ev evs] append_assoc [symmetric] trading_bars_def filter_append [of _ "bs @ _"]
      map_append [of _ "filter _ (bs @ _)"] by (simp only: sorted_append)
  with Cons levels_step [of cfg bs o1 ev] show ?case
    by (simp add: event_bars_Cons [of ev evs] case_prod_unfold del: append_assoc
        add: append_assoc [symmetric])
qed simp

text \<open>C29. Whatever fills, rejections and restores come in between, the levels the breakout engine
  works with are those of the last session before the current one: its close, its range and its
  return over the session before it, computed from the bars of those calendar days, with
  weekends left out when they are excluded.\<close>

theorem breakout_levels_of_run:
  assumes "bs = trading_bars (bo_config bo) (event_bars evs)" "bs \<noteq> []" "sorted (map bar_date bs)"
    and "bo_state bo = breakout_blank"
    and "p = day_before (bar_date (last bs)) bs"
    and "s = bo_state (or_breakout (fst (orch_run evs (orch_new mr bo cfg))))"
  shows "bo_yesterday_close s = map_option (close_of bs) p
    \<and> bo_yesterday_range s = map_option (range_of bs) p
    \<and> bo_yesterday_return s = day_return
        (Option.bind p (\<lambda>q. map_option (close_of bs) (day_before q bs))) (map_option (close_of bs) p)"
proof -
  have "levels_ok (trading_bars (bo_config bo) []) (bo_state (or_breakout (orch_new mr bo cfg)))"
    using assms(4) by (simp add: trading_bars_def levels_ok_def orch_new_def breakout_blank_def)
  from levels_run [OF this, of evs] assms
  have "levels_ok bs s" by (simp add: orch_new_def)
  then show ?thesis using assms(2,5) by (simp add: levels_ok_def Let_def)
qed

lemma breakout_levels_of_run_witness:
  "bo_yesterday_close (bo_state (or_breakout (fst (orch_run
     [OeBar (sample_bar 4 10 0), OeRejected ''entry'', OeBar (sample_bar 5 10 0)] (sample_orch Overnight)))))
   = Some (Fin 100)"
proof -
  let ?evs = "[OeBar (sample_bar 4 10 0), OeRejected ''entry'', OeBar (sample_bar 5 10 0)]"
  have d: "bar_date (sample_bar d 10 0) = d" for d
    by (simp add: sample_bar_def hms_def and_time_def dt_date_def)
  have "trading_bars sample_breakout_config (event_bars ?evs) = [sample_bar 4 10 0, sample_bar 5 10 0]"
    by (simp add: trading_bars_def weekend_def d weekday_of_def is_weekend_day_def)
  moreover have "day_before 5 [sample_bar 4 10 0, sample_bar 5 10 0] = Some 4"
    by (simp add: day_before_def d)
  moreover have "close_of [sample_bar 4 10 0, sample_bar 5 10 0] 4 = Fin 100"
    by (simp add: close_of_def on_day_def d) (simp add: sample_bar_def)
  ultimately show ?thesis
    using breakout_levels_of_run [of _ "breakout_new sample_breakout_config" ?evs _ _ sample_mr_config
        "\<lparr>orc_eod_mode = Overnight, orc_overnight_exit_time = hms 9 30 0\<rparr>", OF refl _ _ _ refl refl]
    by (simp add: sample_orch_def breakout_new_def d)
qed

end
