(* ===== verification/Hybrid_Tags.thy ===== *)
theory Hybrid_Tags
  imports Limit_Cancel Hybrid_Orchestrator Trade_Ledger
begin

text \<open>
  The text forms of the hybrid strategy (\<open>strategies/hybrid_intraday_runtime.rs\<close>): the ten-byte id
  of an entry-to-exit cycle, which carries its timestamp in hexadecimal, and the comment that
  marks an order as the strategy's own, with its cycle, owner and role. Reading back what was
  written is shown for both.
\<close>

section \<open>Hexadecimal\<close>

definition hex_digit :: "nat \<Rightarrow> char" where
  "hex_digit d = char_of (if d < 10 then 48 + d else 87 + d)"

text \<open>\<open>format!("{n:0wx}")\<close>: at least \<open>w\<close> digits.\<close>

function hex_pad :: "nat \<Rightarrow> nat \<Rightarrow> string" where
  "hex_pad w n =
     (if n < 16 \<and> w \<le> 1 then [hex_digit n]
      else hex_pad (w - 1) (n div 16) @ [hex_digit (n mod 16)])"
  by pat_completeness auto

termination
  by (relation "measure (\<lambda>(w, n). w + n)") auto

declare hex_pad.simps [simp del]

definition hex_value1 :: "char \<Rightarrow> nat option" where
  "hex_value1 c =
     (let n = of_char c :: nat in
      if 48 \<le> n \<and> n \<le> 57 then Some (n - 48)
      else if 97 \<le> n \<and> n \<le> 102 then Some (n - 87)
      else if 65 \<le> n \<and> n \<le> 70 then Some (n - 55)
      else None)"

definition is_hex_digit :: "char \<Rightarrow> bool" where
  "is_hex_digit c \<longleftrightarrow> hex_value1 c \<noteq> None"

definition hex_value :: "string \<Rightarrow> nat" where
  "hex_value s = foldl (\<lambda>acc c. 16 * acc + (case hex_value1 c of None \<Rightarrow> 0 | Some d \<Rightarrow> d)) 0 s"

text \<open>\<open>i64::from_str_radix(_, 16)\<close>: one sign is accepted, and the value has to fit.\<close>

definition i64_from_hex :: "string \<Rightarrow> i64 option" where
  "i64_from_hex s =
     (let (neg, digits) = (case s of
            c # cs \<Rightarrow> if c = CHR ''-'' then (True, cs) else if c = CHR ''+'' then (False, cs) else (False, s)
          | [] \<Rightarrow> (False, []));
          v = (if neg then - int (hex_value digits) else int (hex_value digits))
      in if digits \<noteq> [] \<and> list_all is_hex_digit digits \<and> i64_min \<le> v \<and> v \<le> i64_max then Some v
         else None)"

lemma hex_value1_digit: "d < 16 \<Longrightarrow> hex_value1 (hex_digit d) = Some d"
  by (auto simp: hex_value1_def hex_digit_def Let_def of_char_of)

lemma hex_digit_is_hex [simp]: "d < 16 \<Longrightarrow> is_hex_digit (hex_digit d)"
  by (simp add: is_hex_digit_def hex_value1_digit)

lemma hex_value_snoc:
  "d < 16 \<Longrightarrow> hex_value (s @ [hex_digit d]) = 16 * hex_value s + d"
  by (simp add: hex_value_def hex_value1_digit)

lemma hex_pad_value [simp]: "hex_value (hex_pad w n) = n"
proof (induction w n rule: hex_pad.induct)
  case (1 w n)
  show ?case
  proof (cases "n < 16 \<and> w \<le> 1")
    case True
    then show ?thesis using hex_value_snoc [of n "[]"]
      by (simp add: hex_pad.simps [of w n] hex_value_def)
  next
    case False
    then have "hex_pad w n = hex_pad (w - 1) (n div 16) @ [hex_digit (n mod 16)]"
      by (subst hex_pad.simps) (rule if_not_P [OF False])
    then show ?thesis using 1 [OF False] by (simp add: hex_value_snoc)
  qed
qed

lemma hex_pad_hex [simp]: "list_all is_hex_digit (hex_pad w n)"
  by (induction w n rule: hex_pad.induct) (subst hex_pad.simps, simp)

lemma hex_pad_not_Nil [simp]: "hex_pad w n \<noteq> []"
  by (subst hex_pad.simps) simp

lemma hex_pad_length: "n < 16 ^ Suc w \<Longrightarrow> length (hex_pad (Suc w) n) = Suc w"
proof (induction w arbitrary: n)
  case 0
  then show ?case by (simp add: hex_pad.simps [of _ n])
next
  case (Suc w)
  have "n div 16 < 16 ^ Suc w" using Suc.prems by (auto simp: less_mult_imp_div_less mult.commute)
  from Suc.IH [OF this] show ?case by (simp add: hex_pad.simps [of "Suc (Suc w)" n])
qed

lemma sign_not_hex: "\<not> is_hex_digit CHR ''-''" "\<not> is_hex_digit CHR ''+''"
  by (simp_all add: is_hex_digit_def hex_value1_def)

lemma i64_from_hex_digits:
  assumes "s \<noteq> []" "list_all is_hex_digit s" "int (hex_value s) \<le> i64_max"
  shows "i64_from_hex s = Some (int (hex_value s))"
  using assms sign_not_hex by (cases s) (auto simp: i64_from_hex_def i64_min_def)

section \<open>Cycle ids\<close>

text \<open>The ten bytes of a cycle id, and the two ways they arise.\<close>

type_synonym cycle_id = string

definition cycle_text :: "i64 \<Rightarrow> u32 \<Rightarrow> cycle_id" where
  "cycle_text ts seq =
     hex_pad 8 (nat (max ts 0) mod 4294967296) @ hex_pad 2 (seq mod 256)"

definition format_cycle_id :: "cycle_id \<Rightarrow> string" where
  "format_cycle_id cycle = cycle"

definition parse_cycle_id :: "string \<Rightarrow> cycle_id option" where
  "parse_cycle_id raw =
     (if length raw \<noteq> 10 \<or> \<not> list_all is_hex_digit raw then None else Some raw)"

definition cycle_ts_utc :: "cycle_id \<Rightarrow> i64 option" where
  "cycle_ts_utc cycle = i64_from_hex (take 8 cycle)"

definition cycle_ok :: "cycle_id \<Rightarrow> bool" where
  "cycle_ok c \<longleftrightarrow> length c = 10 \<and> list_all is_hex_digit c"

lemma parse_cycle_id_iff: "parse_cycle_id raw = Some c \<longleftrightarrow> cycle_ok c \<and> raw = c"
  by (auto simp: parse_cycle_id_def cycle_ok_def)

lemma parse_format_cycle [simp]: "cycle_ok c \<Longrightarrow> parse_cycle_id (format_cycle_id c) = Some c"
  by (simp add: parse_cycle_id_iff format_cycle_id_def)

lemma cycle_text_lengths:
  "length (hex_pad 8 (n mod 4294967296)) = 8" "length (hex_pad 2 (m mod 256)) = 2"
proof -
  have "16 ^ Suc 7 = (4294967296::nat)" "16 ^ Suc 1 = (256::nat)" "Suc 7 = 8" "Suc 1 = 2" by simp_all
  then show "length (hex_pad 8 (n mod 4294967296)) = 8" "length (hex_pad 2 (m mod 256)) = 2"
    using hex_pad_length [of "n mod 4294967296" 7] hex_pad_length [of "m mod 256" 1]
    by (metis mod_less_divisor zero_less_numeral)+
qed

lemma cycle_text_ok [simp]: "cycle_ok (cycle_text ts seq)"
  by (simp add: cycle_ok_def cycle_text_def cycle_text_lengths)

text \<open>The timestamp of a cycle is read back from its id until 2106.\<close>

lemma cycle_ts_of_text:
  assumes "0 \<le> ts" "ts < 4294967296"
  shows "cycle_ts_utc (cycle_text ts seq) = Some ts"
proof -
  let ?h = "hex_pad 8 (nat (max ts 0) mod 4294967296)"
  have v: "hex_value ?h = nat ts" using assms by (simp add: nat_less_iff max_def)
  have "take 8 (cycle_text ts seq) = ?h" by (simp add: cycle_text_def cycle_text_lengths)
  then show ?thesis
    using i64_from_hex_digits [of ?h] assms v by (simp add: cycle_ts_utc_def i64_max_def)
qed

section \<open>Comments\<close>

datatype tag_role = RoleEntry | RoleTp | RoleSl | RoleExit | RoleCancel

record hybrid_tag =
  hyt_sid :: string
  hyt_cycle :: string
  hyt_owner :: "owner option"
  hyt_role :: "tag_role option"

fun owner_code :: "owner \<Rightarrow> string" where
  "owner_code MeanReversion = ''MR''"
| "owner_code IntradayBreakout = ''BO''"

fun role_code :: "tag_role \<Rightarrow> string" where
  "role_code RoleEntry = ''ENTRY''"
| "role_code RoleTp = ''TP''"
| "role_code RoleSl = ''SL''"
| "role_code RoleExit = ''EXIT''"
| "role_code RoleCancel = ''CANCEL''"

definition build_comment :: "strategy_ctx \<Rightarrow> cycle_id \<Rightarrow> owner \<Rightarrow> tag_role \<Rightarrow> string" where
  "build_comment ctx cycle own role =
     ''HYB|sid='' @ cx_strategy_id ctx @ ''|c='' @ format_cycle_id cycle @ ''|o='' @ owner_code own
     @ ''|r='' @ role_code role"

definition owner_of_code :: "string \<Rightarrow> owner option" where
  "owner_of_code v = (if v = ''MR'' then Some MeanReversion
     else if v = ''BO'' then Some IntradayBreakout else None)"

definition role_of_code :: "string \<Rightarrow> tag_role option" where
  "role_of_code v = (if v = ''ENTRY'' then Some RoleEntry else if v = ''TP'' then Some RoleTp
     else if v = ''SL'' then Some RoleSl else if v = ''EXIT'' then Some RoleExit
     else if v = ''CANCEL'' then Some RoleCancel else None)"

text \<open>The parts between the bars; a part without \<open>=\<close> ends the reading with nothing.\<close>

type_synonym tag_fields = "string option \<times> string option \<times> owner option \<times> tag_role option"

fun tag_fields_of :: "string list \<Rightarrow> tag_fields \<Rightarrow> tag_fields option" where
  "tag_fields_of [] f = Some f"
| "tag_fields_of (part # parts) (sid, cycle, own, role) =
     (case Trade_Ledger.split_once CHR ''='' part of
        None \<Rightarrow> None
      | Some (key, v) \<Rightarrow> tag_fields_of parts
          (if key = ''sid'' then (Some v, cycle, own, role)
           else if key = ''c'' then (sid, Some v, own, role)
           else if key = ''o'' then (sid, cycle, owner_of_code v, role)
           else if key = ''r'' then (sid, cycle, own, role_of_code v)
           else (sid, cycle, own, role)))"

definition is_ascii :: "string \<Rightarrow> bool" where
  "is_ascii s \<longleftrightarrow> list_all (\<lambda>c. (of_char c :: nat) < 128) s"

definition parse_hybrid_tag :: "string option \<Rightarrow> hybrid_tag option" where
  "parse_hybrid_tag comment =
     (case comment of
        None \<Rightarrow> None
      | Some c \<Rightarrow>
          if \<not> is_ascii c \<or> take 4 c \<noteq> ''HYB|'' then None
          else case tag_fields_of (drop 1 (Trade_Ledger.split_on CHR ''|'' c)) (None, None, None, None) of
              Some (Some sid, Some cycle, own, role) \<Rightarrow>
                Some \<lparr>hyt_sid = sid, hyt_cycle = cycle, hyt_owner = own, hyt_role = role\<rparr>
            | _ \<Rightarrow> None)"

definition is_our_tag :: "strategy_ctx \<Rightarrow> string option \<Rightarrow> bool" where
  "is_our_tag ctx comment =
     (case parse_hybrid_tag comment of None \<Rightarrow> False | Some tag \<Rightarrow> hyt_sid tag = cx_strategy_id ctx)"

text \<open>\<open>intent_comment_tag\<close>, for an intent without a comment of its own.\<close>

fun class_role :: "intent_class \<Rightarrow> string" where
  "class_role Entry = ''ENTRY''"
| "class_role Exit = ''EXIT''"
| "class_role CancelCleanup = ''CANCEL''"
| "class_role ProtectiveRepair = ''REPAIR''"

definition hybrid_comment_tag :: "strategy_ctx \<Rightarrow> i64 \<Rightarrow> intent_class \<Rightarrow> string" where
  "hybrid_comment_tag ctx created cls =
     take 100 (filter (\<lambda>c. (of_char c :: nat) < 128)
       (''HYB|sid='' @ cx_strategy_id ctx @ ''|c='' @ hex_pad 8 (nat (max created 0))
        @ ''|r='' @ class_role cls))"

lemma split_on_bar:
  "c \<notin> set xs \<Longrightarrow> Trade_Ledger.split_on c (xs @ c # ys) = xs # Trade_Ledger.split_on c ys"
  by (induction xs) auto

lemma split_on_rest: "c \<notin> set xs \<Longrightarrow> Trade_Ledger.split_on c xs = [xs]"
  by (induction xs) auto

lemma split_once_key:
  "c \<notin> set k \<Longrightarrow> Trade_Ledger.split_once c (k @ c # v) = Some (k, v)"
  by (induction k) (auto simp: Trade_Ledger.split_once_def)

lemma hex_ascii: "is_hex_digit c \<Longrightarrow> (of_char c :: nat) < 128"
  by (auto simp: is_hex_digit_def hex_value1_def Let_def split: if_splits)

lemma hex_not_special: "is_hex_digit c \<Longrightarrow> c \<noteq> CHR ''|''"
  by (auto simp: is_hex_digit_def hex_value1_def Let_def split: if_splits)

lemma code_facts [simp]:
  "owner_of_code (owner_code own) = Some own" "role_of_code (role_code role) = Some role"
  by (cases own; cases role; simp add: owner_of_code_def role_of_code_def)+

lemma code_chars:
  "CHR ''|'' \<notin> set (owner_code own)" "CHR ''|'' \<notin> set (role_code role)"
  "is_ascii (owner_code own)" "is_ascii (role_code role)"
proof -
  show "CHR ''|'' \<notin> set (owner_code own)" "is_ascii (owner_code own)"
    by (cases own; simp add: is_ascii_def)+
  show "CHR ''|'' \<notin> set (role_code role)" "is_ascii (role_code role)"
    by (cases role; simp add: is_ascii_def)+
qed

lemma cycle_chars:
  assumes "cycle_ok c"
  shows "CHR ''|'' \<notin> set c" "is_ascii c"
  using assms hex_ascii hex_not_special by (fastforce simp: cycle_ok_def is_ascii_def list_all_iff)+

lemma is_ascii_append [simp]: "is_ascii (a @ b) \<longleftrightarrow> is_ascii a \<and> is_ascii b"
  by (simp add: is_ascii_def)

theorem comment_reads_back:
  assumes "cycle_ok cycle" "is_ascii (cx_strategy_id ctx)" "CHR ''|'' \<notin> set (cx_strategy_id ctx)"
  shows "parse_hybrid_tag (Some (build_comment ctx cycle own role))
      = Some \<lparr>hyt_sid = cx_strategy_id ctx, hyt_cycle = cycle, hyt_owner = Some own,
              hyt_role = Some role\<rparr>"
proof -
  let ?sid = "''sid='' @ cx_strategy_id ctx" and ?c = "''c='' @ cycle"
  let ?o = "''o='' @ owner_code own" and ?r = "''r='' @ role_code role"
  have txt1: "build_comment ctx cycle own role
      = ''HYB'' @ CHR ''|'' # ?sid @ CHR ''|'' # ?c @ CHR ''|'' # ?o @ CHR ''|'' # ?r"
    by (simp add: build_comment_def format_cycle_id_def)
  have parts: "Trade_Ledger.split_on CHR ''|'' (build_comment ctx cycle own role)
      = [''HYB'', ?sid, ?c, ?o, ?r]"
    unfolding txt1 using assms(3) cycle_chars(1) [OF assms(1)] code_chars
    by (subst split_on_bar, simp)+ (subst split_on_rest, simp_all)
  have keys: "Trade_Ledger.split_once CHR ''='' ?sid = Some (''sid'', cx_strategy_id ctx)"
    "Trade_Ledger.split_once CHR ''='' ?c = Some (''c'', cycle)"
    "Trade_Ledger.split_once CHR ''='' ?o = Some (''o'', owner_code own)"
    "Trade_Ledger.split_once CHR ''='' ?r = Some (''r'', role_code role)"
    using split_once_key [of "CHR ''=''" "''sid''" "cx_strategy_id ctx"]
      split_once_key [of "CHR ''=''" "''c''" cycle] split_once_key [of "CHR ''=''" "''o''" "owner_code own"]
      split_once_key [of "CHR ''=''" "''r''" "role_code role"] by simp_all
  have "is_ascii (build_comment ctx cycle own role)"
    unfolding txt1 using assms(2) cycle_chars(2) [OF assms(1)] code_chars
    by (simp add: is_ascii_def)
  moreover have "take 4 (build_comment ctx cycle own role) = ''HYB|''"
    by (simp add: build_comment_def)
  ultimately show ?thesis by (simp add: parse_hybrid_tag_def parts keys del: append.simps)
qed

lemma comment_reads_back_witness:
  "parse_hybrid_tag (Some (build_comment sample_ctx ''0000003c01'' MeanReversion RoleSl))
     = Some \<lparr>hyt_sid = ''s'', hyt_cycle = ''0000003c01'', hyt_owner = Some MeanReversion,
             hyt_role = Some RoleSl\<rparr>"
  using comment_reads_back [of "''0000003c01''" sample_ctx MeanReversion RoleSl]
  by (simp add: cycle_ok_def is_hex_digit_def hex_value1_def is_ascii_def sample_ctx_def)

end
