(* ===== verification/Risk_Gate.thy ===== *)
theory Risk_Gate
  imports Chrono F64 Gateway_Models
begin

text \<open>
  The risk gate of the hybrid strategy (\<open>strategies/hybrid_intraday/risk_gate.rs\<close>): a ledger of
  the profit and loss of past sessions, one row for every session, from which it is decided
  whether the mean-reversion engine may trade in the next session. The error text of
  \<open>Result<_, String>\<close> is a constructor of \<open>rg_error\<close> with the values the message prints.
\<close>

section \<open>Types\<close>

definition lb120_lookback :: nat where "lb120_lookback = 120"
definition lb120_min_history :: nat where "lb120_min_history = 60"

definition state_generation :: string where "state_generation = ''runtime-ledger-v1''"

datatype rg_source = SrcSeed | SrcRuntime
datatype rg_status = StComplete | StIncomplete

record session_row =
  sr_date :: naive_date
  sr_pnl :: f64
  sr_trade_count :: u32
  sr_rolling_before :: f64
  sr_mr_enabled :: bool
  sr_source :: rg_source
  sr_status :: rg_status

datatype rg_startup_mode = BootstrapFromSeed | NormalAppend | RebuildFromHistory
datatype rg_decision = ImportSeed | UseExistingLedger | RebuildFromSeed

record rg_identity =
  ri_strategy_id :: string
  ri_profile_id :: string
  ri_mr_variant :: string
  ri_timeframe :: string
  ri_session_policy :: string
  ri_legacy_policy :: "string option"
  ri_transition_date :: "naive_date option"
  ri_model_version :: string

record ledger_record =
  lr_row :: session_row
  lr_profile_id :: string
  lr_mr_variant :: string
  lr_timeframe :: string
  lr_session_policy :: string
  lr_rolling_sum :: f64
  lr_mr_enabled_next :: bool
  lr_model_version :: string
  lr_finalized_at :: i64

record rg_state =
  rs_last_finalized :: "naive_date option"
  rs_rolling_sum :: "f64 option"
  rs_mr_enabled_current :: "bool option"
  rs_mr_enabled_next :: "bool option"
  rs_seed_loaded :: bool
  rs_rows_count :: nat
  rs_shadow_date :: "naive_date option"
  rs_shadow_pnl :: f64
  rs_generation :: string

record rg_artifacts =
  ra_decision :: rg_decision
  ra_records :: "ledger_record list"
  ra_to_write :: "ledger_record list"
  ra_state :: rg_state

datatype rg_error =
    WeekendSession naive_date | NotIncreasing naive_date naive_date
  | LedgerExists | NoSeedRows | LedgerBehindSeed naive_date naive_date | LedgerEmpty | NoRebuiltRows
  | RuntimeWeekend naive_date | NotAfterTail naive_date
  | ProfileMismatch string string | VariantMismatch string string
  | TimeframeMismatch string string | PolicyMismatch string string
  | FieldMissing string | BadDate string string | BadFloat string string | BadInt string string
  | BadBool string | BadSource string | BadStatus string | BadSeedDate string | BadSeedRow

section \<open>Keys\<close>

definition redis_key_char :: "char \<Rightarrow> char" where
  "redis_key_char c =
     (if is_ascii_alphanumeric c \<or> c = CHR ''_'' \<or> c = CHR ''-'' then ascii_lower c else CHR ''_'')"

definition trim_underscores :: "string \<Rightarrow> string" where
  "trim_underscores s = rev (dropWhile (\<lambda>c. c = CHR ''_'') (rev (dropWhile (\<lambda>c. c = CHR ''_'') s)))"

definition redis_key_component :: "string \<Rightarrow> string" where
  "redis_key_component raw =
     (let s = trim_underscores (map redis_key_char raw) in if s = [] then ''unknown'' else s)"

record rg_keys =
  rk_ledger_stream :: string
  rk_state_key :: string
  rk_finalized_key :: string

text \<open>What \<open>chrono\<close> prints and reads as \<open>%Y-%m-%d\<close>, and \<open>f64\<close> as text: \<open>{:.1}\<close>, \<open>to_string\<close>
  and \<open>parse\<close>; and \<open>NaiveDate::MIN\<close>.\<close>

record text_lib =
  tl_show_date :: "naive_date \<Rightarrow> string"
  tl_parse_date :: "string \<Rightarrow> naive_date option"
  tl_show_tenth :: "f64 \<Rightarrow> string"
  tl_show_float :: "f64 \<Rightarrow> string"
  tl_parse_float :: "string \<Rightarrow> f64 option"
  tl_date_min :: naive_date

definition keys_for_profile :: "text_lib \<Rightarrow> string \<Rightarrow> string \<Rightarrow> naive_date \<Rightarrow> rg_keys" where
  "keys_for_profile tx strategy profile d =
     (let s = redis_key_component strategy; p = redis_key_component profile in
      \<lparr>rk_ledger_stream = ''runtime.riskgate.sessions.'' @ s @ ''.'' @ p,
       rk_state_key = ''runtime.riskgate.state.'' @ s @ ''.'' @ p,
       rk_finalized_key = ''runtime.riskgate.finalized.'' @ s @ ''.'' @ p @ ''.'' @ tl_show_date tx d\<rparr>)"

definition session_policy_for_date :: "rg_identity \<Rightarrow> naive_date \<Rightarrow> string" where
  "session_policy_for_date idt d =
     (case (ri_legacy_policy idt, ri_transition_date idt) of
        (Some legacy, Some t) \<Rightarrow> if d < t then legacy else ri_session_policy idt
      | _ \<Rightarrow> ri_session_policy idt)"

section \<open>The ledger\<close>

fun validate_from :: "naive_date option \<Rightarrow> session_row list \<Rightarrow> rg_error + unit" where
  "validate_from prev [] = Ok ()"
| "validate_from prev (r # rows) =
     (if is_weekend_day (weekday_of (sr_date r)) then Err (WeekendSession (sr_date r))
      else if at_or_before (sr_date r) prev then Err (NotIncreasing (sr_date r) (the prev))
      else validate_from (Some (sr_date r)) rows)"

definition validate_ledger :: "session_row list \<Rightarrow> rg_error + unit" where
  "validate_ledger rows = validate_from None rows"

text \<open>The weekdays after \<open>d\<close> and before \<open>hi\<close> that are not before the cutoff: the \<open>while let\<close> loop
  over \<open>succ_opt\<close>. Dates are unbounded here, so \<open>succ_opt\<close> and \<open>checked_sub_signed\<close> succeed.\<close>

function gap_days :: "naive_date \<Rightarrow> naive_date \<Rightarrow> naive_date \<Rightarrow> naive_date list" where
  "gap_days cutoff d hi =
     (if d < hi then
        (if cutoff \<le> d \<and> \<not> is_weekend_day (weekday_of d) then [d] else []) @ gap_days cutoff (d + 1) hi
      else [])"
  by pat_completeness auto

termination
  by (relation "measure (\<lambda>(cutoff, d, hi). nat (hi - d))") auto

declare gap_days.simps [simp del]

fun gaps_between :: "naive_date \<Rightarrow> session_row list \<Rightarrow> naive_date list" where
  "gaps_between cutoff (a # b # rows) =
     gap_days cutoff (sr_date a + 1) (sr_date b) @ gaps_between cutoff (b # rows)"
| "gaps_between cutoff rows = []"

definition recent_weekday_gaps :: "session_row list \<Rightarrow> i64 \<Rightarrow> rg_error + naive_date list" where
  "recent_weekday_gaps rows lookback =
     res_bind (validate_ledger rows) (\<lambda>_.
       if rows = [] then Ok []
       else Ok (gaps_between (sr_date (last rows) - max 0 lookback) rows))"

definition reconcile_seed ::
  "rg_startup_mode \<Rightarrow> session_row list \<Rightarrow> session_row list \<Rightarrow> rg_error + rg_decision" where
  "reconcile_seed mode existing seed =
     res_bind (validate_ledger existing) (\<lambda>_. res_bind (validate_ledger seed) (\<lambda>_.
       let last_date = (\<lambda>rows. if rows = [] then None else Some (sr_date (last rows))) in
       case (mode, last_date existing, last_date seed) of
         (BootstrapFromSeed, None, Some _) \<Rightarrow> Ok ImportSeed
       | (BootstrapFromSeed, Some _, _) \<Rightarrow> Err LedgerExists
       | (BootstrapFromSeed, None, None) \<Rightarrow> Err NoSeedRows
       | (NormalAppend, Some e, Some s) \<Rightarrow>
           if s \<le> e then Ok UseExistingLedger else Err (LedgerBehindSeed e s)
       | (NormalAppend, Some _, None) \<Rightarrow> Ok UseExistingLedger
       | (NormalAppend, None, _) \<Rightarrow> Err LedgerEmpty
       | (RebuildFromHistory, _, Some _) \<Rightarrow> Ok RebuildFromSeed
       | (RebuildFromHistory, _, None) \<Rightarrow> Err NoRebuiltRows))"

definition last_n :: "nat \<Rightarrow> 'a list \<Rightarrow> 'a list" where
  "last_n n xs = drop (length xs - n) xs"

definition rolling_sum :: "session_row list \<Rightarrow> nat \<Rightarrow> nat \<Rightarrow> f64 option" where
  "rolling_sum rows lookback min_history =
     (if length rows < min_history then None else Some (f_sum (map sr_pnl (last_n lookback rows))))"

definition complete_rows :: "session_row list \<Rightarrow> session_row list" where
  "complete_rows rows = filter (\<lambda>r. sr_status r = StComplete) rows"

definition rolling_before_next :: "session_row list \<Rightarrow> nat \<Rightarrow> nat \<Rightarrow> f64 option" where
  "rolling_before_next rows lookback min_history =
     rolling_sum (complete_rows rows) lookback min_history"

definition enabled_for_next :: "session_row list \<Rightarrow> bool option" where
  "enabled_for_next rows =
     map_option (\<lambda>p. 0 < p) (rolling_before_next rows lb120_lookback lb120_min_history)"

definition rolling_before_session :: "session_row list \<Rightarrow> naive_date \<Rightarrow> nat \<Rightarrow> nat \<Rightarrow> f64 option" where
  "rolling_before_session rows d lookback min_history =
     rolling_sum (filter (\<lambda>r. sr_status r = StComplete \<and> sr_date r < d) rows) lookback min_history"

definition enabled_for_session :: "session_row list \<Rightarrow> naive_date \<Rightarrow> bool option" where
  "enabled_for_session rows d =
     map_option (\<lambda>p. 0 < p) (rolling_before_session rows d lb120_lookback lb120_min_history)"

definition build_runtime_row ::
  "session_row list \<Rightarrow> naive_date \<Rightarrow> f64 \<Rightarrow> u32 \<Rightarrow> rg_error + session_row" where
  "build_runtime_row rows d pnl n =
     res_bind (validate_ledger rows) (\<lambda>_.
       if is_weekend_day (weekday_of d) then Err (RuntimeWeekend d)
       else if rows \<noteq> [] \<and> d \<le> sr_date (last rows) then Err (NotAfterTail d)
       else
         let before = (case rolling_before_session rows d lb120_lookback lb120_min_history of
                         Some p \<Rightarrow> p | None \<Rightarrow> 0)
         in Ok \<lparr>sr_date = d, sr_pnl = pnl, sr_trade_count = n, sr_rolling_before = before,
                sr_mr_enabled = (0 < before), sr_source = SrcRuntime, sr_status = StComplete\<rparr>)"

text \<open>The record of the last row of a prefix, and the records of all prefixes.\<close>

definition record_of_prefix ::
  "rg_identity \<Rightarrow> i64 \<Rightarrow> session_row list \<Rightarrow> ledger_record" where
  "record_of_prefix idt ts prefix =
     \<lparr>lr_row = last prefix, lr_profile_id = ri_profile_id idt, lr_mr_variant = ri_mr_variant idt,
      lr_timeframe = ri_timeframe idt,
      lr_session_policy = session_policy_for_date idt (sr_date (last prefix)),
      lr_rolling_sum = (case rolling_before_next prefix lb120_lookback 0 of Some p \<Rightarrow> p | None \<Rightarrow> 0),
      lr_mr_enabled_next = (enabled_for_next prefix = Some True),
      lr_model_version = ri_model_version idt, lr_finalized_at = ts\<rparr>"

definition build_records ::
  "session_row list \<Rightarrow> rg_identity \<Rightarrow> i64 \<Rightarrow> rg_error + ledger_record list" where
  "build_records rows idt ts =
     res_bind (validate_ledger rows) (\<lambda>_.
       Ok (map (\<lambda>i. record_of_prefix idt ts (take (Suc i) rows)) [0..<length rows]))"

definition rows_from_records :: "ledger_record list \<Rightarrow> rg_error + session_row list" where
  "rows_from_records recs =
     (let rows = sort_key sr_date (map lr_row recs)
      in res_bind (validate_ledger rows) (\<lambda>_. Ok rows))"

fun validate_identity :: "rg_identity \<Rightarrow> ledger_record list \<Rightarrow> rg_error + unit" where
  "validate_identity idt [] = Ok ()"
| "validate_identity idt (r # recs) =
     (let policy = session_policy_for_date idt (sr_date (lr_row r)) in
      if lr_profile_id r \<noteq> ri_profile_id idt then Err (ProfileMismatch (lr_profile_id r) (ri_profile_id idt))
      else if lr_mr_variant r \<noteq> ri_mr_variant idt
        then Err (VariantMismatch (lr_mr_variant r) (ri_mr_variant idt))
      else if lr_timeframe r \<noteq> ri_timeframe idt
        then Err (TimeframeMismatch (lr_timeframe r) (ri_timeframe idt))
      else if lr_session_policy r \<noteq> policy then Err (PolicyMismatch (lr_session_policy r) policy)
      else validate_identity idt recs)"

definition rebuild_state ::
  "ledger_record list \<Rightarrow> naive_date option \<Rightarrow> f64 \<Rightarrow> bool \<Rightarrow> rg_error + rg_state" where
  "rebuild_state recs shadow_date shadow_pnl seed_loaded =
     res_bind (rows_from_records recs) (\<lambda>rows.
       let rolling = rolling_before_next rows lb120_lookback lb120_min_history;
           enabled = map_option (\<lambda>p. 0 < p) rolling
       in Ok \<lparr>rs_last_finalized = (if rows = [] then None else Some (sr_date (last rows))),
              rs_rolling_sum = rolling, rs_mr_enabled_current = enabled, rs_mr_enabled_next = enabled,
              rs_seed_loaded = seed_loaded, rs_rows_count = length rows,
              rs_shadow_date = shadow_date, rs_shadow_pnl = shadow_pnl,
              rs_generation = state_generation\<rparr>)"

definition has_seed :: "ledger_record list \<Rightarrow> bool" where
  "has_seed recs = list_ex (\<lambda>r. sr_source (lr_row r) = SrcSeed) recs"

definition plan_startup ::
  "rg_startup_mode \<Rightarrow> ledger_record list \<Rightarrow> session_row list \<Rightarrow> rg_identity \<Rightarrow> naive_date option
   \<Rightarrow> i64 \<Rightarrow> rg_error + rg_artifacts" where
  "plan_startup mode existing seed idt shadow_date ts =
     res_bind (validate_identity idt existing) (\<lambda>_.
     res_bind (rows_from_records existing) (\<lambda>rows.
     res_bind (reconcile_seed mode rows seed) (\<lambda>decision.
     res_bind (case decision of
         UseExistingLedger \<Rightarrow> Ok (sort_key (\<lambda>r. sr_date (lr_row r)) existing, [])
       | _ \<Rightarrow> res_bind (build_records seed idt ts) (\<lambda>recs. Ok (recs, recs)))
       (\<lambda>(recs, to_write).
     res_bind (rebuild_state recs shadow_date 0 (has_seed recs)) (\<lambda>st.
       Ok \<lparr>ra_decision = decision, ra_records = recs, ra_to_write = to_write, ra_state = st\<rparr>)))))"

section \<open>Ledgers of regular sessions\<close>

text \<open>What \<open>validate_regular_session_ledger\<close> accepts.\<close>

definition regular :: "session_row list \<Rightarrow> bool" where
  "regular rows \<longleftrightarrow> ascending (map sr_date rows)
     \<and> (\<forall>r\<in>set rows. \<not> is_weekend_day (weekday_of (sr_date r)))"

lemma validate_from_Ok:
  "validate_from prev rows = Ok () \<longleftrightarrow>
     regular rows \<and> (\<forall>p. prev = Some p \<longrightarrow> (\<forall>r\<in>set rows. p < sr_date r))"
proof (induction rows arbitrary: prev)
  case (Cons r rows)
  show ?case
    by (cases prev) (auto simp: Cons regular_def)
qed (simp add: regular_def)

lemma validate_ledger_Ok [simp]: "validate_ledger rows = Ok () \<longleftrightarrow> regular rows"
  by (simp add: validate_ledger_def validate_from_Ok)

lemma validated_bind: "regular rows \<Longrightarrow> res_bind (validate_ledger rows) f = f ()"
  by (metis validate_ledger_Ok res_bind_simps(1))

lemma validated_bind_Ok:
  "res_bind (validate_ledger rows) f = Ok y \<longleftrightarrow> regular rows \<and> f () = Ok y"
  by (auto simp: res_bind_Ok_iff)

lemma regular_append_one:
  "regular (rows @ [r]) \<longleftrightarrow>
     regular rows \<and> \<not> is_weekend_day (weekday_of (sr_date r)) \<and> (\<forall>w\<in>set rows. sr_date w < sr_date r)"
  by (auto simp: regular_def sorted_wrt_append)

lemma regular_last:
  assumes "regular rows" "rows \<noteq> []"
  shows "(\<forall>w\<in>set rows. sr_date w < d) \<longleftrightarrow> sr_date (last rows) < d"
proof
  assume "sr_date (last rows) < d"
  have "sr_date w \<le> sr_date (last rows)" if "w \<in> set rows" for w
    using assms that by (induction rows rule: rev_induct) (auto simp: regular_append_one)
  with \<open>sr_date (last rows) < d\<close> show "\<forall>w\<in>set rows. sr_date w < d" by fastforce
qed (use assms in simp)

lemma regular_dropD: "regular rows \<Longrightarrow> regular (drop n rows)"
  by (auto simp: regular_def drop_map [symmetric] dest: in_set_dropD intro: sorted_wrt_drop)

lemma sort_key_regular: "regular rows \<Longrightarrow> sort_key sr_date rows = rows"
  by (intro sort_key_id_if_sorted)
    (auto simp: regular_def intro: strict_sorted_imp_sorted)

lemma sort_key_rev_ascending:
  assumes "ascending (map f xs)"
  shows "sort_key f (rev xs) = xs"
proof (rule map_sorted_distinct_set_unique)
  have d: "distinct (map f xs)" "inj_on f (set xs)"
    using assms by (auto simp: strict_sorted_iff distinct_map)
  then show "inj_on f (set (sort_key f (rev xs)) \<union> set xs)" "distinct (map f xs)"
    by simp_all
  show "distinct (map f (sort_key f (rev xs)))"
    using d by (simp add: distinct_map)
  show "sorted (map f xs)"
    using assms by (simp add: strict_sorted_imp_sorted)
qed simp_all

lemma sort_key_rev_regular: "regular rows \<Longrightarrow> sort_key sr_date (rev rows) = rows"
  by (simp add: sort_key_rev_ascending regular_def)

section \<open>The rolling sum\<close>

lemma last_n_length [simp]: "length (last_n n xs) = min n (length xs)"
  by (simp add: last_n_def)

lemma last_n_all: "length xs \<le> n \<Longrightarrow> last_n n xs = xs"
  by (simp add: last_n_def)

lemma last_n_suffix: "n \<le> length ys \<Longrightarrow> last_n n (xs @ ys) = last_n n ys"
  by (simp add: last_n_def)

lemma rolling_sum_suffix:
  assumes "lookback \<le> length ys" "min_history \<le> lookback"
  shows "rolling_sum (xs @ ys) lookback min_history = rolling_sum ys lookback min_history"
  using assms by (simp add: rolling_sum_def last_n_suffix)

lemma complete_append: "complete_rows (xs @ ys) = complete_rows xs @ complete_rows ys"
  by (simp add: complete_rows_def)

text \<open>The decision for the session after \<open>rows\<close> is that of the session at any later date.\<close>

lemma rolling_before_later:
  assumes "\<forall>r\<in>set rows. sr_date r < d"
  shows "rolling_before_session rows d lookback min_history = rolling_before_next rows lookback min_history"
proof -
  have "filter (\<lambda>r. sr_status r = StComplete \<and> sr_date r < d) rows = complete_rows rows"
    unfolding complete_rows_def using assms by (intro filter_cong) auto
  then show ?thesis by (simp add: rolling_before_session_def rolling_before_next_def)
qed

lemma build_runtime_row_Ok:
  "build_runtime_row rows d pnl n = Ok w \<longleftrightarrow>
     regular rows \<and> \<not> is_weekend_day (weekday_of d) \<and> (\<forall>r\<in>set rows. sr_date r < d)
     \<and> w = \<lparr>sr_date = d, sr_pnl = pnl, sr_trade_count = n,
            sr_rolling_before = (case rolling_before_next rows lb120_lookback lb120_min_history of
                                   Some p \<Rightarrow> p | None \<Rightarrow> 0),
            sr_mr_enabled = (enabled_for_next rows = Some True),
            sr_source = SrcRuntime, sr_status = StComplete\<rparr>"
proof (cases "regular rows")
  case True
  have "(rows \<noteq> [] \<and> d \<le> sr_date (last rows)) \<longleftrightarrow> \<not> (\<forall>r\<in>set rows. sr_date r < d)"
    by (cases "rows = []") (auto simp: regular_last [OF True] not_less)
  with True show ?thesis
    by (auto simp: build_runtime_row_def validated_bind Let_def rolling_before_later enabled_for_next_def
        split: option.splits)
qed (simp add: build_runtime_row_def validated_bind_Ok)

end
