(* ===== verification/Risk_Gate_Codec.thy ===== *)
theory Risk_Gate_Codec
  imports Risk_Gate
begin

text \<open>
  The text form of the ledger and of the gate's state in Redis, and the rows of the seed file
  (\<open>risk_gate.rs\<close>). A record is the list of its fields and values in the order they are written.
  How \<open>chrono\<close> prints a date and the standard library a float is the parameter \<open>text_lib\<close>.
\<close>

section \<open>Writing\<close>

type_synonym fields = "(string \<times> string) list"

fun source_str :: "rg_source \<Rightarrow> string" where
  "source_str SrcSeed = ''seed''" | "source_str SrcRuntime = ''runtime''"

fun status_str :: "rg_status \<Rightarrow> string" where
  "status_str StComplete = ''complete''" | "status_str StIncomplete = ''incomplete''"

fun bool_field :: "bool \<Rightarrow> string" where
  "bool_field True = ''true''" | "bool_field False = ''false''"

fun f_fract :: "f64 \<Rightarrow> f64" where
  "f_fract (Fin a) = Fin (a - sgn a * of_int \<lfloor>\<bar>a\<bar>\<rfloor>)"
| "f_fract x = NaN"

definition format_float :: "text_lib \<Rightarrow> f64 \<Rightarrow> string" where
  "format_float tx v = (if \<bar>f_fract v\<bar> \<le> f64_epsilon then tl_show_tenth tx v else tl_show_float tx v)"

definition record_fields :: "text_lib \<Rightarrow> ledger_record \<Rightarrow> fields" where
  "record_fields tx r =
     (let w = lr_row r in
      [(''session_date'', tl_show_date tx (sr_date w)),
       (''profile_id'', lr_profile_id r),
       (''mr_variant'', lr_mr_variant r),
       (''timeframe'', lr_timeframe r),
       (''shadow_pnl_points'', format_float tx (sr_pnl w)),
       (''shadow_trade_count'', show_nat (sr_trade_count w)),
       (''rolling_120_pnl_before_session'', format_float tx (sr_rolling_before w)),
       (''mr_enabled_for_session'', bool_field (sr_mr_enabled w)),
       (''rolling_sum_lb120'', format_float tx (lr_rolling_sum r)),
       (''mr_enabled_next_session'', bool_field (lr_mr_enabled_next r)),
       (''source'', source_str (sr_source w)),
       (''status'', status_str (sr_status w)),
       (''session_policy'', lr_session_policy r),
       (''model_version'', lr_model_version r),
       (''finalized_at_utc'', show_int (lr_finalized_at r))])"

definition push_optional :: "string \<Rightarrow> string option \<Rightarrow> fields" where
  "push_optional k v = (case v of Some s \<Rightarrow> [(k, s)] | None \<Rightarrow> [])"

definition state_fields :: "text_lib \<Rightarrow> rg_state \<Rightarrow> fields" where
  "state_fields tx s =
     [(''seed_loaded'', bool_field (rs_seed_loaded s)),
      (''ledger_rows_count'', show_nat (rs_rows_count s)),
      (''current_shadow_pnl_points'', format_float tx (rs_shadow_pnl s)),
      (''current_generation'', rs_generation s)]
     @ push_optional ''last_finalized_session_date'' (map_option (tl_show_date tx) (rs_last_finalized s))
     @ push_optional ''rolling_sum_lb120'' (map_option (format_float tx) (rs_rolling_sum s))
     @ push_optional ''mr_enabled_current_session'' (map_option bool_field (rs_mr_enabled_current s))
     @ push_optional ''mr_enabled_next_session'' (map_option bool_field (rs_mr_enabled_next s))
     @ push_optional ''current_shadow_session_date'' (map_option (tl_show_date tx) (rs_shadow_date s))"

section \<open>Reading\<close>

type_synonym fmap = "string \<Rightarrow> string option"

definition field_map :: "fields \<Rightarrow> fmap" where
  "field_map fs = map_of (rev fs)"

definition required_field :: "fmap \<Rightarrow> string \<Rightarrow> rg_error + string" where
  "required_field m k =
     (case m k of
        Some v \<Rightarrow> if trim v = [] then Err (FieldMissing k) else Ok v
      | None \<Rightarrow> Err (FieldMissing k))"

definition ok_or :: "'e \<Rightarrow> 'a option \<Rightarrow> 'e + 'a" where
  "ok_or e x = (case x of Some v \<Rightarrow> Ok v | None \<Rightarrow> Err e)"

text \<open>An unsigned integer type with the given maximum: an optional plus sign and digits.\<close>

definition parse_uint :: "nat \<Rightarrow> string \<Rightarrow> nat option" where
  "parse_uint bound s =
     (let ds = (case s of c # cs \<Rightarrow> if c = CHR ''+'' then cs else s | [] \<Rightarrow> []) in
      if ds \<noteq> [] \<and> (\<forall>c\<in>set ds. is_digit c) \<and> digits_value ds \<le> bound then Some (digits_value ds)
      else None)"

definition u32_max :: nat where "u32_max = 4294967295"

definition parse_seed_bool :: "string \<Rightarrow> rg_error + bool" where
  "parse_seed_bool raw =
     (let s = to_ascii_lowercase (trim raw) in
      if s \<in> {''true'', ''1'', ''yes''} then Ok True
      else if s \<in> {''false'', ''0'', ''no''} then Ok False
      else Err (BadBool s))"

definition parse_row_source :: "string \<Rightarrow> rg_error + rg_source" where
  "parse_row_source raw =
     (let s = to_ascii_lowercase (trim raw) in
      if s = ''seed'' then Ok SrcSeed else if s = ''runtime'' then Ok SrcRuntime else Err (BadSource s))"

definition parse_row_status :: "string \<Rightarrow> rg_error + rg_status" where
  "parse_row_status raw =
     (let s = to_ascii_lowercase (trim raw) in
      if s = ''complete'' then Ok StComplete
      else if s = ''incomplete'' then Ok StIncomplete else Err (BadStatus s))"

definition required_date :: "text_lib \<Rightarrow> fmap \<Rightarrow> string \<Rightarrow> rg_error + naive_date" where
  "required_date tx m k =
     res_bind (required_field m k) (\<lambda>raw. ok_or (BadDate k raw) (tl_parse_date tx (trim raw)))"

definition required_f64 :: "text_lib \<Rightarrow> fmap \<Rightarrow> string \<Rightarrow> rg_error + f64" where
  "required_f64 tx m k =
     res_bind (required_field m k) (\<lambda>raw. ok_or (BadFloat k raw) (tl_parse_float tx raw))"

definition required_i64 :: "fmap \<Rightarrow> string \<Rightarrow> rg_error + i64" where
  "required_i64 m k = res_bind (required_field m k) (\<lambda>raw. ok_or (BadInt k raw) (parse_i64 raw))"

definition required_uint :: "nat \<Rightarrow> fmap \<Rightarrow> string \<Rightarrow> rg_error + nat" where
  "required_uint bound m k =
     res_bind (required_field m k) (\<lambda>raw. ok_or (BadInt k raw) (parse_uint bound raw))"

definition required_bool :: "fmap \<Rightarrow> string \<Rightarrow> rg_error + bool" where
  "required_bool m k = res_bind (required_field m k) parse_seed_bool"

text \<open>An optional field: \<open>None\<close> when it is missing or blank, otherwise read like a required one.\<close>

definition optional_field :: "(string \<Rightarrow> rg_error + 'a) \<Rightarrow> fmap \<Rightarrow> string \<Rightarrow> rg_error + 'a option" where
  "optional_field p m k =
     (case m k of
        None \<Rightarrow> Ok None
      | Some raw \<Rightarrow> if trim raw = [] then Ok None else res_bind (p raw) (\<lambda>v. Ok (Some v)))"

definition optional_date :: "text_lib \<Rightarrow> fmap \<Rightarrow> string \<Rightarrow> rg_error + naive_date option" where
  "optional_date tx m k =
     optional_field (\<lambda>raw. ok_or (BadDate k raw) (tl_parse_date tx (trim raw))) m k"

definition optional_f64 :: "text_lib \<Rightarrow> fmap \<Rightarrow> string \<Rightarrow> rg_error + f64 option" where
  "optional_f64 tx m k = optional_field (\<lambda>raw. ok_or (BadFloat k raw) (tl_parse_float tx raw)) m k"

definition optional_bool :: "fmap \<Rightarrow> string \<Rightarrow> rg_error + bool option" where
  "optional_bool m k = optional_field parse_seed_bool m k"

definition read_record :: "text_lib \<Rightarrow> fields \<Rightarrow> rg_error + ledger_record" where
  "read_record tx fs =
     (let m = field_map fs in
      res_bind (required_date tx m ''session_date'') (\<lambda>d.
      res_bind (required_field m ''profile_id'') (\<lambda>profile.
      res_bind (required_field m ''mr_variant'') (\<lambda>variant.
      res_bind (required_field m ''timeframe'') (\<lambda>timeframe.
      res_bind (required_field m ''session_policy'') (\<lambda>policy.
      res_bind (required_f64 tx m ''shadow_pnl_points'') (\<lambda>pnl.
      res_bind (required_uint u32_max m ''shadow_trade_count'') (\<lambda>n.
      res_bind (required_f64 tx m ''rolling_120_pnl_before_session'') (\<lambda>before.
      res_bind (required_bool m ''mr_enabled_for_session'') (\<lambda>enabled.
      res_bind (res_bind (required_field m ''source'') parse_row_source) (\<lambda>src.
      res_bind (res_bind (required_field m ''status'') parse_row_status) (\<lambda>status.
      res_bind (required_f64 tx m ''rolling_sum_lb120'') (\<lambda>rolling.
      res_bind (required_bool m ''mr_enabled_next_session'') (\<lambda>next_enabled.
      res_bind (required_field m ''model_version'') (\<lambda>version.
      res_bind (required_i64 m ''finalized_at_utc'') (\<lambda>ts.
      Ok \<lparr>lr_row = \<lparr>sr_date = d, sr_pnl = pnl, sr_trade_count = n, sr_rolling_before = before,
                    sr_mr_enabled = enabled, sr_source = src, sr_status = status\<rparr>,
          lr_profile_id = profile, lr_mr_variant = variant, lr_timeframe = timeframe,
          lr_session_policy = policy, lr_rolling_sum = rolling, lr_mr_enabled_next = next_enabled,
          lr_model_version = version, lr_finalized_at = ts\<rparr>))))))))))))))))"

definition read_state :: "text_lib \<Rightarrow> fields \<Rightarrow> rg_error + rg_state" where
  "read_state tx fs =
     (let m = field_map fs in
      res_bind (optional_date tx m ''last_finalized_session_date'') (\<lambda>last_date.
      res_bind (optional_f64 tx m ''rolling_sum_lb120'') (\<lambda>rolling.
      res_bind (optional_bool m ''mr_enabled_current_session'') (\<lambda>cur.
      res_bind (optional_bool m ''mr_enabled_next_session'') (\<lambda>nxt.
      res_bind (required_bool m ''seed_loaded'') (\<lambda>seed.
      res_bind (required_uint u64_max m ''ledger_rows_count'') (\<lambda>n.
      res_bind (optional_date tx m ''current_shadow_session_date'') (\<lambda>shadow.
      res_bind (required_f64 tx m ''current_shadow_pnl_points'') (\<lambda>pnl.
      res_bind (required_field m ''current_generation'') (\<lambda>generation.
      Ok \<lparr>rs_last_finalized = last_date, rs_rolling_sum = rolling, rs_mr_enabled_current = cur,
          rs_mr_enabled_next = nxt, rs_seed_loaded = seed, rs_rows_count = n,
          rs_shadow_date = shadow, rs_shadow_pnl = pnl, rs_generation = generation\<rparr>))))))))))"

section \<open>The seed file\<close>

text \<open>A row as the \<open>csv\<close> crate has deserialised it; the reader yields a row or an error (\<open>None\<close>).\<close>

record seed_csv_row =
  sc_date :: string
  sc_pnl :: f64
  sc_trade_count :: u32
  sc_rolling_before :: f64
  sc_mr_enabled :: string
  sc_source :: string
  sc_status :: string

fun seed_row :: "text_lib \<Rightarrow> seed_csv_row option \<Rightarrow> rg_error + session_row" where
  "seed_row tx None = Err BadSeedRow"
| "seed_row tx (Some raw) =
     res_bind (ok_or (BadSeedDate (sc_date raw)) (tl_parse_date tx (trim (sc_date raw)))) (\<lambda>d.
     res_bind (parse_seed_bool (sc_mr_enabled raw)) (\<lambda>enabled.
     res_bind (parse_row_source (sc_source raw)) (\<lambda>src.
     res_bind (parse_row_status (sc_status raw)) (\<lambda>status.
     Ok \<lparr>sr_date = d, sr_pnl = sc_pnl raw, sr_trade_count = sc_trade_count raw,
         sr_rolling_before = sc_rolling_before raw, sr_mr_enabled = enabled,
         sr_source = src, sr_status = status\<rparr>))))"

fun res_map :: "('a \<Rightarrow> 'e + 'b) \<Rightarrow> 'a list \<Rightarrow> 'e + 'b list" where
  "res_map f [] = Ok []"
| "res_map f (x # xs) = res_bind (f x) (\<lambda>y. res_bind (res_map f xs) (\<lambda>ys. Ok (y # ys)))"

definition parse_seed_rows :: "text_lib \<Rightarrow> seed_csv_row option list \<Rightarrow> rg_error + session_row list" where
  "parse_seed_rows tx raws =
     res_bind (res_map (seed_row tx) raws) (\<lambda>rows.
     res_bind (validate_ledger rows) (\<lambda>_. Ok rows))"

section \<open>Round trips\<close>

text \<open>What is relied on: a printed date is read back and has no blanks around it; every printed
  float is read, a representable one printed with \<open>to_string\<close> as itself, and so is a whole one
  printed with one decimal.\<close>

fun representable :: "f64 \<Rightarrow> bool" where
  "representable (Fin a) \<longleftrightarrow> rnd a = Fin a"
| "representable x \<longleftrightarrow> True"

definition text_documented :: "text_lib \<Rightarrow> bool" where
  "text_documented tx \<longleftrightarrow>
     (\<forall>d. tl_parse_date tx (tl_show_date tx d) = Some d
        \<and> trim (tl_show_date tx d) = tl_show_date tx d \<and> tl_show_date tx d \<noteq> [])
     \<and> (\<forall>x. tl_parse_float tx (tl_show_float tx x) \<noteq> None \<and> trim (tl_show_float tx x) \<noteq> []
        \<and> tl_parse_float tx (tl_show_tenth tx x) \<noteq> None \<and> trim (tl_show_tenth tx x) \<noteq> [])
     \<and> (\<forall>x. representable x \<longrightarrow> tl_parse_float tx (tl_show_float tx x) = Some x
        \<and> (f_fract x = Fin 0 \<longrightarrow> tl_parse_float tx (tl_show_tenth tx x) = Some x))"

text \<open>The float that is read back for a printed one, and the record that is read back.\<close>

definition stored_float :: "text_lib \<Rightarrow> f64 \<Rightarrow> f64" where
  "stored_float tx x = (case tl_parse_float tx (format_float tx x) of Some y \<Rightarrow> y | None \<Rightarrow> NaN)"

definition stored_row :: "text_lib \<Rightarrow> session_row \<Rightarrow> session_row" where
  "stored_row tx w = w\<lparr>sr_pnl := stored_float tx (sr_pnl w),
     sr_rolling_before := stored_float tx (sr_rolling_before w)\<rparr>"

definition stored_record :: "text_lib \<Rightarrow> ledger_record \<Rightarrow> ledger_record" where
  "stored_record tx r = r\<lparr>lr_row := stored_row tx (lr_row r),
     lr_rolling_sum := stored_float tx (lr_rolling_sum r)\<rparr>"

text \<open>A record that \<open>required_field\<close> will not refuse.\<close>

definition writable :: "ledger_record \<Rightarrow> bool" where
  "writable r \<longleftrightarrow> trim (lr_profile_id r) \<noteq> [] \<and> trim (lr_mr_variant r) \<noteq> [] \<and> trim (lr_timeframe r) \<noteq> []
     \<and> trim (lr_session_policy r) \<noteq> [] \<and> trim (lr_model_version r) \<noteq> []
     \<and> sr_trade_count (lr_row r) \<le> u32_max
     \<and> i64_min \<le> lr_finalized_at r \<and> lr_finalized_at r \<le> i64_max"

lemma trim_id:
  assumes "\<forall>c\<in>set s. \<not> is_whitespace c"
  shows "trim s = s"
proof -
  have "dropWhile is_whitespace t = t" if "\<forall>c\<in>set t. \<not> is_whitespace c" for t
    using that by (cases t) simp_all
  from this [of s] this [of "rev s"] assms show ?thesis by (simp add: trim_def)
qed

lemma digit_not_whitespace: "is_digit c \<Longrightarrow> \<not> is_whitespace c"
  by (auto simp: is_digit_def is_whitespace_def Let_def)

lemma trim_show_nat [simp]: "trim (show_nat n) = show_nat n"
  using show_nat_digits by (intro trim_id) (auto simp: digit_not_whitespace)

lemma trim_show_int [simp]: "trim (show_int k) = show_int k"
proof (rule trim_id)
  have "\<not> is_whitespace CHR ''-''" by (simp add: is_whitespace_def)
  then show "\<forall>c\<in>set (show_int k). \<not> is_whitespace c"
    using show_nat_digits digit_not_whitespace by (auto simp: show_int_def split: if_splits)
qed

lemma show_int_not_Nil [simp]: "show_int k \<noteq> []"
  by (simp add: show_int_def)

lemma parse_uint_show:
  assumes "n \<le> bound"
  shows "parse_uint bound (show_nat n) = Some n"
proof -
  obtain c cs where s: "show_nat n = c # cs" by (cases "show_nat n") auto
  from show_nat_no_sign [OF s] have "c \<noteq> CHR ''+''" by simp
  then have "(case show_nat n of c # cs \<Rightarrow> if c = CHR ''+'' then cs else show_nat n | [] \<Rightarrow> []) = show_nat n"
    by (simp add: s)
  then show ?thesis
    using show_nat_digits [of n] assms by (simp add: parse_uint_def digits_value_show_nat Let_def)
qed

lemma required_field_Some: "m k = Some v \<Longrightarrow> trim v \<noteq> [] \<Longrightarrow> required_field m k = Ok v"
  by (simp add: required_field_def)

lemma text_documentedD:
  assumes "text_documented tx"
  shows "tl_parse_date tx (tl_show_date tx d) = Some d" "trim (tl_show_date tx d) = tl_show_date tx d"
    "tl_show_date tx d \<noteq> []" "trim (format_float tx x) \<noteq> []"
    "tl_parse_float tx (format_float tx x) = Some (stored_float tx x)"
proof -
  show "tl_parse_date tx (tl_show_date tx d) = Some d" "trim (tl_show_date tx d) = tl_show_date tx d"
    "tl_show_date tx d \<noteq> []" "trim (format_float tx x) \<noteq> []"
    using assms by (auto simp: text_documented_def format_float_def)
  have "tl_parse_float tx (format_float tx x) \<noteq> None"
    using assms by (auto simp only: text_documented_def format_float_def split: if_splits)
  then show "tl_parse_float tx (format_float tx x) = Some (stored_float tx x)"
    by (auto simp: stored_float_def)
qed

lemma constants_read:
  "parse_seed_bool ''true'' = Ok True" "parse_seed_bool ''false'' = Ok False"
  "parse_row_source ''seed'' = Ok SrcSeed" "parse_row_source ''runtime'' = Ok SrcRuntime"
  "parse_row_status ''complete'' = Ok StComplete" "parse_row_status ''incomplete'' = Ok StIncomplete"
  "trim ''true'' \<noteq> []" "trim ''false'' \<noteq> []" "trim ''seed'' \<noteq> []" "trim ''runtime'' \<noteq> []"
  "trim ''complete'' \<noteq> []" "trim ''incomplete'' \<noteq> []"
  by code_simp+

lemma bool_field_read: "parse_seed_bool (bool_field b) = Ok b" "trim (bool_field b) \<noteq> []"
  using constants_read by (cases b; simp only: bool_field.simps)+

lemma source_read: "parse_row_source (source_str s) = Ok s" "trim (source_str s) \<noteq> []"
  using constants_read by (cases s; simp only: source_str.simps)+

lemma status_read: "parse_row_status (status_str t) = Ok t" "trim (status_str t) \<noteq> []"
  using constants_read by (cases t; simp only: status_str.simps)+

text \<open>One lookup for every field, so that a read is a rewriting of the field list.\<close>

lemma record_field_map:
  fixes tx :: text_lib and r :: ledger_record
  defines "m \<equiv> field_map (record_fields tx r)"
  shows "m ''session_date'' = Some (tl_show_date tx (sr_date (lr_row r)))"
    "m ''profile_id'' = Some (lr_profile_id r)" "m ''mr_variant'' = Some (lr_mr_variant r)"
    "m ''timeframe'' = Some (lr_timeframe r)"
    "m ''shadow_pnl_points'' = Some (format_float tx (sr_pnl (lr_row r)))"
    "m ''shadow_trade_count'' = Some (show_nat (sr_trade_count (lr_row r)))"
    "m ''rolling_120_pnl_before_session'' = Some (format_float tx (sr_rolling_before (lr_row r)))"
    "m ''mr_enabled_for_session'' = Some (bool_field (sr_mr_enabled (lr_row r)))"
    "m ''rolling_sum_lb120'' = Some (format_float tx (lr_rolling_sum r))"
    "m ''mr_enabled_next_session'' = Some (bool_field (lr_mr_enabled_next r))"
    "m ''source'' = Some (source_str (sr_source (lr_row r)))"
    "m ''status'' = Some (status_str (sr_status (lr_row r)))"
    "m ''session_policy'' = Some (lr_session_policy r)"
    "m ''model_version'' = Some (lr_model_version r)"
    "m ''finalized_at_utc'' = Some (show_int (lr_finalized_at r))"
  by (simp_all add: m_def field_map_def record_fields_def Let_def)

lemmas field_readers = required_date_def required_f64_def required_i64_def required_uint_def
  required_bool_def required_field_Some ok_or_def

lemma read_written_record:
  assumes "text_documented tx" "writable r"
  shows "read_record tx (record_fields tx r) = Ok (stored_record tx r)"
  using assms(2)
  by (simp add: read_record_def Let_def record_field_map field_readers text_documentedD [OF assms(1)]
      bool_field_read source_read status_read parse_uint_show parse_show_int writable_def
      stored_record_def stored_row_def)

text \<open>The state, with the floats as they are read back. An optional field that is \<open>None\<close> is not
  written, so it is \<open>None\<close> again only where the hash did not have it.\<close>

definition stored_state :: "text_lib \<Rightarrow> rg_state \<Rightarrow> rg_state" where
  "stored_state tx s = s\<lparr>rs_rolling_sum := map_option (stored_float tx) (rs_rolling_sum s),
     rs_shadow_pnl := stored_float tx (rs_shadow_pnl s)\<rparr>"

lemma state_field_map:
  fixes tx :: text_lib and s :: rg_state
  defines "m \<equiv> field_map (state_fields tx s)"
  shows "m ''seed_loaded'' = Some (bool_field (rs_seed_loaded s))"
    "m ''ledger_rows_count'' = Some (show_nat (rs_rows_count s))"
    "m ''current_shadow_pnl_points'' = Some (format_float tx (rs_shadow_pnl s))"
    "m ''current_generation'' = Some (rs_generation s)"
    "m ''last_finalized_session_date'' = map_option (tl_show_date tx) (rs_last_finalized s)"
    "m ''rolling_sum_lb120'' = map_option (format_float tx) (rs_rolling_sum s)"
    "m ''mr_enabled_current_session'' = map_option bool_field (rs_mr_enabled_current s)"
    "m ''mr_enabled_next_session'' = map_option bool_field (rs_mr_enabled_next s)"
    "m ''current_shadow_session_date'' = map_option (tl_show_date tx) (rs_shadow_date s)"
  by (cases "rs_last_finalized s"; cases "rs_rolling_sum s"; cases "rs_mr_enabled_current s";
      cases "rs_mr_enabled_next s"; cases "rs_shadow_date s";
      simp add: m_def field_map_def state_fields_def push_optional_def)+

lemma read_written_state:
  assumes "text_documented tx" "rs_rows_count s \<le> u64_max" "trim (rs_generation s) \<noteq> []"
  shows "read_state tx (state_fields tx s) = Ok (stored_state tx s)"
proof -
  note docs = text_documentedD [OF assms(1)]
  have "optional_date tx (field_map (state_fields tx s)) ''last_finalized_session_date'' = Ok (rs_last_finalized s)"
    "optional_date tx (field_map (state_fields tx s)) ''current_shadow_session_date'' = Ok (rs_shadow_date s)"
    by (cases "rs_last_finalized s"; cases "rs_shadow_date s";
        simp add: optional_date_def optional_field_def state_field_map docs ok_or_def)+
  moreover have "optional_bool (field_map (state_fields tx s)) ''mr_enabled_current_session'' = Ok (rs_mr_enabled_current s)"
    "optional_bool (field_map (state_fields tx s)) ''mr_enabled_next_session'' = Ok (rs_mr_enabled_next s)"
    by (cases "rs_mr_enabled_current s"; cases "rs_mr_enabled_next s";
        simp add: optional_bool_def optional_field_def state_field_map bool_field_read)+
  moreover have "optional_f64 tx (field_map (state_fields tx s)) ''rolling_sum_lb120''
      = Ok (map_option (stored_float tx) (rs_rolling_sum s))"
    by (cases "rs_rolling_sum s") (simp_all add: optional_f64_def optional_field_def state_field_map docs ok_or_def)
  ultimately show ?thesis
    using assms(2,3)
    by (simp add: read_state_def Let_def state_field_map field_readers docs bool_field_read parse_uint_show stored_state_def)
qed

text \<open>A float the ledger keeps exactly: whole, or with a fraction that \<open>format_float\<close> does not
  drop.\<close>

definition kept_float :: "f64 \<Rightarrow> bool" where
  "kept_float x \<longleftrightarrow> representable x \<and> (f_fract x = Fin 0 \<or> \<not> \<bar>f_fract x\<bar> \<le> f64_epsilon)"

lemma stored_kept_float:
  assumes "text_documented tx" "kept_float x"
  shows "stored_float tx x = x"
proof -
  have "tl_parse_float tx (format_float tx x) = Some x"
    using assms by (auto simp: text_documented_def format_float_def kept_float_def)
  then show ?thesis by (simp add: stored_float_def)
qed

text \<open>C40. A ledger record written to Redis is read back as itself: every field is found under its
  name and parsed to the value it was printed from, for every record with non-blank identity
  fields whose floats are whole or have a fraction of more than \<open>f64::EPSILON\<close>.\<close>

theorem ledger_record_read_back:
  assumes "text_documented tx" "writable r"
    and "kept_float (sr_pnl (lr_row r))" "kept_float (sr_rolling_before (lr_row r))"
    and "kept_float (lr_rolling_sum r)"
  shows "read_record tx (record_fields tx r) = Ok r"
  using read_written_record [OF assms(1,2)] assms(3-5)
  by (simp add: stored_record_def stored_row_def stored_kept_float [OF assms(1)])

text \<open>A text library for the examples: dates as day numbers, floats as fractions.\<close>

definition read_int :: "string \<Rightarrow> int" where
  "read_int s = (case s of c # cs \<Rightarrow> if c = CHR ''-'' then - int (digits_value cs) else int (digits_value s)
                 | [] \<Rightarrow> 0)"

lemma read_show_int [simp]: "read_int (show_int k) = k"
proof (cases "k < 0")
  case True
  then show ?thesis by (simp add: show_int_def read_int_def digits_value_show_nat)
next
  case False
  obtain c cs where s: "show_nat (nat k) = c # cs" by (cases "show_nat (nat k)") auto
  with False show_nat_no_sign [OF s] digits_value_show_nat [of "nat k"] show ?thesis
    by (simp add: show_int_def read_int_def)
qed

fun show_fraction :: "f64 \<Rightarrow> string" where
  "show_fraction (Fin a) = show_int (fst (quotient_of a)) @ ''/'' @ show_int (snd (quotient_of a))"
| "show_fraction NaN = ''NaN''"
| "show_fraction PInf = ''inf''"
| "show_fraction NInf = ''-inf''"

definition read_fraction :: "string \<Rightarrow> f64 option" where
  "read_fraction s =
     (if s = ''NaN'' then Some NaN else if s = ''inf'' then Some PInf
      else if s = ''-inf'' then Some NInf
      else if CHR ''/'' \<in> set s
        then Some (Fin (of_int (read_int (takeWhile (\<lambda>c. c \<noteq> CHR ''/'') s))
                        / of_int (read_int (tl (dropWhile (\<lambda>c. c \<noteq> CHR ''/'') s)))))
      else None)"

definition sample_text :: text_lib where
  "sample_text = \<lparr>tl_show_date = show_int, tl_parse_date = (\<lambda>s. Some (read_int s)),
     tl_show_tenth = show_fraction, tl_show_float = show_fraction, tl_parse_float = read_fraction,
     tl_date_min = - 96465658\<rparr>"

lemma show_int_no_slash: "CHR ''/'' \<notin> set (show_int k)"
proof -
  have "\<not> is_digit CHR ''/''" by (simp add: is_digit_def)
  then show ?thesis using show_nat_digits [of "nat k"] show_nat_digits [of "nat (- k)"]
    by (auto simp: show_int_def)
qed

lemma takeWhile_slash: "takeWhile (\<lambda>c. c \<noteq> CHR ''/'') (show_int k @ CHR ''/'' # s) = show_int k"
  "dropWhile (\<lambda>c. c \<noteq> CHR ''/'') (show_int k @ CHR ''/'' # s) = CHR ''/'' # s"
  using show_int_no_slash [of k] by (subst takeWhile_append2 dropWhile_append2; auto)+

lemma read_show_fraction [simp]: "read_fraction (show_fraction x) = Some x"
proof (cases x)
  case (Fin a)
  obtain n d where nd: "quotient_of a = (n, d)" by fastforce
  have "CHR ''/'' \<in> set (show_fraction x)" using Fin by simp
  moreover have "show_fraction x \<noteq> ''NaN''" "show_fraction x \<noteq> ''inf''" "show_fraction x \<noteq> ''-inf''"
    using calculation by auto
  ultimately show ?thesis
    using Fin nd quotient_of_div [OF nd] by (simp add: read_fraction_def takeWhile_slash)
qed (simp_all add: read_fraction_def)

lemma trim_fraction [simp]: "trim (show_fraction x) \<noteq> []"
proof -
  have ws: "\<not> is_whitespace CHR ''/''" "\<not> is_whitespace CHR ''-''" by (simp_all add: is_whitespace_def)
  have "\<forall>c\<in>set (show_int k). \<not> is_whitespace c" for k
    using show_nat_digits digit_not_whitespace ws(2) by (auto simp: show_int_def split: if_splits)
  then have "trim (show_fraction (Fin a)) = show_fraction (Fin a)" for a
    using ws by (intro trim_id) auto
  moreover have "trim ''NaN'' \<noteq> []" "trim ''inf'' \<noteq> []" "trim ''-inf'' \<noteq> []" by code_simp+
  ultimately show ?thesis by (cases x) auto
qed

lemma sample_text_documented: "text_documented sample_text"
  by (simp add: text_documented_def sample_text_def)

definition sample_row :: "naive_date \<Rightarrow> rat \<Rightarrow> session_row" where
  "sample_row d pnl = \<lparr>sr_date = d, sr_pnl = Fin pnl, sr_trade_count = 2, sr_rolling_before = 0,
     sr_mr_enabled = False, sr_source = SrcSeed, sr_status = StComplete\<rparr>"

definition sample_record :: ledger_record where
  "sample_record = \<lparr>lr_row = sample_row 20000 (- 5 / 2), lr_profile_id = ''p'', lr_mr_variant = ''high180'',
     lr_timeframe = ''10m'', lr_session_policy = ''Mon-Fri'', lr_rolling_sum = Fin (15 / 2),
     lr_mr_enabled_next = True, lr_model_version = ''v1'', lr_finalized_at = 1728000000\<rparr>"

lemma ledger_record_read_back_witness:
  "read_record sample_text (record_fields sample_text sample_record) = Ok sample_record"
proof (rule ledger_record_read_back [OF sample_text_documented])
  have "trim ''p'' \<noteq> []" "trim ''high180'' \<noteq> []" "trim ''10m'' \<noteq> []" "trim ''Mon-Fri'' \<noteq> []"
    "trim ''v1'' \<noteq> []" by code_simp+
  then show "writable sample_record"
    by (simp add: writable_def sample_record_def sample_row_def u32_max_def i64_min_def i64_max_def)
next
  have "\<lfloor>5 / 2 :: rat\<rfloor> = 2" "\<lfloor>15 / 2 :: rat\<rfloor> = 7" by (simp_all add: floor_eq_iff)
  then show "kept_float (sr_pnl (lr_row sample_record))"
    "kept_float (sr_rolling_before (lr_row sample_record))" "kept_float (lr_rolling_sum sample_record)"
    by (simp_all add: sample_record_def sample_row_def kept_float_def f64_epsilon_def zero_f64_def)
qed

end
