(* ===== verification/Risk_Gate_Store.thy ===== *)
theory Risk_Gate_Store
  imports Risk_Gate_Codec
begin

text \<open>
  The ledger in Redis (\<open>risk_gate_store.rs\<close>, the session script of \<open>redis_transport.rs\<close>) and its
  place in the runtime (\<open>runtime.rs\<close>): the settings, the start, the append of a finished session
  and the flush that acknowledges finished sessions to the strategy.

  Redis is a parameter: the record \<open>redis\<close> of the commands the code sends. A command that
  reaches the server may be refused by it (\<open>XADD\<close> and \<open>HSET\<close> on a full or wrongly typed key), a call
  may be lost on the way or its reply on the way back; \<open>call_outcome\<close> says which, one for every
  call in the order they are made, and calls beyond the list succeed.
\<close>

section \<open>Settings\<close>

datatype config_error =
    BadMode string | GateDisabled | BadPolicy string | BadProfile string | BadVariant string
  | BadLedgerKey string | KeyStrategyMismatch string string | KeyProfileMismatch string string
  | SeedRequired | BadStartTime string | BadEndTime string | IncompleteTransition | BadTransition string

definition parse_startup_mode :: "string \<Rightarrow> config_error + rg_startup_mode option" where
  "parse_startup_mode raw =
     (let s = to_ascii_lowercase (trim raw) in
      if s \<in> {'''', ''disabled'', ''none'', ''shadow_only''} then Ok None
      else if s = ''bootstrap_from_seed'' then Ok (Some BootstrapFromSeed)
      else if s = ''normal_append'' then Ok (Some NormalAppend)
      else if s = ''rebuild_from_history'' then Ok (Some RebuildFromHistory)
      else if s = ''enforced'' then Ok (Some NormalAppend)
      else Err (BadMode s))"

definition mr_gate_policy_enabled :: "string \<Rightarrow> config_error + bool" where
  "mr_gate_policy_enabled raw =
     (let s = to_ascii_lowercase (trim raw) in
      if s \<in> {'''', ''disabled'', ''none''} then Ok False
      else if s \<in> {''shadow_pnl_lb120_positive'', ''riskgate_high180_lb120''} then Ok True
      else Err (BadPolicy s))"

definition parse_profile_id :: "string \<Rightarrow> config_error + string" where
  "parse_profile_id raw =
     (let s = to_ascii_lowercase (trim raw) in
      if s \<in> {''imoexf_primary_riskgate'', ''imoexf_primary_riskgate_high180_lb120'',
             ''imoexf_primary_riskgate_k053'', ''hybrid_mr_riskgate_high180_lb120__bo_new_k053''}
      then Ok ''imoexf_primary_high180_lb120'' else Err (BadProfile s))"

definition parse_mr_variant :: "string \<Rightarrow> config_error + string" where
  "parse_mr_variant raw =
     (let s = to_ascii_lowercase (trim raw) in
      if s = ''high180'' then Ok ''high180'' else Err (BadVariant s))"

fun strip_prefix :: "string \<Rightarrow> string \<Rightarrow> string option" where
  "strip_prefix [] s = Some s"
| "strip_prefix (p # ps) [] = None"
| "strip_prefix (p # ps) (c # cs) = (if p = c then strip_prefix ps cs else None)"

text \<open>\<open>splitn(2, '.')\<close> of the rest of the key: up to the first dot, and what follows it if there
  is one.\<close>

definition parse_ledger_stream_identity :: "string \<Rightarrow> config_error + string \<times> string" where
  "parse_ledger_stream_identity raw =
     (let t = trim raw in
      case strip_prefix ''runtime.riskgate.sessions.'' t of
        None \<Rightarrow> Err (BadLedgerKey t)
      | Some rest \<Rightarrow>
          let a = takeWhile (\<lambda>c. c \<noteq> CHR ''.'') rest; b = dropWhile (\<lambda>c. c \<noteq> CHR ''.'') rest in
          if a = [] \<or> b = [] \<or> tl b = [] then Err (BadLedgerKey t) else Ok (a, tl b))"

text \<open>Times of day as \<open>chrono\<close> reads them with \<open>%H:%M:%S\<close> and prints them with \<open>%H:%M\<close>.\<close>

record time_lib =
  tm_parse :: "string \<Rightarrow> naive_time option"
  tm_show :: "naive_time \<Rightarrow> string"

definition session_policy_from_config :: "time_lib \<Rightarrow> string \<Rightarrow> string \<Rightarrow> config_error + string" where
  "session_policy_from_config tm start_raw end_raw =
     (let s = trim start_raw; e = trim end_raw in
      if s = [] \<and> e = [] then Ok ''Mon-Fri 09:00..23:49''
      else
        let s1 = (if s = [] then ''09:00:00'' else s); e1 = (if e = [] then ''23:49:59'' else e) in
        res_bind (ok_or (BadStartTime s1) (tm_parse tm s1)) (\<lambda>a.
        res_bind (ok_or (BadEndTime e1) (tm_parse tm e1)) (\<lambda>b.
        Ok (''Mon-Fri '' @ tm_show tm a @ ''..'' @ tm_show tm b))))"

definition legacy_policy_transition ::
  "text_lib \<Rightarrow> time_lib \<Rightarrow> string option \<Rightarrow> string option \<Rightarrow> string option
   \<Rightarrow> config_error + string option \<times> naive_date option" where
  "legacy_policy_transition tx tm start_raw end_raw date_raw =
     (case (start_raw, end_raw, date_raw) of
        (None, None, None) \<Rightarrow> Ok (None, None)
      | (Some s, Some e, Some d) \<Rightarrow>
          res_bind (session_policy_from_config tm s e) (\<lambda>policy.
          res_bind (ok_or (BadTransition d) (tl_parse_date tx (trim d))) (\<lambda>date.
          Ok (Some policy, Some date)))
      | _ \<Rightarrow> Err IncompleteTransition)"

text \<open>\<open>Path::file_stem\<close>: the last component without its extension.\<close>

fun split_on :: "char \<Rightarrow> string \<Rightarrow> string list" where
  "split_on x [] = [[]]"
| "split_on x (c # cs) =
     (if c = x then [] # split_on x cs
      else case split_on x cs of w # ws \<Rightarrow> (c # w) # ws | [] \<Rightarrow> [[c]])"

definition file_stem :: "string \<Rightarrow> string option" where
  "file_stem path =
     (let parts = filter (\<lambda>w. w \<noteq> [] \<and> w \<noteq> ''.'') (split_on (CHR ''/'') path) in
      if parts = [] \<or> last parts = ''..'' then None
      else let name = last parts; ext = rev (takeWhile (\<lambda>c. c \<noteq> CHR ''.'') (rev name));
               stem = take (length name - length ext - 1) name
           in if CHR ''.'' \<notin> set name \<or> stem = [] then Some name else Some stem)"

definition model_version_from_seed_file :: "string option \<Rightarrow> string" where
  "model_version_from_seed_file seed =
     (case Option.bind seed file_stem of Some s \<Rightarrow> s | None \<Rightarrow> ''runtime-ledger-v1'')"

definition local_session_date :: "chrono_lib \<Rightarrow> i64 \<Rightarrow> i32 \<Rightarrow> naive_date option" where
  "local_session_date ch ts offset_hours =
     (let s = sat_mul_i32 offset_hours 3600 in
      if east_ok ch s \<and> utc_ok ch ts then Some (dt_date (of_timestamp (ts + s))) else None)"

text \<open>The settings of the hybrid strategy that the risk gate reads.\<close>

record rg_settings =
  rgs_strategy_id :: string
  rgs_offset_hours :: i32
  rgs_mode :: string
  rgs_policy :: string
  rgs_profile :: string
  rgs_mr_variant :: string
  rgs_ledger_key :: "string option"
  rgs_seed_file :: "string option"
  rgs_session_start :: string
  rgs_session_end :: string
  rgs_legacy_start :: "string option"
  rgs_legacy_end :: "string option"
  rgs_transition_date :: "string option"

record rg_store_config =
  rc_identity :: rg_identity
  rc_mode :: rg_startup_mode
  rc_seed_file :: "string option"
  rc_shadow_date :: "naive_date option"
  rc_finalized_at :: i64
  rc_scan_count :: nat

definition recovery_scan_count :: nat where "recovery_scan_count = 256"
definition continuity_lookback_days :: i64 where "continuity_lookback_days = 21"

text \<open>The strategy id, which a configured ledger key must repeat.\<close>

definition checked_strategy_id :: "rg_settings \<Rightarrow> string \<Rightarrow> config_error + string" where
  "checked_strategy_id st profile =
     (case rgs_ledger_key st of
        None \<Rightarrow> Ok (rgs_strategy_id st)
      | Some raw \<Rightarrow>
          res_bind (parse_ledger_stream_identity raw) (\<lambda>(s, p).
            if s \<noteq> rgs_strategy_id st then Err (KeyStrategyMismatch (rgs_strategy_id st) s)
            else if p \<noteq> profile then Err (KeyProfileMismatch profile p)
            else Ok s))"

text \<open>The settings of a strategy of another kind are \<open>None\<close>.\<close>

definition startup_store_config ::
  "text_lib \<Rightarrow> time_lib \<Rightarrow> chrono_lib \<Rightarrow> rg_settings option \<Rightarrow> i64
   \<Rightarrow> config_error + rg_store_config option" where
  "startup_store_config tx tm ch settings ts =
     (case settings of None \<Rightarrow> Ok None | Some st \<Rightarrow>
      res_bind (parse_startup_mode (rgs_mode st)) (\<lambda>mode_opt.
      case mode_opt of None \<Rightarrow> Ok None | Some mode \<Rightarrow>
      res_bind (mr_gate_policy_enabled (rgs_policy st)) (\<lambda>enabled.
      if \<not> enabled then Err GateDisabled else
      res_bind (parse_profile_id (rgs_profile st)) (\<lambda>profile.
      res_bind (parse_mr_variant (rgs_mr_variant st)) (\<lambda>variant.
      res_bind (checked_strategy_id st profile) (\<lambda>sid.
      if mode \<in> {BootstrapFromSeed, RebuildFromHistory} \<and> rgs_seed_file st = None then Err SeedRequired else
      res_bind (session_policy_from_config tm (rgs_session_start st) (rgs_session_end st)) (\<lambda>policy.
      res_bind (legacy_policy_transition tx tm (rgs_legacy_start st) (rgs_legacy_end st)
                 (rgs_transition_date st)) (\<lambda>(legacy, transition).
      Ok (Some \<lparr>rc_identity = \<lparr>ri_strategy_id = sid, ri_profile_id = profile, ri_mr_variant = variant,
                  ri_timeframe = ''10m'', ri_session_policy = policy, ri_legacy_policy = legacy,
                  ri_transition_date = transition,
                  ri_model_version = model_version_from_seed_file (rgs_seed_file st)\<rparr>,
                rc_mode = mode, rc_seed_file = rgs_seed_file st,
                rc_shadow_date = local_session_date ch ts (rgs_offset_hours st),
                rc_finalized_at = ts, rc_scan_count = recovery_scan_count\<rparr>)))))))))"

section \<open>Redis\<close>

record 's redis =
  rd_exists :: "string \<Rightarrow> 's \<Rightarrow> bool"
  rd_set :: "string \<Rightarrow> string \<Rightarrow> 's \<Rightarrow> 's"
  rd_xadd :: "string \<Rightarrow> fields \<Rightarrow> 's \<Rightarrow> 's option"
  rd_xrevrange :: "string \<Rightarrow> nat \<Rightarrow> 's \<Rightarrow> fields list"
  rd_hset :: "string \<Rightarrow> fields \<Rightarrow> 's \<Rightarrow> 's option"
  rd_hgetall :: "string \<Rightarrow> 's \<Rightarrow> fields"

datatype call_outcome = CallDone | CallLost | ReplyLost

datatype store_error =
  StIo | StRg rg_error | StSeedUnreadable | StEmptySession | StNoRecord | StConfig config_error

record 's link =
  lk_store :: 's
  lk_outcomes :: "call_outcome list"

type_synonym ('s, 'a) store_op = "'s link \<Rightarrow> 's link \<times> (store_error + 'a)"

definition st_bind :: "('s, 'a) store_op \<Rightarrow> ('a \<Rightarrow> ('s, 'b) store_op) \<Rightarrow> ('s, 'b) store_op" where
  "st_bind m f l = (case m l of (l1, Err e) \<Rightarrow> (l1, Err e) | (l1, Ok x) \<Rightarrow> f x l1)"

definition st_return :: "'a \<Rightarrow> ('s, 'a) store_op" where
  "st_return x l = (l, Ok x)"

definition st_lift :: "(rg_error + 'a) \<Rightarrow> ('s, 'a) store_op" where
  "st_lift r l = (l, case r of Err e \<Rightarrow> Err (StRg e) | Ok x \<Rightarrow> Ok x)"

text \<open>One call: what the server does with it, and whether the reply arrives. \<open>None\<close> is a reply with
  an error.\<close>

definition redis_call :: "('s \<Rightarrow> 's \<times> 'a option) \<Rightarrow> ('s, 'a) store_op" where
  "redis_call act l =
     (let done = act (lk_store l); rest = tl (lk_outcomes l);
          reply = (case snd done of Some x \<Rightarrow> Ok x | None \<Rightarrow> Err StIo)
      in case lk_outcomes l of
           [] \<Rightarrow> (l\<lparr>lk_store := fst done\<rparr>, reply)
         | CallDone # _ \<Rightarrow> (l\<lparr>lk_store := fst done, lk_outcomes := rest\<rparr>, reply)
         | CallLost # _ \<Rightarrow> (l\<lparr>lk_outcomes := rest\<rparr>, Err StIo)
         | ReplyLost # _ \<Rightarrow> (l\<lparr>lk_store := fst done, lk_outcomes := rest\<rparr>, Err StIo))"

text \<open>The script: the session is marked, written and the state updated, unless the mark was there.
  Redis does not undo the commands before the one that fails.\<close>

definition session_write_script ::
  "'s redis \<Rightarrow> string \<Rightarrow> string \<Rightarrow> string \<Rightarrow> fields \<Rightarrow> fields \<Rightarrow> 's \<Rightarrow> 's \<times> bool option" where
  "session_write_script rd fin_key stream skey session st s =
     (if rd_exists rd fin_key s then (s, Some False)
      else
        let s1 = rd_set rd fin_key ''1'' s in
        case rd_xadd rd stream session s1 of
          None \<Rightarrow> (s1, None)
        | Some s2 \<Rightarrow>
            if st = [] then (s2, Some True)
            else case rd_hset rd skey st s2 of None \<Rightarrow> (s2, None) | Some s3 \<Rightarrow> (s3, Some True))"

definition write_session_if_new ::
  "'s redis \<Rightarrow> rg_keys \<Rightarrow> fields \<Rightarrow> fields \<Rightarrow> ('s, bool) store_op" where
  "write_session_if_new rd keys session st l =
     (if session = [] then (l, Err StEmptySession)
      else redis_call
        (session_write_script rd (rk_finalized_key keys) (rk_ledger_stream keys) (rk_state_key keys) session st) l)"

definition hset_fields :: "'s redis \<Rightarrow> string \<Rightarrow> fields \<Rightarrow> ('s, unit) store_op" where
  "hset_fields rd key fs l =
     (if fs = [] then (l, Ok ())
      else redis_call (\<lambda>s. case rd_hset rd key fs s of None \<Rightarrow> (s, None) | Some s1 \<Rightarrow> (s1, Some ())) l)"

section \<open>The store\<close>

definition load_ledger_records ::
  "text_lib \<Rightarrow> 's redis \<Rightarrow> string \<Rightarrow> nat \<Rightarrow> ('s, ledger_record list) store_op" where
  "load_ledger_records tx rd stream n =
     st_bind (redis_call (\<lambda>s. (s, Some (rd_xrevrange rd stream n s))))
       (\<lambda>msgs. st_lift (res_map (read_record tx) msgs))"

definition load_materialized_state ::
  "text_lib \<Rightarrow> 's redis \<Rightarrow> string \<Rightarrow> ('s, rg_state option) store_op" where
  "load_materialized_state tx rd key =
     st_bind (redis_call (\<lambda>s. (s, Some (rd_hgetall rd key s))))
       (\<lambda>fs. if fs = [] then st_return None
             else st_lift (res_bind (read_state tx fs) (\<lambda>st. Ok (Some st))))"

text \<open>The seed file: \<open>None\<close> when none is configured, and \<open>Some None\<close> when it cannot be opened.\<close>

definition load_seed_rows ::
  "text_lib \<Rightarrow> seed_csv_row option list option option \<Rightarrow> ('s, session_row list) store_op" where
  "load_seed_rows tx file =
     (case file of
        None \<Rightarrow> st_return []
      | Some None \<Rightarrow> (\<lambda>l. (l, Err StSeedUnreadable))
      | Some (Some raws) \<Rightarrow> st_lift (parse_seed_rows tx raws))"

record rg_write_summary =
  ws_attempted :: nat
  ws_inserted :: nat
  ws_duplicate :: nat
  ws_refreshed :: bool

fun write_records ::
  "text_lib \<Rightarrow> 's redis \<Rightarrow> rg_identity \<Rightarrow> ledger_record list \<Rightarrow> nat \<times> nat \<Rightarrow> ('s, nat \<times> nat) store_op" where
  "write_records tx rd idt [] counts = st_return counts"
| "write_records tx rd idt (r # recs) (ins, dup) =
     st_bind (write_session_if_new rd
         (keys_for_profile tx (ri_strategy_id idt) (ri_profile_id idt) (sr_date (lr_row r)))
         (record_fields tx r) [])
       (\<lambda>inserted. write_records tx rd idt recs (if inserted then (ins + 1, dup) else (ins, dup + 1)))"

definition persist_artifacts ::
  "text_lib \<Rightarrow> 's redis \<Rightarrow> rg_identity \<Rightarrow> rg_artifacts \<Rightarrow> ('s, rg_write_summary) store_op" where
  "persist_artifacts tx rd idt a =
     st_bind (st_lift (validate_identity idt (ra_to_write a))) (\<lambda>_.
     st_bind (write_records tx rd idt (ra_to_write a) (0, 0)) (\<lambda>(ins, dup).
     st_bind (hset_fields rd
         (rk_state_key (keys_for_profile tx (ri_strategy_id idt) (ri_profile_id idt)
           (case rs_last_finalized (ra_state a) of Some d \<Rightarrow> d | None \<Rightarrow> tl_date_min tx)))
         (state_fields tx (ra_state a))) (\<lambda>_.
     st_return \<lparr>ws_attempted = length (ra_to_write a), ws_inserted = ins, ws_duplicate = dup,
       ws_refreshed = True\<rparr>)))"

record rg_startup_result =
  ru_existing_loaded :: nat
  ru_previous_state :: "rg_state option"
  ru_artifacts :: rg_artifacts
  ru_summary :: rg_write_summary
  ru_gaps :: "naive_date list"

definition run_startup_store ::
  "text_lib \<Rightarrow> 's redis \<Rightarrow> rg_store_config \<Rightarrow> seed_csv_row option list option option
   \<Rightarrow> ('s, rg_startup_result) store_op" where
  "run_startup_store tx rd cfg file =
     (let idt = rc_identity cfg;
          keys = keys_for_profile tx (ri_strategy_id idt) (ri_profile_id idt)
            (case rc_shadow_date cfg of Some d \<Rightarrow> d | None \<Rightarrow> tl_date_min tx)
      in
      st_bind (load_ledger_records tx rd (rk_ledger_stream keys) (max 1 (rc_scan_count cfg))) (\<lambda>existing.
      st_bind (load_materialized_state tx rd (rk_state_key keys)) (\<lambda>previous.
      st_bind (load_seed_rows tx file) (\<lambda>seed.
      st_bind (st_lift (plan_startup (rc_mode cfg) existing seed idt (rc_shadow_date cfg)
                 (rc_finalized_at cfg))) (\<lambda>a.
      st_bind (persist_artifacts tx rd idt a) (\<lambda>summary.
      st_bind (st_lift (rows_from_records (ra_records a))) (\<lambda>rows.
      st_bind (st_lift (recent_weekday_gaps rows continuity_lookback_days)) (\<lambda>gaps.
      st_return \<lparr>ru_existing_loaded = length existing, ru_previous_state = previous,
        ru_artifacts = a, ru_summary = summary, ru_gaps = gaps\<rparr>))))))))"

record rg_finalization =
  fz_date :: naive_date
  fz_pnl :: f64
  fz_trade_count :: u32

record rg_append_result =
  ap_summary :: rg_write_summary
  ap_state :: "rg_state option"

definition append_runtime_session ::
  "text_lib \<Rightarrow> 's redis \<Rightarrow> rg_identity \<Rightarrow> rg_finalization \<Rightarrow> i64 \<Rightarrow> nat
   \<Rightarrow> ('s, rg_append_result) store_op" where
  "append_runtime_session tx rd idt fz ts scan =
     (let keys = keys_for_profile tx (ri_strategy_id idt) (ri_profile_id idt) (fz_date fz) in
      st_bind (load_ledger_records tx rd (rk_ledger_stream keys) (max 1 scan)) (\<lambda>existing.
      st_bind (st_lift (validate_identity idt existing)) (\<lambda>_.
      st_bind (st_lift (rows_from_records existing)) (\<lambda>rows.
      if list_ex (\<lambda>r. sr_date r = fz_date fz) rows then
        st_return \<lparr>ap_summary = \<lparr>ws_attempted = 1, ws_inserted = 0, ws_duplicate = 1, ws_refreshed = False\<rparr>,
          ap_state = None\<rparr>
      else
        st_bind (st_lift (build_runtime_row rows (fz_date fz) (fz_pnl fz) (fz_trade_count fz))) (\<lambda>row.
        st_bind (st_lift (build_records (rows @ [row]) idt ts)) (\<lambda>recs.
        if recs = [] then (\<lambda>l. (l, Err StNoRecord)) else
        st_bind (st_lift (rebuild_state recs None 0 (has_seed recs))) (\<lambda>st.
        st_bind (write_session_if_new rd keys (record_fields tx (last recs)) (state_fields tx st)) (\<lambda>inserted.
        st_return \<lparr>ap_summary = \<lparr>ws_attempted = 1, ws_inserted = of_bool inserted,
             ws_duplicate = of_bool (\<not> inserted), ws_refreshed = inserted\<rparr>,
           ap_state = (if inserted then Some st else None)\<rparr>))))))))"

section \<open>What is relied on of Redis\<close>

text \<open>\<open>entries\<close> is the content of a stream, oldest first (\<open>XRANGE key - +\<close>). A stream gains exactly the
  added entry, other keys are left alone, \<open>XREVRANGE\<close> reads the newest entries first, and
  \<open>HSET\<close> overwrites the named fields only.\<close>

definition xadd_documented :: "'s redis \<Rightarrow> (string \<Rightarrow> 's \<Rightarrow> fields list) \<Rightarrow> bool" where
  "xadd_documented rd entries \<longleftrightarrow> (\<forall>k f s s1 k1. rd_xadd rd k f s = Some s1 \<longrightarrow>
     entries k1 s1 = (if k1 = k then entries k s @ [f] else entries k1 s)
     \<and> (k1 \<noteq> k \<longrightarrow> rd_exists rd k1 s1 = rd_exists rd k1 s))"

definition set_documented :: "'s redis \<Rightarrow> (string \<Rightarrow> 's \<Rightarrow> fields list) \<Rightarrow> bool" where
  "set_documented rd entries \<longleftrightarrow> (\<forall>k v s k1.
     (k1 \<noteq> k \<longrightarrow> entries k1 (rd_set rd k v s) = entries k1 s)
     \<and> (rd_exists rd k1 (rd_set rd k v s) \<longleftrightarrow> k1 = k \<or> rd_exists rd k1 s))"

definition hset_documented :: "'s redis \<Rightarrow> (string \<Rightarrow> 's \<Rightarrow> fields list) \<Rightarrow> bool" where
  "hset_documented rd entries \<longleftrightarrow> (\<forall>k f s s1 k1. rd_hset rd k f s = Some s1 \<longrightarrow>
     entries k1 s1 = entries k1 s \<and> (k1 \<noteq> k \<longrightarrow> rd_exists rd k1 s1 = rd_exists rd k1 s)
     \<and> field_map (rd_hgetall rd k s1) = field_map (rd_hgetall rd k s) ++ field_map f)"

definition redis_documented :: "'s redis \<Rightarrow> (string \<Rightarrow> 's \<Rightarrow> fields list) \<Rightarrow> bool" where
  "redis_documented rd entries \<longleftrightarrow>
     (\<forall>k n s. rd_xrevrange rd k n s = take n (rev (entries k s)))
     \<and> xadd_documented rd entries \<and> set_documented rd entries \<and> hset_documented rd entries"

lemma redisD:
  assumes "redis_documented rd entries"
  shows "rd_xrevrange rd k n s = take n (rev (entries k s))"
    "rd_xadd rd k f s = Some s1 \<Longrightarrow> entries k1 s1 = (if k1 = k then entries k s @ [f] else entries k1 s)"
    "rd_xadd rd k f s = Some s1 \<Longrightarrow> k1 \<noteq> k \<Longrightarrow> rd_exists rd k1 s1 = rd_exists rd k1 s"
    "k1 \<noteq> k \<Longrightarrow> entries k1 (rd_set rd k v s) = entries k1 s"
    "rd_exists rd k1 (rd_set rd k v s) \<longleftrightarrow> k1 = k \<or> rd_exists rd k1 s"
    "rd_hset rd k f s = Some s1 \<Longrightarrow> entries k1 s1 = entries k1 s"
    "rd_hset rd k f s = Some s1 \<Longrightarrow> k1 \<noteq> k \<Longrightarrow> rd_exists rd k1 s1 = rd_exists rd k1 s"
    "rd_hset rd k f s = Some s1 \<Longrightarrow>
       field_map (rd_hgetall rd k s1) = field_map (rd_hgetall rd k s) ++ field_map f"
proof -
  note a = assms [unfolded redis_documented_def]
  show "rd_xrevrange rd k n s = take n (rev (entries k s))" using a by simp
  from a have "xadd_documented rd entries" by simp
  note x = this [unfolded xadd_documented_def, rule_format, of k f s s1 k1]
  show "rd_xadd rd k f s = Some s1 \<Longrightarrow> entries k1 s1 = (if k1 = k then entries k s @ [f] else entries k1 s)"
    "rd_xadd rd k f s = Some s1 \<Longrightarrow> k1 \<noteq> k \<Longrightarrow> rd_exists rd k1 s1 = rd_exists rd k1 s"
    using x by simp_all
  from a have "set_documented rd entries" by simp
  then show "k1 \<noteq> k \<Longrightarrow> entries k1 (rd_set rd k v s) = entries k1 s"
    "rd_exists rd k1 (rd_set rd k v s) \<longleftrightarrow> k1 = k \<or> rd_exists rd k1 s"
    by (simp_all add: set_documented_def)
  from a have "hset_documented rd entries" by simp
  note x = this [unfolded hset_documented_def, rule_format, of k f s s1 k1]
  show "rd_hset rd k f s = Some s1 \<Longrightarrow> entries k1 s1 = entries k1 s"
    "rd_hset rd k f s = Some s1 \<Longrightarrow> k1 \<noteq> k \<Longrightarrow> rd_exists rd k1 s1 = rd_exists rd k1 s"
    "rd_hset rd k f s = Some s1 \<Longrightarrow>
       field_map (rd_hgetall rd k s1) = field_map (rd_hgetall rd k s) ++ field_map f"
    using x by simp_all
qed

text \<open>The keys of a profile do not meet.\<close>

lemma keys_distinct:
  "rk_finalized_key (keys_for_profile tx s p d) \<noteq> rk_ledger_stream (keys_for_profile tx s p e)"
  "rk_finalized_key (keys_for_profile tx s p d) \<noteq> rk_state_key (keys_for_profile tx s p e)"
  "rk_ledger_stream (keys_for_profile tx s p d) \<noteq> rk_state_key (keys_for_profile tx s p e)"
  by (simp_all add: keys_for_profile_def Let_def)

lemma keys_of_date:
  "rk_ledger_stream (keys_for_profile tx s p d) = rk_ledger_stream (keys_for_profile tx s p 0)"
  "rk_state_key (keys_for_profile tx s p d) = rk_state_key (keys_for_profile tx s p 0)"
  by (simp_all add: keys_for_profile_def Let_def)

lemma finalized_key_inj:
  assumes "text_documented tx"
    and "rk_finalized_key (keys_for_profile tx s p d) = rk_finalized_key (keys_for_profile tx s p e)"
  shows "d = e"
proof -
  have "tl_show_date tx d = tl_show_date tx e"
    using assms(2) by (simp add: keys_for_profile_def Let_def)
  then have "tl_parse_date tx (tl_show_date tx d) = tl_parse_date tx (tl_show_date tx e)" by simp
  then show ?thesis by (simp add: text_documentedD [OF assms(1)])
qed

section \<open>The ledger of a profile\<close>

abbreviation ledger_stream :: "text_lib \<Rightarrow> rg_identity \<Rightarrow> string" where
  "ledger_stream tx idt \<equiv> rk_ledger_stream (keys_for_profile tx (ri_strategy_id idt) (ri_profile_id idt) 0)"

abbreviation finalized_key :: "text_lib \<Rightarrow> rg_identity \<Rightarrow> naive_date \<Rightarrow> string" where
  "finalized_key tx idt d \<equiv> rk_finalized_key (keys_for_profile tx (ri_strategy_id idt) (ri_profile_id idt) d)"

definition ledger_ok ::
  "text_lib \<Rightarrow> (string \<Rightarrow> 's \<Rightarrow> fields list) \<Rightarrow> rg_identity \<Rightarrow> 's \<Rightarrow> ledger_record list \<Rightarrow> bool" where
  "ledger_ok tx entries idt s recs \<longleftrightarrow>
     map (read_record tx) (entries (ledger_stream tx idt) s) = map Ok recs
     \<and> regular (map lr_row recs) \<and> validate_identity idt recs = Ok ()"

lemma res_map_Ok: "map f xs = map Ok ys \<Longrightarrow> res_map f xs = Ok ys"
  by (induction xs arbitrary: ys) auto

lemma validate_identity_iff:
  "validate_identity idt recs = Ok () \<longleftrightarrow>
     (\<forall>r\<in>set recs. lr_profile_id r = ri_profile_id idt \<and> lr_mr_variant r = ri_mr_variant idt
        \<and> lr_timeframe r = ri_timeframe idt
        \<and> lr_session_policy r = session_policy_for_date idt (sr_date (lr_row r)))"
  by (induction recs) (auto simp: Let_def)

declare validate_identity.simps [simp del]

lemma last_n_subset: "set (last_n n xs) \<subseteq> set xs"
  by (auto simp: last_n_def dest: in_set_dropD)

lemma last_n_map: "last_n n (map f xs) = map f (last_n n xs)"
  by (simp add: last_n_def drop_map)

lemma take_rev_last_n: "take n (rev xs) = rev (last_n n xs)"
  by (simp add: last_n_def take_rev)

text \<open>What is loaded is the newest part of the ledger, and its rows come out in order.\<close>

lemma loaded_records:
  assumes "redis_documented rd entries" "ledger_ok tx entries idt s recs"
  shows "res_map (read_record tx) (rd_xrevrange rd (ledger_stream tx idt) n s) = Ok (rev (last_n n recs))"
proof (rule res_map_Ok)
  have "map (read_record tx) (entries (ledger_stream tx idt) s) = map Ok recs"
    using assms(2) by (simp add: ledger_ok_def)
  then show "map (read_record tx) (rd_xrevrange rd (ledger_stream tx idt) n s) = map Ok (rev (last_n n recs))"
    by (simp add: redisD(1) [OF assms(1)] take_rev_last_n last_n_map [symmetric] rev_map [symmetric])
qed

lemma loaded_rows:
  assumes "regular (map lr_row recs)"
  shows "rows_from_records (rev (last_n n recs)) = Ok (map lr_row (last_n n recs))"
proof -
  have "regular (map lr_row (last_n n recs))"
    using regular_dropD [OF assms] by (simp add: last_n_def drop_map)
  then show ?thesis
    by (simp add: rows_from_records_def Let_def rev_map [symmetric] sort_key_rev_regular validated_bind)
qed

lemma loaded_identity:
  "validate_identity idt recs = Ok () \<Longrightarrow> validate_identity idt (rev (last_n n recs)) = Ok ()"
  using last_n_subset by (fastforce simp: validate_identity_iff)

end
