(* ===== verification/Risk_Gate_Ledger.thy ===== *)
theory Risk_Gate_Ledger
  imports Risk_Gate_Store
begin

text \<open>
  What the risk gate's store guarantees: the ledger only grows, in date order and with one record
  for each session, whatever calls fail; and the decision written with a session is that of the
  rolling sum over the whole ledger, although only its newest part is read.
\<close>

section \<open>Calls\<close>

text \<open>A call either never ran, or it ran and answered, or it ran and the answer is lost.\<close>

lemma redis_call_cases:
  obtains l1 where "redis_call act l = (l1, Err StIo)" "lk_store l1 = lk_store l"
    | l1 where "redis_call act l = (l1, Err StIo)" "lk_store l1 = fst (act (lk_store l))"
    | l1 x where "redis_call act l = (l1, Ok x)" "act (lk_store l) = (lk_store l1, Some x)"
proof -
  obtain a b where act: "act (lk_store l) = (a, b)" by fastforce
  have run: thesis if "redis_call act l = (l1, reply)" "lk_store l1 = a"
      "reply = Err StIo \<or> (\<exists>x. b = Some x \<and> reply = Ok x)" for l1 reply
    using that act \<open>\<And>l1. _ \<Longrightarrow> lk_store l1 = fst _ \<Longrightarrow> thesis\<close>
      \<open>\<And>l1 x. _ \<Longrightarrow> act _ = (lk_store l1, Some x) \<Longrightarrow> thesis\<close> by auto
  have reply: "(case b of Some x \<Rightarrow> Ok x | None \<Rightarrow> Err StIo) = Err StIo
      \<or> (\<exists>x. b = Some x \<and> (case b of Some x \<Rightarrow> Ok x | None \<Rightarrow> Err StIo) = Ok x)"
    by (cases b) simp_all
  show thesis
  proof (cases "lk_outcomes l")
    case Nil
    with act reply show thesis by (intro run) (auto simp: redis_call_def Let_def)
  next
    case (Cons oc ocs)
    show thesis
    proof (cases oc)
      case CallDone
      with act reply Cons show thesis by (intro run) (auto simp: redis_call_def Let_def)
    next
      case CallLost
      then have "redis_call act l = (l\<lparr>lk_outcomes := ocs\<rparr>, Err StIo)"
        using Cons by (simp add: redis_call_def Let_def)
      then show thesis by (rule \<open>\<And>l1. _ \<Longrightarrow> lk_store l1 = lk_store l \<Longrightarrow> thesis\<close>) simp
    next
      case ReplyLost
      with act Cons show thesis by (intro run) (auto simp: redis_call_def Let_def)
    qed
  qed
qed

lemma st_bind_Err: "m l = (l1, Err e) \<Longrightarrow> st_bind m f l = (l1, Err e)"
  by (simp add: st_bind_def)

lemma st_bind_Ok: "m l = (l1, Ok x) \<Longrightarrow> st_bind m f l = f x l1"
  by (simp add: st_bind_def)

lemma st_bind_lift:
  "st_bind (st_lift (Ok x)) f l = f x l" "st_bind (st_lift (Err e)) f l = (l, Err (StRg e))"
  by (simp_all add: st_bind_def st_lift_def)

lemma load_ledger_cases:
  assumes "redis_documented rd entries" "ledger_ok tx entries idt (lk_store l) recs"
  obtains l1 where "lk_store l1 = lk_store l"
    and "load_ledger_records tx rd (ledger_stream tx idt) n l = (l1, Err StIo)
       \<or> load_ledger_records tx rd (ledger_stream tx idt) n l = (l1, Ok (rev (last_n n recs)))"
proof (cases rule: redis_call_cases [of "\<lambda>s. (s, Some (rd_xrevrange rd (ledger_stream tx idt) n s))" l])
  case (1 l1)
  then show ?thesis using that [of l1] by (simp add: load_ledger_records_def st_bind_def)
next
  case (2 l1)
  then show ?thesis using that [of l1] by (simp add: load_ledger_records_def st_bind_def)
next
  case (3 l1 x)
  from 3(2) have "x = rd_xrevrange rd (ledger_stream tx idt) n (lk_store l)"
    by (metis prod.inject option.inject)
  then have "res_map (read_record tx) x = Ok (rev (last_n n recs))"
    by (simp only: loaded_records [OF assms])
  with 3 show ?thesis using that [of l1] by (simp add: load_ledger_records_def st_bind_def st_lift_def)
qed

text \<open>A write leaves the store as it was or as the script leaves it, and an answer is the script's.\<close>

lemma write_session_cases:
  fixes rd :: "'s redis"
  defines "script \<equiv> \<lambda>keys sess st. session_write_script rd (rk_finalized_key keys) (rk_ledger_stream keys)
     (rk_state_key keys) sess st"
  assumes "sess \<noteq> []"
  obtains l1 where "write_session_if_new rd keys sess st l = (l1, Err StIo)" "lk_store l1 = lk_store l"
    | l1 where "write_session_if_new rd keys sess st l = (l1, Err StIo)"
        "lk_store l1 = fst (script keys sess st (lk_store l))"
    | l1 b where "write_session_if_new rd keys sess st l = (l1, Ok b)"
        "script keys sess st (lk_store l) = (lk_store l1, Some b)"
  using assms(2)
  by (cases rule: redis_call_cases [of "script keys sess st" l])
    (auto simp: write_session_if_new_def script_def intro: that)

declare keys_distinct [simp] keys_distinct [symmetric, simp]

lemma record_fields_not_Nil [simp]: "record_fields tx r \<noteq> []"
  by (simp add: record_fields_def Let_def)

section \<open>The script on the ledger\<close>

text \<open>Every mark of a finished session has its record: the script keeps that as long as \<open>XADD\<close> is
  not refused.\<close>

definition marks_recorded ::
  "text_lib \<Rightarrow> 's redis \<Rightarrow> rg_identity \<Rightarrow> 's \<Rightarrow> ledger_record list \<Rightarrow> bool" where
  "marks_recorded tx rd idt s recs \<longleftrightarrow>
     (\<forall>d. rd_exists rd (finalized_key tx idt d) s \<longrightarrow> d \<in> set (map (sr_date \<circ> lr_row) recs))"

definition xadd_accepts :: "'s redis \<Rightarrow> bool" where
  "xadd_accepts rd \<longleftrightarrow> (\<forall>k f s. rd_xadd rd k f s \<noteq> None)"

abbreviation idt_keys :: "text_lib \<Rightarrow> rg_identity \<Rightarrow> naive_date \<Rightarrow> rg_keys" where
  "idt_keys tx idt d \<equiv> keys_for_profile tx (ri_strategy_id idt) (ri_profile_id idt) d"

abbreviation write_script ::
  "text_lib \<Rightarrow> 's redis \<Rightarrow> rg_identity \<Rightarrow> naive_date \<Rightarrow> fields \<Rightarrow> fields \<Rightarrow> 's \<Rightarrow> 's \<times> bool option" where
  "write_script tx rd idt d \<equiv> session_write_script rd (rk_finalized_key (idt_keys tx idt d))
     (rk_ledger_stream (idt_keys tx idt d)) (rk_state_key (idt_keys tx idt d))"

lemma script_entries:
  assumes "redis_documented rd entries"
    and "write_script tx rd idt d sess st s = (s1, r)"
  shows "entries (ledger_stream tx idt) s1
      = (if rd_exists rd (finalized_key tx idt d) s \<or> rd_xadd rd (ledger_stream tx idt) sess
              (rd_set rd (finalized_key tx idt d) ''1'' s) = None
         then entries (ledger_stream tx idt) s else entries (ledger_stream tx idt) s @ [sess])"
    and "r = Some b \<Longrightarrow> b = (\<not> rd_exists rd (finalized_key tx idt d) s)"
  using assms(2)
  by (auto simp: session_write_script_def Let_def keys_of_date [of _ _ _ d] redisD [OF assms(1)]
      split: if_splits option.splits)

lemma script_marks:
  assumes "redis_documented rd entries"
    and "write_script tx rd idt d sess st s = (s1, r)"
  shows "rd_exists rd (finalized_key tx idt e) s1 \<longleftrightarrow>
     finalized_key tx idt e = finalized_key tx idt d \<or> rd_exists rd (finalized_key tx idt e) s"
  using assms(2)
  by (auto simp: session_write_script_def Let_def keys_of_date [of _ _ _ d] redisD [OF assms(1)]
      split: if_splits option.splits)

text \<open>The text of the identity that is written has to be readable again.\<close>

definition printable_identity :: "rg_identity \<Rightarrow> bool" where
  "printable_identity idt \<longleftrightarrow> trim (ri_profile_id idt) \<noteq> [] \<and> trim (ri_mr_variant idt) \<noteq> []
     \<and> trim (ri_timeframe idt) \<noteq> [] \<and> trim (ri_session_policy idt) \<noteq> []
     \<and> trim (ri_model_version idt) \<noteq> [] \<and> (\<forall>p. ri_legacy_policy idt = Some p \<longrightarrow> trim p \<noteq> [])"

definition writable_session :: "rg_finalization \<Rightarrow> i64 \<Rightarrow> bool" where
  "writable_session fz ts \<longleftrightarrow> fz_trade_count fz \<le> u32_max \<and> i64_min \<le> ts \<and> ts \<le> i64_max"

text \<open>The row and the record of a finished session after the loaded rows.\<close>

definition session_row_of :: "session_row list \<Rightarrow> rg_finalization \<Rightarrow> session_row" where
  "session_row_of rows fz =
     \<lparr>sr_date = fz_date fz, sr_pnl = fz_pnl fz, sr_trade_count = fz_trade_count fz,
      sr_rolling_before = (case rolling_before_next rows lb120_lookback lb120_min_history of
                             Some p \<Rightarrow> p | None \<Rightarrow> 0),
      sr_mr_enabled = (enabled_for_next rows = Some True), sr_source = SrcRuntime, sr_status = StComplete\<rparr>"

definition session_record ::
  "rg_identity \<Rightarrow> i64 \<Rightarrow> session_row list \<Rightarrow> rg_finalization \<Rightarrow> ledger_record" where
  "session_record idt ts rows fz = record_of_prefix idt ts (rows @ [session_row_of rows fz])"

definition appendable :: "session_row list \<Rightarrow> naive_date \<Rightarrow> bool" where
  "appendable rows d \<longleftrightarrow> \<not> is_weekend_day (weekday_of d) \<and> (\<forall>r\<in>set rows. sr_date r < d)"

lemma session_record_fields [simp]:
  "lr_row (session_record idt ts rows fz) = session_row_of rows fz"
  "sr_date (session_row_of rows fz) = fz_date fz"
  by (simp_all add: session_record_def record_of_prefix_def session_row_of_def)

lemma session_record_writable:
  assumes "printable_identity idt" "writable_session fz ts"
  shows "writable (session_record idt ts rows fz)"
  using assms
  by (auto simp: writable_def session_record_def record_of_prefix_def session_row_of_def
      printable_identity_def writable_session_def session_policy_for_date_def split: option.splits)

lemma build_runtime_row_of:
  assumes "regular rows"
  shows "build_runtime_row rows (fz_date fz) (fz_pnl fz) (fz_trade_count fz) = Ok row
    \<longleftrightarrow> appendable rows (fz_date fz) \<and> row = session_row_of rows fz"
  using assms by (auto simp: build_runtime_row_Ok appendable_def session_row_of_def)

lemma regular_session:
  "regular rows \<Longrightarrow> appendable rows (fz_date fz) \<Longrightarrow> regular (rows @ [session_row_of rows fz])"
  by (simp add: regular_append_one appendable_def)

lemma last_built_record:
  assumes "regular (rows @ [row])"
  shows "build_records (rows @ [row]) idt ts = Ok recs \<Longrightarrow>
    recs \<noteq> [] \<and> last recs = record_of_prefix idt ts (rows @ [row]) \<and> map lr_row recs = rows @ [row]"
proof -
  assume "build_records (rows @ [row]) idt ts = Ok recs"
  then have recs: "recs = map (\<lambda>i. record_of_prefix idt ts (take (Suc i) (rows @ [row]))) [0..<length (rows @ [row])]"
    by (simp add: build_records_def validated_bind [OF assms])
  have "map lr_row recs = map (\<lambda>i. (rows @ [row]) ! i) [0..<length (rows @ [row])]"
    unfolding recs by (auto simp: record_of_prefix_def take_Suc_conv_app_nth nth_append)
  moreover have "map (\<lambda>i. (rows @ [row]) ! i) [0..<length (rows @ [row])] = rows @ [row]"
    by (rule map_nth)
  ultimately have "map lr_row recs = rows @ [row]" by simp
  moreover have "recs \<noteq> []" "last recs = record_of_prefix idt ts (rows @ [row])" using recs by simp_all
  ultimately show ?thesis by blast
qed

lemma rebuild_state_regular:
  assumes "regular (map lr_row recs)"
  shows "\<exists>st. rebuild_state recs d p b = Ok st
    \<and> rs_mr_enabled_next st = enabled_for_next (map lr_row recs)
    \<and> rs_rows_count st = length recs \<and> rs_generation st = state_generation"
  using assms
  by (simp add: rebuild_state_def rows_from_records_def Let_def sort_key_regular validated_bind enabled_for_next_def)

section \<open>Appending a session\<close>

text \<open>The loaded rows, what is written after them, and the three ways an append can go.\<close>

definition loaded :: "nat \<Rightarrow> ledger_record list \<Rightarrow> session_row list" where
  "loaded scan recs = map lr_row (last_n (max 1 scan) recs)"

lemma loaded_regular: "regular (map lr_row recs) \<Longrightarrow> regular (loaded scan recs)"
  using regular_dropD [of "map lr_row recs"] by (simp add: loaded_def last_n_def drop_map)

abbreviation written_result :: "rg_state \<Rightarrow> bool \<Rightarrow> rg_append_result" where
  "written_result st inserted \<equiv> \<lparr>ap_summary = \<lparr>ws_attempted = 1, ws_inserted = of_bool inserted,
     ws_duplicate = of_bool (\<not> inserted), ws_refreshed = inserted\<rparr>,
     ap_state = (if inserted then Some st else None)\<rparr>"

lemma append_after_load:
  fixes scan :: nat and recs :: "ledger_record list"
  defines "n \<equiv> max (Suc 0) scan" and "rows \<equiv> loaded scan recs"
  assumes lok: "ledger_ok tx entries idt s recs"
    and load: "load_ledger_records tx rd (ledger_stream tx idt) n l = (l1, Ok (rev (last_n n recs)))"
    and fits: "appendable rows (fz_date fz)"
  shows "\<exists>st. rs_mr_enabled_next st = enabled_for_next (rows @ [session_row_of rows fz])
    \<and> rs_rows_count st = Suc (length rows) \<and> rs_generation st = state_generation
    \<and> append_runtime_session tx rd idt fz ts scan l
      = st_bind (write_session_if_new rd (idt_keys tx idt (fz_date fz))
           (record_fields tx (session_record idt ts rows fz)) (state_fields tx st))
         (\<lambda>inserted. st_return (written_result st inserted)) l1"
proof -
  have reg: "regular (map lr_row recs)" and idok: "validate_identity idt recs = Ok ()"
    using lok by (simp_all add: ledger_ok_def)
  have rows: "rows_from_records (rev (last_n n recs)) = Ok rows" "regular rows"
    using loaded_rows [OF reg, of n] loaded_regular [OF reg, of scan]
    by (simp_all add: rows_def loaded_def n_def)
  have n: "max (Suc 0) scan = n" by (simp add: n_def)
  have new: "\<not> list_ex (\<lambda>r. sr_date r = fz_date fz) rows" using fits by (force simp: list_ex_iff appendable_def)
  have built: "build_runtime_row rows (fz_date fz) (fz_pnl fz) (fz_trade_count fz) = Ok (session_row_of rows fz)"
    using fits build_runtime_row_of [OF rows(2)] by simp
  note reg1 = regular_session [OF rows(2) fits]
  obtain recs1 where recs1: "build_records (rows @ [session_row_of rows fz]) idt ts = Ok recs1"
    by (simp add: build_records_def validated_bind [OF reg1])
  note last = last_built_record [OF reg1 recs1]
  obtain st where st: "rebuild_state recs1 None 0 (has_seed recs1) = Ok st"
      "rs_mr_enabled_next st = enabled_for_next (rows @ [session_row_of rows fz])"
      "rs_rows_count st = length recs1" "rs_generation st = state_generation"
    using rebuild_state_regular [of recs1 None 0 "has_seed recs1"] reg1 last by metis
  have "length recs1 = Suc (length rows)" using arg_cong [OF conjunct2 [OF conjunct2 [OF last]], of length] by simp
  then show ?thesis
    using new built recs1 last st keys_of_date(1) [of tx "ri_strategy_id idt" "ri_profile_id idt" "fz_date fz"]
    by (intro exI [of _ st]) (simp add: n append_runtime_session_def Let_def st_bind_lift session_record_def
        loaded_identity [OF idok] rows(1)
        st_bind_Ok [where m = "load_ledger_records tx rd (ledger_stream tx idt) n", OF load])
qed

lemma append_cases:
  fixes scan :: nat and fz :: rg_finalization and ts :: i64
  assumes doc: "redis_documented rd entries" and lok: "ledger_ok tx entries idt (lk_store l) recs"
  defines "rows \<equiv> loaded scan recs"
  defines "res \<equiv> append_runtime_session tx rd idt fz ts scan l"
  obtains
    (failed) l1 e where "res = (l1, Err e)" "lk_store l1 = lk_store l"
  | (known) l1 where "res = (l1, Ok \<lparr>ap_summary = \<lparr>ws_attempted = 1, ws_inserted = 0, ws_duplicate = 1,
        ws_refreshed = False\<rparr>, ap_state = None\<rparr>)" "lk_store l1 = lk_store l"
      "fz_date fz \<in> sr_date ` set rows"
  | (written) l1 st where "appendable rows (fz_date fz)" "lk_store l1 = lk_store l"
      "rs_mr_enabled_next st = enabled_for_next (rows @ [session_row_of rows fz])"
      "res = st_bind (write_session_if_new rd (idt_keys tx idt (fz_date fz))
           (record_fields tx (session_record idt ts rows fz)) (state_fields tx st))
         (\<lambda>inserted. st_return (written_result st inserted)) l1"
proof -
  define n where "n = max (Suc 0) scan"
  then have n: "max (Suc 0) scan = n" by simp
  obtain l1 where l1: "lk_store l1 = lk_store l"
    and load: "load_ledger_records tx rd (ledger_stream tx idt) n l = (l1, Err StIo)
      \<or> load_ledger_records tx rd (ledger_stream tx idt) n l = (l1, Ok (rev (last_n n recs)))"
    using load_ledger_cases [OF doc lok] by blast
  note [simp] = keys_of_date(1) [of _ _ _ "fz_date fz"]
  show thesis
  proof (cases "load_ledger_records tx rd (ledger_stream tx idt) n l = (l1, Err StIo)")
    case True
    then show thesis using l1
      by (intro failed [of l1 StIo]) (simp_all add: n res_def append_runtime_session_def Let_def st_bind_def)
  next
    case False
    with load have load: "load_ledger_records tx rd (ledger_stream tx idt) n l
      = (l1, Ok (rev (last_n n recs)))" by blast
    have reg: "regular (map lr_row recs)" and idok: "validate_identity idt recs = Ok ()"
      using lok by (simp_all add: ledger_ok_def)
    have rows: "rows_from_records (rev (last_n n recs)) = Ok rows" "regular rows"
      using loaded_rows [OF reg, of n] loaded_regular [OF reg, of scan] by (simp_all add: rows_def loaded_def n)
    note start = n res_def append_runtime_session_def Let_def
      st_bind_Ok [where m = "load_ledger_records tx rd (ledger_stream tx idt) n", OF load] st_bind_lift
      loaded_identity [OF idok] rows(1)
    consider "fz_date fz \<in> sr_date ` set rows" | "fz_date fz \<notin> sr_date ` set rows"
        "\<not> appendable rows (fz_date fz)" | "fz_date fz \<notin> sr_date ` set rows" "appendable rows (fz_date fz)"
      by blast
    then show thesis
    proof cases
      case 1
      then have "list_ex (\<lambda>r. sr_date r = fz_date fz) rows" by (auto simp: list_ex_iff)
      then show thesis using l1 1 by (intro known [of l1]) (simp_all add: start st_return_def)
    next
      case 2
      then have "\<not> list_ex (\<lambda>r. sr_date r = fz_date fz) rows" by (force simp: list_ex_iff)
      moreover obtain e where "build_runtime_row rows (fz_date fz) (fz_pnl fz) (fz_trade_count fz) = Err e"
        using 2(2) build_runtime_row_of [OF rows(2)]
        by (cases "build_runtime_row rows (fz_date fz) (fz_pnl fz) (fz_trade_count fz)") auto
      ultimately show thesis using l1 by (intro failed [of l1 "StRg e"]) (simp_all add: start)
    next
      case 3
      from append_after_load [OF lok load [folded n_def, folded n] 3(2) [unfolded rows_def], of ts]
      obtain st where st: "rs_mr_enabled_next st = enabled_for_next (rows @ [session_row_of rows fz])"
        "res = st_bind (write_session_if_new rd (idt_keys tx idt (fz_date fz))
           (record_fields tx (session_record idt ts rows fz)) (state_fields tx st))
         (\<lambda>inserted. st_return (written_result st inserted)) l1"
        unfolding res_def rows_def by blast
      show thesis by (rule written [OF 3(2) l1 st])
    qed
  qed
qed

lemma appendable_loaded:
  assumes "regular (map lr_row recs)"
  shows "appendable (loaded scan recs) d \<longleftrightarrow> appendable (map lr_row recs) d"
proof (cases "recs = []")
  case False
  then have "length recs - max (Suc 0) scan < length recs" by (cases recs) auto
  with False have ne: "loaded scan recs \<noteq> []" "last (loaded scan recs) = last (map lr_row recs)"
    by (simp_all add: loaded_def last_n_def last_map not_le)
  then show ?thesis
    using regular_last [OF assms] regular_last [OF loaded_regular [OF assms]] False
    by (simp add: appendable_def)
qed (simp add: loaded_def last_n_def)

lemma stored_row_fields [simp]:
  "lr_row (stored_record tx r) = stored_row tx (lr_row r)"
  "sr_date (stored_row tx w) = sr_date w" "sr_status (stored_row tx w) = sr_status w"
  "sr_mr_enabled (stored_row tx w) = sr_mr_enabled w"
  "lr_mr_enabled_next (stored_record tx r) = lr_mr_enabled_next r"
  by (simp_all add: stored_record_def stored_row_def)

lemma session_identity:
  "validate_identity idt [stored_record tx (session_record idt ts rows fz)] = Ok ()"
  by (simp add: validate_identity_iff stored_record_def session_record_def record_of_prefix_def stored_row_def)

lemma script_ledger:
  assumes doc: "redis_documented rd entries" "text_documented tx"
    and lok: "ledger_ok tx entries idt s recs" and rec: "writable rec"
    and reg: "appendable (map lr_row recs) (sr_date (lr_row rec))"
    and idok: "validate_identity idt [stored_record tx rec] = Ok ()"
    and run: "write_script tx rd idt d (record_fields tx rec) st s = (s1, r)"
  shows "ledger_ok tx entries idt s1
     (if rd_exists rd (finalized_key tx idt d) s \<or> rd_xadd rd (ledger_stream tx idt) (record_fields tx rec)
           (rd_set rd (finalized_key tx idt d) ''1'' s) = None
      then recs else recs @ [stored_record tx rec])"
  using lok idok reg read_written_record [OF doc(2) rec] script_entries(1) [OF doc(1) run]
  by (auto simp: ledger_ok_def validate_identity_iff regular_append_one appendable_def)

text \<open>One append: the ledger is as it was, or has one more record, that of the session.\<close>

definition appended ::
  "text_lib \<Rightarrow> rg_identity \<Rightarrow> i64 \<Rightarrow> nat \<Rightarrow> ledger_record list \<Rightarrow> rg_finalization \<Rightarrow> ledger_record list" where
  "appended tx idt ts scan recs fz =
     recs @ [stored_record tx (session_record idt ts (loaded scan recs) fz)]"

lemma append_step:
  assumes doc: "redis_documented rd entries" "text_documented tx"
    and lok: "ledger_ok tx entries idt (lk_store l) recs"
    and ok: "printable_identity idt" "writable_session fz ts"
    and run: "append_runtime_session tx rd idt fz ts scan l = (l1, r)"
  shows "(ledger_ok tx entries idt (lk_store l1) recs
      \<or> appendable (map lr_row recs) (fz_date fz) \<and> ledger_ok tx entries idt (lk_store l1) (appended tx idt ts scan recs fz))
    \<and> (\<forall>a. r = Ok a \<and> ws_inserted (ap_summary a) = 1 \<longrightarrow>
         appendable (map lr_row recs) (fz_date fz)
         \<and> ledger_ok tx entries idt (lk_store l1) (appended tx idt ts scan recs fz)
         \<and> (\<exists>st. ap_state a = Some st \<and> rs_mr_enabled_next st
              = enabled_for_next (loaded scan recs @ [session_row_of (loaded scan recs) fz])))"
proof (cases rule: append_cases [OF doc(1) lok, where scan = scan and fz = fz and ts = ts])
  case (1 l2 e)
  with run lok show ?thesis by auto
next
  case (2 l2)
  with run lok show ?thesis by auto
next
  case (3 l2 st)
  note written = 3
  define rec where "rec = session_record idt ts (loaded scan recs) fz"
  have lok2: "ledger_ok tx entries idt (lk_store l2) recs" using lok written(2) by simp
  have reg: "regular (map lr_row recs)" using lok by (simp add: ledger_ok_def)
  have fits: "appendable (map lr_row recs) (sr_date (lr_row rec))"
    using written(1) appendable_loaded [OF reg] by (simp add: rec_def)
  have wrec: "writable rec" using ok by (simp add: rec_def session_record_writable)
  have idok: "validate_identity idt [stored_record tx rec] = Ok ()" by (simp add: rec_def session_identity)
  note step = script_ledger [OF doc lok2 wrec fits idok]
  have res: "appended tx idt ts scan recs fz = recs @ [stored_record tx rec]"
    by (simp add: appended_def rec_def)
  have date: "fz_date fz = sr_date (lr_row rec)" by (simp add: rec_def)
  define wr where "wr = write_session_if_new rd (idt_keys tx idt (fz_date fz)) (record_fields tx rec) (state_fields tx st)"
  have lr: "(l1, r) = st_bind wr (\<lambda>inserted. st_return (written_result st inserted)) l2"
    unfolding wr_def rec_def using run written(4) by (rule trans [OF sym])
  show ?thesis
  proof (cases rule: write_session_cases [OF record_fields_not_Nil,
      of rd "idt_keys tx idt (fz_date fz)" tx rec "state_fields tx st" l2, folded wr_def])
    case (1 l3)
    with lr have "l1 = l3" "r = Err StIo" by (simp_all add: st_bind_def)
    with 1 lok2 show ?thesis by simp
  next
    case (2 l3)
    with lr have l1: "l1 = l3" "r = Err StIo" by (simp_all add: st_bind_def)
    obtain s1 r1 where sr: "write_script tx rd idt (fz_date fz) (record_fields tx rec) (state_fields tx st)
        (lk_store l2) = (s1, r1)" by fastforce
    with 2 l1 step [OF sr] fits res date show ?thesis by (simp split: if_splits)
  next
    case (3 l3 b)
    with lr have l1: "l1 = l3" "r = Ok (written_result st b)"
      by (simp_all add: st_bind_def st_return_def)
    have b: "b \<longleftrightarrow> \<not> rd_exists rd (finalized_key tx idt (fz_date fz)) (lk_store l2)"
      using script_entries(2) [OF doc(1) 3(2)] by simp
    have "rd_xadd rd (ledger_stream tx idt) (record_fields tx rec)
        (rd_set rd (finalized_key tx idt (fz_date fz)) ''1'' (lk_store l2)) \<noteq> None" if b
      using 3(2) that b by (auto simp: session_write_script_def Let_def keys_of_date(1) [of _ _ _ "fz_date fz"]
          split: option.splits if_splits)
    with b l1 step [OF 3(2)] fits res date written(3) show ?thesis by (cases b) auto
  qed
qed

section \<open>The ledger over a run\<close>

fun append_run ::
  "text_lib \<Rightarrow> 's redis \<Rightarrow> rg_identity \<Rightarrow> nat \<Rightarrow> (rg_finalization \<times> i64) list \<Rightarrow> 's link \<Rightarrow> 's link" where
  "append_run tx rd idt scan [] l = l"
| "append_run tx rd idt scan ((fz, ts) # fzs) l =
     append_run tx rd idt scan fzs (fst (append_runtime_session tx rd idt fz ts scan l))"

text \<open>C36. The ledger is append-only: over any sequence of finished sessions, whatever calls to Redis
  are lost before or after they take effect and whatever Redis refuses, the records that were
  there stay as they are, new ones follow in strictly increasing date order without weekends, and
  so there is at most one record for a session; every new one is of a session that was finished.\<close>

theorem ledger_append_only:
  assumes "redis_documented rd entries" "text_documented tx" "printable_identity idt"
    and "list_all (\<lambda>(fz, ts). writable_session fz ts) fzs"
    and "ledger_ok tx entries idt (lk_store l) recs"
  shows "\<exists>new. ledger_ok tx entries idt (lk_store (append_run tx rd idt scan fzs l)) (recs @ new)
    \<and> regular (map lr_row (recs @ new))
    \<and> set (map (sr_date \<circ> lr_row) new) \<subseteq> set (map (fz_date \<circ> fst) fzs)"
  using assms(4,5)
proof (induction fzs arbitrary: l recs)
  case Nil
  then show ?case by (intro exI [of _ "[]"]) (simp add: ledger_ok_def)
next
  case (Cons f fzs)
  obtain fz ts where f: "f = (fz, ts)" by fastforce
  obtain l1 r where run: "append_runtime_session tx rd idt fz ts scan l = (l1, r)" by fastforce
  have w: "writable_session fz ts" "list_all (\<lambda>(fz, ts). writable_session fz ts) fzs"
    using Cons.prems(1) by (simp_all add: f)
  consider "ledger_ok tx entries idt (lk_store l1) recs"
    | "ledger_ok tx entries idt (lk_store l1) (appended tx idt ts scan recs fz)"
    using append_step [OF assms(1,2) Cons.prems(2) assms(3) w(1) run] by blast
  then show ?case
  proof cases
    case 1
    from Cons.IH [OF w(2) this] show ?thesis by (auto simp: f run)
  next
    case 2
    from Cons.IH [OF w(2) this] obtain new where
      "ledger_ok tx entries idt (lk_store (append_run tx rd idt scan fzs l1)) (appended tx idt ts scan recs fz @ new)"
      "regular (map lr_row (appended tx idt ts scan recs fz @ new))"
      "set (map (sr_date \<circ> lr_row) new) \<subseteq> set (map (fz_date \<circ> fst) fzs)" by blast
    then show ?thesis
      by (intro exI [of _ "stored_record tx (session_record idt ts (loaded scan recs) fz) # new"])
        (auto simp: f run appended_def)
  qed
qed

text \<open>When no call fails a session that fits is recorded.\<close>

lemma append_succeeds:
  assumes doc: "redis_documented rd entries" and lok: "ledger_ok tx entries idt (lk_store l) recs"
    and fits: "appendable (map lr_row recs) (fz_date fz)" and up: "lk_outcomes l = []"
    and new: "\<not> rd_exists rd (finalized_key tx idt (fz_date fz)) (lk_store l)"
    and accepts: "\<And>k f s. rd_xadd rd k f s \<noteq> None" "\<And>k f s. rd_hset rd k f s \<noteq> None"
  shows "\<exists>l1 a st. append_runtime_session tx rd idt fz ts scan l = (l1, Ok a) \<and> ws_inserted (ap_summary a) = 1
    \<and> lk_outcomes l1 = [] \<and> rs_rows_count st = Suc (length (loaded scan recs)) \<and> rs_generation st = state_generation
    \<and> lk_store l1 = fst (write_script tx rd idt (fz_date fz)
        (record_fields tx (session_record idt ts (loaded scan recs) fz)) (state_fields tx st) (lk_store l))"
proof -
  have reg: "regular (map lr_row recs)" using lok by (simp add: ledger_ok_def)
  have call: "redis_call act l = (l\<lparr>lk_store := fst (act (lk_store l))\<rparr>,
      case snd (act (lk_store l)) of Some x \<Rightarrow> Ok x | None \<Rightarrow> Err StIo)" for act :: "'a \<Rightarrow> 'a \<times> 'x option"
    by (simp add: redis_call_def Let_def up)
  have load: "load_ledger_records tx rd (ledger_stream tx idt) n l = (l, Ok (rev (last_n n recs)))" for n
    by (simp add: load_ledger_records_def st_bind_def call st_lift_def loaded_records [OF doc lok])
  obtain st where st: "rs_rows_count st = Suc (length (loaded scan recs))" "rs_generation st = state_generation"
    "append_runtime_session tx rd idt fz ts scan l
      = st_bind (write_session_if_new rd (idt_keys tx idt (fz_date fz))
           (record_fields tx (session_record idt ts (loaded scan recs) fz)) (state_fields tx st))
         (\<lambda>inserted. st_return (written_result st inserted)) l"
    using append_after_load [OF lok load] fits appendable_loaded [OF reg] by blast
  have "snd (write_script tx rd idt (fz_date fz) sess sf (lk_store l)) = Some True" for sess sf
  proof -
    obtain s2 where s2: "rd_xadd rd (rk_ledger_stream (idt_keys tx idt (fz_date fz))) sess
        (rd_set rd (finalized_key tx idt (fz_date fz)) ''1'' (lk_store l)) = Some s2"
      using accepts(1) by blast
    obtain s3 where "rd_hset rd (rk_state_key (idt_keys tx idt (fz_date fz))) sf s2 = Some s3"
      using accepts(2) by blast
    with new s2 show ?thesis by (simp add: session_write_script_def Let_def)
  qed
  then show ?thesis
    using st(1,2)
    by (simp add: st(3) st_bind_def write_session_if_new_def call st_return_def up) (rule exI [of _ st], simp)
qed

section \<open>The decision\<close>

text \<open>The rule: at least 60 complete sessions, and a positive sum over the last 120 of them.\<close>

definition gate_open :: "f64 list \<Rightarrow> bool" where
  "gate_open pnls \<longleftrightarrow> 60 \<le> length pnls \<and> 0 < f_sum (drop (length pnls - 120) pnls)"

abbreviation session_pnls :: "session_row list \<Rightarrow> f64 list" where
  "session_pnls rows \<equiv> map sr_pnl (complete_rows rows)"

lemma enabled_iff_gate: "enabled_for_next rows = Some True \<longleftrightarrow> gate_open (session_pnls rows)"
  by (simp add: enabled_for_next_def rolling_before_next_def rolling_sum_def gate_open_def
      lb120_lookback_def lb120_min_history_def last_n_def drop_map)

lemma complete_or_not:
  "length (complete_rows rows) + length (filter (\<lambda>r. sr_status r = StIncomplete) rows) = length rows"
proof -
  have "(sr_status r = StIncomplete) = (\<not> sr_status r = StComplete)" for r :: session_row
    by (cases "sr_status r") simp_all
  then show ?thesis unfolding complete_rows_def by (simp add: sum_length_filter_compl)
qed

text \<open>With at most 136 incomplete rows the last 256 records hold the last 120 complete ones.\<close>

lemma window_decides:
  assumes "length (filter (\<lambda>r. sr_status r = StIncomplete) (map lr_row recs)) \<le> 136"
  shows "enabled_for_next (loaded 256 recs @ xs) = enabled_for_next (map lr_row recs @ xs)"
proof (cases "length recs \<le> 256")
  case True
  then show ?thesis by (simp add: loaded_def last_n_all)
next
  case False
  define old where "old = map lr_row (take (length recs - 256) recs)"
  have split: "map lr_row recs = old @ loaded 256 recs"
    by (simp add: old_def loaded_def last_n_def map_append [symmetric] del: map_append)
  have "length (filter (\<lambda>r. sr_status r = StIncomplete) (loaded 256 recs)) \<le> 136"
    using assms unfolding split by simp
  moreover have "length (loaded 256 recs) = 256" using False by (simp add: loaded_def)
  ultimately have "120 \<le> length (complete_rows (loaded 256 recs))"
    using complete_or_not [of "loaded 256 recs"] by simp
  then have "rolling_before_next (old @ loaded 256 recs @ xs) 120 60
      = rolling_before_next (loaded 256 recs @ xs) 120 60"
    by (simp add: rolling_before_next_def complete_append rolling_sum_suffix)
  then show ?thesis
    by (simp add: split enabled_for_next_def lb120_lookback_def lb120_min_history_def)
qed

text \<open>C38. A finished session that is recorded carries the decision of the rule over the whole ledger,
  although only the newest 256 records are read: whether the gate was open for it is the rule on
  the sessions before it, whether it is open for the next one is the rule with the session added,
  and so says the state that is handed to the strategy. The ledger may hold up to 136 incomplete
  sessions.\<close>

theorem recorded_decision_is_rule:
  assumes "redis_documented rd entries" "text_documented tx" "printable_identity idt"
    and "writable_session fz ts" "ledger_ok tx entries idt (lk_store l) recs"
    and "length (filter (\<lambda>r. sr_status r = StIncomplete) (map lr_row recs)) \<le> 136"
    and "append_runtime_session tx rd idt fz ts recovery_scan_count l = (l1, Ok a)"
    and "ws_inserted (ap_summary a) = 1"
  shows "\<exists>r st. ledger_ok tx entries idt (lk_store l1) (recs @ [r]) \<and> sr_date (lr_row r) = fz_date fz
    \<and> sr_mr_enabled (lr_row r) = gate_open (session_pnls (map lr_row recs))
    \<and> lr_mr_enabled_next r = gate_open (session_pnls (map lr_row recs) @ [fz_pnl fz])
    \<and> ap_state a = Some st
    \<and> (rs_mr_enabled_next st = Some True) = gate_open (session_pnls (map lr_row recs) @ [fz_pnl fz])"
proof -
  let ?rows = "loaded 256 recs"
  have scan: "recovery_scan_count = 256" by (simp add: recovery_scan_count_def)
  from append_step [OF assms(1,2,5,3,4) assms(7)] assms(8) obtain st where
    step: "ledger_ok tx entries idt (lk_store l1) (appended tx idt ts 256 recs fz)" "ap_state a = Some st"
      "rs_mr_enabled_next st = enabled_for_next (?rows @ [session_row_of ?rows fz])"
    unfolding scan by auto
  note window = window_decides [OF assms(6)]
  have last_row: "complete_rows [session_row_of ?rows fz] = [session_row_of ?rows fz]"
    "sr_pnl (session_row_of ?rows fz) = fz_pnl fz"
    by (simp_all add: complete_rows_def session_row_of_def)
  have next_open: "(enabled_for_next (?rows @ [session_row_of ?rows fz]) = Some True)
      = gate_open (session_pnls (map lr_row recs) @ [fz_pnl fz])"
    by (simp add: window enabled_iff_gate complete_append last_row)
  have before: "sr_mr_enabled (session_row_of ?rows fz) = gate_open (session_pnls (map lr_row recs))"
    using window [of "[]"] by (simp add: session_row_of_def enabled_iff_gate)
  show ?thesis
    using step next_open before
    by (intro exI [of _ "stored_record tx (session_record idt ts ?rows fz)"] exI [of _ st])
      (simp add: appended_def session_record_def record_of_prefix_def)
qed

section \<open>A concrete Redis\<close>

record sample_store =
  ss_marks :: "string list"
  ss_streams :: "string \<Rightarrow> fields list"
  ss_hashes :: "string \<Rightarrow> fields"

definition sample_redis :: "sample_store redis" where
  "sample_redis =
     \<lparr>rd_exists = (\<lambda>k s. k \<in> set (ss_marks s) \<or> ss_streams s k \<noteq> [] \<or> ss_hashes s k \<noteq> []),
      rd_set = (\<lambda>k v s. s\<lparr>ss_marks := k # ss_marks s\<rparr>),
      rd_xadd = (\<lambda>k f s. Some (s\<lparr>ss_streams := (ss_streams s)(k := ss_streams s k @ [f])\<rparr>)),
      rd_xrevrange = (\<lambda>k n s. take n (rev (ss_streams s k))),
      rd_hset = (\<lambda>k f s. Some (s\<lparr>ss_hashes := (ss_hashes s)(k := ss_hashes s k @ f)\<rparr>)),
      rd_hgetall = (\<lambda>k s. ss_hashes s k)\<rparr>"

abbreviation sample_entries :: "string \<Rightarrow> sample_store \<Rightarrow> fields list" where
  "sample_entries k s \<equiv> ss_streams s k"

lemma sample_redis_documented: "redis_documented sample_redis sample_entries"
  by (simp add: redis_documented_def xadd_documented_def set_documented_def hset_documented_def
      sample_redis_def field_map_def map_add_def fun_eq_iff split: option.splits)

definition sample_identity :: rg_identity where
  "sample_identity = \<lparr>ri_strategy_id = ''s1'', ri_profile_id = ''p'', ri_mr_variant = ''high180'',
     ri_timeframe = ''10m'', ri_session_policy = ''Mon-Fri'', ri_legacy_policy = None,
     ri_transition_date = None, ri_model_version = ''v1''\<rparr>"

lemma sample_identity_printable: "printable_identity sample_identity"
proof -
  have "trim ''p'' \<noteq> []" "trim ''high180'' \<noteq> []" "trim ''10m'' \<noteq> []" "trim ''Mon-Fri'' \<noteq> []"
    "trim ''v1'' \<noteq> []" by code_simp+
  then show ?thesis by (simp add: printable_identity_def sample_identity_def)
qed

definition sample_link :: "sample_store link" where
  "sample_link = \<lparr>lk_store = \<lparr>ss_marks = [], ss_streams = (\<lambda>k. []), ss_hashes = (\<lambda>k. [])\<rparr>,
     lk_outcomes = [CallDone, ReplyLost]\<rparr>"

lemma sample_link_ok: "ledger_ok sample_text sample_entries sample_identity (lk_store sample_link) []"
  by (simp add: ledger_ok_def sample_link_def regular_def validate_identity_iff)

text \<open>Day 20003 is a Monday; its session is written, the reply is lost, and it is finished again.\<close>

definition sample_finalization :: rg_finalization where
  "sample_finalization = \<lparr>fz_date = 20003, fz_pnl = Fin 5, fz_trade_count = 1\<rparr>"

lemma ledger_append_only_witness:
  "\<exists>new. ledger_ok sample_text sample_entries sample_identity
      (lk_store (append_run sample_text sample_redis sample_identity 256
        [(sample_finalization, 7), (sample_finalization, 8)] sample_link)) ([] @ new)
    \<and> regular (map lr_row ([] @ new))
    \<and> set (map (sr_date \<circ> lr_row) new)
      \<subseteq> set (map (fz_date \<circ> fst) [(sample_finalization, 7 :: i64), (sample_finalization, 8)])"
  by (rule ledger_append_only [OF sample_redis_documented sample_text_documented
        sample_identity_printable _ sample_link_ok])
    (simp add: writable_session_def sample_finalization_def u32_max_def i64_min_def i64_max_def)

lemma sample_append:
  "\<exists>l1 a st. append_runtime_session sample_text sample_redis sample_identity sample_finalization 7
      recovery_scan_count (sample_link\<lparr>lk_outcomes := []\<rparr>) = (l1, Ok a) \<and> ws_inserted (ap_summary a) = 1
    \<and> lk_outcomes l1 = [] \<and> rs_rows_count st = Suc (length (loaded recovery_scan_count [])) \<and> rs_generation st = state_generation
    \<and> lk_store l1 = fst (write_script sample_text sample_redis sample_identity (fz_date sample_finalization)
        (record_fields sample_text (session_record sample_identity 7 (loaded recovery_scan_count []) sample_finalization))
        (state_fields sample_text st) (lk_store (sample_link\<lparr>lk_outcomes := []\<rparr>)))"
proof (rule append_succeeds [OF sample_redis_documented])
  show "ledger_ok sample_text sample_entries sample_identity (lk_store (sample_link\<lparr>lk_outcomes := []\<rparr>)) []"
    using sample_link_ok by simp
  show "appendable (map lr_row []) (fz_date sample_finalization)"
    by (simp add: appendable_def sample_finalization_def weekday_of_def is_weekend_day_def)
qed (simp_all add: sample_redis_def sample_link_def)

lemma recorded_decision_is_rule_witness:
  "\<exists>l1 r. ledger_ok sample_text sample_entries sample_identity (lk_store l1) [r]
    \<and> sr_date (lr_row r) = 20003 \<and> \<not> lr_mr_enabled_next r
    \<and> l1 = fst (append_runtime_session sample_text sample_redis sample_identity sample_finalization 7
        recovery_scan_count (sample_link\<lparr>lk_outcomes := []\<rparr>))"
proof -
  obtain l1 a where run: "append_runtime_session sample_text sample_redis sample_identity sample_finalization 7
      recovery_scan_count (sample_link\<lparr>lk_outcomes := []\<rparr>) = (l1, Ok a)" "ws_inserted (ap_summary a) = 1"
    using sample_append by blast
  have "writable_session sample_finalization 7"
    by (simp add: writable_session_def sample_finalization_def u32_max_def i64_min_def i64_max_def)
  then show ?thesis
    using recorded_decision_is_rule [OF sample_redis_documented sample_text_documented
        sample_identity_printable _ _ _ run, of "[]"] sample_link_ok run(1)
    by (auto simp: gate_open_def sample_finalization_def complete_rows_def)
qed

end
