(* ===== verification/Risk_Gate_Runtime.thy ===== *)
theory Risk_Gate_Runtime
  imports Risk_Gate_Ledger Runtime_State
begin

text \<open>
  The risk gate in the runtime (\<open>runtime.rs\<close>, the types of \<open>strategy_host.rs\<close>): the state handed to
  the strategy at the start, and the flush that writes finished sessions to the ledger and
  acknowledges them to the strategy. Log and audit records are left out.
\<close>

section \<open>The hooks of the strategy\<close>

record rg_runtime_state =
  rrs_profile_id :: string
  rrs_last_finalized :: "naive_date option"
  rrs_rolling_sum :: "f64 option"
  rrs_enabled_current :: "bool option"
  rrs_enabled_next :: "bool option"
  rrs_rows_count :: nat

text \<open>The trait methods the flush calls, and \<open>state()\<close>.\<close>

record ('st, 'v) rg_hooks =
  rh_finalizations :: "'st \<Rightarrow> rg_finalization list"
  rh_acknowledge :: "naive_date list \<Rightarrow> 'st \<Rightarrow> 'st"
  rh_on_state :: "rg_runtime_state \<Rightarrow> 'st \<Rightarrow> 'st"
  rh_state :: "'st \<Rightarrow> 'v"

text \<open>The strategy and the copy of its state that is persisted.\<close>

record ('st, 'v) rg_holder =
  rgh_strategy :: 'st
  rgh_copy :: 'v

definition set_strategy :: "('st, 'v) rg_hooks \<Rightarrow> 'st \<Rightarrow> ('st, 'v) rg_holder" where
  "set_strategy hk s = \<lparr>rgh_strategy = s, rgh_copy = rh_state hk s\<rparr>"

definition apply_rg_state ::
  "('st, 'v) rg_hooks \<Rightarrow> string \<Rightarrow> rg_state \<Rightarrow> ('st, 'v) rg_holder \<Rightarrow> ('st, 'v) rg_holder" where
  "apply_rg_state hk profile st h =
     set_strategy hk (rh_on_state hk
       \<lparr>rrs_profile_id = profile, rrs_last_finalized = rs_last_finalized st,
        rrs_rolling_sum = rs_rolling_sum st, rrs_enabled_current = rs_mr_enabled_current st,
        rrs_enabled_next = rs_mr_enabled_next st, rrs_rows_count = rs_rows_count st\<rparr> (rgh_strategy h))"

definition session_persistence_enabled :: "trade_mode \<Rightarrow> bool option \<Rightarrow> bool" where
  "session_persistence_enabled mode persist_in_shadow \<longleftrightarrow>
     mode = TmLive \<or> mode = TmPaper \<and> persist_in_shadow = Some True"

section \<open>Start and flush\<close>

definition bootstrap_risk_gate ::
  "text_lib \<Rightarrow> 's redis \<Rightarrow> ('st, 'v) rg_hooks \<Rightarrow> config_error + rg_store_config option
   \<Rightarrow> seed_csv_row option list option option \<Rightarrow> ('st, 'v) rg_holder \<Rightarrow> 's link
   \<Rightarrow> 's link \<times> ('st, 'v) rg_holder \<times> (store_error + unit)" where
  "bootstrap_risk_gate tx rd hk cfg_result file h l =
     (case cfg_result of
        Err e \<Rightarrow> (l, h, Err (StConfig e))
      | Ok None \<Rightarrow> (l, h, Ok ())
      | Ok (Some cfg) \<Rightarrow>
          (case run_startup_store tx rd cfg file l of
             (l1, Err e) \<Rightarrow> (l1, h, Err e)
           | (l1, Ok res) \<Rightarrow>
               (l1, apply_rg_state hk (ri_profile_id (rc_identity cfg)) (ra_state (ru_artifacts res)) h, Ok ())))"



section \<open>Nothing is acknowledged that is not recorded\<close>





section \<open>A restart\<close>








section \<open>Examples\<close>






end
