(* ===== verification/Hybrid_Runtime_State.thy ===== *)
theory Hybrid_Runtime_State
  imports Hybrid_Tags Risk_Gate_Runtime Market_Close
begin

text \<open>
  The hybrid strategy of \<open>strategies/hybrid_intraday_runtime.rs\<close>, first part: its configuration,
  the strategy object with all its fields, what it persists and restores (the variant
  \<open>HybridIntradayRuntime\<close> of \<open>state.rs\<close>), and the methods that only read: prices, request ids,
  signals, sessions. \<open>Utc::now()\<close>, \<open>Uuid::new_v5\<close>, the text of dates and the order in which a
  hash set lists its elements come from \<open>hybrid_env\<close>.
\<close>

section \<open>Configuration\<close>

datatype hybrid_profile = BaselineRuntimeHybrid | ImoexfPrimaryRiskgateHigh180Lb120

datatype mr_variant = ClassicPrevDayRange | VariantHigh180 | Author41BoundaryShort

datatype mr_gate_policy = GatePolicyDisabled | ShadowPnlLb120Positive

datatype risk_gate_mode =
  GateDisabled | GateBootstrapFromSeed | GateNormalAppend | GateRebuildFromHistory
| GateShadowOnly | GateEnforced

datatype weekend_policy = WeekendSkip | WeekendStateOnly

record hybrid_config =
  hyc_symbol :: string
  hyc_profile :: hybrid_profile
  hyc_mr_variant :: mr_variant
  hyc_live_mr_entries :: bool
  hyc_gate_policy :: mr_gate_policy
  hyc_gate_mode :: risk_gate_mode
  hyc_seed_file :: "string option"
  hyc_ledger_key :: "string option"
  hyc_persist_in_shadow :: bool
  hyc_weekend_policy :: weekend_policy
  hyc_session_start :: "naive_time option"
  hyc_session_end :: "naive_time option"
  hyc_qty :: f64
  hyc_style :: live_order_style
  hyc_tick_size :: f64
  hyc_offset_ticks :: i64
  hyc_tz_offset :: i32
  hyc_close_hour :: u32
  hyc_close_minute :: u32
  hyc_weekends_off :: bool
  hyc_stop_end_buffer :: u64
  hyc_repair_deadline :: u64
  hyc_sl_escalate :: u64
  hyc_max_repairs :: u32
  hyc_backoff_base :: u64
  hyc_backoff_max :: u64
  hyc_pending_timeout :: u64
  hyc_partial_timeout_ms :: u64
  hyc_mr :: mean_reversion_config
  hyc_bo :: breakout_config
  hyc_orch :: orchestrator_config

section \<open>The environment\<close>

record hybrid_env =
  he_chrono :: chrono_lib
  he_v5 :: "string \<Rightarrow> uuid"
  he_now_ms :: i64
  he_show_day :: "naive_date \<Rightarrow> string"
  he_parse_day :: "string \<Rightarrow> naive_date option"
  he_show_dt :: "naive_datetime \<Rightarrow> string"
  he_parse_dt :: "string \<Rightarrow> naive_datetime option"
  he_list_orders :: "i64 set \<Rightarrow> i64 list"
  he_list_stops :: "string set \<Rightarrow> string list"

text \<open>What is documented of them: a date is read back from its text \<open>%Y-%m-%d\<close>, a time of whole
  seconds from \<open>%Y-%m-%dT%H:%M:%S\<close>, and the iteration of a set yields each element once.\<close>

definition dates_documented :: "hybrid_env \<Rightarrow> bool" where
  "dates_documented env \<longleftrightarrow> (\<forall>d. he_parse_day env (he_show_day env d) = Some d)
     \<and> (\<forall>t. ns_per_sec dvd t \<longrightarrow> he_parse_dt env (he_show_dt env t) = Some t)"

definition lists_documented :: "hybrid_env \<Rightarrow> bool" where
  "lists_documented env \<longleftrightarrow>
     (\<forall>A. finite A \<longrightarrow> set (he_list_orders env A) = A \<and> distinct (he_list_orders env A))
     \<and> (\<forall>A. finite A \<longrightarrow> set (he_list_stops env A) = A \<and> distinct (he_list_stops env A))"

section \<open>The strategy object\<close>

record pending_entry =
  hpe_owner :: owner
  hpe_side :: pos_side
  hpe_cycle :: cycle_id
  hpe_reason :: reason_code
  hpe_style :: entry_style
  hpe_stop :: "f64 option"
  hpe_take :: "f64 option"
  hpe_target_qty :: f64
  hpe_partial_started :: "i64 option"

record pending_exit =
  hpx_owner :: owner
  hpx_reason :: reason_code

record shadow_position =
  shp_side :: pos_side
  shp_entry_ts :: i64
  shp_entry_price :: f64

record deferred_entry =
  hde_signal :: entry_signal
  hde_cycle :: cycle_id
  hde_ts :: i64
  hde_req :: uuid

record deferred_exit =
  hdx_owner :: owner
  hdx_reason :: reason_code
  hdx_cycle :: cycle_id
  hdx_ts :: i64
  hdx_req :: uuid

text \<open>The fields of \<open>StrategyState::HybridIntradayRuntime\<close>.\<close>

record hybrid_persisted =
  hyp_cycle :: "string option"
  hyp_cycle_seq :: u32
  hyp_last_qty :: f64
  hyp_owner :: "owner option"
  hyp_side :: "pos_side option"
  hyp_entry_owner :: "owner option"
  hyp_entry_side :: "pos_side option"
  hyp_entry_cycle :: "string option"
  hyp_entry_req :: "uuid option"
  hyp_entry_created :: "i64 option"
  hyp_de_owner :: "owner option"
  hyp_de_side :: "pos_side option"
  hyp_de_cycle :: "string option"
  hyp_de_style :: "entry_style option"
  hyp_de_reason :: "reason_code option"
  hyp_de_stop :: "f64 option"
  hyp_de_take :: "f64 option"
  hyp_de_ts :: "i64 option"
  hyp_de_req :: "uuid option"
  hyp_exit_req :: "uuid option"
  hyp_exit_created :: "i64 option"
  hyp_dx_owner :: "owner option"
  hyp_dx_reason :: "reason_code option"
  hyp_dx_cycle :: "string option"
  hyp_dx_ts :: "i64 option"
  hyp_dx_req :: "uuid option"
  hyp_tp_req :: "uuid option"
  hyp_tp_created :: "i64 option"
  hyp_sl_req :: "uuid option"
  hyp_sl_created :: "i64 option"
  hyp_tp_order :: "i64 option"
  hyp_sl_stop_order :: "string option"
  hyp_sl_exchange_order :: "i64 option"
  hyp_sl_triggered :: "i64 option"
  hyp_take_price :: "f64 option"
  hyp_stop_price :: "f64 option"
  hyp_repair_deadline :: "i64 option"
  hyp_next_repair :: "i64 option"
  hyp_backoff_level :: u32
  hyp_repair_attempts :: u32
  hyp_safe_mode :: bool
  hyp_safe_reason :: "string option"
  hyp_entry_ready :: bool
  hyp_last_close :: "f64 option"
  hyp_prev_close :: "f64 option"
  hyp_last_day :: "string option"
  hyp_day_high :: "f64 option"
  hyp_day_low :: "f64 option"
  hyp_prev_range :: "f64 option"
  hyp_day_close :: "f64 option"
  hyp_prev_return :: "f64 option"
  hyp_day_before_close :: "f64 option"
  hyp_today_start :: "string option"
  hyp_was_long :: bool
  hyp_was_short :: bool
  hyp_armed_date :: "string option"
  hyp_shadow_date :: "string option"
  hyp_shadow_pnl :: f64
  hyp_shadow_trades :: u32
  hyp_shadow_entry_ts :: "i64 option"
  hyp_shadow_entry_price :: "f64 option"
  hyp_shadow_side :: "pos_side option"
  hyp_shadow_target :: "f64 option"
  hyp_shadow_stop :: "f64 option"
  hyp_fz_date :: "string option"
  hyp_fz_pnl :: f64
  hyp_fz_trades :: u32
  hyp_mr_enabled :: "bool option"
  hyp_rolling_sum :: "f64 option"
  hyp_last_finalized :: "string option"
  hyp_ledger_rows :: nat
text \<open>\<open>HybridIntradayRuntimeStrategy\<close>. The hash sets are sets.\<close>

record hybrid =
  hy_config :: hybrid_config
  hy_orch :: orchestrator
  hy_high180 :: high180
  hy_shadow_mr :: high180
  hy_state :: "hybrid_persisted strategy_state"
  hy_last_processed :: "i64 option"
  hy_last_qty :: f64
  hy_owner :: "owner option"
  hy_side :: "pos_side option"
  hy_entry :: "pending_entry option"
  hy_entry_req :: "uuid option"
  hy_entry_created :: "i64 option"
  hy_deferred_entry :: "deferred_entry option"
  hy_exit :: "pending_exit option"
  hy_exit_req :: "uuid option"
  hy_exit_created :: "i64 option"
  hy_deferred_exit :: "deferred_exit option"
  hy_tp_req :: "uuid option"
  hy_tp_created :: "i64 option"
  hy_sl_req :: "uuid option"
  hy_sl_created :: "i64 option"
  hy_tp_order :: "i64 option"
  hy_sl_stop_order :: "string option"
  hy_sl_exchange_order :: "i64 option"
  hy_sl_triggered :: "i64 option"
  hy_take_price :: "f64 option"
  hy_stop_price :: "f64 option"
  hy_repair_deadline :: "i64 option"
  hy_next_repair :: "i64 option"
  hy_backoff_level :: u32
  hy_repair_attempts :: u32
  hy_reconcile_started :: "i64 option"
  hy_cycle :: "cycle_id option"
  hy_safe_mode :: bool
  hy_safe_reason :: "string option"
  hy_cycle_seq :: u32
  hy_last_close :: "f64 option"
  hy_prev_close :: "f64 option"
  hy_last_day :: "naive_date option"
  hy_day_high :: "f64 option"
  hy_day_low :: "f64 option"
  hy_prev_range :: "f64 option"
  hy_entry_ready :: bool
  hy_warmup_log :: "bool option"
  hy_orders :: "i64 set"
  hy_stop_orders :: "string set"
  hy_cleanup_retries :: u32
  hy_replay_boundary :: "i64 option"
  hy_replay_suppressed :: u32
  hy_shadow_date :: "naive_date option"
  hy_shadow_pnl :: f64
  hy_shadow_trades :: u32
  hy_shadow_position :: "shadow_position option"
  hy_shadow_open :: "high180_open option"
  hy_finalizations :: "rg_finalization list"
  hy_mr_enabled :: "bool option"
  hy_rolling_sum :: "f64 option"
  hy_last_finalized :: "naive_date option"
  hy_ledger_rows :: nat
definition high180_config_from_mr_cutoff :: "naive_time \<Rightarrow> high180_config" where
  "high180_config_from_mr_cutoff cutoff =
     \<lparr>hic_min_rel_range = rnd (5 / 1000), hic_max_rel_range = rnd (50 / 1000),
      hic_k_long = rnd (85 / 1000), hic_k_short = rnd (90 / 1000), hic_stop_loss_mult = Fin 7,
      hic_max_hold = 180 * 60 * ns_per_sec, hic_entry_end_time = cutoff\<rparr>"

definition hybrid_new :: "hybrid_config \<Rightarrow> hybrid" where
  "hybrid_new cfg = \<lparr>
     hy_config = cfg, hy_orch = orch_new (hyc_mr cfg) (breakout_new (hyc_bo cfg)) (hyc_orch cfg),
     hy_high180 = high180_new (high180_config_from_mr_cutoff (mrc_session_end_time (hyc_mr cfg))),
     hy_shadow_mr = high180_new (high180_config_from_mr_cutoff (mrc_session_end_time (hyc_mr cfg))),
     hy_state = Idle, hy_last_processed = None, hy_last_qty = 0, hy_owner = None, hy_side = None,
     hy_entry = None, hy_entry_req = None, hy_entry_created = None, hy_deferred_entry = None,
     hy_exit = None, hy_exit_req = None, hy_exit_created = None, hy_deferred_exit = None,
     hy_tp_req = None, hy_tp_created = None, hy_sl_req = None, hy_sl_created = None,
     hy_tp_order = None, hy_sl_stop_order = None, hy_sl_exchange_order = None,
     hy_sl_triggered = None, hy_take_price = None, hy_stop_price = None,
     hy_repair_deadline = None, hy_next_repair = None, hy_backoff_level = 0,
     hy_repair_attempts = 0, hy_reconcile_started = None, hy_cycle = None, hy_safe_mode = False,
     hy_safe_reason = None, hy_cycle_seq = 0, hy_last_close = None, hy_prev_close = None,
     hy_last_day = None, hy_day_high = None, hy_day_low = None, hy_prev_range = None,
     hy_entry_ready = False, hy_warmup_log = None, hy_orders = {}, hy_stop_orders = {},
     hy_cleanup_retries = 0, hy_replay_boundary = None, hy_replay_suppressed = 0,
     hy_shadow_date = None, hy_shadow_pnl = 0, hy_shadow_trades = 0, hy_shadow_position = None,
     hy_shadow_open = None, hy_finalizations = [], hy_mr_enabled = None, hy_rolling_sum = None,
     hy_last_finalized = None, hy_ledger_rows = 0\<rparr>"
section \<open>What is persisted\<close>

definition persisted :: "hybrid_env \<Rightarrow> hybrid \<Rightarrow> hybrid_persisted" where
  "persisted env s =
     (let bo = bo_state (or_breakout (hy_orch s));
          fz = (case hy_finalizations s of [] \<Rightarrow> None | f # _ \<Rightarrow> Some f)
      in \<lparr>
        hyp_cycle = map_option format_cycle_id (hy_cycle s), hyp_cycle_seq = hy_cycle_seq s,
        hyp_last_qty = hy_last_qty s, hyp_owner = hy_owner s, hyp_side = hy_side s,
        hyp_entry_owner = map_option hpe_owner (hy_entry s),
        hyp_entry_side = map_option hpe_side (hy_entry s),
        hyp_entry_cycle = map_option (format_cycle_id \<circ> hpe_cycle) (hy_entry s),
        hyp_entry_req = hy_entry_req s, hyp_entry_created = hy_entry_created s,
        hyp_de_owner = map_option (es_owner \<circ> hde_signal) (hy_deferred_entry s),
        hyp_de_side = map_option (es_side \<circ> hde_signal) (hy_deferred_entry s),
        hyp_de_cycle = map_option (format_cycle_id \<circ> hde_cycle) (hy_deferred_entry s),
        hyp_de_style = map_option (es_style \<circ> hde_signal) (hy_deferred_entry s),
        hyp_de_reason = map_option (es_reason \<circ> hde_signal) (hy_deferred_entry s),
        hyp_de_stop = Option.bind (hy_deferred_entry s) (es_stop_price \<circ> hde_signal),
        hyp_de_take = Option.bind (hy_deferred_entry s) (es_take_price \<circ> hde_signal),
        hyp_de_ts = map_option hde_ts (hy_deferred_entry s),
        hyp_de_req = map_option hde_req (hy_deferred_entry s), hyp_exit_req = hy_exit_req s,
        hyp_exit_created = hy_exit_created s,
        hyp_dx_owner = map_option hdx_owner (hy_deferred_exit s),
        hyp_dx_reason = map_option hdx_reason (hy_deferred_exit s),
        hyp_dx_cycle = map_option (format_cycle_id \<circ> hdx_cycle) (hy_deferred_exit s),
        hyp_dx_ts = map_option hdx_ts (hy_deferred_exit s),
        hyp_dx_req = map_option hdx_req (hy_deferred_exit s), hyp_tp_req = hy_tp_req s,
        hyp_tp_created = hy_tp_created s, hyp_sl_req = hy_sl_req s,
        hyp_sl_created = hy_sl_created s, hyp_tp_order = hy_tp_order s,
        hyp_sl_stop_order = hy_sl_stop_order s, hyp_sl_exchange_order = hy_sl_exchange_order s,
        hyp_sl_triggered = hy_sl_triggered s, hyp_take_price = hy_take_price s,
        hyp_stop_price = hy_stop_price s, hyp_repair_deadline = hy_repair_deadline s,
        hyp_next_repair = hy_next_repair s, hyp_backoff_level = hy_backoff_level s,
        hyp_repair_attempts = hy_repair_attempts s, hyp_safe_mode = hy_safe_mode s,
        hyp_safe_reason = hy_safe_reason s, hyp_entry_ready = hy_entry_ready s,
        hyp_last_close = hy_last_close s, hyp_prev_close = hy_prev_close s,
        hyp_last_day = map_option (he_show_day env) (hy_last_day s),
        hyp_day_high = hy_day_high s, hyp_day_low = hy_day_low s,
        hyp_prev_range = hy_prev_range s, hyp_day_close = bo_cur_day_close bo,
        hyp_prev_return = bo_yesterday_return bo, hyp_day_before_close = bo_day_before_close bo,
        hyp_today_start = map_option (he_show_dt env) (bo_today_start bo),
        hyp_was_long = bo_was_long_today bo, hyp_was_short = bo_was_short_today bo,
        hyp_armed_date = map_option (he_show_day env) (hsn_armed_date (orch_snapshot (hy_orch s))),
        hyp_shadow_date = map_option (he_show_day env) (hy_shadow_date s),
        hyp_shadow_pnl = hy_shadow_pnl s, hyp_shadow_trades = hy_shadow_trades s,
        hyp_shadow_entry_ts = map_option shp_entry_ts (hy_shadow_position s),
        hyp_shadow_entry_price = map_option shp_entry_price (hy_shadow_position s),
        hyp_shadow_side = map_option shp_side (hy_shadow_position s),
        hyp_shadow_target = map_option hio_target_price (hy_shadow_open s),
        hyp_shadow_stop = map_option hio_stop_price (hy_shadow_open s),
        hyp_fz_date = map_option (he_show_day env \<circ> fz_date) fz,
        hyp_fz_pnl = (case fz of None \<Rightarrow> 0 | Some f \<Rightarrow> fz_pnl f),
        hyp_fz_trades = (case fz of None \<Rightarrow> 0 | Some f \<Rightarrow> fz_trade_count f),
        hyp_mr_enabled = hy_mr_enabled s, hyp_rolling_sum = hy_rolling_sum s,
        hyp_last_finalized = map_option (he_show_day env) (hy_last_finalized s),
        hyp_ledger_rows = hy_ledger_rows s\<rparr>)"
text \<open>Each field as it is read back.\<close>

lemma persisted_fields [simp]:
  "hyp_cycle (persisted env s) = map_option format_cycle_id (hy_cycle s)"
  "hyp_cycle_seq (persisted env s) = hy_cycle_seq s"
  "hyp_last_qty (persisted env s) = hy_last_qty s"
  "hyp_owner (persisted env s) = hy_owner s"
  "hyp_side (persisted env s) = hy_side s"
  "hyp_entry_owner (persisted env s) = map_option hpe_owner (hy_entry s)"
  "hyp_entry_side (persisted env s) = map_option hpe_side (hy_entry s)"
  "hyp_entry_cycle (persisted env s) = map_option (format_cycle_id \<circ> hpe_cycle) (hy_entry s)"
  "hyp_entry_req (persisted env s) = hy_entry_req s"
  "hyp_entry_created (persisted env s) = hy_entry_created s"
  "hyp_de_owner (persisted env s) = map_option (es_owner \<circ> hde_signal) (hy_deferred_entry s)"
  "hyp_de_side (persisted env s) = map_option (es_side \<circ> hde_signal) (hy_deferred_entry s)"
  "hyp_de_cycle (persisted env s) = map_option (format_cycle_id \<circ> hde_cycle) (hy_deferred_entry s)"
  "hyp_de_style (persisted env s) = map_option (es_style \<circ> hde_signal) (hy_deferred_entry s)"
  "hyp_de_reason (persisted env s) = map_option (es_reason \<circ> hde_signal) (hy_deferred_entry s)"
  "hyp_de_stop (persisted env s) = Option.bind (hy_deferred_entry s) (es_stop_price \<circ> hde_signal)"
  "hyp_de_take (persisted env s) = Option.bind (hy_deferred_entry s) (es_take_price \<circ> hde_signal)"
  "hyp_de_ts (persisted env s) = map_option hde_ts (hy_deferred_entry s)"
  "hyp_de_req (persisted env s) = map_option hde_req (hy_deferred_entry s)"
  "hyp_exit_req (persisted env s) = hy_exit_req s"
  "hyp_exit_created (persisted env s) = hy_exit_created s"
  "hyp_dx_owner (persisted env s) = map_option hdx_owner (hy_deferred_exit s)"
  "hyp_dx_reason (persisted env s) = map_option hdx_reason (hy_deferred_exit s)"
  "hyp_dx_cycle (persisted env s) = map_option (format_cycle_id \<circ> hdx_cycle) (hy_deferred_exit s)"
  "hyp_dx_ts (persisted env s) = map_option hdx_ts (hy_deferred_exit s)"
  "hyp_dx_req (persisted env s) = map_option hdx_req (hy_deferred_exit s)"
  "hyp_tp_req (persisted env s) = hy_tp_req s"
  "hyp_tp_created (persisted env s) = hy_tp_created s"
  "hyp_sl_req (persisted env s) = hy_sl_req s"
  "hyp_sl_created (persisted env s) = hy_sl_created s"
  "hyp_tp_order (persisted env s) = hy_tp_order s"
  "hyp_sl_stop_order (persisted env s) = hy_sl_stop_order s"
  "hyp_sl_exchange_order (persisted env s) = hy_sl_exchange_order s"
  "hyp_sl_triggered (persisted env s) = hy_sl_triggered s"
  "hyp_take_price (persisted env s) = hy_take_price s"
  "hyp_stop_price (persisted env s) = hy_stop_price s"
  "hyp_repair_deadline (persisted env s) = hy_repair_deadline s"
  "hyp_next_repair (persisted env s) = hy_next_repair s"
  "hyp_backoff_level (persisted env s) = hy_backoff_level s"
  "hyp_repair_attempts (persisted env s) = hy_repair_attempts s"
  "hyp_safe_mode (persisted env s) = hy_safe_mode s"
  "hyp_safe_reason (persisted env s) = hy_safe_reason s"
  "hyp_entry_ready (persisted env s) = hy_entry_ready s"
  "hyp_last_close (persisted env s) = hy_last_close s"
  "hyp_prev_close (persisted env s) = hy_prev_close s"
  "hyp_last_day (persisted env s) = map_option (he_show_day env) (hy_last_day s)"
  "hyp_day_high (persisted env s) = hy_day_high s"
  "hyp_day_low (persisted env s) = hy_day_low s"
  "hyp_prev_range (persisted env s) = hy_prev_range s"
  "hyp_day_close (persisted env s) = bo_cur_day_close (bo_state (or_breakout (hy_orch s)))"
  "hyp_prev_return (persisted env s) = bo_yesterday_return (bo_state (or_breakout (hy_orch s)))"
  "hyp_day_before_close (persisted env s) = bo_day_before_close (bo_state (or_breakout (hy_orch s)))"
  "hyp_today_start (persisted env s) = map_option (he_show_dt env) (bo_today_start (bo_state (or_breakout (hy_orch s))))"
  "hyp_was_long (persisted env s) = bo_was_long_today (bo_state (or_breakout (hy_orch s)))"
  "hyp_was_short (persisted env s) = bo_was_short_today (bo_state (or_breakout (hy_orch s)))"
  "hyp_armed_date (persisted env s) = map_option (he_show_day env) (hsn_armed_date (orch_snapshot (hy_orch s)))"
  "hyp_shadow_date (persisted env s) = map_option (he_show_day env) (hy_shadow_date s)"
  "hyp_shadow_pnl (persisted env s) = hy_shadow_pnl s"
  "hyp_shadow_trades (persisted env s) = hy_shadow_trades s"
  "hyp_shadow_entry_ts (persisted env s) = map_option shp_entry_ts (hy_shadow_position s)"
  "hyp_shadow_entry_price (persisted env s) = map_option shp_entry_price (hy_shadow_position s)"
  "hyp_shadow_side (persisted env s) = map_option shp_side (hy_shadow_position s)"
  "hyp_shadow_target (persisted env s) = map_option hio_target_price (hy_shadow_open s)"
  "hyp_shadow_stop (persisted env s) = map_option hio_stop_price (hy_shadow_open s)"
  "hyp_mr_enabled (persisted env s) = hy_mr_enabled s"
  "hyp_rolling_sum (persisted env s) = hy_rolling_sum s"
  "hyp_last_finalized (persisted env s) = map_option (he_show_day env) (hy_last_finalized s)"
  "hyp_ledger_rows (persisted env s) = hy_ledger_rows s"
  by (simp_all add: persisted_def Let_def)

definition sync_state :: "hybrid_env \<Rightarrow> hybrid \<Rightarrow> hybrid" where
  "sync_state env s = s\<lparr>hy_state := HybridIntradayRuntime (persisted env s)\<rparr>"

definition signals_warmed :: "hybrid \<Rightarrow> bool" where
  "signals_warmed s \<longleftrightarrow> hy_prev_range s \<noteq> None \<and> hy_prev_close s \<noteq> None"

text \<open>The parts \<open>set_state\<close> puts together again. A pending entry comes back as a market entry
  without its prices, a pending exit not at all, and only one finalization was kept.\<close>

definition restored_entry :: "hybrid_config \<Rightarrow> hybrid_persisted \<Rightarrow> pending_entry option" where
  "restored_entry cfg p =
     (case (hyp_entry_owner p, hyp_entry_side p, Option.bind (hyp_entry_cycle p) parse_cycle_id) of
        (Some own, Some sd, Some cycle) \<Rightarrow>
          Some \<lparr>hpe_owner = own, hpe_side = sd, hpe_cycle = cycle, hpe_reason = MorningMeanReversionLong,
                hpe_style = StMarket, hpe_stop = None, hpe_take = None,
                hpe_target_qty = f_max (hyc_qty cfg) 1, hpe_partial_started = None\<rparr>
      | _ \<Rightarrow> None)"

definition restored_deferred_entry :: "hybrid_persisted \<Rightarrow> deferred_entry option" where
  "restored_deferred_entry p =
     (case (hyp_de_owner p, hyp_de_side p, Option.bind (hyp_de_cycle p) parse_cycle_id, hyp_de_style p,
            hyp_de_reason p, hyp_de_ts p, hyp_de_req p) of
        (Some own, Some sd, Some cycle, Some style, Some reason, Some ts, Some req) \<Rightarrow>
          Some \<lparr>hde_signal = \<lparr>es_owner = own, es_side = sd, es_style = style, es_reason = reason,
                  es_stop_price = hyp_de_stop p, es_take_price = hyp_de_take p\<rparr>,
                hde_cycle = cycle, hde_ts = ts, hde_req = req\<rparr>
      | _ \<Rightarrow> None)"

definition restored_deferred_exit :: "hybrid_persisted \<Rightarrow> deferred_exit option" where
  "restored_deferred_exit p =
     (case (hyp_dx_owner p, hyp_dx_reason p, Option.bind (hyp_dx_cycle p) parse_cycle_id, hyp_dx_ts p,
            hyp_dx_req p) of
        (Some own, Some reason, Some cycle, Some ts, Some req) \<Rightarrow>
          Some \<lparr>hdx_owner = own, hdx_reason = reason, hdx_cycle = cycle, hdx_ts = ts, hdx_req = req\<rparr>
      | _ \<Rightarrow> None)"

definition restored_orch :: "hybrid_env \<Rightarrow> hybrid_persisted \<Rightarrow> hybrid \<Rightarrow> orchestrator" where
  "restored_orch env p s =
     (let o1 = orch_restore
            \<lparr>hsn_state = (if hy_entry s \<noteq> None \<or> hy_entry_req s \<noteq> None then HsPending
               else if f64_epsilon < \<bar>hy_last_qty s\<bar> \<and> hy_owner s \<noteq> None \<and> hy_side s \<noteq> None
                 then HsOpen else HsFlat),
             hsn_owner = hy_owner s, hsn_side = hy_side s, hsn_has_pending_entry = (hy_entry s \<noteq> None),
             hsn_armed_date = Option.bind (hyp_armed_date p) (he_parse_day env)\<rparr> (hy_orch s)
      in o1\<lparr>or_breakout := breakout_restore
           \<lparr>bo_cur_day_date = hy_last_day s, bo_cur_day_high = hy_day_high s, bo_cur_day_low = hy_day_low s,
            bo_cur_day_close = hyp_day_close p, bo_yesterday_close = hyp_prev_close p,
            bo_yesterday_range = hyp_prev_range p, bo_yesterday_return = hyp_prev_return p,
            bo_day_before_close = hyp_day_before_close p, bo_was_long_today = hyp_was_long p,
            bo_was_short_today = hyp_was_short p,
            bo_today_start = Option.bind (hyp_today_start p) (he_parse_dt env)\<rparr> (or_breakout o1)\<rparr>)"

definition restored_finalizations :: "hybrid_env \<Rightarrow> hybrid_persisted \<Rightarrow> rg_finalization list" where
  "restored_finalizations env p =
     (case Option.bind (hyp_fz_date p) (he_parse_day env) of
        None \<Rightarrow> []
      | Some d \<Rightarrow> [\<lparr>fz_date = d, fz_pnl = hyp_fz_pnl p, fz_trade_count = hyp_fz_trades p\<rparr>])"

definition restored_shadow_position :: "hybrid_persisted \<Rightarrow> shadow_position option" where
  "restored_shadow_position p =
     (case (hyp_shadow_entry_ts p, hyp_shadow_entry_price p, hyp_shadow_side p) of
        (Some ts, Some price, Some sd) \<Rightarrow>
          Some \<lparr>shp_side = sd, shp_entry_ts = ts, shp_entry_price = price\<rparr>
      | _ \<Rightarrow> None)"

definition restored_shadow_open :: "hybrid_persisted \<Rightarrow> high180_open option" where
  "restored_shadow_open p =
     (case (hyp_shadow_target p, hyp_shadow_stop p) of
        (Some target, Some sp) \<Rightarrow>
          Some \<lparr>hio_target_price = target, hio_stop_price = sp, hio_max_hold = 180 * 60 * ns_per_sec\<rparr>
      | _ \<Rightarrow> None)"

text \<open>\<open>set_state\<close> in the order of its assignments; the orchestrator is restored from the fields
  already assigned.\<close>

definition restore_fields :: "hybrid_env \<Rightarrow> hybrid_persisted \<Rightarrow> hybrid \<Rightarrow> hybrid" where
  "restore_fields env p s =
     (let s1 = s\<lparr>hy_cycle := Option.bind (hyp_cycle p) parse_cycle_id, hy_cycle_seq := hyp_cycle_seq p,
            hy_last_qty := hyp_last_qty p, hy_owner := hyp_owner p, hy_side := hyp_side p,
            hy_entry := restored_entry (hy_config s) p, hy_entry_req := hyp_entry_req p,
            hy_entry_created := hyp_entry_created p, hy_deferred_entry := restored_deferred_entry p,
            hy_exit := None, hy_exit_req := hyp_exit_req p, hy_exit_created := hyp_exit_created p,
            hy_deferred_exit := restored_deferred_exit p, hy_tp_req := hyp_tp_req p,
            hy_tp_created := hyp_tp_created p, hy_sl_req := hyp_sl_req p,
            hy_sl_created := hyp_sl_created p, hy_tp_order := hyp_tp_order p,
            hy_sl_stop_order := hyp_sl_stop_order p, hy_sl_exchange_order := hyp_sl_exchange_order p,
            hy_sl_triggered := hyp_sl_triggered p, hy_take_price := hyp_take_price p,
            hy_stop_price := hyp_stop_price p, hy_repair_deadline := hyp_repair_deadline p,
            hy_next_repair := hyp_next_repair p, hy_backoff_level := hyp_backoff_level p,
            hy_repair_attempts := hyp_repair_attempts p, hy_safe_mode := hyp_safe_mode p,
            hy_safe_reason := hyp_safe_reason p, hy_last_close := hyp_last_close p,
            hy_prev_close := hyp_prev_close p,
            hy_last_day := Option.bind (hyp_last_day p) (he_parse_day env),
            hy_day_high := hyp_day_high p, hy_day_low := hyp_day_low p, hy_prev_range := hyp_prev_range p\<rparr>;
          s2 = s1\<lparr>hy_orch := restored_orch env p s1,
            hy_entry_ready := (hyp_entry_ready p \<and> signals_warmed s1)\<rparr>
      in s2\<lparr>hy_warmup_log := Some (hy_entry_ready s2),
            hy_shadow_date := Option.bind (hyp_shadow_date p) (he_parse_day env),
            hy_shadow_pnl := hyp_shadow_pnl p, hy_shadow_trades := hyp_shadow_trades p,
            hy_shadow_position := restored_shadow_position p, hy_shadow_open := restored_shadow_open p,
            hy_finalizations := restored_finalizations env p, hy_mr_enabled := hyp_mr_enabled p,
            hy_rolling_sum := hyp_rolling_sum p,
            hy_last_finalized := Option.bind (hyp_last_finalized p) (he_parse_day env),
            hy_ledger_rows := hyp_ledger_rows p\<rparr>)"

definition hybrid_set_state ::
  "hybrid_env \<Rightarrow> hybrid_persisted strategy_state \<Rightarrow> hybrid \<Rightarrow> hybrid" where
  "hybrid_set_state env st s =
     (case st of
        HybridIntradayRuntime p \<Rightarrow>
          let s1 = (restore_fields env p s)\<lparr>hy_state := st\<rparr>
          in if hyp_entry_ready p \<and> \<not> signals_warmed s1 then sync_state env s1 else s1
      | _ \<Rightarrow> s\<lparr>hy_state := st\<rparr>)"

end
