(* ===== verification/Hybrid_Runtime_Ops.thy ===== *)
theory Hybrid_Runtime_Ops
  imports Hybrid_Runtime_State
begin

text \<open>
  The methods of the hybrid strategy (\<open>strategies/hybrid_intraday_runtime.rs\<close>) that its callbacks
  are made of: the filters of a bar, the signals that replace the mean-reversion engine, the
  paper position of the risk gate, prices and request ids, the protective bracket and its repair,
  the emergency exits, and the mapping of the orchestrator's actions to intents. A method that
  changes the strategy returns it changed, with the intents it yields.
\<close>

section \<open>Filters and execution mode\<close>

definition utc_to_local :: "hybrid_env \<Rightarrow> hybrid \<Rightarrow> i64 \<Rightarrow> naive_datetime option" where
  "utc_to_local env s ts =
     (let off = sat_mul_i32 (hyc_tz_offset (hy_config s)) 3600 in
      if \<not> east_ok (he_chrono env) off \<or> \<not> utc_ok (he_chrono env) ts then None
      else Some (of_timestamp (ts + off)))"

definition has_live_orders :: "hybrid \<Rightarrow> bool" where
  "has_live_orders s \<longleftrightarrow> hy_entry s \<noteq> None \<or> hy_entry_req s \<noteq> None \<or> hy_exit_req s \<noteq> None
     \<or> hy_tp_req s \<noteq> None \<or> hy_sl_req s \<noteq> None \<or> hy_orders s \<noteq> {} \<or> hy_stop_orders s \<noteq> {}"

definition can_execute_now :: "strategy_ctx \<Rightarrow> bool \<Rightarrow> bool" where
  "can_execute_now ctx is_live_bar =
     (case cx_trade_mode ctx of
        TmLive \<Rightarrow> cx_allow_live_orders ctx \<and> cx_gateway_phase ctx = LiveReady \<and> is_live_bar
      | TmPaper \<Rightarrow> (case cx_paper_execution_mode ctx of HistorySim \<Rightarrow> True | LiveOnly \<Rightarrow> is_live_bar)
      | TmBacktest \<Rightarrow> True)"

definition can_emit_now :: "strategy_ctx \<Rightarrow> bool \<Rightarrow> bool" where
  "can_emit_now ctx is_live_bar =
     (case cx_trade_mode ctx of TmLive \<Rightarrow> can_execute_now ctx is_live_bar | _ \<Rightarrow> True)"

definition suppress_weekend :: "hybrid_config \<Rightarrow> naive_datetime \<Rightarrow> bool" where
  "suppress_weekend cfg dt \<longleftrightarrow> hyc_weekends_off cfg \<and> hyc_weekend_policy cfg = WeekendSkip \<and> weekend dt"

definition weekend_state_only_bar :: "hybrid_config \<Rightarrow> naive_datetime \<Rightarrow> bool" where
  "weekend_state_only_bar cfg dt \<longleftrightarrow>
     hyc_weekends_off cfg \<and> hyc_weekend_policy cfg = WeekendStateOnly \<and> weekend dt"

definition suppress_non_model_session :: "hybrid_config \<Rightarrow> naive_datetime \<Rightarrow> string option" where
  "suppress_non_model_session cfg dt =
     (let before = (case hyc_session_start cfg of None \<Rightarrow> False | Some t \<Rightarrow> dt_time dt < t);
          after = (case hyc_session_end cfg of None \<Rightarrow> False | Some t \<Rightarrow> t < dt_time dt)
      in if before then Some ''before_model_session_start''
         else if after then Some ''after_model_session_end''
         else None)"

definition uses_high180_mr :: "hybrid_config \<Rightarrow> bool" where
  "uses_high180_mr cfg \<longleftrightarrow> hyc_mr_variant cfg = VariantHigh180"

definition uses_author41_mr :: "hybrid_config \<Rightarrow> bool" where
  "uses_author41_mr cfg \<longleftrightarrow> hyc_mr_variant cfg = Author41BoundaryShort"

definition uses_mr_override :: "hybrid_config \<Rightarrow> bool" where
  "uses_mr_override cfg \<longleftrightarrow> uses_high180_mr cfg \<or> uses_author41_mr cfg"

section \<open>Filters of an entry signal\<close>

definition round_price :: "f64 \<Rightarrow> f64 \<Rightarrow> f64" where
  "round_price price tick =
     (if tick \<le> 0 \<or> \<not> is_finite price then price else f_round (price div tick) * tick)"

definition mr_take_distance_ticks :: "hybrid_config \<Rightarrow> f64 \<Rightarrow> entry_signal \<Rightarrow> f64 option" where
  "mr_take_distance_ticks cfg reference sig =
     (if es_owner sig \<noteq> MeanReversion \<or> es_style sig \<noteq> StBracket then None
      else case es_take_price sig of
          None \<Rightarrow> None
        | Some target \<Rightarrow>
            let tick = hyc_tick_size cfg; entry = round_price reference tick; tk = round_price target tick in
            if tick \<le> 0 \<or> \<not> is_finite reference \<or> \<not> is_finite target then None
            else Some ((case es_side sig of Long \<Rightarrow> tk - entry | Short \<Rightarrow> entry - tk) div tick))"

definition filter_near_zero_mr_entry ::
  "hybrid_config \<Rightarrow> f64 \<Rightarrow> entry_signal option \<Rightarrow> entry_signal option" where
  "filter_near_zero_mr_entry cfg reference signal =
     (case signal of
        None \<Rightarrow> None
      | Some sig \<Rightarrow>
          (case mr_take_distance_ticks cfg reference sig of
             None \<Rightarrow> Some sig
           | Some d \<Rightarrow> if Fin 2 \<le> d then Some sig else None))"

definition mr_gate_allows :: "hybrid \<Rightarrow> bool" where
  "mr_gate_allows s =
     (case hyc_gate_policy (hy_config s) of
        GatePolicyDisabled \<Rightarrow> True
      | ShadowPnlLb120Positive \<Rightarrow>
          if hyc_gate_mode (hy_config s) = GateEnforced then hy_mr_enabled s = Some True else True)"

definition apply_live_mr_policy :: "hybrid_config \<Rightarrow> entry_signal option \<Rightarrow> entry_signal option" where
  "apply_live_mr_policy cfg signal =
     (if hyc_live_mr_entries cfg \<or> signal = None then signal else None)"

definition risk_gate_shadow_enabled :: "hybrid_config \<Rightarrow> bool" where
  "risk_gate_shadow_enabled cfg \<longleftrightarrow>
     uses_high180_mr cfg \<and> hyc_gate_policy cfg = ShadowPnlLb120Positive"

section \<open>The paper position of the risk gate\<close>

definition finalize_shadow_session :: "naive_date \<Rightarrow> hybrid \<Rightarrow> hybrid" where
  "finalize_shadow_session d s =
     (if is_weekend_day (weekday_of d) then s
      else if list_ex (\<lambda>f. fz_date f = d) (hy_finalizations s) then s
      else s\<lparr>hy_finalizations := hy_finalizations s
             @ [\<lparr>fz_date = d, fz_pnl = hy_shadow_pnl s, fz_trade_count = hy_shadow_trades s\<rparr>]\<rparr>)"

definition shadow_new_session :: "naive_date \<Rightarrow> hybrid \<Rightarrow> hybrid" where
  "shadow_new_session d s =
     (case hy_shadow_date s of
        None \<Rightarrow> s\<lparr>hy_shadow_date := Some d\<rparr>
      | Some prev \<Rightarrow>
          if prev = d then s
          else (finalize_shadow_session prev s)\<lparr>hy_shadow_date := Some d, hy_shadow_pnl := 0,
                 hy_shadow_trades := 0, hy_shadow_position := None, hy_shadow_open := None\<rparr>)"

definition u32_top :: nat where "u32_top = 4294967295"

definition sat_inc32 :: "u32 \<Rightarrow> u32" where
  "sat_inc32 n = (if n < u32_top then Suc n else n)"

definition maker_cost_points :: f64 where
  "maker_cost_points = rnd (1 / 10)"

definition shadow_exit ::
  "hybrid_env \<Rightarrow> naive_datetime \<Rightarrow> f64 \<Rightarrow> hybrid \<Rightarrow> hybrid \<times> bool" where
  "shadow_exit env dt close s =
     (case (hy_shadow_position s, hy_shadow_open s) of
        (Some p, Some op) \<Rightarrow>
          let entry_dt = or_else dt (utc_to_local env s (shp_entry_ts p)) in
          (case high180_evaluate_exit op entry_dt (shp_side p) dt close of
             None \<Rightarrow> (s, False)
           | Some (_, price) \<Rightarrow>
               let pnl = (case shp_side p of
                       Long \<Rightarrow> price - shp_entry_price p | Short \<Rightarrow> shp_entry_price p - price)
                     - maker_cost_points
               in (s\<lparr>hy_shadow_pnl := hy_shadow_pnl s + pnl,
                     hy_shadow_trades := sat_inc32 (hy_shadow_trades s),
                     hy_shadow_position := None, hy_shadow_open := None\<rparr>, True))
      | _ \<Rightarrow> (s, False))"

definition shadow_entry ::
  "naive_datetime \<Rightarrow> i64 \<Rightarrow> f64 \<Rightarrow> f64 \<Rightarrow> f64 \<Rightarrow> hybrid \<Rightarrow> hybrid" where
  "shadow_entry dt ts close close_prev day_range s =
     (case high180_evaluate_entry (hy_shadow_mr s) dt close close_prev day_range of
        None \<Rightarrow> s
      | Some sig \<Rightarrow>
          s\<lparr>hy_shadow_position :=
              Some \<lparr>shp_side = his_side sig, shp_entry_ts = ts, shp_entry_price = close\<rparr>,
            hy_shadow_open := Some (high180_open_of (hi_config (hy_shadow_mr s)) sig)\<rparr>)"

definition update_risk_gate_shadow ::
  "hybrid_env \<Rightarrow> naive_datetime \<Rightarrow> host_bar \<Rightarrow> f64 \<Rightarrow> f64 \<Rightarrow> hybrid \<Rightarrow> hybrid" where
  "update_risk_gate_shadow env dt bar close_prev day_range s =
     (if \<not> risk_gate_shadow_enabled (hy_config s) \<or> f_eq (hb_close bar) 0 then s
      else
        let s1 = shadow_new_session (dt_date dt) s;
            s2 = s1\<lparr>hy_shadow_mr := high180_on_bar dt (hb_h bar) (hb_l bar) (hy_shadow_mr s1)\<rparr>
        in case shadow_exit env dt (hb_close bar) s2 of
             (s3, left) \<Rightarrow>
               if hy_shadow_position s3 = None \<and> \<not> left
                 then shadow_entry dt (hb_close_time bar) (hb_close bar) close_prev day_range s3
               else s3)"

section \<open>Signals that replace the mean-reversion engine\<close>

definition high180_entry_signal ::
  "hybrid \<Rightarrow> naive_datetime \<Rightarrow> f64 \<Rightarrow> f64 \<Rightarrow> f64 \<Rightarrow> entry_signal option" where
  "high180_entry_signal s dt close close_prev day_range =
     map_option (\<lambda>sig. \<lparr>es_owner = MeanReversion, es_side = his_side sig, es_style = StBracket,
         es_reason = his_reason sig, es_stop_price = Some (his_stop_price sig),
         es_take_price = Some (his_target_price sig)\<rparr>)
       (high180_evaluate_entry (hy_high180 s) dt close close_prev day_range)"

definition high180_exit_reason :: "hybrid_env \<Rightarrow> hybrid \<Rightarrow> naive_datetime \<Rightarrow> reason_code option" where
  "high180_exit_reason env s dt =
     (if hy_owner s \<noteq> Some MeanReversion then None
      else case Option.bind (Option.bind (hy_cycle s) cycle_ts_utc) (utc_to_local env s) of
          None \<Rightarrow> None
        | Some entry \<Rightarrow>
            if hic_max_hold (hi_config (hy_high180 s)) \<le> dt - entry then Some MeanRevTimeCutoff else None)"

definition author41_entry_signal ::
  "hybrid_config \<Rightarrow> naive_datetime \<Rightarrow> f64 \<Rightarrow> f64 \<Rightarrow> f64 \<Rightarrow> entry_signal option" where
  "author41_entry_signal cfg dt close close_prev day_range =
     (let rel = day_range div close_prev;
          upper = close_prev + rnd (16 / 100) * day_range
      in if mrc_session_end_time (hyc_mr cfg) < dt_time dt then None
         else if close_prev \<le> 0 \<or> day_range \<le> 0 \<or> \<not> is_finite close then None
         else if \<not> (rnd (5 / 1000) < rel \<and> rel < rnd (75 / 1000)) then None
         else if \<not> (close_prev < close \<and> close < upper) then None
         else Some (mr_signal Short MorningMeanReversionShort
                (close_prev + rnd (58 / 100) * day_range) (close_prev - rnd (2 / 100) * day_range)))"

definition author41_exit_reason :: "hybrid \<Rightarrow> naive_datetime \<Rightarrow> reason_code option" where
  "author41_exit_reason s dt =
     (if hy_owner s \<noteq> Some MeanReversion then None
      else if hms 20 0 0 \<le> dt_time dt then Some MeanRevTimeCutoff else None)"

section \<open>No breakout position over night\<close>

definition active_cycle_day :: "hybrid_env \<Rightarrow> hybrid \<Rightarrow> naive_date option" where
  "active_cycle_day env s =
     map_option dt_date (Option.bind (Option.bind (hy_cycle s) cycle_ts_utc) (utc_to_local env s))"

fun is_breakout_exit :: "hybrid_action \<Rightarrow> bool" where
  "is_breakout_exit (SubmitExit own _) \<longleftrightarrow> own = IntradayBreakout"
| "is_breakout_exit _ \<longleftrightarrow> False"

definition up_to_day :: "naive_date \<Rightarrow> naive_date option \<Rightarrow> naive_date option" where
  "up_to_day d x = (case x of Some e \<Rightarrow> if e \<le> d then Some e else None | None \<Rightarrow> None)"

definition append_no_overnight_guard ::
  "hybrid_env \<Rightarrow> hybrid \<Rightarrow> naive_datetime \<Rightarrow> naive_date option \<Rightarrow> bool \<Rightarrow> hybrid_action list
   \<Rightarrow> hybrid_action list" where
  "append_no_overnight_guard env s dt previous_day has_position actions =
     (if \<not> has_position \<or> hy_owner s \<noteq> Some IntradayBreakout
         \<or> orc_eod_mode (hyc_orch (hy_config s)) \<noteq> SameDay
         \<or> hy_exit_req s \<noteq> None \<or> hy_deferred_exit s \<noteq> None \<or> list_ex is_breakout_exit actions
        then actions
      else
        let today = dt_date dt;
            reference = (case up_to_day today (active_cycle_day env s) of
                Some d \<Rightarrow> Some d | None \<Rightarrow> up_to_day today previous_day);
            crossed = (case reference of None \<Rightarrow> False | Some d \<Rightarrow> d < today)
        in if \<not> crossed \<and> dt_time dt < hms 23 30 0 then actions
           else actions @ [SubmitExit IntradayBreakout BreakoutEodExit])"

section \<open>Prices and request ids\<close>

definition use_live_marketable_limit :: "hybrid_config \<Rightarrow> strategy_ctx \<Rightarrow> bool" where
  "use_live_marketable_limit cfg ctx \<longleftrightarrow>
     cx_trade_mode ctx = TmLive \<and> hyc_style cfg = StyleMarketableLimit"

text \<open>The price used when none is known.\<close>

definition fallback_price :: "hybrid_config \<Rightarrow> f64" where
  "fallback_price cfg = (if 0 < hyc_tick_size cfg then hyc_tick_size cfg else 1)"

definition live_marketable_price :: "hybrid_config \<Rightarrow> side \<Rightarrow> f64 \<Rightarrow> f64" where
  "live_marketable_price cfg sd reference =
     (let price = (if 0 < reference then reference else fallback_price cfg);
          shift = f64_of_int (as_i64 (max (hyc_offset_ticks cfg) 0 + 1)) * hyc_tick_size cfg
      in if hyc_tick_size cfg \<le> 0 then price
         else case sd of Buy \<Rightarrow> price + shift | Sell \<Rightarrow> price - shift)"

definition positive :: "f64 option \<Rightarrow> f64 option" where
  "positive x = (case x of Some p \<Rightarrow> if 0 < p then Some p else None | None \<Rightarrow> None)"

definition live_reference_price :: "hybrid \<Rightarrow> f64" where
  "live_reference_price s =
     (case positive (hy_last_close s) of
        Some p \<Rightarrow> p
      | None \<Rightarrow>
          (case positive (hy_take_price s) of
             Some p \<Rightarrow> p
           | None \<Rightarrow>
               (case positive (hy_stop_price s) of
                  Some p \<Rightarrow> p | None \<Rightarrow> fallback_price (hy_config s))))"

definition ctx_request_id :: "hybrid_env \<Rightarrow> strategy_ctx \<Rightarrow> string \<Rightarrow> i64 \<Rightarrow> nat \<Rightarrow> uuid" where
  "ctx_request_id env ctx action ts n =
     deterministic_request_id (he_v5 env) (cx_strategy_id ctx) (cx_portfolio ctx) (cx_symbol ctx)
       action ts n"

definition hybrid_request_id ::
  "hybrid_env \<Rightarrow> hybrid_config \<Rightarrow> strategy_ctx \<Rightarrow> i64 \<Rightarrow> side \<Rightarrow> uuid" where
  "hybrid_request_id env cfg ctx created sd =
     (if use_live_marketable_limit cfg ctx then ctx_request_id env ctx ''place'' created 0
      else deterministic_market_request_id (he_v5 env) (cx_strategy_id ctx) (cx_portfolio ctx)
             (cx_symbol ctx) created sd)"

definition effective_created :: "strategy_ctx \<Rightarrow> i64 \<Rightarrow> i64" where
  "effective_created ctx fallback = max (cx_event_ts ctx) fallback"

definition entry_exit_intent ::
  "hybrid_config \<Rightarrow> strategy_ctx \<Rightarrow> side \<Rightarrow> f64 \<Rightarrow> f64 \<Rightarrow> string option \<Rightarrow> intent" where
  "entry_exit_intent cfg ctx sd qty reference comment =
     (if use_live_marketable_limit cfg ctx
        then IPlace (live_marketable_price cfg sd reference) qty sd comment
      else IMarket qty sd None comment)"

text \<open>The side that closes a position of quantity \<open>q\<close>.\<close>

definition flat_side :: "f64 \<Rightarrow> side" where
  "flat_side q = (if 0 \<le> q then Sell else Buy)"

definition flat_side_strict :: "f64 \<Rightarrow> side" where
  "flat_side_strict q = (if 0 < q then Sell else Buy)"

definition ctx_qty :: "strategy_ctx \<Rightarrow> f64" where
  "ctx_qty ctx = or_else 0 (cx_position_qty ctx)"

definition is_open :: "f64 \<Rightarrow> bool" where
  "is_open q \<longleftrightarrow> f64_epsilon < \<bar>q\<bar>"

definition is_flat :: "f64 \<Rightarrow> bool" where
  "is_flat q \<longleftrightarrow> \<bar>q\<bar> \<le> f64_epsilon"

section \<open>Small state changes\<close>

definition next_cycle_id :: "i64 \<Rightarrow> hybrid \<Rightarrow> hybrid \<times> cycle_id" where
  "next_cycle_id ts s =
     (s\<lparr>hy_cycle_seq := (hy_cycle_seq s + 1) mod (u32_top + 1)\<rparr>, cycle_text ts (hy_cycle_seq s))"

definition active_or_next_cycle :: "i64 \<Rightarrow> hybrid \<Rightarrow> hybrid \<times> cycle_id" where
  "active_or_next_cycle ts s =
     (case hy_cycle s of Some c \<Rightarrow> (s, c) | None \<Rightarrow> next_cycle_id ts s)"

definition enter_safe_mode :: "string \<Rightarrow> hybrid \<Rightarrow> hybrid" where
  "enter_safe_mode reason s = s\<lparr>hy_safe_mode := True, hy_safe_reason := Some reason\<rparr>"

definition clear_deferred_entry :: "hybrid \<Rightarrow> hybrid" where
  "clear_deferred_entry s = s\<lparr>hy_deferred_entry := None\<rparr>"

definition clear_deferred_exit :: "hybrid \<Rightarrow> hybrid" where
  "clear_deferred_exit s = s\<lparr>hy_deferred_exit := None\<rparr>"

definition reset_repair_tracking :: "hybrid \<Rightarrow> hybrid" where
  "reset_repair_tracking s = s\<lparr>hy_tp_req := None, hy_tp_created := None, hy_sl_req := None,
     hy_sl_created := None, hy_tp_order := None, hy_sl_stop_order := None,
     hy_sl_exchange_order := None, hy_sl_triggered := None, hy_take_price := None,
     hy_stop_price := None, hy_repair_deadline := None, hy_next_repair := None,
     hy_backoff_level := 0, hy_repair_attempts := 0\<rparr>"

definition backoff_step :: "hybrid_config \<Rightarrow> u32 \<Rightarrow> u64" where
  "backoff_step cfg level =
     min (min (hyc_backoff_base cfg * 2 ^ min level 16) u64_max) (hyc_backoff_max cfg)"

definition schedule_next_repair :: "i64 \<Rightarrow> hybrid \<Rightarrow> hybrid" where
  "schedule_next_repair now s =
     s\<lparr>hy_next_repair := Some (sat_i64 (now + as_i64 (int (backoff_step (hy_config s) (hy_backoff_level s))))),
       hy_backoff_level := sat_inc32 (hy_backoff_level s)\<rparr>"

definition mark_bracket_reconcile :: "hybrid_env \<Rightarrow> hybrid \<Rightarrow> hybrid" where
  "mark_bracket_reconcile env s = s\<lparr>hy_reconcile_started := Some (he_now_ms env)\<rparr>"

definition bracket_reconcile_active :: "i64 \<Rightarrow> hybrid \<Rightarrow> bool" where
  "bracket_reconcile_active now s =
     (case hy_reconcile_started s of None \<Rightarrow> False | Some st \<Rightarrow> sat_sub now st < 3000)"

definition clear_bracket_reconcile :: "hybrid \<Rightarrow> hybrid" where
  "clear_bracket_reconcile s = s\<lparr>hy_reconcile_started := None\<rparr>"

definition ensure_cycle_from_comment :: "string option \<Rightarrow> hybrid \<Rightarrow> hybrid" where
  "ensure_cycle_from_comment comment s =
     (if hy_cycle s \<noteq> None then s
      else case parse_hybrid_tag comment of
          None \<Rightarrow> s
        | Some tag \<Rightarrow>
            (case parse_cycle_id (hyt_cycle tag) of
               None \<Rightarrow> s | Some c \<Rightarrow> s\<lparr>hy_cycle := Some c\<rparr>))"

definition update_day_aggregates :: "naive_datetime \<Rightarrow> f64 \<Rightarrow> f64 \<Rightarrow> hybrid \<Rightarrow> hybrid" where
  "update_day_aggregates dt high low s =
     (let day = dt_date dt;
          s1 = (case hy_last_day s of
              None \<Rightarrow> s\<lparr>hy_last_day := Some day, hy_day_high := Some high, hy_day_low := Some low\<rparr>
            | Some prev \<Rightarrow>
                if prev = day then
                  s\<lparr>hy_day_high := Some (f_max (or_else high (hy_day_high s)) high),
                    hy_day_low := Some (f_min (or_else low (hy_day_low s)) low)\<rparr>
                else
                  s\<lparr>hy_prev_range := (case (hy_day_high s, hy_day_low s) of
                       (Some h, Some l) \<Rightarrow> Some (f_max (h - l) 0) | _ \<Rightarrow> hy_prev_range s),
                    hy_prev_close := hy_last_close s, hy_last_day := Some day,
                    hy_day_high := Some high, hy_day_low := Some low\<rparr>)
      in s1\<lparr>hy_entry_ready := signals_warmed s1\<rparr>)"

text \<open>Of the warm-up report only the remembered flag is state.\<close>

definition note_warmup :: "hybrid \<Rightarrow> hybrid" where
  "note_warmup s =
     (if hy_warmup_log s = Some (signals_warmed s) then s
      else s\<lparr>hy_warmup_log := Some (signals_warmed s)\<rparr>)"

section \<open>The protective bracket\<close>

fun bracket_side :: "pos_side \<Rightarrow> side" where
  "bracket_side Long = Sell" | "bracket_side Short = Buy"

fun bracket_condition :: "pos_side \<Rightarrow> stop_limit_condition" where
  "bracket_condition Long = LessOrEqual" | "bracket_condition Short = MoreOrEqual"

fun order_side :: "pos_side \<Rightarrow> side" where
  "order_side Long = Buy" | "order_side Short = Sell"

definition stop_limit_price :: "side \<Rightarrow> f64 \<Rightarrow> f64 \<Rightarrow> f64" where
  "stop_limit_price sd trigger tick =
     (let offset = f_max tick (rnd (1 / 10000000)) in
      case sd of Buy \<Rightarrow> trigger + offset | Sell \<Rightarrow> trigger - offset)"

definition stop_end_default :: "hybrid_config \<Rightarrow> i64 \<Rightarrow> i64" where
  "stop_end_default cfg created = sat_i64 (max created 0 + as_i64 (int (hyc_stop_end_buffer cfg)))"

text \<open>The search visits at most eight days; a close that \<open>chrono\<close> cannot represent is passed over.\<close>

fun hybrid_stop_end :: "hybrid_env \<Rightarrow> hybrid_config \<Rightarrow> i32 \<Rightarrow> i64 \<Rightarrow> nat \<Rightarrow> naive_date \<Rightarrow> i64" where
  "hybrid_stop_end env cfg off created 0 day = stop_end_default cfg created"
| "hybrid_stop_end env cfg off created (Suc n) day =
     (if hyc_weekends_off cfg \<and> is_weekend_day (weekday_of day)
        then hybrid_stop_end env cfg off created n (day + 1)
      else
        let close_time = hms (int (min (hyc_close_hour cfg) 23)) (int (min (hyc_close_minute cfg) 59)) 0;
            close_ts = and_time day close_time div ns_per_sec - off;
            stop_end = sat_i64 (close_ts + as_i64 (int (hyc_stop_end_buffer cfg)))
        in if utc_ok (he_chrono env) close_ts \<and> created < stop_end then stop_end
           else hybrid_stop_end env cfg off created n (day + 1))"

definition resolve_stop_end :: "hybrid_env \<Rightarrow> hybrid_config \<Rightarrow> i64 \<Rightarrow> i64" where
  "resolve_stop_end env cfg created =
     (let off = sat_mul_i32 (hyc_tz_offset cfg) 3600 in
      if created \<le> 0 then stop_end_default cfg 0
      else if \<not> east_ok (he_chrono env) off \<or> \<not> utc_ok (he_chrono env) created
        then stop_end_default cfg created
      else hybrid_stop_end env cfg off created 8 (dt_date (of_timestamp (created + off))))"

text \<open>The two orders of a bracket, each with the request id it is expected under.\<close>

definition place_tp ::
  "hybrid_env \<Rightarrow> strategy_ctx \<Rightarrow> i64 \<Rightarrow> owner \<Rightarrow> pos_side \<Rightarrow> cycle_id \<Rightarrow> f64 \<Rightarrow> f64 \<Rightarrow> hybrid
   \<Rightarrow> hybrid \<times> intent" where
  "place_tp env ctx ts own sd cycle price qty s =
     (s\<lparr>hy_tp_req := Some (ctx_request_id env ctx ''place'' ts 0), hy_tp_created := Some ts\<rparr>,
      with_class (IPlace price qty (bracket_side sd) (Some (build_comment ctx cycle own RoleTp)))
        ProtectiveRepair)"

definition place_sl ::
  "hybrid_env \<Rightarrow> strategy_ctx \<Rightarrow> i64 \<Rightarrow> owner \<Rightarrow> pos_side \<Rightarrow> cycle_id \<Rightarrow> f64 \<Rightarrow> f64 \<Rightarrow> hybrid
   \<Rightarrow> hybrid \<times> intent" where
  "place_sl env ctx ts own sd cycle trigger qty s =
     (s\<lparr>hy_sl_req := Some (ctx_request_id env ctx ''create_stop_limit'' ts 5), hy_sl_created := Some ts\<rparr>,
      with_class (ICreateStopLimit (bracket_side sd) qty trigger
          (stop_limit_price (bracket_side sd) trigger (cx_tick_size ctx)) (bracket_condition sd)
          (resolve_stop_end env (hy_config s) ts) (Some (build_comment ctx cycle own RoleSl))
          None (Some True))
        ProtectiveRepair)"

definition emit_mr_bracket ::
  "hybrid_env \<Rightarrow> strategy_ctx \<Rightarrow> host_position \<Rightarrow> pending_entry \<Rightarrow> hybrid \<Rightarrow> hybrid \<times> intent list" where
  "emit_mr_bracket env ctx pos e s =
     (let qty = \<bar>hp_qty pos\<bar>; ts = hp_ts pos in
      if hpe_owner e \<noteq> MeanReversion \<or> hpe_style e \<noteq> StBracket \<or> qty \<le> f64_epsilon then (s, [])
      else
        let (s1, tp) = (case hpe_take e of
              None \<Rightarrow> (s, [])
            | Some price \<Rightarrow>
                (case place_tp env ctx ts (hpe_owner e) (hpe_side e) (hpe_cycle e) price qty s of
                   (t, i) \<Rightarrow> (t, [i])));
            (s2, sl) = (case hpe_stop e of
              None \<Rightarrow> (s1, [])
            | Some trigger \<Rightarrow>
                (case place_sl env ctx ts (hpe_owner e) (hpe_side e) (hpe_cycle e) trigger qty s1 of
                   (t, i) \<Rightarrow> (t, [i])))
        in (s2, tp @ sl))"

definition cancel_of :: "i64 option \<Rightarrow> intent list" where
  "cancel_of x = (case x of None \<Rightarrow> [] | Some k \<Rightarrow> [with_class (ICancel k) CancelCleanup])"

definition delete_stop_of :: "string option \<Rightarrow> side option \<Rightarrow> intent list" where
  "delete_stop_of x sd = (case x of
     None \<Rightarrow> [] | Some k \<Rightarrow> [with_class (IDeleteStopLimit k sd (Some True)) CancelCleanup])"

definition cancel_all_protection :: "pos_side option \<Rightarrow> hybrid \<Rightarrow> hybrid \<times> intent list" where
  "cancel_all_protection sd s =
     (s\<lparr>hy_tp_order := None, hy_sl_stop_order := None, hy_sl_exchange_order := None\<rparr>,
      cancel_of (hy_tp_order s) @ delete_stop_of (hy_sl_stop_order s) (map_option bracket_side sd)
      @ cancel_of (hy_sl_exchange_order s))"

section \<open>Emergency exits\<close>

text \<open>An exit with its comment, as the last intent of a batch.\<close>

definition exit_intent ::
  "hybrid \<Rightarrow> strategy_ctx \<Rightarrow> side \<Rightarrow> f64 \<Rightarrow> f64 \<Rightarrow> cycle_id \<Rightarrow> owner \<Rightarrow> intent" where
  "exit_intent s ctx sd qty reference cycle own =
     with_class (entry_exit_intent (hy_config s) ctx sd qty reference
       (Some (build_comment ctx cycle own RoleExit))) Exit"

definition emit_residual_exit ::
  "hybrid_env \<Rightarrow> strategy_ctx \<Rightarrow> host_position \<Rightarrow> string \<Rightarrow> hybrid \<Rightarrow> hybrid \<times> intent list" where
  "emit_residual_exit env ctx pos reason s =
     (if hy_exit_req s \<noteq> None \<or> is_flat (hp_qty pos) then (s, [])
      else
        let own = or_else MeanReversion (hy_owner s);
            sd = flat_side_strict (hp_qty pos);
            created = effective_created ctx (hp_ts pos);
            (s1, cycle) = active_or_next_cycle created s;
            (s2, cancels) = cancel_all_protection (hy_side s1) s1;
            ex = exit_intent s2 ctx sd \<bar>hp_qty pos\<bar> (live_reference_price s2) cycle own;
            s3 = s2\<lparr>hy_cycle := Some cycle,
                   hy_exit := Some \<lparr>hpx_owner = own, hpx_reason = MeanRevTimeCutoff\<rparr>,
                   hy_exit_req := Some (hybrid_request_id env (hy_config s2) ctx created sd),
                   hy_exit_created := Some created\<rparr>
        in (enter_safe_mode reason s3, cancels @ [ex]))"

definition mr_partial_progress :: "f64 \<Rightarrow> f64 \<Rightarrow> hybrid \<Rightarrow> bool" where
  "mr_partial_progress prev cur s \<longleftrightarrow>
     hy_owner s = Some MeanReversion \<and> \<not> is_flat prev \<and> \<not> is_flat cur
     \<and> f_eq (f_signum prev) (f_signum cur) \<and> \<not> \<bar>prev\<bar> \<le> \<bar>cur\<bar>
     \<and> hy_side s = Some (if 0 \<le> prev then Long else Short)"

definition emit_reconcile_timeout_exit ::
  "hybrid_env \<Rightarrow> strategy_ctx \<Rightarrow> i64 \<Rightarrow> hybrid \<Rightarrow> hybrid \<times> intent list" where
  "emit_reconcile_timeout_exit env ctx now s =
     (case hy_reconcile_started s of
        None \<Rightarrow> (s, [])
      | Some started \<Rightarrow>
          let qty = or_else (hy_last_qty s) (cx_position_qty ctx) in
          if sat_sub now started < 3000 then (s, [])
          else if is_flat qty \<or> hy_exit_req s \<noteq> None then (clear_bracket_reconcile s, [])
          else emit_residual_exit env ctx
                 \<lparr>hp_symbol = hyc_symbol (hy_config s), hp_qty = qty, hp_existing = False,
                  hp_avg_price = live_reference_price s, hp_ts = now div 1000\<rparr>
                 ''bracket_terminal_reconcile_timeout'' (clear_bracket_reconcile s))"

definition expected_entry_qty :: "pending_entry \<Rightarrow> f64" where
  "expected_entry_qty e = (case hpe_side e of Long \<Rightarrow> hpe_target_qty e | Short \<Rightarrow> - hpe_target_qty e)"

definition waits_for_partial :: "pending_entry \<Rightarrow> bool" where
  "waits_for_partial e \<longleftrightarrow> 1 < hpe_target_qty e"

definition partial_progress_valid :: "pending_entry \<Rightarrow> f64 \<Rightarrow> f64 \<Rightarrow> bool" where
  "partial_progress_valid e prev cur \<longleftrightarrow>
     (let target = expected_entry_qty e in
      is_open cur \<and> f_eq (f_signum cur) (f_signum target) \<and> \<bar>cur\<bar> \<le> \<bar>target\<bar> + f64_epsilon
      \<and> \<bar>prev\<bar> \<le> \<bar>cur\<bar> + f64_epsilon)"

definition emit_partial_timeout_exit ::
  "hybrid_env \<Rightarrow> strategy_ctx \<Rightarrow> i64 \<Rightarrow> hybrid \<Rightarrow> hybrid \<times> intent list" where
  "emit_partial_timeout_exit env ctx now s =
     (case hy_entry s of
        None \<Rightarrow> (s, [])
      | Some e \<Rightarrow>
          (case hpe_partial_started e of
             None \<Rightarrow> (s, [])
           | Some started \<Rightarrow>
               let created = now div 1000; qty = hy_last_qty s; sd = flat_side_strict qty in
               if \<not> waits_for_partial e \<or> is_flat qty
                  \<or> sat_sub now started < as_i64 (int (hyc_partial_timeout_ms (hy_config s))) then (s, [])
               else
                 (sync_state env (enter_safe_mode ''partial_entry_fill_timeout''
                    (s\<lparr>hy_owner := Some (hpe_owner e), hy_side := Some (hpe_side e), hy_entry := None,
                       hy_entry_req := None, hy_entry_created := None,
                       hy_exit := Some \<lparr>hpx_owner = hpe_owner e, hpx_reason = MeanRevTimeCutoff\<rparr>,
                       hy_exit_req := Some (hybrid_request_id env (hy_config s) ctx created sd),
                       hy_exit_created := Some created\<rparr>)),
                  map (\<lambda>k. with_class (ICancel k) CancelCleanup) (he_list_orders env (hy_orders s))
                  @ [exit_intent s ctx sd \<bar>qty\<bar> (live_reference_price s) (hpe_cycle e) (hpe_owner e)])))"

section \<open>From actions to intents\<close>

definition entry_of_signal :: "hybrid_config \<Rightarrow> entry_signal \<Rightarrow> cycle_id \<Rightarrow> pending_entry" where
  "entry_of_signal cfg sig cycle =
     \<lparr>hpe_owner = es_owner sig, hpe_side = es_side sig, hpe_cycle = cycle, hpe_reason = es_reason sig,
      hpe_style = es_style sig, hpe_stop = es_stop_price sig, hpe_take = es_take_price sig,
      hpe_target_qty = f_max (hyc_qty cfg) 1, hpe_partial_started = None\<rparr>"

definition map_entry ::
  "hybrid_env \<Rightarrow> strategy_ctx \<Rightarrow> i64 \<Rightarrow> bool \<Rightarrow> bool \<Rightarrow> f64 \<Rightarrow> entry_signal \<Rightarrow> hybrid
   \<Rightarrow> hybrid \<times> intent list" where
  "map_entry env ctx created can_emit can_execute reference sig s =
     (if \<not> hy_entry_ready s \<or> hy_safe_mode s \<or> \<not> can_emit
        then (s\<lparr>hy_orch := orch_rejected ''entry'' (hy_orch s)\<rparr>, [])
      else
        let cfg = hy_config s; sd = order_side (es_side sig);
            (s1, cycle) = next_cycle_id created s;
            s2 = (if can_execute then
                sync_state env (s1\<lparr>hy_entry := Some (entry_of_signal cfg sig cycle),
                   hy_entry_req := Some (hybrid_request_id env cfg ctx created sd),
                   hy_entry_created := Some created, hy_cycle := Some cycle\<rparr>)
              else s1)
        in (s2, [with_class (entry_exit_intent cfg ctx sd (f_max (hyc_qty cfg) 1) reference
               (Some (build_comment ctx cycle (es_owner sig) RoleEntry))) Entry]))"

definition map_exit ::
  "hybrid_env \<Rightarrow> strategy_ctx \<Rightarrow> i64 \<Rightarrow> bool \<Rightarrow> bool \<Rightarrow> f64 \<Rightarrow> owner \<Rightarrow> reason_code \<Rightarrow> hybrid
   \<Rightarrow> hybrid \<times> intent list" where
  "map_exit env ctx created can_emit can_execute reference own reason s =
     (if \<not> can_emit \<or> hy_exit_req s \<noteq> None then (s, [])
      else case cx_position_qty ctx of
          None \<Rightarrow> (s, [])
        | Some q \<Rightarrow>
            if is_flat q then (s, [])
            else
              let sd = flat_side q;
                  (s1, cycle) = active_or_next_cycle created s;
                  s2 = (if can_execute then
                      sync_state env (s1\<lparr>hy_cycle := Some cycle, hy_owner := Some own,
                        hy_exit := Some \<lparr>hpx_owner = own, hpx_reason = reason\<rparr>,
                        hy_exit_req := Some (hybrid_request_id env (hy_config s1) ctx created sd),
                        hy_exit_created := Some created\<rparr>)
                    else s1)
              in (s2, [exit_intent s2 ctx sd \<bar>q\<bar> reference cycle own]))"

fun map_action ::
  "hybrid_env \<Rightarrow> strategy_ctx \<Rightarrow> i64 \<Rightarrow> bool \<Rightarrow> bool \<Rightarrow> f64 \<Rightarrow> hybrid_action \<Rightarrow> hybrid
   \<Rightarrow> hybrid \<times> intent list" where
  "map_action env ctx created emit exec reference (SubmitEntry sig) s =
     map_entry env ctx created emit exec reference sig s"
| "map_action env ctx created emit exec reference (SubmitExit own reason) s =
     map_exit env ctx created emit exec reference own reason s"
| "map_action env ctx created emit exec reference (ArmOvernightExit _ _ _ _) s = (s, [])"

text \<open>The reference price is read before each action.\<close>

fun map_actions ::
  "hybrid_env \<Rightarrow> strategy_ctx \<Rightarrow> i64 \<Rightarrow> bool \<Rightarrow> bool \<Rightarrow> hybrid_action list \<Rightarrow> hybrid
   \<Rightarrow> hybrid \<times> intent list" where
  "map_actions env ctx created emit exec [] s = (s, [])"
| "map_actions env ctx created emit exec (a # as) s =
     (let (s1, is1) = map_action env ctx created emit exec (live_reference_price s) a s;
          (s2, is2) = map_actions env ctx created emit exec as s1
      in (s2, is1 @ is2))"

section \<open>Orders that had to wait for the trading window\<close>

definition window_closed_reject :: "command_ack \<Rightarrow> bool" where
  "window_closed_reject ack \<longleftrightarrow>
     ack_error_code ack = Some ''trading_window_closed'' \<and> ack_broker_order_id ack = None"

definition deferred_entry_expired :: "hybrid_env \<Rightarrow> hybrid \<Rightarrow> deferred_entry \<Rightarrow> naive_datetime \<Rightarrow> bool" where
  "deferred_entry_expired env s d dt =
     (case utc_to_local env s (hde_ts d) of None \<Rightarrow> False | Some x \<Rightarrow> dt_date x < dt_date dt)"

text \<open>\<open>None\<close> lets the bar go on; \<open>Some\<close> ends it with these intents.\<close>

definition reissue_deferred_entry ::
  "hybrid_env \<Rightarrow> strategy_ctx \<Rightarrow> i64 \<Rightarrow> naive_datetime \<Rightarrow> bool \<Rightarrow> bool \<Rightarrow> f64 \<Rightarrow> hybrid
   \<Rightarrow> hybrid \<times> intent list option" where
  "reissue_deferred_entry env ctx created dt can_emit can_execute reference s =
     (case hy_deferred_entry s of
        None \<Rightarrow> (s, None)
      | Some d \<Rightarrow>
          if is_open (ctx_qty ctx) \<or> deferred_entry_expired env s d dt then (clear_deferred_entry s, None)
          else if \<not> hy_entry_ready s \<or> hy_safe_mode s \<or> \<not> can_emit \<or> \<not> can_execute
             \<or> hy_entry_req s \<noteq> None then (s, Some [])
          else
            let (s1, ins) = map_entry env ctx created can_emit can_execute reference (hde_signal d)
                  (s\<lparr>hy_cycle := Some (hde_cycle d)\<rparr>)
            in (if hy_entry_req s1 \<noteq> None then clear_deferred_entry s1 else s1, Some ins))"

definition reissue_deferred_exit ::
  "hybrid_env \<Rightarrow> strategy_ctx \<Rightarrow> i64 \<Rightarrow> bool \<Rightarrow> bool \<Rightarrow> f64 \<Rightarrow> hybrid
   \<Rightarrow> hybrid \<times> intent list option" where
  "reissue_deferred_exit env ctx created can_emit can_execute reference s =
     (case hy_deferred_exit s of
        None \<Rightarrow> (s, None)
      | Some d \<Rightarrow>
          if is_flat (ctx_qty ctx) then (clear_deferred_exit s, None)
          else if \<not> can_emit \<or> \<not> can_execute \<or> hy_exit_req s \<noteq> None then (s, Some [])
          else
            let (s1, ins) = map_exit env ctx created can_emit can_execute reference (hdx_owner d)
                  (hdx_reason d) (s\<lparr>hy_cycle := Some (hdx_cycle d), hy_owner := Some (hdx_owner d)\<rparr>)
            in (if hy_exit_req s1 \<noteq> None then clear_deferred_exit s1 else s1, Some ins))"

end
