(* ===== verification/Hybrid_Runtime.thy ===== *)
theory Hybrid_Runtime
  imports Hybrid_Runtime_Ops
begin

text \<open>
  The callbacks of the hybrid strategy (\<open>impl Strategy for HybridIntradayRuntimeStrategy\<close> of
  \<open>strategies/hybrid_intraday_runtime.rs\<close>): a bar with its repair of the bracket, an
  acknowledgement, orders, stop orders, positions, the timer, the two steps of a start, the
  warm-up from history and the hooks of the risk gate.
\<close>

section \<open>Repair of the bracket\<close>

definition escalate_stop ::
  "hybrid_env \<Rightarrow> strategy_ctx \<Rightarrow> i64 \<Rightarrow> hybrid \<Rightarrow> hybrid \<times> intent list" where
  "escalate_stop env ctx now s =
     (let q = ctx_qty ctx;
          own = or_else MeanReversion (hy_owner s);
          (s1, cycle) = active_or_next_cycle (max now 0) s
      in (enter_safe_mode ''sl_triggered_escalation''
            (s1\<lparr>hy_tp_order := None, hy_sl_exchange_order := None, hy_sl_triggered := None\<rparr>),
          cancel_of (hy_tp_order s1) @ cancel_of (hy_sl_exchange_order s1)
          @ [exit_intent s1 ctx (flat_side q) \<bar>q\<bar> (live_reference_price s1) cycle own]))"

definition has_tp :: "hybrid \<Rightarrow> bool" where
  "has_tp s \<longleftrightarrow> hy_tp_order s \<noteq> None \<or> hy_tp_req s \<noteq> None"

definition has_sl :: "hybrid \<Rightarrow> bool" where
  "has_sl s \<longleftrightarrow> hy_sl_stop_order s \<noteq> None \<or> hy_sl_req s \<noteq> None"

definition place_missing ::
  "hybrid_env \<Rightarrow> strategy_ctx \<Rightarrow> i64 \<Rightarrow> cycle_id \<Rightarrow> f64 \<Rightarrow> f64 \<Rightarrow> hybrid \<Rightarrow> hybrid \<times> intent list" where
  "place_missing env ctx now cycle tk st s =
     (let q = ctx_qty ctx;
          own = or_else MeanReversion (hy_owner s);
          sd = or_else (if 0 \<le> q then Long else Short) (hy_side s);
          (s1, tp) = (if has_tp s then (s, []) else
             (case place_tp env ctx now own sd cycle tk \<bar>q\<bar> s of (t, i) \<Rightarrow> (t, [i])));
          (s2, sl) = (if has_sl s then (s1, []) else
             (case place_sl env ctx now own sd cycle st \<bar>q\<bar> s1 of (t, i) \<Rightarrow> (t, [i])));
          s3 = (if tp @ sl = [] then s2
                else schedule_next_repair now (s2\<lparr>hy_repair_attempts := sat_inc32 (hy_repair_attempts s2)\<rparr>))
      in (s3, tp @ sl))"

definition emit_repair :: "hybrid_env \<Rightarrow> strategy_ctx \<Rightarrow> i64 \<Rightarrow> hybrid \<Rightarrow> hybrid \<times> intent list" where
  "emit_repair env ctx now s =
     (let q = ctx_qty ctx; cfg = hy_config s in
      if is_flat q \<or> hy_owner s \<noteq> Some MeanReversion then (s\<lparr>hy_sl_triggered := None\<rparr>, [])
      else case hy_sl_triggered s of
          Some t \<Rightarrow>
            if now < sat_i64 (t + as_i64 (int (hyc_sl_escalate cfg))) then (s, [])
            else escalate_stop env ctx now s
        | None \<Rightarrow>
            if has_tp s \<and> has_sl s then (s, [])
            else (case hy_cycle s of
                None \<Rightarrow> (enter_safe_mode ''repair_missing_cycle_id'' s, [])
              | Some cycle \<Rightarrow>
                  (case (hy_take_price s, hy_stop_price s) of
                     (Some tk, Some st) \<Rightarrow>
                       if (case hy_repair_deadline s of None \<Rightarrow> False | Some d \<Rightarrow> d \<le> now) then
                         (enter_safe_mode ''repair_deadline_force_flatten'' s,
                          [exit_intent s ctx (flat_side q) \<bar>q\<bar> (live_reference_price s) cycle
                             (or_else MeanReversion (hy_owner s))])
                       else if (case hy_next_repair s of None \<Rightarrow> False | Some t \<Rightarrow> now < t) then (s, [])
                       else if \<not> can_execute_now ctx True \<or> cx_gateway_phase ctx \<noteq> LiveReady
                         then (schedule_next_repair now s, [])
                       else if hyc_max_repairs cfg \<le> hy_repair_attempts s
                         then (enter_safe_mode ''repair_retries_exhausted'' s, [])
                       else place_missing env ctx now cycle tk st s
                   | _ \<Rightarrow> (enter_safe_mode ''repair_missing_bracket_levels'' s, []))))"

section \<open>Requests that were never answered\<close>

definition hy_pending_timeout :: "hybrid_config \<Rightarrow> i64" where
  "hy_pending_timeout cfg = as_i64 (int (max (hyc_pending_timeout cfg) 1))"

definition gc_due :: "hybrid_config \<Rightarrow> i64 \<Rightarrow> uuid option \<Rightarrow> i64 option \<Rightarrow> bool" where
  "gc_due cfg now req created \<longleftrightarrow>
     req \<noteq> None \<and> hy_pending_timeout cfg < sat_sub now (or_else now created)"

definition gc_entry :: "i64 \<Rightarrow> hybrid \<Rightarrow> hybrid" where
  "gc_entry now s =
     (let created = (case hy_entry_created s of
            Some t \<Rightarrow> Some t | None \<Rightarrow> Option.bind (hy_entry s) (cycle_ts_utc \<circ> hpe_cycle))
      in if \<not> gc_due (hy_config s) now (hy_entry_req s) created then s
         else
           let s1 = s\<lparr>hy_orch := orch_rejected ''entry'' (hy_orch s), hy_entry := None, hy_entry_req := None,
                      hy_entry_created := None, hy_deferred_entry := None\<rparr>
           in if is_flat (hy_last_qty s1) then s1\<lparr>hy_cycle := None\<rparr> else s1)"

definition gc_exit :: "i64 \<Rightarrow> hybrid \<Rightarrow> hybrid" where
  "gc_exit now s =
     (if gc_due (hy_config s) now (hy_exit_req s) (hy_exit_created s)
        then s\<lparr>hy_exit := None, hy_exit_req := None, hy_exit_created := None\<rparr> else s)"

definition gc_tp :: "i64 \<Rightarrow> hybrid \<Rightarrow> hybrid" where
  "gc_tp now s =
     (if gc_due (hy_config s) now (hy_tp_req s) (hy_tp_created s)
        then s\<lparr>hy_tp_req := None, hy_tp_created := None\<rparr> else s)"

definition gc_sl :: "i64 \<Rightarrow> hybrid \<Rightarrow> hybrid" where
  "gc_sl now s =
     (if gc_due (hy_config s) now (hy_sl_req s) (hy_sl_created s)
        then s\<lparr>hy_sl_req := None, hy_sl_created := None\<rparr> else s)"

definition clear_stale_pending :: "i64 \<Rightarrow> f64 \<Rightarrow> trade_mode \<Rightarrow> hybrid \<Rightarrow> hybrid" where
  "clear_stale_pending now qty mode s =
     (if mode \<noteq> TmLive \<or> is_open qty \<or> hy_orders s \<noteq> {} \<or> hy_stop_orders s \<noteq> {} then s
      else gc_sl now (gc_tp now (gc_exit now (gc_entry now s))))"

section \<open>The start of a live run\<close>

definition clear_replay_guard :: "hybrid \<Rightarrow> hybrid" where
  "clear_replay_guard s = s\<lparr>hy_replay_boundary := None, hy_replay_suppressed := 0\<rparr>"

definition arm_replay_guard :: "strategy_ctx \<Rightarrow> hybrid \<Rightarrow> hybrid" where
  "arm_replay_guard ctx s =
     (if cx_trade_mode ctx \<noteq> TmLive \<or> \<not> cx_allow_live_orders ctx then clear_replay_guard s
      else s\<lparr>hy_replay_boundary :=
               Some (sat_sub (cx_now_ts ctx) (max (hy_pending_timeout (hy_config s)) 60)),
             hy_replay_suppressed := 0\<rparr>)"

definition hybrid_bar_input ::
  "naive_datetime \<Rightarrow> host_bar \<Rightarrow> f64 \<Rightarrow> f64 \<Rightarrow> bool \<Rightarrow> hybrid \<Rightarrow> bar_input" where
  "hybrid_bar_input dt bar close_prev day_range has_position s =
     \<lparr>bi_dt = dt, bi_open = hb_o bar, bi_high = hb_h bar, bi_low = hb_l bar, bi_close = hb_close bar,
      bi_close_prev = close_prev, bi_day_range_prev = day_range, bi_has_position = has_position,
      bi_has_orders = has_live_orders s\<rparr>"

definition warm :: "bar_input \<Rightarrow> hybrid \<Rightarrow> hybrid" where
  "warm inp s = s\<lparr>hy_orch := warm_bar inp (hy_orch s)\<rparr>"

definition note_bar :: "host_bar \<Rightarrow> hybrid \<Rightarrow> hybrid" where
  "note_bar bar s = s\<lparr>hy_last_processed := Some (hb_close_time bar), hy_last_close := Some (hb_close bar)\<rparr>"

definition suppress_replay_bar ::
  "hybrid_env \<Rightarrow> strategy_ctx \<Rightarrow> host_bar \<Rightarrow> naive_datetime \<Rightarrow> f64 \<Rightarrow> f64 \<Rightarrow> bool \<Rightarrow> hybrid
   \<Rightarrow> hybrid \<times> bool" where
  "suppress_replay_bar env ctx bar dt close_prev day_range has_position s =
     (if cx_trade_mode ctx \<noteq> TmLive then (clear_replay_guard s, False)
      else case hy_replay_boundary s of
          None \<Rightarrow> (s, False)
        | Some b \<Rightarrow>
            if hb_origin bar = OrLive \<and> b \<le> hb_close_time bar then (clear_replay_guard s, False)
            else
              let inp = hybrid_bar_input dt bar close_prev day_range has_position s;
                  s1 = clear_stale_pending (hb_close_time bar) (ctx_qty ctx) (cx_trade_mode ctx)
                         (note_bar bar (warm inp s))
              in (sync_state env (s1\<lparr>hy_replay_suppressed := sat_inc32 (hy_replay_suppressed s1)\<rparr>), True))"

section \<open>Bars\<close>

definition mr_override_entry ::
  "hybrid \<Rightarrow> naive_datetime \<Rightarrow> host_bar \<Rightarrow> f64 \<Rightarrow> f64 \<Rightarrow> entry_signal option" where
  "mr_override_entry s dt bar close_prev day_range =
     apply_live_mr_policy (hy_config s) (filter_near_zero_mr_entry (hy_config s) (hb_close bar)
       (if uses_high180_mr (hy_config s)
          then (if mr_gate_allows s then high180_entry_signal s dt (hb_close bar) close_prev day_range else None)
        else author41_entry_signal (hy_config s) dt (hb_close bar) close_prev day_range))"

definition mr_override_exit :: "hybrid_env \<Rightarrow> hybrid \<Rightarrow> naive_datetime \<Rightarrow> reason_code option" where
  "mr_override_exit env s dt =
     (if uses_high180_mr (hy_config s) then high180_exit_reason env s dt else author41_exit_reason s dt)"

definition bar_actions ::
  "hybrid_env \<Rightarrow> naive_datetime \<Rightarrow> host_bar \<Rightarrow> f64 \<Rightarrow> f64 \<Rightarrow> bar_input \<Rightarrow> naive_date option \<Rightarrow> hybrid
   \<Rightarrow> hybrid \<times> hybrid_action list" where
  "bar_actions env dt bar close_prev day_range inp previous_day s =
     (let (o1, acts) = (if uses_mr_override (hy_config s)
            then orch_bar_override inp (mr_override_entry s dt bar close_prev day_range)
                   (mr_override_exit env s dt) (hy_orch s)
            else orch_bar inp (hy_orch s));
          s1 = s\<lparr>hy_orch := o1\<rparr>
      in (s1, append_no_overnight_guard env s1 dt previous_day (bi_has_position inp) acts))"

text \<open>The end of a bar that trades: repair first, then the actions.\<close>

definition trade_bar ::
  "hybrid_env \<Rightarrow> strategy_ctx \<Rightarrow> naive_datetime \<Rightarrow> host_bar \<Rightarrow> f64 \<Rightarrow> f64 \<Rightarrow> bar_input
   \<Rightarrow> naive_date option \<Rightarrow> i64 \<Rightarrow> bool \<Rightarrow> bool \<Rightarrow> hybrid \<Rightarrow> hybrid \<times> intent list" where
  "trade_bar env ctx dt bar close_prev day_range inp previous_day created can_emit can_execute s =
     (let (s1, acts) = bar_actions env dt bar close_prev day_range inp previous_day s;
          (s2, repair) = emit_repair env ctx created s1;
          (s3, ins) = map_actions env ctx created can_emit can_execute acts s2
      in (sync_state env s3, repair @ ins))"

definition try_deferred_entry ::
  "hybrid_env \<Rightarrow> strategy_ctx \<Rightarrow> i64 \<Rightarrow> naive_datetime \<Rightarrow> bool \<Rightarrow> bool \<Rightarrow> f64 \<Rightarrow> bar_input \<Rightarrow> hybrid
   \<Rightarrow> hybrid \<times> intent list option" where
  "try_deferred_entry env ctx created dt can_emit can_execute reference inp s =
     (if hy_deferred_entry s = None then (s, None)
      else reissue_deferred_entry env ctx created dt can_emit can_execute reference (warm inp s))"

definition try_deferred_exit ::
  "hybrid_env \<Rightarrow> strategy_ctx \<Rightarrow> i64 \<Rightarrow> bool \<Rightarrow> bool \<Rightarrow> f64 \<Rightarrow> bar_input \<Rightarrow> hybrid
   \<Rightarrow> hybrid \<times> intent list option" where
  "try_deferred_exit env ctx created can_emit can_execute reference inp s =
     (if hy_deferred_exit s = None then (s, None)
      else reissue_deferred_exit env ctx created can_emit can_execute reference (warm inp s))"

text \<open>A bar that was not filtered out.\<close>

definition process_bar ::
  "hybrid_env \<Rightarrow> strategy_ctx \<Rightarrow> host_bar \<Rightarrow> naive_datetime \<Rightarrow> f64 \<Rightarrow> f64 \<Rightarrow> bool \<Rightarrow> naive_date option
   \<Rightarrow> hybrid \<Rightarrow> hybrid \<times> intent list" where
  "process_bar env ctx bar dt close_prev day_range has_position previous_day s =
     (let s0 = clear_stale_pending (hb_close_time bar) (ctx_qty ctx) (cx_trade_mode ctx) (note_bar bar s);
          is_live = (hb_origin bar = OrLive);
          can_emit = can_emit_now ctx is_live;
          can_execute = can_execute_now ctx is_live;
          created = effective_created ctx (hb_close_time bar);
          reference = live_reference_price s0;
          inp = hybrid_bar_input dt bar close_prev day_range has_position s0
      in if weekend_state_only_bar (hy_config s0) dt then (sync_state env (warm inp s0), [])
         else case try_deferred_exit env ctx created can_emit can_execute reference inp s0 of
             (s1, Some ins) \<Rightarrow> (sync_state env s1, ins)
           | (s1, None) \<Rightarrow>
               (case try_deferred_entry env ctx created dt can_emit can_execute reference inp s1 of
                  (s2, Some ins) \<Rightarrow> (sync_state env s2, ins)
                | (s2, None) \<Rightarrow>
                    trade_bar env ctx dt bar close_prev day_range inp previous_day created can_emit
                      can_execute s2))"

definition hybrid_on_bar ::
  "hybrid_env \<Rightarrow> strategy_ctx \<Rightarrow> host_bar \<Rightarrow> hybrid \<Rightarrow> hybrid \<times> intent list" where
  "hybrid_on_bar env ctx bar s =
     (if hb_symbol bar \<noteq> hyc_symbol (hy_config s)
         \<or> at_or_before (hb_close_time bar) (hy_last_processed s) then (s, [])
      else case utc_to_local env s (hb_close_time bar) of
          None \<Rightarrow> (s, [])
        | Some dt \<Rightarrow>
            if suppress_weekend (hy_config s) dt \<or> suppress_non_model_session (hy_config s) dt \<noteq> None
              then (s\<lparr>hy_last_processed := Some (hb_close_time bar)\<rparr>, [])
            else
              let s1 = update_day_aggregates dt (hb_h bar) (hb_l bar) s;
                  s2 = note_warmup (if uses_high180_mr (hy_config s1)
                      then s1\<lparr>hy_high180 := high180_on_bar dt (hb_h bar) (hb_l bar) (hy_high180 s1)\<rparr>
                      else s1);
                  close_prev = or_else (hb_close bar) (hy_prev_close s2);
                  day_range = or_else 0 (hy_prev_range s2);
                  s3 = update_risk_gate_shadow env dt bar close_prev day_range s2;
                  has_position = is_open (ctx_qty ctx)
              in (case suppress_replay_bar env ctx bar dt close_prev day_range has_position s3 of
                    (s4, True) \<Rightarrow> (s4, [])
                  | (s4, False) \<Rightarrow>
                      process_bar env ctx bar dt close_prev day_range has_position (hy_last_day s) s4))"

section \<open>Acknowledgements\<close>

definition ack_failed :: "command_ack \<Rightarrow> bool" where
  "ack_failed ack \<longleftrightarrow> ack_status ack = Rejected \<or> ack_status ack = Expired \<or> ack_status ack = Error"

definition signal_of_entry :: "pending_entry \<Rightarrow> entry_signal" where
  "signal_of_entry e = \<lparr>es_owner = hpe_owner e, es_side = hpe_side e, es_style = hpe_style e,
     es_reason = hpe_reason e, es_stop_price = hpe_stop e, es_take_price = hpe_take e\<rparr>"

definition entry_failed :: "command_ack \<Rightarrow> hybrid \<Rightarrow> hybrid" where
  "entry_failed ack s =
     (let window = window_closed_reject ack;
          s1 = s\<lparr>hy_orch := orch_rejected ''entry'' (hy_orch s)\<rparr>;
          s2 = (case (window, hy_entry s1) of
              (True, Some e) \<Rightarrow> s1\<lparr>hy_deferred_entry :=
                Some \<lparr>hde_signal = signal_of_entry e, hde_cycle = hpe_cycle e,
                      hde_ts = ack_processed_ts_utc ack, hde_req = ack_request_id ack\<rparr>\<rparr>
            | _ \<Rightarrow> s1);
          s3 = s2\<lparr>hy_entry := None, hy_entry_req := None, hy_entry_created := None, hy_cycle := None,
                  hy_tp_order := None, hy_sl_stop_order := None, hy_sl_exchange_order := None\<rparr>
      in if window then s3 else enter_safe_mode ''entry_rejected'' s3)"

definition exit_failed :: "command_ack \<Rightarrow> hybrid \<Rightarrow> hybrid" where
  "exit_failed ack s =
     (let s1 = s\<lparr>hy_orch := orch_rejected ''exit'' (hy_orch s)\<rparr>;
          s2 = (if window_closed_reject ack then
              (case active_or_next_cycle (ack_processed_ts_utc ack) s1 of
                 (t, cycle) \<Rightarrow> t\<lparr>hy_deferred_exit := map_option
                   (\<lambda>x. \<lparr>hdx_owner = hpx_owner x, hdx_reason = hpx_reason x, hdx_cycle = cycle,
                         hdx_ts = ack_processed_ts_utc ack, hdx_req = ack_request_id ack\<rparr>) (hy_exit t)\<rparr>)
            else s1)
      in s2\<lparr>hy_exit := None, hy_exit_req := None, hy_exit_created := None\<rparr>)"

text \<open>The stop orders whose deletion failed while flat, in the order of their text.\<close>

fun text_le :: "string \<Rightarrow> string \<Rightarrow> bool" where
  "text_le [] _ = True"
| "text_le (x # xs) [] = False"
| "text_le (x # xs) (y # ys) =
     (let a = of_char x :: nat; b = of_char y in a < b \<or> a = b \<and> text_le xs ys)"

fun insert_text :: "string \<Rightarrow> string list \<Rightarrow> string list" where
  "insert_text x [] = [x]"
| "insert_text x (y # ys) = (if text_le x y then x # y # ys else y # insert_text x ys)"

definition sort_text :: "string list \<Rightarrow> string list" where
  "sort_text xs = foldr insert_text xs []"

definition retry_cleanup :: "hybrid_env \<Rightarrow> hybrid \<Rightarrow> hybrid \<times> intent list" where
  "retry_cleanup env s =
     (sync_state env (s\<lparr>hy_cleanup_retries := hy_cleanup_retries s + 1\<rparr>),
      map (\<lambda>k. with_class (IDeleteStopLimit k None (Some True)) CancelCleanup)
        (sort_text (he_list_stops env (hy_stop_orders s))))"

definition hybrid_on_ack ::
  "hybrid_env \<Rightarrow> strategy_ctx \<Rightarrow> command_ack \<Rightarrow> hybrid \<Rightarrow> hybrid \<times> intent list" where
  "hybrid_on_ack env ctx ack s =
     (let req = Some (ack_request_id ack); failed = ack_failed ack; ts = ack_processed_ts_utc ack in
      if req = hy_entry_req s then (sync_state env (if failed then entry_failed ack s else s), [])
      else if req = hy_exit_req s then (sync_state env (if failed then exit_failed ack s else s), [])
      else if req = hy_tp_req s then
        (sync_state env (if failed
           then schedule_next_repair ts (s\<lparr>hy_tp_req := None, hy_tp_created := None\<rparr>) else s), [])
      else if req = hy_sl_req s then
        (sync_state env (if failed
           then schedule_next_repair ts (s\<lparr>hy_sl_req := None, hy_sl_created := None\<rparr>) else s), [])
      else if failed \<and> is_flat (hy_last_qty s) \<and> hy_stop_orders s \<noteq> {} \<and> hy_cleanup_retries s < 3
        then retry_cleanup env s
      else (s, []))"

section \<open>Orders\<close>

definition terminal_order_status :: "string \<Rightarrow> bool" where
  "terminal_order_status st \<longleftrightarrow> st \<in> {''filled'', ''canceled'', ''cancelled'', ''expired'', ''rejected''}"

definition executed_stop_status :: "string \<Rightarrow> bool" where
  "executed_stop_status st \<longleftrightarrow> st \<in> {''filled'', ''executed'', ''triggered'', ''done'', ''completed''}"

definition dead_stop_status :: "string \<Rightarrow> bool" where
  "dead_stop_status st \<longleftrightarrow> st \<in> {''canceled'', ''cancelled'', ''expired'', ''rejected''}"

definition terminal_stop_status :: "string \<Rightarrow> bool" where
  "terminal_stop_status st \<longleftrightarrow> executed_stop_status st \<or> dead_stop_status st"

definition tag_role_of :: "string option \<Rightarrow> tag_role option" where
  "tag_role_of comment = Option.bind (parse_hybrid_tag comment) hyt_role"

definition note_tp_order :: "hybrid_env \<Rightarrow> i64 \<Rightarrow> string \<Rightarrow> hybrid \<Rightarrow> hybrid" where
  "note_tp_order env k st s =
     (let s1 = s\<lparr>hy_tp_req := None, hy_tp_created := None\<rparr>;
          s2 = (if 0 < k then s1\<lparr>hy_tp_order := Some k\<rparr> else s1)
      in if terminal_order_status st
           then (if st = ''filled'' then mark_bracket_reconcile env s2 else s2)\<lparr>hy_tp_order := None\<rparr>
         else s2)"

definition hybrid_on_order ::
  "hybrid_env \<Rightarrow> strategy_ctx \<Rightarrow> host_order \<Rightarrow> hybrid \<Rightarrow> hybrid \<times> intent list" where
  "hybrid_on_order env ctx ord s =
     (if ord_symbol ord \<noteq> hyc_symbol (hy_config s) \<or> \<not> is_our_tag ctx (ord_comment ord) then (s, [])
      else
        let st = to_ascii_lowercase (ord_status ord); k = ord_order_id ord;
            s1 = (if terminal_order_status st then s else ensure_cycle_from_comment (ord_comment ord) s);
            s2 = (if tag_role_of (ord_comment ord) = Some RoleTp then note_tp_order env k st s1 else s1);
            s3 = (if terminal_order_status st then s2\<lparr>hy_orders := hy_orders s2 - {k}\<rparr>
                  else if 0 < k then s2\<lparr>hy_orders := insert k (hy_orders s2)\<rparr> else s2)
        in (sync_state env s3, []))"

definition note_sl_order ::
  "hybrid_env \<Rightarrow> host_stop_order \<Rightarrow> string \<Rightarrow> hybrid \<Rightarrow> hybrid \<times> intent list" where
  "note_sl_order env ord st s =
     (let s1 = s\<lparr>hy_sl_req := None, hy_sl_created := None\<rparr>;
          s2 = (if trim (sto_id ord) \<noteq> [] then s1\<lparr>hy_sl_stop_order := Some (sto_id ord)\<rparr> else s1);
          s3 = (case sto_exchange_order_id ord of
              None \<Rightarrow> s2 | Some k \<Rightarrow> s2\<lparr>hy_sl_exchange_order := Some k\<rparr>);
          (s4, ins) = (if executed_stop_status st
              then ((mark_bracket_reconcile env s3)\<lparr>hy_sl_triggered := Some (max (sto_ts ord) 0),
                      hy_tp_order := None\<rparr>, cancel_of (hy_tp_order s3))
              else (s3, []));
          s5 = (if terminal_stop_status st then s4\<lparr>hy_sl_stop_order := None\<rparr> else s4);
          s6 = (if dead_stop_status st then s5\<lparr>hy_sl_exchange_order := None\<rparr> else s5)
      in (s6, ins))"

definition track_stop_order :: "string \<Rightarrow> string \<Rightarrow> hybrid \<Rightarrow> hybrid" where
  "track_stop_order k st s =
     (if terminal_stop_status st then
        (let s1 = s\<lparr>hy_stop_orders := hy_stop_orders s - {k}\<rparr> in
         if hy_stop_orders s1 = {} then s1\<lparr>hy_cleanup_retries := 0\<rparr> else s1)
      else if trim k \<noteq> [] then s\<lparr>hy_stop_orders := insert k (hy_stop_orders s)\<rparr> else s)"

definition hybrid_on_stop_order ::
  "hybrid_env \<Rightarrow> strategy_ctx \<Rightarrow> host_stop_order \<Rightarrow> hybrid \<Rightarrow> hybrid \<times> intent list" where
  "hybrid_on_stop_order env ctx ord s =
     (if sto_symbol ord \<noteq> hyc_symbol (hy_config s) \<or> \<not> is_our_tag ctx (sto_comment ord) then (s, [])
      else
        let st = to_ascii_lowercase (sto_status ord);
            s1 = (if terminal_stop_status st then s else ensure_cycle_from_comment (sto_comment ord) s);
            (s2, ins) = (if tag_role_of (sto_comment ord) = Some RoleSl
                then note_sl_order env ord st s1 else (s1, []))
        in (sync_state env (track_stop_order (sto_id ord) st s2), ins))"

section \<open>Positions\<close>

text \<open>A position while an entry is pending: refused, still partial, or complete.\<close>

datatype entry_progress = NotPending | Invalid string | Partial pending_entry | Complete

definition entry_progress_of :: "hybrid_env \<Rightarrow> f64 \<Rightarrow> f64 \<Rightarrow> hybrid \<Rightarrow> entry_progress" where
  "entry_progress_of env prev cur s =
     (case hy_entry s of
        None \<Rightarrow> NotPending
      | Some e \<Rightarrow>
          if \<not> is_open cur then NotPending
          else if \<not> partial_progress_valid e prev cur then
            Invalid (if \<not> f_eq (f_signum cur) (f_signum (expected_entry_qty e)) then ''partial_entry_sign_mismatch''
                     else if hpe_target_qty e + f64_epsilon < \<bar>cur\<bar> then ''partial_entry_overfill''
                     else ''partial_entry_position_reduced'')
          else if waits_for_partial e \<and> \<bar>cur\<bar> + f64_epsilon < hpe_target_qty e then
            Partial (if hpe_partial_started e = None
                       then e\<lparr>hpe_partial_started := Some (he_now_ms env)\<rparr> else e)
          else Complete)"

definition size_changed :: "f64 \<Rightarrow> f64 \<Rightarrow> bool" where
  "size_changed prev cur \<longleftrightarrow> is_open prev \<and> is_open cur \<and> f64_epsilon < \<bar>prev - cur\<bar>"

definition position_resized ::
  "hybrid_env \<Rightarrow> strategy_ctx \<Rightarrow> host_position \<Rightarrow> hybrid \<Rightarrow> hybrid \<times> intent list" where
  "position_resized env ctx pos s =
     (let prev = hy_last_qty s; cur = hp_qty pos in
      if mr_partial_progress prev cur s
        then (sync_state env ((mark_bracket_reconcile env s)\<lparr>hy_last_qty := cur\<rparr>), [])
      else if bracket_reconcile_active (he_now_ms env) s then (sync_state env (s\<lparr>hy_last_qty := cur\<rparr>), [])
      else case emit_residual_exit env ctx pos
             (if \<not> f_eq (f_signum prev) (f_signum cur) then ''broker_position_sign_flip''
              else ''broker_position_size_changed'') s of
           (s1, ins) \<Rightarrow> (sync_state env (s1\<lparr>hy_last_qty := cur\<rparr>), ins))"

definition entry_filled ::
  "hybrid_env \<Rightarrow> strategy_ctx \<Rightarrow> host_position \<Rightarrow> pending_entry \<Rightarrow> hybrid \<Rightarrow> hybrid \<times> intent list" where
  "entry_filled env ctx pos e s =
     emit_mr_bracket env ctx pos e
       (s\<lparr>hy_cleanup_retries := 0, hy_entry := None, hy_deferred_entry := None,
          hy_owner := Some (hpe_owner e), hy_side := Some (hpe_side e), hy_cycle := Some (hpe_cycle e),
          hy_entry_req := None, hy_entry_created := None, hy_repair_attempts := 0, hy_backoff_level := 0,
          hy_next_repair := Some (hp_ts pos),
          hy_repair_deadline :=
            Some (sat_i64 (hp_ts pos + as_i64 (int (hyc_repair_deadline (hy_config s))))),
          hy_take_price := hpe_take e, hy_stop_price := hpe_stop e,
          hy_orch := orch_filled ''entry'' (hpe_owner e) (Some (hpe_side e)) (hy_orch s)\<rparr>)"

definition position_unknown ::
  "hybrid_env \<Rightarrow> strategy_ctx \<Rightarrow> host_position \<Rightarrow> hybrid \<Rightarrow> hybrid \<times> intent list" where
  "position_unknown env ctx pos s =
     (let s1 = s\<lparr>hy_cleanup_retries := 0, hy_entry := None, hy_deferred_entry := None, hy_owner := None,
                 hy_side := None\<rparr>;
          (s2, cycle) = active_or_next_cycle (hp_ts pos) s1;
          s3 = enter_safe_mode ''recovered_position_owner_unknown'' (s2\<lparr>hy_cycle := Some cycle\<rparr>)
      in if hp_existing pos then (s3, [])
         else emit_residual_exit env ctx pos ''unexpected_broker_residual'' s3)"

definition position_closed :: "hybrid \<Rightarrow> hybrid \<times> intent list" where
  "position_closed s =
     (let s1 = s\<lparr>hy_cleanup_retries := 0,
            hy_orch := orch_filled ''exit'' (or_else MeanReversion (hy_owner s)) None (hy_orch s),
            hy_owner := None, hy_side := None, hy_entry := None, hy_entry_req := None,
            hy_entry_created := None, hy_deferred_entry := None, hy_exit := None, hy_exit_req := None,
            hy_exit_created := None, hy_deferred_exit := None, hy_reconcile_started := None,
            hy_cycle := None, hy_safe_mode := False, hy_safe_reason := None, hy_sl_triggered := None\<rparr>;
          (s2, ins) = cancel_all_protection (hy_side s) s1
      in (reset_repair_tracking s2, ins))"

definition hybrid_on_position ::
  "hybrid_env \<Rightarrow> strategy_ctx \<Rightarrow> host_position \<Rightarrow> hybrid \<Rightarrow> hybrid \<times> intent list" where
  "hybrid_on_position env ctx pos s =
     (let prev = hy_last_qty s; cur = hp_qty pos;
          finish = (\<lambda>(t, ins). (sync_state env (t\<lparr>hy_last_qty := cur\<rparr>), ins))
      in if hp_symbol pos \<noteq> hyc_symbol (hy_config s) then (s, [])
         else case entry_progress_of env prev cur s of
             Invalid reason \<Rightarrow>
               (case emit_residual_exit env ctx pos reason s of
                  (s1, ins) \<Rightarrow> finish (s1\<lparr>hy_entry := None\<rparr>, ins))
           | Partial e \<Rightarrow> finish (s\<lparr>hy_entry := Some e\<rparr>, [])
           | Complete \<Rightarrow>
               (case hy_entry s of
                  Some e \<Rightarrow> finish (entry_filled env ctx pos e s)
                | None \<Rightarrow> finish (position_unknown env ctx pos s))
           | NotPending \<Rightarrow>
               if size_changed prev cur then position_resized env ctx pos s
               else if is_flat prev \<and> is_open cur then finish (position_unknown env ctx pos s)
               else if is_open prev \<and> is_flat cur then finish (position_closed s)
               else finish (s, []))"

section \<open>Timer, start and warm-up\<close>

definition hybrid_on_timer ::
  "hybrid_env \<Rightarrow> strategy_ctx \<Rightarrow> i64 \<Rightarrow> hybrid \<Rightarrow> hybrid \<times> intent list" where
  "hybrid_on_timer env ctx now_ms s =
     (let (s1, is1) = emit_reconcile_timeout_exit env ctx now_ms s;
          (s2, is2) = emit_partial_timeout_exit env ctx now_ms s1
      in (s2, is1 @ is2))"

definition clear_lifecycle_for_paper :: "hybrid \<Rightarrow> hybrid" where
  "clear_lifecycle_for_paper s =
     (let s1 = reset_repair_tracking
            (s\<lparr>hy_last_qty := 0, hy_owner := None, hy_side := None, hy_entry := None, hy_entry_req := None,
               hy_entry_created := None, hy_deferred_entry := None, hy_exit := None, hy_exit_req := None,
               hy_exit_created := None, hy_deferred_exit := None, hy_cycle := None, hy_safe_mode := False,
               hy_safe_reason := None, hy_orders := {}, hy_stop_orders := {}\<rparr>)
      in s1\<lparr>hy_orch := orch_reset (hy_orch s1)\<rparr>)"

definition note_owner_tag :: "owner option \<Rightarrow> hybrid \<times> owner option \<Rightarrow> hybrid \<times> owner option" where
  "note_owner_tag tagged acc =
     (case acc of (s, own) \<Rightarrow>
        if own = None then (s, tagged)
        else if tagged \<noteq> None \<and> tagged \<noteq> own
          then (enter_safe_mode ''bootstrap_conflicting_owner_tags'' s, own)
        else (s, own))"

definition boot_order ::
  "strategy_ctx \<Rightarrow> bootstrap_snapshot \<Rightarrow> i64 \<Rightarrow> hybrid \<times> owner option \<Rightarrow> hybrid \<times> owner option" where
  "boot_order ctx snap k acc =
     (case (bsn_orders snap k, acc) of
        (None, _) \<Rightarrow> acc
      | (Some ord, (s, own)) \<Rightarrow>
          if ord_symbol ord \<noteq> hyc_symbol (hy_config s) \<or> \<not> is_our_tag ctx (ord_comment ord) then acc
          else
            let s1 = ensure_cycle_from_comment (ord_comment ord) (s\<lparr>hy_orders := insert k (hy_orders s)\<rparr>)
            in (case parse_hybrid_tag (ord_comment ord) of
                  None \<Rightarrow> (s1, own)
                | Some tag \<Rightarrow>
                    (case note_owner_tag (hyt_owner tag) (s1, own) of
                       (s2, own2) \<Rightarrow>
                         (if hyt_role tag = Some RoleTp then s2\<lparr>hy_tp_order := Some k\<rparr> else s2, own2))))"

definition boot_stop_order ::
  "strategy_ctx \<Rightarrow> bootstrap_snapshot \<Rightarrow> string \<Rightarrow> hybrid \<times> owner option \<Rightarrow> hybrid \<times> owner option" where
  "boot_stop_order ctx snap k acc =
     (case (bsn_stop_orders snap k, acc) of
        (None, _) \<Rightarrow> acc
      | (Some ord, (s, own)) \<Rightarrow>
          if sto_symbol ord \<noteq> hyc_symbol (hy_config s) \<or> \<not> is_our_tag ctx (sto_comment ord) then acc
          else
            let s1 = ensure_cycle_from_comment (sto_comment ord)
                  (s\<lparr>hy_stop_orders := insert k (hy_stop_orders s)\<rparr>)
            in (case parse_hybrid_tag (sto_comment ord) of
                  None \<Rightarrow> (s1, own)
                | Some tag \<Rightarrow>
                    (case note_owner_tag (hyt_owner tag) (s1, own) of
                       (s2, own2) \<Rightarrow>
                         (if hyt_role tag = Some RoleSl
                            then s2\<lparr>hy_sl_stop_order := Some k,
                                    hy_sl_exchange_order := sto_exchange_order_id ord\<rparr>
                            else s2, own2))))"

definition boot_position :: "bootstrap_snapshot \<Rightarrow> hybrid \<Rightarrow> hybrid" where
  "boot_position snap s =
     (case bsn_positions snap (hyc_symbol (hy_config s)) of
        None \<Rightarrow> s
      | Some pos \<Rightarrow>
          let q = hp_qty pos; s1 = s\<lparr>hy_last_qty := q\<rparr>;
              s2 = (if hy_side s1 = None \<and> is_open q
                    then s1\<lparr>hy_side := Some (if 0 \<le> q then Long else Short)\<rparr> else s1)
          in if is_open q \<and> hy_entry s2 = None \<and> hy_owner s2 = None
               then enter_safe_mode ''bootstrap_position_owner_unknown'' s2 else s2)"

definition hybrid_on_bootstrap ::
  "hybrid_env \<Rightarrow> strategy_ctx \<Rightarrow> bootstrap_snapshot \<Rightarrow> hybrid \<Rightarrow> hybrid \<times> intent list" where
  "hybrid_on_bootstrap env ctx snap s =
     (if cx_trade_mode ctx \<noteq> TmLive then (sync_state env (clear_lifecycle_for_paper s), [])
      else
        let s0 = s\<lparr>hy_orders := {}, hy_stop_orders := {}, hy_tp_order := None, hy_sl_stop_order := None,
                   hy_sl_exchange_order := None\<rparr>;
            acc1 = fold (boot_order ctx snap) (he_list_orders env {k. bsn_orders snap k \<noteq> None}) (s0, None);
            (s2, own) = fold (boot_stop_order ctx snap)
              (he_list_stops env {k. bsn_stop_orders snap k \<noteq> None}) acc1;
            s3 = (if hy_owner s2 = None then s2\<lparr>hy_owner := own\<rparr> else s2)
        in (sync_state env (boot_position snap s3), []))"

definition had_stale_tail :: "hybrid \<Rightarrow> bool" where
  "had_stale_tail s \<longleftrightarrow> hy_entry s \<noteq> None \<or> hy_entry_req s \<noteq> None \<or> hy_exit_req s \<noteq> None
     \<or> hy_tp_req s \<noteq> None \<or> hy_sl_req s \<noteq> None \<or> hy_owner s \<noteq> None \<or> hy_side s \<noteq> None
     \<or> hy_cycle s \<noteq> None"

definition clear_boot_stale_pending :: "hybrid_env \<Rightarrow> hybrid \<Rightarrow> hybrid" where
  "clear_boot_stale_pending env s =
     (if is_open (hy_last_qty s) \<or> hy_orders s \<noteq> {} \<or> hy_stop_orders s \<noteq> {} \<or> \<not> had_stale_tail s then s
      else
        let s1 = reset_repair_tracking
              (s\<lparr>hy_entry := None, hy_entry_req := None, hy_entry_created := None,
                 hy_deferred_entry := None, hy_exit := None, hy_exit_req := None, hy_exit_created := None,
                 hy_deferred_exit := None, hy_owner := None, hy_side := None, hy_cycle := None\<rparr>)
        in sync_state env (s1\<lparr>hy_orch := orch_reset (hy_orch s1)\<rparr>))"

definition hybrid_on_restored ::
  "hybrid_env \<Rightarrow> strategy_ctx \<Rightarrow> runtime_state_restored \<Rightarrow> hybrid \<Rightarrow> hybrid \<times> intent list" where
  "hybrid_on_restored env ctx r s =
     (sync_state env (arm_replay_guard ctx (clear_boot_stale_pending env s)), [])"

text \<open>A fresh strategy sees the history; of it the levels are taken over.\<close>

definition warmup_bar :: "hybrid_env \<Rightarrow> host_bar \<Rightarrow> hybrid \<times> nat \<Rightarrow> hybrid \<times> nat" where
  "warmup_bar env bar acc =
     (case acc of (w, n) \<Rightarrow>
        if hb_symbol bar \<noteq> hyc_symbol (hy_config w) then (w, n)
        else case utc_to_local env w (hb_close_time bar) of
            None \<Rightarrow> (w, n)
          | Some dt \<Rightarrow>
              if suppress_weekend (hy_config w) dt \<or> suppress_non_model_session (hy_config w) dt \<noteq> None
                then (w\<lparr>hy_last_processed := Some (hb_close_time bar)\<rparr>, n)
              else
                let w1 = update_day_aggregates dt (hb_h bar) (hb_l bar) w;
                    w2 = (if uses_high180_mr (hy_config w1)
                        then w1\<lparr>hy_high180 := high180_on_bar dt (hb_h bar) (hb_l bar) (hy_high180 w1),
                                hy_shadow_mr := high180_on_bar dt (hb_h bar) (hb_l bar) (hy_shadow_mr w1)\<rparr>
                        else w1);
                    o1 = hy_orch w2
                in (note_bar bar (w2\<lparr>hy_orch := o1\<lparr>or_breakout :=
                      breakout_on_bar dt (hb_o bar) (hb_h bar) (hb_l bar) (hb_close bar) (or_breakout o1)\<rparr>\<rparr>),
                    n + 1))"

definition hybrid_warmup ::
  "hybrid_env \<Rightarrow> strategy_ctx \<Rightarrow> host_bar list \<Rightarrow> hybrid \<Rightarrow> hybrid \<times> nat" where
  "hybrid_warmup env ctx bars s =
     (case fold (warmup_bar env) bars (hybrid_new (hy_config s), 0) of
        (w, n) \<Rightarrow>
          if n = 0 then (s, 0)
          else
            let o1 = hy_orch s;
                s1 = s\<lparr>hy_last_close := hy_last_close w, hy_prev_close := hy_prev_close w,
                       hy_last_day := hy_last_day w, hy_day_high := hy_day_high w,
                       hy_day_low := hy_day_low w, hy_prev_range := hy_prev_range w,
                       hy_high180 := hy_high180 w, hy_shadow_mr := hy_shadow_mr w,
                       hy_orch := o1\<lparr>or_breakout :=
                         breakout_restore (bo_state (or_breakout (hy_orch w))) (or_breakout o1)\<rparr>\<rparr>
            in (sync_state env (s1\<lparr>hy_entry_ready := signals_warmed s1, hy_warmup_log := None\<rparr>), n))"

section \<open>Risk-gate hooks and the trait\<close>

definition hybrid_acknowledge :: "hybrid_env \<Rightarrow> naive_date list \<Rightarrow> hybrid \<Rightarrow> hybrid" where
  "hybrid_acknowledge env ds s =
     (if ds = [] then s
      else sync_state env (s\<lparr>hy_finalizations :=
             filter (\<lambda>f. fz_date f \<notin> set ds) (hy_finalizations s)\<rparr>))"

definition hybrid_on_rg_state :: "hybrid_env \<Rightarrow> rg_runtime_state \<Rightarrow> hybrid \<Rightarrow> hybrid" where
  "hybrid_on_rg_state env st s =
     (if \<not> risk_gate_shadow_enabled (hy_config s) then s
      else sync_state env (s\<lparr>hy_mr_enabled := rrs_enabled_current st, hy_rolling_sum := rrs_rolling_sum st,
             hy_last_finalized := rrs_last_finalized st, hy_ledger_rows := rrs_rows_count st\<rparr>))"

definition hybrid_rg_hooks :: "hybrid_env \<Rightarrow> (hybrid, hybrid_persisted strategy_state) rg_hooks" where
  "hybrid_rg_hooks env = \<lparr>rh_finalizations = hy_finalizations, rh_acknowledge = hybrid_acknowledge env,
     rh_on_state = hybrid_on_rg_state env, rh_state = hy_state\<rparr>"

definition hybrid_ops :: "hybrid_env \<Rightarrow> (hybrid, hybrid_persisted strategy_state) strategy_ops" where
  "hybrid_ops env =
     \<lparr>so_on_bar = hybrid_on_bar env, so_on_ack = hybrid_on_ack env, so_on_order = hybrid_on_order env,
      so_on_stop_order = hybrid_on_stop_order env, so_on_position = hybrid_on_position env,
      so_on_timer = hybrid_on_timer env, so_on_bootstrap_snapshot = hybrid_on_bootstrap env,
      so_on_runtime_state_restored = hybrid_on_restored env, so_warmup_from_history = hybrid_warmup env,
      so_tracked_order_ids = (\<lambda>s. []), so_pending_request_ids = (\<lambda>s. []),
      so_intent_comment_tag = (\<lambda>ctx ts cls s. Some (hybrid_comment_tag ctx ts cls)),
      so_on_command_prepared = default_on_command_prepared,
      so_on_intent_blocked = default_on_intent_blocked, so_state = hy_state,
      so_set_state = hybrid_set_state env\<rparr>"

end
