(* ===== verification/Hybrid_Runs.thy ===== *)
theory Hybrid_Runs
  imports Hybrid_Runtime
begin

text \<open>
  Runs of the hybrid strategy: every method the runtime calls, each with the clock of its call, and
  what holds over any sequence of calls. The persisted state keeps up with the strategy except
  after the timer; the cycle ids stay well formed; and finished sessions are handed to the risk
  gate once and never for a weekend.
\<close>

section \<open>Calls\<close>

datatype strategy_call =
  CallEvent host_event
| CallTimer strategy_ctx i64
| CallBootstrap strategy_ctx bootstrap_snapshot
| CallRestored strategy_ctx runtime_state_restored
| CallWarmup strategy_ctx "host_bar list"
| CallAcknowledge "naive_date list"
| CallRgState rg_runtime_state

fun hybrid_call :: "hybrid_env \<Rightarrow> strategy_call \<Rightarrow> hybrid \<Rightarrow> hybrid \<times> intent list" where
  "hybrid_call env (CallEvent e) s = ops_call (hybrid_ops env) e s"
| "hybrid_call env (CallTimer ctx now) s = hybrid_on_timer env ctx now s"
| "hybrid_call env (CallBootstrap ctx snap) s = hybrid_on_bootstrap env ctx snap s"
| "hybrid_call env (CallRestored ctx r) s = hybrid_on_restored env ctx r s"
| "hybrid_call env (CallWarmup ctx bars) s = (fst (hybrid_warmup env ctx bars s), [])"
| "hybrid_call env (CallAcknowledge ds) s = (hybrid_acknowledge env ds s, [])"
| "hybrid_call env (CallRgState st) s = (hybrid_on_rg_state env st s, [])"

text \<open>A run, and the intents it asked for; the clock is read once per call.\<close>

fun hybrid_run ::
  "hybrid_env \<Rightarrow> (i64 \<times> strategy_call) list \<Rightarrow> hybrid \<Rightarrow> hybrid \<times> intent list" where
  "hybrid_run env [] s = (s, [])"
| "hybrid_run env ((now, c) # cs) s =
     (let (s1, is1) = hybrid_call (env\<lparr>he_now_ms := now\<rparr>) c s; (s2, is2) = hybrid_run env cs s1
      in (s2, is1 @ is2))"

lemma hybrid_run_Cons [simp]:
  "fst (hybrid_run env ((now, c) # cs) s)
     = fst (hybrid_run env cs (fst (hybrid_call (env\<lparr>he_now_ms := now\<rparr>) c s)))"
  by (simp add: case_prod_unfold Let_def)

declare hybrid_run.simps(2) [simp del]

lemma hybrid_run_invariant:
  assumes "\<And>now c s. P s \<Longrightarrow> ok c \<Longrightarrow> P (fst (hybrid_call (env\<lparr>he_now_ms := now\<rparr>) c s))"
    and "P s" "\<forall>(now, c) \<in> set cs. ok c"
  shows "P (fst (hybrid_run env cs s))"
  using assms(2,3)
proof (induction cs arbitrary: s)
  case (Cons x cs)
  then show ?case using assms(1) by (cases x) simp
qed simp

lemma hybrid_ops_calls [simp]:
  "so_on_bar (hybrid_ops env) = hybrid_on_bar env"
  "so_on_ack (hybrid_ops env) = hybrid_on_ack env"
  "so_on_order (hybrid_ops env) = hybrid_on_order env"
  "so_on_stop_order (hybrid_ops env) = hybrid_on_stop_order env"
  "so_on_position (hybrid_ops env) = hybrid_on_position env"
  "so_state (hybrid_ops env) = hy_state"
  "so_set_state (hybrid_ops env) = hybrid_set_state env"
  by (simp_all add: hybrid_ops_def)

section \<open>A strategy\<close>

text \<open>The configuration and the environment of the examples. Dates are written in unary.\<close>

definition show_unary :: "int \<Rightarrow> string" where
  "show_unary n = (if n < 0 then CHR ''-'' else CHR ''+'') # replicate (nat \<bar>n\<bar>) CHR ''x''"

definition parse_unary :: "string \<Rightarrow> int option" where
  "parse_unary x = (case x of [] \<Rightarrow> None
     | c # r \<Rightarrow> Some (if c = CHR ''-'' then - int (length r) else int (length r)))"

lemma unary_read_back: "parse_unary (show_unary n) = Some n"
  by (simp add: parse_unary_def show_unary_def)

definition sample_hybrid_config :: hybrid_config where
  "sample_hybrid_config = \<lparr>hyc_symbol = ''IMOEXF'', hyc_profile = BaselineRuntimeHybrid,
     hyc_mr_variant = ClassicPrevDayRange, hyc_live_mr_entries = True,
     hyc_gate_policy = GatePolicyDisabled, hyc_gate_mode = GateDisabled, hyc_seed_file = None,
     hyc_ledger_key = None, hyc_persist_in_shadow = False, hyc_weekend_policy = WeekendSkip,
     hyc_session_start = None, hyc_session_end = None, hyc_qty = Fin 1, hyc_style = StyleMarket,
     hyc_tick_size = Fin 1, hyc_offset_ticks = 0, hyc_tz_offset = 3, hyc_close_hour = 23,
     hyc_close_minute = 50, hyc_weekends_off = True, hyc_stop_end_buffer = 60,
     hyc_repair_deadline = 120, hyc_sl_escalate = 30, hyc_max_repairs = 5, hyc_backoff_base = 5,
     hyc_backoff_max = 60, hyc_pending_timeout = 60, hyc_partial_timeout_ms = 5000,
     hyc_mr = sample_mr_config, hyc_bo = sample_breakout_config,
     hyc_orch = \<lparr>orc_eod_mode = Overnight, orc_overnight_exit_time = hms 9 30 0\<rparr>\<rparr>"

definition sample_hybrid_env :: hybrid_env where
  "sample_hybrid_env = \<lparr>he_chrono = chrono_example, he_v5 = id, he_now_ms = 4000,
     he_show_day = show_unary, he_parse_day = parse_unary, he_show_dt = show_unary,
     he_parse_dt = parse_unary, he_list_orders = sorted_list_of_set, he_list_stops = (\<lambda>_. [])\<rparr>"

definition sample_hybrid :: hybrid where
  "sample_hybrid = hybrid_new sample_hybrid_config"

definition sample_cycle :: cycle_id where
  "sample_cycle = ''0000003c01''"

text \<open>A bracket entry of the mean reversion that waits for its fill.\<close>

definition sample_bracket_entry :: pending_entry where
  "sample_bracket_entry = \<lparr>hpe_owner = MeanReversion, hpe_side = Long, hpe_cycle = sample_cycle,
     hpe_reason = MorningMeanReversionLong, hpe_style = StBracket, hpe_stop = Some (Fin 98),
     hpe_take = Some (Fin 103), hpe_target_qty = Fin 1, hpe_partial_started = None\<rparr>"

definition sample_fill_event :: host_position where
  "sample_fill_event = \<lparr>hp_symbol = ''IMOEXF'', hp_qty = Fin 1, hp_existing = False,
     hp_avg_price = Fin 100, hp_ts = 60\<rparr>"

lemma sample_cycle_ok: "cycle_ok sample_cycle"
  by (simp add: cycle_ok_def sample_cycle_def is_hex_digit_def hex_value1_def)

section \<open>The persisted state is the state\<close>

definition in_sync :: "hybrid_env \<Rightarrow> hybrid \<Rightarrow> bool" where
  "in_sync env s \<longleftrightarrow> hy_state s = HybridIntradayRuntime (persisted env s)"

lemma persisted_ignores [simp]:
  "persisted env (s\<lparr>hy_state := x\<rparr>) = persisted env s"
  "persisted env (s\<lparr>hy_last_processed := t\<rparr>) = persisted env s"
  "persisted (env\<lparr>he_now_ms := now\<rparr>) s = persisted env s"
  by (simp_all add: persisted_def)

lemma in_sync_clock [simp]: "in_sync (env\<lparr>he_now_ms := now\<rparr>) s = in_sync env s"
  by (simp add: in_sync_def)

lemma in_sync_sync [simp]: "in_sync env (sync_state env s)"
  by (simp add: in_sync_def sync_state_def)

lemma in_sync_processed [simp]: "in_sync env (s\<lparr>hy_last_processed := t\<rparr>) = in_sync env s"
  by (simp add: in_sync_def)

lemma process_bar_sync: "in_sync env (fst (process_bar env ctx bar dt cp dr has prev s))"
  by (simp add: process_bar_def Let_def trade_bar_def split: prod.splits option.splits)

lemma suppress_replay_sync:
  "suppress_replay_bar env ctx bar dt cp dr has s = (s1, True) \<Longrightarrow> in_sync env s1"
  by (auto simp: suppress_replay_bar_def Let_def split: if_splits option.splits)

lemma on_bar_sync:
  assumes "in_sync env s"
  shows "in_sync env (fst (hybrid_on_bar env ctx bar s))"
  using assms process_bar_sync suppress_replay_sync
  by (auto simp: hybrid_on_bar_def Let_def split: option.splits prod.splits bool.splits)

lemma on_ack_sync: "in_sync env s \<Longrightarrow> in_sync env (fst (hybrid_on_ack env ctx ack s))"
  by (simp add: hybrid_on_ack_def Let_def retry_cleanup_def)

lemma on_order_sync: "in_sync env s \<Longrightarrow> in_sync env (fst (hybrid_on_order env ctx ord s))"
  by (simp add: hybrid_on_order_def Let_def)

lemma on_stop_order_sync: "in_sync env s \<Longrightarrow> in_sync env (fst (hybrid_on_stop_order env ctx ord s))"
  by (simp add: hybrid_on_stop_order_def Let_def split: prod.splits)

lemma on_position_sync: "in_sync env s \<Longrightarrow> in_sync env (fst (hybrid_on_position env ctx pos s))"
  by (simp add: hybrid_on_position_def position_resized_def Let_def
      split: prod.splits entry_progress.splits option.splits)

lemma other_calls_sync:
  "in_sync env (fst (hybrid_on_bootstrap env ctx snap s))"
  "in_sync env (fst (hybrid_on_restored env ctx r s))"
  "in_sync env s \<Longrightarrow> in_sync env (fst (hybrid_warmup env ctx bars s))"
  "in_sync env s \<Longrightarrow> in_sync env (hybrid_acknowledge env ds s)"
  "in_sync env s \<Longrightarrow> in_sync env (hybrid_on_rg_state env st s)"
  by (simp_all add: hybrid_on_bootstrap_def hybrid_on_restored_def hybrid_warmup_def
      hybrid_acknowledge_def hybrid_on_rg_state_def Let_def split: prod.splits)

lemma event_sync: "in_sync env s \<Longrightarrow> in_sync env (fst (ops_call (hybrid_ops env) e s))"
  by (cases e) (simp_all add: on_bar_sync on_ack_sync on_order_sync on_stop_order_sync on_position_sync)

fun is_timer :: "strategy_call \<Rightarrow> bool" where
  "is_timer (CallTimer _ _) = True"
| "is_timer _ = False"

lemma call_sync:
  assumes "in_sync env s" "\<not> is_timer c"
  shows "in_sync env (fst (hybrid_call env c s))"
  using assms by (cases c) (simp_all add: event_sync other_calls_sync)

theorem hybrid_persists_itself:
  assumes "hy_state s = HybridIntradayRuntime (persisted env s)"
    and "\<forall>(now, c) \<in> set cs. \<not> is_timer c"
  shows "so_state (hybrid_ops env) (fst (hybrid_run env cs s))
    = HybridIntradayRuntime (persisted env (fst (hybrid_run env cs s)))"
proof -
  have step: "in_sync env (fst (hybrid_call (env\<lparr>he_now_ms := now\<rparr>) c t))"
    if "in_sync env t" "\<not> is_timer c" for now c t
    using call_sync [of "env\<lparr>he_now_ms := now\<rparr>" t c] that by simp
  have "in_sync env (fst (hybrid_run env cs s))"
    using assms by (intro hybrid_run_invariant [where P = "in_sync env", OF step])
      (simp_all add: in_sync_def)
  then show ?thesis by (simp add: in_sync_def)
qed

lemma hybrid_persists_itself_witness:
  "so_state (hybrid_ops sample_hybrid_env) (fst (hybrid_run sample_hybrid_env
       [(5, CallEvent (EvPosition sample_ctx sample_fill_event)), (6, CallAcknowledge [4])]
       (sync_state sample_hybrid_env sample_hybrid)))
   = HybridIntradayRuntime (persisted sample_hybrid_env (fst (hybrid_run sample_hybrid_env
       [(5, CallEvent (EvPosition sample_ctx sample_fill_event)), (6, CallAcknowledge [4])]
       (sync_state sample_hybrid_env sample_hybrid))))"
  by (rule hybrid_persists_itself) (simp_all add: sync_state_def)

section \<open>The exit of the timer is not persisted\<close>

lemma residual_exit_fields:
  assumes "hy_exit_req s = None" "\<not> is_flat (hp_qty pos)"
  shows "hy_state (fst (emit_residual_exit env ctx pos reason s)) = hy_state s"
    "hy_exit_req (fst (emit_residual_exit env ctx pos reason s)) =
       Some (hybrid_request_id env (hy_config s) ctx (effective_created ctx (hp_ts pos))
         (flat_side_strict (hp_qty pos)))"
    "hy_safe_mode (fst (emit_residual_exit env ctx pos reason s))"
    "hy_entry (fst (emit_residual_exit env ctx pos reason s)) = hy_entry s"
    "\<exists>ins i. snd (emit_residual_exit env ctx pos reason s) = ins @ [Classified i Exit]"
  using assms
  by (auto simp: emit_residual_exit_def active_or_next_cycle_def next_cycle_id_def enter_safe_mode_def
      cancel_all_protection_def exit_intent_def with_class_def Let_def split: option.splits)

theorem timer_exit_forgotten:
  assumes "hy_state s = HybridIntradayRuntime (persisted env s)"
    and "hy_reconcile_started s = Some started" "3000 \<le> sat_sub now_ms started"
    and "is_open (or_else (hy_last_qty s) (cx_position_qty ctx))"
    and "hy_exit_req s = None" "hy_entry s = None"
    and "hybrid_on_timer env ctx now_ms s = (s1, ins)"
  shows "(\<exists>i. last ins = Classified i Exit) \<and> hy_exit_req s1 \<noteq> None \<and> hy_safe_mode s1
    \<and> hy_exit_req (hybrid_set_state env (so_state (hybrid_ops env) s1) t) = None
    \<and> hy_safe_mode (hybrid_set_state env (so_state (hybrid_ops env) s1) t) = hy_safe_mode s"
proof -
  let ?q = "or_else (hy_last_qty s) (cx_position_qty ctx)"
  let ?pos = "\<lparr>hp_symbol = hyc_symbol (hy_config s), hp_qty = ?q, hp_existing = False,
      hp_avg_price = live_reference_price s, hp_ts = now_ms div 1000\<rparr>"
  let ?r = "emit_residual_exit env ctx ?pos ''bracket_terminal_reconcile_timeout''
      (clear_bracket_reconcile s)"
  have flat: "\<not> is_flat ?q" using assms(4) by (auto simp: is_open_def is_flat_def less_f64_def)
  have "emit_reconcile_timeout_exit env ctx now_ms s = ?r"
    using assms flat by (simp add: emit_reconcile_timeout_exit_def Let_def)
  moreover have rf: "hy_state (fst ?r) = hy_state s" "hy_exit_req (fst ?r) \<noteq> None"
    "hy_safe_mode (fst ?r)" "hy_entry (fst ?r) = None" "\<exists>xs i. snd ?r = xs @ [Classified i Exit]"
    using residual_exit_fields [of "clear_bracket_reconcile s" ?pos env ctx
        "''bracket_terminal_reconcile_timeout''"] assms(5,6) flat
    by (simp_all add: clear_bracket_reconcile_def)
  ultimately have s1: "s1 = fst ?r" "ins = snd ?r"
    using assms(7) by (auto simp: hybrid_on_timer_def emit_partial_timeout_exit_def split: prod.splits)
  have "so_state (hybrid_ops env) s1 = HybridIntradayRuntime (persisted env s)"
    using rf(1) s1 assms(1) by simp
  moreover have "hyp_exit_req (persisted env s) = None" "hyp_safe_mode (persisted env s) = hy_safe_mode s"
    using assms(5) by (simp_all add: persisted_def Let_def)
  ultimately show ?thesis using rf s1
    by (auto simp: hybrid_set_state_def restore_fields_def sync_state_def Let_def)
qed

definition sample_unreconciled :: hybrid where
  "sample_unreconciled = sync_state sample_hybrid_env
     (sample_hybrid\<lparr>hy_last_qty := Fin 1, hy_reconcile_started := Some 0\<rparr>)"

lemma timer_exit_forgotten_witness:
  "(\<exists>i. last (snd (hybrid_on_timer sample_hybrid_env sample_ctx 4000 sample_unreconciled)) = Classified i Exit)
   \<and> hy_exit_req (fst (hybrid_on_timer sample_hybrid_env sample_ctx 4000 sample_unreconciled)) \<noteq> None
   \<and> hy_safe_mode (fst (hybrid_on_timer sample_hybrid_env sample_ctx 4000 sample_unreconciled))
   \<and> hy_exit_req (hybrid_set_state sample_hybrid_env (so_state (hybrid_ops sample_hybrid_env)
       (fst (hybrid_on_timer sample_hybrid_env sample_ctx 4000 sample_unreconciled))) sample_hybrid) = None
   \<and> hy_safe_mode (hybrid_set_state sample_hybrid_env (so_state (hybrid_ops sample_hybrid_env)
       (fst (hybrid_on_timer sample_hybrid_env sample_ctx 4000 sample_unreconciled))) sample_hybrid)
     = hy_safe_mode sample_unreconciled"
proof (rule timer_exit_forgotten [where started = 0, OF _ _ _ _ _ _ surjective_pairing])
  show "hy_state sample_unreconciled
      = HybridIntradayRuntime (persisted sample_hybrid_env sample_unreconciled)"
    using in_sync_sync by (simp add: in_sync_def sample_unreconciled_def)
qed (simp_all add: sample_unreconciled_def sync_state_def sample_hybrid_def hybrid_new_def sat_sub_def
      sat_i64_def i64_min_def i64_max_def is_open_def f64_epsilon_def sample_ctx_def or_else_def)

section \<open>Cycle ids are well formed\<close>

definition cycles_ok :: "hybrid \<Rightarrow> bool" where
  "cycles_ok s \<longleftrightarrow> pred_option cycle_ok (hy_cycle s)
     \<and> pred_option (cycle_ok \<circ> hpe_cycle) (hy_entry s)
     \<and> pred_option (cycle_ok \<circ> hde_cycle) (hy_deferred_entry s)
     \<and> pred_option (cycle_ok \<circ> hdx_cycle) (hy_deferred_exit s)"

text \<open>Operations that leave the four fields alone or clear them.\<close>

lemma cycles_ok_frame [simp]:
  "cycles_ok (sync_state env s) = cycles_ok s"
  "cycles_ok (note_bar bar s) = cycles_ok s"
  "cycles_ok (warm inp s) = cycles_ok s"
  "cycles_ok (enter_safe_mode r s) = cycles_ok s"
  "cycles_ok (schedule_next_repair now s) = cycles_ok s"
  "cycles_ok (clear_bracket_reconcile s) = cycles_ok s"
  "cycles_ok (mark_bracket_reconcile env s) = cycles_ok s"
  "cycles_ok (note_warmup s) = cycles_ok s"
  "cycles_ok (clear_replay_guard s) = cycles_ok s"
  "cycles_ok (arm_replay_guard ctx s) = cycles_ok s"
  "cycles_ok (reset_repair_tracking s) = cycles_ok s"
  "cycles_ok (update_day_aggregates dt h l s) = cycles_ok s"
  "cycles_ok (fst (cancel_all_protection sd s)) = cycles_ok s"
  "cycles_ok (fst (place_tp env ctx ts own ps c price qty s)) = cycles_ok s"
  "cycles_ok (fst (place_sl env ctx ts own ps c price qty s)) = cycles_ok s"
  by (simp_all add: cycles_ok_def sync_state_def note_bar_def warm_def enter_safe_mode_def
      schedule_next_repair_def clear_bracket_reconcile_def mark_bracket_reconcile_def note_warmup_def
      clear_replay_guard_def arm_replay_guard_def reset_repair_tracking_def update_day_aggregates_def
      cancel_all_protection_def place_tp_def place_sl_def Let_def split: option.splits)

lemma cycles_ok_shadow [simp]:
  "cycles_ok (update_risk_gate_shadow env dt bar cp dr s) = cycles_ok s"
  by (simp add: cycles_ok_def update_risk_gate_shadow_def shadow_new_session_def shadow_exit_def
      shadow_entry_def finalize_shadow_session_def Let_def split: option.splits prod.splits)

lemma cycles_ok_gc: "cycles_ok s \<Longrightarrow> cycles_ok (clear_stale_pending now q mode s)"
  by (simp add: cycles_ok_def clear_stale_pending_def gc_entry_def gc_exit_def gc_tp_def gc_sl_def Let_def)

lemma active_or_next_cycle_ok:
  assumes "cycles_ok s" "active_or_next_cycle ts s = (s1, c)"
  shows "cycles_ok s1 \<and> cycle_ok c"
  using assms
  by (auto simp: active_or_next_cycle_def next_cycle_id_def cycles_ok_def split: option.splits)

lemma cycles_ok_residual:
  assumes "cycles_ok s"
  shows "cycles_ok (fst (emit_residual_exit env ctx pos reason s))"
proof -
  obtain s1 c where ac: "active_or_next_cycle (effective_created ctx (hp_ts pos)) s = (s1, c)"
    by fastforce
  have "cycles_ok (fst (cancel_all_protection (hy_side s1) s1))" "cycle_ok c"
    using active_or_next_cycle_ok [OF assms ac] by simp_all
  then show ?thesis using assms
    by (simp add: emit_residual_exit_def ac Let_def case_prod_unfold)
      (simp add: cycles_ok_def cancel_all_protection_def)
qed

lemma cycles_ok_bracket: "cycles_ok (fst (emit_mr_bracket env ctx pos e s)) = cycles_ok s"
  by (auto simp: emit_mr_bracket_def place_tp_def place_sl_def cycles_ok_def Let_def split: option.splits)

lemma cycles_ok_map_entry:
  "cycles_ok s \<Longrightarrow> cycles_ok (fst (map_entry env ctx created em ex r sig s))"
  by (auto simp: map_entry_def next_cycle_id_def entry_of_signal_def Let_def split: prod.splits)
    (auto simp: cycles_ok_def)

lemma cycles_ok_map_exit:
  assumes "cycles_ok s"
  shows "cycles_ok (fst (map_exit env ctx created em ex r own reason s))"
proof -
  obtain s1 c where ac: "active_or_next_cycle created s = (s1, c)" by fastforce
  have "cycles_ok s1" "cycle_ok c" using active_or_next_cycle_ok [OF assms ac] by simp_all
  then show ?thesis using assms
    by (simp add: map_exit_def ac Let_def split: option.splits) (simp add: cycles_ok_def)
qed

lemma cycles_ok_map_actions:
  "cycles_ok s \<Longrightarrow> cycles_ok (fst (map_actions env ctx created em ex as s))"
proof (induction as arbitrary: s)
  case (Cons a as)
  have "cycles_ok (fst (map_action env ctx created em ex r a s))" for r
    using Cons.prems by (cases a) (simp_all add: cycles_ok_map_entry cycles_ok_map_exit)
  from Cons.IH [OF this] show ?case by (simp add: case_prod_unfold Let_def)
qed simp

lemma cycles_ok_repair:
  assumes "cycles_ok s"
  shows "cycles_ok (fst (emit_repair env ctx now s))"
proof -
  obtain s1 c where ac: "active_or_next_cycle (max now 0) s = (s1, c)" by fastforce
  have "cycles_ok s1" using active_or_next_cycle_ok [OF assms ac] by simp
  then have "cycles_ok (fst (escalate_stop env ctx now s))"
    by (simp add: escalate_stop_def ac Let_def) (simp add: cycles_ok_def)
  moreover have "cycles_ok (fst (place_missing env ctx now cy tk st s))" for cy tk st
    using assms by (auto simp: place_missing_def place_tp_def place_sl_def cycles_ok_def
        schedule_next_repair_def Let_def)
  moreover have "cycles_ok (s\<lparr>hy_sl_triggered := x\<rparr>)" for x using assms by (simp add: cycles_ok_def)
  ultimately show ?thesis using assms by (simp add: emit_repair_def Let_def split: option.splits)
qed

lemma cycles_ok_orch [simp]: "cycles_ok (s\<lparr>hy_orch := x\<rparr>) = cycles_ok s"
  by (simp add: cycles_ok_def)

lemma cycles_ok_reissue:
  assumes "cycles_ok s"
  shows "cycles_ok (fst (try_deferred_exit env ctx created em ex r inp s))"
    "cycles_ok (fst (try_deferred_entry env ctx created dt em ex r inp s))"
proof -
  have clear: "cycles_ok (clear_deferred_exit t)" "cycles_ok (clear_deferred_entry t)"
    if "cycles_ok t" for t
    using that by (simp_all add: cycles_ok_def clear_deferred_exit_def clear_deferred_entry_def)
  have w: "cycles_ok (warm inp s)" using assms by simp
  have dx: "cycles_ok (warm inp s\<lparr>hy_cycle := Some (hdx_cycle d), hy_owner := Some own\<rparr>)"
    if "hy_deferred_exit (warm inp s) = Some d" for d own
    using w that by (simp add: cycles_ok_def)
  have de: "cycles_ok (warm inp s\<lparr>hy_cycle := Some (hde_cycle d)\<rparr>)"
    if "hy_deferred_entry (warm inp s) = Some d" for d
    using w that by (simp add: cycles_ok_def)
  show "cycles_ok (fst (try_deferred_exit env ctx created em ex r inp s))"
    using assms w clear dx cycles_ok_map_exit
    by (auto simp: try_deferred_exit_def reissue_deferred_exit_def case_prod_unfold Let_def
        split: option.splits)
  show "cycles_ok (fst (try_deferred_entry env ctx created dt em ex r inp s))"
    using assms w clear de cycles_ok_map_entry
    by (auto simp: try_deferred_entry_def reissue_deferred_entry_def case_prod_unfold Let_def
        split: option.splits)
qed

lemma cycles_ok_trade_bar:
  "cycles_ok s \<Longrightarrow> cycles_ok (fst (trade_bar env ctx dt bar cp dr inp prev created em ex s))"
  by (simp add: trade_bar_def bar_actions_def case_prod_unfold Let_def cycles_ok_map_actions
      cycles_ok_repair)

lemma cycles_ok_process_bar:
  assumes "cycles_ok s"
  shows "cycles_ok (fst (process_bar env ctx bar dt cp dr has prev s))"
proof -
  let ?s0 = "clear_stale_pending (hb_close_time bar) (ctx_qty ctx) (cx_trade_mode ctx) (note_bar bar s)"
  have s0: "cycles_ok ?s0" using assms by (simp add: cycles_ok_gc)
  note dx = cycles_ok_reissue(1) [OF s0]
  note de = cycles_ok_reissue(2) [OF dx]
  show ?thesis using s0 dx de
    by (simp add: process_bar_def case_prod_unfold Let_def cycles_ok_trade_bar split: option.splits)
qed

lemma cycles_ok_on_bar:
  assumes "cycles_ok s"
  shows "cycles_ok (fst (hybrid_on_bar env ctx bar s))"
proof -
  have sup: "cycles_ok (fst (suppress_replay_bar env ctx bar dt cp dr has t))" if "cycles_ok t" for dt cp dr has t
  proof -
    have "cycles_ok (x\<lparr>hy_replay_suppressed := n\<rparr>) = cycles_ok x" for x n by (simp add: cycles_ok_def)
    then show ?thesis using that
      by (simp add: suppress_replay_bar_def Let_def cycles_ok_gc split: option.splits)
  qed
  have "cycles_ok (x\<lparr>hy_high180 := h\<rparr>) = cycles_ok x" "cycles_ok (x\<lparr>hy_last_processed := p\<rparr>) = cycles_ok x"
    for x h p by (simp_all add: cycles_ok_def)
  then show ?thesis using assms sup
    by (simp add: hybrid_on_bar_def case_prod_unfold Let_def cycles_ok_process_bar
        split: option.splits bool.splits)
qed

lemma cycles_ok_on_ack:
  assumes "cycles_ok s"
  shows "cycles_ok (fst (hybrid_on_ack env ctx ack s))"
proof -
  have e: "cycles_ok (entry_failed ack s)"
    using assms by (auto simp: entry_failed_def cycles_ok_def enter_safe_mode_def Let_def
        split: option.splits bool.splits)
  obtain s1 c where ac: "active_or_next_cycle (ack_processed_ts_utc ack)
      (s\<lparr>hy_orch := orch_rejected ''exit'' (hy_orch s)\<rparr>) = (s1, c)" by fastforce
  have "cycles_ok s1 \<and> cycle_ok c" using assms by (intro active_or_next_cycle_ok [OF _ ac]) simp
  then have x: "cycles_ok (exit_failed ack s)" using assms
    by (simp add: exit_failed_def ac Let_def) (simp add: cycles_ok_def option.pred_map comp_def option.pred_True)
  have r: "cycles_ok (fst (retry_cleanup env s))" using assms
    by (simp add: retry_cleanup_def) (simp add: cycles_ok_def)
  have "cycles_ok (s\<lparr>hy_tp_req := None, hy_tp_created := None\<rparr>)"
    "cycles_ok (s\<lparr>hy_sl_req := None, hy_sl_created := None\<rparr>)"
    using assms by (simp_all add: cycles_ok_def)
  with assms e x r show ?thesis by (simp add: hybrid_on_ack_def Let_def)
qed

lemma cycles_ok_comment: "cycles_ok s \<Longrightarrow> cycles_ok (ensure_cycle_from_comment c s)"
  by (auto simp: cycles_ok_def ensure_cycle_from_comment_def parse_cycle_id_iff split: option.splits)

lemma cycles_ok_on_order:
  assumes "cycles_ok s"
  shows "cycles_ok (fst (hybrid_on_order env ctx ord s))"
proof -
  have "cycles_ok (note_tp_order env k st t) = cycles_ok t" for k st t
    by (simp add: note_tp_order_def mark_bracket_reconcile_def cycles_ok_def Let_def)
  moreover have "cycles_ok (t\<lparr>hy_orders := x\<rparr>) = cycles_ok t" for t x by (simp add: cycles_ok_def)
  ultimately show ?thesis using assms cycles_ok_comment [OF assms]
    by (simp add: hybrid_on_order_def Let_def)
qed

lemma cycles_ok_on_stop_order:
  assumes "cycles_ok s"
  shows "cycles_ok (fst (hybrid_on_stop_order env ctx ord s))"
proof -
  have "cycles_ok (fst (note_sl_order env ord st t)) = cycles_ok t" for st t
    by (simp add: note_sl_order_def mark_bracket_reconcile_def cycles_ok_def Let_def split: option.splits)
  moreover have "cycles_ok (track_stop_order k st t) = cycles_ok t" for k st t
    by (simp add: track_stop_order_def cycles_ok_def Let_def)
  ultimately show ?thesis using assms cycles_ok_comment [OF assms]
    by (simp add: hybrid_on_stop_order_def case_prod_unfold Let_def)
qed

lemma cycles_ok_on_position:
  assumes "cycles_ok s"
  shows "cycles_ok (fst (hybrid_on_position env ctx pos s))"
proof -
  have q: "cycles_ok (t\<lparr>hy_last_qty := x\<rparr>) = cycles_ok t" for t x by (simp add: cycles_ok_def)
  have n: "cycles_ok (t\<lparr>hy_entry := None\<rparr>)" if "cycles_ok t" for t
    using that by (simp add: cycles_ok_def)
  have p: "cycles_ok (s\<lparr>hy_entry := Some e\<rparr>)"
    if "entry_progress_of env prev cur s = Partial e" for prev cur e
    using that assms by (auto simp: entry_progress_of_def cycles_ok_def split: option.splits if_splits)
  have f: "cycles_ok (fst (entry_filled env ctx pos e s))" if "hy_entry s = Some e" for e
    using assms that by (simp add: entry_filled_def cycles_ok_bracket) (simp add: cycles_ok_def)
  let ?blank = "s\<lparr>hy_cleanup_retries := 0, hy_entry := None, hy_deferred_entry := None, hy_owner := None,
      hy_side := None\<rparr>"
  obtain s1 c where ac: "active_or_next_cycle (hp_ts pos) ?blank = (s1, c)" by fastforce
  have "cycles_ok ?blank" using assms by (simp add: cycles_ok_def)
  from active_or_next_cycle_ok [OF this ac] have s1: "cycles_ok (s1\<lparr>hy_cycle := Some c\<rparr>)"
    by (simp add: cycles_ok_def)
  have u: "cycles_ok (fst (position_unknown env ctx pos s))"
    using s1 by (simp add: position_unknown_def ac Let_def cycles_ok_residual)
  have c: "cycles_ok (fst (position_closed s))"
    by (simp add: position_closed_def case_prod_unfold Let_def) (simp add: cycles_ok_def)
  have r: "cycles_ok (fst (position_resized env ctx pos s))"
    using assms by (simp add: position_resized_def case_prod_unfold Let_def q cycles_ok_residual)
  show ?thesis using assms p f u c r
    by (simp add: hybrid_on_position_def case_prod_unfold Let_def q n cycles_ok_residual
        split: entry_progress.splits option.splits)
qed

lemma cycles_ok_on_timer:
  assumes "cycles_ok s"
  shows "cycles_ok (fst (hybrid_on_timer env ctx now s))"
proof -
  have "cycles_ok (fst (emit_reconcile_timeout_exit env ctx now s))"
    using assms by (simp add: emit_reconcile_timeout_exit_def Let_def cycles_ok_residual split: option.splits)
  moreover have "cycles_ok (fst (emit_partial_timeout_exit env ctx now t))" if "cycles_ok t" for t
    using that by (simp add: emit_partial_timeout_exit_def Let_def split: option.splits)
      (simp add: cycles_ok_def)
  ultimately show ?thesis by (simp add: hybrid_on_timer_def case_prod_unfold Let_def)
qed

lemma cycles_ok_boot:
  "cycles_ok (fst acc) \<Longrightarrow> cycles_ok (fst (boot_order ctx snap k acc))"
  "cycles_ok (fst acc) \<Longrightarrow> cycles_ok (fst (boot_stop_order ctx snap j acc))"
proof -
  have noted: "cycles_ok (fst (note_owner_tag own x)) = cycles_ok (fst x)" for own x
    by (simp add: note_owner_tag_def split: prod.splits)
  have "cycles_ok (t\<lparr>hy_orders := x\<rparr>) = cycles_ok t" "cycles_ok (t\<lparr>hy_tp_order := y\<rparr>) = cycles_ok t"
    "cycles_ok (t\<lparr>hy_stop_orders := z\<rparr>) = cycles_ok t"
    "cycles_ok (t\<lparr>hy_sl_stop_order := u, hy_sl_exchange_order := v\<rparr>) = cycles_ok t" for t x y z u v
    by (simp_all add: cycles_ok_def)
  note frame = this
  show "cycles_ok (fst acc) \<Longrightarrow> cycles_ok (fst (boot_order ctx snap k acc))"
    by (cases acc) (simp add: boot_order_def case_prod_unfold Let_def noted frame cycles_ok_comment
        split: option.splits)
  show "cycles_ok (fst acc) \<Longrightarrow> cycles_ok (fst (boot_stop_order ctx snap j acc))"
    by (cases acc) (simp add: boot_stop_order_def case_prod_unfold Let_def noted frame cycles_ok_comment
        split: option.splits)
qed

lemma fold_keeps: "(\<And>k a. P a \<Longrightarrow> P (f k a)) \<Longrightarrow> P a \<Longrightarrow> P (fold f ks a)"
  by (induction ks arbitrary: a) auto

lemma cycles_ok_on_bootstrap:
  assumes "cycles_ok s"
  shows "cycles_ok (fst (hybrid_on_bootstrap env ctx snap s))"
proof -
  let ?s0 = "s\<lparr>hy_orders := {}, hy_stop_orders := {}, hy_tp_order := None, hy_sl_stop_order := None,
      hy_sl_exchange_order := None\<rparr>"
  define acc where "acc = fold (boot_stop_order ctx snap) (he_list_stops env {k. bsn_stop_orders snap k \<noteq> None})
      (fold (boot_order ctx snap) (he_list_orders env {k. bsn_orders snap k \<noteq> None}) (?s0, None))"
  have "cycles_ok ?s0" using assms by (simp add: cycles_ok_def)
  then have "cycles_ok (fst (?s0, None :: owner option))" by simp
  note orders = fold_keeps [where P = "\<lambda>a. cycles_ok (fst a)", OF cycles_ok_boot(1) this]
  have acc: "cycles_ok (fst acc)"
    unfolding acc_def by (rule fold_keeps [where P = "\<lambda>a. cycles_ok (fst a)", OF cycles_ok_boot(2) orders])
  have pos: "cycles_ok (boot_position snap t) = cycles_ok t" for t
    by (simp add: boot_position_def Let_def split: option.splits) (simp add: cycles_ok_def)
  have "cycles_ok (clear_lifecycle_for_paper s)"
    by (simp add: clear_lifecycle_for_paper_def Let_def) (simp add: cycles_ok_def)
  moreover have "cycles_ok (t\<lparr>hy_owner := x\<rparr>) = cycles_ok t" for t x by (simp add: cycles_ok_def)
  ultimately show ?thesis using acc
    by (simp add: hybrid_on_bootstrap_def acc_def case_prod_unfold Let_def pos)
qed

lemma cycles_ok_other:
  assumes "cycles_ok s"
  shows "cycles_ok (fst (hybrid_on_restored env ctx r s))"
    "cycles_ok (fst (hybrid_warmup env ctx bars s))"
    "cycles_ok (hybrid_acknowledge env ds s)" "cycles_ok (hybrid_on_rg_state env st s)"
proof -
  have "cycles_ok (clear_boot_stale_pending env s)"
    using assms by (simp add: clear_boot_stale_pending_def Let_def) (simp add: cycles_ok_def)
  then show "cycles_ok (fst (hybrid_on_restored env ctx r s))" by (simp add: hybrid_on_restored_def)
  show "cycles_ok (fst (hybrid_warmup env ctx bars s))" "cycles_ok (hybrid_acknowledge env ds s)"
    "cycles_ok (hybrid_on_rg_state env st s)"
    using assms by (simp_all add: hybrid_warmup_def hybrid_acknowledge_def hybrid_on_rg_state_def
        case_prod_unfold Let_def) (simp_all add: cycles_ok_def)
qed

lemma cycles_ok_call: "cycles_ok s \<Longrightarrow> cycles_ok (fst (hybrid_call env c s))"
proof (cases c)
  case (CallEvent e)
  then show "cycles_ok s \<Longrightarrow> ?thesis"
    by (cases e) (simp_all add: cycles_ok_on_bar cycles_ok_on_ack cycles_ok_on_order
        cycles_ok_on_stop_order cycles_ok_on_position)
qed (simp_all add: cycles_ok_on_timer cycles_ok_on_bootstrap cycles_ok_other)

text \<open>A restart cannot bring in an ill-formed id either.\<close>

lemma cycles_ok_set_state:
  assumes "cycles_ok s"
  shows "cycles_ok (hybrid_set_state env st s)"
proof -
  have "pred_option cycle_ok (Option.bind x parse_cycle_id)" for x
    by (cases x) (simp_all add: parse_cycle_id_def cycle_ok_def)
  then have "cycles_ok (restore_fields env p s)" for p
    by (auto simp: cycles_ok_def restore_fields_def restored_entry_def restored_deferred_entry_def
        restored_deferred_exit_def Let_def parse_cycle_id_iff bind_eq_Some_conv split: option.splits)
  moreover have "cycles_ok (t\<lparr>hy_state := x\<rparr>) = cycles_ok t" for t x by (simp add: cycles_ok_def)
  ultimately show ?thesis using assms
    by (simp add: hybrid_set_state_def Let_def split: strategy_state.splits)
qed

theorem hybrid_cycle_ids_well_formed:
  assumes "s = hybrid_new cfg \<or> s = hybrid_set_state env st (hybrid_new cfg)"
  shows "cycles_ok (fst (hybrid_run env cs s))"
proof -
  have "cycles_ok (hybrid_new cfg)" by (simp add: cycles_ok_def hybrid_new_def)
  then have "cycles_ok s" using assms cycles_ok_set_state by auto
  then show ?thesis
    by (intro hybrid_run_invariant [where P = cycles_ok and ok = "\<lambda>_. True"] cycles_ok_call) auto
qed

lemma hybrid_cycle_ids_well_formed_witness:
  "cycles_ok (fst (hybrid_run sample_hybrid_env
     [(5, CallEvent (EvPosition sample_ctx sample_fill_event)),
      (6, CallEvent (EvBar sample_ctx (sample_host_bar 60)))] sample_hybrid))"
  by (rule hybrid_cycle_ids_well_formed [where cfg = sample_hybrid_config])
    (simp add: sample_hybrid_def)

section \<open>Finished sessions\<close>

text \<open>What the paper position of the risk gate is known by outside its own step.\<close>

definition gate_view ::
  "hybrid \<Rightarrow> hybrid_config \<times> naive_date option \<times> rg_finalization list \<times> i64 option" where
  "gate_view s = (hy_config s, hy_shadow_date s, hy_finalizations s, hy_last_processed s)"

lemma gate_view_frame [simp]:
  "gate_view (sync_state env s) = gate_view s"
  "gate_view (warm inp s) = gate_view s"
  "gate_view (enter_safe_mode r s) = gate_view s"
  "gate_view (schedule_next_repair now s) = gate_view s"
  "gate_view (clear_bracket_reconcile s) = gate_view s"
  "gate_view (mark_bracket_reconcile env s) = gate_view s"
  "gate_view (note_warmup s) = gate_view s"
  "gate_view (clear_replay_guard s) = gate_view s"
  "gate_view (arm_replay_guard ctx s) = gate_view s"
  "gate_view (reset_repair_tracking s) = gate_view s"
  "gate_view (update_day_aggregates dt h l s) = gate_view s"
  "gate_view (fst (cancel_all_protection sd s)) = gate_view s"
  "gate_view (fst (active_or_next_cycle ts s)) = gate_view s"
  "gate_view (ensure_cycle_from_comment c s) = gate_view s"
  "gate_view (clear_stale_pending now q mode s) = gate_view s"
  "gate_view (clear_deferred_entry s) = gate_view s"
  "gate_view (clear_deferred_exit s) = gate_view s"
  by (simp_all add: gate_view_def sync_state_def warm_def enter_safe_mode_def schedule_next_repair_def
      clear_bracket_reconcile_def mark_bracket_reconcile_def note_warmup_def clear_replay_guard_def
      arm_replay_guard_def reset_repair_tracking_def update_day_aggregates_def cancel_all_protection_def
      active_or_next_cycle_def next_cycle_id_def ensure_cycle_from_comment_def clear_stale_pending_def
      gc_entry_def gc_exit_def gc_tp_def gc_sl_def clear_deferred_entry_def clear_deferred_exit_def Let_def
      split: option.splits)

lemma gate_view_fields [simp]:
  "gate_view (s\<lparr>hy_orch := a\<rparr>) = gate_view s" "gate_view (s\<lparr>hy_cycle := b\<rparr>) = gate_view s"
  "gate_view (s\<lparr>hy_owner := c\<rparr>) = gate_view s" "gate_view (s\<lparr>hy_side := d\<rparr>) = gate_view s"
  "gate_view (s\<lparr>hy_entry := e\<rparr>) = gate_view s" "gate_view (s\<lparr>hy_entry_req := f\<rparr>) = gate_view s"
  "gate_view (s\<lparr>hy_entry_created := g\<rparr>) = gate_view s" "gate_view (s\<lparr>hy_exit := h\<rparr>) = gate_view s"
  "gate_view (s\<lparr>hy_exit_req := i\<rparr>) = gate_view s" "gate_view (s\<lparr>hy_exit_created := j\<rparr>) = gate_view s"
  "gate_view (s\<lparr>hy_tp_req := k\<rparr>) = gate_view s" "gate_view (s\<lparr>hy_tp_created := l\<rparr>) = gate_view s"
  "gate_view (s\<lparr>hy_sl_req := m\<rparr>) = gate_view s" "gate_view (s\<lparr>hy_sl_created := n\<rparr>) = gate_view s"
  "gate_view (s\<lparr>hy_tp_order := p\<rparr>) = gate_view s" "gate_view (s\<lparr>hy_sl_stop_order := q\<rparr>) = gate_view s"
  "gate_view (s\<lparr>hy_sl_exchange_order := r\<rparr>) = gate_view s" "gate_view (s\<lparr>hy_sl_triggered := t\<rparr>) = gate_view s"
  "gate_view (s\<lparr>hy_orders := u\<rparr>) = gate_view s" "gate_view (s\<lparr>hy_stop_orders := v\<rparr>) = gate_view s"
  "gate_view (s\<lparr>hy_last_qty := w\<rparr>) = gate_view s" "gate_view (s\<lparr>hy_cleanup_retries := x\<rparr>) = gate_view s"
  "gate_view (s\<lparr>hy_repair_attempts := y\<rparr>) = gate_view s" "gate_view (s\<lparr>hy_replay_suppressed := y\<rparr>) = gate_view s"
  "gate_view (s\<lparr>hy_deferred_entry := z\<rparr>) = gate_view s" "gate_view (s\<lparr>hy_deferred_exit := aa\<rparr>) = gate_view s"
  "gate_view (s\<lparr>hy_high180 := ab\<rparr>) = gate_view s"
  by (simp_all add: gate_view_def)

lemma gate_view_residual [simp]: "gate_view (fst (emit_residual_exit env ctx pos reason s)) = gate_view s"
  by (simp add: emit_residual_exit_def case_prod_unfold Let_def)

lemma gate_view_bracket [simp]: "gate_view (fst (emit_mr_bracket env ctx pos e s)) = gate_view s"
  by (simp add: emit_mr_bracket_def place_tp_def place_sl_def case_prod_unfold Let_def split: option.splits)

lemma gate_view_map_action [simp]:
  "gate_view (fst (map_entry env ctx created em ex r sig s)) = gate_view s"
  "gate_view (fst (map_exit env ctx created em ex r own reason s)) = gate_view s"
  by (simp_all add: map_entry_def map_exit_def next_cycle_id_def case_prod_unfold Let_def
      split: option.splits) (simp_all add: gate_view_def)

lemma gate_view_map_actions [simp]:
  "gate_view (fst (map_actions env ctx created em ex as s)) = gate_view s"
proof (induction as arbitrary: s)
  case (Cons a as)
  then show ?case by (cases a) (simp_all add: case_prod_unfold Let_def)
qed simp

lemma gate_view_repair [simp]: "gate_view (fst (emit_repair env ctx now s)) = gate_view s"
  by (simp add: emit_repair_def escalate_stop_def place_missing_def place_tp_def place_sl_def
      case_prod_unfold Let_def split: option.splits)

lemma gate_view_deferred [simp]:
  "gate_view (fst (try_deferred_exit env ctx created em ex r inp s)) = gate_view s"
  "gate_view (fst (try_deferred_entry env ctx created dt em ex r inp s)) = gate_view s"
  by (simp_all add: try_deferred_exit_def try_deferred_entry_def reissue_deferred_exit_def
      reissue_deferred_entry_def case_prod_unfold Let_def split: option.splits)

lemma gate_view_process_bar:
  "gate_view (fst (process_bar env ctx bar dt cp dr has prev s)) = gate_view (note_bar bar s)"
  by (simp add: process_bar_def trade_bar_def bar_actions_def case_prod_unfold Let_def
      split: option.splits)

lemma gate_view_note_bar:
  "gate_view (note_bar bar s) = (hy_config s, hy_shadow_date s, hy_finalizations s, Some (hb_close_time bar))"
  by (simp add: gate_view_def note_bar_def)

text \<open>What the step of the paper position leaves of it.\<close>

lemma gate_view_shadow:
  "gate_view (update_risk_gate_shadow env dt bar cp dr s) =
     gate_view (if \<not> risk_gate_shadow_enabled (hy_config s) \<or> f_eq (hb_close bar) 0 then s
                else shadow_new_session (dt_date dt) s)"
proof -
  have "gate_view (fst (shadow_exit env dt c t)) = gate_view t" for c t
    by (simp add: shadow_exit_def gate_view_def case_prod_unfold Let_def split: option.splits)
  moreover have "gate_view (shadow_entry dt ts c cp dr t) = gate_view t" for ts c t
    by (simp add: shadow_entry_def gate_view_def split: option.splits)
  moreover have "gate_view (t\<lparr>hy_shadow_mr := x\<rparr>) = gate_view t" for t x by (simp add: gate_view_def)
  ultimately show ?thesis by (simp add: update_risk_gate_shadow_def case_prod_unfold Let_def)
qed

definition bar_seen :: "hybrid_env \<Rightarrow> host_bar \<Rightarrow> hybrid \<Rightarrow> naive_datetime option" where
  "bar_seen env bar s =
     (if hb_symbol bar \<noteq> hyc_symbol (hy_config s) \<or> at_or_before (hb_close_time bar) (hy_last_processed s)
        then None else utc_to_local env s (hb_close_time bar))"

text \<open>A bar is ignored, only remembered, or changes the session before anything else.\<close>

definition session_bar :: "hybrid_config \<Rightarrow> naive_datetime \<Rightarrow> host_bar \<Rightarrow> bool" where
  "session_bar cfg dt bar \<longleftrightarrow> \<not> suppress_weekend cfg dt \<and> suppress_non_model_session cfg dt = None
     \<and> risk_gate_shadow_enabled cfg \<and> \<not> f_eq (hb_close bar) 0"

definition session_after :: "naive_datetime \<Rightarrow> host_bar \<Rightarrow> hybrid \<Rightarrow> hybrid" where
  "session_after dt bar s = (if session_bar (hy_config s) dt bar then shadow_new_session (dt_date dt) s else s)"

lemma gate_view_on_bar:
  "bar_seen env bar s = None \<Longrightarrow> gate_view (fst (hybrid_on_bar env ctx bar s)) = gate_view s"
  "bar_seen env bar s = Some dt \<Longrightarrow> gate_view (fst (hybrid_on_bar env ctx bar s)) =
     (hy_config s, hy_shadow_date (session_after dt bar s), hy_finalizations (session_after dt bar s),
      Some (hb_close_time bar))"
proof -
  show "bar_seen env bar s = None \<Longrightarrow> gate_view (fst (hybrid_on_bar env ctx bar s)) = gate_view s"
    by (auto simp: bar_seen_def hybrid_on_bar_def split: if_splits)
  have sup: "gate_view (fst (suppress_replay_bar env ctx bar dt cp dr has t))
      = (if snd (suppress_replay_bar env ctx bar dt cp dr has t) then gate_view (note_bar bar t) else gate_view t)"
    for cp dr has t
  proof -
    have "gate_view (clear_stale_pending n q m (note_bar bar (warm i t))) = gate_view (note_bar bar t)" for n q m i
      by (simp add: gate_view_note_bar) (simp add: warm_def)
    then show ?thesis by (simp add: suppress_replay_bar_def Let_def split: option.splits)
  qed
  have tail: "gate_view (fst (case suppress_replay_bar env ctx bar dt cp dr has u of
      (s4, True) \<Rightarrow> (s4, []) | (s4, False) \<Rightarrow> process_bar env ctx bar dt cp dr has prev s4))
      = (hy_config u, hy_shadow_date u, hy_finalizations u, Some (hb_close_time bar))" for cp dr has u prev
  proof (cases "suppress_replay_bar env ctx bar dt cp dr has u")
    case (Pair s4 b)
    then show ?thesis using sup [of cp dr has u]
      by (cases b) (simp_all add: gate_view_process_bar gate_view_note_bar, simp add: gate_view_def)
  qed
  assume seen: "bar_seen env bar s = Some dt"
  then have loc: "utc_to_local env s (hb_close_time bar) = Some dt" "hb_symbol bar = hyc_symbol (hy_config s)"
    "\<not> at_or_before (hb_close_time bar) (hy_last_processed s)"
    by (auto simp: bar_seen_def split: if_splits)
  show "gate_view (fst (hybrid_on_bar env ctx bar s)) = (hy_config s, hy_shadow_date (session_after dt bar s),
      hy_finalizations (session_after dt bar s), Some (hb_close_time bar))"
  proof (cases "suppress_weekend (hy_config s) dt \<or> suppress_non_model_session (hy_config s) dt \<noteq> None")
    case True
    then show ?thesis using loc
      by (auto simp: hybrid_on_bar_def gate_view_def session_after_def session_bar_def)
  next
    case False
    define s1 where "s1 = update_day_aggregates dt (hb_h bar) (hb_l bar) s"
    define s2 where "s2 = note_warmup (if uses_high180_mr (hy_config s1)
        then s1\<lparr>hy_high180 := high180_on_bar dt (hb_h bar) (hb_l bar) (hy_high180 s1)\<rparr> else s1)"
    define s3 where "s3 = update_risk_gate_shadow env dt bar (or_else (hb_close bar) (hy_prev_close s2))
        (or_else 0 (hy_prev_range s2)) s2"
    have s2: "gate_view s2 = gate_view s" by (simp add: s2_def s1_def)
    have "gate_view (shadow_new_session d s2) = gate_view (shadow_new_session d s)" for d
    proof -
      have "hy_shadow_pnl s2 = hy_shadow_pnl s" "hy_shadow_trades s2 = hy_shadow_trades s"
        by (simp_all add: s2_def s1_def note_warmup_def update_day_aggregates_def Let_def split: option.splits)
      then show ?thesis using s2
        by (simp add: gate_view_def shadow_new_session_def finalize_shadow_session_def split: option.splits)
    qed
    moreover have "hy_config s2 = hy_config s" using s2 by (simp add: gate_view_def)
    ultimately have "gate_view s3 = gate_view (session_after dt bar s)"
      using s2 False by (auto simp: s3_def gate_view_shadow session_after_def session_bar_def)
    moreover have "hy_config (session_after dt bar s) = hy_config s"
      by (simp add: session_after_def shadow_new_session_def finalize_shadow_session_def split: option.splits)
    moreover have "gate_view (fst (hybrid_on_bar env ctx bar s))
        = (hy_config s3, hy_shadow_date s3, hy_finalizations s3, Some (hb_close_time bar))"
      using loc False by (simp add: hybrid_on_bar_def Let_def s1_def [symmetric] s2_def [symmetric]
          s3_def [symmetric] tail)
    ultimately show ?thesis by (simp add: gate_view_def)
  qed
qed

lemma gate_view_other_events [simp]:
  "gate_view (fst (hybrid_on_ack env ctx ack s)) = gate_view s"
  "gate_view (fst (hybrid_on_order env ctx ord s)) = gate_view s"
  "gate_view (fst (hybrid_on_stop_order env ctx sto s)) = gate_view s"
  by (simp_all add: hybrid_on_ack_def entry_failed_def exit_failed_def retry_cleanup_def
      hybrid_on_order_def note_tp_order_def hybrid_on_stop_order_def note_sl_order_def
      track_stop_order_def case_prod_unfold Let_def split: option.splits bool.splits)

lemma gate_view_on_position [simp]: "gate_view (fst (hybrid_on_position env ctx pos s)) = gate_view s"
proof -
  have "gate_view (fst (entry_filled env ctx pos e s)) = gate_view s" for e
    by (simp add: entry_filled_def) (simp add: gate_view_def)
  moreover have "gate_view (fst (position_unknown env ctx pos s)) = gate_view s"
    by (simp add: position_unknown_def case_prod_unfold Let_def)
  moreover have "gate_view (fst (position_closed s)) = gate_view s"
    by (simp add: position_closed_def case_prod_unfold Let_def) (simp add: gate_view_def)
  ultimately show ?thesis
    by (simp add: hybrid_on_position_def position_resized_def case_prod_unfold Let_def
        split: entry_progress.splits option.splits)
qed

lemma gate_view_boot:
  "gate_view (fst (boot_order ctx snap k acc)) = gate_view (fst acc)"
  "gate_view (fst (boot_stop_order ctx snap j acc)) = gate_view (fst acc)"
proof -
  have "gate_view (fst (note_owner_tag own x)) = gate_view (fst x)" for own x
    by (simp add: note_owner_tag_def split: prod.splits)
  then show "gate_view (fst (boot_order ctx snap k acc)) = gate_view (fst acc)"
    "gate_view (fst (boot_stop_order ctx snap j acc)) = gate_view (fst acc)"
    by (cases acc; simp add: boot_order_def boot_stop_order_def case_prod_unfold Let_def split: option.splits)+
qed

lemma gate_view_fold:
  "(\<And>k a. gate_view (fst (f k a)) = gate_view (fst a)) \<Longrightarrow> gate_view (fst (fold f ks a)) = gate_view (fst a)"
  by (induction ks arbitrary: a) auto

lemma gate_view_other_calls [simp]:
  "gate_view (fst (hybrid_on_timer env ctx now s)) = gate_view s"
  "gate_view (fst (hybrid_on_bootstrap env ctx snap s)) = gate_view s"
  "gate_view (fst (hybrid_on_restored env ctx r s)) = gate_view s"
  "gate_view (fst (hybrid_warmup env ctx bars s)) = gate_view s"
  "gate_view (hybrid_on_rg_state env st s) = gate_view s"
proof -
  have "gate_view (fst (emit_partial_timeout_exit env ctx now t)) = gate_view t" for t
    by (simp add: emit_partial_timeout_exit_def Let_def split: option.splits)
  then show "gate_view (fst (hybrid_on_timer env ctx now s)) = gate_view s"
    by (simp add: hybrid_on_timer_def emit_reconcile_timeout_exit_def case_prod_unfold Let_def
        split: option.splits)
  have "gate_view (boot_position snap t) = gate_view t" for t
    by (simp add: boot_position_def Let_def split: option.splits)
  moreover have "gate_view (clear_lifecycle_for_paper s) = gate_view s"
    by (simp add: clear_lifecycle_for_paper_def Let_def) (simp add: gate_view_def)
  ultimately show "gate_view (fst (hybrid_on_bootstrap env ctx snap s)) = gate_view s"
    by (simp add: hybrid_on_bootstrap_def case_prod_unfold Let_def gate_view_fold gate_view_boot)
  show "gate_view (fst (hybrid_on_restored env ctx r s)) = gate_view s"
    by (simp add: hybrid_on_restored_def clear_boot_stale_pending_def Let_def)
  show "gate_view (fst (hybrid_warmup env ctx bars s)) = gate_view s"
    "gate_view (hybrid_on_rg_state env st s) = gate_view s"
    by (simp_all add: hybrid_warmup_def hybrid_on_rg_state_def case_prod_unfold Let_def)
      (simp_all add: gate_view_def)
qed

text \<open>The finished sessions are in order, on weekdays and before the current one, which is not after
  the day of the last bar.\<close>

definition gate_ok :: "hybrid_env \<Rightarrow> hybrid \<Rightarrow> bool" where
  "gate_ok env s \<longleftrightarrow>
     ascending (map fz_date (hy_finalizations s))
     \<and> (\<forall>f \<in> set (hy_finalizations s). \<not> is_weekend_day (weekday_of (fz_date f)))
     \<and> (hy_shadow_date s = None \<longrightarrow> hy_finalizations s = [])
     \<and> (\<forall>d. hy_shadow_date s = Some d \<longrightarrow> (\<forall>f \<in> set (hy_finalizations s). fz_date f < d)
          \<and> (\<exists>t dt. hy_last_processed s = Some t \<and> utc_to_local env s t = Some dt \<and> d \<le> dt_date dt))"

lemma utc_to_local_cong: "hy_config s = hy_config t \<Longrightarrow> utc_to_local env s = utc_to_local env t"
  by (simp add: utc_to_local_def fun_eq_iff)

lemma utc_to_local_mono:
  "utc_to_local env s t = Some dt \<Longrightarrow> utc_to_local env s u = Some du \<Longrightarrow> t \<le> u \<Longrightarrow> dt_date dt \<le> dt_date du"
  by (auto simp: utc_to_local_def of_timestamp_def Let_def split: if_splits intro!: dt_date_mono)

lemma gate_ok_cong:
  assumes "gate_view s = gate_view t" "gate_ok env s"
  shows "gate_ok env t"
  using assms utc_to_local_cong [of s t] by (auto simp: gate_ok_def gate_view_def)

text \<open>What a call may do to the finished sessions: keep them, drop acknowledged ones, or add one that
  is not before the session it ends.\<close>

definition sessions_grow :: "hybrid \<Rightarrow> hybrid \<Rightarrow> bool" where
  "sessions_grow s t \<longleftrightarrow>
     (\<forall>d. hy_shadow_date s = Some d \<longrightarrow> (\<exists>e. hy_shadow_date t = Some e \<and> d \<le> e)
        \<and> (\<forall>f \<in> set (hy_finalizations t). f \<in> set (hy_finalizations s) \<or> d \<le> fz_date f))"

lemma sessions_grow_refl: "gate_view s = gate_view t \<Longrightarrow> sessions_grow s t"
  by (auto simp: sessions_grow_def gate_view_def)

lemma sessions_grow_trans: "sessions_grow s t \<Longrightarrow> sessions_grow t u \<Longrightarrow> sessions_grow s u"
  unfolding sessions_grow_def
proof (intro allI impI)
  fix d
  assume st: "\<forall>d. hy_shadow_date s = Some d \<longrightarrow> (\<exists>e. hy_shadow_date t = Some e \<and> d \<le> e)
        \<and> (\<forall>f \<in> set (hy_finalizations t). f \<in> set (hy_finalizations s) \<or> d \<le> fz_date f)"
    and tu: "\<forall>d. hy_shadow_date t = Some d \<longrightarrow> (\<exists>e. hy_shadow_date u = Some e \<and> d \<le> e)
        \<and> (\<forall>f \<in> set (hy_finalizations u). f \<in> set (hy_finalizations t) \<or> d \<le> fz_date f)"
    and "hy_shadow_date s = Some d"
  then obtain e where e: "hy_shadow_date t = Some e" "d \<le> e"
    "\<forall>f \<in> set (hy_finalizations t). f \<in> set (hy_finalizations s) \<or> d \<le> fz_date f" by blast
  with tu obtain g where "hy_shadow_date u = Some g" "e \<le> g"
    "\<forall>f \<in> set (hy_finalizations u). f \<in> set (hy_finalizations t) \<or> e \<le> fz_date f" by blast
  with e show "(\<exists>e. hy_shadow_date u = Some e \<and> d \<le> e)
      \<and> (\<forall>f \<in> set (hy_finalizations u). f \<in> set (hy_finalizations s) \<or> d \<le> fz_date f)"
    by fastforce
qed

lemma new_session_ok:
  assumes "gate_ok env s"
    and "\<And>d. hy_shadow_date s = Some d \<Longrightarrow> d \<le> day"
  defines "t \<equiv> shadow_new_session day s"
  shows "ascending (map fz_date (hy_finalizations t))
    \<and> (\<forall>f \<in> set (hy_finalizations t). \<not> is_weekend_day (weekday_of (fz_date f)) \<and> fz_date f < day)
    \<and> hy_shadow_date t = Some day \<and> sessions_grow s t \<and> hy_config t = hy_config s"
proof (cases "hy_shadow_date s")
  case None
  then show ?thesis using assms(1)
    by (simp add: t_def shadow_new_session_def gate_ok_def sessions_grow_def)
next
  case (Some d)
  then have "d \<le> day" using assms(2) by blast
  then show ?thesis using assms(1) Some
    by (cases "d = day") (auto simp: t_def shadow_new_session_def finalize_shadow_session_def gate_ok_def
        sessions_grow_def ascending_append_one dest: less_le_trans)
qed

lemma call_gate_ok:
  assumes "gate_ok env s"
  shows "gate_ok env (fst (hybrid_call (env\<lparr>he_now_ms := now\<rparr>) c s))
    \<and> sessions_grow s (fst (hybrid_call (env\<lparr>he_now_ms := now\<rparr>) c s))"
proof -
  let ?env = "env\<lparr>he_now_ms := now\<rparr>"
  let ?t = "fst (hybrid_call ?env c s)"
  have same: ?thesis if "gate_view ?t = gate_view s"
    using gate_ok_cong [of s ?t env] that assms sessions_grow_refl [of s ?t] by simp
  have local: "utc_to_local ?env u = utc_to_local env u" for u
    by (simp add: utc_to_local_def fun_eq_iff)
  show ?thesis
  proof (cases "\<exists>ctx bar dt. c = CallEvent (EvBar ctx bar) \<and> bar_seen ?env bar s = Some dt")
    case True
    then obtain ctx bar dt where c: "c = CallEvent (EvBar ctx bar)" "bar_seen ?env bar s = Some dt"
      by blast
    then have dt: "utc_to_local env s (hb_close_time bar) = Some dt"
      and later: "\<not> at_or_before (hb_close_time bar) (hy_last_processed s)"
      by (auto simp: bar_seen_def local split: if_splits)
    define u where "u = session_after dt bar s"
    have u: "gate_view ?t = (hy_config s, hy_shadow_date u, hy_finalizations u, Some (hb_close_time bar))"
      using gate_view_on_bar(2) [OF c(2), of ctx] c(1) by (simp add: u_def)
    have day: "d \<le> dt_date dt" if cur: "hy_shadow_date s = Some d" for d
    proof -
      obtain t0 d0 where "hy_last_processed s = Some t0" "utc_to_local env s t0 = Some d0" "d \<le> dt_date d0"
        using assms cur by (auto simp: gate_ok_def)
      then show ?thesis using utc_to_local_mono [OF _ dt, of t0 d0] later by fastforce
    qed
    note new = new_session_ok [OF assms day]
    have t: "hy_config ?t = hy_config s" "hy_shadow_date ?t = hy_shadow_date u"
      "hy_finalizations ?t = hy_finalizations u" "hy_last_processed ?t = Some (hb_close_time bar)"
      using u by (simp_all add: gate_view_def)
    have loc: "utc_to_local env ?t (hb_close_time bar) = Some dt"
      using dt utc_to_local_cong [of ?t s env] t(1) by simp
    show ?thesis
    proof (cases "session_bar (hy_config s) dt bar")
      case False
      then have "u = s" by (simp add: u_def session_after_def)
      then show ?thesis using assms day loc t
        by (auto simp: gate_ok_def sessions_grow_def split: option.splits)
    next
      case True
      then have "u = shadow_new_session (dt_date dt) s" by (simp add: u_def session_after_def)
      then show ?thesis using new loc t by (auto simp: gate_ok_def sessions_grow_def)
    qed
  next
    case False
    show ?thesis
    proof (cases c)
      case (CallEvent e)
      then show ?thesis using False same gate_view_on_bar(1) [of ?env _ s] by (cases e) auto
    next
      case (CallAcknowledge ds)
      have cfg: "hy_config ?t = hy_config s" "hy_shadow_date ?t = hy_shadow_date s"
        "hy_last_processed ?t = hy_last_processed s"
        and sub: "hy_finalizations ?t = filter (\<lambda>f. fz_date f \<notin> set ds) (hy_finalizations s)"
        using CallAcknowledge by (simp_all add: hybrid_acknowledge_def sync_state_def)
      have "ascending (map fz_date (filter p (hy_finalizations s)))" for p
        using assms by (simp add: gate_ok_def sorted_wrt_map sorted_wrt_filter)
      then have "gate_ok env ?t" using assms cfg sub utc_to_local_cong [OF cfg(1)]
        by (auto simp: gate_ok_def split: option.splits)
      moreover have "sessions_grow s ?t" using cfg sub by (auto simp: sessions_grow_def)
      ultimately show ?thesis ..
    qed (use same in simp_all)
  qed
qed

text \<open>C32. From a new strategy on and over any calls, at any three moments of a run: the finished
  sessions that wait for the risk gate are in strictly ascending order and on weekdays; one that
  waits at the third moment already waited at the first or is later than all that did, and the
  same for the second moment. So a session that was acknowledged never comes back, and none is
  listed with a second result.\<close>

theorem finished_sessions_once:
  assumes s1_def: "s1 = fst (hybrid_run env cs1 (hybrid_new cfg))"
    and s2_def: "s2 = fst (hybrid_run env cs2 s1)" and s3_def: "s3 = fst (hybrid_run env cs3 s2)"
  shows "ascending (map fz_date (hy_finalizations s3))
    \<and> (\<forall>f3 \<in> set (hy_finalizations s3). \<not> is_weekend_day (weekday_of (fz_date f3))
         \<and> (f3 \<in> set (hy_finalizations s1) \<or> (\<forall>f1 \<in> set (hy_finalizations s1). fz_date f1 < fz_date f3))
         \<and> (f3 \<in> set (hy_finalizations s2)
            \<or> (\<forall>f \<in> set (hy_finalizations s1) \<union> set (hy_finalizations s2). fz_date f < fz_date f3)))"
proof -
  have run: "gate_ok env t \<Longrightarrow> gate_ok env (fst (hybrid_run env cs t)) \<and> sessions_grow t (fst (hybrid_run env cs t))"
    for cs t
    by (intro hybrid_run_invariant [where P = "\<lambda>u. gate_ok env u \<and> sessions_grow t u" and ok = "\<lambda>_. True"])
      (auto dest: call_gate_ok sessions_grow_trans intro: sessions_grow_refl)
  have "gate_ok env (hybrid_new cfg)" by (simp add: gate_ok_def hybrid_new_def)
  then have 1: "gate_ok env s1" using run s1_def by blast
  then have 2: "gate_ok env s2" "sessions_grow s1 s2" using run s2_def by blast+
  then have 3: "gate_ok env s3" "sessions_grow s2 s3" using run s3_def by blast+
  have before: "fz_date f < d" if "gate_ok env t" "f \<in> set (hy_finalizations t)" "hy_shadow_date t = Some d" for f t d
    using that by (simp add: gate_ok_def)
  have started: "\<exists>d. hy_shadow_date t = Some d" if "gate_ok env t" "f \<in> set (hy_finalizations t)" for f t
    using that by (cases "hy_shadow_date t") (simp_all add: gate_ok_def)
  have later: "f3 \<in> set (hy_finalizations u) \<or> fz_date f < fz_date f3"
    if hyps: "sessions_grow u s3" "f \<in> set (hy_finalizations t)" "gate_ok env t" "sessions_grow t u"
      "f3 \<in> set (hy_finalizations s3)" for f f3 t u
  proof -
    obtain d where "hy_shadow_date t = Some d" using started [OF hyps(3,2)] by blast
    moreover obtain e where "hy_shadow_date u = Some e" "d \<le> e"
      using hyps(4) calculation by (auto simp: sessions_grow_def)
    ultimately show ?thesis using hyps(1,5) before [OF hyps(3,2)] by (fastforce simp: sessions_grow_def)
  qed
  show ?thesis
  proof (intro conjI ballI)
    fix f3 assume f3: "f3 \<in> set (hy_finalizations s3)"
    show "f3 \<in> set (hy_finalizations s1) \<or> (\<forall>f1 \<in> set (hy_finalizations s1). fz_date f1 < fz_date f3)"
      using later [OF sessions_grow_trans [OF 2(2) 3(2)] _ 1 sessions_grow_refl [OF refl] f3] by blast
    show "f3 \<in> set (hy_finalizations s2)
        \<or> (\<forall>f \<in> set (hy_finalizations s1) \<union> set (hy_finalizations s2). fz_date f < fz_date f3)"
      using later [OF 3(2) _ 1 2(2) f3] later [OF 3(2) _ 2(1) sessions_grow_refl [OF refl] f3] by blast
  qed (use 3(1) in \<open>simp_all add: gate_ok_def\<close>)
qed

text \<open>A strategy with the risk gate sees Monday, Tuesday and, after the acknowledgement of Monday,
  Wednesday.\<close>

definition sample_gate_config :: hybrid_config where
  "sample_gate_config = sample_hybrid_config\<lparr>hyc_mr_variant := VariantHigh180,
     hyc_gate_policy := ShadowPnlLb120Positive, hyc_gate_mode := GateEnforced\<rparr>"

definition sample_bar_call :: "i64 \<Rightarrow> i64 \<times> strategy_call" where
  "sample_bar_call ts = (ts, CallEvent (EvBar sample_ctx (sample_host_bar ts)))"

lemma sample_session_bar:
  assumes "gate_view s = (sample_gate_config, cur, fs, l)" "\<not> at_or_before ts l" "0 < ts" "ts < 8000000000"
    and "day = dt_date (of_timestamp (ts + 10800))" "\<not> is_weekend_day (weekday_of day)"
  shows "cur = None \<Longrightarrow> gate_view (fst (hybrid_run sample_hybrid_env [sample_bar_call ts] s))
      = (sample_gate_config, Some day, fs, Some ts)"
    "cur = Some d \<Longrightarrow> d \<noteq> day \<Longrightarrow> \<not> is_weekend_day (weekday_of d) \<Longrightarrow> fs = [] \<Longrightarrow>
      \<exists>f. fz_date f = d \<and> gate_view (fst (hybrid_run sample_hybrid_env [sample_bar_call ts] s))
        = (sample_gate_config, Some day, [f], Some ts)"
proof -
  let ?bar = "sample_host_bar ts" and ?dt = "of_timestamp (ts + 10800)" and ?env = "sample_hybrid_env\<lparr>he_now_ms := ts\<rparr>"
  have s: "hy_config s = sample_gate_config" "hy_shadow_date s = cur" "hy_finalizations s = fs" "hy_last_processed s = l"
    using assms(1) by (simp_all add: gate_view_def)
  have cfg: "hyc_symbol sample_gate_config = ''IMOEXF''" "hyc_tz_offset sample_gate_config = 3"
    "hyc_session_start sample_gate_config = None" "hyc_session_end sample_gate_config = None" "hyc_mr_variant sample_gate_config = VariantHigh180"
    "hyc_gate_policy sample_gate_config = ShadowPnlLb120Positive"
    by (simp_all add: sample_gate_config_def sample_hybrid_config_def)
  have "bar_seen ?env ?bar s = Some ?dt"
    using assms(2-4) s by (simp add: bar_seen_def utc_to_local_def cfg sample_host_bar_def sample_hybrid_env_def
        chrono_example_def sat_mul_i32_def)
  moreover have "session_bar sample_gate_config ?dt ?bar"
    using assms(5,6) cfg by (simp add: session_bar_def suppress_weekend_def suppress_non_model_session_def weekend_def
        risk_gate_shadow_enabled_def uses_high180_mr_def sample_host_bar_def zero_f64_def)
  ultimately have v: "gate_view (fst (hybrid_run sample_hybrid_env [sample_bar_call ts] s)) = (sample_gate_config,
      hy_shadow_date (shadow_new_session day s), hy_finalizations (shadow_new_session day s), Some ts)"
    using gate_view_on_bar(2) [of ?env ?bar s ?dt sample_ctx] s assms(5)
    by (simp add: sample_bar_call_def session_after_def sample_host_bar_def)
  show "cur = None \<Longrightarrow> gate_view (fst (hybrid_run sample_hybrid_env [sample_bar_call ts] s))
      = (sample_gate_config, Some day, fs, Some ts)"
    using v s by (simp add: shadow_new_session_def)
  show "cur = Some d \<Longrightarrow> d \<noteq> day \<Longrightarrow> \<not> is_weekend_day (weekday_of d) \<Longrightarrow> fs = [] \<Longrightarrow>
      \<exists>f. fz_date f = d \<and> gate_view (fst (hybrid_run sample_hybrid_env [sample_bar_call ts] s))
        = (sample_gate_config, Some day, [f], Some ts)"
    using v s by (simp add: shadow_new_session_def finalize_shadow_session_def)
qed

lemma hybrid_run_append:
  "fst (hybrid_run env (xs @ ys) s) = fst (hybrid_run env ys (fst (hybrid_run env xs s)))"
  by (induction xs arbitrary: s) auto

definition sample_days :: "hybrid \<times> hybrid \<times> hybrid" where
  "sample_days =
     (let s1 = fst (hybrid_run sample_hybrid_env [sample_bar_call 349200, sample_bar_call 435600]
            (hybrid_new sample_gate_config));
          s2 = fst (hybrid_run sample_hybrid_env [(435700, CallAcknowledge [4])] s1)
      in (s1, s2, fst (hybrid_run sample_hybrid_env [sample_bar_call 522000] s2)))"

lemma finished_sessions_once_witness:
  "case sample_days of (s1, s2, s3) \<Rightarrow>
     \<exists>f1 f3. hy_finalizations s1 = [f1] \<and> hy_finalizations s2 = [] \<and> hy_finalizations s3 = [f3] \<and> fz_date f1 < fz_date f3"
proof -
  let ?s0 = "fst (hybrid_run sample_hybrid_env [sample_bar_call 349200] (hybrid_new sample_gate_config))"
  define s1 where "s1 = fst (hybrid_run sample_hybrid_env [sample_bar_call 349200, sample_bar_call 435600]
    (hybrid_new sample_gate_config))"
  define s2 where "s2 = fst (hybrid_run sample_hybrid_env [(435700, CallAcknowledge [4])] s1)"
  define s3 where "s3 = fst (hybrid_run sample_hybrid_env [sample_bar_call 522000] s2)"
  have s1: "s1 = fst (hybrid_run sample_hybrid_env [sample_bar_call 435600] ?s0)"
    using hybrid_run_append [of sample_hybrid_env "[sample_bar_call 349200]" "[sample_bar_call 435600]"]
    by (simp add: s1_def)
  have days: "dt_date (of_timestamp (349200 + 10800)) = 4" "dt_date (of_timestamp (435600 + 10800)) = 5"
    "dt_date (of_timestamp (522000 + 10800)) = 6" by (simp_all add: dt_date_def of_timestamp_def)
  have weekday: "\<not> is_weekend_day (weekday_of 4)" "\<not> is_weekend_day (weekday_of 5)" "\<not> is_weekend_day (weekday_of 6)"
    by (simp_all add: weekday_of_def is_weekend_day_def)
  have "gate_view (hybrid_new sample_gate_config) = (sample_gate_config, None, [], None)"
    by (simp add: gate_view_def hybrid_new_def)
  from sample_session_bar(1) [OF this, of 349200 4] have "gate_view ?s0 = (sample_gate_config, Some 4, [], Some 349200)"
    using days weekday by (simp add: at_or_before_def)
  from sample_session_bar(2) [OF this, of 435600 5] obtain f1 where
    f1: "fz_date f1 = 4" "gate_view s1 = (sample_gate_config, Some 5, [f1], Some 435600)"
    using days weekday by (auto simp: at_or_before_def s1)
  then have "gate_view s2 = (sample_gate_config, Some 5, [], Some 435600)"
    by (simp add: s2_def hybrid_acknowledge_def sync_state_def gate_view_def)
  from sample_session_bar(2) [OF this, of 522000 6] obtain f3 where
    f3: "gate_view s3 = (sample_gate_config, Some 6, [f3], Some 522000)"
    using days weekday by (auto simp: at_or_before_def s3_def)
  have fin: "hy_finalizations s1 = [f1]" "hy_finalizations s2 = []" "hy_finalizations s3 = [f3]"
    using f1(2) f3 \<open>gate_view s2 = _\<close> by (simp_all add: gate_view_def)
  then have "fz_date f1 < fz_date f3"
    using finished_sessions_once [OF s1_def s2_def s3_def] by simp
  then show ?thesis
    using fin by (simp only: sample_days_def Let_def prod.case s1_def [symmetric] s2_def [symmetric] s3_def [symmetric]) blast
qed

end
