(* ===== verification/Hybrid_Orders.thy ===== *)
theory Hybrid_Orders
  imports Hybrid_Runs
begin

text \<open>
  The orders of the hybrid strategy: when an entry leaves it, the bracket that follows a fill, the
  exit that is forced when the bracket could not be repaired in time.
\<close>

section \<open>Entries\<close>

text \<open>An intent that says it is an entry, or leaves its class to the runtime.\<close>

definition is_entry_intent :: "intent \<Rightarrow> bool" where
  "is_entry_intent i \<longleftrightarrow> explicit_class i \<in> {None, Some Entry}"

lemma with_class_entry [simp]: "is_entry_intent (with_class i c) \<longleftrightarrow> c = Entry"
  by (simp add: is_entry_intent_def with_class_def)

definition entries :: "intent list \<Rightarrow> intent list" where
  "entries ins = filter is_entry_intent ins"

lemma entries_simps [simp]:
  "entries [] = []" "entries (xs @ ys) = entries xs @ entries ys"
  "entries (with_class i Entry # xs) = with_class i Entry # entries xs"
  "entries (with_class i Exit # xs) = entries xs"
  "entries (with_class i CancelCleanup # xs) = entries xs"
  "entries (with_class i ProtectiveRepair # xs) = entries xs"
  "entries (cancel_of k) = []" "entries (exit_intent s ctx sd q r c own # xs) = entries xs"
  by (simp_all add: entries_def cancel_of_def exit_intent_def split: option.splits)

lemma repair_no_entry [simp]: "entries (snd (emit_repair env ctx now s)) = []"
  by (simp add: emit_repair_def escalate_stop_def place_missing_def place_tp_def place_sl_def
      case_prod_unfold Let_def split: option.splits)

lemma map_exit_no_entry [simp]: "entries (snd (map_exit env ctx created em ex r own reason s)) = []"
  by (simp add: map_exit_def case_prod_unfold Let_def split: option.splits)

text \<open>The one place an entry comes from.\<close>

lemma map_entry_entries:
  "snd (map_entry env ctx created em ex r sig s) =
     (if hy_entry_ready s \<and> \<not> hy_safe_mode s \<and> em
      then [with_class (entry_exit_intent (hy_config s) ctx (order_side (es_side sig))
              (f_max (hyc_qty (hy_config s)) 1) r
              (Some (build_comment ctx (cycle_text created (hy_cycle_seq s)) (es_owner sig) RoleEntry))) Entry]
      else [])"
  by (simp add: map_entry_def next_cycle_id_def Let_def)

lemma map_actions_entries:
  "length (entries (snd (map_actions env ctx created em ex as s))) \<le> length (filter is_entry as)"
proof (induction as arbitrary: s)
  case (Cons a as)
  have "length (entries (snd (map_action env ctx created em ex r a s))) \<le> (if is_entry a then 1 else 0)" for r
    by (cases a) (simp_all add: map_entry_entries)
  from this [of "live_reference_price s"] show ?case
    using Cons.IH [of "fst (map_action env ctx created em ex (live_reference_price s) a s)"]
    by (simp add: case_prod_unfold Let_def split: if_splits)
qed simp

lemma map_actions_keep:
  "hy_entry_ready (fst (map_actions env ctx created em ex as s)) = hy_entry_ready s"
  "hy_safe_mode (fst (map_actions env ctx created em ex as s)) = hy_safe_mode s"
proof (induction as arbitrary: s)
  case (Cons a as)
  have keep: "hy_entry_ready (fst (map_action env ctx created em ex r a s)) = hy_entry_ready s"
    "hy_safe_mode (fst (map_action env ctx created em ex r a s)) = hy_safe_mode s" for r s
    by (cases a; simp add: map_entry_def map_exit_def next_cycle_id_def active_or_next_cycle_def
        sync_state_def case_prod_unfold Let_def split: option.splits)+
  { case 1 then show ?case using Cons.IH keep by (simp add: case_prod_unfold Let_def) }
  { case 2 then show ?case using Cons.IH keep by (simp add: case_prod_unfold Let_def) }
qed simp_all

lemma map_actions_guarded:
  "entries (snd (map_actions env ctx created em ex as s)) \<noteq> []
     \<Longrightarrow> em \<and> hy_entry_ready s \<and> \<not> hy_safe_mode s"
proof (induction as arbitrary: s)
  case (Cons a as)
  let ?m = "map_action env ctx created em ex (live_reference_price s) a s"
  have keep: "hy_entry_ready (fst ?m) = hy_entry_ready s" "hy_safe_mode (fst ?m) = hy_safe_mode s"
    using map_actions_keep [of env ctx created em ex "[a]" s] by (simp_all add: case_prod_unfold Let_def)
  have head: "em \<and> hy_entry_ready s \<and> \<not> hy_safe_mode s" if "entries (snd ?m) \<noteq> []"
    using that by (cases a) (simp_all add: map_entry_entries split: if_splits)
  from Cons.prems have "entries (snd ?m) \<noteq> []
      \<or> entries (snd (map_actions env ctx created em ex as (fst ?m))) \<noteq> []"
    by (auto simp: case_prod_unfold Let_def)
  then show ?case using head Cons.IH keep by auto
qed simp

text \<open>The actions of a bar hold at most one entry, and that only without position and orders.\<close>

lemma bar_actions_entries:
  assumes "bar_actions env dt bar cp dr inp prev s = (s1, acts)"
  shows "filter is_entry acts = []
    \<or> \<not> bi_has_position inp \<and> \<not> bi_has_orders inp \<and> length (filter is_entry acts) = 1"
proof -
  let ?r = "if uses_mr_override (hy_config s)
      then orch_bar_override inp (mr_override_entry s dt bar cp dr) (mr_override_exit env s dt) (hy_orch s)
      else orch_bar inp (hy_orch s)"
  have "\<exists>e x. ?r = orch_bar_override inp e x (hy_orch s)"
    by (cases "uses_mr_override (hy_config s)"; simp only: if_True if_False orch_bar_def; blast)
  then obtain e x where r: "?r = orch_bar_override inp e x (hy_orch s)" by blast
  let ?o = "orch_bar_override inp e x (hy_orch s)"
  have "acts = append_no_overnight_guard env s1 dt prev (bi_has_position inp) (snd ?r)"
    using assms by (auto simp: bar_actions_def case_prod_unfold Let_def)
  then have "filter is_entry acts = filter is_entry (snd ?r)"
    by (auto simp: append_no_overnight_guard_def Let_def)
  moreover have "filter is_entry (snd ?o) = []
    \<or> \<not> bi_has_position inp \<and> \<not> bi_has_orders inp \<and> length (filter is_entry (snd ?o)) = 1"
  proof -
    have none: "\<not> list_ex is_entry xs \<Longrightarrow> filter is_entry xs = []" for xs
      by (induction xs) auto
    have "?o = (fst ?o, snd ?o)" by simp
    from orch_override_cases [OF this] show ?thesis
    proof (elim disjE conjE exE)
      assume "\<not> list_ex is_entry (snd ?o)"
      then show ?thesis using none by blast
    next
      fix sig
      assume "\<not> bi_has_position inp" "\<not> bi_has_orders inp" "snd ?o = [SubmitEntry sig]"
      then show ?thesis by simp
    qed
  qed
  ultimately show ?thesis by (simp only: r)
qed

lemma guards_kept:
  "hy_orders (clear_stale_pending now q mode s) = hy_orders s"
  "hy_stop_orders (clear_stale_pending now q mode s) = hy_stop_orders s"
  "hy_config (clear_stale_pending now q mode s) = hy_config s"
  "hy_deferred_entry s = None \<Longrightarrow> hy_deferred_entry (clear_stale_pending now q mode s) = None"
  by (simp_all add: clear_stale_pending_def gc_entry_def gc_exit_def gc_tp_def gc_sl_def Let_def)

lemma try_exit_entries:
  assumes "try_deferred_exit env ctx created em ex r inp s = (s1, res)"
  shows "res = Some ins \<Longrightarrow> entries ins = []"
    "hy_deferred_entry s = None \<Longrightarrow> hy_deferred_entry s1 = None"
  using assms
  by (auto simp: try_deferred_exit_def reissue_deferred_exit_def clear_deferred_exit_def warm_def
      case_prod_unfold Let_def map_exit_def active_or_next_cycle_def next_cycle_id_def sync_state_def
      split: option.splits if_splits)

lemma try_entry_entries:
  assumes "try_deferred_entry env ctx created dt em ex r inp s = (s1, Some ins)" "entries ins \<noteq> []"
  shows "length (entries ins) = 1 \<and> \<not> is_open (ctx_qty ctx) \<and> em \<and> hy_entry_ready s1 \<and> \<not> hy_safe_mode s1
    \<and> hy_deferred_entry s \<noteq> None"
  using assms
  by (auto simp: try_deferred_entry_def reissue_deferred_entry_def clear_deferred_entry_def warm_def
      map_entry_def next_cycle_id_def sync_state_def Let_def split: option.splits if_splits)

lemma trade_bar_entries:
  assumes "trade_bar env ctx dt bar cp dr inp prev created em ex s = (t, ins)" "entries ins \<noteq> []"
  shows "length (entries ins) = 1 \<and> \<not> bi_has_position inp \<and> \<not> bi_has_orders inp
    \<and> em \<and> hy_entry_ready t \<and> \<not> hy_safe_mode t"
proof -
  obtain s1 acts where ba: "bar_actions env dt bar cp dr inp prev s = (s1, acts)" by fastforce
  define s2 where "s2 = fst (emit_repair env ctx created s1)"
  let ?m = "map_actions env ctx created em ex acts s2"
  have t: "t = sync_state env (fst ?m)" and e: "entries ins = entries (snd ?m)"
    using assms(1) by (auto simp: trade_bar_def ba s2_def case_prod_unfold Let_def)
  then have ne: "entries (snd ?m) \<noteq> []" using assms(2) by simp
  then have pos: "0 < length (entries (snd ?m))" by simp
  have le: "length (entries (snd ?m)) \<le> length (filter is_entry acts)" by (rule map_actions_entries)
  with pos have "filter is_entry acts \<noteq> []" by auto
  with bar_actions_entries [OF ba] have ok: "\<not> bi_has_position inp" "\<not> bi_has_orders inp"
    "length (filter is_entry acts) = 1" by blast+
  with pos le have "length (entries (snd ?m)) = 1" by linarith
  with ok e have "length (entries ins) = 1 \<and> \<not> bi_has_position inp \<and> \<not> bi_has_orders inp" by simp
  moreover have "hy_entry_ready (sync_state env x) = hy_entry_ready x" "hy_safe_mode (sync_state env x) = hy_safe_mode x"
    for x by (simp_all add: sync_state_def)
  ultimately show ?thesis using t map_actions_guarded [OF ne] by (simp add: map_actions_keep)
qed

lemma process_bar_entries:
  assumes "process_bar env ctx bar dt cp dr (is_open (ctx_qty ctx)) prev s = (t, ins)" "entries ins \<noteq> []"
  shows "length (entries ins) = 1 \<and> \<not> is_open (ctx_qty ctx) \<and> can_emit_now ctx (hb_origin bar = OrLive)
    \<and> hy_entry_ready t \<and> \<not> hy_safe_mode t \<and> \<not> weekend_state_only_bar (hy_config s) dt
    \<and> (hy_deferred_entry s \<noteq> None \<or> hy_orders s = {} \<and> hy_stop_orders s = {})"
proof -
  define s0 where "s0 = clear_stale_pending (hb_close_time bar) (ctx_qty ctx) (cx_trade_mode ctx) (note_bar bar s)"
  let ?em = "can_emit_now ctx (hb_origin bar = OrLive)" and ?ex = "can_execute_now ctx (hb_origin bar = OrLive)"
  let ?created = "effective_created ctx (hb_close_time bar)" and ?r = "live_reference_price s0"
  let ?inp = "hybrid_bar_input dt bar cp dr (is_open (ctx_qty ctx)) s0"
  have s0: "hy_orders s0 = hy_orders s" "hy_stop_orders s0 = hy_stop_orders s" "hy_config s0 = hy_config s"
    "hy_deferred_entry s = None \<Longrightarrow> hy_deferred_entry s0 = None"
    by (simp_all add: s0_def guards_kept note_bar_def)
  obtain s1 res where dx: "try_deferred_exit env ctx ?created ?em ?ex ?r ?inp s0 = (s1, res)" by fastforce
  obtain s2 res2 where de: "try_deferred_entry env ctx ?created dt ?em ?ex ?r ?inp s1 = (s2, res2)" by fastforce
  have wk: "\<not> weekend_state_only_bar (hy_config s) dt"
    using assms by (auto simp: process_bar_def s0_def [symmetric] s0(3) Let_def)
  have sync: "hy_entry_ready (sync_state env x) = hy_entry_ready x" "hy_safe_mode (sync_state env x) = hy_safe_mode x"
    for x by (simp_all add: sync_state_def)
  have res: "res = None" using assms wk try_exit_entries(1) [OF dx]
    by (auto simp: process_bar_def s0_def [symmetric] s0(3) dx Let_def split: option.splits)
  have d: "hy_deferred_entry s = None \<Longrightarrow> hy_deferred_entry s1 = None"
    by (rule try_exit_entries(2) [OF dx s0(4)])
  show ?thesis
  proof (cases res2)
    case None
    then have "trade_bar env ctx dt bar cp dr ?inp prev ?created ?em ?ex s2 = (t, ins)"
      using assms(1) wk res by (simp add: process_bar_def s0_def [symmetric] s0(3) dx de Let_def)
    from trade_bar_entries [OF this assms(2)] wk s0(1,2) show ?thesis
      by (simp add: hybrid_bar_input_def has_live_orders_def)
  next
    case (Some xs)
    then have "t = sync_state env s2" "xs = ins"
      using assms(1) wk res by (simp_all add: process_bar_def s0_def [symmetric] s0(3) dx de Let_def)
    with try_entry_entries [of env ctx ?created dt ?em ?ex ?r ?inp s1 s2 ins] de Some assms(2) wk d
    show ?thesis by (auto simp: sync)
  qed
qed

text \<open>How a bar that trades reaches its last part.\<close>

definition bar_accepted :: "hybrid_env \<Rightarrow> host_bar \<Rightarrow> hybrid \<Rightarrow> naive_datetime \<Rightarrow> bool" where
  "bar_accepted env bar s dt \<longleftrightarrow> bar_seen env bar s = Some dt \<and> \<not> suppress_weekend (hy_config s) dt
     \<and> suppress_non_model_session (hy_config s) dt = None"

definition observed :: "hybrid_env \<Rightarrow> naive_datetime \<Rightarrow> host_bar \<Rightarrow> hybrid \<Rightarrow> hybrid" where
  "observed env dt bar s =
     (let s1 = update_day_aggregates dt (hb_h bar) (hb_l bar) s;
          s2 = note_warmup (if uses_high180_mr (hy_config s1)
              then s1\<lparr>hy_high180 := high180_on_bar dt (hb_h bar) (hb_l bar) (hy_high180 s1)\<rparr> else s1)
      in update_risk_gate_shadow env dt bar (or_else (hb_close bar) (hy_prev_close s2))
           (or_else 0 (hy_prev_range s2)) s2)"

lemma on_bar_accepted:
  assumes "bar_accepted env bar s dt"
  shows "\<exists>cp dr. hybrid_on_bar env ctx bar s =
    (case suppress_replay_bar env ctx bar dt cp dr (is_open (ctx_qty ctx)) (observed env dt bar s) of
       (s4, True) \<Rightarrow> (s4, [])
     | (s4, False) \<Rightarrow> process_bar env ctx bar dt cp dr (is_open (ctx_qty ctx)) (hy_last_day s) s4)"
  using assms
  by (auto simp: hybrid_on_bar_def bar_accepted_def bar_seen_def observed_def Let_def split: if_splits)

lemma on_bar_not_accepted:
  "(\<And>dt. \<not> bar_accepted env bar s dt) \<Longrightarrow> snd (hybrid_on_bar env ctx bar s) = []"
  by (auto simp: hybrid_on_bar_def bar_accepted_def bar_seen_def split: option.splits if_splits)

text \<open>What the orders depend on is not touched by the observation of the bar.\<close>

definition order_view where
  "order_view s = (hy_config s, hy_orders s, hy_stop_orders s, hy_deferred_entry s, hy_deferred_exit s,
     hy_replay_boundary s, hy_owner s, hy_cycle s, hy_sl_triggered s, has_tp s, has_sl s, hy_take_price s,
     hy_stop_price s, hy_repair_deadline s, hy_exit_req s, hy_orch s)"

lemma order_view_steps [simp]:
  "order_view (update_day_aggregates dt h l s) = order_view s" "order_view (note_warmup s) = order_view s"
  "order_view (s\<lparr>hy_high180 := x\<rparr>) = order_view s" "order_view (s\<lparr>hy_shadow_mr := x\<rparr>) = order_view s"
  "order_view (shadow_new_session d s) = order_view s" "order_view (fst (shadow_exit env dt c s)) = order_view s"
  "order_view (shadow_entry dt ts c cp dr s) = order_view s"
  by (simp_all add: order_view_def update_day_aggregates_def note_warmup_def has_tp_def has_sl_def
      shadow_new_session_def finalize_shadow_session_def shadow_exit_def shadow_entry_def Let_def
      case_prod_unfold split: option.splits)

lemma order_view_observed [simp]: "order_view (observed env dt bar s) = order_view s"
  by (simp add: observed_def update_risk_gate_shadow_def Let_def case_prod_unfold)

lemma replay_passed:
  assumes "suppress_replay_bar env ctx bar dt cp dr has s = (s4, False)"
  shows "s4 = s \<or> s4 = clear_replay_guard s"
    "cx_trade_mode ctx = TmLive \<Longrightarrow> hy_replay_boundary s = Some b \<Longrightarrow> b \<le> hb_close_time bar"
  using assms by (auto simp: suppress_replay_bar_def Let_def split: if_splits option.splits)

text \<open>C24. A bar makes the strategy ask for at most one intent that is an entry or of no class, and
  only without an open position of the context, with warmed levels and outside the safe mode.
  Before the bar there was no known working order or stop order, or the entry is one that had
  been put off. The bar is of the symbol, newer than the last one, not on a weekend if weekends
  are off and inside the model session; in live mode it is a live bar, not before the replay
  boundary, live orders are allowed and the gateway is ready.\<close>

theorem entry_only_when_allowed:
  assumes "hybrid_on_bar env ctx bar s = (t, ins)" "entries ins \<noteq> []"
  shows "length (entries ins) = 1 \<and> \<not> is_open (ctx_qty ctx) \<and> hy_entry_ready t \<and> \<not> hy_safe_mode t
    \<and> (hy_deferred_entry s \<noteq> None \<or> hy_orders s = {} \<and> hy_stop_orders s = {})
    \<and> (\<exists>dt. bar_seen env bar s = Some dt \<and> \<not> (hyc_weekends_off (hy_config s) \<and> weekend dt)
         \<and> suppress_non_model_session (hy_config s) dt = None)
    \<and> (cx_trade_mode ctx = TmLive \<longrightarrow> cx_allow_live_orders ctx \<and> cx_gateway_phase ctx = LiveReady
         \<and> hb_origin bar = OrLive \<and> (\<forall>b. hy_replay_boundary s = Some b \<longrightarrow> b \<le> hb_close_time bar))"
proof -
  obtain dt where acc: "bar_accepted env bar s dt"
    using on_bar_not_accepted [of env bar s ctx] assms by fastforce
  let ?o = "observed env dt bar s"
  obtain cp dr where bar: "hybrid_on_bar env ctx bar s =
    (case suppress_replay_bar env ctx bar dt cp dr (is_open (ctx_qty ctx)) ?o of
       (s4, True) \<Rightarrow> (s4, [])
     | (s4, False) \<Rightarrow> process_bar env ctx bar dt cp dr (is_open (ctx_qty ctx)) (hy_last_day s) s4)"
    using on_bar_accepted [OF acc] by blast
  obtain s4 where s4: "suppress_replay_bar env ctx bar dt cp dr (is_open (ctx_qty ctx)) ?o = (s4, False)"
    and pb: "process_bar env ctx bar dt cp dr (is_open (ctx_qty ctx)) (hy_last_day s) s4 = (t, ins)"
    using bar assms by (auto split: prod.splits bool.splits)
  have o_view: "hy_config ?o = hy_config s" "hy_orders ?o = hy_orders s" "hy_stop_orders ?o = hy_stop_orders s"
    "hy_deferred_entry ?o = hy_deferred_entry s" "hy_replay_boundary ?o = hy_replay_boundary s"
    using order_view_observed [of env dt bar s] by (simp_all add: order_view_def)
  have s4_view: "hy_config s4 = hy_config s" "hy_orders s4 = hy_orders s" "hy_stop_orders s4 = hy_stop_orders s"
    "hy_deferred_entry s4 = hy_deferred_entry s"
    using replay_passed(1) [OF s4] o_view by (auto simp: clear_replay_guard_def)
  have late: "b \<le> hb_close_time bar" if "cx_trade_mode ctx = TmLive" "hy_replay_boundary s = Some b" for b
    using replay_passed(2) [OF s4 that(1)] o_view(5) that(2) by simp
  have wk: "\<not> (hyc_weekends_off (hy_config s) \<and> weekend dt)"
    if "\<not> weekend_state_only_bar (hy_config s) dt"
    using acc that by (cases "hyc_weekend_policy (hy_config s)")
      (auto simp: bar_accepted_def suppress_weekend_def weekend_state_only_bar_def)
  from process_bar_entries [OF pb assms(2)] s4_view
  have p: "length (entries ins) = 1" "\<not> is_open (ctx_qty ctx)" "can_emit_now ctx (hb_origin bar = OrLive)"
    "hy_entry_ready t" "\<not> hy_safe_mode t" "\<not> weekend_state_only_bar (hy_config s) dt"
    "hy_deferred_entry s \<noteq> None \<or> hy_orders s = {} \<and> hy_stop_orders s = {}"
    by simp_all
  have "cx_allow_live_orders ctx \<and> cx_gateway_phase ctx = LiveReady \<and> hb_origin bar = OrLive"
    if "cx_trade_mode ctx = TmLive"
    using p(3) that by (simp add: can_emit_now_def can_execute_now_def)
  with p wk late acc show ?thesis by (auto simp: bar_accepted_def)
qed

text \<open>An entry put off until the session opened leaves with the next bar.\<close>

definition sample_put_off :: hybrid where
  "sample_put_off = sample_hybrid\<lparr>hy_last_day := Some 4, hy_prev_close := Some (Fin 100),
     hy_prev_range := Some (Fin 2), hy_deferred_entry := Some
     \<lparr>hde_signal = sample_signal, hde_cycle = sample_cycle, hde_ts = 345600, hde_req = ''r''\<rparr>\<rparr>"

lemma sample_local: "utc_to_local sample_hybrid_env s t = Some (of_timestamp (t + 10800))"
  if "hy_config s = sample_hybrid_config" "t < 8000000000" "0 < t"
  using that by (simp add: utc_to_local_def sample_hybrid_config_def sample_hybrid_env_def chrono_example_def
      sat_mul_i32_def)

lemma sample_monday: "\<not> is_weekend_day (weekday_of (dt_date (of_timestamp 360000)))"
  by (simp add: of_timestamp_def dt_date_def weekday_of_def is_weekend_day_def)

lemma observed_classic:
  assumes "hyc_mr_variant (hy_config s) = ClassicPrevDayRange"
  shows "observed env dt bar s = note_warmup (update_day_aggregates dt (hb_h bar) (hb_l bar) s)"
    "hy_last_day s = Some (dt_date dt) \<Longrightarrow> hy_entry_ready (observed env dt bar s) = signals_warmed s"
    "hy_safe_mode (observed env dt bar s) = hy_safe_mode s"
    "hy_entry_req (observed env dt bar s) = hy_entry_req s"
proof -
  have "hy_config (update_day_aggregates dt (hb_h bar) (hb_l bar) s) = hy_config s" "hy_config (note_warmup x) = hy_config x" for x
    by (simp_all add: update_day_aggregates_def note_warmup_def Let_def split: option.splits)
  then show o: "observed env dt bar s = note_warmup (update_day_aggregates dt (hb_h bar) (hb_l bar) s)"
    using assms by (simp add: observed_def update_risk_gate_shadow_def risk_gate_shadow_enabled_def
        uses_high180_mr_def Let_def)
  show "hy_entry_ready (observed env dt bar s) = signals_warmed s" if "hy_last_day s = Some (dt_date dt)"
    using that by (simp add: o note_warmup_def update_day_aggregates_def signals_warmed_def Let_def)
  show "hy_safe_mode (observed env dt bar s) = hy_safe_mode s" "hy_entry_req (observed env dt bar s) = hy_entry_req s"
    by (simp_all add: o note_warmup_def update_day_aggregates_def Let_def split: option.splits)
qed

lemma sample_put_off_fields:
  "hy_last_day sample_put_off = Some 4" "signals_warmed sample_put_off"
  "hy_config sample_put_off = sample_hybrid_config" "hy_entry_req sample_put_off = None"
  "hy_deferred_exit sample_put_off = None" "\<not> hy_safe_mode sample_put_off"
  "hy_deferred_entry sample_put_off = Some
     \<lparr>hde_signal = sample_signal, hde_cycle = sample_cycle, hde_ts = 345600, hde_req = ''r''\<rparr>"
  "hy_last_processed sample_put_off = None"
  by (simp_all add: sample_put_off_def sample_hybrid_def hybrid_new_def signals_warmed_def)

lemma sample_put_off_entry:
  "entries (snd (hybrid_on_bar sample_hybrid_env sample_ctx (sample_host_bar 349200) sample_put_off)) \<noteq> []"
proof -
  let ?bar = "sample_host_bar 349200" and ?dt = "of_timestamp 360000" and ?o = "observed sample_hybrid_env
    (of_timestamp 360000) (sample_host_bar 349200) sample_put_off"
  have "bar_accepted sample_hybrid_env ?bar sample_put_off ?dt"
    by (simp add: bar_accepted_def bar_seen_def sample_local sample_put_off_fields sample_host_bar_def
        sample_hybrid_config_def at_or_before_def suppress_weekend_def suppress_non_model_session_def weekend_def
        sample_monday)
  from on_bar_accepted [OF this, of sample_ctx] obtain cp dr where bar:
    "hybrid_on_bar sample_hybrid_env sample_ctx ?bar sample_put_off =
      process_bar sample_hybrid_env sample_ctx ?bar ?dt cp dr (is_open (ctx_qty sample_ctx))
        (hy_last_day sample_put_off) (clear_replay_guard ?o)"
    by (auto simp: suppress_replay_bar_def sample_ctx_def)
  define s4 where "s4 = clear_replay_guard ?o"
  have "order_view ?o = order_view sample_put_off" by simp
  then have "hy_config s4 = sample_hybrid_config" "hy_deferred_exit s4 = None"
    "hy_deferred_entry s4 = hy_deferred_entry sample_put_off"
    by (simp_all add: s4_def order_view_def clear_replay_guard_def sample_put_off_fields)
  moreover have "hy_entry_ready s4" "\<not> hy_safe_mode s4" "hy_entry_req s4 = None"
    using observed_classic(2) [of sample_put_off ?dt sample_hybrid_env ?bar] observed_classic(3,4) [of sample_put_off sample_hybrid_env ?dt ?bar]
    by (simp_all add: s4_def clear_replay_guard_def sample_put_off_fields sample_hybrid_config_def
        of_timestamp_def dt_date_def)
  moreover define s5 where "s5 = note_bar ?bar s4"
  ultimately have s5: "hy_config s5 = sample_hybrid_config" "hy_deferred_exit s5 = None" "hy_entry_ready s5"
    "hy_deferred_entry s5 = hy_deferred_entry sample_put_off" "\<not> hy_safe_mode s5" "hy_entry_req s5 = None"
    by (simp_all add: note_bar_def)
  have ctx: "ctx_qty sample_ctx = 0" "cx_trade_mode sample_ctx \<noteq> TmLive" "can_emit_now sample_ctx True"
    "can_execute_now sample_ctx True" "hb_origin ?bar = OrLive" "\<not> is_open (0::f64)"
    by (simp_all add: sample_ctx_def ctx_qty_def or_else_def can_emit_now_def can_execute_now_def
        sample_host_bar_def is_open_def f64_epsilon_def zero_f64_def)
  have stale: "clear_stale_pending n q (cx_trade_mode sample_ctx) s5 = s5" for n q
    using ctx(2) by (simp add: clear_stale_pending_def)
  have "\<not> deferred_entry_expired sample_hybrid_env (warm inp s5) d ?dt" if "hde_ts d = 345600" for inp d
    using that s5(1) by (simp add: deferred_entry_expired_def sample_local warm_def of_timestamp_def dt_date_def)
  then have put_off: "\<exists>created r sig cy inp t. process_bar sample_hybrid_env sample_ctx ?bar ?dt cp dr False
      (hy_last_day sample_put_off) s4 = (t, snd (map_entry sample_hybrid_env sample_ctx created True True r sig
        ((warm inp s5)\<lparr>hy_cycle := cy\<rparr>)))"
    using s5 by (simp add: process_bar_def s5_def [symmetric] stale ctx weekend_state_only_bar_def
        sample_hybrid_config_def try_deferred_exit_def try_deferred_entry_def reissue_deferred_entry_def
        sample_put_off_fields warm_def case_prod_unfold Let_def) blast
  then obtain created r sig cy inp t where "process_bar sample_hybrid_env sample_ctx ?bar ?dt cp dr False
      (hy_last_day sample_put_off) s4 = (t, snd (map_entry sample_hybrid_env sample_ctx created True True r sig
        ((warm inp s5)\<lparr>hy_cycle := cy\<rparr>)))" by blast
  then show ?thesis using s5(3,5) by (simp add: bar s4_def [symmetric] ctx map_entry_entries warm_def)
qed

lemma entry_only_when_allowed_witness:
  "length (entries (snd (hybrid_on_bar sample_hybrid_env sample_ctx (sample_host_bar 349200) sample_put_off))) = 1
   \<and> hy_entry_ready (fst (hybrid_on_bar sample_hybrid_env sample_ctx (sample_host_bar 349200) sample_put_off))"
  using entry_only_when_allowed [OF surjective_pairing sample_put_off_entry] by simp

section \<open>The forced exit is repeated\<close>

text \<open>A mean-reversion position whose bracket is incomplete past the deadline.\<close>

definition overdue :: "i64 \<Rightarrow> hybrid \<Rightarrow> bool" where
  "overdue now s \<longleftrightarrow> hy_owner s = Some MeanReversion \<and> or_owner (hy_orch s) = Some MeanReversion
     \<and> hy_sl_triggered s = None \<and> \<not> (has_tp s \<and> has_sl s) \<and> hy_cycle s \<noteq> None
     \<and> hy_take_price s \<noteq> None \<and> hy_stop_price s \<noteq> None
     \<and> (\<exists>d. hy_repair_deadline s = Some d \<and> d \<le> now)
     \<and> hy_deferred_exit s = None \<and> hy_deferred_entry s = None \<and> hy_replay_boundary s = None"



lemma overdue_sync [simp]: "overdue now (sync_state env s) = overdue now s"
  by (simp add: overdue_def sync_state_def has_tp_def has_sl_def)










section \<open>The bracket follows the fill\<close>

text \<open>C25. When a pending bracket entry of the mean reversion is filled, the position event asks for
  exactly two orders: the take-profit at the target of the entry and the stop-limit at its stop,
  both of the quantity of the position, on the side opposite to the entry and marked with its
  cycle. The strategy knows both orders as expected, keeps their prices, has no pending entry any
  more and counts the position as open and owned by the mean reversion.\<close>

theorem bracket_follows_fill:
  assumes "hy_entry s = Some e" "hpe_owner e = MeanReversion" "hpe_style e = StBracket"
    and "hpe_take e = Some tp" "hpe_stop e = Some sl"
    and "hp_symbol pos = hyc_symbol (hy_config s)"
    and "entry_progress_of env (hy_last_qty s) (hp_qty pos) s = Complete"
    and "hybrid_on_position env ctx pos s = (t, ins)"
  shows "ins = [with_class (IPlace tp \<bar>hp_qty pos\<bar> (bracket_side (hpe_side e))
        (Some (build_comment ctx (hpe_cycle e) MeanReversion RoleTp))) ProtectiveRepair,
      with_class (ICreateStopLimit (bracket_side (hpe_side e)) \<bar>hp_qty pos\<bar> sl
        (stop_limit_price (bracket_side (hpe_side e)) sl (cx_tick_size ctx)) (bracket_condition (hpe_side e))
        (resolve_stop_end env (hy_config s) (hp_ts pos))
        (Some (build_comment ctx (hpe_cycle e) MeanReversion RoleSl)) None (Some True)) ProtectiveRepair]
    \<and> has_tp t \<and> has_sl t \<and> hy_take_price t = Some tp \<and> hy_stop_price t = Some sl
    \<and> hy_entry t = None \<and> hy_entry_req t = None \<and> or_state (hy_orch t) = HsOpen
    \<and> or_owner (hy_orch t) = Some MeanReversion \<and> hy_owner t = Some MeanReversion
    \<and> bracket_side (hpe_side e) \<noteq> order_side (hpe_side e)"
proof -
  have "is_open (hp_qty pos)"
    using assms(1,7) by (auto simp: entry_progress_of_def split: if_splits)
  then have "\<not> \<bar>hp_qty pos\<bar> \<le> f64_epsilon" by (auto simp: is_open_def less_f64_def)
  moreover have "bracket_side x \<noteq> order_side x" for x by (cases x) simp_all
  ultimately show ?thesis using assms
    by (auto simp: hybrid_on_position_def entry_filled_def emit_mr_bracket_def place_tp_def place_sl_def
        sync_state_def has_tp_def has_sl_def orch_filled_def Let_def)
qed

definition sample_entered :: hybrid where
  "sample_entered = sample_hybrid\<lparr>hy_entry := Some sample_bracket_entry\<rparr>"

lemma bracket_follows_fill_witness:
  "has_tp (fst (hybrid_on_position sample_hybrid_env sample_ctx sample_fill_event sample_entered))
   \<and> has_sl (fst (hybrid_on_position sample_hybrid_env sample_ctx sample_fill_event sample_entered))
   \<and> length (snd (hybrid_on_position sample_hybrid_env sample_ctx sample_fill_event sample_entered)) = 2"
proof -
  have "\<bar>0::f64\<bar> = Fin 0" by (simp add: zero_f64_def)
  then have "entry_progress_of sample_hybrid_env (hy_last_qty sample_entered) (hp_qty sample_fill_event) sample_entered
      = Complete"
    by (simp add: entry_progress_of_def sample_entered_def sample_hybrid_def hybrid_new_def sample_fill_event_def
        sample_bracket_entry_def partial_progress_valid_def waits_for_partial_def expected_entry_qty_def
        is_open_def f64_epsilon_def Let_def)
  moreover have "hp_symbol sample_fill_event = hyc_symbol (hy_config sample_entered)"
    by (simp add: sample_fill_event_def sample_entered_def sample_hybrid_def hybrid_new_def sample_hybrid_config_def)
  ultimately show ?thesis
    using bracket_follows_fill [where s = sample_entered and e = sample_bracket_entry and pos = sample_fill_event
        and ctx = sample_ctx and tp = "Fin 103" and sl = "Fin 98", OF _ _ _ _ _ _ _ surjective_pairing]
    by (simp add: sample_entered_def sample_bracket_entry_def)
qed

end
