(* ===== verification/Hybrid_Limits.thy ===== *)
theory Hybrid_Limits
  imports Hybrid_Orders
begin

text \<open>
  The risk gate in front of the entries of the hybrid strategy, and the time to which the stop of a
  position is kept: the search over the next days always ends with a closing time.
\<close>

section \<open>The gate\<close>

text \<open>The entry an action gives.\<close>

definition entry_of_action where
  "entry_of_action env ctx created cfg act i \<longleftrightarrow> (\<exists>sig r cycle. act = SubmitEntry sig
     \<and> i = with_class (entry_exit_intent cfg ctx (order_side (es_side sig)) (f_max (hyc_qty cfg) 1) r
         (Some (build_comment ctx cycle (es_owner sig) RoleEntry))) Entry)"

lemma map_action_config [simp]:
  "hy_config (fst (map_action env ctx created em ex r a s)) = hy_config s"
  by (cases a; simp add: map_entry_def map_exit_def next_cycle_id_def active_or_next_cycle_def
      sync_state_def case_prod_unfold Let_def split: option.splits)

lemma map_actions_source:
  "i \<in> set (entries (snd (map_actions env ctx created em ex as s)))
     \<Longrightarrow> \<exists>a \<in> set as. entry_of_action env ctx created (hy_config s) a i"
proof (induction as arbitrary: s)
  case (Cons a as)
  have head: "entry_of_action env ctx created (hy_config s) a i"
    if "i \<in> set (entries (snd (map_action env ctx created em ex r a s)))" for r
    using that by (cases a) (auto simp: map_entry_entries entry_of_action_def split: if_splits)
  let ?s1 = "fst (map_action env ctx created em ex (live_reference_price s) a s)"
  from Cons.prems have "i \<in> set (entries (snd (map_action env ctx created em ex (live_reference_price s) a s)))
      \<or> i \<in> set (entries (snd (map_actions env ctx created em ex as ?s1)))"
    by (auto simp: case_prod_unfold Let_def)
  then show ?case using head Cons.IH [of ?s1] by auto
qed simp

definition gate_closed :: "hybrid \<Rightarrow> bool" where
  "gate_closed s \<longleftrightarrow> uses_high180_mr (hy_config s) \<and> hyc_gate_policy (hy_config s) = ShadowPnlLb120Positive
     \<and> hyc_gate_mode (hy_config s) = GateEnforced \<and> hy_mr_enabled s \<noteq> Some True"

lemma gate_closed_no_signal:
  "gate_closed s \<Longrightarrow> mr_override_entry s dt bar cp dr = None"
  by (simp add: gate_closed_def mr_override_entry_def mr_gate_allows_def filter_near_zero_mr_entry_def
      apply_live_mr_policy_def)

lemma breakout_owner:
  "breakout_evaluate_entry e dt close = Some sig \<Longrightarrow> es_owner sig = IntradayBreakout"
  by (auto simp: breakout_evaluate_entry_def breakout_signal_def Let_def split: if_splits option.splits)

lemma gate_closed_actions:
  assumes "gate_closed s" "bar_actions env dt bar cp dr inp prev s = (s1, acts)" "SubmitEntry sig \<in> set acts"
  shows "es_owner sig = IntradayBreakout"
proof -
  let ?r = "orch_bar_override inp None (mr_override_exit env s dt) (hy_orch s)"
  have "uses_mr_override (hy_config s)" using assms(1) by (simp add: gate_closed_def uses_mr_override_def)
  then have "acts = append_no_overnight_guard env s1 dt prev (bi_has_position inp) (snd ?r)"
    using assms(2) by (auto simp: bar_actions_def gate_closed_no_signal [OF assms(1)] case_prod_unfold Let_def)
  with assms(3) have "SubmitEntry sig \<in> set (snd ?r)"
    by (auto simp: append_no_overnight_guard_def Let_def split: if_splits)
  then show ?thesis using breakout_owner
    by (auto simp: orch_bar_override_def orch_entry_def emit_entry_action_def Let_def
        split: if_splits option.splits)
qed

text \<open>The gate is the same when the bar is traded as when it came in.\<close>

lemma gate_kept [simp]:
  "hy_mr_enabled (update_day_aggregates dt h l s) = hy_mr_enabled s" "hy_mr_enabled (note_warmup s) = hy_mr_enabled s"
  "hy_mr_enabled (shadow_new_session d s) = hy_mr_enabled s"
  "hy_mr_enabled (fst (shadow_exit env dt c s)) = hy_mr_enabled s"
  "hy_mr_enabled (shadow_entry dt ts c cp dr s) = hy_mr_enabled s"
  "hy_mr_enabled (clear_stale_pending n q m s) = hy_mr_enabled s"
  "hy_mr_enabled (clear_replay_guard s) = hy_mr_enabled s" "hy_mr_enabled (note_bar bar s) = hy_mr_enabled s"
  by (simp_all add: update_day_aggregates_def note_warmup_def shadow_new_session_def
      finalize_shadow_session_def shadow_exit_def shadow_entry_def clear_stale_pending_def gc_entry_def
      gc_exit_def gc_tp_def gc_sl_def clear_replay_guard_def note_bar_def Let_def case_prod_unfold
      split: option.splits)

lemma gate_observed:
  "hy_mr_enabled (observed env dt bar s) = hy_mr_enabled s"
  by (simp add: observed_def update_risk_gate_shadow_def Let_def case_prod_unfold)

lemma gate_before_trade:
  assumes "try_deferred_exit env ctx created em ex r inp s = (s1, res)" "gate_closed s"
  shows "gate_closed s1"
  using assms
  by (auto simp: try_deferred_exit_def reissue_deferred_exit_def clear_deferred_exit_def warm_def
      case_prod_unfold Let_def map_exit_def active_or_next_cycle_def next_cycle_id_def sync_state_def
      gate_closed_def split: option.splits if_splits)

lemma repair_parts_config [simp]:
  "hy_config (enter_safe_mode reason s) = hy_config s" "hy_config (schedule_next_repair now s) = hy_config s"
  "hy_config (fst (place_tp env ctx t own sd cy p q s)) = hy_config s"
  "hy_config (fst (place_sl env ctx t own sd cy p q s)) = hy_config s"
  by (simp_all add: enter_safe_mode_def schedule_next_repair_def place_tp_def place_sl_def)

lemma repair_config [simp]: "hy_config (fst (emit_repair env ctx now s)) = hy_config s"
proof -
  have "hy_config (fst (escalate_stop env ctx now s)) = hy_config s"
    by (simp add: escalate_stop_def active_or_next_cycle_def next_cycle_id_def Let_def split: option.split)
  moreover have "hy_config (fst (place_missing env ctx now cy tk st s)) = hy_config s" for cy tk st
    by (simp add: place_missing_def case_prod_unfold Let_def)
  ultimately show ?thesis by (simp add: emit_repair_def Let_def split: option.split)
qed

lemma trade_bar_source:
  assumes "trade_bar env ctx dt bar cp dr inp prev created em ex s = (t, ins)" "gate_closed s"
    and "i \<in> set (entries ins)"
  shows "\<exists>sig. es_owner sig = IntradayBreakout \<and> entry_of_action env ctx created (hy_config s) (SubmitEntry sig) i"
proof -
  obtain s1 acts where ba: "bar_actions env dt bar cp dr inp prev s = (s1, acts)" by fastforce
  define s2 where "s2 = fst (emit_repair env ctx created s1)"
  have "hy_config s1 = hy_config s" using ba by (auto simp: bar_actions_def case_prod_unfold Let_def)
  moreover have "hy_config s2 = hy_config s1" by (simp add: s2_def)
  moreover have "i \<in> set (entries (snd (map_actions env ctx created em ex acts s2)))"
    using assms(1,3) by (auto simp: trade_bar_def ba s2_def case_prod_unfold Let_def)
  ultimately obtain a where a: "a \<in> set acts" "entry_of_action env ctx created (hy_config s) a i"
    using map_actions_source by metis
  then obtain sig where "a = SubmitEntry sig" by (auto simp: entry_of_action_def)
  with a gate_closed_actions [OF assms(2) ba] show ?thesis by blast
qed

text \<open>C26. With the midpoint variant, the enforced gate and a decision that is not
  \<open>enabled\<close>, and with no entry put off from before, every intent of a bar that is an
  entry or of no class is an entry of the breakout engine: its comment names that owner, and it
  is for the configured quantity, at least one.\<close>

theorem closed_gate_holds_reversal_back:
  assumes "hybrid_on_bar env ctx bar s = (t, ins)" "gate_closed s" "hy_deferred_entry s = None"
    and "i \<in> set (entries ins)"
  shows "\<exists>sd price cycle. i = with_class (entry_exit_intent (hy_config s) ctx sd (f_max (hyc_qty (hy_config s)) 1)
      price (Some (build_comment ctx cycle IntradayBreakout RoleEntry))) Entry"
proof -
  obtain dt where acc: "bar_accepted env bar s dt"
    using on_bar_not_accepted [of env bar s ctx] assms(1,4) by fastforce
  let ?o = "observed env dt bar s"
  obtain cp dr where bar: "hybrid_on_bar env ctx bar s =
    (case suppress_replay_bar env ctx bar dt cp dr (is_open (ctx_qty ctx)) ?o of
       (s4, True) \<Rightarrow> (s4, [])
     | (s4, False) \<Rightarrow> process_bar env ctx bar dt cp dr (is_open (ctx_qty ctx)) (hy_last_day s) s4)"
    using on_bar_accepted [OF acc] by blast
  obtain s4 where s4: "suppress_replay_bar env ctx bar dt cp dr (is_open (ctx_qty ctx)) ?o = (s4, False)"
    and pb: "process_bar env ctx bar dt cp dr (is_open (ctx_qty ctx)) (hy_last_day s) s4 = (t, ins)"
    using bar assms(1,4) by (auto split: prod.splits bool.splits)
  define s0 where "s0 = clear_stale_pending (hb_close_time bar) (ctx_qty ctx) (cx_trade_mode ctx) (note_bar bar s4)"
  have o_view: "hy_config ?o = hy_config s" "hy_deferred_entry ?o = None" "hy_mr_enabled ?o = hy_mr_enabled s"
    using order_view_observed [of env dt bar s] assms(3) by (simp_all add: order_view_def gate_observed)
  have "hy_config s4 = hy_config s" "hy_deferred_entry s4 = None" "hy_mr_enabled s4 = hy_mr_enabled s"
    using replay_passed(1) [OF s4] o_view by (auto simp: clear_replay_guard_def)
  then have s0: "hy_config s0 = hy_config s" "hy_deferred_entry s0 = None" "gate_closed s0"
    using assms(2) guards_kept by (simp_all add: s0_def note_bar_def gate_closed_def)
  let ?em = "can_emit_now ctx (hb_origin bar = OrLive)" and ?ex = "can_execute_now ctx (hb_origin bar = OrLive)"
  let ?created = "effective_created ctx (hb_close_time bar)" and ?r = "live_reference_price s0"
  let ?inp = "hybrid_bar_input dt bar cp dr (is_open (ctx_qty ctx)) s0"
  obtain s1 res where dx: "try_deferred_exit env ctx ?created ?em ?ex ?r ?inp s0 = (s1, res)" by fastforce
  have wk: "\<not> weekend_state_only_bar (hy_config s0) dt"
    using pb assms(4) by (auto simp: process_bar_def s0_def [symmetric] Let_def)
  have res: "res = None" using pb wk try_exit_entries(1) [OF dx] assms(4)
    by (auto simp: process_bar_def s0_def [symmetric] dx Let_def split: option.splits)
  have s1: "hy_deferred_entry s1 = None" "gate_closed s1" "hy_config s1 = hy_config s0"
    using try_exit_entries(2) [OF dx s0(2)] gate_before_trade [OF dx s0(3)] dx
    by (auto simp: res try_deferred_exit_def reissue_deferred_exit_def clear_deferred_exit_def warm_def Let_def
        split: option.splits if_splits prod.splits)
  have "trade_bar env ctx dt bar cp dr ?inp (hy_last_day s) ?created ?em ?ex s1 = (t, ins)"
    using pb wk res s1(1) by (simp add: process_bar_def s0_def [symmetric] dx try_deferred_entry_def Let_def)
  from trade_bar_source [OF this s1(2) assms(4)] obtain sig where "es_owner sig = IntradayBreakout"
    "entry_of_action env ctx ?created (hy_config s) (SubmitEntry sig) i"
    using s0(1) s1(3) by auto
  then show ?thesis by (simp add: entry_of_action_def) blast
qed

text \<open>A breakout entry while the gate is closed.\<close>

definition trade_view where
  "trade_view s = (hy_entry s, hy_entry_req s, hy_exit_req s, hy_tp_req s, hy_sl_req s, hy_safe_mode s)"

lemma trade_view_steps [simp]:
  "trade_view (update_day_aggregates dt h l s) = trade_view s" "trade_view (note_warmup s) = trade_view s"
  "trade_view (s\<lparr>hy_high180 := x\<rparr>) = trade_view s" "trade_view (s\<lparr>hy_shadow_mr := x\<rparr>) = trade_view s"
  "trade_view (shadow_new_session d s) = trade_view s" "trade_view (fst (shadow_exit env dt c s)) = trade_view s"
  "trade_view (shadow_entry dt ts c cp dr s) = trade_view s"
  by (simp_all add: trade_view_def update_day_aggregates_def note_warmup_def shadow_new_session_def
      finalize_shadow_session_def shadow_exit_def shadow_entry_def Let_def case_prod_unfold split: option.splits)

lemma trade_view_observed: "trade_view (observed env dt bar s) = trade_view s"
  by (simp add: observed_def update_risk_gate_shadow_def Let_def case_prod_unfold)

lemma ready_steps [simp]:
  "hy_entry_ready (note_warmup s) = hy_entry_ready s"
  "hy_entry_ready (shadow_new_session d s) = hy_entry_ready s"
  "hy_entry_ready (fst (shadow_exit env dt c s)) = hy_entry_ready s"
  "hy_entry_ready (shadow_entry dt ts c cp dr s) = hy_entry_ready s"
  by (simp_all add: note_warmup_def shadow_new_session_def finalize_shadow_session_def shadow_exit_def
      shadow_entry_def Let_def case_prod_unfold split: option.splits)

lemma ready_observed:
  "hy_last_day s = Some (dt_date dt) \<Longrightarrow> hy_entry_ready (observed env dt bar s) = signals_warmed s"
  by (simp add: observed_def update_risk_gate_shadow_def update_day_aggregates_def signals_warmed_def Let_def
      case_prod_unfold)

definition sample_breakout :: breakout where
  "sample_breakout = \<lparr>bo_config = sample_breakout_config, bo_state = breakout_blank
     \<lparr>bo_cur_day_date := Some 4, bo_yesterday_close := Some (Fin 90), bo_yesterday_range := Some (Fin 2),
      bo_today_start := Some (and_time 4 0)\<rparr>\<rparr>"

definition sample_gated :: hybrid where
  "sample_gated = (hybrid_new sample_gate_config)\<lparr>hy_last_day := Some 4, hy_prev_close := Some (Fin 90),
     hy_prev_range := Some (Fin 2), hy_orch := orch_new sample_mr_config sample_breakout
       \<lparr>orc_eod_mode = Overnight, orc_overnight_exit_time = hms 9 30 0\<rparr>\<rparr>"

lemma sample_gated_fields:
  "gate_closed sample_gated" "hy_config sample_gated = sample_gate_config" "hy_deferred_entry sample_gated = None"
  "hy_last_day sample_gated = Some 4" "signals_warmed sample_gated" "hy_orders sample_gated = {}"
  "hy_stop_orders sample_gated = {}" "hy_deferred_exit sample_gated = None" "hy_last_processed sample_gated = None"
  "trade_view sample_gated = (None, None, None, None, None, False)"
  by (simp_all add: sample_gated_def hybrid_new_def gate_closed_def sample_gate_config_def signals_warmed_def
      uses_high180_mr_def trade_view_def)

lemma sample_gate_config_fields:
  "hyc_symbol sample_gate_config = ''IMOEXF''" "hyc_tz_offset sample_gate_config = 3"
  "hyc_weekend_policy sample_gate_config = WeekendSkip" "hyc_session_start sample_gate_config = None"
  "hyc_session_end sample_gate_config = None" "hyc_mr_variant sample_gate_config = VariantHigh180"
  by (simp_all add: sample_gate_config_def sample_hybrid_config_def)

lemma sample_breakout_fires:
  "bi_open inp = Fin 100 \<Longrightarrow> bi_high inp = Fin 101 \<Longrightarrow> bi_low inp = Fin 99 \<Longrightarrow> bi_close inp = Fin 100
   \<Longrightarrow> bi_dt inp = of_timestamp 360000 \<Longrightarrow> \<not> bi_has_position inp \<Longrightarrow> \<not> bi_has_orders inp
   \<Longrightarrow> \<exists>sig. snd (orch_bar_override inp None x (hy_orch sample_gated)) = [SubmitEntry sig]"
  by (simp add: orch_bar_override_def orch_entry_def warm_bar_def emit_entry_action_def sample_gated_def orch_new_def
      sample_breakout_def breakout_on_bar_def bo_on_bar_def bo_update_cur_day_def breakout_blank_def
      sample_breakout_config_def weekend_def sample_monday breakout_evaluate_entry_def can_check_entry_def
      passes_min_range_filter_def of_timestamp_def dt_date_def and_time_def dur_seconds_def
      weekday_of_def is_weekend_day_def trunc_div_def f64_of_int_def zero_f64_def Let_def)

lemma sample_gated_entry:
  "entries (snd (hybrid_on_bar sample_hybrid_env sample_ctx (sample_host_bar 349200) sample_gated)) \<noteq> []"
proof -
  let ?bar = "sample_host_bar 349200" and ?dt = "of_timestamp 360000"
  let ?o = "observed sample_hybrid_env ?dt ?bar sample_gated"
  have "utc_to_local sample_hybrid_env sample_gated 349200 = Some ?dt"
    by (simp add: utc_to_local_def sample_gated_fields sample_gate_config_fields sample_hybrid_env_def
        chrono_example_def sat_mul_i32_def)
  then have "bar_accepted sample_hybrid_env ?bar sample_gated ?dt"
    by (simp add: bar_accepted_def bar_seen_def sample_gated_fields sample_gate_config_fields sample_host_bar_def
        at_or_before_def suppress_weekend_def suppress_non_model_session_def weekend_def sample_monday)
  from on_bar_accepted [OF this, of sample_ctx] obtain cp dr where bar:
    "hybrid_on_bar sample_hybrid_env sample_ctx ?bar sample_gated =
      process_bar sample_hybrid_env sample_ctx ?bar ?dt cp dr (is_open (ctx_qty sample_ctx))
        (hy_last_day sample_gated) (clear_replay_guard ?o)"
    by (auto simp: suppress_replay_bar_def sample_ctx_def)
  define s5 where "s5 = note_bar ?bar (clear_replay_guard ?o)"
  have "order_view ?o = order_view sample_gated" "trade_view ?o = trade_view sample_gated"
    "hy_mr_enabled ?o = hy_mr_enabled sample_gated" "hy_entry_ready ?o"
    using ready_observed [of sample_gated ?dt] sample_gated_fields(4,5)
    by (simp_all add: trade_view_observed gate_observed of_timestamp_def dt_date_def)
  then have s5: "hy_config s5 = sample_gate_config" "hy_deferred_entry s5 = None" "hy_deferred_exit s5 = None"
    "hy_orch s5 = hy_orch sample_gated" "\<not> has_live_orders s5" "hy_entry_ready s5" "\<not> hy_safe_mode s5"
    "gate_closed s5"
    using sample_gated_fields
    by (simp_all add: s5_def note_bar_def clear_replay_guard_def order_view_def trade_view_def has_live_orders_def
        gate_closed_def)
  have ctx: "ctx_qty sample_ctx = 0" "can_emit_now sample_ctx True" "can_execute_now sample_ctx True"
    "hb_origin ?bar = OrLive" "\<not> is_open (0::f64)" "is_flat 0"
    "clear_stale_pending n q (cx_trade_mode sample_ctx) s5 = s5" for n q
    by (simp_all add: sample_ctx_def ctx_qty_def or_else_def can_emit_now_def can_execute_now_def is_flat_def
        sample_host_bar_def is_open_def f64_epsilon_def zero_f64_def clear_stale_pending_def)
  define inp where "inp = hybrid_bar_input ?dt ?bar cp dr False s5"
  have "bi_open inp = Fin 100" "bi_high inp = Fin 101" "bi_low inp = Fin 99" "bi_close inp = Fin 100"
    "bi_dt inp = ?dt" "\<not> bi_has_position inp" "\<not> bi_has_orders inp"
    using s5(5) by (simp_all add: inp_def hybrid_bar_input_def sample_host_bar_def)
  from sample_breakout_fires [OF this] obtain sig where
    "snd (orch_bar_override inp None (mr_override_exit sample_hybrid_env s5 ?dt) (hy_orch s5)) = [SubmitEntry sig]"
    by (auto simp: s5(4))
  then have "\<exists>o1. bar_actions sample_hybrid_env ?dt ?bar cp dr inp (hy_last_day sample_gated) s5
      = (s5\<lparr>hy_orch := o1\<rparr>, [SubmitEntry sig])"
    using \<open>\<not> bi_has_position inp\<close> s5(1)
    by (simp add: bar_actions_def gate_closed_no_signal [OF s5(8)] case_prod_unfold Let_def uses_mr_override_def
        uses_high180_mr_def sample_gate_config_fields append_no_overnight_guard_def) blast
  then obtain o1 where ba: "bar_actions sample_hybrid_env ?dt ?bar cp dr inp (hy_last_day sample_gated) s5
      = (s5\<lparr>hy_orch := o1\<rparr>, [SubmitEntry sig])" by blast
  have "process_bar sample_hybrid_env sample_ctx ?bar ?dt cp dr False (hy_last_day sample_gated) (clear_replay_guard ?o)
      = trade_bar sample_hybrid_env sample_ctx ?dt ?bar cp dr inp (hy_last_day sample_gated)
          (effective_created sample_ctx (hb_close_time ?bar)) True True s5"
    by (simp add: process_bar_def s5_def [symmetric] ctx inp_def [symmetric] weekend_state_only_bar_def s5(1-3)
        sample_gate_config_fields try_deferred_exit_def try_deferred_entry_def Let_def)
  then show ?thesis using s5(6,7)
    by (simp add: bar ctx trade_bar_def ba emit_repair_def map_entry_entries case_prod_unfold Let_def)
qed

lemma closed_gate_holds_reversal_back_witness:
  "\<exists>sd price cycle. hd (entries (snd (hybrid_on_bar sample_hybrid_env sample_ctx (sample_host_bar 349200) sample_gated)))
     = with_class (entry_exit_intent sample_gate_config sample_ctx sd (f_max (hyc_qty sample_gate_config) 1)
         price (Some (build_comment sample_ctx cycle IntradayBreakout RoleEntry))) Entry"
  using closed_gate_holds_reversal_back [OF surjective_pairing sample_gated_fields(1,3),
      OF hd_in_set [OF sample_gated_entry]] by (simp add: sample_gated_fields(2))

section \<open>The life of a stop\<close>

text \<open>The end a stop would have at the close of a day, and whether that end is taken.\<close>

definition stop_end_of :: "hybrid_config \<Rightarrow> i32 \<Rightarrow> naive_date \<Rightarrow> i64" where
  "stop_end_of cfg off day = day * 86400 + int (min (hyc_close_hour cfg) 23) * 3600
     + int (min (hyc_close_minute cfg) 59) * 60 - off + int (hyc_stop_end_buffer cfg)"

definition takes_day :: "hybrid_config \<Rightarrow> i32 \<Rightarrow> i64 \<Rightarrow> naive_date \<Rightarrow> bool" where
  "takes_day cfg off created day \<longleftrightarrow>
     \<not> (hyc_weekends_off cfg \<and> is_weekend_day (weekday_of day)) \<and> created < stop_end_of cfg off day"

lemma stop_end_search:
  assumes "\<And>d. day \<le> d \<Longrightarrow> d < day + int n \<Longrightarrow>
      utc_ok (he_chrono env) (stop_end_of cfg off d - int (hyc_stop_end_buffer cfg))
      \<and> i64_min \<le> stop_end_of cfg off d \<and> stop_end_of cfg off d \<le> i64_max"
    and "int (hyc_stop_end_buffer cfg) \<le> i64_max"
    and "k < n" "takes_day cfg off created (day + int k)" "\<And>j. j < k \<Longrightarrow> \<not> takes_day cfg off created (day + int j)"
  shows "hybrid_stop_end env cfg off created n day = stop_end_of cfg off (day + int k)"
  using assms
proof (induction n arbitrary: day k)
  case (Suc n)
  have close: "and_time day (hms (int (min (hyc_close_hour cfg) 23)) (int (min (hyc_close_minute cfg) 59)) 0)
      div ns_per_sec - off = stop_end_of cfg off day - int (hyc_stop_end_buffer cfg)"
    by (simp add: and_time_def hms_def stop_end_of_def)
  have fit: "sat_i64 (stop_end_of cfg off day) = stop_end_of cfg off day"
    "as_i64 (int (hyc_stop_end_buffer cfg)) = int (hyc_stop_end_buffer cfg)"
    "utc_ok (he_chrono env) (stop_end_of cfg off day - int (hyc_stop_end_buffer cfg))"
    using Suc.prems(1) [of day] Suc.prems(2) as_i64_id [of "int (hyc_stop_end_buffer cfg)"]
    by (auto simp: sat_i64_def i64_min_def)
  have step: "hybrid_stop_end env cfg off created (Suc n) day = (if takes_day cfg off created day
      then stop_end_of cfg off day else hybrid_stop_end env cfg off created n (day + 1))"
    using fit by (simp add: close takes_day_def Let_def)
  show ?case
  proof (cases k)
    case 0
    then show ?thesis using Suc.prems(4) by (simp add: step del: hybrid_stop_end.simps)
  next
    case (Suc k')
    have "\<not> takes_day cfg off created day" using Suc.prems(5) [of 0] Suc by simp
    moreover have "hybrid_stop_end env cfg off created n (day + 1) = stop_end_of cfg off (day + 1 + int k')"
    proof (rule Suc.IH)
      show "takes_day cfg off created (day + 1 + int k')" using Suc.prems(4) Suc by (simp add: algebra_simps)
      show "\<not> takes_day cfg off created (day + 1 + int j)" if "j < k'" for j
        using Suc.prems(5) [of "Suc j"] that Suc by (simp add: algebra_simps)
    qed (use Suc.prems(1-3) Suc in auto)
    ultimately show ?thesis using Suc by (simp add: step algebra_simps del: hybrid_stop_end.simps)
  qed
qed simp

lemma weekend_from_monday: "is_weekend_day (weekday_of d) \<longleftrightarrow> 5 \<le> (d + 3) mod 7"
  using pos_mod_bound [of 7 "d + 3"] pos_mod_sign [of 7 "d + 3"]
  by (auto simp: is_weekend_day_def weekday_of_def Let_def)

lemma workday_soon: "\<exists>k \<in> {1, 2, 3::nat}. \<not> is_weekend_day (weekday_of (d + int k))"
proof -
  define m where "m = (d + 3) mod 7"
  then have "0 \<le> m" "m < 7" by simp_all
  have day: "is_weekend_day (weekday_of (d + int k)) \<longleftrightarrow> 5 \<le> (m + int k) mod 7" for k
  proof -
    have "(d + int k + 3) mod 7 = (m + int k) mod 7" by (simp add: m_def mod_simps algebra_simps)
    then show ?thesis by (simp add: weekend_from_monday)
  qed
  consider "m \<le> 3" | "m = 4" | "m = 5" | "m = 6" using \<open>m < 7\<close> by linarith
  then show ?thesis
  proof cases
    case 1
    with \<open>0 \<le> m\<close> show ?thesis by (intro bexI [of _ 1]) (simp_all add: day [of 1, simplified])
  qed (simp_all add: day)
qed

text \<open>C33. A stop asked for at a time the search can represent is kept to the first close of a trading
  day after it, at the local day of the request or one of the next three, plus the configured
  buffer: no earlier day would do, and the end is less than four days and the buffer away. The
  hypotheses bound the time, the offset and the buffer, and say that \<open>chrono\<close>
  represents times up to the year 2128.\<close>

theorem stop_kept_to_next_close:
  assumes "0 < created" "created \<le> 4000000000" "hyc_stop_end_buffer cfg \<le> 604800"
    and "off = hyc_tz_offset cfg * 3600" "\<bar>hyc_tz_offset cfg\<bar> \<le> 23"
    and "he_chrono env = ch" "chrono_offsets_documented ch"
    and "\<forall>t. - 604800 \<le> t \<and> t \<le> 5000000000 \<longrightarrow> utc_ok ch t"
    and "day0 = dt_date (of_timestamp (created + off))"
  shows "\<exists>day \<in> {day0 .. day0 + 3}. resolve_stop_end env cfg created = stop_end_of cfg off day
      \<and> takes_day cfg off created day \<and> (\<forall>d \<in> {day0 ..< day}. \<not> takes_day cfg off created d)
      \<and> resolve_stop_end env cfg created < created + 4 * 86400 + int (hyc_stop_end_buffer cfg)"
proof -
  have day0: "day0 * 86400 \<le> created + off" "created + off < day0 * 86400 + 86400"
    using assms(9) by (simp_all add: dt_date_def of_timestamp_def)
  have off: "- 82800 \<le> off" "off \<le> 82800" using assms(4,5) by simp_all
  have later: "created < stop_end_of cfg off (day0 + int k)" if "1 \<le> k" for k
  proof -
    have "day0 * 86400 + 86400 \<le> (day0 + int k) * 86400" using that by simp
    then show ?thesis using day0(2) by (simp add: stop_end_of_def)
  qed
  obtain k1 :: nat where k1: "k1 \<in> {1, 2, 3}" "\<not> is_weekend_day (weekday_of (day0 + int k1))"
    using workday_soon by blast
  then have "takes_day cfg off created (day0 + int k1)" using later [of k1] by (auto simp: takes_day_def)
  then obtain k where k: "takes_day cfg off created (day0 + int k)" "k \<le> k1"
    and least: "\<And>j. j < k \<Longrightarrow> \<not> takes_day cfg off created (day0 + int j)"
    using LeastI [of "\<lambda>k. takes_day cfg off created (day0 + int k)" k1]
      Least_le [of "\<lambda>k. takes_day cfg off created (day0 + int k)" k1]
      not_less_Least [of _ "\<lambda>k. takes_day cfg off created (day0 + int k)"] by blast
  have k3: "k \<le> 3" using k(2) k1(1) by auto
  have close: "0 \<le> int (min (hyc_close_hour cfg) 23) * 3600 + int (min (hyc_close_minute cfg) 59) * 60"
    "int (min (hyc_close_hour cfg) 23) * 3600 + int (min (hyc_close_minute cfg) 59) * 60 < 86400"
    by simp_all
  have "hybrid_stop_end env cfg off created 8 day0 = stop_end_of cfg off (day0 + int k)"
  proof (rule stop_end_search [OF _ _ _ k(1) least])
    fix d assume d: "day0 \<le> d" "d < day0 + int 8"
    then have "- 604800 \<le> stop_end_of cfg off d - int (hyc_stop_end_buffer cfg)"
      "stop_end_of cfg off d - int (hyc_stop_end_buffer cfg) \<le> 5000000000"
      using close day0 off assms(1,2) by (simp_all add: stop_end_of_def)
    then show "utc_ok (he_chrono env) (stop_end_of cfg off d - int (hyc_stop_end_buffer cfg))
        \<and> i64_min \<le> stop_end_of cfg off d \<and> stop_end_of cfg off d \<le> i64_max"
      using assms(3,6,8) by (auto simp: i64_min_def i64_max_def)
  qed (use k3 assms(3) in \<open>simp_all add: i64_max_def\<close>)
  moreover have "sat_mul_i32 (hyc_tz_offset cfg) 3600 = off" using assms(4) off by (simp add: sat_mul_i32_def)
  moreover have "east_ok ch off" "utc_ok ch created"
    using assms(1,2,7,8) off by (simp_all add: chrono_offsets_documented_def)
  ultimately have r: "resolve_stop_end env cfg created = stop_end_of cfg off (day0 + int k)"
    using assms(1,6,9) by (simp add: resolve_stop_end_def Let_def)
  have "stop_end_of cfg off (day0 + int k) < created + 4 * 86400 + int (hyc_stop_end_buffer cfg)"
  proof -
    have "(day0 + int k) * 86400 \<le> day0 * 86400 + 3 * 86400" using k3 by simp
    then show ?thesis using close day0(1) by (simp add: stop_end_of_def)
  qed
  moreover have "\<not> takes_day cfg off created d" if "day0 \<le> d" "d < day0 + int k" for d
    using least [of "nat (d - day0)"] that by simp
  ultimately show ?thesis using r k(1) k3 by (intro bexI [of _ "day0 + int k"]) simp_all
qed

text \<open>A stop asked for on a Friday night, after the close, lives to the close of Monday.\<close>

lemma stop_kept_to_next_close_witness:
  "resolve_stop_end sample_hybrid_env sample_hybrid_config 161700 = 420660"
proof -
  have cfg: "hyc_stop_end_buffer sample_hybrid_config = 60" "hyc_tz_offset sample_hybrid_config = 3"
    "hyc_close_hour sample_hybrid_config = 23" "hyc_close_minute sample_hybrid_config = 50"
    "hyc_weekends_off sample_hybrid_config"
    by (simp_all add: sample_hybrid_config_def)
  have "he_chrono sample_hybrid_env = chrono_example" by (simp add: sample_hybrid_env_def)
  moreover have "dt_date (of_timestamp (161700 + 10800)) = 1" by (simp add: dt_date_def of_timestamp_def)
  moreover have "\<forall>t. - 604800 \<le> t \<and> t \<le> 5000000000 \<longrightarrow> utc_ok chrono_example t"
    by (simp add: chrono_example_def)
  ultimately obtain day where day: "day \<in> {1 .. 1 + 3}" "takes_day sample_hybrid_config 10800 161700 day"
    "resolve_stop_end sample_hybrid_env sample_hybrid_config 161700 = stop_end_of sample_hybrid_config 10800 day"
    using stop_kept_to_next_close [of 161700 sample_hybrid_config 10800 sample_hybrid_env chrono_example 1]
    by (auto simp: cfg)
  have "day = 1 \<or> day = 2 \<or> day = 3 \<or> day = 4" using day(1) by auto
  with day(2) have "day = 4"
    by (auto simp: takes_day_def stop_end_of_def cfg is_weekend_day_def weekday_of_def)
  then show ?thesis using day(3) by (simp add: stop_end_of_def cfg)
qed

end
