(* ===== verification/Hybrid_Restart.thy ===== *)
theory Hybrid_Restart
  imports Hybrid_Runs
begin

text \<open>
  What a restart does to the hybrid strategy. What is persisted survives being restored and
  persisted again, so any number of restarts changes nothing of it; but the bracket of an entry
  on its way is not part of it, and a position that is filled after the restart stays without
  protective orders.
\<close>

section \<open>What is persisted survives\<close>

lemma bind_parsed [simp]:
  "dates_documented env \<Longrightarrow> Option.bind (map_option (he_show_day env) x) (he_parse_day env) = x"
  by (cases x) (simp_all add: dates_documented_def)

lemma bind_parsed_dt:
  "dates_documented env \<Longrightarrow> pred_option ((dvd) ns_per_sec) x
     \<Longrightarrow> Option.bind (map_option (he_show_dt env) x) (he_parse_dt env) = x"
  by (cases x) (simp_all add: dates_documented_def)

definition first_finalization :: "rg_finalization list \<Rightarrow> rg_finalization option" where
  "first_finalization fs = (case fs of [] \<Rightarrow> None | f # _ \<Rightarrow> Some f)"

lemma first_of_take [simp]: "first_finalization (take (Suc 0) fs) = first_finalization fs"
  by (cases fs) (simp_all add: first_finalization_def)

lemma persisted_finalization [simp]:
  "hyp_fz_date (persisted env s)
     = map_option (he_show_day env \<circ> fz_date) (first_finalization (hy_finalizations s))"
  "hyp_fz_pnl (persisted env s)
     = (case first_finalization (hy_finalizations s) of None \<Rightarrow> 0 | Some f \<Rightarrow> fz_pnl f)"
  "hyp_fz_trades (persisted env s)
     = (case first_finalization (hy_finalizations s) of None \<Rightarrow> 0 | Some f \<Rightarrow> fz_trade_count f)"
  by (simp_all add: persisted_def first_finalization_def Let_def)

lemma restored_entry_fields:
  assumes "cycles_ok s"
  shows "map_option hpe_owner (restored_entry cfg (persisted env s)) = map_option hpe_owner (hy_entry s)"
    "map_option hpe_side (restored_entry cfg (persisted env s)) = map_option hpe_side (hy_entry s)"
    "map_option (format_cycle_id \<circ> hpe_cycle) (restored_entry cfg (persisted env s))
       = map_option (format_cycle_id \<circ> hpe_cycle) (hy_entry s)"
  using assms
  by (cases "hy_entry s"; simp add: restored_entry_def persisted_def Let_def cycles_ok_def)+

lemma restored_deferred_fields:
  assumes "cycles_ok s"
  shows "restored_deferred_entry (persisted env s) = hy_deferred_entry s"
    "restored_deferred_exit (persisted env s) = hy_deferred_exit s"
  using assms
proof -
  show "restored_deferred_entry (persisted env s) = hy_deferred_entry s"
    using assms by (cases "hy_deferred_entry s") (simp_all add: restored_deferred_entry_def cycles_ok_def)
  show "restored_deferred_exit (persisted env s) = hy_deferred_exit s"
    using assms by (cases "hy_deferred_exit s") (simp_all add: restored_deferred_exit_def cycles_ok_def)
qed

lemma restored_shadow_fields:
  "restored_shadow_position (persisted env s) = hy_shadow_position s"
  "map_option hio_target_price (restored_shadow_open (persisted env s))
     = map_option hio_target_price (hy_shadow_open s)"
  "map_option hio_stop_price (restored_shadow_open (persisted env s))
     = map_option hio_stop_price (hy_shadow_open s)"
  by (cases "hy_shadow_position s"; simp add: restored_shadow_position_def persisted_def Let_def)
    (cases "hy_shadow_open s"; simp add: restored_shadow_open_def persisted_def Let_def)+

lemma restored_finalizations_take:
  assumes "dates_documented env"
  shows "restored_finalizations env (persisted env s) = take 1 (hy_finalizations s)"
  using assms by (cases "hy_finalizations s")
    (simp_all add: restored_finalizations_def persisted_def Let_def dates_documented_def)

lemma restored_cycle:
  "cycles_ok s \<Longrightarrow> Option.bind (map_option format_cycle_id (hy_cycle s)) parse_cycle_id = hy_cycle s"
  by (cases "hy_cycle s") (simp_all add: cycles_ok_def)

definition sample_waiting :: hybrid where
  "sample_waiting = sample_hybrid\<lparr>hy_entry := Some sample_bracket_entry, hy_cycle := Some sample_cycle,
     hy_last_close := Some (Fin 100), hy_last_day := Some 4\<rparr>"

text \<open>C31. A strategy with well-formed cycle ids, whatever strategy object is given the state,
  persists after a restore exactly the state it was restored from, so any further restart changes
  nothing; of the finished sessions only the first comes back. It presupposes that the levels are
  warm when entries are ready (otherwise \<open>set_state\<close> withdraws the readiness), that
  dates are read back from their text, and that the start of the day is a whole second.\<close>

theorem restart_keeps_persisted:
  assumes "dates_documented env" "cycles_ok s"
    and "hy_entry_ready s \<longrightarrow> signals_warmed s"
    and "pred_option ((dvd) ns_per_sec) (bo_today_start (bo_state (or_breakout (hy_orch s))))"
    and "t = hybrid_set_state env (HybridIntradayRuntime (persisted env s)) t0"
  shows "so_state (hybrid_ops env) t = HybridIntradayRuntime (persisted env s)
    \<and> persisted env t = persisted env s \<and> hy_finalizations t = take 1 (hy_finalizations s)"
proof -
  let ?p = "persisted env s"
  let ?r = "restore_fields env ?p t0"
  have ready: "hyp_entry_ready ?p = hy_entry_ready s" "hyp_prev_range ?p = hy_prev_range s"
    "hyp_prev_close ?p = hy_prev_close s"
    by (simp_all add: persisted_def Let_def)
  have warmed: "signals_warmed ?r = signals_warmed s"
    by (simp add: restore_fields_def signals_warmed_def ready Let_def)
  have "signals_warmed (x\<lparr>hy_state := y\<rparr>) = signals_warmed x" for x y by (simp add: signals_warmed_def)
  then have t: "t = ?r\<lparr>hy_state := HybridIntradayRuntime ?p\<rparr>"
    using assms(3,5) warmed ready by (auto simp: hybrid_set_state_def Let_def)
  have orch: "bo_state (or_breakout (hy_orch ?r)) = (bo_state (or_breakout (hy_orch s)))
      \<lparr>bo_cur_day_date := hy_last_day s, bo_cur_day_high := hy_day_high s, bo_cur_day_low := hy_day_low s,
       bo_yesterday_close := hy_prev_close s, bo_yesterday_range := hy_prev_range s\<rparr>"
    "or_armed_date (hy_orch ?r) = or_armed_date (hy_orch s)"
    using assms(1) bind_parsed_dt [OF assms(1,4)]
    by (simp_all add: restore_fields_def restored_orch_def orch_restore_def breakout_restore_def
        orch_snapshot_def Let_def)
  have fzs: "hy_finalizations ?r = take 1 (hy_finalizations s)"
    using restored_finalizations_take [OF assms(1)] by (simp add: restore_fields_def Let_def)
  have "persisted env ?r = ?p"
  proof (rule hybrid_persisted.equality)
    show "hyp_entry_ready (persisted env ?r) = hyp_entry_ready ?p"
      using assms(3) by (auto simp: restore_fields_def signals_warmed_def Let_def)
  qed (use assms(1) restored_cycle [OF assms(2)] orch fzs in
    \<open>simp_all add: restore_fields_def Let_def restored_entry_fields [OF assms(2)]
      restored_deferred_fields [OF assms(2)] restored_shadow_fields
      restored_finalizations_take [OF assms(1)] orch_snapshot_def\<close>)
  then show ?thesis using t restored_finalizations_take [OF assms(1), of s]
    by (simp add: restore_fields_def Let_def)
qed

lemma restart_keeps_persisted_witness:
  "so_state (hybrid_ops sample_hybrid_env) (hybrid_set_state sample_hybrid_env
       (HybridIntradayRuntime (persisted sample_hybrid_env sample_waiting)) sample_hybrid)
     = HybridIntradayRuntime (persisted sample_hybrid_env sample_waiting)
   \<and> persisted sample_hybrid_env (hybrid_set_state sample_hybrid_env
       (HybridIntradayRuntime (persisted sample_hybrid_env sample_waiting)) sample_hybrid)
     = persisted sample_hybrid_env sample_waiting
   \<and> hy_finalizations (hybrid_set_state sample_hybrid_env
       (HybridIntradayRuntime (persisted sample_hybrid_env sample_waiting)) sample_hybrid)
     = take 1 (hy_finalizations sample_waiting)"
  by (rule restart_keeps_persisted)
    (simp_all add: dates_documented_def sample_hybrid_env_def unary_read_back cycles_ok_def
      sample_waiting_def sample_hybrid_def hybrid_new_def orch_new_def breakout_new_def
      breakout_blank_def sample_bracket_entry_def sample_cycle_ok)

section \<open>The bracket of an entry does not\<close>

lemma set_state_fields:
  assumes "t = hybrid_set_state env (HybridIntradayRuntime (persisted env s)) t0"
  shows "hy_entry t = restored_entry (hy_config t0) (persisted env s)" "hy_config t = hy_config t0"
    "hy_last_qty t = hy_last_qty s" "hy_sl_triggered t = hy_sl_triggered s" "has_tp t = has_tp s"
  using assms
  by (simp_all add: hybrid_set_state_def restore_fields_def sync_state_def has_tp_def Let_def)

lemma sync_fields [simp]:
  "hy_take_price (sync_state env s) = hy_take_price s" "hy_stop_price (sync_state env s) = hy_stop_price s"
  "hy_owner (sync_state env s) = hy_owner s" "hy_cycle (sync_state env s) = hy_cycle s"
  "hy_sl_triggered (sync_state env s) = hy_sl_triggered s" "hy_tp_order (sync_state env s) = hy_tp_order s"
  "hy_tp_req (sync_state env s) = hy_tp_req s"
  by (simp_all add: sync_state_def)

lemma complete_fill:
  assumes "hp_symbol pos = hyc_symbol (hy_config t)" "hy_entry t = Some e"
    and "entry_progress_of env (hy_last_qty t) (hp_qty pos) t = Complete"
  shows "hybrid_on_position env ctx pos t =
    (sync_state env ((fst (entry_filled env ctx pos e t))\<lparr>hy_last_qty := hp_qty pos\<rparr>),
     snd (entry_filled env ctx pos e t))"
  using assms by (simp add: hybrid_on_position_def case_prod_unfold Let_def)

text \<open>C34. The prices of a bracket entry on its way are not persisted. When the strategy is restored
  before the fill, the fill asks for no protective order, the position is owned by the mean
  reversion with neither a target nor a stop price, and the repair only enters the safe mode: the
  position stays without protection.\<close>

theorem restart_loses_bracket:
  assumes "hy_entry s = Some e" "hpe_owner e = MeanReversion" "cycle_ok (hpe_cycle e)"
    and "hy_sl_triggered s = None" "\<not> has_tp s"
    and "t = hybrid_set_state env (HybridIntradayRuntime (persisted env s)) t0"
    and "hp_symbol pos = hyc_symbol (hy_config t)"
    and "entry_progress_of env (hy_last_qty t) (hp_qty pos) t = Complete"
    and "hybrid_on_position env ctx pos t = (u, ins)"
    and "is_open (ctx_qty ctx2)"
  shows "ins = [] \<and> hy_owner u = Some MeanReversion \<and> hy_take_price u = None \<and> hy_stop_price u = None
    \<and> emit_repair env ctx2 now u = (enter_safe_mode ''repair_missing_bracket_levels'' u, [])"
proof -
  note t = set_state_fields [OF assms(6)]
  obtain e2 where e2: "hy_entry t = Some e2" "hpe_owner e2 = MeanReversion" "hpe_style e2 = StMarket"
    "hpe_take e2 = None" "hpe_stop e2 = None"
    using assms(1-3) t(1) by (simp add: restored_entry_def)
  have "snd (entry_filled env ctx pos e2 t) = []"
    using e2(3) by (simp add: entry_filled_def emit_mr_bracket_def Let_def)
  then have u: "u = sync_state env ((fst (entry_filled env ctx pos e2 t))\<lparr>hy_last_qty := hp_qty pos\<rparr>)"
    and ins: "ins = []"
    using complete_fill [OF assms(7) e2(1) assms(8)] assms(9) by simp_all
  have f: "hy_owner u = Some MeanReversion" "hy_take_price u = None" "hy_stop_price u = None"
    "hy_cycle u \<noteq> None" "hy_sl_triggered u = None" "\<not> has_tp u"
    unfolding u using e2 t(4,5) assms(4,5)
    by (simp_all add: entry_filled_def emit_mr_bracket_def has_tp_def Let_def)
  have "\<not> is_flat (ctx_qty ctx2)" using assms(10) by (auto simp: is_open_def is_flat_def less_f64_def)
  then have "emit_repair env ctx2 now u = (enter_safe_mode ''repair_missing_bracket_levels'' u, [])"
    using f by (auto simp: emit_repair_def Let_def)
  with f ins show ?thesis by simp
qed

definition sample_restored :: hybrid where
  "sample_restored = hybrid_set_state sample_hybrid_env
     (HybridIntradayRuntime (persisted sample_hybrid_env sample_waiting)) sample_hybrid"

lemma sample_waiting_fields:
  "hy_entry sample_waiting = Some sample_bracket_entry" "hy_last_qty sample_waiting = 0"
  "hy_sl_triggered sample_waiting = None" "\<not> has_tp sample_waiting"
  "hy_config sample_hybrid = sample_hybrid_config"
  by (simp_all add: sample_waiting_def sample_hybrid_def hybrid_new_def has_tp_def)

lemma sample_restored_fields:
  "hy_entry sample_restored = Some (sample_bracket_entry\<lparr>hpe_style := StMarket, hpe_take := None, hpe_stop := None\<rparr>)"
  "hy_last_qty sample_restored = 0" "hyc_symbol (hy_config sample_restored) = ''IMOEXF''"
  using set_state_fields(1-3) [OF sample_restored_def] sample_cycle_ok
  by (simp_all add: sample_waiting_fields restored_entry_def f_max_def sample_hybrid_config_def
      sample_bracket_entry_def one_f64_def)

lemma restart_loses_bracket_witness:
  "snd (hybrid_on_position sample_hybrid_env sample_ctx sample_fill_event sample_restored) = []
   \<and> hy_owner (fst (hybrid_on_position sample_hybrid_env sample_ctx sample_fill_event sample_restored))
       = Some MeanReversion
   \<and> emit_repair sample_hybrid_env (sample_ctx\<lparr>cx_position_qty := Some (Fin 1)\<rparr>) 120
       (fst (hybrid_on_position sample_hybrid_env sample_ctx sample_fill_event sample_restored))
     = (enter_safe_mode ''repair_missing_bracket_levels''
         (fst (hybrid_on_position sample_hybrid_env sample_ctx sample_fill_event sample_restored)), [])"
proof -
  have "\<bar>0::f64\<bar> = Fin 0" by (simp add: zero_f64_def)
  then have "entry_progress_of sample_hybrid_env (hy_last_qty sample_restored) (hp_qty sample_fill_event) sample_restored
      = Complete"
    by (simp add: entry_progress_of_def sample_restored_fields sample_fill_event_def
        sample_bracket_entry_def partial_progress_valid_def waits_for_partial_def expected_entry_qty_def
        is_open_def f64_epsilon_def Let_def)
  moreover have "is_open (ctx_qty (sample_ctx\<lparr>cx_position_qty := Some (Fin 1)\<rparr>))"
    by (simp add: ctx_qty_def is_open_def f64_epsilon_def or_else_def)
  ultimately show ?thesis
    using restart_loses_bracket [where pos = sample_fill_event and ctx = sample_ctx, OF sample_waiting_fields(1) _ _
        sample_waiting_fields(3,4) sample_restored_def _ _ surjective_pairing]
    by (simp add: sample_restored_fields(3) sample_fill_event_def sample_bracket_entry_def sample_cycle_ok)
qed

end
