(* ===== verification/Spec2Isabelle.thy ===== *)
theory Spec2Isabelle
  imports Supervisor Router Command_Consumer Runtime_Bootstrap Hybrid_Limits Hybrid_Restart
begin

text \<open>
  A verification development for the Rust workspace \<open>alor-rs-main\<close>: the trading gateway
  \<open>alor-gateway\<close>, its wire protocol \<open>alor-protocol\<close>, the shared types of \<open>alor-types\<close> and the
  process that runs a strategy, \<open>strategy-runtime\<close>.

  The program. The gateway keeps a WebSocket connection to the broker. \<open>ws_hub.rs\<close> turns it
  into events; the supervisor (\<open>supervisor.rs\<close>) hands raw messages to the router
  (\<open>router.rs\<close>), which parses them and holds every live bar back until the next one; bars
  come back to the supervisor's bar task, which validates, orders and emits them, holds live
  bars during a gap and decides when the gateway is live; positions, orders and stop orders
  go through the managers of \<open>state/\<close>. Strategies send commands over Redis; the command
  consumer (\<open>services/command_consumer.rs\<close>) filters duplicates, validates, sends to the broker
  and acknowledges. A strategy is an object behind the trait of \<open>strategy_host.rs\<close>; the runtime
  (\<open>runtime.rs\<close>) starts it from snapshots and its persisted state, calls it with bars,
  acknowledgements, orders, positions and a timer, and turns its intents into commands after
  the trading window and the live guard (\<open>live_guard.rs\<close>) have let them through. Trades go to
  the ledger (\<open>trade_ledger.rs\<close>); in paper and backtest mode a simulator fills the orders.

  Theories, in dependency order.
  \<^item> \<open>Prelude\<close>: integer types of the code (\<open>i64\<close> and \<open>u64\<close> as integers with the saturating
    and wrapping operations written out), result values, JSON values, list and map lemmas.
  \<^item> \<open>F64\<close>: IEEE binary64 as sign, mantissa and exponent, with correctly rounded operations,
    comparisons, floor, ceil and round, as Rust's \<open>f64\<close> computes them.
  \<^item> \<open>Chrono\<close>: the part of the \<open>chrono\<close> crate the code uses; what timestamps it accepts is a
    parameter with named hypotheses and an example instance.
  \<^item> \<open>Scheduler\<close> (\<open>alor-types/src/scheduler.rs\<close>): market state at a local time and at a
    timestamp, and the silence check.
  \<^item> \<open>Protocol\<close> (\<open>alor-protocol/src/lib.rs\<close>): commands, acknowledgements and events, and the
    tolerant reader of stop-limit conditions.
  \<^item> \<open>Gateway_Models\<close> (\<open>models.rs\<close>, \<open>alor-types/src/strategy.rs\<close>): event records.
  \<^item> \<open>Data_Quality\<close> (\<open>data_quality.rs\<close>): the bar validator, with its reference definition, and
    the counters.
  \<^item> \<open>Router\<close> (\<open>router.rs\<close>): parsers of all messages and the routing task.
  \<^item> \<open>State_Managers\<close> (\<open>state/*.rs\<close>): the three stores. The locale \<open>event_store\<close> says what a
    store promises, \<open>last_writer_store\<close> and \<open>ordered_store\<close> extend it; each is interpreted on the
    code's managers.
  \<^item> \<open>Bar_Pipeline\<close> and \<open>Supervisor\<close> (\<open>supervisor.rs\<close>, \<open>health.rs\<close>, the events of
    \<open>ws_hub.rs\<close>): \<open>gateway\<close> is the state the tasks share; \<open>bar_step\<close> is one iteration of the
    bar task, \<open>ws_event_step\<close> of the WebSocket event task, \<open>tick_step\<close> of the ticker;
    \<open>gw_step\<close> is any of them, so a list of inputs is an interleaving of the tasks.
  \<^item> \<open>Normalize\<close>, \<open>Idempotency\<close>, \<open>Command_Consumer\<close> (\<open>services/command_consumer.rs\<close>,
    \<open>cws_client.rs\<close> for the request and response types, \<open>config.rs\<close>): rounding to the price
    and volume grid, the store of seen ids with its locale \<open>idempotency\<close>, and a command from
    arrival to acknowledgement as a state change and a list of \<open>effect\<close>s.
  \<^item> \<open>Strategy_Host\<close> (\<open>strategy_host.rs\<close>, the ids of \<open>lib.rs\<close>): the trait as the record
    \<open>strategy_ops\<close> with its default methods, intents and contexts. The locale
    \<open>strategy_object\<close> says that the state can be read back after it was set; it is interpreted
    on \<open>market_buy_and_close\<close> and \<open>limit_cancel\<close>.
  \<^item> \<open>Live_Guard\<close>, \<open>Strategy_State\<close> (\<open>state.rs\<close>), \<open>Limit_Cancel\<close>, \<open>Market_Close\<close> (\<open>strategies/\<close>):
    the guard, the state machine's states, and two strategies with their moves as step
    relations (\<open>lc_moves\<close>, \<open>mc_moves\<close>).
  \<^item> \<open>Trade_Ledger\<close> (\<open>trade_ledger.rs\<close>): fills, closed trades, summary and report.
  \<^item> \<open>Runtime_State\<close>, \<open>Intent_Dispatch\<close>, \<open>Trade_Tracking\<close>, \<open>Paper_Sim\<close>, \<open>Runtime_Events\<close>,
    \<open>Runtime_Bootstrap\<close> (\<open>runtime.rs\<close>): the state of the loop with a log of what was written
    (\<open>rt_effect\<close>); a batch of intents up to the published commands; trades and the orders they
    belong to; the simulator; the handler of every message, a poll and a run of messages; the
    start. \<open>Dispatch_Safety\<close>, \<open>Request_Ids\<close> and \<open>Runtime_Safety\<close> hold what is proved about them.
    The locale \<open>quiet_relation\<close> of \<open>Runtime_Safety\<close> lifts a relation that every handler respects
    to a run; it is interpreted for readiness, for the bars and for the snapshots.
  \<^item> \<open>Hybrid_Signals\<close>, \<open>Hybrid_Orchestrator\<close> (\<open>strategies/hybrid_intraday/\<close>): the mean-reversion,
    midpoint and breakout engines, and the orchestrator that chooses between them, remembers who
    owns the position and arms the overnight exit.
  \<^item> \<open>Risk_Gate\<close>, \<open>Risk_Gate_Codec\<close>, \<open>Risk_Gate_Store\<close>, \<open>Risk_Gate_Ledger\<close>,
    \<open>Risk_Gate_Runtime\<close> (\<open>hybrid_intraday/risk_gate.rs\<close>, \<open>risk_gate_store.rs\<close>, the session script of
    \<open>redis_transport.rs\<close>, the flush of \<open>runtime.rs\<close>): the ledger of sessions and its decision, the
    text form of records, the calls to Redis with their failures, and the acknowledgement of
    finished sessions. Redis is a parameter with the documented effect of each command.
  \<^item> \<open>Hybrid_Tags\<close>, \<open>Hybrid_Runtime_State\<close>, \<open>Hybrid_Runtime_Ops\<close>, \<open>Hybrid_Runtime\<close>
    (\<open>strategies/hybrid_intraday_runtime.rs\<close>): the strategy that drives these engines with real
    orders. The marks it writes into the comments of its orders; its configuration, its fields
    (\<open>hybrid\<close>) and the persisted state in both directions; filters, prices, brackets, emergency
    exits and the translation of actions into intents; and every method of the trait, collected in
    \<open>hybrid_ops\<close>. \<open>Hybrid_Runs\<close> (any sequence of calls), \<open>Hybrid_Orders\<close>, \<open>Hybrid_Limits\<close> and
    \<open>Hybrid_Restart\<close> hold what is proved about it.

  What the lemmas show. In \<open>Bar_Pipeline\<close> and \<open>Supervisor\<close>: the invariants \<open>in_order\<close> (the bars
  of a symbol leave in strictly increasing order) and \<open>accounted\<close> (a received bar is emitted,
  dropped or held) over any interleaving, the conditions of the phase changes, the guard on
  connection generations, and the backfill plan. In \<open>Router\<close>: the hold-back invariant and the
  disjointness of the parsers' outputs. In \<open>Command_Consumer\<close>: which commands reach the broker,
  that every command is acknowledged once and in which status, that the counters add up, and,
  from the locale \<open>idempotency\<close>, that a request is sent at most once. In \<open>Normalize\<close>: rounding is
  exact for whole steps, and a concrete on-grid price that it moves. In the strategies: at most
  one order and one cancel, at most one exit, progress within the configured number of bars, and
  when a pending order is given up. In the ledger: the position is the sum of the fills, and the
  report can be written again over itself. In the runtime: which commands leave it and what an
  entry presupposes, that a refused batch is undone, that accepted trades are neither lost nor
  counted twice, that bars reach the strategy in order, that what is persisted is the state of
  the strategy, and what a restart knows. \<open>Request_Ids\<close> composes strategy, runtime and consumer:
  when the id a strategy waits for is the id of the command, and that of two cancels of a batch
  the second is never sent. In the hybrid engines: when an entry can arise and who owns a position.
  In the hybrid strategy: under which conditions an entry leaves it, that a closed gate holds the
  reversal entries back, that the bracket of an entry follows its fill, how long a stop lives, that
  finished sessions are handed over in order and do not come back, what a restart keeps, and two
  weaknesses: a bracket entry restored before its fill gets no bracket, and a forced exit is asked
  for again on every bar. In the risk gate: the ledger only grows at its end, text and store round trips, and that a
  session is acknowledged only after it was written.

  Bounds and fuel. The loops of the code end on their lists; the two loops that count are
  recursions over the count of the source, 240 attempts of the wait for readiness and 8 days of
  the search for the close that ends a stop (of which \<open>stop_kept_to_next_close\<close> shows four to be
  enough), so no fuel is added. Integers
  are unbounded and every cast, saturating operation and wrap-around of the source is written
  at its width; a plain addition that would overflow panics in a debug build and is either
  shown not to or listed where it occurs.

  Parameters. The clock, \<open>Uuid::new_v4\<close> and \<open>new_v5\<close>, the number and text conversions of
  \<open>serde_json\<close>, what \<open>chrono\<close> accepts, the answers of the broker and whether a channel or
  Redis write succeeds are arguments of the definitions that use them. The runtime takes them
  in the record \<open>rt_env\<close>, one for each message, with the order in which a hash map lists its keys
  and the text of a float; the hybrid strategy has its own, \<open>hybrid_env\<close>, with the order in which its
  hash sets are listed, the clock it reads itself and the text forms of dates.

  For which strategies. The theorems on the runtime hold for any strategy behind the trait, with
  exceptions that their statements show. \<open>persisted_state_agrees\<close> and \<open>dropped_batch_undone\<close>
  are for strategies that give back the state they are set to. \<open>market_buy_and_close\<close> and
  \<open>limit_cancel\<close> do so for any state, which is the locale \<open>strategy_object\<close>; the hybrid strategy
  does not for any, since its \<open>set_state\<close> withdraws the readiness for entries when the levels are not
  warm and then writes its state anew, so the locale is not interpreted on it and
  \<open>restart_keeps_persisted\<close> says for which states it gives them back.
  \<open>restart_knows_command\<close> and \<open>market_close_ids_agree\<close> are about \<open>market_buy_and_close\<close>.

  Not modelled. Sockets, Redis and HTTP, configuration parsing, the command-line tools and the
  offline collectors, which are input and output around the modelled tasks. Of the runtime: the
  observation journal, log and audit records, replay files and their parity report. Of the hybrid
  strategy: its log output. The strategies \<open>alor_usdrubf_hybrid.rs\<close>, \<open>session_gap_standalone.rs\<close>,
  \<open>ri_author41_42_live.rs\<close> and \<open>moex_author41_42.rs\<close>, which meet the runtime only through the
  modelled trait; the state setters of the first and the third do more than store the state, so
  the two theorems that ask for it to be given back need not apply to them.
\<close>

end
